(* ===== verification/JsText.thy ===== *)
theory JsText
  imports Main "HOL-Library.Sublist"
begin

text \<open>
  The prelude. JavaScript strings are modelled as HOL strings, one \<open>char\<close> per code unit; the
  sources use no code unit above 255 except four typographic ones in messages (the bullet of the
  masks, the two dashes and an ellipsis), which are written with their Windows-1252 byte.
  This theory holds the string operations the sources call (trim, toLowerCase, split, join,
  startsWith, the decimal rendering of an integer), the regular expressions they test as
  executable predicates, the truthiness of a nullable string, and the generic lemmas on them.
\<close>

named_theorems js_text \<open>unfoldings of the string operations, for evaluating concrete inputs\<close>

subsection \<open>Code units\<close>

definition code_unit :: "char \<Rightarrow> nat" where
  "code_unit c = of_char c"

definition is_upper :: "char \<Rightarrow> bool" where
  "is_upper c = (65 \<le> code_unit c \<and> code_unit c \<le> 90)"

definition is_lower :: "char \<Rightarrow> bool" where
  "is_lower c = (97 \<le> code_unit c \<and> code_unit c \<le> 122)"

definition is_digit :: "char \<Rightarrow> bool" where
  "is_digit c = (48 \<le> code_unit c \<and> code_unit c \<le> 57)"

definition is_alpha :: "char \<Rightarrow> bool" where
  "is_alpha c = (is_upper c \<or> is_lower c)"

definition is_hex_digit :: "char \<Rightarrow> bool" where
  "is_hex_digit c = (is_digit c \<or> 97 \<le> code_unit c \<and> code_unit c \<le> 102
                                \<or> 65 \<le> code_unit c \<and> code_unit c \<le> 70)"

definition lower_char :: "char \<Rightarrow> char" where
  "lower_char c = (if is_upper c then char_of (code_unit c + 32) else c)"

definition upper_char :: "char \<Rightarrow> char" where
  "upper_char c = (if is_lower c then char_of (code_unit c - 32) else c)"

text \<open>The white space and line terminators that \<open>trim\<close> and \<open>\s\<close> remove, below 256.\<close>

definition is_space :: "char \<Rightarrow> bool" where
  "is_space c = (code_unit c \<in> {9, 10, 11, 12, 13, 32, 160})"

definition bullet :: char where
  "bullet = CHR 0x95"

definition em_dash :: char where
  "em_dash = CHR 0x97"

definition ellipsis :: char where
  "ellipsis = CHR 0x85"

definition en_dash :: char where
  "en_dash = CHR 0x96"

definition newline :: char where
  "newline = CHR 0x0A"

subsection \<open>String operations\<close>

definition to_lower :: "string \<Rightarrow> string" where
  "to_lower s = map lower_char s"

definition to_upper :: "string \<Rightarrow> string" where
  "to_upper s = map upper_char s"

definition trim_start :: "string \<Rightarrow> string" where
  "trim_start s = dropWhile is_space s"

definition trim_end :: "string \<Rightarrow> string" where
  "trim_end s = rev (dropWhile is_space (rev s))"

definition trim :: "string \<Rightarrow> string" where
  "trim s = trim_end (trim_start s)"

definition starts_with :: "string \<Rightarrow> string \<Rightarrow> bool" where
  "starts_with p s = prefix p s"

text \<open>\<open>s.replace(/\/+$/, "")\<close>\<close>

definition strip_trailing_slashes :: "string \<Rightarrow> string" where
  "strip_trailing_slashes s = rev (dropWhile (\<lambda>c. c = CHR ''/'') (rev s))"

text \<open>\<open>s.split(c)\<close> for a one-character separator; the result is never empty.\<close>

fun split_on :: "char \<Rightarrow> string \<Rightarrow> string list" where
  "split_on c [] = [[]]"
| "split_on c (x # xs) =
     (if x = c then [] # split_on c xs
      else (case split_on c xs of [] \<Rightarrow> [[x]] | w # ws \<Rightarrow> (x # w) # ws))"

text \<open>\<open>parts.join(sep)\<close>\<close>

fun join_with :: "string \<Rightarrow> string list \<Rightarrow> string" where
  "join_with sep [] = []"
| "join_with sep [w] = w"
| "join_with sep (w # v # ws) = w @ sep @ join_with sep (v # ws)"

text \<open>\<open>s.includes(p)\<close>\<close>

fun text_includes :: "string \<Rightarrow> string \<Rightarrow> bool" where
  "text_includes p [] = (p = [])"
| "text_includes p (c # cs) = (starts_with p (c # cs) \<or> text_includes p cs)"

text \<open>\<open>s.slice(-n)\<close> for \<open>n > 0\<close>\<close>

definition slice_last :: "nat \<Rightarrow> string \<Rightarrow> string" where
  "slice_last n s = drop (length s - n) s"

text \<open>\<open>s.indexOf(c)\<close>, with \<open>None\<close> for -1\<close>

fun index_of :: "char \<Rightarrow> string \<Rightarrow> nat option" where
  "index_of c [] = None"
| "index_of c (x # xs) = (if x = c then Some 0 else map_option Suc (index_of c xs))"

text \<open>\<open>encodeURIComponent\<close>: unreserved code units stay, the others are their UTF-8 bytes in hex.\<close>

definition uri_unreserved :: "char \<Rightarrow> bool" where
  "uri_unreserved c = (is_alpha c \<or> is_digit c \<or> c \<in> set ''-_.!~*'' \<or> code_unit c \<in> {39, 40, 41})"

definition upper_hex :: "nat \<Rightarrow> char" where
  "upper_hex d = (if d < 10 then char_of (48 + d) else char_of (55 + d))"

definition percent_byte :: "nat \<Rightarrow> string" where
  "percent_byte b = [CHR ''%'', upper_hex (b div 16), upper_hex (b mod 16)]"

definition uri_char :: "char \<Rightarrow> string" where
  "uri_char c =
    (if uri_unreserved c then [c]
     else if code_unit c < 128 then percent_byte (code_unit c)
     else percent_byte (192 + code_unit c div 64) @ percent_byte (128 + code_unit c mod 64))"

definition encode_uri_component :: "string \<Rightarrow> string" where
  "encode_uri_component s = concat (map uri_char s)"

subsection \<open>Numbers as text\<close>

definition digit_char :: "nat \<Rightarrow> char" where
  "digit_char d = char_of (48 + d)"

fun show_nat :: "nat \<Rightarrow> string" where
  "show_nat n = (if n < 10 then [digit_char n] else show_nat (n div 10) @ [digit_char (n mod 10)])"

declare show_nat.simps [simp del]

definition show_int :: "int \<Rightarrow> string" where
  "show_int i = (if i < 0 then CHR ''-'' # show_nat (nat (- i)) else show_nat (nat i))"

subsection \<open>Nullable strings\<close>

text \<open>JavaScript's truthiness of \<open>string | null | undefined\<close>: neither absent nor empty.\<close>

fun truthy :: "string option \<Rightarrow> bool" where
  "truthy None = False"
| "truthy (Some s) = (s \<noteq> [])"

text \<open>\<open>a ?? b\<close>\<close>

fun nullish :: "'a option \<Rightarrow> 'a \<Rightarrow> 'a" where
  "nullish None d = d"
| "nullish (Some x) d = x"

subsection \<open>Regular expressions of the sources\<close>

text \<open>\<open>/^0x[a-fA-F0-9]{40}$/\<close> and \<open>/^0x[a-fA-F0-9]{64}$/\<close>\<close>

definition is_hex_string :: "nat \<Rightarrow> string \<Rightarrow> bool" where
  "is_hex_string n s = (starts_with ''0x'' s \<and> length s = n + 2 \<and> list_all is_hex_digit (drop 2 s))"

abbreviation is_address :: "string \<Rightarrow> bool" where
  "is_address \<equiv> is_hex_string 40"

abbreviation is_tx_hash :: "string \<Rightarrow> bool" where
  "is_tx_hash \<equiv> is_hex_string 64"

text \<open>\<open>/^[a-z0-9][a-z0-9-]*[a-z0-9]$/\<close>\<close>

definition slug_char :: "char \<Rightarrow> bool" where
  "slug_char c = (is_lower c \<or> is_digit c)"

definition is_slug_text :: "string \<Rightarrow> bool" where
  "is_slug_text s =
     (2 \<le> length s \<and> slug_char (hd s) \<and> slug_char (last s)
      \<and> list_all (\<lambda>c. slug_char c \<or> c = CHR ''-'') s)"

lemmas [js_text] =
  code_unit_def is_upper_def is_lower_def is_digit_def is_alpha_def is_hex_digit_def
  lower_char_def upper_char_def is_space_def to_lower_def to_upper_def trim_start_def trim_end_def
  trim_def starts_with_def strip_trailing_slashes_def slice_last_def digit_char_def show_int_def
  is_hex_string_def slug_char_def is_slug_text_def bullet_def em_dash_def newline_def

subsection \<open>Generic lemmas\<close>

lemma filter_singletonD: "filter p xs = [x] \<Longrightarrow> x \<in> set xs \<and> p x"
  by (metis filter_set list.set_intros(1) mem_Collect_eq Set.filter_eq)

lemma code_unit_char_of: "n < 256 \<Longrightarrow> code_unit (char_of n) = n"
  by (simp add: code_unit_def)

lemma code_unit_inj: "code_unit c = code_unit d \<Longrightarrow> c = d"
  by (simp add: code_unit_def)

lemma lower_char_idem [simp]: "lower_char (lower_char c) = lower_char c"
  by (auto simp: lower_char_def is_upper_def code_unit_char_of)

lemma to_lower_idem [simp]: "to_lower (to_lower s) = to_lower s"
  by (simp add: to_lower_def)

lemma length_to_lower [simp]: "length (to_lower s) = length s"
  by (simp add: to_lower_def)

lemma to_lower_Nil_iff [simp]: "to_lower s = [] \<longleftrightarrow> s = []"
  by (simp add: to_lower_def)

lemma trim_Nil [simp]: "trim [] = []"
  by (simp add: trim_def trim_end_def trim_start_def)

lemma dropWhile_rev_idem:
  "dropWhile P (rev (dropWhile P (rev (dropWhile P xs)))) = rev (dropWhile P (rev (dropWhile P xs)))"
proof -
  define ys where "ys = dropWhile P xs"
  have hd: "ys = [] \<or> \<not> P (hd ys)"
    using hd_dropWhile[of P xs] by (auto simp: ys_def)
  have "prefix (rev (dropWhile P (rev ys))) ys"
    using suffix_dropWhile[of P "rev ys"] by (simp add: suffix_to_prefix)
  then obtain zs where zs: "ys = rev (dropWhile P (rev ys)) @ zs"
    by (auto simp: prefix_def)
  show ?thesis
  proof (cases "rev (dropWhile P (rev ys))")
    case Nil
    then show ?thesis by (simp only: ys_def [symmetric] Nil dropWhile.simps)
  next
    case (Cons a as)
    with zs hd have "\<not> P a" by (metis append_Cons list.distinct(1) list.sel(1))
    with Cons show ?thesis by (simp add: ys_def)
  qed
qed

lemma trim_idem [simp]: "trim (trim s) = trim s"
  unfolding trim_def trim_start_def trim_end_def dropWhile_rev_idem
  by (simp add: dropWhile_idem)

lemma trim_no_space:
  assumes "s = [] \<or> \<not> is_space (hd s) \<and> \<not> is_space (last s)"
  shows "trim s = s"
proof (cases "s = []")
  case False
  with assms have "dropWhile is_space s = s" "dropWhile is_space (rev s) = rev s"
    by (auto simp: dropWhile_eq_self_iff hd_rev)
  then show ?thesis by (simp add: trim_def trim_start_def trim_end_def)
qed simp

lemma split_on_not_Nil [simp]: "split_on c s \<noteq> []"
  by (induction s) (auto split: list.splits)

lemma split_on_no_sep: "c \<notin> set s \<Longrightarrow> split_on c s = [s]"
  by (induction s) auto

lemma split_on_append:
  "c \<notin> set w \<Longrightarrow> split_on c (w @ c # s) = w # split_on c s"
  by (induction w) auto

lemma split_join:
  assumes "ws \<noteq> []" and "\<forall>w \<in> set ws. c \<notin> set w"
  shows "split_on c (join_with [c] ws) = ws"
  using assms
proof (induction "[c]" ws rule: join_with.induct)
  case (3 w v ws)
  then show ?case by (simp add: split_on_append)
qed (auto simp: split_on_no_sep)

lemma index_of_append_notin: "c \<notin> set xs \<Longrightarrow> index_of c (xs @ c # ys) = Some (length xs)"
  by (induction xs) auto

lemma index_of_None_iff: "index_of c xs = None \<longleftrightarrow> c \<notin> set xs"
  by (induction xs) auto

lemma index_of_SomeD: "index_of c xs = Some n \<Longrightarrow> n < length xs \<and> xs ! n = c \<and> c \<notin> set (take n xs)"
  by (induction xs arbitrary: n) (auto split: if_splits)

lemma truthy_iff: "truthy x \<longleftrightarrow> (\<exists>s. x = Some s \<and> s \<noteq> [])"
  by (cases x) auto

lemma digit_char_digit: "d < 10 \<Longrightarrow> is_digit (digit_char d)"
  by (simp add: digit_char_def is_digit_def code_unit_char_of)

lemma show_nat_digits: "\<forall>c \<in> set (show_nat n). is_digit c"
proof (induction n rule: show_nat.induct)
  case (1 n)
  then show ?case
    by (subst show_nat.simps) (auto simp: digit_char_digit)
qed

lemma show_nat_not_Nil [simp]: "show_nat n \<noteq> []"
  by (subst show_nat.simps) simp

lemma show_int_not_Nil [simp]: "show_int i \<noteq> []"
  by (simp add: show_int_def)

lemma is_digit_not_space: "is_digit c \<Longrightarrow> \<not> is_space c"
  by (auto simp: is_digit_def is_space_def)

lemma show_int_chars: "c \<in> set (show_int i) \<Longrightarrow> is_digit c \<or> c = CHR ''-''"
  using show_nat_digits by (auto simp: show_int_def split: if_splits)

lemma show_int_no_space: "c \<in> set (show_int i) \<Longrightarrow> \<not> is_space c"
  using show_int_chars[of c i] is_digit_not_space
  by (auto simp: is_space_def code_unit_def)

end
