(* ===== verification/Outcome.thy ===== *)
theory Outcome
  imports JsText
begin

text \<open>
  Values and failures shared by every component. A JSON value is a datatype (objects are
  association lists in property order; a number that is not an integer is kept as the text
  JavaScript prints for it). An exception is a value of \<open>exn\<close>: the API errors of
  \<open>lib/http.ts\<close>, the registry failure of \<open>lib/applications.ts\<close>, zod's validation error,
  the portal's configuration error, any other \<open>Error\<close>, and a thrown value that is no
  \<open>Error\<close>. A computation that may throw returns \<open>exn + 'a\<close>; \<open>bind_res\<close> sequences two of
  them, and the collection \<open>res_iff\<close> turns a successful sequence into the results of its parts.
\<close>

named_theorems res_iff \<open>when a sequence of fallible computations returns a value\<close>

subsection \<open>JSON\<close>

datatype json =
    JNull
  | JBool bool
  | JNum int
  | JReal string
  | JStr string
  | JArr "json list"
  | JObj "(string \<times> json) list"

fun obj_get :: "json \<Rightarrow> string \<Rightarrow> json option" where
  "obj_get (JObj ps) k = map_of ps k"
| "obj_get _ k = None"

fun obj_keys :: "json \<Rightarrow> string list" where
  "obj_keys (JObj ps) = List.map fst ps"
| "obj_keys _ = []"

fun jnullable :: "string option \<Rightarrow> json" where
  "jnullable None = JNull"
| "jnullable (Some s) = JStr s"

fun jnullable_int :: "int option \<Rightarrow> json" where
  "jnullable_int None = JNull"
| "jnullable_int (Some i) = JNum i"

fun jnullable_bool :: "bool option \<Rightarrow> json" where
  "jnullable_bool None = JNull"
| "jnullable_bool (Some b) = JBool b"

text \<open>Every key of a JSON value, at any depth.\<close>

fun all_keys :: "json \<Rightarrow> string set" where
  "all_keys (JObj ps) = (\<Union>(k, v) \<in> set ps. insert k (all_keys v))"
| "all_keys (JArr vs) = (\<Union>v \<in> set vs. all_keys v)"
| "all_keys _ = {}"

subsection \<open>Exceptions\<close>

record issue =
  issue_path :: string
  issue_message :: string

datatype exn =
    ApiError int string "string option"
  | RegistryUnavailable string
  | ZodFailure "issue list"
  | ConfigFailure string
  | JsError string
  | NotAnError

text \<open>\<open>error instanceof Error ? error.message : ...\<close>\<close>

fun exn_message :: "exn \<Rightarrow> string option" where
  "exn_message (ApiError _ m _) = Some m"
| "exn_message (RegistryUnavailable m) = Some m"
| "exn_message (ZodFailure _) = Some ''validation''"
| "exn_message (ConfigFailure m) = Some m"
| "exn_message (JsError m) = Some m"
| "exn_message NotAnError = None"

definition unauthorized :: "exn" where
  "unauthorized = ApiError 401 ''Sign in required'' (Some ''UNAUTHORIZED'')"

definition forbidden :: "string \<Rightarrow> exn" where
  "forbidden msg = ApiError 403 msg (Some ''FORBIDDEN'')"

definition not_found :: "string \<Rightarrow> exn" where
  "not_found msg = ApiError 404 msg (Some ''NOT_FOUND'')"

definition bad_request :: "string \<Rightarrow> exn" where
  "bad_request msg = ApiError 400 msg (Some ''BAD_REQUEST'')"

definition conflict :: "string \<Rightarrow> exn" where
  "conflict msg = ApiError 409 msg (Some ''CONFLICT'')"

lemmas api_errors = unauthorized_def forbidden_def not_found_def bad_request_def conflict_def

subsection \<open>Sequencing\<close>

fun bind_res :: "exn + 'a \<Rightarrow> ('a \<Rightarrow> exn + 'b) \<Rightarrow> exn + 'b" where
  "bind_res (Inl e) f = Inl e"
| "bind_res (Inr x) f = f x"

text \<open>\<open>Promise.all(xs.map(f))\<close>: all the results in order, or a rejection.\<close>

fun map_res :: "('a \<Rightarrow> exn + 'b) \<Rightarrow> 'a list \<Rightarrow> exn + 'b list" where
  "map_res f [] = Inr []"
| "map_res f (x # xs) = bind_res (f x) (\<lambda>y. bind_res (map_res f xs) (\<lambda>ys. Inr (y # ys)))"

lemma bind_res_Inr_iff [res_iff]: "bind_res m f = Inr y \<longleftrightarrow> (\<exists>x. m = Inr x \<and> f x = Inr y)"
  by (cases m) auto

lemma bind_res_Inl_iff: "bind_res m f = Inl e \<longleftrightarrow> m = Inl e \<or> (\<exists>x. m = Inr x \<and> f x = Inl e)"
  by (cases m) auto

lemma bind_res_split:
  "P (bind_res m f) \<longleftrightarrow> (\<forall>e. m = Inl e \<longrightarrow> P (Inl e)) \<and> (\<forall>x. m = Inr x \<longrightarrow> P (f x))"
  by (cases m) auto

lemma map_res_Inr_iff [res_iff]: "map_res f xs = Inr ys \<longleftrightarrow> list_all2 (\<lambda>x y. f x = Inr y) xs ys"
  by (induction xs arbitrary: ys) (auto simp: list_all2_Cons1 bind_res_Inr_iff)

lemma map_res_all_Inr: "(\<And>x. x \<in> set xs \<Longrightarrow> f x = Inr (g x)) \<Longrightarrow> map_res f xs = Inr (map g xs)"
  by (induction xs) auto

lemma map_res_Inl: "x \<in> set xs \<Longrightarrow> f x = Inl e \<Longrightarrow> \<exists>e'. map_res f xs = Inl e'"
  by (induction xs) (auto simp: bind_res_Inl_iff, (metis bind_res.simps obj_sumE)+)

end
