(* ===== verification/Callback.thy ===== *)
theory Callback
  imports Outcome
begin

text \<open>
  \<open>apps/platform/lib/callback-allowlist.ts\<close>: which \<open>redirect_uri\<close> may receive an authorization
  code, which URL may be registered, and the redirect that is built. The URL parser behind
  \<open>new URL(...)\<close> is the platform's, so it is a parameter \<open>parse\<close> of the definitions: \<open>None\<close> is a
  parser that throws. A parsed URL is the record of the components the code reads and assigns.
\<close>

subsection \<open>URLs\<close>

record url =
  u_protocol :: string
  u_username :: string
  u_password :: string
  u_hostname :: string
  u_port :: string
  u_pathname :: string
  u_search :: string
  u_hash :: string

type_synonym url_parser = "string \<Rightarrow> url option"

definition u_host :: "url \<Rightarrow> string" where
  "u_host u = (if u_port u = [] then u_hostname u else u_hostname u @ '':'' @ u_port u)"

subsection \<open>Modes, rejections and results\<close>

datatype callback_mode = Development | Production

datatype callback_rejection =
    UNKNOWN_APP
  | APPLICATION_REVOKED
  | MISSING_URI
  | MALFORMED_URI
  | UNSUPPORTED_SCHEME
  | INSECURE_SCHEME
  | LOCALHOST_NOT_ALLOWED
  | NO_CALLBACK_REGISTERED
  | CALLBACK_NOT_REGISTERED
  | CALLBACK_HAS_PARAMETERS
  | CALLBACK_TOO_LONG

datatype callback_check =
    CallbackOk string string   \<comment> \<open>normalized, registered\<close>
  | CallbackNo callback_rejection

record callback_subject =
  cs_status :: "string option"
  cs_callbacks :: "string list"

definition MAX_CALLBACK_LENGTH :: nat where
  "MAX_CALLBACK_LENGTH = 2048"

definition LOOPBACK_HOSTS :: "string list" where
  "LOOPBACK_HOSTS = [''localhost'', ''127.0.0.1'', ''::1'', ''[::1]'', ''0.0.0.0'']"

text \<open>\<open>callbackMode\<close>, from the value of \<open>NODE_ENV\<close>\<close>

definition callback_mode_of :: "string option \<Rightarrow> callback_mode" where
  "callback_mode_of node_env = (if node_env = Some ''production'' then Production else Development)"

text \<open>\<open>/^127\.\d{1,3}\.\d{1,3}\.\d{1,3}$/\<close>\<close>

definition octet_text :: "string \<Rightarrow> bool" where
  "octet_text s = (1 \<le> length s \<and> length s \<le> 3 \<and> list_all is_digit s)"

definition is_127_block :: "string \<Rightarrow> bool" where
  "is_127_block host =
    (case split_on (CHR ''.'') host of
       [a, b, c, d] \<Rightarrow> a = ''127'' \<and> octet_text b \<and> octet_text c \<and> octet_text d
     | _ \<Rightarrow> False)"

definition is_loopback_host :: "string \<Rightarrow> bool" where
  "is_loopback_host hostname =
    (let host = to_lower hostname in host \<in> set LOOPBACK_HOSTS \<or> is_127_block host)"

subsection \<open>Canonical form\<close>

definition default_port :: "string \<Rightarrow> string" where
  "default_port protocol = (if protocol = ''https:'' then ''443'' else ''80'')"

definition canonicalize_callback :: "url_parser \<Rightarrow> string \<Rightarrow> (url \<times> string) option" where
  "canonicalize_callback parse uri =
    (case parse (trim uri) of
       None \<Rightarrow> None
     | Some url0 \<Rightarrow>
       if u_protocol url0 \<noteq> ''http:'' \<and> u_protocol url0 \<noteq> ''https:'' then None
       else
         let url1 = (if u_port url0 = default_port (u_protocol url0) then url0\<lparr>u_port := []\<rparr> else url0);
             url2 = url1\<lparr>u_search := [], u_hash := []\<rparr>;
             pathname = strip_trailing_slashes (u_pathname url2);
             normalized = u_protocol url2 @ ''//'' @ to_lower (u_host url2) @ pathname
         in Some (url2, normalized))"

text \<open>\<open>/^[a-z][a-z0-9+.-]*:/i\<close>\<close>

definition scheme_char :: "char \<Rightarrow> bool" where
  "scheme_char c = (is_alpha c \<or> is_digit c \<or> c = CHR ''+'' \<or> c = CHR ''.'' \<or> c = CHR ''-'')"

definition has_scheme :: "string \<Rightarrow> bool" where
  "has_scheme s =
    (case s of
       [] \<Rightarrow> False
     | c # cs \<Rightarrow> is_alpha c \<and> starts_with '':'' (dropWhile scheme_char cs))"

definition scheme_rejection :: "string \<Rightarrow> callback_rejection" where
  "scheme_rejection uri = (if has_scheme (trim uri) then UNSUPPORTED_SCHEME else MALFORMED_URI)"

definition check_transport :: "url \<Rightarrow> callback_mode \<Rightarrow> callback_rejection option" where
  "check_transport url mode =
    (if is_loopback_host (u_hostname url)
     then (if mode = Production then Some LOCALHOST_NOT_ALLOWED else None)
     else if u_protocol url = ''https:'' then None else Some INSECURE_SCHEME)"

subsection \<open>May this URI receive a code?\<close>

fun find_registered :: "url_parser \<Rightarrow> string \<Rightarrow> string list \<Rightarrow> string option" where
  "find_registered parse normalized [] = None"
| "find_registered parse normalized (entry # rest) =
    (case canonicalize_callback parse entry of
       Some (_, pinned) \<Rightarrow>
         if pinned = normalized then Some entry else find_registered parse normalized rest
     | None \<Rightarrow> find_registered parse normalized rest)"

definition check_callback ::
  "url_parser \<Rightarrow> callback_subject option \<Rightarrow> json \<Rightarrow> callback_mode \<Rightarrow> callback_check" where
  "check_callback parse application uri mode =
    (case application of
       None \<Rightarrow> CallbackNo UNKNOWN_APP
     | Some app \<Rightarrow>
       if cs_status app = Some ''revoked'' then CallbackNo APPLICATION_REVOKED
       else (case uri of
         JStr s \<Rightarrow>
           if trim s = [] then CallbackNo MISSING_URI
           else if length s > MAX_CALLBACK_LENGTH then CallbackNo CALLBACK_TOO_LONG
           else (case canonicalize_callback parse s of
             None \<Rightarrow> CallbackNo (scheme_rejection s)
           | Some (candidate, normalized) \<Rightarrow>
             (case check_transport candidate mode of
                Some r \<Rightarrow> CallbackNo r
              | None \<Rightarrow>
                let registered = filter (\<lambda>value. trim value \<noteq> []) (cs_callbacks app) in
                if registered = [] then CallbackNo NO_CALLBACK_REGISTERED
                else (case find_registered parse normalized registered of
                        Some entry \<Rightarrow> CallbackOk normalized entry
                      | None \<Rightarrow> CallbackNo CALLBACK_NOT_REGISTERED)))
       | _ \<Rightarrow> CallbackNo MISSING_URI))"

subsection \<open>May this URI be registered?\<close>

definition validate_registrable_callback ::
  "url_parser \<Rightarrow> json \<Rightarrow> callback_mode \<Rightarrow> callback_rejection + string" where
  "validate_registrable_callback parse uri mode =
    (case uri of
       JStr s \<Rightarrow>
         if trim s = [] then Inl MISSING_URI
         else if length s > MAX_CALLBACK_LENGTH then Inl CALLBACK_TOO_LONG
         else (let trimmed = trim s in
           (case parse trimmed of
              None \<Rightarrow> Inl (scheme_rejection trimmed)
            | Some raw \<Rightarrow>
              if u_protocol raw \<noteq> ''http:'' \<and> u_protocol raw \<noteq> ''https:''
                then Inl UNSUPPORTED_SCHEME
              else if u_search raw \<noteq> [] \<or> u_hash raw \<noteq> [] then Inl CALLBACK_HAS_PARAMETERS
              else (case check_transport raw mode of
                Some r \<Rightarrow> Inl r
              | None \<Rightarrow> (case canonicalize_callback parse trimmed of
                           None \<Rightarrow> Inl MALFORMED_URI
                         | Some (_, normalized) \<Rightarrow> Inr normalized))))
     | _ \<Rightarrow> Inl MISSING_URI)"

text \<open>\<open>explainRejection\<close>\<close>

fun explain_rejection :: "callback_rejection \<Rightarrow> string" where
  "explain_rejection UNKNOWN_APP =
     ''No application is registered with owneX for that client_id and organization.''"
| "explain_rejection APPLICATION_REVOKED =
     ''This integration has been revoked by an organization administrator.''"
| "explain_rejection MISSING_URI = ''The request did not include a redirect_uri.''"
| "explain_rejection MALFORMED_URI = ''The redirect_uri is not an absolute URL.''"
| "explain_rejection UNSUPPORTED_SCHEME = ''The redirect_uri must use http or https.''"
| "explain_rejection INSECURE_SCHEME = ''Callbacks that are not on localhost must use https.''"
| "explain_rejection LOCALHOST_NOT_ALLOWED =
     ''A localhost callback is only accepted in local development.''"
| "explain_rejection NO_CALLBACK_REGISTERED =
     ''This application has no callback URL registered yet. An administrator must add one on the Applications screen.''"
| "explain_rejection CALLBACK_NOT_REGISTERED =
     ''That redirect_uri is not one of the callback URLs registered for this application.''"
| "explain_rejection CALLBACK_HAS_PARAMETERS =
     ''A registered callback URL must not contain a query string or fragment.''"
| "explain_rejection CALLBACK_TOO_LONG =
     ''A callback URL must be at most '' @ show_nat MAX_CALLBACK_LENGTH @ '' characters.''"

text \<open>\<open>validateCallbackList\<close>: every problem, in order\<close>

fun validate_callback_list :: "url_parser \<Rightarrow> string list \<Rightarrow> callback_mode \<Rightarrow> string list" where
  "validate_callback_list parse [] mode = []"
| "validate_callback_list parse (raw # urls) mode =
    (case validate_registrable_callback parse (JStr raw) mode of
       Inl r \<Rightarrow> (raw @ '': '' @ explain_rejection r) # validate_callback_list parse urls mode
     | Inr _ \<Rightarrow> validate_callback_list parse urls mode)"

subsection \<open>The redirect\<close>

text \<open>
  The redirect target is the URL with its query and fragment cleared, and the parameters that
  \<open>searchParams.set\<close> appends, in order.
\<close>

record callback_redirect =
  cr_target :: url
  cr_params :: "(string \<times> string) list"

definition build_callback_redirect ::
  "url_parser \<Rightarrow> string \<Rightarrow> string option \<Rightarrow> string option \<Rightarrow> string \<Rightarrow> exn + callback_redirect"
where
  "build_callback_redirect parse registered_callback code err state =
    (case parse registered_callback of
       None \<Rightarrow> Inl (JsError ''Invalid URL'')
     | Some target \<Rightarrow>
       Inr \<lparr>cr_target = target\<lparr>u_search := [], u_hash := []\<rparr>,
            cr_params = (if truthy code then [(''code'', the code)] else [])
                        @ (if truthy err then [(''error'', the err)] else [])
                        @ [(''state'', state)]\<rparr>)"

subsection \<open>Lemmas\<close>

lemma canonicalize_SomeD:
  assumes "canonicalize_callback parse uri = Some (u, n)"
  shows "\<exists>u0. parse (trim uri) = Some u0
     \<and> (u_protocol u0 = ''http:'' \<or> u_protocol u0 = ''https:'')
     \<and> u_protocol u = u_protocol u0 \<and> u_hostname u = u_hostname u0
     \<and> u_pathname u = u_pathname u0 \<and> u_search u = [] \<and> u_hash u = []
     \<and> n = u_protocol u @ ''//'' @ to_lower (u_host u) @ strip_trailing_slashes (u_pathname u)"
  using assms unfolding canonicalize_callback_def
  by (auto simp: Let_def split: option.splits if_splits)

lemma check_transport_cong:
  "u_hostname u = u_hostname v \<Longrightarrow> u_protocol u = u_protocol v \<Longrightarrow>
   check_transport u mode = check_transport v mode"
  by (simp add: check_transport_def)

lemma check_transport_None_iff:
  "check_transport u mode = None \<longleftrightarrow>
     (if is_loopback_host (u_hostname u) then mode = Development else u_protocol u = ''https:'')"
  by (cases mode) (auto simp: check_transport_def)

lemma find_registered_SomeD:
  "find_registered parse n es = Some e \<Longrightarrow>
   e \<in> set es \<and> (\<exists>u. canonicalize_callback parse e = Some (u, n))"
  by (induction es) (auto split: option.splits if_splits)

lemma find_registered_None:
  "find_registered parse n es = None \<Longrightarrow> e \<in> set es \<Longrightarrow> canonicalize_callback parse e \<noteq> Some (u, n)"
  by (induction es) (auto split: option.splits if_splits)

lemma check_callback_OkD:
  assumes "check_callback parse app uri mode = CallbackOk n e"
  shows "\<exists>a s u. app = Some a \<and> cs_status a \<noteq> Some ''revoked'' \<and> uri = JStr s \<and> trim s \<noteq> []
     \<and> length s \<le> MAX_CALLBACK_LENGTH
     \<and> canonicalize_callback parse s = Some (u, n) \<and> check_transport u mode = None
     \<and> e \<in> set (cs_callbacks a) \<and> (\<exists>v. canonicalize_callback parse e = Some (v, n))"
  using assms unfolding check_callback_def
  by (auto simp: Let_def split: option.splits json.splits if_splits dest!: find_registered_SomeD)

lemma canonicalize_trim: "canonicalize_callback parse (trim s) = canonicalize_callback parse s"
  by (simp add: canonicalize_callback_def)

lemma validate_registrable_InrD:
  assumes "validate_registrable_callback parse uri mode = Inr n"
  shows "\<exists>s u raw. uri = JStr s \<and> trim s \<noteq> [] \<and> length s \<le> MAX_CALLBACK_LENGTH
     \<and> parse (trim s) = Some raw \<and> u_search raw = [] \<and> u_hash raw = []
     \<and> check_transport raw mode = None \<and> canonicalize_callback parse s = Some (u, n)
     \<and> check_transport u mode = None"
proof -
  from assms obtain s raw u where
    *: "uri = JStr s" "trim s \<noteq> []" "length s \<le> MAX_CALLBACK_LENGTH" "parse (trim s) = Some raw"
       "u_search raw = []" "u_hash raw = []" "check_transport raw mode = None"
       "canonicalize_callback parse s = Some (u, n)"
    unfolding validate_registrable_callback_def
    by (auto simp: Let_def canonicalize_trim split: option.splits json.splits if_splits)
  moreover from *(4,8) have "check_transport u mode = check_transport raw mode"
    by (auto dest!: canonicalize_SomeD intro: check_transport_cong)
  ultimately show ?thesis by auto
qed

lemma validate_callback_list_Nil_iff:
  "validate_callback_list parse urls mode = [] \<longleftrightarrow>
     (\<forall>u \<in> set urls. \<exists>n. validate_registrable_callback parse (JStr u) mode = Inr n)"
  by (induction urls) (auto split: sum.splits)

end
