(* ===== verification/External.thy ===== *)
theory External
  imports Callback
begin

text \<open>
  What the sources call and the repository does not contain, as one record of functions that
  every definition using it takes as an argument: the primitives of \<open>node:crypto\<close> and \<open>Buffer\<close>,
  the functions of \<open>ethers\<close>, the URL parser, and the two conversions of \<open>Date\<close> and \<open>Number\<close>
  whose full grammar the model leaves open. Byte buffers are strings of bytes. A function that
  may throw returns an option. \<open>x_random k n\<close> is the result of the \<open>k\<close>-th draw of \<open>n\<close> random
  bytes and \<open>x_uuid k\<close> the UUID of the \<open>k\<close>-th draw. Nothing is assumed of these functions here:
  a property that needs a law of one of them states the law as a hypothesis, from the named
  laws below.
\<close>

record ext =
  x_number :: "string \<Rightarrow> int option"
    \<comment> \<open>\<open>Number(s)\<close>; \<open>None\<close> for a value that is not an integer\<close>
  x_keccak :: "string \<Rightarrow> string"
    \<comment> \<open>\<open>ethers.id\<close>: keccak256 of the UTF-8 text, 0x-prefixed lowercase hex\<close>
  x_get_address :: "string \<Rightarrow> string option"
    \<comment> \<open>\<open>ethers.getAddress\<close>: the checksummed spelling, or it throws\<close>
  x_verify_message :: "string \<Rightarrow> string \<Rightarrow> string option"
    \<comment> \<open>\<open>ethers.verifyMessage\<close>: the recovered signer, or it throws\<close>
  x_scrypt :: "string \<Rightarrow> string \<Rightarrow> nat \<Rightarrow> int \<times> int \<times> int \<Rightarrow> string option"
    \<comment> \<open>\<open>scryptSync(secret, salt, keylen, {N, r, p, maxmem})\<close>\<close>
  x_b64url :: "string \<Rightarrow> string"
  x_b64url_decode :: "string \<Rightarrow> string"
  x_b64 :: "string \<Rightarrow> string"
  x_b64_decode :: "string \<Rightarrow> string"
  x_hex :: "string \<Rightarrow> string"
  x_hex_decode :: "string \<Rightarrow> string"
  x_gcm_encrypt :: "string \<Rightarrow> string \<Rightarrow> string \<Rightarrow> string \<times> string"
    \<comment> \<open>key, iv, plaintext; the ciphertext and the authentication tag\<close>
  x_gcm_decrypt :: "string \<Rightarrow> string \<Rightarrow> string \<Rightarrow> string \<Rightarrow> string option"
    \<comment> \<open>key, iv, tag, ciphertext; the plaintext, or it throws\<close>
  x_sha256_hex :: "string \<Rightarrow> string"
  x_parse_url :: url_parser
  x_resolve_url :: "string \<Rightarrow> string \<Rightarrow> url option"
    \<comment> \<open>\<open>new URL(path, base)\<close>, or it throws\<close>
  x_url_text :: "url \<Rightarrow> (string \<times> string) list \<Rightarrow> string"
    \<comment> \<open>\<open>toString()\<close> of a URL whose search parameters were set, in order\<close>
  x_date :: "string \<Rightarrow> int option"
    \<comment> \<open>\<open>new Date(s).getTime()\<close>; \<open>None\<close> for NaN\<close>
  x_iso :: "int \<Rightarrow> string"
    \<comment> \<open>\<open>new Date(ms).toISOString()\<close>\<close>
  x_random :: "nat \<Rightarrow> nat \<Rightarrow> string"
  x_uuid :: "nat \<Rightarrow> string"
  x_zod_email :: "string \<Rightarrow> bool"
    \<comment> \<open>\<open>z.string().email()\<close>\<close>
  x_zod_message :: "string \<Rightarrow> string"
    \<comment> \<open>zod's own message for an offending field\<close>

subsection \<open>Laws a property may assume of an external function\<close>

text \<open>\<open>Number\<close> reads back the decimal rendering of an integer.\<close>

definition number_reads_decimals :: "ext \<Rightarrow> bool" where
  "number_reads_decimals X \<longleftrightarrow> (\<forall>i. x_number X (show_int i) = Some i)"

text \<open>Base64url: decoding inverts encoding, and the alphabet is letters, digits, hyphen and
  underscore.\<close>

definition b64url_char :: "char \<Rightarrow> bool" where
  "b64url_char c = (is_alpha c \<or> is_digit c \<or> c = CHR ''-'' \<or> c = CHR ''_'')"

definition b64url_codec :: "ext \<Rightarrow> bool" where
  "b64url_codec X \<longleftrightarrow> (\<forall>b. x_b64url_decode X (x_b64url X b) = b
                     \<and> list_all b64url_char (x_b64url X b))"

text \<open>Base64: the same, over the standard alphabet with padding; a non-empty buffer has a non-empty
  encoding.\<close>

definition b64_char :: "char \<Rightarrow> bool" where
  "b64_char c = (is_alpha c \<or> is_digit c \<or> c = CHR ''+'' \<or> c = CHR ''/'' \<or> c = CHR ''='')"

definition b64_codec :: "ext \<Rightarrow> bool" where
  "b64_codec X \<longleftrightarrow> (\<forall>b. x_b64_decode X (x_b64 X b) = b \<and> list_all b64_char (x_b64 X b)
                     \<and> (x_b64 X b = [] \<longrightarrow> b = []))"

text \<open>AES-256-GCM: a ciphertext decrypts under its own key, initialisation vector and tag.\<close>

definition gcm_inverts :: "ext \<Rightarrow> bool" where
  "gcm_inverts X \<longleftrightarrow> (\<forall>k iv p. case x_gcm_encrypt X k iv p of
                        (ct, tag) \<Rightarrow> x_gcm_decrypt X k iv tag ct = Some p)"

text \<open>scrypt with the parameters of this code succeeds and returns as many bytes as asked.\<close>

definition scrypt_returns :: "ext \<Rightarrow> int \<times> int \<times> int \<Rightarrow> bool" where
  "scrypt_returns X cost \<longleftrightarrow>
     (\<forall>secret salt n. \<exists>d. x_scrypt X secret salt n cost = Some d \<and> length d = n)"

definition random_lengths :: "ext \<Rightarrow> bool" where
  "random_lengths X \<longleftrightarrow> (\<forall>k n. length (x_random X k n) = n)"

text \<open>A date that \<open>toISOString\<close> rendered is read back as the same instant.\<close>

definition date_reads_iso :: "ext \<Rightarrow> bool" where
  "date_reads_iso X \<longleftrightarrow> (\<forall>t. x_date X (x_iso X t) = Some t)"

subsection \<open>A concrete instance\<close>

text \<open>
  A simple instance on which the witnesses evaluate: encodings write each byte as two letters,
  the cipher and the hash are transparent, and the URL parser accepts \<open>scheme://host/path\<close>.
  It satisfies the laws above.
\<close>

definition nibble :: "nat \<Rightarrow> char" where
  "nibble n = char_of (97 + n)"

fun nib_encode :: "string \<Rightarrow> string" where
  "nib_encode [] = []"
| "nib_encode (c # cs) = nibble (code_unit c div 16) # nibble (code_unit c mod 16) # nib_encode cs"

fun nib_decode :: "string \<Rightarrow> string" where
  "nib_decode (a # b # cs) = char_of ((code_unit a - 97) * 16 + (code_unit b - 97)) # nib_decode cs"
| "nib_decode _ = []"

fun digits_value :: "nat \<Rightarrow> string \<Rightarrow> nat option" where
  "digits_value acc [] = Some acc"
| "digits_value acc (c # cs) =
     (if is_digit c then digits_value (acc * 10 + (code_unit c - 48)) cs else None)"

definition demo_number :: "string \<Rightarrow> int option" where
  "demo_number s =
    (case s of
       [] \<Rightarrow> Some 0
     | c # cs \<Rightarrow> if c = CHR ''-'' then map_option (\<lambda>n. - int n) (digits_value 0 cs)
                 else map_option int (digits_value 0 s))"

definition demo_url :: url_parser where
  "demo_url s =
    (let scheme = takeWhile (\<lambda>c. c \<noteq> CHR '':'') s; rest = dropWhile (\<lambda>c. c \<noteq> CHR '':'') s in
     if starts_with ''://'' rest
     then (let body = drop 3 rest;
               hostname = takeWhile (\<lambda>c. c \<noteq> CHR ''/'') body;
               tail = dropWhile (\<lambda>c. c \<noteq> CHR ''/'') body;
               pathname = takeWhile (\<lambda>c. c \<noteq> CHR ''?'') tail
           in Some \<lparr>u_protocol = scheme @ '':'', u_username = [], u_password = [],
                    u_hostname = hostname, u_port = [], u_pathname = pathname,
                    u_search = dropWhile (\<lambda>c. c \<noteq> CHR ''?'') tail, u_hash = []\<rparr>)
     else None)"

definition demo_url_text :: "url \<Rightarrow> (string \<times> string) list \<Rightarrow> string" where
  "demo_url_text u ps =
    u_protocol u @ ''//'' @ u_hostname u @ u_pathname u
    @ (if ps = [] then [] else ''?'' @ join_with ''&'' (map (\<lambda>(k, v). k @ ''='' @ v) ps))"

definition demo_ext :: ext where
  "demo_ext =
    \<lparr>x_number = demo_number,
     x_keccak = (\<lambda>s. ''0x'' @ nib_encode s),
     x_get_address = (\<lambda>a. if is_address a then Some a else None),
     x_verify_message = (\<lambda>m sig. Some sig),
     x_scrypt = (\<lambda>secret salt n cost. Some (take n (secret @ salt @ replicate n CHR ''.''))),
     x_b64url = nib_encode, x_b64url_decode = nib_decode,
     x_b64 = nib_encode, x_b64_decode = nib_decode,
     x_hex = nib_encode, x_hex_decode = nib_decode,
     x_gcm_encrypt = (\<lambda>k iv p. (p, iv)),
     x_gcm_decrypt = (\<lambda>k iv tag ct. if tag = iv then Some ct else None),
     x_sha256_hex = nib_encode,
     x_parse_url = demo_url,
     x_resolve_url = (\<lambda>path base. map_option (\<lambda>u. u\<lparr>u_pathname := path, u_search := [], u_hash := []\<rparr>) (demo_url base)),
     x_url_text = demo_url_text,
     x_date = demo_number,
     x_iso = show_int,
     x_random = (\<lambda>k n. replicate n (digit_char (k mod 10))),
     x_uuid = show_nat,
     x_zod_email = (\<lambda>s. CHR ''@'' \<in> set s),
     x_zod_message = (\<lambda>f. ''Invalid'')\<rparr>"

lemma nibble_alpha: "n < 16 \<Longrightarrow> is_lower (nibble n)"
  by (simp add: nibble_def is_lower_def code_unit_char_of)

lemma code_unit_nibble: "n < 16 \<Longrightarrow> code_unit (nibble n) = 97 + n"
  by (simp add: nibble_def code_unit_char_of)

lemma code_unit_less: "code_unit c < 256"
  by (simp add: code_unit_def)

lemma char_of_code_unit [simp]: "char_of (code_unit c) = c"
  by (simp add: code_unit_def)

lemma code_unit_div_less: "code_unit c div 16 < 16"
  using code_unit_less[of c] by simp

lemma nib_decode_encode: "nib_decode (nib_encode s) = s"
  by (induction s) (simp_all add: code_unit_nibble code_unit_div_less)

lemma nib_encode_lower: "list_all is_lower (nib_encode s)"
  by (induction s) (simp_all add: nibble_alpha code_unit_div_less)

lemma nib_encode_Nil_iff: "nib_encode s = [] \<longleftrightarrow> s = []"
  by (cases s) auto

lemma digits_value_append:
  "digits_value a (s @ t) = (case digits_value a s of None \<Rightarrow> None | Some b \<Rightarrow> digits_value b t)"
  by (induction s arbitrary: a) auto

lemma code_unit_digit_char: "d < 10 \<Longrightarrow> code_unit (digit_char d) = 48 + d"
  by (simp add: digit_char_def code_unit_char_of)

lemma digits_value_show_nat: "digits_value 0 (show_nat n) = Some n"
proof (induction n rule: show_nat.induct)
  case (1 n)
  show ?case
  proof (cases "n < 10")
    case True
    then show ?thesis
      by (subst show_nat.simps) (simp add: digit_char_digit code_unit_digit_char)
  next
    case False
    with 1 have "digits_value 0 (show_nat (n div 10)) = Some (n div 10)" by simp
    with False show ?thesis
      by (subst show_nat.simps)
         (simp add: digits_value_append digit_char_digit code_unit_digit_char)
  qed
qed

lemma show_nat_hd_digit: "show_nat n = c # cs \<Longrightarrow> is_digit c"
  using show_nat_digits[of n] by simp

lemma demo_number_show_int: "demo_number (show_int i) = Some i"
proof (cases "i < 0")
  case True
  then show ?thesis by (simp add: show_int_def demo_number_def digits_value_show_nat)
next
  case False
  then obtain c cs where s: "show_nat (nat i) = c # cs" by (cases "show_nat (nat i)") auto
  then have "c \<noteq> CHR ''-''" using show_nat_hd_digit[OF s] by (auto simp: is_digit_def code_unit_def)
  with False s show ?thesis
    using digits_value_show_nat[of "nat i"] by (simp add: show_int_def demo_number_def)
qed

lemma demo_ext_laws:
  "number_reads_decimals demo_ext" "b64url_codec demo_ext" "b64_codec demo_ext"
  "gcm_inverts demo_ext" "scrypt_returns demo_ext cost" "random_lengths demo_ext"
  "date_reads_iso demo_ext"
proof -
  have "list_all b64url_char (nib_encode b)" "list_all b64_char (nib_encode b)" for b
    using nib_encode_lower[of b]
    by (auto simp: list_all_iff b64url_char_def b64_char_def is_alpha_def)
  then show "b64url_codec demo_ext" "b64_codec demo_ext"
    by (simp_all add: b64url_codec_def b64_codec_def demo_ext_def nib_decode_encode nib_encode_Nil_iff)
qed (auto simp: number_reads_decimals_def date_reads_iso_def gcm_inverts_def scrypt_returns_def
       random_lengths_def demo_ext_def demo_number_show_int)

end
