(* ===== verification/World.thy ===== *)
theory World
  imports External
begin

text \<open>
  The state the server works in, and the effects of a request on it. The record \<open>world\<close> holds the
  clock, the process environment (\<open>lib/env.ts\<close>), what the contracts answer (the view functions
  \<open>lib/chain\<close> calls), the caller's unsealed session cookie, the tables of
  \<open>supabase/schema.sql\<close>, and two counters: of database statements and of random draws.

  A request handler is an \<open>io\<close> computation: it takes the world, returns a value or throws an
  exception, and leaves a world. One request runs at one instant and sees one chain snapshot; what
  happens between requests is a change of the world by other steps.

  A database statement is atomic, and any statement may fail: \<open>db_fault\<close> gives the error of the
  n-th statement, if it has one, and then the statement changes nothing. Theorems hold for every
  \<open>db_fault\<close>, so for every pattern of failures. Check constraints and foreign keys are not
  modelled: a statement they refuse is one that \<open>db_fault\<close> fails. Unique constraints are.
  Timestamps of tables are instants, in epoch milliseconds.
\<close>

subsection \<open>Server environment (lib/env.ts)\<close>

record server_env =
  SUPABASE_URL :: string
  SUPABASE_SERVICE_ROLE_KEY :: string
  RPC_URL :: string
  CHAIN_ID :: int
  IDENTITY_REGISTRY_ADDRESS :: string
  ORG_ACCESS_MANAGER_ADDRESS :: string
  ASSET_NFT_ADDRESS :: string
  SESSION_PASSWORD :: string
  PII_ENCRYPTION_KEY :: string
  APP_DOMAIN :: string
  APP_ORIGIN :: string

type_synonym process_env = "string \<Rightarrow> string option"

definition env_text :: "process_env \<Rightarrow> string \<Rightarrow> string" where
  "env_text env k = nullish (env k) []"

definition env_check :: "ext \<Rightarrow> process_env \<Rightarrow> string \<Rightarrow> (string \<Rightarrow> bool) \<Rightarrow> issue list" where
  "env_check X env k valid =
    (case env k of
       Some v \<Rightarrow> if valid v then [] else [\<lparr>issue_path = k, issue_message = x_zod_message X k\<rparr>]
     | None \<Rightarrow> [\<lparr>issue_path = k, issue_message = x_zod_message X k\<rparr>])"

definition positive_number :: "ext \<Rightarrow> string \<Rightarrow> bool" where
  "positive_number X v = (case x_number X v of Some i \<Rightarrow> 0 < i | None \<Rightarrow> False)"

definition server_schema_issues :: "ext \<Rightarrow> process_env \<Rightarrow> issue list" where
  "server_schema_issues X env =
    env_check X env ''SUPABASE_URL'' (\<lambda>v. x_parse_url X v \<noteq> None)
    @ env_check X env ''SUPABASE_SERVICE_ROLE_KEY'' (\<lambda>v. 20 \<le> length v)
    @ env_check X env ''RPC_URL'' (\<lambda>v. x_parse_url X v \<noteq> None)
    @ env_check X env ''CHAIN_ID'' (positive_number X)
    @ env_check X env ''IDENTITY_REGISTRY_ADDRESS'' is_address
    @ env_check X env ''ORG_ACCESS_MANAGER_ADDRESS'' is_address
    @ env_check X env ''ASSET_NFT_ADDRESS'' is_address
    @ env_check X env ''SESSION_PASSWORD'' (\<lambda>v. 32 \<le> length v)
    @ env_check X env ''PII_ENCRYPTION_KEY'' (\<lambda>v. length v = 64 \<and> list_all is_hex_digit v)
    @ env_check X env ''APP_DOMAIN'' (\<lambda>v. 3 \<le> length v)
    @ env_check X env ''APP_ORIGIN'' (\<lambda>v. x_parse_url X v \<noteq> None)"

definition server_env_of :: "ext \<Rightarrow> process_env \<Rightarrow> exn + server_env" where
  "server_env_of X env =
    (let issues = server_schema_issues X env in
     if issues \<noteq> []
     then Inl (JsError
       (''Invalid server environment.'' @ [newline]
        @ join_with [newline] (map (\<lambda>i. ''  '' @ issue_path i @ '': '' @ issue_message i) issues)
        @ [newline, newline] @ ''Copy .env.local.example to .env.local and fill it in.''))
     else Inr
      \<lparr>SUPABASE_URL = env_text env ''SUPABASE_URL'',
       SUPABASE_SERVICE_ROLE_KEY = env_text env ''SUPABASE_SERVICE_ROLE_KEY'',
       RPC_URL = env_text env ''RPC_URL'',
       CHAIN_ID = nullish (x_number X (env_text env ''CHAIN_ID'')) 0,
       IDENTITY_REGISTRY_ADDRESS = env_text env ''IDENTITY_REGISTRY_ADDRESS'',
       ORG_ACCESS_MANAGER_ADDRESS = env_text env ''ORG_ACCESS_MANAGER_ADDRESS'',
       ASSET_NFT_ADDRESS = env_text env ''ASSET_NFT_ADDRESS'',
       SESSION_PASSWORD = env_text env ''SESSION_PASSWORD'',
       PII_ENCRYPTION_KEY = env_text env ''PII_ENCRYPTION_KEY'',
       APP_DOMAIN = env_text env ''APP_DOMAIN'',
       APP_ORIGIN = env_text env ''APP_ORIGIN''\<rparr>)"

subsection \<open>What the contracts answer\<close>

text \<open>The values of the view functions, as ethers decodes them; each call may reject.\<close>

record raw_identity =
  ri_hash :: string
  ri_exists :: bool
  ri_active :: bool
  ri_registered_at :: int

record raw_organization =
  ro_metadata_hash :: string
  ro_root_admin :: string
  ro_active :: bool
  ro_created_at :: int

record raw_membership =
  rm_role :: string
  rm_joined_at :: int
  rm_expires_at :: int

record raw_asset =
  ra_org_id :: int
  ra_asset_hash :: string
  ra_assigned_to :: string
  ra_active :: bool
  ra_minted_at :: int
  ra_transfer_count :: int

datatype log_arg = ArgInt int | ArgText string

record event_input =
  in_name :: string
  in_type :: string

record event_log =
  lg_event :: "string option"
  lg_args :: "log_arg list"
  lg_inputs :: "event_input list"
  lg_tx_hash :: string
  lg_block :: int
  lg_index :: int

record chain =
  c_identity :: "string \<Rightarrow> exn + raw_identity"
  c_organization :: "int \<Rightarrow> exn + raw_organization"
  c_organization_count :: "exn + int"
  c_effective_role :: "int \<Rightarrow> string \<Rightarrow> exn + string"
  c_has_permission :: "int \<Rightarrow> string \<Rightarrow> string \<Rightarrow> exn + bool"
  c_membership :: "int \<Rightarrow> string \<Rightarrow> exn + raw_membership"
  c_members :: "int \<Rightarrow> exn + string list"
  c_app_registered :: "int \<Rightarrow> string \<Rightarrow> exn + bool"
  c_can_access_app :: "int \<Rightarrow> string \<Rightarrow> string \<Rightarrow> exn + bool"
  c_app_access_for_role :: "int \<Rightarrow> string \<Rightarrow> string \<Rightarrow> exn + bool"
  c_default_permission :: "string \<Rightarrow> string \<Rightarrow> exn + bool"
  c_permission_override :: "int \<Rightarrow> string \<Rightarrow> string \<Rightarrow> exn + nat"
  c_asset :: "int \<Rightarrow> exn + raw_asset"
  c_owner_of :: "int \<Rightarrow> exn + string"
  c_assets_of_holder :: "string \<Rightarrow> exn + int list"
  c_assets_of_organization :: "int \<Rightarrow> exn + int list"
  c_block_number :: "exn + int"
  c_receipt_exists :: "string \<Rightarrow> exn + bool"
  c_logs :: "string \<Rightarrow> int \<Rightarrow> int \<Rightarrow> exn + event_log list"

subsection \<open>Tables (supabase/schema.sql)\<close>

record nonce_row =
  n_nonce :: string
  n_wallet :: string
  n_domain :: string
  n_issued_at :: int
  n_expires_at :: int
  n_used_at :: "int option"

record app_row =
  ap_org_id :: int
  ap_slug :: string
  ap_app_id :: "string option"
  ap_name :: "string option"
  ap_url :: "string option"
  ap_description :: "string option"
  ap_logo_url :: "string option"
  ap_client_id :: "string option"
  ap_secret_hash :: "string option"
  ap_secret_updated_at :: "int option"
  ap_allowed_roles :: "string list option"
  ap_status :: string
  ap_created_at :: int
  ap_updated_at :: int

record callback_row =
  cb_org_id :: int
  cb_slug :: string
  cb_url :: string

record code_row =
  cd_code :: string
  cd_client_id :: string
  cd_app_slug :: string
  cd_org_id :: int
  cd_wallet :: string
  cd_redirect_uri :: string
  cd_expires_at :: int
  cd_used_at :: "int option"

record asset_row =
  as_id :: string
  as_token_id :: "int option"
  as_chain_id :: "int option"
  as_contract :: "string option"
  as_org_id :: int
  as_name :: string
  as_description :: "string option"
  as_type :: string
  as_department :: "string option"
  as_image_url :: "string option"
  as_serial :: "string option"
  as_invoice :: "string option"
  as_hash :: string
  as_metadata_uri :: string
  as_mint_tx :: "string option"
  as_created_by :: string
  as_created_at :: int

record profile_row =
  pf_wallet :: string
  pf_display_name :: string
  pf_job_title :: "string option"
  pf_department :: "string option"
  pf_email :: "string option"
  pf_phone :: "string option"
  pf_avatar :: "string option"
  pf_identity_hash :: "string option"
  pf_created_at :: int

record org_row =
  og_org_id :: int
  og_name :: string
  og_industry :: "string option"
  og_website :: "string option"
  og_description :: "string option"
  og_metadata_hash :: "string option"

record audit_row =
  au_id :: string
  au_contract :: string
  au_event :: string
  au_org_id :: "int option"
  au_actor :: "string option"
  au_subject :: "string option"
  au_token_id :: "int option"
  au_tx_hash :: string
  au_block :: int
  au_log_index :: int
  au_payload :: json

record indexer_row =
  ix_address :: string
  ix_contract :: string
  ix_chain_id :: int
  ix_last_block :: int

record db_error =
  db_code :: "string option"
  db_message :: string

record stored_object =
  ob_path :: string
  ob_type :: string
  ob_bytes :: string

record session_data =
  sd_wallet :: "string option"
  sd_chain_id :: "int option"
  sd_issued_at :: "int option"

record world =
  clock :: int
  penv :: process_env
  chain_now :: chain
  cookie :: session_data
  nonces :: "nonce_row list"
  applications :: "app_row list"
  callbacks :: "callback_row list"
  codes :: "code_row list"
  assets :: "asset_row list"
  profiles :: "profile_row list"
  organizations :: "org_row list"
  audit_cache :: "audit_row list"
  indexer_state :: "indexer_row list"
  objects :: "stored_object list"
    \<comment> \<open>the public bucket of asset images\<close>
  scoped_columns :: bool
    \<comment> \<open>migration 0002 applied: assets has chain_id and contract_address\<close>
  db_fault :: "nat \<Rightarrow> db_error option"
  db_calls :: nat
  draws :: nat

subsection \<open>Computations\<close>

type_synonym 'a io = "world \<Rightarrow> (exn + 'a) \<times> world"

definition ret :: "'a \<Rightarrow> 'a io" where
  "ret x w = (Inr x, w)"

definition throw :: "exn \<Rightarrow> 'a io" where
  "throw e w = (Inl e, w)"

definition seq :: "'a io \<Rightarrow> ('a \<Rightarrow> 'b io) \<Rightarrow> 'b io" where
  "seq m f w = (case m w of (Inl e, w') \<Rightarrow> (Inl e, w') | (Inr x, w') \<Rightarrow> f x w')"

definition lift_res :: "exn + 'a \<Rightarrow> 'a io" where
  "lift_res r w = (r, w)"

definition gets :: "(world \<Rightarrow> 'a) \<Rightarrow> 'a io" where
  "gets f w = (Inr (f w), w)"

definition asks :: "(world \<Rightarrow> exn + 'a) \<Rightarrow> 'a io" where
  "asks f w = (f w, w)"

definition update_world :: "(world \<Rightarrow> world) \<Rightarrow> unit io" where
  "update_world f w = (Inr (), f w)"

definition try_catch :: "'a io \<Rightarrow> (exn \<Rightarrow> 'a io) \<Rightarrow> 'a io" where
  "try_catch m h w = (case m w of (Inl e, w') \<Rightarrow> h e w' | (Inr x, w') \<Rightarrow> (Inr x, w'))"

definition guard_io :: "bool \<Rightarrow> exn \<Rightarrow> unit io" where
  "guard_io ok e = (if ok then ret () else throw e)"

text \<open>One random draw: the index it gets.\<close>

definition draw :: "nat io" where
  "draw w = (Inr (draws w), w\<lparr>draws := Suc (draws w)\<rparr>)"

definition server_env_io :: "ext \<Rightarrow> server_env io" where
  "server_env_io X w = (server_env_of X (penv w), w)"

text \<open>
  One database statement: \<open>db()\<close> reads the server environment first, then the statement fails as
  \<open>db_fault\<close> says or runs. Its result is the \<open>{ data, error }\<close> of the client library.
\<close>

definition db_stmt :: "ext \<Rightarrow> (world \<Rightarrow> (db_error + 'a) \<times> world) \<Rightarrow> (db_error + 'a) io" where
  "db_stmt X stmt w =
    (case server_env_of X (penv w) of
       Inl e \<Rightarrow> (Inl e, w)
     | Inr _ \<Rightarrow>
       let k = db_calls w; w1 = w\<lparr>db_calls := Suc k\<rparr> in
       (case db_fault w k of
          Some err \<Rightarrow> (Inr (Inl err), w1)
        | None \<Rightarrow> (case stmt w1 of (r, w2) \<Rightarrow> (Inr r, w2))))"

definition unique_violation :: db_error where
  "unique_violation = \<lparr>db_code = Some ''23505'', db_message = ''duplicate key value''\<rparr>"

definition unknown_column :: db_error where
  "unknown_column = \<lparr>db_code = Some ''42703'', db_message = ''column does not exist''\<rparr>"

definition multiple_rows :: db_error where
  "multiple_rows = \<lparr>db_code = Some ''PGRST116'', db_message = ''multiple rows returned''\<rparr>"

text \<open>\<open>isUniqueViolation\<close>, \<open>isUnknownColumn\<close> and \<open>normalizeAddress\<close> of \<open>lib/supabase.ts\<close>\<close>

definition is_unique_violation :: "db_error \<Rightarrow> bool" where
  "is_unique_violation e = (db_code e = Some ''23505'')"

definition is_unknown_column :: "db_error \<Rightarrow> bool" where
  "is_unknown_column e = (db_code e = Some ''PGRST204'' \<or> db_code e = Some ''42703'')"

definition normalize_address :: "string \<Rightarrow> string" where
  "normalize_address address = to_lower address"

text \<open>\<open>maybeSingle()\<close>: no row is null, more than one is an error.\<close>

fun maybe_single :: "'a list \<Rightarrow> db_error + 'a option" where
  "maybe_single [] = Inr None"
| "maybe_single [r] = Inr (Some r)"
| "maybe_single _ = Inl multiple_rows"

definition update_where :: "('a \<Rightarrow> bool) \<Rightarrow> ('a \<Rightarrow> 'a) \<Rightarrow> 'a list \<Rightarrow> 'a list" where
  "update_where p f rows = map (\<lambda>r. if p r then f r else r) rows"

text \<open>\<open>upsert(columns, { onConflict: key })\<close> on a table whose key picks the rows \<open>p\<close>: the columns go
  to the row that is there, or to a fresh one.\<close>

definition upsert_where :: "('a \<Rightarrow> bool) \<Rightarrow> 'a \<Rightarrow> ('a \<Rightarrow> 'a) \<Rightarrow> 'a list \<Rightarrow> 'a list" where
  "upsert_where p fresh columns rows =
    (if filter p rows = [] then rows @ [columns fresh] else update_where p columns rows)"

definition select_stmt :: "ext \<Rightarrow> (world \<Rightarrow> 'a) \<Rightarrow> (db_error + 'a) io" where
  "select_stmt X f = db_stmt X (\<lambda>w. (Inr (f w), w))"

definition select_one :: "ext \<Rightarrow> (world \<Rightarrow> 'a list) \<Rightarrow> (db_error + 'a option) io" where
  "select_one X f = db_stmt X (\<lambda>w. (maybe_single (f w), w))"

subsection \<open>Responses (lib/http.ts)\<close>

datatype body = JsonBody json | TextBody string | RedirectBody callback_redirect | PathRedirect string

record response =
  status :: int
  no_store :: bool
  resp_body :: body

definition ok_no_store :: "json \<Rightarrow> response" where
  "ok_no_store data = \<lparr>status = 200, no_store = True, resp_body = JsonBody data\<rparr>"

definition json_response :: "int \<Rightarrow> json \<Rightarrow> response" where
  "json_response st data = \<lparr>status = st, no_store = False, resp_body = JsonBody data\<rparr>"

definition text_response :: "int \<Rightarrow> string \<Rightarrow> response" where
  "text_response st t = \<lparr>status = st, no_store = False, resp_body = TextBody t\<rparr>"

definition error_json :: "string \<Rightarrow> string option \<Rightarrow> json" where
  "error_json msg code =
    JObj ([(''error'', JStr msg)] @ (case code of None \<Rightarrow> [] | Some c \<Rightarrow> [(''code'', JStr c)]))"

definition error_response :: "exn \<Rightarrow> response" where
  "error_response e =
    (case e of
       ApiError st msg code \<Rightarrow> json_response st (error_json msg code)
     | ZodFailure issues \<Rightarrow>
         json_response 400
           (JObj [(''error'', JStr ''Invalid request''), (''code'', JStr ''VALIDATION_FAILED''),
                  (''issues'', JArr (map (\<lambda>i. JObj [(''path'', JStr (issue_path i)),
                                                    (''message'', JStr (issue_message i))]) issues))])
     | _ \<Rightarrow>
         if starts_with ''Invalid server environment'' (nullish (exn_message e) ''Unknown error'')
         then json_response 500 (error_json ''Server is not configured'' (Some ''NOT_CONFIGURED''))
         else json_response 500 (error_json ''Something went wrong'' (Some ''INTERNAL'')))"

definition handler :: "response io \<Rightarrow> world \<Rightarrow> response \<times> world" where
  "handler fn w = (case fn w of (Inr r, w') \<Rightarrow> (r, w') | (Inl e, w') \<Rightarrow> (error_response e, w'))"

definition read_json :: "json option \<Rightarrow> json io" where
  "read_json body =
    (case body of
       Some j \<Rightarrow> ret j
     | None \<Rightarrow> throw (bad_request ''Request body must be valid JSON''))"

subsection \<open>Validation of requests\<close>

text \<open>
  A zod schema is the list of the offending fields, and the parsed value when there is none.
  A JSON number that is an integer is a \<open>JNum\<close>.
\<close>

definition field_issue :: "ext \<Rightarrow> string \<Rightarrow> bool \<Rightarrow> issue list" where
  "field_issue X path valid =
    (if valid then [] else [\<lparr>issue_path = path, issue_message = x_zod_message X path\<rparr>])"

definition zod :: "issue list \<Rightarrow> 'a \<Rightarrow> exn + 'a" where
  "zod issues v = (if issues = [] then Inr v else Inl (ZodFailure issues))"

definition text_field :: "nat \<Rightarrow> nat \<Rightarrow> json option \<Rightarrow> bool" where
  "text_field lo hi v = (case v of Some (JStr s) \<Rightarrow> lo \<le> length s \<and> length s \<le> hi | _ \<Rightarrow> False)"

definition regex_field :: "(string \<Rightarrow> bool) \<Rightarrow> json option \<Rightarrow> bool" where
  "regex_field p v = (case v of Some (JStr s) \<Rightarrow> p s | _ \<Rightarrow> False)"

definition optional_field :: "(json option \<Rightarrow> bool) \<Rightarrow> json option \<Rightarrow> bool" where
  "optional_field p v = (v = None \<or> p v)"

definition positive_field :: "json option \<Rightarrow> bool" where
  "positive_field v = (case v of Some (JNum i) \<Rightarrow> 0 < i | _ \<Rightarrow> False)"

text \<open>\<open>z.coerce.number().int().positive()\<close> on a query or form value; null coerces to 0.\<close>

definition coerced_positive :: "ext \<Rightarrow> string option \<Rightarrow> bool" where
  "coerced_positive X v = (case v of None \<Rightarrow> False | Some s \<Rightarrow> positive_number X s)"

definition coerced_value :: "ext \<Rightarrow> string option \<Rightarrow> int" where
  "coerced_value X v = (case v of None \<Rightarrow> 0 | Some s \<Rightarrow> nullish (x_number X s) 0)"

definition text_of :: "json option \<Rightarrow> string" where
  "text_of v = (case v of Some (JStr s) \<Rightarrow> s | _ \<Rightarrow> [])"

definition optional_text :: "json option \<Rightarrow> string option" where
  "optional_text v = (case v of Some (JStr s) \<Rightarrow> Some s | _ \<Rightarrow> None)"

definition int_of_field :: "json option \<Rightarrow> int" where
  "int_of_field v = (case v of Some (JNum i) \<Rightarrow> i | _ \<Rightarrow> 0)"

definition is_object :: "json \<Rightarrow> bool" where
  "is_object j = (case j of JObj _ \<Rightarrow> True | _ \<Rightarrow> False)"

subsection \<open>Rules for computations\<close>

named_theorems io_iff \<open>when a computation returns a value\<close>

lemma ret_iff [io_iff]: "ret x w = (Inr y, w') \<longleftrightarrow> y = x \<and> w' = w"
  by (auto simp: ret_def)

lemma throw_iff [io_iff]: "throw e w = (Inr y, w') \<longleftrightarrow> False"
  by (simp add: throw_def)

lemma seq_iff [io_iff]: "seq m f w = (Inr y, w') \<longleftrightarrow> (\<exists>x w1. m w = (Inr x, w1) \<and> f x w1 = (Inr y, w'))"
  by (auto simp: seq_def split: prod.splits sum.splits)

lemma lift_res_iff [io_iff]: "lift_res r w = (Inr y, w') \<longleftrightarrow> r = Inr y \<and> w' = w"
  by (auto simp: lift_res_def)

lemma gets_iff [io_iff]: "gets f w = (Inr y, w') \<longleftrightarrow> y = f w \<and> w' = w"
  by (auto simp: gets_def)

lemma asks_iff [io_iff]: "asks f w = (Inr y, w') \<longleftrightarrow> f w = Inr y \<and> w' = w"
  by (auto simp: asks_def)

lemma guard_iff [io_iff]: "guard_io b e w = (Inr y, w') \<longleftrightarrow> b \<and> w' = w"
  by (auto simp: guard_io_def ret_def throw_def)

lemma update_world_iff [io_iff]: "update_world f w = (Inr y, w') \<longleftrightarrow> w' = f w"
  by (auto simp: update_world_def)

lemma server_env_io_iff [io_iff]:
  "server_env_io X w = (Inr y, w') \<longleftrightarrow> server_env_of X (penv w) = Inr y \<and> w' = w"
  by (auto simp: server_env_io_def)

lemma draw_iff [io_iff]: "draw w = (Inr k, w') \<longleftrightarrow> k = draws w \<and> w' = w\<lparr>draws := Suc (draws w)\<rparr>"
  by (auto simp: draw_def)

text \<open>A case distinction returns a value when the branch it takes does.\<close>

lemma case_io_iff [io_iff]:
  "case_sum f g r w = (Inr y, w') \<longleftrightarrow>
     (\<exists>e. r = Inl e \<and> f e w = (Inr y, w')) \<or> (\<exists>v. r = Inr v \<and> g v w = (Inr y, w'))"
  "case_option p h q w = (Inr y, w') \<longleftrightarrow>
     q = None \<and> p w = (Inr y, w') \<or> (\<exists>v. q = Some v \<and> h v w = (Inr y, w'))"
  "(if b then p else p') w = (Inr y, w') \<longleftrightarrow> b \<and> p w = (Inr y, w') \<or> \<not> b \<and> p' w = (Inr y, w')"
  "case_prod k z w = (Inr y, w') \<longleftrightarrow> (\<exists>u v. z = (u, v) \<and> k u v w = (Inr y, w'))"
  by (auto split: sum.splits option.splits prod.splits)

lemma seq_Inl_iff:
  "seq m f w = (Inl e, w') \<longleftrightarrow> m w = (Inl e, w') \<or> (\<exists>x w1. m w = (Inr x, w1) \<and> f x w1 = (Inl e, w'))"
  by (auto simp: seq_def split: prod.splits sum.splits)

lemma seq_any_iff:
  "seq m f w = (r, w') \<longleftrightarrow>
     (\<exists>e. m w = (Inl e, w') \<and> r = Inl e) \<or> (\<exists>x w1. m w = (Inr x, w1) \<and> f x w1 = (r, w'))"
  by (auto simp: seq_def split: prod.splits sum.splits)

lemma try_catch_iff:
  "try_catch m h w = (r, w') \<longleftrightarrow>
     (\<exists>x. m w = (Inr x, w') \<and> r = Inr x) \<or> (\<exists>e w1. m w = (Inl e, w1) \<and> h e w1 = (r, w'))"
  by (auto simp: try_catch_def split: prod.splits sum.splits)

lemma read_json_iff [io_iff]: "read_json body w = (Inr j, w') \<longleftrightarrow> body = Some j \<and> w' = w"
  by (auto simp: read_json_def ret_def throw_def split: option.splits)

lemma try_catch_Inr_iff [io_iff]:
  "try_catch m h w = (Inr y, w') \<longleftrightarrow>
     m w = (Inr y, w') \<or> (\<exists>e w1. m w = (Inl e, w1) \<and> h e w1 = (Inr y, w'))"
  by (auto simp: try_catch_iff)

lemma zod_Inr_iff [res_iff]: "zod is v = Inr y \<longleftrightarrow> is = [] \<and> y = v"
  by (auto simp: zod_def)

lemma field_issue_Nil [simp]: "field_issue X p v = [] \<longleftrightarrow> v"
  by (simp add: field_issue_def)

lemma handler_status_500:
  "fn w = (Inl e, w') \<Longrightarrow> handler fn w = (error_response e, w')"
  by (simp add: handler_def)

lemma handler_iff: "handler fn w = (r, w') \<longleftrightarrow>
    fn w = (Inr r, w') \<or> (\<exists>e. fn w = (Inl e, w') \<and> r = error_response e)"
  by (auto simp: handler_def split: prod.splits sum.splits)

lemma error_response_status:
  "status (error_response e) =
     (case e of ApiError st _ _ \<Rightarrow> st | ZodFailure _ \<Rightarrow> 400 | _ \<Rightarrow> 500)"
  by (cases e) (auto simp: error_response_def json_response_def)

text \<open>A statement that runs is one that has an environment and no fault.\<close>

lemma db_stmt_cases:
  assumes "db_stmt X stmt w = (r, w')"
  shows "(\<exists>e. server_env_of X (penv w) = Inl e \<and> r = Inl e \<and> w' = w)
    \<or> (\<exists>err. db_fault w (db_calls w) = Some err \<and> r = Inr (Inl err)
            \<and> w' = w\<lparr>db_calls := Suc (db_calls w)\<rparr>)
    \<or> (\<exists>v w1. db_fault w (db_calls w) = None \<and> stmt (w\<lparr>db_calls := Suc (db_calls w)\<rparr>) = (v, w1)
            \<and> r = Inr v \<and> w' = w1)"
  using assms unfolding db_stmt_def
  by (auto simp: Let_def split: sum.splits option.splits prod.splits)

lemma select_stmt_cases:
  assumes "select_stmt X f w = (r, w')"
  shows "(w' = w \<or> w' = w\<lparr>db_calls := Suc (db_calls w)\<rparr>)
    \<and> (\<forall>v. r = Inr (Inr v) \<longrightarrow> v = f (w\<lparr>db_calls := Suc (db_calls w)\<rparr>))"
  using db_stmt_cases[OF assms[unfolded select_stmt_def]] by auto

lemma select_one_cases:
  assumes "select_one X f w = (r, w')"
  shows "(w' = w \<or> w' = w\<lparr>db_calls := Suc (db_calls w)\<rparr>)
    \<and> (\<forall>v. r = Inr (Inr v) \<longrightarrow> maybe_single (f (w\<lparr>db_calls := Suc (db_calls w)\<rparr>)) = Inr v)"
  using db_stmt_cases[OF assms[unfolded select_one_def]] by auto

lemma update_where_none: "filter p rows = [] \<Longrightarrow> update_where p f rows = rows"
  by (induction rows) (auto simp: update_where_def split: if_splits)

lemma update_where_keyed:
  assumes "\<And>r. p (f r) = p r"
  shows "filter p (update_where p f rows) = map f (filter p rows)"
    and "filter (\<lambda>r. \<not> p r) (update_where p f rows) = filter (\<lambda>r. \<not> p r) rows"
  using assms by (induction rows) (auto simp: update_where_def)

lemma upsert_where_keyed:
  assumes "\<And>r. p (f r) = p r" and "p fresh" and "length (filter p rows) \<le> 1"
  shows "\<exists>r. (filter p rows = [r] \<or> filter p rows = [] \<and> r = fresh)
      \<and> filter p (upsert_where p fresh f rows) = [f r]"
    and "filter (\<lambda>r. \<not> p r) (upsert_where p fresh f rows) = filter (\<lambda>r. \<not> p r) rows"
proof -
  consider "filter p rows = []" | r where "filter p rows = [r]"
    using assms(3) by (cases "filter p rows") auto
  then show "\<exists>r. (filter p rows = [r] \<or> filter p rows = [] \<and> r = fresh)
      \<and> filter p (upsert_where p fresh f rows) = [f r]"
    using assms(1,2) by cases (auto simp: upsert_where_def update_where_keyed)
  show "filter (\<lambda>r. \<not> p r) (upsert_where p fresh f rows) = filter (\<lambda>r. \<not> p r) rows"
    using assms(1,2) by (auto simp: upsert_where_def update_where_keyed)
qed

lemma maybe_single_Some_iff: "maybe_single rs = Inr (Some r) \<longleftrightarrow> rs = [r]"
  by (cases rs rule: maybe_single.cases) auto

lemma maybe_single_None_iff: "maybe_single rs = Inr None \<longleftrightarrow> rs = []"
  by (cases rs rule: maybe_single.cases) auto

subsection \<open>Computations that only read\<close>

text \<open>A query leaves the world as it was, whatever it returns; only the statement counter moves.\<close>

definition reads_only :: "'a io \<Rightarrow> bool" where
  "reads_only m \<longleftrightarrow> (\<forall>w r w'. m w = (r, w') \<longrightarrow> (\<exists>n. w' = w\<lparr>db_calls := n\<rparr>))"

named_theorems query_intro \<open>which computations only read\<close>

lemma reads_onlyD: "reads_only m \<Longrightarrow> m w = (r, w') \<Longrightarrow> \<exists>n. w' = w\<lparr>db_calls := n\<rparr>"
  by (auto simp: reads_only_def)

lemma same_counter: "\<exists>n. w = w\<lparr>db_calls := n\<rparr>"
  by (rule exI[of _ "db_calls w"]) simp

lemma reads_only_same: "(\<And>w. \<exists>r. m w = (r, w)) \<Longrightarrow> reads_only m"
  unfolding reads_only_def by (metis prod.inject same_counter)

lemma reads_only_pure [query_intro]:
  "reads_only (ret x)" "reads_only (throw e)" "reads_only (gets f)" "reads_only (asks g)"
  "reads_only (lift_res r)" "reads_only (guard_io b e)" "reads_only (server_env_io X)"
  by (rule reads_only_same,
      simp add: ret_def throw_def gets_def asks_def lift_res_def guard_io_def server_env_io_def)+

lemma reads_only_seq [query_intro]:
  assumes "reads_only m" and "\<And>x. reads_only (f x)"
  shows "reads_only (seq m f)"
proof -
  have "\<exists>n. w' = w\<lparr>db_calls := n\<rparr>" if "seq m f w = (r, w')" for w r w'
  proof -
    obtain r1 w1 where m: "m w = (r1, w1)" by (cases "m w")
    with reads_onlyD[OF assms(1)] obtain n where w1: "w1 = w\<lparr>db_calls := n\<rparr>" by blast
    show ?thesis
    proof (cases r1)
      case (Inl e)
      with that m w1 show ?thesis by (auto simp: seq_def)
    next
      case (Inr x)
      with that m have "f x w1 = (r, w')" by (simp add: seq_def)
      with reads_onlyD[OF assms(2)] w1 show ?thesis by fastforce
    qed
  qed
  then show ?thesis by (auto simp: reads_only_def)
qed

lemma reads_only_try_catch [query_intro]:
  assumes "reads_only m" and "\<And>e. reads_only (h e)"
  shows "reads_only (try_catch m h)"
proof -
  have "\<exists>n. w' = w\<lparr>db_calls := n\<rparr>" if "try_catch m h w = (r, w')" for w r w'
    using that reads_onlyD[OF assms(1)] reads_onlyD[OF assms(2)]
    by (auto simp: try_catch_iff) fastforce
  then show ?thesis by (auto simp: reads_only_def)
qed

lemma reads_only_select [query_intro]: "reads_only (select_stmt X f)" "reads_only (select_one X g)"
  unfolding reads_only_def
  using select_stmt_cases[of X f] select_one_cases[of X g] same_counter by metis+

lemma reads_only_split [query_intro]:
  "(b \<Longrightarrow> reads_only p) \<Longrightarrow> (\<not> b \<Longrightarrow> reads_only q) \<Longrightarrow> reads_only (if b then p else q)"
  "reads_only p \<Longrightarrow> (\<And>x. reads_only (f x)) \<Longrightarrow> reads_only (case_option p f v)"
  "(\<And>x. reads_only (g x)) \<Longrightarrow> (\<And>x. reads_only (f x)) \<Longrightarrow> reads_only (case_sum g f s)"
  "(\<And>x y. reads_only (h x y)) \<Longrightarrow> reads_only (case_prod h z)"
  by (auto split: option.splits sum.splits prod.splits)

lemma reads_only_read_json [query_intro]: "reads_only (read_json body)"
  unfolding read_json_def by (intro query_intro)

text \<open>A select, when it succeeds, answers from the world it ran in.\<close>

lemma select_one_Inr:
  assumes "select_one X f w = (Inr (Inr v), w')"
    and "\<And>n. f (w\<lparr>db_calls := n\<rparr>) = f w"
  shows "maybe_single (f w) = Inr v \<and> (\<exists>n. w' = w\<lparr>db_calls := n\<rparr>)"
  using select_one_cases[OF assms(1)] assms(2) same_counter by metis

lemma select_stmt_Inr:
  assumes "select_stmt X f w = (Inr (Inr v), w')"
    and "\<And>n. f (w\<lparr>db_calls := n\<rparr>) = f w"
  shows "v = f w \<and> (\<exists>n. w' = w\<lparr>db_calls := n\<rparr>)"
  using select_stmt_cases[OF assms(1)] assms(2) same_counter by metis

subsection \<open>Computations whose exceptions are errors\<close>

text \<open>Every exception becomes a response with an error status: no thrown value answers 2xx or 3xx.\<close>

definition fails_loudly :: "'a io \<Rightarrow> bool" where
  "fails_loudly m \<longleftrightarrow> (\<forall>w e w'. m w = (Inl e, w') \<longrightarrow> 400 \<le> status (error_response e))"

named_theorems loud_intro \<open>which computations fail with an error status\<close>

lemma fails_loudlyD: "fails_loudly m \<Longrightarrow> m w = (Inl e, w') \<Longrightarrow> 400 \<le> status (error_response e)"
  by (auto simp: fails_loudly_def)

lemma loud_pure [loud_intro]:
  "fails_loudly (ret x)" "fails_loudly (gets f)" "fails_loudly (update_world g)" "fails_loudly draw"
  by (simp_all add: fails_loudly_def ret_def gets_def update_world_def draw_def)

lemma loud_throw [loud_intro]: "400 \<le> status (error_response e) \<Longrightarrow> fails_loudly (throw e)"
  by (simp add: fails_loudly_def throw_def)

lemma loud_lift_zod [loud_intro]: "fails_loudly (lift_res (zod is v))"
  by (auto simp: fails_loudly_def lift_res_def zod_def error_response_status)

lemma loud_read_json [loud_intro]: "fails_loudly (read_json body)"
  by (auto simp: fails_loudly_def read_json_def ret_def throw_def error_response_status bad_request_def
           split: option.splits)

lemma server_env_of_error: "server_env_of X env = Inl e \<Longrightarrow> \<exists>msg. e = JsError msg"
  by (auto simp: server_env_of_def Let_def split: if_splits)

lemma loud_db [loud_intro]:
  "fails_loudly (db_stmt X st)" "fails_loudly (select_stmt X f)" "fails_loudly (select_one X g)"
  "fails_loudly (server_env_io X)"
  unfolding fails_loudly_def select_stmt_def select_one_def db_stmt_def server_env_io_def
  by (auto simp: Let_def error_response_status dest!: server_env_of_error
           split: sum.splits option.splits prod.splits)

lemma loud_seq [loud_intro]: "fails_loudly m \<Longrightarrow> (\<And>x. fails_loudly (f x)) \<Longrightarrow> fails_loudly (seq m f)"
  unfolding fails_loudly_def seq_Inl_iff by blast

lemma loud_try_catch [loud_intro]: "(\<And>e. fails_loudly (h e)) \<Longrightarrow> fails_loudly (try_catch m h)"
  unfolding fails_loudly_def try_catch_iff by blast

lemma loud_try_catch_rethrow:
  "fails_loudly m \<Longrightarrow> (\<And>e. 400 \<le> status (error_response e) \<Longrightarrow> fails_loudly (h e)) \<Longrightarrow>
   fails_loudly (try_catch m h)"
  unfolding fails_loudly_def try_catch_iff by blast

lemma loud_split [loud_intro]:
  "(b \<Longrightarrow> fails_loudly p) \<Longrightarrow> (\<not> b \<Longrightarrow> fails_loudly q) \<Longrightarrow> fails_loudly (if b then p else q)"
  "fails_loudly p \<Longrightarrow> (\<And>x. fails_loudly (f x)) \<Longrightarrow> fails_loudly (case_option p f v)"
  "(\<And>x. fails_loudly (g x)) \<Longrightarrow> (\<And>x. fails_loudly (f x)) \<Longrightarrow> fails_loudly (case_sum g f s)"
  "(\<And>x y. fails_loudly (h x y)) \<Longrightarrow> fails_loudly (case_prod h z)"
  by (auto split: option.splits sum.splits prod.splits)

text \<open>So a handler that answered a status below 400 returned normally.\<close>

lemma handler_success:
  assumes "fails_loudly fn" and "handler fn w = (r, w')" and "status r < 400"
  shows "fn w = (Inr r, w')"
  using assms fails_loudlyD[OF assms(1), of w] by (fastforce simp: handler_iff)

subsection \<open>Relations every computation step keeps\<close>

text \<open>
  A property of the way the world moves: a reflexive and transitive relation that the statement
  counter does not affect. Inside the locale, a computation keeps the relation when its parts do;
  an interpretation supplies the relation and adds the statements that write.
\<close>

definition keeps :: "(world \<Rightarrow> world \<Rightarrow> bool) \<Rightarrow> 'a io \<Rightarrow> bool" where
  "keeps R m \<longleftrightarrow> (\<forall>w r w'. m w = (r, w') \<longrightarrow> R w w')"

lemma keepsD: "keeps R m \<Longrightarrow> m w = (r, w') \<Longrightarrow> R w w'"
  by (auto simp: keeps_def)

lemma keepsI: "(\<And>w r w'. m w = (r, w') \<Longrightarrow> R w w') \<Longrightarrow> keeps R m"
  by (auto simp: keeps_def)

locale world_relation =
  fixes R :: "world \<Rightarrow> world \<Rightarrow> bool"
  assumes R_refl: "R w w"
    and R_trans: "R u v \<Longrightarrow> R v w \<Longrightarrow> R u w"
    and R_counter: "R w (w\<lparr>db_calls := n\<rparr>)"
begin

lemma keeps_reads: "reads_only m \<Longrightarrow> keeps R m"
  using reads_onlyD R_counter by (fastforce intro: keepsI)

lemma keeps_pure:
  "keeps R (ret x)" "keeps R (throw e)" "keeps R (gets f)" "keeps R (asks g)"
  "keeps R (lift_res v)" "keeps R (guard_io b e)" "keeps R (server_env_io X)" "keeps R (read_json body)"
  "keeps R (select_stmt X h)" "keeps R (select_one X k)"
  by (intro keeps_reads query_intro)+

lemma keeps_seq:
  assumes "keeps R m" and "\<And>x. keeps R (f x)"
  shows "keeps R (seq m f)"
  using keepsD[OF assms(1)] keepsD[OF assms(2)] R_trans unfolding keeps_def seq_any_iff by blast

lemma keeps_try_catch:
  assumes "keeps R m" and "\<And>e. keeps R (h e)"
  shows "keeps R (try_catch m h)"
  using keepsD[OF assms(1)] keepsD[OF assms(2)] R_trans unfolding keeps_def try_catch_iff by blast

lemma keeps_split:
  "(b \<Longrightarrow> keeps R p) \<Longrightarrow> (\<not> b \<Longrightarrow> keeps R q) \<Longrightarrow> keeps R (if b then p else q)"
  "keeps R p \<Longrightarrow> (\<And>x. keeps R (f x)) \<Longrightarrow> keeps R (case_option p f v)"
  "(\<And>x. keeps R (g x)) \<Longrightarrow> (\<And>x. keeps R (f x)) \<Longrightarrow> keeps R (case_sum g f s)"
  "(\<And>x y. keeps R (h x y)) \<Longrightarrow> keeps R (case_prod h z)"
  by (auto split: option.splits sum.splits prod.splits)

text \<open>A statement keeps the relation when each run of it does.\<close>

lemma keeps_db_stmt:
  assumes "\<And>w r w'. st w = (r, w') \<Longrightarrow> R w w'"
  shows "keeps R (db_stmt X st)"
proof (rule keepsI)
  fix w r w' assume "db_stmt X st w = (r, w')"
  from db_stmt_cases[OF this] show "R w w'"
    using R_refl R_counter assms R_trans by metis
qed

lemmas keeps_intro = keeps_pure keeps_seq keeps_try_catch keeps_split

end

end
