(* ===== verification/ChainReads.thy ===== *)
theory ChainReads
  imports World
begin

text \<open>
  \<open>apps/platform/lib/chain/index.ts\<close>: role and permission identifiers, and the reads that turn
  the contracts' answers into the values the handlers decide on. A read takes the world (its
  environment and chain snapshot) and returns a value or throws; no read changes anything.
\<close>

subsection \<open>Roles and permissions\<close>

datatype role_name = ADMIN | MANAGER | AUDITOR | USER | NONE

fun role_text :: "role_name \<Rightarrow> string" where
  "role_text ADMIN = ''ADMIN''"
| "role_text MANAGER = ''MANAGER''"
| "role_text AUDITOR = ''AUDITOR''"
| "role_text USER = ''USER''"
| "role_text NONE = ''NONE''"

definition ROLE_NONE :: string where
  "ROLE_NONE = ''0x0000000000000000000000000000000000000000000000000000000000000000''"

definition ROLE_ADMIN :: "ext \<Rightarrow> string" where
  "ROLE_ADMIN X = x_keccak X ''OWNEX_ROLE_ADMIN''"

definition ROLE_MANAGER :: "ext \<Rightarrow> string" where
  "ROLE_MANAGER X = x_keccak X ''OWNEX_ROLE_MANAGER''"

definition ROLE_AUDITOR :: "ext \<Rightarrow> string" where
  "ROLE_AUDITOR X = x_keccak X ''OWNEX_ROLE_AUDITOR''"

definition ROLE_USER :: "ext \<Rightarrow> string" where
  "ROLE_USER X = x_keccak X ''OWNEX_ROLE_USER''"

text \<open>An object literal with computed keys: a later entry overrides an earlier one.\<close>

definition ROLE_NAMES :: "ext \<Rightarrow> (string \<times> role_name) list" where
  "ROLE_NAMES X =
    [(ROLE_ADMIN X, ADMIN), (ROLE_MANAGER X, MANAGER), (ROLE_AUDITOR X, AUDITOR),
     (ROLE_USER X, USER), (ROLE_NONE, NONE)]"

definition role_name_of :: "ext \<Rightarrow> string \<Rightarrow> role_name" where
  "role_name_of X role_hash =
    (let names = map_of (rev (ROLE_NAMES X)) in
     (case names (to_lower role_hash) of
        Some r \<Rightarrow> r
      | None \<Rightarrow> nullish (names role_hash) NONE))"

fun role_hash :: "ext \<Rightarrow> role_name \<Rightarrow> string" where
  "role_hash X ADMIN = ROLE_ADMIN X"
| "role_hash X MANAGER = ROLE_MANAGER X"
| "role_hash X AUDITOR = ROLE_AUDITOR X"
| "role_hash X USER = ROLE_USER X"
| "role_hash X NONE = ROLE_NONE"

datatype permission_key =
    MANAGE_MEMBERS | ASSIGN_ROLES | MINT_ASSETS | TRANSFER_ASSETS | VIEW_AUDIT | MANAGE_APPS

fun permission_text :: "permission_key \<Rightarrow> string" where
  "permission_text MANAGE_MEMBERS = ''MANAGE_MEMBERS''"
| "permission_text ASSIGN_ROLES = ''ASSIGN_ROLES''"
| "permission_text MINT_ASSETS = ''MINT_ASSETS''"
| "permission_text TRANSFER_ASSETS = ''TRANSFER_ASSETS''"
| "permission_text VIEW_AUDIT = ''VIEW_AUDIT''"
| "permission_text MANAGE_APPS = ''MANAGE_APPS''"

record permission_entry =
  pe_key :: permission_key
  pe_hash :: string
  pe_label :: string

definition PERMISSION_LIST :: "ext \<Rightarrow> permission_entry list" where
  "PERMISSION_LIST X =
    [\<lparr>pe_key = MANAGE_MEMBERS, pe_hash = x_keccak X ''PERM_MANAGE_MEMBERS'', pe_label = ''Manage members''\<rparr>,
     \<lparr>pe_key = ASSIGN_ROLES, pe_hash = x_keccak X ''PERM_ASSIGN_ROLES'', pe_label = ''Assign roles''\<rparr>,
     \<lparr>pe_key = MINT_ASSETS, pe_hash = x_keccak X ''PERM_MINT_ASSETS'', pe_label = ''Mint assets''\<rparr>,
     \<lparr>pe_key = TRANSFER_ASSETS, pe_hash = x_keccak X ''PERM_TRANSFER_ASSETS'', pe_label = ''Transfer assets''\<rparr>,
     \<lparr>pe_key = VIEW_AUDIT, pe_hash = x_keccak X ''PERM_VIEW_AUDIT'', pe_label = ''View audit''\<rparr>,
     \<lparr>pe_key = MANAGE_APPS, pe_hash = x_keccak X ''PERM_MANAGE_APPS'', pe_label = ''Manage applications''\<rparr>]"

subsection \<open>Contract access\<close>

text \<open>
  \<open>identityRegistry()\<close>, \<open>accessManager()\<close> and \<open>assetNFT()\<close> read the server environment before
  any call: an invalid environment throws here.
\<close>

definition contracts :: "ext \<Rightarrow> world \<Rightarrow> exn + chain" where
  "contracts X w = bind_res (server_env_of X (penv w)) (\<lambda>_. Inr (chain_now w))"

record asset_deployment =
  dep_chain_id :: int
  dep_contract :: string

definition asset_deployment_of :: "ext \<Rightarrow> world \<Rightarrow> exn + asset_deployment" where
  "asset_deployment_of X w =
    bind_res (server_env_of X (penv w)) (\<lambda>env.
      Inr \<lparr>dep_chain_id = CHAIN_ID env, dep_contract = to_lower (ASSET_NFT_ADDRESS env)\<rparr>)"

subsection \<open>Authoritative reads\<close>

record identity_state =
  is_wallet :: string
  is_registered :: bool
  is_active :: bool
  is_identity_hash :: "string option"
  is_registered_at :: "int option"

definition read_identity :: "ext \<Rightarrow> world \<Rightarrow> string \<Rightarrow> exn + identity_state" where
  "read_identity X w wallet =
    bind_res (contracts X w) (\<lambda>c.
    bind_res (c_identity c wallet) (\<lambda>record.
      Inr \<lparr>is_wallet = wallet,
           is_registered = ri_exists record,
           is_active = (ri_exists record \<and> ri_active record),
           is_identity_hash = (if ri_exists record then Some (ri_hash record) else None),
           is_registered_at = (if ri_exists record then Some (ri_registered_at record) else None)\<rparr>))"

definition read_effective_role :: "ext \<Rightarrow> world \<Rightarrow> int \<Rightarrow> string \<Rightarrow> exn + role_name" where
  "read_effective_role X w org_id wallet =
    bind_res (contracts X w) (\<lambda>c.
    bind_res (c_effective_role c org_id wallet) (\<lambda>h. Inr (role_name_of X h)))"

definition read_has_permission :: "ext \<Rightarrow> world \<Rightarrow> int \<Rightarrow> string \<Rightarrow> string \<Rightarrow> exn + bool" where
  "read_has_permission X w org_id wallet permission_hash =
    bind_res (contracts X w) (\<lambda>c. c_has_permission c org_id wallet permission_hash)"

record membership_state =
  ms_role :: role_name
  ms_joined_at :: "int option"
  ms_expires_at :: "int option"
  ms_expired :: bool

definition read_membership :: "ext \<Rightarrow> world \<Rightarrow> int \<Rightarrow> string \<Rightarrow> exn + membership_state" where
  "read_membership X w org_id wallet =
    bind_res (contracts X w) (\<lambda>c.
    bind_res (c_membership c org_id wallet) (\<lambda>m.
      let expires_at = rm_expires_at m in
      Inr \<lparr>ms_role = role_name_of X (rm_role m),
           ms_joined_at = (if rm_joined_at m = 0 then None else Some (rm_joined_at m)),
           ms_expires_at = (if expires_at = 0 then None else Some expires_at),
           ms_expired = (expires_at \<noteq> 0 \<and> expires_at * 1000 \<le> clock w)\<rparr>))"

definition read_permissions_for ::
  "ext \<Rightarrow> world \<Rightarrow> int \<Rightarrow> string \<Rightarrow> exn + (permission_key \<times> bool) list" where
  "read_permissions_for X w org_id wallet =
    map_res (\<lambda>p. bind_res (read_has_permission X w org_id wallet (pe_hash p))
                          (\<lambda>b. Inr (pe_key p, b)))
            (PERMISSION_LIST X)"

record organization_state =
  os_org_id :: int
  os_root_admin :: string
  os_metadata_hash :: string
  os_active :: bool
  os_created_at :: int

definition ZERO_ADDRESS :: string where
  "ZERO_ADDRESS = ''0x0000000000000000000000000000000000000000''"

definition read_organization :: "ext \<Rightarrow> world \<Rightarrow> int \<Rightarrow> exn + organization_state option" where
  "read_organization X w org_id =
    bind_res (contracts X w) (\<lambda>c.
    bind_res (c_organization c org_id) (\<lambda>org.
      if ro_root_admin org = ZERO_ADDRESS then Inr None
      else Inr (Some \<lparr>os_org_id = org_id,
                      os_root_admin = ro_root_admin org,
                      os_metadata_hash = ro_metadata_hash org,
                      os_active = ro_active org,
                      os_created_at = ro_created_at org\<rparr>)))"

record asset_state =
  at_token_id :: int
  at_org_id :: int
  at_asset_hash :: string
  at_assigned_to :: string
  at_owner :: string
  at_active :: bool
  at_minted_at :: int
  at_transfer_count :: int

definition read_asset :: "ext \<Rightarrow> world \<Rightarrow> int \<Rightarrow> exn + asset_state option" where
  "read_asset X w token_id =
    bind_res (contracts X w) (\<lambda>c.
    bind_res (c_asset c token_id) (\<lambda>record.
      if ra_org_id record = 0 then Inr None
      else bind_res (c_owner_of c token_id) (\<lambda>owner.
        Inr (Some \<lparr>at_token_id = token_id,
                   at_org_id = ra_org_id record,
                   at_asset_hash = ra_asset_hash record,
                   at_assigned_to = ra_assigned_to record,
                   at_owner = owner,
                   at_active = ra_active record,
                   at_minted_at = ra_minted_at record,
                   at_transfer_count = ra_transfer_count record\<rparr>))))"

definition read_assets_of_holder :: "ext \<Rightarrow> world \<Rightarrow> string \<Rightarrow> exn + int list" where
  "read_assets_of_holder X w wallet = bind_res (contracts X w) (\<lambda>c. c_assets_of_holder c wallet)"

definition read_assets_of_organization :: "ext \<Rightarrow> world \<Rightarrow> int \<Rightarrow> exn + int list" where
  "read_assets_of_organization X w org_id =
    bind_res (contracts X w) (\<lambda>c. c_assets_of_organization c org_id)"

definition read_can_access_app :: "ext \<Rightarrow> world \<Rightarrow> int \<Rightarrow> string \<Rightarrow> string \<Rightarrow> exn + bool" where
  "read_can_access_app X w org_id wallet app_id =
    bind_res (contracts X w) (\<lambda>c. c_can_access_app c org_id wallet app_id)"

subsection \<open>The roster\<close>

record org_member_state =
  om_wallet :: string
  om_role :: role_name
  om_stored_role :: role_name
  om_joined_at :: "int option"
  om_expires_at :: "int option"
  om_expired :: bool
  om_is_root_admin :: bool

definition roster_wallets :: "string option \<Rightarrow> string list \<Rightarrow> string list" where
  "roster_wallets root_admin listed =
    (case root_admin of
       None \<Rightarrow> listed
     | Some admin \<Rightarrow>
       if admin \<noteq> [] \<and> \<not> list_ex (\<lambda>v. to_lower v = to_lower admin) listed
       then admin # listed else listed)"

definition read_org_members :: "ext \<Rightarrow> world \<Rightarrow> int \<Rightarrow> exn + org_member_state list" where
  "read_org_members X w org_id =
    bind_res (contracts X w) (\<lambda>c.
    bind_res (c_members c org_id) (\<lambda>listed.
    bind_res (read_organization X w org_id) (\<lambda>organization.
      let root_admin = map_option os_root_admin organization in
      map_res (\<lambda>wallet.
        bind_res (read_membership X w org_id wallet) (\<lambda>membership.
        bind_res (read_effective_role X w org_id wallet) (\<lambda>role.
          Inr \<lparr>om_wallet = wallet,
               om_role = role,
               om_stored_role = ms_role membership,
               om_joined_at = ms_joined_at membership,
               om_expires_at = ms_expires_at membership,
               om_expired = ms_expired membership,
               om_is_root_admin =
                 (case root_admin of None \<Rightarrow> False
                  | Some admin \<Rightarrow> to_lower admin = to_lower wallet)\<rparr>)))
        (roster_wallets root_admin listed))))"

subsection \<open>The permission matrix\<close>

datatype override_state = Unset | Allowed | Denied

fun override_text :: "override_state \<Rightarrow> string" where
  "override_text Unset = ''Unset''"
| "override_text Allowed = ''Allowed''"
| "override_text Denied = ''Denied''"

definition override_of :: "nat \<Rightarrow> override_state" where
  "override_of n = (if n = 1 then Allowed else if n = 2 then Denied else Unset)"

record matrix_cell =
  mc_role :: role_name
  mc_permission :: permission_key
  mc_default :: bool
  mc_override :: override_state
  mc_effective :: bool

definition read_matrix_cell ::
  "ext \<Rightarrow> world \<Rightarrow> int \<Rightarrow> role_name \<times> permission_entry \<Rightarrow> exn + matrix_cell" where
  "read_matrix_cell X w org_id cell =
    (case cell of (role, permission) \<Rightarrow>
      bind_res (contracts X w) (\<lambda>c.
      bind_res (c_default_permission c (role_hash X role) (pe_hash permission)) (\<lambda>default_allowed.
      bind_res (c_permission_override c org_id (role_hash X role) (pe_hash permission)) (\<lambda>override.
        let state = override_of override in
        Inr \<lparr>mc_role = role,
             mc_permission = pe_key permission,
             mc_default = default_allowed,
             mc_override = state,
             mc_effective = (if state = Allowed then True
                             else if state = Denied then False else default_allowed)\<rparr>))))"

definition read_permission_matrix :: "ext \<Rightarrow> world \<Rightarrow> int \<Rightarrow> exn + matrix_cell list" where
  "read_permission_matrix X w org_id =
    map_res (read_matrix_cell X w org_id)
      (concat (map (\<lambda>role. map (\<lambda>p. (role, p)) (PERMISSION_LIST X))
                   [ADMIN, MANAGER, AUDITOR, USER]))"

subsection \<open>Memberships of a wallet\<close>

record membership_entry =
  me_org_id :: int
  me_role :: role_name
  me_active :: bool
  me_is_root_admin :: bool

definition read_membership_entry ::
  "ext \<Rightarrow> world \<Rightarrow> string \<Rightarrow> int \<Rightarrow> exn + membership_entry option" where
  "read_membership_entry X w wallet org_id =
    bind_res (read_effective_role X w org_id wallet) (\<lambda>role.
      if role = NONE then Inr None
      else bind_res (read_organization X w org_id) (\<lambda>org.
        Inr (Some \<lparr>me_org_id = org_id,
                   me_role = role,
                   me_active = (case org of None \<Rightarrow> False | Some o' \<Rightarrow> os_active o'),
                   me_is_root_admin = (map_option os_root_admin org = Some wallet)\<rparr>)))"

definition read_memberships :: "ext \<Rightarrow> world \<Rightarrow> string \<Rightarrow> exn + membership_entry list" where
  "read_memberships X w wallet =
    bind_res (contracts X w) (\<lambda>c.
    bind_res (c_organization_count c) (\<lambda>total.
    bind_res (map_res (read_membership_entry X w wallet) [1..total]) (\<lambda>entries.
      Inr (List.map_filter id entries))))"

definition app_id_from_slug :: "ext \<Rightarrow> string \<Rightarrow> string" where
  "app_id_from_slug X slug = x_keccak X slug"

subsection \<open>Lemmas\<close>

lemma contracts_iff [res_iff]:
  "contracts X w = Inr c \<longleftrightarrow> (\<exists>env. server_env_of X (penv w) = Inr env) \<and> c = chain_now w"
  by (auto simp: contracts_def res_iff)

lemma role_text_inj: "role_text r = role_text s \<longleftrightarrow> r = s"
  by (cases r; cases s) auto

lemma role_text_not_Nil [simp]: "role_text r \<noteq> []"
  by (cases r) auto

lemma role_text_NONE [simp]: "role_text r = ''NONE'' \<longleftrightarrow> r = NONE"
  by (cases r) auto

lemma to_lower_ROLE_NONE: "to_lower ROLE_NONE = ROLE_NONE"
  by code_simp

lemma role_name_of_ROLE_NONE: "role_name_of X ROLE_NONE = NONE"
  by (simp add: role_name_of_def to_lower_ROLE_NONE ROLE_NAMES_def)

text \<open>Reads do not depend on the database or on the statement counter.\<close>

lemma read_counter_cong [simp]:
  "contracts X (w\<lparr>db_calls := n\<rparr>) = contracts X w"
  "asset_deployment_of X (w\<lparr>db_calls := n\<rparr>) = asset_deployment_of X w"
  by (simp_all add: contracts_def asset_deployment_of_def)

lemma read_counter_congs [simp]:
  "read_identity X (w\<lparr>db_calls := n\<rparr>) = read_identity X w"
  "read_effective_role X (w\<lparr>db_calls := n\<rparr>) = read_effective_role X w"
  "read_has_permission X (w\<lparr>db_calls := n\<rparr>) = read_has_permission X w"
  "read_membership X (w\<lparr>db_calls := n\<rparr>) = read_membership X w"
  "read_organization X (w\<lparr>db_calls := n\<rparr>) = read_organization X w"
  "read_asset X (w\<lparr>db_calls := n\<rparr>) = read_asset X w"
  "read_assets_of_holder X (w\<lparr>db_calls := n\<rparr>) = read_assets_of_holder X w"
  "read_can_access_app X (w\<lparr>db_calls := n\<rparr>) = read_can_access_app X w"
  by (auto simp: fun_eq_iff read_identity_def read_effective_role_def read_has_permission_def
        read_membership_def read_organization_def read_asset_def read_assets_of_holder_def
        read_can_access_app_def)

lemma read_permissions_counter [simp]:
  "read_permissions_for X (w\<lparr>db_calls := n\<rparr>) = read_permissions_for X w"
  by (auto simp: fun_eq_iff read_permissions_for_def)

end
