(* ===== verification/Session.thy ===== *)
theory Session
  imports ChainReads
begin

text \<open>
  \<open>apps/platform/lib/session.ts\<close> and \<open>apps/platform/lib/authz.ts\<close>. The cookie's content is what
  iron-session unsealed, an empty session when it could not. The cookie says who the caller is;
  every permission is read from the contracts of the same world.
\<close>

subsection \<open>The session cookie\<close>

definition SESSION_TTL_SECONDS :: int where
  "SESSION_TTL_SECONDS = 60 * 60 * 24"

definition DEFAULT_SESSION_PASSWORD :: string where
  "DEFAULT_SESSION_PASSWORD = ''ownex-platform-secure-session-password-default-32chars''"

text \<open>The password that \<open>options()\<close> seals the cookie with.\<close>

definition session_password :: "ext \<Rightarrow> process_env \<Rightarrow> string" where
  "session_password X env =
    (let configured = env ''SESSION_PASSWORD'';
         password =
           (if \<not> truthy configured \<or> length (nullish configured []) < 32
            then (case server_env_of X env of
                    Inr e \<Rightarrow> SESSION_PASSWORD e
                  | Inl _ \<Rightarrow> DEFAULT_SESSION_PASSWORD)
            else nullish configured [])
     in (if password = [] then DEFAULT_SESSION_PASSWORD else password))"

definition empty_session :: session_data where
  "empty_session = \<lparr>sd_wallet = None, sd_chain_id = None, sd_issued_at = None\<rparr>"

definition create_session :: "string \<Rightarrow> int \<Rightarrow> unit io" where
  "create_session wallet chain_id =
    update_world (\<lambda>w. w\<lparr>cookie := \<lparr>sd_wallet = Some wallet,
                                   sd_chain_id = Some chain_id,
                                   sd_issued_at = Some (clock w div 1000)\<rparr>\<rparr>)"

definition destroy_session :: "unit io" where
  "destroy_session = update_world (\<lambda>w. w\<lparr>cookie := empty_session\<rparr>)"

definition session_wallet :: "world \<Rightarrow> string option" where
  "session_wallet w =
    (let session = cookie w in
     if \<not> truthy (sd_wallet session) \<or> sd_issued_at session = None \<or> sd_issued_at session = Some 0
     then None
     else
       let age = clock w div 1000 - nullish (sd_issued_at session) 0 in
       if age > SESSION_TTL_SECONDS then None else sd_wallet session)"

subsection \<open>Authorization\<close>

definition require_caller :: "string io" where
  "require_caller = asks (\<lambda>w.
    case session_wallet w of None \<Rightarrow> Inl unauthorized | Some wallet \<Rightarrow> Inr wallet)"

definition require_active_identity :: "ext \<Rightarrow> string io" where
  "require_active_identity X =
    seq require_caller (\<lambda>caller.
    seq (asks (\<lambda>w. read_identity X w caller)) (\<lambda>identity.
    seq (guard_io (is_registered identity) (forbidden ''This wallet has no registered identity'')) (\<lambda>_.
    seq (guard_io (is_active identity) (forbidden ''This identity has been revoked'')) (\<lambda>_.
      ret caller))))"

definition require_member :: "ext \<Rightarrow> int \<Rightarrow> (string \<times> role_name) io" where
  "require_member X org_id =
    seq (require_active_identity X) (\<lambda>caller.
    seq (asks (\<lambda>w. read_effective_role X w org_id caller)) (\<lambda>role.
    seq (guard_io (role \<noteq> NONE) (forbidden ''You are not a member of this organization'')) (\<lambda>_.
      ret (caller, role))))"

definition find_permission :: "ext \<Rightarrow> permission_key \<Rightarrow> permission_entry option" where
  "find_permission X permission = find (\<lambda>p. pe_key p = permission) (PERMISSION_LIST X)"

definition require_permission :: "ext \<Rightarrow> int \<Rightarrow> permission_key \<Rightarrow> (string \<times> role_name) io" where
  "require_permission X org_id permission =
    seq (require_active_identity X) (\<lambda>caller.
      (case find_permission X permission of
         None \<Rightarrow> throw (forbidden ''Unknown permission'')
       | Some entry \<Rightarrow>
         seq (asks (\<lambda>w. read_has_permission X w org_id caller (pe_hash entry))) (\<lambda>allowed.
         seq (guard_io allowed (forbidden (''Your role cannot '' @ to_lower (pe_label entry)))) (\<lambda>_.
         seq (asks (\<lambda>w. read_effective_role X w org_id caller)) (\<lambda>role.
           ret (caller, role))))))"

subsection \<open>Lemmas\<close>

lemma session_wallet_counter [simp]: "session_wallet (w\<lparr>db_calls := n\<rparr>) = session_wallet w"
  by (simp add: session_wallet_def Let_def cong: if_cong)

lemma require_caller_iff [io_iff]:
  "require_caller w = (Inr c, w') \<longleftrightarrow> session_wallet w = Some c \<and> w' = w"
  by (auto simp: require_caller_def asks_def split: option.splits)

lemma require_active_identity_iff [io_iff]:
  "require_active_identity X w = (Inr c, w') \<longleftrightarrow>
     w' = w \<and> session_wallet w = Some c
     \<and> (\<exists>i. read_identity X w c = Inr i \<and> is_registered i \<and> is_active i)"
  by (auto simp: require_active_identity_def io_iff)

lemma require_member_iff [io_iff]:
  "require_member X org w = (Inr (c, r), w') \<longleftrightarrow>
     w' = w \<and> session_wallet w = Some c
     \<and> (\<exists>i. read_identity X w c = Inr i \<and> is_registered i \<and> is_active i)
     \<and> read_effective_role X w org c = Inr r \<and> r \<noteq> NONE"
  by (auto simp: require_member_def io_iff)

lemma find_permission_total: "\<exists>e. find_permission X p = Some e \<and> pe_key e = p"
  by (cases p) (auto simp: find_permission_def PERMISSION_LIST_def)

definition permission_hash :: "ext \<Rightarrow> permission_key \<Rightarrow> string" where
  "permission_hash X p = pe_hash (the (find_permission X p))"

lemma require_permission_iff [io_iff]:
  "require_permission X org p w = (Inr (c, r), w') \<longleftrightarrow>
     w' = w \<and> session_wallet w = Some c
     \<and> (\<exists>i. read_identity X w c = Inr i \<and> is_registered i \<and> is_active i)
     \<and> read_has_permission X w org c (permission_hash X p) = Inr True
     \<and> read_effective_role X w org c = Inr r"
proof -
  obtain e where "find_permission X p = Some e" using find_permission_total by blast
  then show ?thesis
    by (auto simp: require_permission_def permission_hash_def io_iff)
qed

text \<open>Authorization reads and never writes, whatever it answers.\<close>

lemma asks_state: "asks f w = (r, w') \<Longrightarrow> w' = w"
  by (auto simp: asks_def)

lemma guard_state: "guard_io b e w = (r, w') \<Longrightarrow> w' = w"
  by (auto simp: guard_io_def ret_def throw_def split: if_splits)

lemma seq_state:
  assumes "seq m f w = (r, w')" and "\<And>r w1. m w = (r, w1) \<Longrightarrow> w1 = w"
    and "\<And>x r w1. f x w = (r, w1) \<Longrightarrow> w1 = w"
  shows "w' = w"
  using assms unfolding seq_def by (fastforce split: prod.splits sum.splits)

lemma require_caller_state: "require_caller w = (r, w') \<Longrightarrow> w' = w"
  unfolding require_caller_def by (rule asks_state)

lemma ret_state: "ret x w = (r, w') \<Longrightarrow> w' = w"
  by (simp add: ret_def)

lemma throw_state: "throw e w = (r, w') \<Longrightarrow> w' = w"
  by (simp add: throw_def)

lemma require_active_identity_state: "require_active_identity X w = (r, w') \<Longrightarrow> w' = w"
  unfolding require_active_identity_def
  by (rule seq_state, assumption, erule require_caller_state)
     (elim seq_state asks_state guard_state ret_state)

lemma require_member_state: "require_member X org w = (r, w') \<Longrightarrow> w' = w"
  unfolding require_member_def
  by (rule seq_state, assumption, erule require_active_identity_state)
     (elim seq_state asks_state guard_state ret_state)

lemma require_permission_state: "require_permission X org p w = (r, w') \<Longrightarrow> w' = w"
proof -
  obtain e where e: "find_permission X p = Some e" using find_permission_total by blast
  assume "require_permission X org p w = (r, w')"
  then show ?thesis unfolding require_permission_def e option.case
    by (rule seq_state, erule_tac [1] require_active_identity_state)
       (elim seq_state asks_state guard_state ret_state)
qed

end
