(* ===== verification/AccessDecision.thy ===== *)
theory AccessDecision
  imports Outcome
begin

text \<open>
  \<open>apps/platform/lib/access-decision.ts\<close>: the access decision, its fail-closed evaluation over
  injectable readers, and the claims a partner application may see. A reader is the result of
  its promise, \<open>exn + 'a\<close>; \<open>Promise.all\<close> rejects as soon as one reader does, and which of
  several rejections wins only changes the logged \<open>detail\<close>.
\<close>

subsection \<open>Deny reasons\<close>

datatype deny_reason =
    ORGANIZATION_NOT_FOUND
  | ORGANIZATION_SUSPENDED
  | IDENTITY_NOT_REGISTERED
  | IDENTITY_REVOKED
  | NOT_A_MEMBER
  | ROLE_EXPIRED
  | APP_ACCESS_NOT_GRANTED
  | APPLICATION_NOT_REGISTERED

fun deny_code :: "deny_reason \<Rightarrow> string" where
  "deny_code ORGANIZATION_NOT_FOUND = ''ORGANIZATION_NOT_FOUND''"
| "deny_code ORGANIZATION_SUSPENDED = ''ORGANIZATION_SUSPENDED''"
| "deny_code IDENTITY_NOT_REGISTERED = ''IDENTITY_NOT_REGISTERED''"
| "deny_code IDENTITY_REVOKED = ''IDENTITY_REVOKED''"
| "deny_code NOT_A_MEMBER = ''NOT_A_MEMBER''"
| "deny_code ROLE_EXPIRED = ''ROLE_EXPIRED''"
| "deny_code APP_ACCESS_NOT_GRANTED = ''APP_ACCESS_NOT_GRANTED''"
| "deny_code APPLICATION_NOT_REGISTERED = ''APPLICATION_NOT_REGISTERED''"

text \<open>\<open>explainDenial\<close>\<close>

fun explain_denial :: "deny_reason \<Rightarrow> string" where
  "explain_denial ORGANIZATION_NOT_FOUND = ''That organization does not exist on-chain.''"
| "explain_denial ORGANIZATION_SUSPENDED = ''This organization is currently suspended.''"
| "explain_denial IDENTITY_NOT_REGISTERED = ''This wallet has no registered owneX identity.''"
| "explain_denial IDENTITY_REVOKED = ''This identity has been revoked.''"
| "explain_denial NOT_A_MEMBER = ''This wallet is not a member of the organization.''"
| "explain_denial ROLE_EXPIRED = ''The membership behind this role has expired.''"
| "explain_denial APP_ACCESS_NOT_GRANTED =
     ''This role has not been granted access to the application on-chain.''"
| "explain_denial APPLICATION_NOT_REGISTERED =
     ''The application is not registered on-chain for this organization.''"

subsection \<open>The decision\<close>

text \<open>An optional property of type \<open>boolean | null\<close> has three kinds of value.\<close>

datatype 'a tri = Undefined | Null | Value 'a

record identity_flags =
  id_registered :: bool
  id_active :: bool

text \<open>
  \<open>AccessSnapshot\<close>. \<open>snap_organization\<close> is the organization's active flag, or \<open>None\<close> for null.
  The code reads \<open>identity\<close> and \<open>membership\<close> through \<open>?.\<close>, so both are optional here too;
  \<open>snap_membership\<close> is the membership's expired flag.
\<close>

record access_snapshot =
  snap_organization :: "bool option"
  snap_identity :: "identity_flags option"
  snap_membership :: "bool option"
  snap_role :: string
  snap_app_access :: "bool tri"
  snap_app_registered :: "bool tri"

record access_decision =
  allowed :: bool
  reason :: "deny_reason option"

definition deny :: "deny_reason \<Rightarrow> access_decision" where
  "deny r = \<lparr>allowed = False, reason = Some r\<rparr>"

definition allow :: access_decision where
  "allow = \<lparr>allowed = True, reason = None\<rparr>"

definition decide_access :: "access_snapshot \<Rightarrow> access_decision" where
  "decide_access s =
    (case snap_organization s of
       None \<Rightarrow> deny ORGANIZATION_NOT_FOUND
     | Some org_active \<Rightarrow>
    (case snap_identity s of
       None \<Rightarrow> deny IDENTITY_NOT_REGISTERED
     | Some identity \<Rightarrow>
       if \<not> id_registered identity then deny IDENTITY_NOT_REGISTERED
       else if \<not> id_active identity then deny IDENTITY_REVOKED
       else if \<not> org_active then deny ORGANIZATION_SUSPENDED
       else if snap_membership s = Some True then deny ROLE_EXPIRED
       else if snap_role s = [] \<or> snap_role s = ''NONE'' then deny NOT_A_MEMBER
       else (case snap_app_access s of
               Value access \<Rightarrow>
                 if snap_app_registered s = Value False then deny APPLICATION_NOT_REGISTERED
                 else if \<not> access then deny APP_ACCESS_NOT_GRANTED
                 else allow
             | Null \<Rightarrow>
                 if snap_app_registered s = Value False then deny APPLICATION_NOT_REGISTERED
                 else allow
             | Undefined \<Rightarrow> allow)))"

subsection \<open>Fail-closed evaluation\<close>

record membership_view =
  mv_joined_at :: "int option"
  mv_expires_at :: "int option"
  mv_expired :: bool

record app_view =
  av_slug :: string
  av_app_id :: string
  av_registered :: bool
  av_allowed :: bool

type_synonym permission_map = "(string \<times> json) list"

record access_readers =
  rd_organization :: "exn + bool option"
  rd_identity :: "exn + identity_flags"
  rd_role :: "exn + string"
  rd_membership :: "exn + membership_view"
  rd_permissions :: "string \<Rightarrow> exn + permission_map option"
  rd_app :: "exn + app_view option"

record evaluated_snapshot =
  es_role :: string
  es_identity_registered :: bool
  es_identity_active :: bool
  es_organization_active :: bool
  es_membership :: membership_view
  es_permissions :: "permission_map option"
  es_app :: "app_view option"

datatype evaluated_access =
    Evaluated access_decision evaluated_snapshot
  | ChainUnavailable string

definition evaluate_reads ::
  "access_readers \<Rightarrow> exn + access_decision \<times> evaluated_snapshot" where
  "evaluate_reads R =
    bind_res (rd_organization R) (\<lambda>organization.
    bind_res (rd_identity R) (\<lambda>identity.
    bind_res (rd_role R) (\<lambda>role.
    bind_res (rd_membership R) (\<lambda>membership.
    bind_res (rd_app R) (\<lambda>app.
    bind_res (if role = ''NONE'' then Inr None else rd_permissions R role) (\<lambda>permissions.
      Inr (decide_access
             \<lparr>snap_organization = organization,
              snap_identity = Some identity,
              snap_membership = Some (mv_expired membership),
              snap_role = role,
              snap_app_access = (case app of None \<Rightarrow> Undefined | Some a \<Rightarrow> Value (av_allowed a)),
              snap_app_registered = (case app of None \<Rightarrow> Undefined | Some a \<Rightarrow> Value (av_registered a))\<rparr>,
           \<lparr>es_role = role,
            es_identity_registered = id_registered identity,
            es_identity_active = id_active identity,
            es_organization_active = (organization = Some True),
            es_membership = membership,
            es_permissions = permissions,
            es_app = app\<rparr>)))))))"

definition evaluate_access :: "access_readers \<Rightarrow> evaluated_access" where
  "evaluate_access R =
    (case evaluate_reads R of
       Inr (decision, snapshot) \<Rightarrow> Evaluated decision snapshot
     | Inl e \<Rightarrow> ChainUnavailable (nullish (exn_message e) ''Unknown chain error''))"

subsection \<open>Claims\<close>

record partner_claims =
  pc_wallet :: string
  pc_org_id :: int
  pc_role :: string
  pc_permissions :: "(string \<times> bool) list"
  pc_identity_active :: bool
  pc_verified_at :: string

definition PARTNER_CLAIM_KEYS :: "string list" where
  "PARTNER_CLAIM_KEYS =
    [''wallet'', ''orgId'', ''role'', ''permissions'', ''identityActive'', ''verifiedAt'']"

definition FORBIDDEN_CLAIM_KEYS :: "string list" where
  "FORBIDDEN_CLAIM_KEYS =
    [''email'', ''emailEncrypted'', ''email_encrypted'', ''emailMasked'', ''phone'',
     ''phoneEncrypted'', ''phone_encrypted'', ''displayName'', ''display_name'', ''jobTitle'',
     ''job_title'', ''department'', ''avatarUrl'', ''avatar_url'', ''identityHash'',
     ''serialNumber'', ''serial_encrypted'', ''invoiceReference'', ''invoice_encrypted'',
     ''privateKey'', ''mnemonic'', ''seedPhrase'', ''clientSecret'', ''client_secret'',
     ''clientSecretHash'', ''client_secret_hash'']"

text \<open>Booleans only, and only for keys whose value is a boolean.\<close>

fun boolean_entries :: "permission_map \<Rightarrow> (string \<times> bool) list" where
  "boolean_entries [] = []"
| "boolean_entries ((k, JBool b) # ps) = (k, b) # boolean_entries ps"
| "boolean_entries (_ # ps) = boolean_entries ps"

definition normalize_permissions :: "permission_map option \<Rightarrow> (string \<times> bool) list" where
  "normalize_permissions ps = (case ps of None \<Rightarrow> [] | Some entries \<Rightarrow> boolean_entries entries)"

text \<open>
  \<open>buildPartnerClaims\<close>; \<open>verified_at\<close> is the rendering of \<open>input.verifiedAt ?? new Date()\<close> by
  \<open>toISOString\<close>, which the caller supplies.
\<close>

definition build_partner_claims ::
  "string \<Rightarrow> int \<Rightarrow> string \<Rightarrow> permission_map option \<Rightarrow> bool \<Rightarrow> string \<Rightarrow> partner_claims" where
  "build_partner_claims wallet org_id role permissions identity_active verified_at =
    \<lparr>pc_wallet = to_lower wallet,
     pc_org_id = org_id,
     pc_role = role,
     pc_permissions = normalize_permissions permissions,
     pc_identity_active = identity_active,
     pc_verified_at = verified_at\<rparr>"

definition claims_entries :: "partner_claims \<Rightarrow> (string \<times> json) list" where
  "claims_entries c =
    [(''wallet'', JStr (pc_wallet c)),
     (''orgId'', JNum (pc_org_id c)),
     (''role'', JStr (pc_role c)),
     (''permissions'', JObj (map (\<lambda>(k, b). (k, JBool b)) (pc_permissions c))),
     (''identityActive'', JBool (pc_identity_active c)),
     (''verifiedAt'', JStr (pc_verified_at c))]"

definition claims_json :: "partner_claims \<Rightarrow> json" where
  "claims_json c = JObj (claims_entries c)"

subsection \<open>Lemmas\<close>

lemma allow_deny [simp]:
  "allowed allow" "\<not> allowed (deny r)" "reason allow = None" "reason (deny r) = Some r"
  "deny r \<noteq> allow" "allow \<noteq> deny r" "deny r = deny r' \<longleftrightarrow> r = r'"
  by (auto simp: allow_def deny_def)

lemma decide_access_cases:
  "decide_access s = allow \<or> (\<exists>r. decide_access s = deny r)"
  unfolding decide_access_def by (auto split: option.splits tri.splits)

lemma decide_access_reason: "allowed (decide_access s) \<longleftrightarrow> reason (decide_access s) = None"
  using decide_access_cases[of s] by auto

lemma decide_access_allowed:
  "allowed (decide_access s) \<longleftrightarrow>
     snap_organization s = Some True
     \<and> (\<exists>i. snap_identity s = Some i \<and> id_registered i \<and> id_active i)
     \<and> snap_membership s \<noteq> Some True
     \<and> snap_role s \<noteq> [] \<and> snap_role s \<noteq> ''NONE''
     \<and> (case snap_app_access s of
          Value a \<Rightarrow> a \<and> snap_app_registered s \<noteq> Value False
        | Null \<Rightarrow> snap_app_registered s \<noteq> Value False
        | Undefined \<Rightarrow> True)"
  unfolding decide_access_def by (auto split: option.splits tri.splits)

lemma evaluate_access_EvaluatedD:
  assumes "evaluate_access R = Evaluated d snap"
  shows "\<exists>org ident role mem app perms.
     rd_organization R = Inr org \<and> rd_identity R = Inr ident \<and> rd_role R = Inr role
     \<and> rd_membership R = Inr mem \<and> rd_app R = Inr app
     \<and> (if role = ''NONE'' then perms = None else rd_permissions R role = Inr perms)
     \<and> d = decide_access
             \<lparr>snap_organization = org, snap_identity = Some ident,
              snap_membership = Some (mv_expired mem), snap_role = role,
              snap_app_access = (case app of None \<Rightarrow> Undefined | Some a \<Rightarrow> Value (av_allowed a)),
              snap_app_registered = (case app of None \<Rightarrow> Undefined | Some a \<Rightarrow> Value (av_registered a))\<rparr>
     \<and> snap = \<lparr>es_role = role, es_identity_registered = id_registered ident,
              es_identity_active = id_active ident, es_organization_active = (org = Some True),
              es_membership = mem, es_permissions = perms, es_app = app\<rparr>"
  using assms unfolding evaluate_access_def evaluate_reads_def
  by (auto simp: res_iff split: sum.splits prod.splits if_splits)

lemma boolean_entries_keys: "fst ` set (boolean_entries ps) \<subseteq> fst ` set ps"
  by (induction ps rule: boolean_entries.induct) auto

lemma claims_json_keys: "obj_keys (claims_json c) = PARTNER_CLAIM_KEYS"
  by (simp add: claims_json_def claims_entries_def PARTNER_CLAIM_KEYS_def)

lemma claims_entries_all_keys:
  "all_keys (JObj (claims_entries c)) = set PARTNER_CLAIM_KEYS \<union> fst ` set (pc_permissions c)"
  by (force simp: claims_entries_def PARTNER_CLAIM_KEYS_def)

subsection \<open>Properties\<close>

text \<open>
  The documented decision, as a table: each check is a condition under which access is refused,
  with its reason; the first one that holds is the reason given.
\<close>

definition access_checks :: "access_snapshot \<Rightarrow> (bool \<times> deny_reason) list" where
  "access_checks s =
    [(snap_organization s = None, ORGANIZATION_NOT_FOUND),
     (map_option id_registered (snap_identity s) \<noteq> Some True, IDENTITY_NOT_REGISTERED),
     (map_option id_active (snap_identity s) \<noteq> Some True, IDENTITY_REVOKED),
     (snap_organization s = Some False, ORGANIZATION_SUSPENDED),
     (snap_membership s = Some True, ROLE_EXPIRED),
     (snap_role s \<in> {[], ''NONE''}, NOT_A_MEMBER),
     (snap_app_access s \<noteq> Undefined \<and> snap_app_registered s = Value False, APPLICATION_NOT_REGISTERED),
     (snap_app_access s = Value False, APP_ACCESS_NOT_GRANTED)]"


text \<open>C2. A decision is made only on a complete set of reads: when any reader of the snapshot
  rejects (the permission reader counts unless the role is NONE), the outcome is
  \<open>chainUnavailable\<close>, and in every other case there is a decision.\<close>

theorem evaluate_access_fails_closed:
  "(\<exists>msg. evaluate_access R = ChainUnavailable msg) \<longleftrightarrow>
     (\<exists>e. rd_organization R = Inl e) \<or> (\<exists>e. rd_identity R = Inl e) \<or> (\<exists>e. rd_role R = Inl e)
     \<or> (\<exists>e. rd_membership R = Inl e) \<or> (\<exists>e. rd_app R = Inl e)
     \<or> (\<exists>role e. rd_role R = Inr role \<and> role \<noteq> ''NONE'' \<and> rd_permissions R role = Inl e)"
  unfolding evaluate_access_def evaluate_reads_def
  by (cases "rd_organization R"; cases "rd_identity R"; cases "rd_role R"; cases "rd_membership R";
      cases "rd_app R") (auto simp: bind_res_Inl_iff split: sum.splits)

end
