(* ===== verification/LiveAccess.thy ===== *)
theory LiveAccess
  imports Session AccessDecision
begin

text \<open>
  \<open>apps/platform/lib/live-access.ts\<close>: the live readers wired to the chain, and the roles the chain
  lets into an application. \<open>live_access\<close> is what every partner-facing route decides on.
\<close>

definition ASSIGNABLE_ROLES :: "role_name list" where
  "ASSIGNABLE_ROLES = [ADMIN, MANAGER, AUDITOR, USER]"

definition permission_json :: "(permission_key \<times> bool) list \<Rightarrow> permission_map" where
  "permission_json ps = map (\<lambda>(k, b). (permission_text k, JBool b)) ps"

definition live_readers :: "ext \<Rightarrow> world \<Rightarrow> int \<Rightarrow> string \<Rightarrow> string option \<Rightarrow> access_readers" where
  "live_readers X w org_id wallet app_slug =
    (let app_id = (if truthy app_slug then Some (app_id_from_slug X (the app_slug)) else None) in
    \<lparr>rd_organization = bind_res (read_organization X w org_id) (\<lambda>o'. Inr (map_option os_active o')),
     rd_identity = bind_res (read_identity X w wallet) (\<lambda>i.
       Inr \<lparr>id_registered = is_registered i, id_active = is_active i\<rparr>),
     rd_role = bind_res (read_effective_role X w org_id wallet) (\<lambda>r. Inr (role_text r)),
     rd_membership = bind_res (read_membership X w org_id wallet) (\<lambda>m.
       Inr \<lparr>mv_joined_at = ms_joined_at m, mv_expires_at = ms_expires_at m, mv_expired = ms_expired m\<rparr>),
     rd_permissions = (\<lambda>role. bind_res (read_permissions_for X w org_id wallet) (\<lambda>ps.
       Inr (Some (permission_json ps)))),
     rd_app =
       (if \<not> truthy app_id \<or> \<not> truthy app_slug then Inr None
        else bind_res (contracts X w) (\<lambda>c.
          bind_res (c_app_registered c org_id (the app_id)) (\<lambda>registered.
          bind_res (read_can_access_app X w org_id wallet (the app_id)) (\<lambda>allowed.
            Inr (Some \<lparr>av_slug = the app_slug, av_app_id = the app_id,
                       av_registered = registered, av_allowed = allowed\<rparr>)))))\<rparr>)"

definition evaluate_live_access ::
  "ext \<Rightarrow> world \<Rightarrow> int \<Rightarrow> string \<Rightarrow> string option \<Rightarrow> evaluated_access" where
  "evaluate_live_access X w org_id wallet app_slug =
    evaluate_access (live_readers X w org_id wallet app_slug)"

definition read_role_access :: "ext \<Rightarrow> world \<Rightarrow> int \<Rightarrow> string \<Rightarrow> exn + (role_name \<times> bool) list" where
  "read_role_access X w org_id app_id =
    map_res (\<lambda>role.
      bind_res (contracts X w) (\<lambda>c.
      bind_res (c_app_access_for_role c org_id app_id (role_hash X role)) (\<lambda>b. Inr (role, b))))
      ASSIGNABLE_ROLES"

subsection \<open>What an approval means\<close>

text \<open>
  The conditions a live approval rests on, each read from the contracts of this world. The
  application condition is present when a slug was named.
\<close>

definition live_conditions :: "ext \<Rightarrow> world \<Rightarrow> int \<Rightarrow> string \<Rightarrow> string option \<Rightarrow> bool" where
  "live_conditions X w org_id wallet app_slug =
    ((case read_identity X w wallet of Inr i \<Rightarrow> is_registered i \<and> is_active i | Inl _ \<Rightarrow> False)
     \<and> (case read_organization X w org_id of
          Inr (Some o') \<Rightarrow> os_active o' | _ \<Rightarrow> False)
     \<and> (case read_effective_role X w org_id wallet of Inr r \<Rightarrow> r \<noteq> NONE | Inl _ \<Rightarrow> False)
     \<and> (case read_membership X w org_id wallet of Inr m \<Rightarrow> \<not> ms_expired m | Inl _ \<Rightarrow> False)
     \<and> (case app_slug of
          None \<Rightarrow> True
        | Some slug \<Rightarrow>
          (case contracts X w of
             Inr c \<Rightarrow> c_app_registered c org_id (app_id_from_slug X slug) = Inr True
                    \<and> c_can_access_app c org_id wallet (app_id_from_slug X slug) = Inr True
           | Inl _ \<Rightarrow> False)))"

lemma live_readers_simps:
  "rd_organization (live_readers X w org wal slug) = bind_res (read_organization X w org) (\<lambda>o'. Inr (map_option os_active o'))"
  "rd_identity (live_readers X w org wal slug) = bind_res (read_identity X w wal) (\<lambda>i.
       Inr \<lparr>id_registered = is_registered i, id_active = is_active i\<rparr>)"
  "rd_role (live_readers X w org wal slug) = bind_res (read_effective_role X w org wal) (\<lambda>r. Inr (role_text r))"
  "rd_membership (live_readers X w org wal slug) = bind_res (read_membership X w org wal) (\<lambda>m.
       Inr \<lparr>mv_joined_at = ms_joined_at m, mv_expires_at = ms_expires_at m, mv_expired = ms_expired m\<rparr>)"
  "rd_permissions (live_readers X w org wal slug) r = bind_res (read_permissions_for X w org wal) (\<lambda>ps.
       Inr (Some (permission_json ps)))"
  by (simp_all add: live_readers_def Let_def)

lemma rd_app_live:
  "rd_app (live_readers X w org wal slug) = Inr app \<Longrightarrow>
   (case app of
      None \<Rightarrow> \<not> truthy slug \<or> x_keccak X (the slug) = []
    | Some a \<Rightarrow> (\<exists>c s. contracts X w = Inr c \<and> slug = Some s
        \<and> c_app_registered c org (app_id_from_slug X s) = Inr (av_registered a)
        \<and> c_can_access_app c org wal (app_id_from_slug X s) = Inr (av_allowed a)
        \<and> av_slug a = s \<and> av_app_id a = app_id_from_slug X s))"
  unfolding live_readers_def Let_def
  by (auto simp: res_iff truthy_iff read_can_access_app_def app_id_from_slug_def
           split: option.splits if_splits)

text \<open>An approval for a named application, when slugs hash to non-empty text.\<close>

lemma live_approval:
  assumes "evaluate_live_access X w org wal slug = Evaluated d snap" and "allowed d"
    and "slug \<noteq> Some []" and "\<And>s. x_keccak X s \<noteq> []"
  shows "live_conditions X w org wal slug
    \<and> (\<exists>r. read_effective_role X w org wal = Inr r \<and> es_role snap = role_text r)
    \<and> es_identity_active snap"
proof -
  from evaluate_access_EvaluatedD[OF assms(1)[unfolded evaluate_live_access_def]]
  obtain ob ident role mem app perms where
    o: "rd_organization (live_readers X w org wal slug) = Inr ob" and
    i: "rd_identity (live_readers X w org wal slug) = Inr ident" and
    r: "rd_role (live_readers X w org wal slug) = Inr role" and
    m: "rd_membership (live_readers X w org wal slug) = Inr mem" and
    a: "rd_app (live_readers X w org wal slug) = Inr app" and
    d: "d = decide_access
             \<lparr>snap_organization = ob, snap_identity = Some ident,
              snap_membership = Some (mv_expired mem), snap_role = role,
              snap_app_access = (case app of None \<Rightarrow> Undefined | Some a \<Rightarrow> Value (av_allowed a)),
              snap_app_registered = (case app of None \<Rightarrow> Undefined | Some a \<Rightarrow> Value (av_registered a))\<rparr>" and
    snap: "es_role snap = role" "es_identity_active snap = id_active ident"
    by auto
  have cond: "ob = Some True" "id_registered ident" "id_active ident" "\<not> mv_expired mem"
    "role \<noteq> ''NONE''" "app = None \<or> (\<exists>v. app = Some v \<and> av_allowed v \<and> av_registered v)"
    using assms(2) unfolding d decide_access_allowed by (auto split: option.splits)
  have app: "case slug of None \<Rightarrow> True | Some s \<Rightarrow>
      (\<exists>c. contracts X w = Inr c \<and> c_app_registered c org (app_id_from_slug X s) = Inr True
         \<and> c_can_access_app c org wal (app_id_from_slug X s) = Inr True)"
    using rd_app_live[OF a] cond(6) assms(3,4)
    by (cases slug; cases app) (auto simp: truthy_iff)
  from o cond(1) obtain os where "read_organization X w org = Inr (Some os)" "os_active os"
    by (auto simp: live_readers_simps res_iff)
  moreover from i cond(2,3) snap(2) obtain id where "read_identity X w wal = Inr id" "is_registered id"
    "is_active id" "es_identity_active snap"
    by (auto simp: live_readers_simps res_iff)
  moreover from r cond(5) snap(1) obtain rl where "read_effective_role X w org wal = Inr rl"
    "rl \<noteq> NONE" "es_role snap = role_text rl"
    by (fastforce simp: live_readers_simps res_iff)
  moreover from m cond(4) obtain ms where "read_membership X w org wal = Inr ms" "\<not> ms_expired ms"
    by (auto simp: live_readers_simps res_iff)
  ultimately show ?thesis using app by (auto simp: live_conditions_def split: option.splits)
qed

lemma live_unavailable_or_denied:
  assumes "\<not> live_conditions X w org wal slug"
    and "slug \<noteq> Some []" and "\<And>s. x_keccak X s \<noteq> []"
  shows "(\<exists>msg. evaluate_live_access X w org wal slug = ChainUnavailable msg)
    \<or> (\<exists>d snap r. evaluate_live_access X w org wal slug = Evaluated d snap \<and> \<not> allowed d
                \<and> reason d = Some r)"
proof (cases "evaluate_live_access X w org wal slug")
  case (Evaluated d snap)
  with live_approval[OF Evaluated _ assms(2,3)] assms(1) have "\<not> allowed d" by blast
  moreover from evaluate_access_EvaluatedD[OF Evaluated[unfolded evaluate_live_access_def]]
  obtain s where "d = decide_access s" by auto
  ultimately show ?thesis using Evaluated decide_access_reason[of s] by auto
qed simp

text \<open>The permission keys a live snapshot can carry.\<close>

lemma live_permission_keys:
  assumes "evaluate_live_access X w org wal slug = Evaluated d snap"
  shows "fst ` set (normalize_permissions (es_permissions snap)) \<subseteq> permission_text ` UNIV"
proof -
  from evaluate_access_EvaluatedD[OF assms[unfolded evaluate_live_access_def]]
  obtain role perms where
    p: "if role = ''NONE'' then perms = None
        else rd_permissions (live_readers X w org wal slug) role = Inr perms"
    and "es_permissions snap = perms" by auto
  moreover have "fst ` set (boolean_entries (permission_json ps)) \<subseteq> permission_text ` UNIV" for ps
    using boolean_entries_keys[of "permission_json ps"] by (force simp: permission_json_def)
  moreover have "perms = None \<or> (\<exists>ps. perms = Some (permission_json ps))"
    using p by (auto simp: live_readers_simps res_iff split: if_splits)
  ultimately show ?thesis
    unfolding normalize_permissions_def by (elim disjE exE) simp_all
qed

text \<open>Live access depends on the environment, the clock and the chain, and on nothing else.\<close>

definition same_chain :: "world \<Rightarrow> world \<Rightarrow> bool" where
  "same_chain v w \<longleftrightarrow> penv v = penv w \<and> chain_now v = chain_now w \<and> clock v = clock w"

lemma same_chain_reads:
  assumes "same_chain v w"
  shows "contracts X v = contracts X w" "read_identity X v = read_identity X w"
    "read_effective_role X v = read_effective_role X w" "read_organization X v = read_organization X w"
    "read_membership X v = read_membership X w" "read_permissions_for X v = read_permissions_for X w"
    "read_can_access_app X v = read_can_access_app X w"
proof -
  show c: "contracts X v = contracts X w" using assms by (simp add: contracts_def same_chain_def)
  have t: "clock v = clock w" using assms by (simp add: same_chain_def)
  show "read_identity X v = read_identity X w" "read_effective_role X v = read_effective_role X w"
    "read_organization X v = read_organization X w" "read_membership X v = read_membership X w"
    "read_permissions_for X v = read_permissions_for X w"
    "read_can_access_app X v = read_can_access_app X w"
    by (simp_all add: fun_eq_iff read_identity_def read_effective_role_def read_organization_def
          read_membership_def read_permissions_for_def read_has_permission_def read_can_access_app_def c t)
qed

lemma live_same_chain:
  assumes "same_chain v w"
  shows "evaluate_live_access X v = evaluate_live_access X w"
    and "live_conditions X v = live_conditions X w"
  by (simp_all add: fun_eq_iff live_readers_def evaluate_live_access_def live_conditions_def Let_def
        same_chain_reads[OF assms] cong: option.case_cong)

lemma same_chain_updates [simp]:
  "same_chain (w\<lparr>db_calls := n\<rparr>) w" "same_chain (w\<lparr>draws := n\<rparr>) w" "same_chain (w\<lparr>codes := cs\<rparr>) w"
  "same_chain (w\<lparr>db_calls := n, codes := cs\<rparr>) w"
  "same_chain (w\<lparr>db_calls := n, codes := cs, draws := d\<rparr>) w"
  by (simp_all add: same_chain_def)

lemma live_counter_cong [simp]:
  "evaluate_live_access X (w\<lparr>db_calls := n\<rparr>) = evaluate_live_access X w"
  "live_conditions X (w\<lparr>db_calls := n\<rparr>) = live_conditions X w"
  by (rule live_same_chain, simp)+

end
