(* ===== verification/CodeStore.thy ===== *)
theory CodeStore
  imports World
begin

text \<open>
  \<open>apps/platform/lib/authorize.ts\<close> and \<open>apps/platform/lib/authorize-store.ts\<close>: authorization
  codes. The interface \<open>AuthorizationCodeStore\<close> is the locale \<open>code_store\<close>: its laws say what
  \<open>insert\<close> and \<open>consume\<close> do to an abstract map from codes to grants. Single use, binding and
  expiry are proved once, in the locale, over arbitrary histories of the two operations; the
  in-memory store and the Postgres table are both interpretations of it.
\<close>

subsection \<open>Grants and queries\<close>

definition AUTHORIZATION_CODE_TTL_MS :: int where
  "AUTHORIZATION_CODE_TTL_MS = 120000"

record stored_grant =
  sg_client_id :: string
  sg_app_slug :: string
  sg_org_id :: int
  sg_wallet :: string
  sg_redirect_uri :: string
  sg_code :: string
  sg_expires_at :: int

record consume_query =
  cq_code :: string
  cq_client_id :: string
  cq_redirect_uri :: string
  cq_now :: int

record consumed_grant =
  cg_app_slug :: string
  cg_org_id :: int
  cg_wallet :: string
  cg_redirect_uri :: string

definition generate_authorization_code :: "ext \<Rightarrow> nat \<Rightarrow> string" where
  "generate_authorization_code X k = x_b64url X (x_random X k 32)"

subsection \<open>The in-memory store\<close>

record mem_row =
  mr_grant :: stored_grant
  mr_used_at :: "int option"

type_synonym mem_rows = "string \<Rightarrow> mem_row option"

text \<open>\<open>insert\<close>: \<open>None\<close> is the thrown "Duplicate authorization code".\<close>

definition mem_insert :: "mem_rows \<Rightarrow> stored_grant \<Rightarrow> mem_rows option" where
  "mem_insert rows grant =
    (if rows (sg_code grant) \<noteq> None then None
     else Some (rows(sg_code grant \<mapsto>
       \<lparr>mr_grant = grant\<lparr>sg_wallet := to_lower (sg_wallet grant)\<rparr>, mr_used_at = None\<rparr>)))"

definition mem_consume :: "mem_rows \<Rightarrow> consume_query \<Rightarrow> consumed_grant option \<times> mem_rows" where
  "mem_consume rows query =
    (case rows (cq_code query) of
       None \<Rightarrow> (None, rows)
     | Some row \<Rightarrow>
       let g = mr_grant row in
       if mr_used_at row \<noteq> None then (None, rows)
       else if sg_client_id g \<noteq> cq_client_id query then (None, rows)
       else if sg_redirect_uri g \<noteq> cq_redirect_uri query then (None, rows)
       else if sg_expires_at g \<le> cq_now query then (None, rows)
       else
         (Some \<lparr>cg_app_slug = sg_app_slug g, cg_org_id = sg_org_id g,
                cg_wallet = sg_wallet g, cg_redirect_uri = sg_redirect_uri g\<rparr>,
          rows(cq_code query \<mapsto> row\<lparr>mr_used_at := Some (cq_now query)\<rparr>)))"

subsection \<open>The Postgres table\<close>

definition codes_insert :: "code_row list \<Rightarrow> stored_grant \<Rightarrow> code_row list option" where
  "codes_insert rows grant =
    (if sg_code grant \<in> cd_code ` set rows then None
     else Some (rows @
       [\<lparr>cd_code = sg_code grant, cd_client_id = sg_client_id grant,
         cd_app_slug = sg_app_slug grant, cd_org_id = sg_org_id grant,
         cd_wallet = to_lower (sg_wallet grant), cd_redirect_uri = sg_redirect_uri grant,
         cd_expires_at = sg_expires_at grant, cd_used_at = None\<rparr>]))"

text \<open>The \<open>WHERE\<close> of the conditional update.\<close>

definition redeemable_row :: "consume_query \<Rightarrow> code_row \<Rightarrow> bool" where
  "redeemable_row query r =
    (cd_code r = cq_code query \<and> cd_client_id r = cq_client_id query
     \<and> cd_redirect_uri r = cq_redirect_uri query \<and> cd_used_at r = None
     \<and> cd_expires_at r > cq_now query)"

definition grant_of_row :: "code_row \<Rightarrow> consumed_grant" where
  "grant_of_row r =
    \<lparr>cg_app_slug = cd_app_slug r, cg_org_id = cd_org_id r,
     cg_wallet = cd_wallet r, cg_redirect_uri = cd_redirect_uri r\<rparr>"

definition codes_consume ::
  "code_row list \<Rightarrow> consume_query \<Rightarrow> (db_error + consumed_grant option) \<times> code_row list" where
  "codes_consume rows query =
    (case maybe_single (filter (redeemable_row query) rows) of
       Inl e \<Rightarrow> (Inl e, rows)
     | Inr hit \<Rightarrow>
         (Inr (map_option grant_of_row hit),
          update_where (redeemable_row query) (\<lambda>r. r\<lparr>cd_used_at := Some (cq_now query)\<rparr>) rows))"

text \<open>\<open>supabaseCodeStore().insert\<close> and \<open>.consume\<close>: an error of the statement is thrown.\<close>

definition supabase_insert :: "ext \<Rightarrow> stored_grant \<Rightarrow> unit io" where
  "supabase_insert X grant =
    seq (db_stmt X (\<lambda>w. case codes_insert (codes w) grant of
                          None \<Rightarrow> (Inl unique_violation, w)
                        | Some rows \<Rightarrow> (Inr (), w\<lparr>codes := rows\<rparr>))) (\<lambda>r.
      case r of
        Inl err \<Rightarrow> throw (JsError (''Could not issue an authorization code: '' @ db_message err))
      | Inr _ \<Rightarrow> ret ())"

definition supabase_consume :: "ext \<Rightarrow> consume_query \<Rightarrow> consumed_grant option io" where
  "supabase_consume X query =
    seq (db_stmt X (\<lambda>w. case codes_consume (codes w) query of
                          (r, rows) \<Rightarrow> (r, w\<lparr>codes := rows\<rparr>))) (\<lambda>r.
      case r of
        Inl err \<Rightarrow> throw (JsError (''Could not consume the authorization code: '' @ db_message err))
      | Inr hit \<Rightarrow> ret hit)"

subsection \<open>Operations\<close>

definition issue_authorization_code ::
  "ext \<Rightarrow> string \<Rightarrow> string \<Rightarrow> int \<Rightarrow> string \<Rightarrow> string \<Rightarrow> (string \<times> int) io" where
  "issue_authorization_code X client_id app_slug org_id wallet redirect_uri =
    seq draw (\<lambda>k.
    seq (gets clock) (\<lambda>now.
      let code = generate_authorization_code X k;
          expires_at = now + AUTHORIZATION_CODE_TTL_MS in
      seq (supabase_insert X
             \<lparr>sg_client_id = client_id, sg_app_slug = app_slug, sg_org_id = org_id,
              sg_wallet = wallet, sg_redirect_uri = redirect_uri,
              sg_code = code, sg_expires_at = expires_at\<rparr>) (\<lambda>_.
        ret (code, expires_at))))"

definition consume_authorization_code ::
  "ext \<Rightarrow> string \<Rightarrow> string \<Rightarrow> string \<Rightarrow> consumed_grant option io" where
  "consume_authorization_code X code client_id redirect_uri =
    (if length code < 32 then ret None
     else seq (gets clock) (\<lambda>now.
       supabase_consume X \<lparr>cq_code = code, cq_client_id = client_id,
                           cq_redirect_uri = redirect_uri, cq_now = now\<rparr>))"

subsection \<open>The interface\<close>

text \<open>What a store promises, over an abstract map from codes to entries.\<close>

record code_entry =
  ce_client_id :: string
  ce_redirect_uri :: string
  ce_grant :: consumed_grant
  ce_expires_at :: int
  ce_used :: bool

definition entry_of_grant :: "stored_grant \<Rightarrow> code_entry" where
  "entry_of_grant g =
    \<lparr>ce_client_id = sg_client_id g, ce_redirect_uri = sg_redirect_uri g,
     ce_grant = \<lparr>cg_app_slug = sg_app_slug g, cg_org_id = sg_org_id g,
                 cg_wallet = to_lower (sg_wallet g), cg_redirect_uri = sg_redirect_uri g\<rparr>,
     ce_expires_at = sg_expires_at g, ce_used = False\<rparr>"

definition redeemable :: "consume_query \<Rightarrow> code_entry \<Rightarrow> bool" where
  "redeemable q e =
    (\<not> ce_used e \<and> ce_client_id e = cq_client_id q \<and> ce_redirect_uri e = cq_redirect_uri q
     \<and> cq_now q < ce_expires_at e)"

type_synonym code_map = "string \<Rightarrow> code_entry option"

definition spec_insert :: "code_map \<Rightarrow> stored_grant \<Rightarrow> code_map option" where
  "spec_insert m g =
    (if m (sg_code g) \<noteq> None then None else Some (m(sg_code g \<mapsto> entry_of_grant g)))"

definition spec_consume :: "code_map \<Rightarrow> consume_query \<Rightarrow> consumed_grant option \<times> code_map" where
  "spec_consume m q =
    (case m (cq_code q) of
       None \<Rightarrow> (None, m)
     | Some e \<Rightarrow> if redeemable q e then (Some (ce_grant e), m(cq_code q \<mapsto> e\<lparr>ce_used := True\<rparr>))
                 else (None, m))"

datatype store_op = Issue stored_grant | Redeem consume_query

text \<open>A history of operations: the state it ends in and the redemptions that succeeded.\<close>

fun run_ops ::
  "('s \<Rightarrow> stored_grant \<Rightarrow> 's option) \<Rightarrow> ('s \<Rightarrow> consume_query \<Rightarrow> consumed_grant option \<times> 's)
   \<Rightarrow> 's \<Rightarrow> store_op list \<Rightarrow> 's \<times> (consume_query \<times> consumed_grant) list" where
  "run_ops ins con s [] = (s, [])"
| "run_ops ins con s (Issue g # ops) =
    (case ins s g of None \<Rightarrow> run_ops ins con s ops | Some s' \<Rightarrow> run_ops ins con s' ops)"
| "run_ops ins con s (Redeem q # ops) =
    (case con s q of
       (None, s') \<Rightarrow> run_ops ins con s' ops
     | (Some c, s') \<Rightarrow> (case run_ops ins con s' ops of (s'', hits) \<Rightarrow> (s'', (q, c) # hits)))"

text \<open>Binding: a redemption answers for an entry of that code, client and callback, in time.\<close>

definition bound_to :: "store_op list \<Rightarrow> code_map \<Rightarrow> consume_query \<Rightarrow> consumed_grant \<Rightarrow> bool" where
  "bound_to ops m q c \<longleftrightarrow>
    (\<exists>e. (m (cq_code q) = Some e
          \<or> (\<exists>g. Issue g \<in> set ops \<and> sg_code g = cq_code q \<and> e = entry_of_grant g))
       \<and> ce_client_id e = cq_client_id q \<and> ce_redirect_uri e = cq_redirect_uri q
       \<and> cq_now q < ce_expires_at e \<and> c = ce_grant e)"

lemma spec_insert_cases:
  assumes "spec_insert m g = m'"
  obtains (dup) "m' = None" "m (sg_code g) \<noteq> None"
    | (new) "m' = Some (m(sg_code g \<mapsto> entry_of_grant g))" "m (sg_code g) = None"
  using assms by (auto simp: spec_insert_def split: if_splits)

lemma spec_consume_cases:
  assumes "spec_consume m q = (r, m')"
  obtains (miss) "r = None" "m' = m"
    | (hit) e where "m (cq_code q) = Some e" "redeemable q e" "r = Some (ce_grant e)"
        "m' = m(cq_code q \<mapsto> e\<lparr>ce_used := True\<rparr>)"
  using assms by (auto simp: spec_consume_def split: option.splits if_splits)

locale code_store =
  fixes store_insert :: "'s \<Rightarrow> stored_grant \<Rightarrow> 's option"
    and store_consume :: "'s \<Rightarrow> consume_query \<Rightarrow> consumed_grant option \<times> 's"
    and view :: "'s \<Rightarrow> code_map"
    and store_ok :: "'s \<Rightarrow> bool"
  assumes insert_refines: "store_ok s \<Longrightarrow> map_option view (store_insert s g) = spec_insert (view s) g"
    and insert_ok: "store_ok s \<Longrightarrow> store_insert s g = Some s' \<Longrightarrow> store_ok s'"
    and consume_refines: "store_ok s \<Longrightarrow> store_consume s q = (r, s') \<Longrightarrow> spec_consume (view s) q = (r, view s')"
    and consume_ok: "store_ok s \<Longrightarrow> store_consume s q = (r, s') \<Longrightarrow> store_ok s'"
begin

text \<open>Two rules for histories: what an issue and a redemption do to the abstract map.\<close>

lemma issue_cases:
  assumes "store_ok s" and "run_ops store_insert store_consume s (Issue g # ops) = (s', hits)"
  obtains s1 where "store_ok s1" "run_ops store_insert store_consume s1 ops = (s', hits)"
    "view s1 = view s \<or> view s (sg_code g) = None \<and> view s1 = (view s)(sg_code g \<mapsto> entry_of_grant g)"
proof (cases "store_insert s g")
  case None
  with assms that show ?thesis by simp
next
  case (Some s1)
  from insert_refines[OF assms(1), of g] Some
  have "view s (sg_code g) = None \<and> view s1 = (view s)(sg_code g \<mapsto> entry_of_grant g)"
    by (auto simp: spec_insert_def split: if_splits)
  with Some assms insert_ok[OF assms(1) Some] that show ?thesis by simp
qed

lemma redeem_cases:
  assumes "store_ok s" and "run_ops store_insert store_consume s (Redeem q # ops) = (s', hits)"
  obtains (miss) s1 where "store_ok s1" "run_ops store_insert store_consume s1 ops = (s', hits)" "view s1 = view s"
    | (hit) s1 hits1 e where "store_ok s1" "run_ops store_insert store_consume s1 ops = (s', hits1)"
        "view s (cq_code q) = Some e" "redeemable q e" "hits = (q, ce_grant e) # hits1"
        "view s1 = (view s)(cq_code q \<mapsto> e\<lparr>ce_used := True\<rparr>)"
proof -
  obtain r s1 where sc: "store_consume s q = (r, s1)" by (cases "store_consume s q")
  obtain s2 hits2 where run2: "run_ops store_insert store_consume s1 ops = (s2, hits2)"
    by (cases "run_ops store_insert store_consume s1 ops")
  note ok1 = consume_ok[OF assms(1) sc]
  from consume_refines[OF assms(1) sc] show ?thesis
  proof (cases rule: spec_consume_cases)
    case miss
    with that(1)[of s1] ok1 sc assms(2) show ?thesis by simp
  next
    case (hit e)
    with that(2)[of s1 hits2 e] ok1 sc assms(2) run2 show ?thesis by simp
  qed
qed

text \<open>A used code stays used, and a code never becomes redeemable again.\<close>

lemma used_stays:
  assumes "store_ok s" and "view s c = Some e" and "ce_used e"
    and "run_ops store_insert store_consume s ops = (s', hits)" and "(q, g) \<in> set hits"
  shows "cq_code q \<noteq> c"
  using assms
proof (induction ops arbitrary: s e s' hits)
  case (Cons x ops)
  show ?case
  proof (cases x)
    case (Issue gr)
    from Cons.prems(4) have "run_ops store_insert store_consume s (Issue gr # ops) = (s', hits)" using Issue by simp
    from issue_cases[OF Cons.prems(1) this] obtain s1 where
      s1: "store_ok s1" "run_ops store_insert store_consume s1 ops = (s', hits)"
      "view s1 = view s \<or> view s (sg_code gr) = None \<and> view s1 = (view s)(sg_code gr \<mapsto> entry_of_grant gr)" .
    from s1(3) Cons.prems(2) have "view s1 c = Some e" by auto
    from Cons.IH[OF s1(1) this Cons.prems(3) s1(2) Cons.prems(5)] show ?thesis .
  next
    case (Redeem p)
    from Cons.prems(4) have "run_ops store_insert store_consume s (Redeem p # ops) = (s', hits)" using Redeem by simp
    from Cons.prems(1) this show ?thesis
    proof (cases rule: redeem_cases)
      case (miss s1)
      from Cons.IH[OF miss(1) _ Cons.prems(3) miss(2) Cons.prems(5)] miss(3) Cons.prems(2) show ?thesis by simp
    next
      case (hit s1 hits1 e')
      with Cons.prems(2,3) have pc: "cq_code p \<noteq> c" by (auto simp: redeemable_def)
      with hit(6) Cons.prems(2) have v1: "view s1 c = Some e" by simp
      show ?thesis using Cons.IH[OF hit(1) v1 Cons.prems(3) hit(2)] Cons.prems(5) hit(5) pc by auto
    qed
  qed
qed simp

text \<open>Single use: no code is redeemed twice in any history.\<close>

lemma single_use:
  assumes "store_ok s" and "run_ops store_insert store_consume s ops = (s', hits)"
  shows "distinct (map (cq_code \<circ> fst) hits)"
  using assms
proof (induction ops arbitrary: s s' hits)
  case (Cons x ops)
  show ?case
  proof (cases x)
    case (Issue gr)
    from Cons.prems(2) have "run_ops store_insert store_consume s (Issue gr # ops) = (s', hits)" using Issue by simp
    from issue_cases[OF Cons.prems(1) this] Cons.IH show ?thesis by blast
  next
    case (Redeem p)
    from Cons.prems(2) have "run_ops store_insert store_consume s (Redeem p # ops) = (s', hits)" using Redeem by simp
    from Cons.prems(1) this show ?thesis
    proof (cases rule: redeem_cases)
      case (miss s1)
      with Cons.IH show ?thesis by blast
    next
      case (hit s1 hits1 e)
      from hit(6) have "view s1 (cq_code p) = Some (e\<lparr>ce_used := True\<rparr>)" by simp
      from used_stays[OF hit(1) this _ hit(2)] have "\<And>q g. (q, g) \<in> set hits1 \<Longrightarrow> cq_code q \<noteq> cq_code p"
        by simp
      then have "cq_code p \<notin> (cq_code \<circ> fst) ` set hits1" by force
      with Cons.IH[OF hit(1,2)] hit(5) show ?thesis by simp
    qed
  qed
qed simp

lemma redemption_bound:
  assumes "store_ok s" and "run_ops store_insert store_consume s ops = (s', hits)" and "(q, c) \<in> set hits"
  shows "bound_to ops (view s) q c"
  using assms
proof (induction ops arbitrary: s s' hits)
  case (Cons x ops)
  show ?case
  proof (cases x)
    case (Issue gr)
    from Cons.prems(2) have "run_ops store_insert store_consume s (Issue gr # ops) = (s', hits)" using Issue by simp
    from issue_cases[OF Cons.prems(1) this] obtain s1 where
      s1: "store_ok s1" "run_ops store_insert store_consume s1 ops = (s', hits)"
      "view s1 = view s \<or> view s (sg_code gr) = None \<and> view s1 = (view s)(sg_code gr \<mapsto> entry_of_grant gr)" .
    from Cons.IH[OF s1(1,2) Cons.prems(3)] obtain e where
      e: "view s1 (cq_code q) = Some e \<or> (\<exists>g. Issue g \<in> set ops \<and> sg_code g = cq_code q \<and> e = entry_of_grant g)"
      and rest: "ce_client_id e = cq_client_id q" "ce_redirect_uri e = cq_redirect_uri q"
        "cq_now q < ce_expires_at e" "c = ce_grant e" unfolding bound_to_def by blast
    from e s1(3) have "view s (cq_code q) = Some e
        \<or> (\<exists>g. Issue g \<in> set (x # ops) \<and> sg_code g = cq_code q \<and> e = entry_of_grant g)"
      unfolding Issue by (auto split: if_splits)
    with rest show ?thesis unfolding bound_to_def by blast
  next
    case (Redeem p)
    from Cons.prems(2) have "run_ops store_insert store_consume s (Redeem p # ops) = (s', hits)" using Redeem by simp
    from Cons.prems(1) this show ?thesis
    proof (cases rule: redeem_cases)
      case (miss s1)
      from Cons.IH[OF miss(1,2) Cons.prems(3)] miss(3) show ?thesis by (auto simp: bound_to_def)
    next
      case (hit s1 hits1 e)
      show ?thesis
      proof (cases "(q, c) \<in> set hits1")
        case True
        from used_stays[OF hit(1) _ _ hit(2) True] hit(6) have "cq_code q \<noteq> cq_code p" by auto
        with Cons.IH[OF hit(1,2) True] hit(6) show ?thesis by (auto simp: bound_to_def)
      next
        case False
        with Cons.prems(3) hit(5) have "q = p" "c = ce_grant e" by auto
        with hit(3,4) show ?thesis by (auto simp: bound_to_def redeemable_def)
      qed
    qed
  qed
qed simp

end

subsection \<open>Both stores keep the promise\<close>

definition mem_view :: "mem_rows \<Rightarrow> code_map" where
  "mem_view rows c =
    map_option (\<lambda>r. \<lparr>ce_client_id = sg_client_id (mr_grant r),
                     ce_redirect_uri = sg_redirect_uri (mr_grant r),
                     ce_grant = \<lparr>cg_app_slug = sg_app_slug (mr_grant r),
                                 cg_org_id = sg_org_id (mr_grant r),
                                 cg_wallet = sg_wallet (mr_grant r),
                                 cg_redirect_uri = sg_redirect_uri (mr_grant r)\<rparr>,
                     ce_expires_at = sg_expires_at (mr_grant r),
                     ce_used = (mr_used_at r \<noteq> None)\<rparr>) (rows c)"

interpretation mem: code_store mem_insert mem_consume mem_view "\<lambda>_. True"
proof unfold_locales
  fix rows g
  show "map_option mem_view (mem_insert rows g) = spec_insert (mem_view rows) g"
    by (auto simp: mem_insert_def spec_insert_def mem_view_def entry_of_grant_def fun_eq_iff)
next
  fix rows q r rows'
  assume "mem_consume rows q = (r, rows')"
  then have eq: "mem_consume rows q = (r, rows')" .
  show "spec_consume (mem_view rows) q = (r, mem_view rows')"
  proof (cases "rows (cq_code q)")
    case None
    with eq show ?thesis by (auto simp: mem_consume_def spec_consume_def mem_view_def)
  next
    case (Some row)
    let ?g = "mr_grant row"
    show ?thesis
    proof (cases "mr_used_at row = None \<and> sg_client_id ?g = cq_client_id q
        \<and> sg_redirect_uri ?g = cq_redirect_uri q \<and> cq_now q < sg_expires_at ?g")
      case True
      with eq Some have "rows' = rows(cq_code q \<mapsto> row\<lparr>mr_used_at := Some (cq_now q)\<rparr>)"
        by (auto simp: mem_consume_def Let_def)
      with eq Some True show ?thesis
        by (auto simp: mem_consume_def spec_consume_def mem_view_def redeemable_def Let_def fun_eq_iff)
    next
      case False
      with eq Some have "rows' = rows" "r = None" by (auto simp: mem_consume_def Let_def split: if_splits)
      with Some False show ?thesis by (auto simp: spec_consume_def mem_view_def redeemable_def)
    qed
  qed
qed auto

definition entry_of_row :: "code_row \<Rightarrow> code_entry" where
  "entry_of_row r =
    \<lparr>ce_client_id = cd_client_id r, ce_redirect_uri = cd_redirect_uri r, ce_grant = grant_of_row r,
     ce_expires_at = cd_expires_at r, ce_used = (cd_used_at r \<noteq> None)\<rparr>"

fun table_view :: "code_row list \<Rightarrow> code_map" where
  "table_view [] = Map.empty"
| "table_view (r # rows) = (table_view rows)(cd_code r \<mapsto> entry_of_row r)"

definition codes_ok :: "code_row list \<Rightarrow> bool" where
  "codes_ok rows \<longleftrightarrow> distinct (map cd_code rows)"

definition table_consume :: "code_row list \<Rightarrow> consume_query \<Rightarrow> consumed_grant option \<times> code_row list" where
  "table_consume rows q =
    (case codes_consume rows q of (Inr g, rows') \<Rightarrow> (g, rows') | (Inl _, rows') \<Rightarrow> (None, rows'))"

lemma table_view_None_iff: "table_view rows c = None \<longleftrightarrow> c \<notin> cd_code ` set rows"
  by (induction rows) auto

lemma table_view_append_new:
  "cd_code r \<notin> cd_code ` set rows \<Longrightarrow> table_view (rows @ [r]) = (table_view rows)(cd_code r \<mapsto> entry_of_row r)"
  by (induction rows) (auto simp: fun_upd_twist)

lemma table_view_Some_iff:
  "codes_ok rows \<Longrightarrow> table_view rows c = Some e \<longleftrightarrow> (\<exists>r \<in> set rows. cd_code r = c \<and> e = entry_of_row r)"
proof (induction rows)
  case (Cons a rows)
  then have a: "cd_code a \<notin> cd_code ` set rows" and ok: "codes_ok rows" by (auto simp: codes_ok_def)
  show ?case
  proof (cases "cd_code a = c")
    case True
    with a show ?thesis by (auto simp: image_iff)
  next
    case False
    with Cons.IH[OF ok] show ?thesis by auto
  qed
qed simp

lemma redeemable_row_iff:
  "redeemable_row q r \<longleftrightarrow> cd_code r = cq_code q \<and> redeemable q (entry_of_row r)"
  by (auto simp: redeemable_row_def redeemable_def entry_of_row_def)

lemma filter_redeemable:
  assumes "codes_ok rows"
  shows "filter (redeemable_row q) rows =
    (case table_view rows (cq_code q) of
       None \<Rightarrow> []
     | Some e \<Rightarrow> if redeemable q e then filter (\<lambda>r. cd_code r = cq_code q) rows else [])"
proof (cases "table_view rows (cq_code q)")
  case None
  then have "cq_code q \<notin> cd_code ` set rows" by (simp add: table_view_None_iff)
  then have "\<forall>r \<in> set rows. cd_code r \<noteq> cq_code q" by (metis imageI)
  with None show ?thesis by (auto simp: filter_empty_conv redeemable_row_def)
next
  case (Some e)
  then have e: "\<forall>r \<in> set rows. cd_code r = cq_code q \<longrightarrow> entry_of_row r = e"
    using table_view_Some_iff[OF assms] by (metis option.inject)
  then have "filter (redeemable_row q) rows = filter (\<lambda>r. cd_code r = cq_code q \<and> redeemable q e) rows"
    by (intro filter_cong) (auto simp: redeemable_row_iff)
  with Some show ?thesis by (auto simp: filter_empty_conv)
qed

lemma filter_code_singleton:
  assumes "codes_ok rows" and "r \<in> set rows"
  shows "filter (\<lambda>x. cd_code x = cd_code r) rows = [r]"
  using assms
proof (induction rows)
  case (Cons a rows)
  show ?case
  proof (cases "a = r")
    case True
    have "\<forall>x \<in> set rows. cd_code x \<noteq> cd_code r"
      using Cons.prems(1) True by (auto simp: codes_ok_def image_iff)
    with True show ?thesis by (simp add: filter_empty_conv)
  next
    case False
    with Cons.prems have "cd_code a \<noteq> cd_code r" "r \<in> set rows" "codes_ok rows"
      by (auto simp: codes_ok_def)
    with Cons.IH show ?thesis by simp
  qed
qed simp

lemma update_where_codes: "map cd_code (update_where p (\<lambda>r. r\<lparr>cd_used_at := u\<rparr>) rows) = map cd_code rows"
  by (induction rows) (auto simp: update_where_def)

lemma table_view_update:
  assumes "codes_ok rows"
  shows "table_view (update_where (redeemable_row q) (\<lambda>r. r\<lparr>cd_used_at := Some t\<rparr>) rows) =
    (case table_view rows (cq_code q) of
       None \<Rightarrow> table_view rows
     | Some e \<Rightarrow> if redeemable q e then (table_view rows)(cq_code q \<mapsto> e\<lparr>ce_used := True\<rparr>)
                 else table_view rows)"
  using assms
proof (induction rows)
  case (Cons a rows)
  then have ok: "codes_ok rows" and a: "cd_code a \<notin> cd_code ` set rows" by (auto simp: codes_ok_def)
  have upd: "redeemable_row q a \<Longrightarrow> entry_of_row (a\<lparr>cd_used_at := Some t\<rparr>) = (entry_of_row a)\<lparr>ce_used := True\<rparr>"
    by (simp add: entry_of_row_def grant_of_row_def)
  show ?case
  proof (cases "cd_code a = cq_code q")
    case True
    then have "table_view rows (cq_code q) = None" using a by (simp add: table_view_None_iff)
    with Cons.IH[OF ok] True upd show ?thesis
      by (auto simp: update_where_def redeemable_row_iff)
  next
    case False
    then have "\<not> redeemable_row q a" by (simp add: redeemable_row_def)
    with Cons.IH[OF ok] False show ?thesis
      by (auto simp: update_where_def fun_upd_twist split: option.splits)
  qed
qed (simp add: update_where_def)

lemma table_consume_spec:
  assumes "codes_ok rows"
  shows "spec_consume (table_view rows) q = (fst (table_consume rows q), table_view (snd (table_consume rows q)))"
    and "codes_consume rows q = (Inr (fst (table_consume rows q)), snd (table_consume rows q))"
proof -
  have single: "\<exists>hit. maybe_single (filter (redeemable_row q) rows) = Inr hit
     \<and> map_option grant_of_row hit = fst (spec_consume (table_view rows) q)"
  proof (cases "table_view rows (cq_code q)")
    case None
    with filter_redeemable[OF assms, of q] show ?thesis by (simp add: spec_consume_def)
  next
    case (Some e)
    then obtain r where r: "r \<in> set rows" "cd_code r = cq_code q" "e = entry_of_row r"
      using table_view_Some_iff[OF assms] by blast
    then have "filter (\<lambda>x. cd_code x = cq_code q) rows = [r]"
      using filter_code_singleton[OF assms r(1)] by simp
    with Some r filter_redeemable[OF assms, of q] show ?thesis
      by (simp add: spec_consume_def entry_of_row_def)
  qed
  then show "codes_consume rows q = (Inr (fst (table_consume rows q)), snd (table_consume rows q))"
    by (auto simp: table_consume_def codes_consume_def)
  from single show "spec_consume (table_view rows) q
      = (fst (table_consume rows q), table_view (snd (table_consume rows q)))"
    using table_view_update[OF assms, of q "cq_now q"]
    by (auto simp: table_consume_def codes_consume_def spec_consume_def split: option.splits if_splits)
qed

interpretation table: code_store codes_insert table_consume table_view codes_ok
proof unfold_locales
  fix rows g
  assume ok: "codes_ok rows"
  show "map_option table_view (codes_insert rows g) = spec_insert (table_view rows) g"
    using table_view_None_iff[of rows "sg_code g"]
    by (auto simp: codes_insert_def spec_insert_def table_view_append_new entry_of_grant_def
             entry_of_row_def grant_of_row_def)
  fix rows'
  assume "codes_insert rows g = Some rows'"
  with ok show "codes_ok rows'" by (auto simp: codes_insert_def codes_ok_def split: if_splits)
next
  fix rows q r rows'
  assume ok: "codes_ok rows" and tc: "table_consume rows q = (r, rows')"
  from table_consume_spec(1)[OF ok, of q] tc show "spec_consume (table_view rows) q = (r, table_view rows')"
    by simp
  from table_consume_spec(2)[OF ok, of q] tc ok show "codes_ok rows'"
    by (auto simp: codes_consume_def codes_ok_def update_where_codes split: sum.splits)
qed

subsection \<open>The two operations on the world\<close>

text \<open>What issuing and consuming do to the world, on every branch: an error changes no row.\<close>

lemma issue_cases_world:
  assumes "issue_authorization_code X cid slug org wal uri w = (r, w')"
  obtains (failed) e n d where "r = Inl e" "w' = w\<lparr>db_calls := n, draws := d\<rparr>"
    | (issued) n rows where
        "r = Inr (generate_authorization_code X (draws w), clock w + AUTHORIZATION_CODE_TTL_MS)"
        "codes_insert (codes w)
           \<lparr>sg_client_id = cid, sg_app_slug = slug, sg_org_id = org, sg_wallet = wal,
            sg_redirect_uri = uri, sg_code = generate_authorization_code X (draws w),
            sg_expires_at = clock w + AUTHORIZATION_CODE_TTL_MS\<rparr> = Some rows"
        "w' = w\<lparr>db_calls := n, codes := rows, draws := Suc (draws w)\<rparr>"
proof -
  define g where "g = \<lparr>sg_client_id = cid, sg_app_slug = slug, sg_org_id = org, sg_wallet = wal,
            sg_redirect_uri = uri, sg_code = generate_authorization_code X (draws w),
            sg_expires_at = clock w + AUTHORIZATION_CODE_TTL_MS\<rparr>"
  define w0 where "w0 = w\<lparr>draws := Suc (draws w)\<rparr>"
  let ?st = "\<lambda>w. case codes_insert (codes w) g of None \<Rightarrow> (Inl unique_violation, w)
                   | Some rows \<Rightarrow> (Inr (), w\<lparr>codes := rows\<rparr>)"
  obtain q w1 where st: "db_stmt X ?st w0 = (q, w1)" by (cases "db_stmt X ?st w0")
  have run: "issue_authorization_code X cid slug org wal uri w =
      (case q of Inl e \<Rightarrow> (Inl e, w1)
       | Inr (Inl err) \<Rightarrow> (Inl (JsError (''Could not issue an authorization code: '' @ db_message err)), w1)
       | Inr (Inr _) \<Rightarrow> (Inr (generate_authorization_code X (draws w), clock w + AUTHORIZATION_CODE_TTL_MS), w1))"
    using st unfolding issue_authorization_code_def supabase_insert_def g_def w0_def
    by (auto simp: seq_def draw_def gets_def Let_def ret_def throw_def split: sum.splits prod.splits)
  have w0: "w0 = w\<lparr>db_calls := db_calls w, draws := Suc (draws w)\<rparr>" by (simp add: w0_def)
  from db_stmt_cases[OF st] consider
      (no_env) e where "q = Inl e" "w1 = w0"
    | (fault) err where "q = Inr (Inl err)" "w1 = w0\<lparr>db_calls := Suc (db_calls w)\<rparr>"
    | (dup) "q = Inr (Inl unique_violation)" "w1 = w0\<lparr>db_calls := Suc (db_calls w)\<rparr>"
    | (ok) rows where "codes_insert (codes w) g = Some rows" "q = Inr (Inr ())"
        "w1 = w0\<lparr>db_calls := Suc (db_calls w), codes := rows\<rparr>"
    by (auto simp: w0_def split: option.splits)
  then show ?thesis
  proof cases
    case no_env
    with assms run have "r = Inl e" "w' = w0" by auto
    then show ?thesis by (intro failed[of e "Suc (draws w)" "db_calls w"]) (simp_all add: w0_def)
  next
    case fault
    with assms run show ?thesis
      by (intro failed[of _ "Suc (draws w)" "Suc (db_calls w)"]) (auto simp: w0_def)
  next
    case dup
    with assms run show ?thesis
      by (intro failed[of _ "Suc (draws w)" "Suc (db_calls w)"]) (auto simp: w0_def)
  next
    case ok
    with assms run show ?thesis
      by (intro issued[of rows "Suc (db_calls w)"]) (auto simp: w0_def g_def)
  qed
qed

lemma codes_consume_cases:
  assumes "codes_consume rows q = (v, rows')"
  obtains (miss) "(\<exists>e. v = Inl e) \<or> v = Inr None" "rows' = rows"
    | (hit) row where "filter (redeemable_row q) rows = [row]" "v = Inr (Some (grant_of_row row))"
        "rows' = update_where (redeemable_row q) (\<lambda>r. r\<lparr>cd_used_at := Some (cq_now q)\<rparr>) rows"
proof (cases "filter (redeemable_row q) rows" rule: maybe_single.cases)
  case 1
  with assms show ?thesis by (intro miss) (auto simp: codes_consume_def update_where_none)
next
  case (2 row)
  with assms show ?thesis by (intro hit[of row]) (auto simp: codes_consume_def)
next
  case (3 a b rest)
  with assms show ?thesis by (intro miss) (auto simp: codes_consume_def)
qed

lemma consume_cases_world:
  assumes "consume_authorization_code X code cid uri w = (r, w')"
  obtains (failed) n where "(\<exists>e. r = Inl e) \<or> r = Inr None" "w' = w\<lparr>db_calls := n\<rparr>"
    | (consumed) n row where
        "filter (redeemable_row \<lparr>cq_code = code, cq_client_id = cid, cq_redirect_uri = uri, cq_now = clock w\<rparr>)
           (codes w) = [row]"
        "r = Inr (Some (grant_of_row row))" "32 \<le> length code"
        "w' = w\<lparr>db_calls := n, codes := update_where
            (redeemable_row \<lparr>cq_code = code, cq_client_id = cid, cq_redirect_uri = uri, cq_now = clock w\<rparr>)
            (\<lambda>r. r\<lparr>cd_used_at := Some (clock w)\<rparr>) (codes w)\<rparr>"
proof (cases "length code < 32")
  case True
  with assms have "r = Inr None" "w' = w\<lparr>db_calls := db_calls w\<rparr>"
    by (auto simp: consume_authorization_code_def ret_def)
  then show ?thesis using failed by blast
next
  case False
  define q where "q = \<lparr>cq_code = code, cq_client_id = cid, cq_redirect_uri = uri, cq_now = clock w\<rparr>"
  let ?st = "\<lambda>w. case codes_consume (codes w) q of (r, rows) \<Rightarrow> (r, w\<lparr>codes := rows\<rparr>)"
  obtain s w1 where st: "db_stmt X ?st w = (s, w1)" by (cases "db_stmt X ?st w")
  have run: "consume_authorization_code X code cid uri w =
      (case s of Inl e \<Rightarrow> (Inl e, w1)
       | Inr (Inl err) \<Rightarrow> (Inl (JsError (''Could not consume the authorization code: '' @ db_message err)), w1)
       | Inr (Inr hit) \<Rightarrow> (Inr hit, w1))"
    using st False unfolding consume_authorization_code_def supabase_consume_def q_def
    by (auto simp: seq_def gets_def ret_def throw_def split: sum.splits prod.splits)
  from db_stmt_cases[OF st] consider
      (no_env) e where "s = Inl e" "w1 = w"
    | (fault) err where "s = Inr (Inl err)" "w1 = w\<lparr>db_calls := Suc (db_calls w)\<rparr>"
    | (ran) v rows where "codes_consume (codes w) q = (v, rows)" "s = Inr v"
        "w1 = w\<lparr>db_calls := Suc (db_calls w), codes := rows\<rparr>"
    by (auto split: prod.splits)
  then show ?thesis
  proof cases
    case no_env
    with assms run show ?thesis by (intro failed[of "db_calls w"]) auto
  next
    case fault
    with assms run show ?thesis by (intro failed[of "Suc (db_calls w)"]) auto
  next
    case ran
    from ran(1) show ?thesis
    proof (cases rule: codes_consume_cases)
      case miss
      with ran(2,3) assms run show ?thesis
        by (intro failed[of "Suc (db_calls w)"]) auto
    next
      case (hit row)
      with ran(2,3) assms run False show ?thesis
        by (intro consumed[of row "Suc (db_calls w)"]) (simp_all add: q_def)
    qed
  qed
qed

subsection \<open>Properties\<close>

text \<open>C3. In any history of issues and redemptions against the Postgres table, in any order and
  starting from any table whose codes are distinct, no authorization code is redeemed twice.\<close>

theorem authorization_code_single_use:
  assumes "codes_ok rows" and "run_ops codes_insert table_consume rows ops = (rows', hits)"
  shows "distinct (map (cq_code \<circ> fst) hits)"
  using assms by (rule table.single_use)

definition demo_grant :: "string \<Rightarrow> stored_grant" where
  "demo_grant c =
    \<lparr>sg_client_id = ''ownex_a'', sg_app_slug = ''portal'', sg_org_id = 1, sg_wallet = ''0xAB'',
     sg_redirect_uri = ''https://p'', sg_code = c, sg_expires_at = 100\<rparr>"

definition demo_query :: "string \<Rightarrow> int \<Rightarrow> consume_query" where
  "demo_query c t =
    \<lparr>cq_code = c, cq_client_id = ''ownex_a'', cq_redirect_uri = ''https://p'', cq_now = t\<rparr>"

definition demo_history :: "store_op list" where
  "demo_history = [Issue (demo_grant ''c1''), Redeem (demo_query ''c1'' 50), Redeem (demo_query ''c1'' 60),
                   Issue (demo_grant ''c2''), Redeem (demo_query ''c2'' 120)]"

lemma demo_history_run:
  "map (cq_code \<circ> fst) (snd (run_ops codes_insert table_consume [] demo_history)) = [''c1'']"
  by code_simp

theorem authorization_code_single_use_witness:
  "distinct (map (cq_code \<circ> fst) (snd (run_ops codes_insert table_consume [] demo_history)))
   \<and> map (cq_code \<circ> fst) (snd (run_ops codes_insert table_consume [] demo_history)) = [''c1'']"
proof -
  have "codes_ok []" by (simp add: codes_ok_def)
  from authorization_code_single_use[OF this prod.collapse[symmetric]] demo_history_run
  show ?thesis by blast
qed

end
