(* ===== verification/Credentials.thy ===== *)
theory Credentials
  imports External
begin

text \<open>
  \<open>lib/client-credentials.ts\<close> (client ids, client secrets, their scrypt digests and the
  verification) and \<open>lib/partner-credentials.ts\<close> (reading credentials off a request), with
  \<open>clientAuthHeader\<close> of \<open>apps/employee-portal/lib/config.ts\<close>, the other end of the Basic header.
\<close>

subsection \<open>Client credentials\<close>

definition CLIENT_ID_PREFIX :: string where
  "CLIENT_ID_PREFIX = ''ownex_''"

definition CLIENT_SECRET_PREFIX :: string where
  "CLIENT_SECRET_PREFIX = ''oxs_''"

definition SCRYPT_COST :: "int \<times> int \<times> int" where
  "SCRYPT_COST = (16384, 8, 1)"

definition SCRYPT_KEYLEN :: nat where
  "SCRYPT_KEYLEN = 32"

definition HASH_SCHEME :: string where
  "HASH_SCHEME = ''scrypt''"

text \<open>The argument \<open>k\<close> is the index of the random draw the call makes.\<close>

definition generate_client_id :: "ext \<Rightarrow> nat \<Rightarrow> string" where
  "generate_client_id X k = CLIENT_ID_PREFIX @ x_hex X (x_random X k 16)"

definition generate_client_secret :: "ext \<Rightarrow> nat \<Rightarrow> string" where
  "generate_client_secret X k = CLIENT_SECRET_PREFIX @ x_b64url X (x_random X k 32)"

definition hash_client_secret :: "ext \<Rightarrow> nat \<Rightarrow> string \<Rightarrow> exn + string" where
  "hash_client_secret X k secret =
    (if length secret < 16 then Inl (JsError ''A client secret must be at least 16 characters'')
     else
       let salt = x_random X k 16 in
       (case x_scrypt X secret salt SCRYPT_KEYLEN SCRYPT_COST of
          None \<Rightarrow> Inl (JsError ''scrypt failed'')
        | Some digest \<Rightarrow>
          (case SCRYPT_COST of (N, r, p) \<Rightarrow>
             Inr (join_with ''$''
                    [HASH_SCHEME, show_int N, show_int r, show_int p,
                     x_b64url X salt, x_b64url X digest]))))"

text \<open>
  \<open>verifyClientSecret\<close>: the secret is an unknown JSON value, the stored digest a nullable column.
  \<open>timingSafeEqual\<close> on buffers of one length is equality of their bytes.
\<close>

definition verify_client_secret :: "ext \<Rightarrow> json \<Rightarrow> string option \<Rightarrow> bool" where
  "verify_client_secret X secret stored =
    (case secret of
       JStr s \<Rightarrow>
         if s = [] then False
         else (case stored of
           None \<Rightarrow> False
         | Some h \<Rightarrow>
           if h = [] then False
           else (case split_on (CHR ''$'') h of
             [scheme, n_text, r_text, p_text, salt_text, digest_text] \<Rightarrow>
               if scheme \<noteq> HASH_SCHEME then False
               else (case (x_number X n_text, x_number X r_text, x_number X p_text) of
                 (Some N, Some r, Some p) \<Rightarrow>
                   if N < 1024 \<or> r < 1 \<or> p < 1 then False
                   else
                     let salt = x_b64url_decode X salt_text;
                         expected = x_b64url_decode X digest_text in
                     if length salt = 0 \<or> length expected = 0 then False
                     else (case x_scrypt X s salt (length expected) (N, r, p) of
                       None \<Rightarrow> False
                     | Some derived \<Rightarrow> length derived = length expected \<and> derived = expected)
               | _ \<Rightarrow> False)
           | _ \<Rightarrow> False))
     | _ \<Rightarrow> False)"

definition is_production :: "string option \<Rightarrow> bool" where
  "is_production node_env = (node_env = Some ''production'')"

subsection \<open>Partner credentials on a request\<close>

record partner_credentials =
  cred_client_id :: string
  cred_client_secret :: string

text \<open>Request headers, by lower-case name.\<close>

type_synonym headers = "string \<Rightarrow> string option"

definition basic_token_char :: "char \<Rightarrow> bool" where
  "basic_token_char c =
    (is_alpha c \<or> is_digit c \<or> c = CHR ''+'' \<or> c = CHR ''/'' \<or> c = CHR ''='' \<or> c = CHR ''_''
     \<or> c = CHR ''-'')"

text \<open>\<open>/^Basic\s+([A-Za-z0-9+/=_-]+)\s*$/i\<close>: the captured token\<close>

definition match_basic :: "string \<Rightarrow> string option" where
  "match_basic s =
    (if to_lower (take 5 s) \<noteq> ''basic'' then None
     else
       let rest = drop 5 s;
           after = dropWhile is_space rest;
           token = takeWhile basic_token_char after;
           end_part = dropWhile basic_token_char after in
       if after = rest \<or> token = [] \<or> \<not> list_all is_space end_part then None else Some token)"

definition parse_basic_credentials :: "ext \<Rightarrow> string option \<Rightarrow> partner_credentials option" where
  "parse_basic_credentials X header =
    (case header of
       None \<Rightarrow> None
     | Some h \<Rightarrow>
       if h = [] then None
       else (case match_basic (trim h) of
         None \<Rightarrow> None
       | Some token \<Rightarrow>
         let decoded = x_b64_decode X token in
         (case index_of (CHR '':'') decoded of
            None \<Rightarrow> None
          | Some separator \<Rightarrow>
            if separator = 0 then None
            else
              let client_id = take separator decoded;
                  client_secret = drop (Suc separator) decoded in
              if client_id = [] \<or> client_secret = [] then None
              else Some \<lparr>cred_client_id = client_id, cred_client_secret = client_secret\<rparr>)))"

definition read_partner_credentials :: "ext \<Rightarrow> headers \<Rightarrow> partner_credentials option" where
  "read_partner_credentials X hs =
    (case parse_basic_credentials X (hs ''authorization'') of
       Some basic \<Rightarrow> Some basic
     | None \<Rightarrow>
       (case (hs ''x-ownex-client-id'', hs ''x-ownex-client-secret'') of
          (Some client_id, Some client_secret) \<Rightarrow>
            if client_id \<noteq> [] \<and> client_secret \<noteq> []
            then Some \<lparr>cred_client_id = client_id, cred_client_secret = client_secret\<rparr>
            else None
        | _ \<Rightarrow> None))"

definition requires_client_auth :: "string option \<Rightarrow> bool" where
  "requires_client_auth node_env = (node_env = Some ''production'')"

text \<open>\<open>clientAuthHeader\<close> of the portal\<close>

definition client_auth_header :: "ext \<Rightarrow> string \<Rightarrow> string \<Rightarrow> string" where
  "client_auth_header X client_id client_secret =
    ''Basic '' @ x_b64 X (client_id @ '':'' @ client_secret)"

subsection \<open>Lemmas\<close>

lemma b64url_no_dollar: "b64url_codec X \<Longrightarrow> CHR ''$'' \<notin> set (x_b64url X b)"
  unfolding b64url_codec_def list_all_iff
  by (force simp: b64url_char_def is_alpha_def is_upper_def is_lower_def is_digit_def code_unit_def)

lemma show_int_no_dollar: "CHR ''$'' \<notin> set (show_int i)"
  using show_int_chars by (force simp: is_digit_def code_unit_def)

lemma b64_not_space: "b64_codec X \<Longrightarrow> c \<in> set (x_b64 X b) \<Longrightarrow> \<not> is_space c"
  unfolding b64_codec_def list_all_iff
  by (force simp: b64_char_def is_alpha_def is_upper_def is_lower_def is_digit_def code_unit_def
        is_space_def)

lemma b64_token: "b64_codec X \<Longrightarrow> c \<in> set (x_b64 X b) \<Longrightarrow> basic_token_char c"
  unfolding b64_codec_def list_all_iff
  by (force simp: b64_char_def basic_token_char_def)

lemma b64_not_Nil: "b64_codec X \<Longrightarrow> b \<noteq> [] \<Longrightarrow> c \<noteq> [] \<Longrightarrow> x_b64 X b = x_b64 X c \<Longrightarrow> b = c"
  unfolding b64_codec_def by metis

lemma stored_digest_split:
  assumes "b64url_codec X"
  shows "split_on (CHR ''$'')
           (join_with ''$'' [HASH_SCHEME, show_int N, show_int r, show_int p, x_b64url X a, x_b64url X b])
         = [HASH_SCHEME, show_int N, show_int r, show_int p, x_b64url X a, x_b64url X b]"
  by (rule split_join)
     (auto simp: b64url_no_dollar[OF assms] show_int_no_dollar HASH_SCHEME_def)

lemma hash_client_secret_InrD:
  assumes "hash_client_secret X k secret = Inr h"
  shows "\<exists>digest. 16 \<le> length secret
     \<and> x_scrypt X secret (x_random X k 16) SCRYPT_KEYLEN SCRYPT_COST = Some digest
     \<and> h = join_with ''$'' [HASH_SCHEME, show_int 16384, show_int 8, show_int 1,
                            x_b64url X (x_random X k 16), x_b64url X digest]"
  using assms unfolding hash_client_secret_def
  by (auto simp: SCRYPT_COST_def Let_def split: if_splits option.splits)

lemma verify_client_secretD:
  assumes "verify_client_secret X secret stored"
  shows "\<exists>s h. secret = JStr s \<and> s \<noteq> [] \<and> stored = Some h \<and> h \<noteq> []"
  using assms unfolding verify_client_secret_def
  by (auto split: json.splits option.splits if_splits)

lemma match_basic_header:
  assumes "tok \<noteq> []" and "\<forall>c \<in> set tok. basic_token_char c" and "\<forall>c \<in> set tok. \<not> is_space c"
  shows "match_basic (''Basic '' @ tok) = Some tok"
proof -
  have "is_space CHR '' ''" by code_simp
  moreover have "dropWhile is_space tok = tok"
    using assms(1,3) by (cases tok) auto
  moreover have tok: "takeWhile basic_token_char tok = tok" "dropWhile basic_token_char tok = []"
    using assms(2) by (simp_all add: takeWhile_eq_all_conv)
  moreover have "to_lower ''Basic'' = ''basic''" by code_simp
  ultimately show ?thesis
    using assms(1) by (simp add: match_basic_def Let_def tok)
qed

lemma trim_basic_header:
  assumes "tok \<noteq> []" and "\<forall>c \<in> set tok. \<not> is_space c"
  shows "trim (''Basic '' @ tok) = ''Basic '' @ tok"
  using assms by (intro trim_no_space) (auto simp: is_space_def code_unit_def)

text \<open>A stored digest accepts exactly the secrets that scrypt maps to the same bytes.\<close>

lemma verify_stored_digest:
  assumes "hash_client_secret X k secret = Inr h"
    and "number_reads_decimals X" "b64url_codec X" "scrypt_returns X SCRYPT_COST" "random_lengths X"
  shows "verify_client_secret X (JStr s) (Some h) \<longleftrightarrow>
     s \<noteq> [] \<and> x_scrypt X s (x_random X k 16) SCRYPT_KEYLEN SCRYPT_COST
             = x_scrypt X secret (x_random X k 16) SCRYPT_KEYLEN SCRYPT_COST"
proof -
  let ?salt = "x_random X k 16"
  from hash_client_secret_InrD[OF assms(1)] obtain digest where
    d: "x_scrypt X secret ?salt SCRYPT_KEYLEN SCRYPT_COST = Some digest" and
    h: "h = join_with ''$'' [HASH_SCHEME, show_int 16384, show_int 8, show_int 1,
                            x_b64url X ?salt, x_b64url X digest]" by blast
  from assms(4) d have len: "length digest = SCRYPT_KEYLEN" unfolding scrypt_returns_def by (metis option.inject)
  have salt: "length ?salt = 16" using assms(5) by (simp add: random_lengths_def)
  have split: "split_on (CHR ''$'') h = [HASH_SCHEME, show_int 16384, show_int 8, show_int 1,
                            x_b64url X ?salt, x_b64url X digest]"
    unfolding h by (rule stored_digest_split[OF assms(3)])
  have num: "x_number X (show_int i) = Some i" for i
    using assms(2) by (simp add: number_reads_decimals_def)
  have dec: "x_b64url_decode X (x_b64url X b) = b" for b using assms(3) by (simp add: b64url_codec_def)
  have "h \<noteq> []" unfolding h by (simp add: HASH_SCHEME_def)
  moreover obtain e where e: "x_scrypt X s ?salt SCRYPT_KEYLEN SCRYPT_COST = Some e" "length e = SCRYPT_KEYLEN"
    using assms(4) unfolding scrypt_returns_def by blast
  ultimately show ?thesis
    using d e len salt
    by (auto simp: verify_client_secret_def split num dec Let_def SCRYPT_COST_def SCRYPT_KEYLEN_def)
qed

lemma hash_client_secret_total:
  assumes "scrypt_returns X SCRYPT_COST" and "16 \<le> length secret"
  shows "\<exists>h. hash_client_secret X k secret = Inr h"
  using assms unfolding hash_client_secret_def scrypt_returns_def SCRYPT_COST_def
  by (auto simp: Let_def split: option.splits) (metis option.distinct(1))

end
