(* ===== verification/Applications.thy ===== *)
theory Applications
  imports LiveAccess "HOL-Library.Char_ord" "HOL-Library.List_Lexorder"
begin

text \<open>
  \<open>apps/platform/lib/applications.ts\<close>: the application registry. Rows are turned into records
  (the application id is recomputed from the slug, never read), callbacks are replaced as a set,
  and an authorization request is resolved to a registered application and callback. Text is
  ordered by code units where the database orders it by its collation.
\<close>

subsection \<open>Records\<close>

datatype app_status = Draft | Active | Revoked

fun status_text :: "app_status \<Rightarrow> string" where
  "status_text Draft = ''draft''"
| "status_text Active = ''active''"
| "status_text Revoked = ''revoked''"

record registered_application =
  ra_org :: int
  ra_slug :: string
  ra_app_id :: string
  ra_stored_app_id :: "string option"
  ra_name :: string
  ra_url :: string
  ra_description :: "string option"
  ra_logo_url :: "string option"
  ra_client_id :: "string option"
  ra_secret_hash :: "string option"
  ra_secret_updated_at :: "int option"
  ra_allowed_roles :: "role_name list"
  ra_status :: app_status
  ra_callbacks :: "string list"
  ra_created_at :: "int option"
  ra_updated_at :: "int option"

definition to_status :: "string \<Rightarrow> app_status" where
  "to_status value =
    (if value = ''active'' then Active else if value = ''revoked'' then Revoked else Draft)"

definition to_roles :: "string list option \<Rightarrow> role_name list" where
  "to_roles value =
    (case value of
       None \<Rightarrow> []
     | Some entries \<Rightarrow> filter (\<lambda>role. role_text role \<in> to_upper ` set entries) ASSIGNABLE_ROLES)"

definition to_record :: "ext \<Rightarrow> app_row \<Rightarrow> string list \<Rightarrow> registered_application" where
  "to_record X row cbs =
    \<lparr>ra_org = ap_org_id row,
     ra_slug = ap_slug row,
     ra_app_id = app_id_from_slug X (ap_slug row),
     ra_stored_app_id = ap_app_id row,
     ra_name = nullish (ap_name row) (ap_slug row),
     ra_url = nullish (ap_url row) [],
     ra_description = ap_description row,
     ra_logo_url = ap_logo_url row,
     ra_client_id = ap_client_id row,
     ra_secret_hash = ap_secret_hash row,
     ra_secret_updated_at = ap_secret_updated_at row,
     ra_allowed_roles = to_roles (ap_allowed_roles row),
     ra_status = to_status (ap_status row),
     ra_callbacks = cbs,
     ra_created_at = Some (ap_created_at row),
     ra_updated_at = Some (ap_updated_at row)\<rparr>"

subsection \<open>Reads\<close>

definition registry_error :: "string \<Rightarrow> db_error \<Rightarrow> exn" where
  "registry_error what err = RegistryUnavailable (what @ '': '' @ db_message err)"

definition callback_urls :: "int \<Rightarrow> string \<Rightarrow> callback_row list \<Rightarrow> string list" where
  "callback_urls org_id slug rows =
    sort (map cb_url (filter (\<lambda>r. cb_org_id r = org_id \<and> cb_slug r = slug) rows))"

definition read_callbacks :: "ext \<Rightarrow> int \<Rightarrow> string \<Rightarrow> string list io" where
  "read_callbacks X org_id slug =
    seq (select_stmt X (\<lambda>w. callback_urls org_id slug (callbacks w))) (\<lambda>r.
      case r of
        Inl err \<Rightarrow> throw (registry_error ''Could not read callback URLs'' err)
      | Inr urls \<Rightarrow> ret urls)"

definition read_callbacks_for_org :: "ext \<Rightarrow> int \<Rightarrow> (string \<Rightarrow> string list) io" where
  "read_callbacks_for_org X org_id =
    seq (select_stmt X (\<lambda>w. sort_key cb_url (filter (\<lambda>r. cb_org_id r = org_id) (callbacks w)))) (\<lambda>r.
      case r of
        Inl err \<Rightarrow> throw (registry_error ''Could not read callback URLs'' err)
      | Inr rows \<Rightarrow> ret (\<lambda>slug. map cb_url (filter (\<lambda>row. cb_slug row = slug) rows)))"

definition find_application_by_client_id :: "ext \<Rightarrow> string \<Rightarrow> registered_application option io" where
  "find_application_by_client_id X client_id =
    (if trim client_id = [] then ret None
     else seq (select_one X (\<lambda>w. filter (\<lambda>r. ap_client_id r = Some (trim client_id)) (applications w))) (\<lambda>r.
       case r of
         Inl err \<Rightarrow> throw (registry_error ''Could not read the application'' err)
       | Inr None \<Rightarrow> ret None
       | Inr (Some row) \<Rightarrow>
           seq (read_callbacks X (ap_org_id row) (ap_slug row)) (\<lambda>cbs.
             ret (Some (to_record X row cbs)))))"

definition find_application_by_slug :: "ext \<Rightarrow> int \<Rightarrow> string \<Rightarrow> registered_application option io" where
  "find_application_by_slug X org_id slug =
    seq (select_one X (\<lambda>w. filter (\<lambda>r. ap_org_id r = org_id \<and> ap_slug r = slug) (applications w))) (\<lambda>r.
      case r of
        Inl err \<Rightarrow> throw (registry_error ''Could not read the application'' err)
      | Inr None \<Rightarrow> ret None
      | Inr (Some row) \<Rightarrow>
          seq (read_callbacks X org_id slug) (\<lambda>cbs. ret (Some (to_record X row cbs))))"

definition list_applications_for_org :: "ext \<Rightarrow> int \<Rightarrow> registered_application list io" where
  "list_applications_for_org X org_id =
    seq (select_stmt X (\<lambda>w. sort_key ap_created_at (filter (\<lambda>r. ap_org_id r = org_id) (applications w)))) (\<lambda>r.
      case r of
        Inl err \<Rightarrow> throw (registry_error ''Could not list applications'' err)
      | Inr rows \<Rightarrow>
          seq (read_callbacks_for_org X org_id) (\<lambda>cbs.
            ret (map (\<lambda>row. to_record X row (cbs (ap_slug row))) rows)))"

subsection \<open>Writes\<close>

text \<open>\<open>Array.from(new Set(xs))\<close>: first occurrences, in order\<close>

fun dedup :: "'a list \<Rightarrow> 'a list" where
  "dedup [] = []"
| "dedup (x # xs) = x # filter (\<lambda>y. y \<noteq> x) (dedup xs)"

definition unique_callbacks :: "string list \<Rightarrow> string list" where
  "unique_callbacks cbs = filter (\<lambda>v. v \<noteq> []) (dedup (map trim cbs))"

definition replace_callbacks :: "ext \<Rightarrow> int \<Rightarrow> string \<Rightarrow> string list \<Rightarrow> unit io" where
  "replace_callbacks X org_id slug cbs =
    seq (db_stmt X (\<lambda>w. (Inr (), w\<lparr>callbacks :=
           filter (\<lambda>r. \<not> (cb_org_id r = org_id \<and> cb_slug r = slug)) (callbacks w)\<rparr>))) (\<lambda>r.
      case r of
        Inl err \<Rightarrow> throw (registry_error ''Could not replace callback URLs'' err)
      | Inr _ \<Rightarrow>
        if unique_callbacks cbs = [] then ret ()
        else seq (db_stmt X (\<lambda>w. (Inr (), w\<lparr>callbacks := callbacks w
               @ map (\<lambda>u. \<lparr>cb_org_id = org_id, cb_slug = slug, cb_url = u\<rparr>) (unique_callbacks cbs)\<rparr>))) (\<lambda>r2.
          case r2 of
            Inl err \<Rightarrow> throw (registry_error ''Could not save callback URLs'' err)
          | Inr _ \<Rightarrow> ret ()))"

subsection \<open>Resolving an authorization request\<close>

datatype resolve_rejection =
    UNKNOWN_CLIENT
  | ORG_MISMATCH
  | SECRET_NOT_GENERATED
  | CallbackRejected callback_rejection

fun rejection_code :: "callback_rejection \<Rightarrow> string" where
  "rejection_code UNKNOWN_APP = ''UNKNOWN_APP''"
| "rejection_code APPLICATION_REVOKED = ''APPLICATION_REVOKED''"
| "rejection_code MISSING_URI = ''MISSING_URI''"
| "rejection_code MALFORMED_URI = ''MALFORMED_URI''"
| "rejection_code UNSUPPORTED_SCHEME = ''UNSUPPORTED_SCHEME''"
| "rejection_code INSECURE_SCHEME = ''INSECURE_SCHEME''"
| "rejection_code LOCALHOST_NOT_ALLOWED = ''LOCALHOST_NOT_ALLOWED''"
| "rejection_code NO_CALLBACK_REGISTERED = ''NO_CALLBACK_REGISTERED''"
| "rejection_code CALLBACK_NOT_REGISTERED = ''CALLBACK_NOT_REGISTERED''"
| "rejection_code CALLBACK_HAS_PARAMETERS = ''CALLBACK_HAS_PARAMETERS''"
| "rejection_code CALLBACK_TOO_LONG = ''CALLBACK_TOO_LONG''"

fun resolve_code :: "resolve_rejection \<Rightarrow> string" where
  "resolve_code UNKNOWN_CLIENT = ''UNKNOWN_CLIENT''"
| "resolve_code ORG_MISMATCH = ''ORG_MISMATCH''"
| "resolve_code SECRET_NOT_GENERATED = ''SECRET_NOT_GENERATED''"
| "resolve_code (CallbackRejected r) = rejection_code r"

definition subject_of :: "registered_application \<Rightarrow> callback_subject" where
  "subject_of app = \<lparr>cs_status = Some (status_text (ra_status app)), cs_callbacks = ra_callbacks app\<rparr>"

definition current_callback_mode :: "world \<Rightarrow> callback_mode" where
  "current_callback_mode w = callback_mode_of (penv w ''NODE_ENV'')"

definition resolve_application ::
  "ext \<Rightarrow> registered_application option \<Rightarrow> int \<Rightarrow> json \<Rightarrow> callback_mode \<Rightarrow> bool
   \<Rightarrow> resolve_rejection + registered_application \<times> string" where
  "resolve_application X found org_id redirect_uri mode require_secret =
    (case found of
       None \<Rightarrow> Inl UNKNOWN_CLIENT
     | Some app \<Rightarrow>
       if ra_org app \<noteq> org_id then Inl ORG_MISMATCH
       else if ra_status app = Revoked then Inl (CallbackRejected APPLICATION_REVOKED)
       else if require_secret \<and> \<not> truthy (ra_secret_hash app) then Inl SECRET_NOT_GENERATED
       else (case check_callback (x_parse_url X) (Some (subject_of app)) redirect_uri mode of
               CallbackNo r \<Rightarrow> Inl (CallbackRejected r)
             | CallbackOk _ registered \<Rightarrow> Inr (app, registered)))"

definition resolve_authorization_request ::
  "ext \<Rightarrow> string \<Rightarrow> int \<Rightarrow> json \<Rightarrow> callback_mode option \<Rightarrow> bool
   \<Rightarrow> (resolve_rejection + registered_application \<times> string) io" where
  "resolve_authorization_request X client_id org_id redirect_uri mode require_secret =
    seq (find_application_by_client_id X client_id) (\<lambda>found.
    seq (gets current_callback_mode) (\<lambda>current.
      ret (resolve_application X found org_id redirect_uri (nullish mode current) require_secret)))"

fun explain_resolve_rejection :: "resolve_rejection \<Rightarrow> string" where
  "explain_resolve_rejection UNKNOWN_CLIENT =
     ''No application is registered with owneX for that client_id.''"
| "explain_resolve_rejection ORG_MISMATCH =
     ''The org_id does not match the organization this application is registered to.''"
| "explain_resolve_rejection SECRET_NOT_GENERATED =
     ''This application has no client secret yet, so it cannot exchange an authorization code.''"
| "explain_resolve_rejection (CallbackRejected r) = explain_rejection r"

text \<open>\<open>catch (error) { if (error instanceof RegistryUnavailableError) ...; throw error; }\<close>\<close>

definition try_registry :: "'a io \<Rightarrow> 'a option io" where
  "try_registry m =
    try_catch (seq m (\<lambda>x. ret (Some x)))
      (\<lambda>e. case e of RegistryUnavailable _ \<Rightarrow> ret None | _ \<Rightarrow> throw e)"

subsection \<open>Lemmas\<close>

lemma rethrow_iff:
  "(case e of RegistryUnavailable _ \<Rightarrow> ret None | _ \<Rightarrow> throw e) w = (Inr v, w') \<longleftrightarrow>
     (\<exists>msg. e = RegistryUnavailable msg) \<and> v = None \<and> w' = w"
  by (cases e) (auto simp: ret_def throw_def)

lemma try_registry_Some [io_iff]: "try_registry m w = (Inr (Some x), w') \<longleftrightarrow> m w = (Inr x, w')"
  by (auto simp: try_registry_def io_iff rethrow_iff)

lemma try_registry_None [io_iff]:
  "try_registry m w = (Inr None, w') \<longleftrightarrow> (\<exists>msg. m w = (Inl (RegistryUnavailable msg), w'))"
  by (auto simp: try_registry_def io_iff seq_Inl_iff rethrow_iff ret_def)

lemma try_registry_reads_only [query_intro]: "reads_only m \<Longrightarrow> reads_only (try_registry m)"
  unfolding try_registry_def by (intro query_intro) (auto intro: query_intro split: exn.splits)

lemma status_text_inj [simp]: "status_text s = status_text t \<longleftrightarrow> s = t"
  by (cases s; cases t) simp_all

lemma status_text_revoked [simp]: "status_text s = ''revoked'' \<longleftrightarrow> s = Revoked"
  by (cases s) simp_all

lemma to_status_status_text [simp]: "to_status (status_text s) = s"
  by (cases s) (simp_all add: to_status_def)

lemma set_dedup [simp]: "set (dedup xs) = set xs"
  by (induction xs) auto

lemma distinct_dedup [simp]: "distinct (dedup xs)"
  by (induction xs) auto

lemma set_unique_callbacks: "set (unique_callbacks cbs) = trim ` set cbs - {[]}"
  by (auto simp: unique_callbacks_def)

lemma registry_reads_only [query_intro]:
  "reads_only (read_callbacks X org slug)"
  "reads_only (read_callbacks_for_org X org)"
  unfolding read_callbacks_def read_callbacks_for_org_def by (intro query_intro)+

lemma find_reads_only [query_intro]:
  "reads_only (find_application_by_client_id X cid)"
  "reads_only (find_application_by_slug X org slug)"
  "reads_only (list_applications_for_org X org)"
  unfolding find_application_by_client_id_def find_application_by_slug_def list_applications_for_org_def
  by (intro query_intro)+

lemma resolve_reads_only [query_intro]:
  "reads_only (resolve_authorization_request X cid org uri mode req)"
  unfolding resolve_authorization_request_def by (intro query_intro)

lemma loud_rethrow:
  "400 \<le> status (error_response e) \<Longrightarrow>
   fails_loudly (case e of RegistryUnavailable _ \<Rightarrow> ret None | _ \<Rightarrow> throw e)"
  by (cases e) (auto intro: loud_intro)

lemma loud_registry [loud_intro]:
  "fails_loudly (read_callbacks X org slug)"
  "fails_loudly (find_application_by_client_id X cid)"
  "fails_loudly (find_application_by_slug X org slug)"
  "fails_loudly m \<Longrightarrow> fails_loudly (try_registry m)"
proof -
  have err: "400 \<le> status (error_response (registry_error what err))" for what err
    by (simp add: registry_error_def error_response_status)
  show rc: "fails_loudly (read_callbacks X org slug)" for org slug
    unfolding read_callbacks_def by (intro loud_intro err)
  show "fails_loudly (find_application_by_client_id X cid)"
    "fails_loudly (find_application_by_slug X org slug)"
    unfolding find_application_by_client_id_def find_application_by_slug_def
    by (intro loud_intro err rc)+
  show "fails_loudly m \<Longrightarrow> fails_loudly (try_registry m)"
    unfolding try_registry_def by (intro loud_try_catch_rethrow loud_intro loud_rethrow)
qed

lemma read_callbacks_Inr:
  assumes "read_callbacks X org slug w = (Inr urls, w')"
  shows "urls = callback_urls org slug (callbacks w)"
  using assms select_stmt_Inr[of X "\<lambda>w. callback_urls org slug (callbacks w)" w]
  by (auto simp: read_callbacks_def io_iff)

text \<open>A record found by client id is built from the one row that carries it.\<close>

lemma find_by_client_id_Some:
  assumes "find_application_by_client_id X cid w = (Inr (Some app), w')"
  shows "\<exists>row. filter (\<lambda>r. ap_client_id r = Some (trim cid)) (applications w) = [row]
     \<and> app = to_record X row (callback_urls (ap_org_id row) (ap_slug row) (callbacks w))
     \<and> trim cid \<noteq> [] \<and> (\<exists>n. w' = w\<lparr>db_calls := n\<rparr>)"
proof -
  let ?f = "\<lambda>w. filter (\<lambda>r. ap_client_id r = Some (trim cid)) (applications w)"
  from assms obtain row cbs w1 where
    sel: "select_one X ?f w = (Inr (Inr (Some row)), w1)" and
    cbs: "read_callbacks X (ap_org_id row) (ap_slug row) w1 = (Inr cbs, w')" and
    app: "app = to_record X row cbs" "trim cid \<noteq> []"
    unfolding find_application_by_client_id_def
    by (auto simp: io_iff)
  from select_one_Inr[OF sel] obtain n where row: "?f w = [row]" and w1: "w1 = w\<lparr>db_calls := n\<rparr>"
    by (auto simp: maybe_single_Some_iff)
  from read_callbacks_Inr[OF cbs] w1
  have "cbs = callback_urls (ap_org_id row) (ap_slug row) (callbacks w)" by simp
  with row app reads_onlyD[OF find_reads_only(1) assms] show ?thesis by blast
qed

lemma find_by_slug_Some:
  assumes "find_application_by_slug X org slug w = (Inr (Some app), w')"
  shows "\<exists>row. filter (\<lambda>r. ap_org_id r = org \<and> ap_slug r = slug) (applications w) = [row]
     \<and> app = to_record X row (callback_urls org slug (callbacks w)) \<and> (\<exists>n. w' = w\<lparr>db_calls := n\<rparr>)"
proof -
  let ?f = "\<lambda>w. filter (\<lambda>r. ap_org_id r = org \<and> ap_slug r = slug) (applications w)"
  from assms obtain row cbs w1 where
    sel: "select_one X ?f w = (Inr (Inr (Some row)), w1)" and
    cbs: "read_callbacks X org slug w1 = (Inr cbs, w')" and
    app: "app = to_record X row cbs"
    unfolding find_application_by_slug_def
    by (auto simp: io_iff)
  from select_one_Inr[OF sel] obtain n where row: "?f w = [row]" and w1: "w1 = w\<lparr>db_calls := n\<rparr>"
    by (auto simp: maybe_single_Some_iff)
  from read_callbacks_Inr[OF cbs] w1 have "cbs = callback_urls org slug (callbacks w)" by simp
  with row app reads_onlyD[OF find_reads_only(2) assms] show ?thesis by blast
qed

lemma find_by_client_id_fields:
  assumes "find_application_by_client_id X cid w = (Inr (Some app), w')"
  shows "ra_client_id app = Some (trim cid)" and "ra_app_id app = app_id_from_slug X (ra_slug app)"
    and "ra_callbacks app = callback_urls (ra_org app) (ra_slug app) (callbacks w)"
proof -
  from find_by_client_id_Some[OF assms] obtain row where
    f: "filter (\<lambda>r. ap_client_id r = Some (trim cid)) (applications w) = [row]" and
    app: "app = to_record X row (callback_urls (ap_org_id row) (ap_slug row) (callbacks w))" by blast
  from f have "row \<in> set (filter (\<lambda>r. ap_client_id r = Some (trim cid)) (applications w))" by simp
  then show "ra_client_id app = Some (trim cid)" by (simp add: app to_record_def)
qed (use find_by_client_id_Some[OF assms] in \<open>auto simp: to_record_def\<close>)

lemma resolve_application_InrD:
  assumes "resolve_application X found org uri mode req = Inr (app, registered)"
  shows "found = Some app" "ra_org app = org" "ra_status app \<noteq> Revoked"
    "req \<longrightarrow> truthy (ra_secret_hash app)" "registered \<in> set (ra_callbacks app)"
    "\<exists>n. check_callback (x_parse_url X) (Some (subject_of app)) uri mode = CallbackOk n registered"
proof -
  show *: "found = Some app" "ra_org app = org" "ra_status app \<noteq> Revoked"
    "req \<longrightarrow> truthy (ra_secret_hash app)"
    "\<exists>n. check_callback (x_parse_url X) (Some (subject_of app)) uri mode = CallbackOk n registered"
    using assms unfolding resolve_application_def
    by (auto split: option.splits if_splits callback_check.splits)
  from *(5) check_callback_OkD show "registered \<in> set (ra_callbacks app)"
    by (fastforce simp: subject_of_def)
qed

lemma resolve_request_Inr:
  assumes "resolve_authorization_request X cid org uri mode req w = (Inr (Inr (app, registered)), w')"
  shows "\<exists>w1. find_application_by_client_id X cid w = (Inr (Some app), w1)"
    and "resolve_application X (Some app) org uri (nullish mode (current_callback_mode w)) req = Inr (app, registered)"
    and "\<exists>n. w' = w\<lparr>db_calls := n\<rparr>"
proof -
  from assms obtain found w1 where
    f: "find_application_by_client_id X cid w = (Inr found, w1)" and
    r: "resolve_application X found org uri (nullish mode (current_callback_mode w1)) req = Inr (app, registered)"
    and w': "w' = w1"
    unfolding resolve_authorization_request_def by (auto simp: io_iff)
  from reads_onlyD[OF find_reads_only(1) f] obtain n where w1: "w1 = w\<lparr>db_calls := n\<rparr>" by blast
  note found = resolve_application_InrD(1)[OF r]
  from f found show "\<exists>w1. find_application_by_client_id X cid w = (Inr (Some app), w1)" by blast
  from r found w1
  show "resolve_application X (Some app) org uri (nullish mode (current_callback_mode w)) req = Inr (app, registered)"
    by (simp add: current_callback_mode_def)
  from w1 w' show "\<exists>n. w' = w\<lparr>db_calls := n\<rparr>" by blast
qed

end
