(* ===== verification/PartnerAuth.thy ===== *)
theory PartnerAuth
  imports Applications Credentials
begin

text \<open>
  \<open>apps/platform/lib/partner-auth.ts\<close>: authenticating the partner application that calls
  \<open>/api/roles/verify\<close> and \<open>/api/portal/assets\<close>.
\<close>

datatype partner_auth =
    AuthCredentials registered_application
  | AuthDevelopmentPublic
  | AuthRefused int string string   \<comment> \<open>status, code, message\<close>

definition authenticate_partner :: "ext \<Rightarrow> headers \<Rightarrow> partner_auth io" where
  "authenticate_partner X hs =
    (case read_partner_credentials X hs of
       None \<Rightarrow>
         seq (gets (\<lambda>w. penv w ''NODE_ENV'')) (\<lambda>node_env.
           if requires_client_auth node_env
           then ret (AuthRefused 401 ''CLIENT_AUTH_REQUIRED''
             ''Present your owneX client credentials, either as HTTP Basic auth or as X-OwneX-Client-Id and X-OwneX-Client-Secret headers. Never from browser JavaScript.'')
           else ret AuthDevelopmentPublic)
     | Some credentials \<Rightarrow>
         seq (try_registry (find_application_by_client_id X (cred_client_id credentials))) (\<lambda>r.
           case r of
             None \<Rightarrow> ret (AuthRefused 503 ''REGISTRY_UNAVAILABLE''
               ''Could not verify your client credentials right now.'')
           | Some application \<Rightarrow>
             let secret_ok = verify_client_secret X (JStr (cred_client_secret credentials))
                               (case application of None \<Rightarrow> None | Some a \<Rightarrow> ra_secret_hash a) in
             (case application of
                None \<Rightarrow> ret (AuthRefused 401 ''INVALID_CLIENT'' ''Invalid client credentials.'')
              | Some app \<Rightarrow>
                if ra_status app = Revoked \<or> \<not> secret_ok
                then ret (AuthRefused 401 ''INVALID_CLIENT'' ''Invalid client credentials.'')
                else ret (AuthCredentials app))))"

lemma authenticate_partner_reads_only [query_intro]: "reads_only (authenticate_partner X hs)"
  unfolding authenticate_partner_def Let_def by (intro query_intro)

text \<open>Who may be let in, and as what.\<close>

lemma authenticate_partner_credentials:
  assumes "authenticate_partner X hs w = (Inr (AuthCredentials app), w')"
  shows "\<exists>cred w1. read_partner_credentials X hs = Some cred
     \<and> find_application_by_client_id X (cred_client_id cred) w = (Inr (Some app), w1)
     \<and> ra_status app \<noteq> Revoked
     \<and> verify_client_secret X (JStr (cred_client_secret cred)) (ra_secret_hash app)"
  using assms by (auto simp: authenticate_partner_def Let_def io_iff)

lemma authenticate_partner_public:
  assumes "authenticate_partner X hs w = (Inr AuthDevelopmentPublic, w')"
  shows "penv w ''NODE_ENV'' \<noteq> Some ''production'' \<and> read_partner_credentials X hs = None"
  using assms by (auto simp: authenticate_partner_def Let_def io_iff requires_client_auth_def)

lemma authenticate_partner_row:
  assumes "authenticate_partner X hs w = (Inr (AuthCredentials app), w')"
  obtains cred row where "read_partner_credentials X hs = Some cred" "row \<in> set (applications w)"
    "ap_client_id row = Some (trim (cred_client_id cred))" "to_status (ap_status row) \<noteq> Revoked"
    "verify_client_secret X (JStr (cred_client_secret cred)) (ap_secret_hash row)"
    "ra_org app = ap_org_id row" "ra_slug app = ap_slug row"
proof -
  from authenticate_partner_credentials[OF assms] obtain cred w1 where
    c: "read_partner_credentials X hs = Some cred"
      "find_application_by_client_id X (cred_client_id cred) w = (Inr (Some app), w1)"
      "ra_status app \<noteq> Revoked"
      "verify_client_secret X (JStr (cred_client_secret cred)) (ra_secret_hash app)" by blast
  from find_by_client_id_Some[OF c(2)] obtain row where
    "filter (\<lambda>r. ap_client_id r = Some (trim (cred_client_id cred))) (applications w) = [row]"
    "app = to_record X row (callback_urls (ap_org_id row) (ap_slug row) (callbacks w))" by blast
  with c that[of cred row] show ?thesis by (auto simp: to_record_def dest!: filter_singletonD)
qed

end
