(* ===== verification/AuthorizeRoutes.thy ===== *)
theory AuthorizeRoutes
  imports PartnerAuth CodeStore
begin

text \<open>
  The single sign-on endpoints: the consent page (\<open>app/authorize/page.tsx\<close>), its submission
  (\<open>api/authorize/approve\<close>), the back channel (\<open>api/authorize/exchange\<close>), live revalidation
  (\<open>api/roles/verify\<close>) and the partner's asset list (\<open>api/portal/assets\<close>).
\<close>

subsection \<open>The parameters of an authorization request\<close>

record authorize_params =
  az_client :: "string option"
  az_org :: "string option"
  az_redirect_uri :: "string option"
  az_state :: "string option"

definition text_between :: "nat \<Rightarrow> nat \<Rightarrow> string option \<Rightarrow> bool" where
  "text_between lo hi v = (case v of None \<Rightarrow> False | Some s \<Rightarrow> lo \<le> length s \<and> length s \<le> hi)"

definition authorize_issues :: "ext \<Rightarrow> authorize_params \<Rightarrow> issue list" where
  "authorize_issues X p =
    field_issue X ''client_id'' (text_between 8 128 (az_client p))
    @ field_issue X ''org_id'' (coerced_positive X (az_org p))
    @ field_issue X ''redirect_uri'' (text_between 8 2048 (az_redirect_uri p))
    @ field_issue X ''state'' (text_between 8 512 (az_state p))"

definition text_param :: "string option \<Rightarrow> string" where
  "text_param v = nullish v []"

subsection \<open>The consent page\<close>

datatype consent_view =
    RejectionCard string string bool "(callback_redirect \<times> string) option"
      \<comment> \<open>code, detail, warning tone, way back\<close>
  | SignInCard string string   \<comment> \<open>application name, sign-in link\<close>
  | DenialCard string string string deny_reason string callback_redirect
      \<comment> \<open>application name, wallet, role, reason, detail, way back\<close>
  | ConsentForm string string string "string list" authorize_params callback_redirect
      \<comment> \<open>application name, wallet, role, granted permissions, hidden inputs, cancel link\<close>

definition describe_shape_problem :: "string \<Rightarrow> string" where
  "describe_shape_problem field =
    (if field = ''client_id'' then ''The request did not include a client_id. A partner application must send the client id owneX issued to it.''
     else if field = ''org_id'' then ''The request did not include a valid org_id.''
     else if field = ''redirect_uri'' then ''The request did not include a redirect_uri.''
     else if field = ''state'' then ''The request did not include a state value of at least 8 characters. state is what protects the partner's callback from cross-site request forgery, so owneX refuses requests without one.''
     else ''The authorization request was malformed.'')"

definition granted_permissions :: "permission_map option \<Rightarrow> string list" where
  "granted_permissions ps = map fst (filter (\<lambda>(_, v). v = JBool True) (nullish ps []))"

definition return_to :: "string \<Rightarrow> int \<Rightarrow> string \<Rightarrow> string \<Rightarrow> string" where
  "return_to client_id org_id redirect_uri state =
    ''/authorize?client_id='' @ encode_uri_component client_id @ ''&org_id='' @ show_int org_id
    @ ''&redirect_uri='' @ encode_uri_component redirect_uri @ ''&state='' @ encode_uri_component state"

definition authorize_page :: "ext \<Rightarrow> authorize_params \<Rightarrow> consent_view io" where
  "authorize_page X p =
    (case authorize_issues X p of
       i # _ \<Rightarrow> ret (RejectionCard (''INVALID_'' @ to_upper (issue_path i)) (describe_shape_problem (issue_path i)) False None)
     | [] \<Rightarrow>
       let client_id = text_param (az_client p); org_id = coerced_value X (az_org p);
           redirect_uri = text_param (az_redirect_uri p); state = text_param (az_state p) in
       seq (try_registry (resolve_authorization_request X client_id org_id (JStr redirect_uri) None False)) (\<lambda>r.
       case r of
         None \<Rightarrow> ret (RejectionCard ''REGISTRY_UNAVAILABLE''
           ''owneX could not reach its application registry, so this request cannot be authorized right now. Nothing was approved.'' True None)
       | Some (Inl rejection) \<Rightarrow> ret (RejectionCard (resolve_code rejection) (explain_resolve_rejection rejection) False None)
       | Some (Inr (app, registered)) \<Rightarrow>
         seq (lift_res (build_callback_redirect (x_parse_url X) registered None (Some ''access_denied'') state)) (\<lambda>deny_url.
         seq (gets session_wallet) (\<lambda>session.
         case session of
           None \<Rightarrow> ret (SignInCard (ra_name app)
             (''/?returnTo='' @ encode_uri_component (return_to client_id org_id redirect_uri state)))
         | Some wallet \<Rightarrow>
           seq (gets (\<lambda>w. evaluate_live_access X w org_id wallet (Some (ra_slug app)))) (\<lambda>access.
           case access of
             ChainUnavailable _ \<Rightarrow> ret (RejectionCard ''CHAIN_UNAVAILABLE''
               ''owneX could not read your identity and role from the blockchain, so it cannot confirm your access. No authorization was issued. Try again shortly.''
               True (Some (deny_url, ''Return to '' @ ra_name app)))
           | Evaluated decision snapshot \<Rightarrow>
             (case (allowed decision, reason decision) of
                (False, Some r) \<Rightarrow>
                  ret (DenialCard (ra_name app) wallet (es_role snapshot) r (explain_denial r) deny_url)
              | _ \<Rightarrow>
                  ret (ConsentForm (ra_name app) wallet (es_role snapshot)
                    (granted_permissions (es_permissions snapshot))
                    \<lparr>az_client = Some client_id, az_org = Some (show_int org_id),
                     az_redirect_uri = Some redirect_uri, az_state = Some state\<rparr> deny_url)))))))"

subsection \<open>POST /api/authorize/approve\<close>

definition redirect_to ::
  "ext \<Rightarrow> string \<Rightarrow> string \<Rightarrow> string option \<Rightarrow> string option \<Rightarrow> response io" where
  "redirect_to X registered state code err =
    seq (lift_res (build_callback_redirect (x_parse_url X) registered code err state)) (\<lambda>target.
      ret \<lparr>status = 303, no_store = False, resp_body = RedirectBody target\<rparr>)"

text \<open>The submission once the request is resolved: the session, the chain, the code.\<close>

definition approve_resolved ::
  "ext \<Rightarrow> authorize_params \<Rightarrow> registered_application \<Rightarrow> string \<Rightarrow> response io" where
  "approve_resolved X p app registered =
    (let client_id = text_param (az_client p); org_id = coerced_value X (az_org p);
         state = text_param (az_state p) in
     seq (gets session_wallet) (\<lambda>session.
     case session of
       None \<Rightarrow> redirect_to X registered state None (Some ''access_denied'')
     | Some wallet \<Rightarrow>
       seq (gets (\<lambda>w. evaluate_live_access X w org_id wallet (Some (ra_slug app)))) (\<lambda>access.
       case access of
         ChainUnavailable _ \<Rightarrow> redirect_to X registered state None (Some ''temporarily_unavailable'')
       | Evaluated decision snapshot \<Rightarrow>
         if \<not> allowed decision then redirect_to X registered state None (Some ''access_denied'')
         else try_catch
           (seq (issue_authorization_code X client_id (ra_slug app) org_id wallet registered) (\<lambda>issued.
              redirect_to X registered state (Some (fst issued)) None))
           (\<lambda>_. redirect_to X registered state None (Some ''temporarily_unavailable'')))))"

definition approve_request ::
  "ext \<Rightarrow> authorize_params \<Rightarrow> (resolve_rejection + registered_application \<times> string) io" where
  "approve_request X p =
    resolve_authorization_request X (text_param (az_client p)) (coerced_value X (az_org p))
      (JStr (text_param (az_redirect_uri p))) None False"

definition approve_post :: "ext \<Rightarrow> authorize_params option \<Rightarrow> response io" where
  "approve_post X form =
    (case form of
       None \<Rightarrow> ret (text_response 400 ''Malformed consent submission'')
     | Some p \<Rightarrow>
       if authorize_issues X p \<noteq> [] then ret (text_response 400 ''Invalid authorization request'')
       else
         seq (try_registry (approve_request X p)) (\<lambda>r.
         case r of
           None \<Rightarrow> ret (text_response 503 ''The application registry is unavailable'')
         | Some (Inl rejection) \<Rightarrow> ret (text_response 400 (''Authorization refused: '' @ resolve_code rejection))
         | Some (Inr (app, registered)) \<Rightarrow> approve_resolved X p app registered))"

subsection \<open>POST /api/authorize/exchange\<close>

definition exchange_issues :: "ext \<Rightarrow> json \<Rightarrow> issue list" where
  "exchange_issues X j =
    (if \<not> is_object j then field_issue X [] False
     else field_issue X ''client_id'' (text_field 8 128 (obj_get j ''client_id''))
      @ field_issue X ''client_secret'' (text_field 16 512 (obj_get j ''client_secret''))
      @ field_issue X ''code'' (text_field 32 512 (obj_get j ''code''))
      @ field_issue X ''redirect_uri'' (text_field 8 2048 (obj_get j ''redirect_uri'')))"

definition INVALID_CLIENT :: exn where
  "INVALID_CLIENT = ApiError 401 ''Invalid client credentials or redirect URI'' (Some ''INVALID_CLIENT'')"

definition exchange_run :: "ext \<Rightarrow> json option \<Rightarrow> response io" where
  "exchange_run X body =
    seq (read_json body) (\<lambda>raw.
    seq (lift_res (zod (exchange_issues X raw) raw)) (\<lambda>b.
    let client_id = text_of (obj_get b ''client_id'') in
    seq (try_registry (find_application_by_client_id X client_id)) (\<lambda>r.
    case r of
      None \<Rightarrow> throw (ApiError 503 ''Authorization is temporarily unavailable'' (Some ''REGISTRY_UNAVAILABLE''))
    | Some application \<Rightarrow>
      let secret_ok = verify_client_secret X (JStr (text_of (obj_get b ''client_secret'')))
                        (case application of None \<Rightarrow> None | Some a \<Rightarrow> ra_secret_hash a) in
      (case application of
         None \<Rightarrow> throw INVALID_CLIENT
       | Some app \<Rightarrow>
         if ra_status app = Revoked \<or> \<not> secret_ok then throw INVALID_CLIENT
         else
           seq (gets current_callback_mode) (\<lambda>mode.
           case check_callback (x_parse_url X) (Some (subject_of app))
                  (JStr (text_of (obj_get b ''redirect_uri''))) mode of
             CallbackNo _ \<Rightarrow> throw INVALID_CLIENT
           | CallbackOk _ registered \<Rightarrow>
             seq (try_catch
                    (consume_authorization_code X (text_of (obj_get b ''code'')) client_id registered)
                    (\<lambda>_. throw (ApiError 503 ''Authorization is temporarily unavailable'' (Some ''STORE_UNAVAILABLE'')))) (\<lambda>grant.
             case grant of
               None \<Rightarrow> throw (ApiError 400 ''Authorization code is invalid, expired, or already used'' (Some ''CODE_REJECTED''))
             | Some g \<Rightarrow>
               if cg_org_id g \<noteq> ra_org app \<or> cg_app_slug g \<noteq> ra_slug app then throw INVALID_CLIENT
               else
                 seq (gets (\<lambda>w. (evaluate_live_access X w (cg_org_id g) (cg_wallet g) (Some (cg_app_slug g)), clock w))) (\<lambda>(access, now).
                 case access of
                   ChainUnavailable _ \<Rightarrow> throw (ApiError 503 ''Could not verify access on-chain'' (Some ''CHAIN_UNAVAILABLE''))
                 | Evaluated decision snapshot \<Rightarrow>
                   if \<not> allowed decision
                   then throw (ApiError 403 ''Access is no longer permitted for this wallet''
                          (Some (nullish (map_option deny_code (reason decision)) ''ACCESS_DENIED'')))
                   else ret (ok_no_store (claims_json (build_partner_claims (cg_wallet g) (cg_org_id g)
                          (es_role snapshot) (es_permissions snapshot) (es_identity_active snapshot)
                          (x_iso X now)))))))))))"

definition exchange_post :: "ext \<Rightarrow> json option \<Rightarrow> world \<Rightarrow> response \<times> world" where
  "exchange_post X body = handler (exchange_run X body)"

subsection \<open>GET /api/roles/verify\<close>

record verify_query =
  vq_wallet :: "string option"
  vq_org :: "string option"
  vq_app :: "string option"

definition verify_query_ok :: "ext \<Rightarrow> verify_query \<Rightarrow> bool" where
  "verify_query_ok X q =
    ((case vq_wallet q of None \<Rightarrow> False | Some s \<Rightarrow> is_address s)
     \<and> coerced_positive X (vq_org q)
     \<and> (case vq_app q of None \<Rightarrow> True | Some s \<Rightarrow> 3 \<le> length s \<and> length s \<le> 40 \<and> is_slug_text s))"

definition refusal_json :: "ext \<Rightarrow> string \<Rightarrow> int \<Rightarrow> string \<Rightarrow> string \<Rightarrow> int \<Rightarrow> json" where
  "refusal_json X wallet org_id why detail now =
    JObj [(''wallet'', JStr (to_lower wallet)), (''orgId'', JNum org_id), (''allowed'', JBool False),
          (''reason'', JStr why), (''detail'', JStr detail), (''role'', JStr ''NONE''),
          (''verifiedAt'', JStr (x_iso X now))]"

definition app_access_json :: "app_view option \<Rightarrow> json" where
  "app_access_json app =
    (case app of
       None \<Rightarrow> JNull
     | Some a \<Rightarrow> JObj [(''slug'', JStr (av_slug a)), (''appId'', JStr (av_app_id a)),
                       (''registered'', JBool (av_registered a)), (''allowed'', JBool (av_allowed a))])"

fun auth_mode_text :: "partner_auth \<Rightarrow> string" where
  "auth_mode_text (AuthCredentials _) = ''credentials''"
| "auth_mode_text AuthDevelopmentPublic = ''development-public''"
| "auth_mode_text (AuthRefused _ _ _) = []"

definition verification_json ::
  "partner_claims \<Rightarrow> access_decision \<Rightarrow> evaluated_snapshot \<Rightarrow> partner_auth \<Rightarrow> json" where
  "verification_json claims decision snapshot auth =
    JObj (claims_entries claims @
      [(''allowed'', JBool (allowed decision)),
       (''reason'', jnullable (map_option deny_code (reason decision))),
       (''detail'', jnullable (map_option explain_denial (reason decision))),
       (''organizationActive'', JBool (es_organization_active snapshot)),
       (''membership'', JObj [(''joinedAt'', jnullable_int (mv_joined_at (es_membership snapshot))),
                              (''expiresAt'', jnullable_int (mv_expires_at (es_membership snapshot))),
                              (''expired'', JBool (mv_expired (es_membership snapshot)))]),
       (''appAccess'', app_access_json (es_app snapshot)),
       (''authMode'', JStr (auth_mode_text auth))])"

text \<open>The check of the registry row: \<open>Some\<close> response when it refuses.\<close>

definition registered_app_refusal :: "ext \<Rightarrow> string \<Rightarrow> int \<Rightarrow> string option \<Rightarrow> response option io" where
  "registered_app_refusal X wallet org_id app_slug =
    (if \<not> truthy app_slug then ret None
     else
       seq (try_registry (find_application_by_slug X org_id (the app_slug))) (\<lambda>r.
       seq (gets clock) (\<lambda>now.
       case r of
         None \<Rightarrow> throw (ApiError 503 ''Could not verify access right now'' (Some ''REGISTRY_UNAVAILABLE''))
       | Some None \<Rightarrow> ret (Some (ok_no_store (refusal_json X wallet org_id ''APPLICATION_NOT_REGISTERED''
           ''No application with that slug is registered for this organization.'' now)))
       | Some (Some record) \<Rightarrow>
           if ra_status record = Revoked
           then ret (Some (ok_no_store (refusal_json X wallet org_id ''APPLICATION_REVOKED''
                  ''An organization administrator has revoked this integration.'' now)))
           else ret None)))"

text \<open>What the caller may ask about: the application slug, or a refusal.\<close>

definition verify_scope :: "int \<Rightarrow> string option \<Rightarrow> partner_auth \<Rightarrow> string option io" where
  "verify_scope org_id app auth =
    (case auth of
       AuthRefused st code msg \<Rightarrow> throw (ApiError st msg (Some code))
     | AuthCredentials caller \<Rightarrow>
         if ra_org caller \<noteq> org_id
         then throw (ApiError 403 ''Your client credentials are registered to a different organization'' (Some ''ORG_MISMATCH''))
         else if app \<noteq> None \<and> app \<noteq> Some (ra_slug caller)
         then throw (ApiError 403 ''Your client credentials may only verify access to their own application'' (Some ''APP_MISMATCH''))
         else ret (Some (nullish app (ra_slug caller)))
     | AuthDevelopmentPublic \<Rightarrow> ret app)"

definition roles_verify_run :: "ext \<Rightarrow> headers \<Rightarrow> verify_query \<Rightarrow> response io" where
  "roles_verify_run X hs q =
    (if \<not> verify_query_ok X q
     then throw (bad_request (''Provide wallet=0x'' @ [ellipsis] @ '' and orgId=<number>, optionally app=<slug>''))
     else
       let wallet = text_param (vq_wallet q); org_id = coerced_value X (vq_org q); app = vq_app q in
       seq (authenticate_partner X hs) (\<lambda>auth.
       seq (verify_scope org_id app auth) (\<lambda>app_slug.
       seq (registered_app_refusal X wallet org_id app_slug) (\<lambda>refusal.
       case refusal of
         Some response \<Rightarrow> ret response
       | None \<Rightarrow>
         seq (gets (\<lambda>w. (evaluate_live_access X w org_id wallet app_slug, clock w))) (\<lambda>(access, now).
         case access of
           ChainUnavailable _ \<Rightarrow> throw (ApiError 503
             ''Could not read identity and role from the blockchain. Access is denied until this succeeds.''
             (Some ''CHAIN_UNAVAILABLE''))
         | Evaluated decision snapshot \<Rightarrow>
             ret (ok_no_store (verification_json
               (build_partner_claims wallet org_id (es_role snapshot) (es_permissions snapshot)
                  (es_identity_active snapshot) (x_iso X now))
               decision snapshot auth)))))))"

definition roles_verify_get :: "ext \<Rightarrow> headers \<Rightarrow> verify_query \<Rightarrow> world \<Rightarrow> response \<times> world" where
  "roles_verify_get X hs q = handler (roles_verify_run X hs q)"

subsection \<open>GET /api/portal/assets\<close>

definition portal_asset_json :: "asset_state \<Rightarrow> json" where
  "portal_asset_json r =
    JObj [(''tokenId'', JNum (at_token_id r)), (''active'', JBool (at_active r)),
          (''assetType'', JStr ''Asset'')]"

definition portal_assets_run :: "ext \<Rightarrow> headers \<Rightarrow> string option \<Rightarrow> string option \<Rightarrow> response io" where
  "portal_assets_run X hs wallet_param org_param =
    (if \<not> ((case wallet_param of None \<Rightarrow> False | Some s \<Rightarrow> is_address s) \<and> coerced_positive X org_param)
     then throw (bad_request (''Provide wallet=0x'' @ [ellipsis] @ '' and orgId=<number>''))
     else
       let wallet = text_param wallet_param; org_id = coerced_value X org_param in
       seq (authenticate_partner X hs) (\<lambda>auth.
       seq (case auth of
              AuthRefused st code msg \<Rightarrow> throw (ApiError st msg (Some code))
            | AuthCredentials caller \<Rightarrow>
                if ra_org caller \<noteq> org_id
                then throw (ApiError 403 ''Your client credentials are registered to a different organization'' (Some ''ORG_MISMATCH''))
                else ret (Some (ra_slug caller))
            | AuthDevelopmentPublic \<Rightarrow> ret None) (\<lambda>app_slug.
       seq (gets (\<lambda>w. evaluate_live_access X w org_id wallet app_slug)) (\<lambda>access.
       case access of
         ChainUnavailable _ \<Rightarrow> throw (ApiError 503 ''Could not verify access on-chain'' (Some ''CHAIN_UNAVAILABLE''))
       | Evaluated decision snapshot \<Rightarrow>
         if \<not> allowed decision
         then ret (ok_no_store (JObj [(''assets'', JArr []), (''allowed'', JBool False),
                     (''reason'', jnullable (map_option deny_code (reason decision)))]))
         else
           seq (asks (\<lambda>w. read_assets_of_organization X w org_id)) (\<lambda>ids.
           seq (asks (\<lambda>w. map_res (read_asset X w) ids)) (\<lambda>records.
             ret (ok_no_store (JObj
               [(''assets'', JArr (map portal_asset_json
                   (filter (\<lambda>r. to_lower (at_assigned_to r) = to_lower wallet) (List.map_filter id records)))),
                (''allowed'', JBool True), (''reason'', JNull)])))))))) "

definition portal_assets_get ::
  "ext \<Rightarrow> headers \<Rightarrow> string option \<Rightarrow> string option \<Rightarrow> world \<Rightarrow> response \<times> world" where
  "portal_assets_get X hs wallet_param org_param = handler (portal_assets_run X hs wallet_param org_param)"

subsection \<open>What a successful exchange went through\<close>

lemma case_route_iff [io_iff]:
  "case_callback_check f g c w = (Inr y, w') \<longleftrightarrow>
     (\<exists>n u. c = CallbackOk n u \<and> f n u w = (Inr y, w')) \<or> (\<exists>rj. c = CallbackNo rj \<and> g rj w = (Inr y, w'))"
  "case_evaluated_access h k a w = (Inr y, w') \<longleftrightarrow>
     (\<exists>d s. a = Evaluated d s \<and> h d s w = (Inr y, w')) \<or> (\<exists>msg. a = ChainUnavailable msg \<and> k msg w = (Inr y, w'))"
  "case_partner_auth p q s' pa w = (Inr y, w') \<longleftrightarrow>
     (\<exists>app. pa = AuthCredentials app \<and> p app w = (Inr y, w'))
     \<or> pa = AuthDevelopmentPublic \<and> q w = (Inr y, w')
     \<or> (\<exists>st cd msg. pa = AuthRefused st cd msg \<and> s' st cd msg w = (Inr y, w'))"
  by (auto split: callback_check.splits evaluated_access.splits partner_auth.splits)

lemma loud_cases [loud_intro]:
  "(\<And>n u. fails_loudly (f n u)) \<Longrightarrow> (\<And>rj. fails_loudly (g rj)) \<Longrightarrow> fails_loudly (case_callback_check f g c)"
  "(\<And>d s. fails_loudly (h d s)) \<Longrightarrow> (\<And>m. fails_loudly (k m)) \<Longrightarrow> fails_loudly (case_evaluated_access h k a)"
  by (auto split: callback_check.splits evaluated_access.splits)

lemma loud_api_error [loud_intro]: "400 \<le> st \<Longrightarrow> fails_loudly (throw (ApiError st m c))"
  by (rule loud_throw) (simp add: error_response_status)

lemma exchange_run_loud: "fails_loudly (exchange_run X body)"
  unfolding exchange_run_def Let_def INVALID_CLIENT_def by (intro loud_intro) simp_all

lemma exchange_run_ok:
  assumes "exchange_run X body w = (Inr resp, w')"
  obtains b app w1 n0 registered g d snap where
    "body = Some b" "exchange_issues X b = []"
    "find_application_by_client_id X (text_of (obj_get b ''client_id'')) w = (Inr (Some app), w1)"
    "ra_status app \<noteq> Revoked"
    "verify_client_secret X (JStr (text_of (obj_get b ''client_secret''))) (ra_secret_hash app)"
    "check_callback (x_parse_url X) (Some (subject_of app)) (JStr (text_of (obj_get b ''redirect_uri'')))
       (current_callback_mode w1) = CallbackOk n0 registered"
    "consume_authorization_code X (text_of (obj_get b ''code'')) (text_of (obj_get b ''client_id'')) registered w1
       = (Inr (Some g), w')"
    "cg_org_id g = ra_org app" "cg_app_slug g = ra_slug app"
    "evaluate_live_access X w' (cg_org_id g) (cg_wallet g) (Some (cg_app_slug g)) = Evaluated d snap"
    "allowed d"
    "resp = ok_no_store (claims_json (build_partner_claims (cg_wallet g) (cg_org_id g)
       (es_role snap) (es_permissions snap) (es_identity_active snap) (x_iso X (clock w'))))"
  using assms unfolding exchange_run_def Let_def
  by (auto simp: io_iff res_iff)

text \<open>The row of a consumed code, before and after.\<close>

lemma update_where_used:
  assumes "codes_ok rows" and "row \<in> set rows" and "redeemable_row q row"
    and "r \<in> set (update_where (redeemable_row q) (\<lambda>r. r\<lparr>cd_used_at := Some t\<rparr>) rows)"
    and "cd_code r = cq_code q"
  shows "cd_used_at r = Some t"
proof -
  from assms(4) obtain r0 where r0: "r0 \<in> set rows"
    "r = (if redeemable_row q r0 then r0\<lparr>cd_used_at := Some t\<rparr> else r0)"
    by (auto simp: update_where_def)
  with assms(5) have "cd_code r0 = cq_code q" by (auto split: if_splits)
  with assms(1,2,3) r0(1) have "r0 = row"
    by (auto simp: codes_ok_def redeemable_row_def distinct_map inj_on_def)
  with r0(2) assms(3) show ?thesis by simp
qed

lemma consumed_row:
  assumes "consume_authorization_code X code cid uri w = (Inr (Some g), w')" and "codes_ok (codes w)"
  obtains row where "row \<in> set (codes w)" "g = grant_of_row row" "cd_code row = code"
    "cd_client_id row = cid" "cd_redirect_uri row = uri" "cd_used_at row = None"
    "clock w < cd_expires_at row" "same_chain w' w" "codes_ok (codes w')"
    "\<forall>r \<in> set (codes w'). cd_code r = code \<longrightarrow> cd_used_at r = Some (clock w)"
  using assms(1)
proof (cases rule: consume_cases_world)
  case (consumed n row)
  define q where "q = \<lparr>cq_code = code, cq_client_id = cid, cq_redirect_uri = uri, cq_now = clock w\<rparr>"
  have f: "filter (redeemable_row q) (codes w) = [row]" and w': "w' = w\<lparr>db_calls := n,
      codes := update_where (redeemable_row q) (\<lambda>r. r\<lparr>cd_used_at := Some (clock w)\<rparr>) (codes w)\<rparr>"
    using consumed by (simp_all add: q_def)
  note row = filter_singletonD[OF f]
  have "\<forall>r \<in> set (codes w'). cd_code r = code \<longrightarrow> cd_used_at r = Some (clock w)"
    using update_where_used[OF assms(2) row[THEN conjunct1] row[THEN conjunct2]] by (simp add: w' q_def)
  moreover have "codes_ok (codes w')"
    using assms(2) by (simp add: codes_ok_def w' update_where_codes)
  ultimately show ?thesis
    using row consumed(2) by (intro that[of row]) (auto simp: redeemable_row_def q_def w' same_chain_def)
qed simp

text \<open>Everything a successful exchange established, in terms of the tables and the chain.\<close>

lemma exchange_success:
  assumes "exchange_post X body w = (resp, w')" and "status resp = 200" and "codes_ok (codes w)"
  obtains b app cbs registered n0 row d snap where
    "body = Some b" "app \<in> set (applications w)"
    "ap_client_id app = Some (trim (text_of (obj_get b ''client_id'')))"
    "to_status (ap_status app) \<noteq> Revoked"
    "verify_client_secret X (JStr (text_of (obj_get b ''client_secret''))) (ap_secret_hash app)"
    "cbs = callback_urls (ap_org_id app) (ap_slug app) (callbacks w)"
    "check_callback (x_parse_url X)
       (Some (subject_of (to_record X app cbs)))
       (JStr (text_of (obj_get b ''redirect_uri''))) (current_callback_mode w) = CallbackOk n0 registered"
    "row \<in> set (codes w)" "cd_code row = text_of (obj_get b ''code'')"
    "cd_client_id row = text_of (obj_get b ''client_id'')" "cd_redirect_uri row = registered"
    "cd_used_at row = None" "clock w < cd_expires_at row"
    "cd_org_id row = ap_org_id app" "cd_app_slug row = ap_slug app"
    "evaluate_live_access X w (cd_org_id row) (cd_wallet row) (Some (cd_app_slug row)) = Evaluated d snap"
    "allowed d"
    "resp_body resp = JsonBody (claims_json (build_partner_claims (cd_wallet row) (cd_org_id row)
       (es_role snap) (es_permissions snap) (es_identity_active snap) (x_iso X (clock w))))"
    "\<forall>r \<in> set (codes w'). cd_code r = text_of (obj_get b ''code'') \<longrightarrow> cd_used_at r = Some (clock w)"
    "codes_ok (codes w')"
proof -
  from assms(1,2) have "exchange_run X body w = (Inr resp, w')"
    unfolding exchange_post_def by (intro handler_success[OF exchange_run_loud]) simp_all
  then obtain b app w1 n0 registered g d snap where
    b: "body = Some b" and
    app: "find_application_by_client_id X (text_of (obj_get b ''client_id'')) w = (Inr (Some app), w1)" and
    live: "ra_status app \<noteq> Revoked" and
    sec: "verify_client_secret X (JStr (text_of (obj_get b ''client_secret''))) (ra_secret_hash app)" and
    cb: "check_callback (x_parse_url X) (Some (subject_of app)) (JStr (text_of (obj_get b ''redirect_uri'')))
       (current_callback_mode w1) = CallbackOk n0 registered" and
    con: "consume_authorization_code X (text_of (obj_get b ''code'')) (text_of (obj_get b ''client_id'')) registered w1
       = (Inr (Some g), w')" and
    g: "cg_org_id g = ra_org app" "cg_app_slug g = ra_slug app" and
    ev: "evaluate_live_access X w' (cg_org_id g) (cg_wallet g) (Some (cg_app_slug g)) = Evaluated d snap"
      "allowed d" and
    resp: "resp = ok_no_store (claims_json (build_partner_claims (cg_wallet g) (cg_org_id g)
       (es_role snap) (es_permissions snap) (es_identity_active snap) (x_iso X (clock w'))))"
    by (rule exchange_run_ok) blast
  from find_by_client_id_Some[OF app] obtain ar m where
    ar: "filter (\<lambda>r. ap_client_id r = Some (trim (text_of (obj_get b ''client_id'')))) (applications w) = [ar]"
    and rec: "app = to_record X ar (callback_urls (ap_org_id ar) (ap_slug ar) (callbacks w))"
    and w1: "w1 = w\<lparr>db_calls := m\<rparr>" by blast
  from assms(3) w1 have ok1: "codes_ok (codes w1)" by simp
  from con ok1 obtain row where row: "row \<in> set (codes w)" "g = grant_of_row row"
    "cd_code row = text_of (obj_get b ''code'')" "cd_client_id row = text_of (obj_get b ''client_id'')"
    "cd_redirect_uri row = registered" "cd_used_at row = None" "clock w < cd_expires_at row"
    "same_chain w' w1" "codes_ok (codes w')"
    "\<forall>r \<in> set (codes w'). cd_code r = text_of (obj_get b ''code'') \<longrightarrow> cd_used_at r = Some (clock w)"
    by (rule consumed_row) (simp add: w1)
  have sc: "same_chain w' w" using row(8) by (simp add: w1 same_chain_def)
  show ?thesis
    by (rule that[OF b _ _ _ _ refl _ row(1) row(3-7) _ _ _ ev(2) _ row(10,9)])
       (use filter_singletonD[OF ar] live sec cb ev(1) g in
         \<open>simp_all add: rec to_record_def row(2) grant_of_row_def resp ok_no_store_def w1
            current_callback_mode_def live_same_chain[OF sc] sc[unfolded same_chain_def]\<close>)
qed

subsection \<open>What a submission went through\<close>

lemma redirect_to_world: "redirect_to X registered state code err w = (r, w') \<Longrightarrow> w' = w"
  by (auto simp: redirect_to_def seq_any_iff lift_res_def ret_def)

lemma redirect_to_Inr:
  assumes "redirect_to X registered state code err w = (Inr resp, w')"
  shows "w' = w \<and> (\<exists>u. x_parse_url X registered = Some u \<and> status resp = 303 \<and> resp_body resp = RedirectBody
     \<lparr>cr_target = u\<lparr>u_search := [], u_hash := []\<rparr>,
      cr_params = (if truthy code then [(''code'', the code)] else []) @
                  (if truthy err then [(''error'', the err)] else []) @ [(''state'', state)]\<rparr>)"
  using assms by (auto simp: redirect_to_def io_iff build_callback_redirect_def split: option.splits)

lemma approve_request_reads_only [query_intro]: "reads_only (approve_request X p)"
  unfolding approve_request_def by (intro query_intro)

text \<open>A submission either only reads, or its request resolved and the resolved part ran.\<close>

lemma approve_post_cases:
  assumes "approve_post X form w = (r, w')"
  obtains (refused) n where "w' = w\<lparr>db_calls := n\<rparr>"
      "\<And>resp. r = Inr resp \<Longrightarrow> status resp \<in> {400, 503} \<and> (\<exists>t. resp_body resp = TextBody t)"
    | (resolved) p app registered n where "form = Some p" "authorize_issues X p = []"
        "approve_request X p w = (Inr (Inr (app, registered)), w\<lparr>db_calls := n\<rparr>)"
        "approve_resolved X p app registered (w\<lparr>db_calls := n\<rparr>) = (r, w')"
proof (cases "\<exists>p. form = Some p \<and> authorize_issues X p = []")
  case False
  with assms have "w' = w" "\<And>resp. r = Inr resp \<Longrightarrow> status resp = 400 \<and> (\<exists>t. resp_body resp = TextBody t)"
    by (auto simp: approve_post_def ret_def text_response_def split: option.splits if_splits)
  then show ?thesis using refused[of "db_calls w"] by simp
next
  case True
  then obtain p where p: "form = Some p" "authorize_issues X p = []" by blast
  obtain q w1 where q: "try_registry (approve_request X p) w = (q, w1)"
    by (cases "try_registry (approve_request X p) w")
  have "reads_only (try_registry (approve_request X p))" by (intro query_intro)
  from reads_onlyD[OF this q] obtain n where w1: "w1 = w\<lparr>db_calls := n\<rparr>" by blast
  show ?thesis
  proof (cases "\<exists>app registered. q = Inr (Some (Inr (app, registered)))")
    case True
    then obtain app registered where qv: "q = Inr (Some (Inr (app, registered)))" by blast
    with q have "approve_request X p w = (Inr (Inr (app, registered)), w1)" by (simp add: io_iff)
    moreover have "approve_resolved X p app registered w1 = (r, w')"
      using assms p q qv by (simp add: approve_post_def seq_def)
    ultimately show ?thesis using resolved p w1 by blast
  next
    case False
    then consider e where "q = Inl e" | "q = Inr None" | j where "q = Inr (Some (Inl j))"
      by (cases q; auto) (metis old.sum.exhaust option.exhaust surj_pair)
    then show ?thesis
      by cases (use assms p q w1 refused[of n] in \<open>auto simp: approve_post_def seq_def ret_def text_response_def\<close>)
  qed
qed

text \<open>The resolved part: which branch ran, and what it did to the codes.\<close>

lemma approve_resolved_cases:
  assumes "approve_resolved X p app registered w = (r, w')"
  obtains (error) e where "w' = w" "e \<in> {''access_denied'', ''temporarily_unavailable''}"
      "redirect_to X registered (text_param (az_state p)) None (Some e) w = (r, w)"
    | (issuing) wal d snap r1 where "session_wallet w = Some wal"
        "evaluate_live_access X w (coerced_value X (az_org p)) wal (Some (ra_slug app)) = Evaluated d snap"
        "allowed d"
        "issue_authorization_code X (text_param (az_client p)) (ra_slug app) (coerced_value X (az_org p)) wal
           registered w = (r1, w')"
        "redirect_to X registered (text_param (az_state p)) None (Some ''temporarily_unavailable'') w' = (r, w')
         \<or> (\<exists>c. r1 = Inr c \<and> redirect_to X registered (text_param (az_state p)) (Some (fst c)) None w' = (r, w'))"
proof (cases "session_wallet w")
  case None
  with assms have "redirect_to X registered (text_param (az_state p)) None (Some ''access_denied'') w = (r, w')"
    by (simp add: approve_resolved_def seq_def gets_def Let_def)
  then show ?thesis using error redirect_to_world by fastforce
next
  case (Some wal)
  let ?live = "evaluate_live_access X w (coerced_value X (az_org p)) wal (Some (ra_slug app))"
  show ?thesis
  proof (cases "\<exists>d snap. ?live = Evaluated d snap \<and> allowed d")
    case False
    with assms Some
    have "redirect_to X registered (text_param (az_state p)) None (Some ''access_denied'') w = (r, w')
      \<or> redirect_to X registered (text_param (az_state p)) None (Some ''temporarily_unavailable'') w = (r, w')"
      by (auto simp: approve_resolved_def seq_def gets_def Let_def split: evaluated_access.splits)
    then show ?thesis using error redirect_to_world by (metis insertCI)
  next
    case True
    then obtain d snap where ev: "?live = Evaluated d snap" "allowed d" by blast
    obtain r1 w1 where iss: "issue_authorization_code X (text_param (az_client p)) (ra_slug app)
        (coerced_value X (az_org p)) wal registered w = (r1, w1)" by (cases "issue_authorization_code X
        (text_param (az_client p)) (ra_slug app) (coerced_value X (az_org p)) wal registered w")
    have "try_catch (seq (issue_authorization_code X (text_param (az_client p)) (ra_slug app)
          (coerced_value X (az_org p)) wal registered) (\<lambda>issued.
            redirect_to X registered (text_param (az_state p)) (Some (fst issued)) None))
        (\<lambda>_. redirect_to X registered (text_param (az_state p)) None (Some ''temporarily_unavailable'')) w = (r, w')"
      using assms Some ev by (simp add: approve_resolved_def seq_def gets_def Let_def)
    then have "w1 = w' \<and> (redirect_to X registered (text_param (az_state p)) None (Some ''temporarily_unavailable'') w' = (r, w')
         \<or> (\<exists>c. r1 = Inr c \<and> redirect_to X registered (text_param (az_state p)) (Some (fst c)) None w' = (r, w')))"
      using iss by (auto simp: try_catch_iff seq_any_iff dest: redirect_to_world)
    then show ?thesis using issuing[OF Some ev] iss by blast
  qed
qed

text \<open>A resolved request, in terms of the tables.\<close>

lemma approve_request_row:
  assumes "approve_request X p w = (Inr (Inr (app, registered)), w1)"
  obtains row u n v where "row \<in> set (applications w)"
    "app = to_record X row (callback_urls (ap_org_id row) (ap_slug row) (callbacks w))"
    "ap_client_id row = Some (trim (text_param (az_client p)))" "ap_org_id row = coerced_value X (az_org p)"
    "to_status (ap_status row) \<noteq> Revoked"
    "registered \<in> set (callback_urls (ap_org_id row) (ap_slug row) (callbacks w))"
    "canonicalize_callback (x_parse_url X) (text_param (az_redirect_uri p)) = Some (u, n)"
    "canonicalize_callback (x_parse_url X) registered = Some (v, n)"
    "check_transport u (current_callback_mode w) = None"
proof -
  from resolve_request_Inr[OF assms[unfolded approve_request_def]] obtain w2 where
    f: "find_application_by_client_id X (text_param (az_client p)) w = (Inr (Some app), w2)" and
    ra: "resolve_application X (Some app) (coerced_value X (az_org p)) (JStr (text_param (az_redirect_uri p)))
        (current_callback_mode w) False = Inr (app, registered)" by auto
  from find_by_client_id_Some[OF f] obtain row where
    row: "filter (\<lambda>r. ap_client_id r = Some (trim (text_param (az_client p)))) (applications w) = [row]" and
    app: "app = to_record X row (callback_urls (ap_org_id row) (ap_slug row) (callbacks w))" by blast
  note * = resolve_application_InrD[OF ra]
  from *(6) check_callback_OkD obtain u n v where
    "canonicalize_callback (x_parse_url X) (text_param (az_redirect_uri p)) = Some (u, n)"
    "canonicalize_callback (x_parse_url X) registered = Some (v, n)"
    "check_transport u (current_callback_mode w) = None" by blast
  with filter_singletonD[OF row] *(2,3,5) app that[of row u n v] show ?thesis
    by (simp add: to_record_def)
qed

lemma verify_scope_iff [io_iff]:
  "verify_scope org app auth w = (Inr slug, w') \<longleftrightarrow> w' = w \<and>
     (case auth of
        AuthCredentials caller \<Rightarrow> ra_org caller = org \<and> (app = None \<or> app = Some (ra_slug caller))
          \<and> slug = Some (ra_slug caller)
      | AuthDevelopmentPublic \<Rightarrow> slug = app
      | AuthRefused _ _ _ \<Rightarrow> False)"
  by (auto simp: verify_scope_def io_iff split: partner_auth.splits)

end
