(* ===== verification/DemoWorld.thy ===== *)
theory DemoWorld
  imports PartnerAuth CodeStore
begin

text \<open>
  One concrete deployment, on which the witnesses of the properties evaluate: an organization with
  an active member, an application registered for it with one callback, and an authorization code
  issued to that application.
\<close>

definition demo_address :: "char \<Rightarrow> string" where
  "demo_address c = ''0x'' @ replicate 40 c"

definition demo_text :: "nat \<Rightarrow> char \<Rightarrow> string" where
  "demo_text n c = replicate n c"

definition demo_env :: process_env where
  "demo_env k =
    (if k = ''SUPABASE_URL'' then Some ''https://db.example''
     else if k = ''SUPABASE_SERVICE_ROLE_KEY'' then Some (demo_text 24 (CHR ''k''))
     else if k = ''RPC_URL'' then Some ''https://rpc.example''
     else if k = ''CHAIN_ID'' then Some ''7''
     else if k = ''IDENTITY_REGISTRY_ADDRESS'' then Some (demo_address (CHR ''1''))
     else if k = ''ORG_ACCESS_MANAGER_ADDRESS'' then Some (demo_address (CHR ''2''))
     else if k = ''ASSET_NFT_ADDRESS'' then Some (demo_address (CHR ''3''))
     else if k = ''SESSION_PASSWORD'' then Some (demo_text 32 (CHR ''p''))
     else if k = ''PII_ENCRYPTION_KEY'' then Some (demo_text 64 (CHR ''e''))
     else if k = ''APP_DOMAIN'' then Some ''ownex.example''
     else if k = ''APP_ORIGIN'' then Some ''https://ownex.example''
     else if k = ''NODE_ENV'' then Some ''production''
     else None)"

definition demo_wallet :: string where
  "demo_wallet = demo_address (CHR ''b'')"

definition demo_admin :: string where
  "demo_admin = demo_address (CHR ''a'')"

definition demo_slug :: string where
  "demo_slug = ''portal''"

definition demo_client_id :: string where
  "demo_client_id = ''ownex_demo''"

definition demo_secret :: string where
  "demo_secret = ''oxs_0123456789abcdef''"

definition demo_secret_hash :: string where
  "demo_secret_hash = (case hash_client_secret demo_ext 0 demo_secret of Inr h \<Rightarrow> h | Inl _ \<Rightarrow> [])"

definition demo_callback :: string where
  "demo_callback = ''https://portal.example/api/callback''"

definition demo_code :: string where
  "demo_code = demo_text 40 (CHR ''c'')"

definition demo_chain :: chain where
  "demo_chain =
    \<lparr>c_identity = (\<lambda>a. Inr \<lparr>ri_hash = ''0x01'', ri_exists = (a \<in> {demo_wallet, demo_admin}),
                            ri_active = (a \<in> {demo_wallet, demo_admin}), ri_registered_at = 1\<rparr>),
     c_organization = (\<lambda>n. Inr \<lparr>ro_metadata_hash = ''0x02'',
        ro_root_admin = (if n = 1 then demo_admin else ZERO_ADDRESS), ro_active = (n = 1), ro_created_at = 1\<rparr>),
     c_organization_count = Inr 1,
     c_effective_role = (\<lambda>n a. Inr (if n \<noteq> 1 then ROLE_NONE else if a = demo_wallet then ROLE_USER demo_ext
                                     else if a = demo_admin then ROLE_ADMIN demo_ext else ROLE_NONE)),
     c_has_permission = (\<lambda>n a p. Inr (n = 1 \<and> a = demo_admin)),
     c_membership = (\<lambda>n a. Inr \<lparr>rm_role = ROLE_USER demo_ext, rm_joined_at = 1, rm_expires_at = 0\<rparr>),
     c_members = (\<lambda>n. Inr [demo_wallet]),
     c_app_registered = (\<lambda>n i. Inr (n = 1 \<and> i = app_id_from_slug demo_ext demo_slug)),
     c_can_access_app = (\<lambda>n a i. Inr (n = 1 \<and> a = demo_wallet \<and> i = app_id_from_slug demo_ext demo_slug)),
     c_app_access_for_role = (\<lambda>n i r. Inr (n = 1 \<and> r = ROLE_USER demo_ext)),
     c_default_permission = (\<lambda>r p. Inr (r = ROLE_ADMIN demo_ext)),
     c_permission_override = (\<lambda>n r p. Inr 0),
     c_asset = (\<lambda>t. Inr \<lparr>ra_org_id = (if t = 7 then 1 else 0), ra_asset_hash = ''0x07'',
                        ra_assigned_to = demo_wallet, ra_active = True, ra_minted_at = 1, ra_transfer_count = 0\<rparr>),
     c_owner_of = (\<lambda>t. Inr demo_wallet),
     c_assets_of_holder = (\<lambda>a. Inr (if a = demo_wallet then [7] else [])),
     c_assets_of_organization = (\<lambda>n. Inr (if n = 1 then [7] else [])),
     c_block_number = Inr 100,
     c_receipt_exists = (\<lambda>h. Inr False),
     c_logs = (\<lambda>n a b. Inr [])\<rparr>"

definition demo_app_row :: app_row where
  "demo_app_row =
    \<lparr>ap_org_id = 1, ap_slug = demo_slug, ap_app_id = Some (app_id_from_slug demo_ext demo_slug),
     ap_name = Some ''Portal'', ap_url = Some ''https://portal.example'', ap_description = None,
     ap_logo_url = None, ap_client_id = Some demo_client_id, ap_secret_hash = Some demo_secret_hash,
     ap_secret_updated_at = Some 5, ap_allowed_roles = Some [''USER''], ap_status = ''active'',
     ap_created_at = 5, ap_updated_at = 5\<rparr>"

definition demo_code_row :: code_row where
  "demo_code_row =
    \<lparr>cd_code = demo_code, cd_client_id = demo_client_id, cd_app_slug = demo_slug, cd_org_id = 1,
     cd_wallet = demo_wallet, cd_redirect_uri = demo_callback, cd_expires_at = 2000000, cd_used_at = None\<rparr>"

definition demo_world :: world where
  "demo_world =
    \<lparr>clock = 1950000, penv = demo_env, chain_now = demo_chain,
     cookie = \<lparr>sd_wallet = Some demo_wallet, sd_chain_id = Some 7, sd_issued_at = Some 1900\<rparr>,
     nonces = [], applications = [demo_app_row],
     callbacks = [\<lparr>cb_org_id = 1, cb_slug = demo_slug, cb_url = demo_callback\<rparr>],
     codes = [demo_code_row], assets = [], profiles = [], organizations = [], audit_cache = [],
     indexer_state = [], objects = [], scoped_columns = True, db_fault = (\<lambda>_. None), db_calls = 0, draws = 4\<rparr>"

text \<open>The hypotheses the properties share hold of it.\<close>

lemma demo_keccak: "x_keccak demo_ext s \<noteq> []"
  by (simp add: demo_ext_def)

lemma demo_slugs: "\<forall>r \<in> set (applications demo_world). ap_slug r \<noteq> []"
  by (simp add: demo_world_def demo_app_row_def demo_slug_def)

lemma demo_codes_ok: "codes_ok (codes demo_world)"
  by (simp add: demo_world_def codes_ok_def)

definition demo_server_env :: server_env where
  "demo_server_env =
    \<lparr>SUPABASE_URL = ''https://db.example'', SUPABASE_SERVICE_ROLE_KEY = demo_text 24 (CHR ''k''),
     RPC_URL = ''https://rpc.example'', CHAIN_ID = 7,
     IDENTITY_REGISTRY_ADDRESS = demo_address (CHR ''1''),
     ORG_ACCESS_MANAGER_ADDRESS = demo_address (CHR ''2''),
     ASSET_NFT_ADDRESS = demo_address (CHR ''3''),
     SESSION_PASSWORD = demo_text 32 (CHR ''p''), PII_ENCRYPTION_KEY = demo_text 64 (CHR ''e''),
     APP_DOMAIN = ''ownex.example'', APP_ORIGIN = ''https://ownex.example''\<rparr>"

lemma demo_address_hex: "is_hex_string 40 (demo_address c) \<longleftrightarrow> is_hex_digit c"
  by (auto simp: demo_address_def is_hex_string_def starts_with_def list_all_iff)

lemma demo_text_simps [simp]:
  "length (demo_text n c) = n" "list_all p (demo_text n c) \<longleftrightarrow> n = 0 \<or> p c"
  by (auto simp: demo_text_def list_all_iff)

lemma demo_hex: "is_hex_digit CHR ''1''" "is_hex_digit CHR ''2''" "is_hex_digit CHR ''3''"
  "is_hex_digit CHR ''e''" "is_hex_digit CHR ''a''" "is_hex_digit CHR ''b''"
  by code_simp+

lemma demo_urls: "demo_url ''https://db.example'' \<noteq> None" "demo_url ''https://rpc.example'' \<noteq> None"
  "demo_url ''https://ownex.example'' \<noteq> None"
  by code_simp+

lemma demo_chain_id: "demo_number ''7'' = Some 7"
  by code_simp

lemma demo_env_values:
  "demo_env ''SUPABASE_URL'' = Some ''https://db.example''"
  "demo_env ''SUPABASE_SERVICE_ROLE_KEY'' = Some (demo_text 24 (CHR ''k''))"
  "demo_env ''RPC_URL'' = Some ''https://rpc.example''"
  "demo_env ''CHAIN_ID'' = Some ''7''"
  "demo_env ''IDENTITY_REGISTRY_ADDRESS'' = Some (demo_address (CHR ''1''))"
  "demo_env ''ORG_ACCESS_MANAGER_ADDRESS'' = Some (demo_address (CHR ''2''))"
  "demo_env ''ASSET_NFT_ADDRESS'' = Some (demo_address (CHR ''3''))"
  "demo_env ''SESSION_PASSWORD'' = Some (demo_text 32 (CHR ''p''))"
  "demo_env ''PII_ENCRYPTION_KEY'' = Some (demo_text 64 (CHR ''e''))"
  "demo_env ''APP_DOMAIN'' = Some ''ownex.example''"
  "demo_env ''APP_ORIGIN'' = Some ''https://ownex.example''"
  "demo_env ''NODE_ENV'' = Some ''production''"
  by (simp_all add: demo_env_def)

lemma demo_env_ok: "server_env_of demo_ext demo_env = Inr demo_server_env"
proof -
  have "x_number demo_ext = demo_number" "x_parse_url demo_ext = demo_url" by (simp_all add: demo_ext_def)
  then have "server_schema_issues demo_ext demo_env = []"
    using demo_urls
    by (simp add: server_schema_issues_def env_check_def demo_env_values demo_address_hex demo_hex
          positive_number_def demo_chain_id)
  with \<open>x_number demo_ext = demo_number\<close> show ?thesis
    by (simp add: server_env_of_def env_text_def demo_env_values demo_chain_id demo_server_env_def)
qed

lemma demo_contracts: "penv w = demo_env \<Longrightarrow> contracts demo_ext w = Inr (chain_now w)"
  by (simp add: contracts_def demo_env_ok)

lemma demo_secret_ok: "verify_client_secret demo_ext (JStr demo_secret) (Some demo_secret_hash)"
proof -
  have "16 \<le> length demo_secret" "demo_secret \<noteq> []" by (simp_all add: demo_secret_def)
  with hash_client_secret_total[of demo_ext demo_secret 0] obtain h where
    h: "hash_client_secret demo_ext 0 demo_secret = Inr h" by (auto simp: demo_ext_laws)
  from verify_stored_digest[OF h demo_ext_laws(1,2,5,6)] h \<open>demo_secret \<noteq> []\<close> show ?thesis
    by (simp add: demo_secret_hash_def)
qed

subsection \<open>What the reads answer there\<close>

lemma demo_trim: "trim demo_client_id = demo_client_id" "demo_client_id \<noteq> []" "demo_slug \<noteq> []"
  by code_simp+

lemma demo_db_stmt:
  "penv w = demo_env \<Longrightarrow> db_fault w = (\<lambda>_. None) \<Longrightarrow>
   db_stmt demo_ext st w = (case st (w\<lparr>db_calls := Suc (db_calls w)\<rparr>) of (r, w') \<Rightarrow> (Inr r, w'))"
  by (simp add: db_stmt_def demo_env_ok)

lemma demo_callback_urls:
  "callback_urls 1 demo_slug [\<lparr>cb_org_id = 1, cb_slug = demo_slug, cb_url = demo_callback\<rparr>] = [demo_callback]"
  by (simp add: callback_urls_def)

abbreviation demo_app :: registered_application where
  "demo_app \<equiv> to_record demo_ext demo_app_row [demo_callback]"

lemma demo_find:
  "find_application_by_client_id demo_ext demo_client_id demo_world
     = (Inr (Some demo_app), demo_world\<lparr>db_calls := 2\<rparr>)"
  by (simp add: find_application_by_client_id_def demo_trim seq_def select_one_def select_stmt_def
        demo_db_stmt read_callbacks_def ret_def demo_world_def demo_app_row_def demo_callback_urls)

lemma demo_address_inj [simp]: "demo_address c = demo_address d \<longleftrightarrow> c = d"
  by (simp add: demo_address_def)

lemma demo_keccak_lower: "to_lower (x_keccak demo_ext s) = x_keccak demo_ext s"
proof -
  have "is_lower c \<Longrightarrow> lower_char c = c" for c
    by (auto simp: lower_char_def is_lower_def is_upper_def)
  then have "map lower_char (nib_encode s) = nib_encode s"
    using nib_encode_lower[of s] by (intro map_idI) (auto simp: list_all_iff)
  moreover have "lower_char CHR ''0'' = CHR ''0''" "lower_char CHR ''x'' = CHR ''x''" by code_simp+
  ultimately show ?thesis by (simp add: demo_ext_def to_lower_def)
qed

lemma demo_keccak_inj: "x_keccak demo_ext s = x_keccak demo_ext t \<longleftrightarrow> s = t"
  by (simp add: demo_ext_def) (metis nib_decode_encode)

lemma demo_keccak_not_none: "x_keccak demo_ext s \<noteq> ROLE_NONE"
proof -
  have "\<not> is_lower CHR ''0''" by code_simp
  then have "CHR ''0'' \<notin> set (nib_encode s)" using nib_encode_lower[of s] by (auto simp: list_all_iff)
  moreover have "CHR ''0'' \<in> set (drop 2 ROLE_NONE)" by (simp add: ROLE_NONE_def)
  moreover have "drop 2 (x_keccak demo_ext s) = nib_encode s" by (simp add: demo_ext_def)
  ultimately show ?thesis by metis
qed

lemma demo_roles: "role_name_of demo_ext (ROLE_USER demo_ext) = USER"
  "role_name_of demo_ext (ROLE_ADMIN demo_ext) = ADMIN"
  using demo_keccak_not_none[symmetric]
  by (simp_all add: role_name_of_def ROLE_NAMES_def ROLE_ADMIN_def ROLE_MANAGER_def ROLE_AUDITOR_def
        ROLE_USER_def demo_keccak_lower demo_keccak_inj demo_keccak_not_none)

definition demo_permissions :: permission_map where
  "demo_permissions = permission_json (map (\<lambda>p. (p, False))
     [MANAGE_MEMBERS, ASSIGN_ROLES, MINT_ASSETS, TRANSFER_ASSETS, VIEW_AUDIT, MANAGE_APPS])"

definition demo_snapshot :: evaluated_snapshot where
  "demo_snapshot =
    \<lparr>es_role = ''USER'', es_identity_registered = True, es_identity_active = True,
     es_organization_active = True,
     es_membership = \<lparr>mv_joined_at = Some 1, mv_expires_at = None, mv_expired = False\<rparr>,
     es_permissions = Some demo_permissions,
     es_app = Some \<lparr>av_slug = demo_slug, av_app_id = app_id_from_slug demo_ext demo_slug,
                    av_registered = True, av_allowed = True\<rparr>\<rparr>"

lemma demo_decision:
  "decide_access \<lparr>snap_organization = Some True,
     snap_identity = Some \<lparr>id_registered = True, id_active = True\<rparr>, snap_membership = Some False,
     snap_role = ''USER'', snap_app_access = Value True, snap_app_registered = Value True\<rparr> = allow"
  by (simp add: decide_access_def)

lemma demo_live:
  "evaluate_live_access demo_ext demo_world 1 demo_wallet (Some demo_slug) = Evaluated allow demo_snapshot"
proof -
  let ?w = "demo_world"
  have c: "contracts demo_ext ?w = Inr demo_chain"
    by (simp add: demo_contracts demo_world_def)
  have admin: "demo_wallet \<noteq> demo_admin" "demo_admin \<noteq> ZERO_ADDRESS"
    by (simp add: demo_wallet_def demo_admin_def, code_simp)
  have org: "read_organization demo_ext ?w 1 = Inr (Some \<lparr>os_org_id = 1, os_root_admin = demo_admin,
      os_metadata_hash = ''0x02'', os_active = True, os_created_at = 1\<rparr>)"
    using admin by (simp add: read_organization_def c) (simp add: demo_chain_def)
  have ident: "read_identity demo_ext ?w demo_wallet = Inr \<lparr>is_wallet = demo_wallet, is_registered = True,
      is_active = True, is_identity_hash = Some ''0x01'', is_registered_at = Some 1\<rparr>"
    by (simp add: read_identity_def c) (simp add: demo_chain_def)
  have role: "read_effective_role demo_ext ?w 1 demo_wallet = Inr USER"
    by (simp add: read_effective_role_def c) (simp add: demo_chain_def demo_roles)
  have mem: "read_membership demo_ext ?w 1 demo_wallet = Inr \<lparr>ms_role = USER, ms_joined_at = Some 1,
      ms_expires_at = None, ms_expired = False\<rparr>"
    by (simp add: read_membership_def c) (simp add: demo_chain_def demo_roles)
  have perm: "read_permissions_for demo_ext ?w 1 demo_wallet = Inr (map (\<lambda>p. (p, False))
     [MANAGE_MEMBERS, ASSIGN_ROLES, MINT_ASSETS, TRANSFER_ASSETS, VIEW_AUDIT, MANAGE_APPS])"
    using admin by (simp add: read_permissions_for_def PERMISSION_LIST_def read_has_permission_def c)
       (simp add: demo_chain_def)
  have app: "rd_app (live_readers demo_ext ?w 1 demo_wallet (Some demo_slug)) =
      Inr (Some \<lparr>av_slug = demo_slug, av_app_id = app_id_from_slug demo_ext demo_slug,
                 av_registered = True, av_allowed = True\<rparr>)"
    by (simp add: live_readers_def Let_def demo_trim app_id_from_slug_def demo_keccak c read_can_access_app_def)
       (simp add: demo_chain_def app_id_from_slug_def)
  show ?thesis
    by (simp add: evaluate_live_access_def evaluate_access_def evaluate_reads_def live_readers_simps app
          org ident role mem perm demo_decision demo_snapshot_def demo_permissions_def)
qed

lemma demo_canonical:
  "\<exists>u. canonicalize_callback demo_url demo_callback = Some (u, demo_callback) \<and> check_transport u Production = None"
proof -
  have "(case canonicalize_callback demo_url demo_callback of
           Some (u, n) \<Rightarrow> n = demo_callback \<and> check_transport u Production = None | None \<Rightarrow> False)"
    by code_simp
  then show ?thesis by (auto split: option.splits)
qed

lemma demo_check_callback:
  "check_callback (x_parse_url demo_ext) (Some (subject_of demo_app)) (JStr demo_callback) Production
     = CallbackOk demo_callback demo_callback"
proof -
  have "trim demo_callback \<noteq> []" by code_simp
  moreover have "length demo_callback \<le> MAX_CALLBACK_LENGTH"
    by (simp add: demo_callback_def MAX_CALLBACK_LENGTH_def)
  moreover from demo_canonical obtain u where
    "canonicalize_callback demo_url demo_callback = Some (u, demo_callback)" "check_transport u Production = None"
    by blast
  moreover have "x_parse_url demo_ext = demo_url" by (simp add: demo_ext_def)
  ultimately show ?thesis
    by (simp add: check_callback_def subject_of_def to_record_def demo_app_row_def to_status_def Let_def)
qed

end
