(* ===== verification/AuthorizeProps.thy ===== *)
theory AuthorizeProps
  imports AuthorizeRoutes DemoWorld
begin

text \<open>
  What the single sign-on endpoints guarantee, over any world: any tables, any chain, any
  pattern of database failures.
\<close>

subsection \<open>The exchange on the concrete deployment\<close>

definition demo_exchange_body :: json where
  "demo_exchange_body = JObj [(''client_id'', JStr demo_client_id), (''client_secret'', JStr demo_secret),
     (''code'', JStr demo_code), (''redirect_uri'', JStr demo_callback)]"

lemma demo_exchange_fields:
  "is_object demo_exchange_body" "obj_get demo_exchange_body ''client_id'' = Some (JStr demo_client_id)"
  "obj_get demo_exchange_body ''client_secret'' = Some (JStr demo_secret)"
  "obj_get demo_exchange_body ''code'' = Some (JStr demo_code)"
  "obj_get demo_exchange_body ''redirect_uri'' = Some (JStr demo_callback)"
  by (simp_all add: demo_exchange_body_def is_object_def)

lemma demo_exchange_issues: "exchange_issues demo_ext demo_exchange_body = []"
  by (simp add: exchange_issues_def demo_exchange_fields text_field_def demo_client_id_def demo_secret_def
        demo_code_def demo_callback_def)

lemma demo_consume:
  "consume_authorization_code demo_ext demo_code demo_client_id demo_callback (demo_world\<lparr>db_calls := 2\<rparr>)
     = (Inr (Some (grant_of_row demo_code_row)), demo_world\<lparr>db_calls := 3,
          codes := [demo_code_row\<lparr>cd_used_at := Some 1950000\<rparr>]\<rparr>)"
  by (simp add: consume_authorization_code_def supabase_consume_def demo_db_stmt seq_def gets_def ret_def
       demo_world_def demo_code_def codes_consume_def redeemable_row_def demo_code_row_def update_where_def)

lemma demo_exchange:
  "exchange_post demo_ext (Some demo_exchange_body) demo_world =
     (ok_no_store (claims_json (build_partner_claims demo_wallet 1 ''USER'' (Some demo_permissions) True (show_int 1950000))),
      demo_world\<lparr>db_calls := 3, codes := [demo_code_row\<lparr>cd_used_at := Some 1950000\<rparr>]\<rparr>)"
proof -
  let ?w = "demo_world\<lparr>db_calls := 3, codes := [demo_code_row\<lparr>cd_used_at := Some 1950000\<rparr>]\<rparr>"
  have same: "evaluate_live_access demo_ext ?w = evaluate_live_access demo_ext demo_world"
    by (rule live_same_chain) simp
  have mode: "current_callback_mode (demo_world\<lparr>db_calls := 2\<rparr>) = Production"
    by (simp add: current_callback_mode_def demo_world_def demo_env_values callback_mode_of_def)
  have app: "ra_status demo_app = Active" "ra_secret_hash demo_app = Some demo_secret_hash"
    "ra_org demo_app = 1" "ra_slug demo_app = demo_slug"
    by (simp_all add: to_record_def demo_app_row_def to_status_def)
  have g: "cg_org_id (grant_of_row demo_code_row) = 1" "cg_app_slug (grant_of_row demo_code_row) = demo_slug"
    "cg_wallet (grant_of_row demo_code_row) = demo_wallet"
    by (simp_all add: grant_of_row_def demo_code_row_def)
  show ?thesis
    by (simp add: exchange_post_def handler_def exchange_run_def seq_def read_json_def ret_def lift_res_def zod_def
          demo_exchange_issues demo_exchange_fields text_of_def try_registry_def try_catch_def demo_find
          demo_secret_ok app gets_def mode demo_check_callback demo_consume g same demo_live Let_def)
       (simp add: demo_snapshot_def demo_world_def demo_ext_def)
qed
subsection \<open>Properties\<close>

text \<open>C5. \<open>POST /api/authorize/exchange\<close> answers 200 only after every documented check: the client
  id is that of a registered application that is not revoked, the secret verifies against its
  digest, the redirect URI is canonically equal to a callback registered for it, the code was
  issued to this client for that callback and is unused and unexpired, and the chain of this very
  moment admits the wallet to the application. The body is the six claims and nothing else, and
  the code is marked used.\<close>

theorem exchange_answers_only_after_every_check:
  assumes "exchange_post X body w = (resp, w')" and "status resp = 200"
    and "\<forall>r \<in> set (applications w). ap_slug r \<noteq> []" and "\<forall>s. x_keccak X s \<noteq> []"
    and "codes_ok (codes w)"
  shows "\<exists>b app row registered u n v snap.
    body = Some b
    \<and> app \<in> set (applications w) \<and> ap_client_id app = Some (trim (text_of (obj_get b ''client_id'')))
    \<and> to_status (ap_status app) \<noteq> Revoked
    \<and> verify_client_secret X (JStr (text_of (obj_get b ''client_secret''))) (ap_secret_hash app)
    \<and> registered \<in> set (callback_urls (ap_org_id app) (ap_slug app) (callbacks w))
    \<and> canonicalize_callback (x_parse_url X) (text_of (obj_get b ''redirect_uri'')) = Some (u, n)
    \<and> canonicalize_callback (x_parse_url X) registered = Some (v, n)
    \<and> row \<in> set (codes w) \<and> cd_code row = text_of (obj_get b ''code'')
    \<and> cd_client_id row = text_of (obj_get b ''client_id'') \<and> cd_redirect_uri row = registered
    \<and> cd_used_at row = None \<and> clock w < cd_expires_at row
    \<and> cd_org_id row = ap_org_id app \<and> cd_app_slug row = ap_slug app
    \<and> live_conditions X w (cd_org_id row) (cd_wallet row) (Some (cd_app_slug row))
    \<and> evaluate_live_access X w (cd_org_id row) (cd_wallet row) (Some (cd_app_slug row)) = Evaluated allow snap
    \<and> resp_body resp = JsonBody (claims_json (build_partner_claims (cd_wallet row) (cd_org_id row)
          (es_role snap) (es_permissions snap) True (x_iso X (clock w))))
    \<and> (\<forall>r \<in> set (codes w'). cd_code r = text_of (obj_get b ''code'') \<longrightarrow> cd_used_at r = Some (clock w))"
proof -
  from assms(1,2,5) obtain b app cbs registered n row d snap where
    e: "body = Some b" "app \<in> set (applications w)"
      "ap_client_id app = Some (trim (text_of (obj_get b ''client_id'')))"
      "to_status (ap_status app) \<noteq> Revoked"
      "verify_client_secret X (JStr (text_of (obj_get b ''client_secret''))) (ap_secret_hash app)"
    and cbs: "cbs = callback_urls (ap_org_id app) (ap_slug app) (callbacks w)"
    and cb: "check_callback (x_parse_url X) (Some (subject_of (to_record X app cbs)))
       (JStr (text_of (obj_get b ''redirect_uri''))) (current_callback_mode w) = CallbackOk n registered"
    and row: "row \<in> set (codes w)" "cd_code row = text_of (obj_get b ''code'')"
      "cd_client_id row = text_of (obj_get b ''client_id'')" "cd_redirect_uri row = registered"
      "cd_used_at row = None" "clock w < cd_expires_at row"
      "cd_org_id row = ap_org_id app" "cd_app_slug row = ap_slug app"
    and ev: "evaluate_live_access X w (cd_org_id row) (cd_wallet row) (Some (cd_app_slug row)) = Evaluated d snap"
      "allowed d"
    and out: "resp_body resp = JsonBody (claims_json (build_partner_claims (cd_wallet row) (cd_org_id row)
       (es_role snap) (es_permissions snap) (es_identity_active snap) (x_iso X (clock w))))"
      "\<forall>r \<in> set (codes w'). cd_code r = text_of (obj_get b ''code'') \<longrightarrow> cd_used_at r = Some (clock w)"
    by (rule exchange_success) blast
  from check_callback_OkD[OF cb] obtain u v where
    c: "canonicalize_callback (x_parse_url X) (text_of (obj_get b ''redirect_uri'')) = Some (u, n)"
      "canonicalize_callback (x_parse_url X) registered = Some (v, n)" "registered \<in> set cbs"
    by (auto simp: subject_of_def to_record_def)
  from assms(3) e(2) row(8) have "Some (cd_app_slug row) \<noteq> Some []" by simp
  from live_approval[OF ev this] assms(4)
  have lc: "live_conditions X w (cd_org_id row) (cd_wallet row) (Some (cd_app_slug row))" "es_identity_active snap"
    by auto
  from evaluate_access_EvaluatedD[OF ev(1)[unfolded evaluate_live_access_def]] ev(2)
  have "d = allow" using decide_access_cases by force
  with e cbs c row lc ev out show ?thesis by fastforce
qed

theorem exchange_answers_only_after_every_check_witness:
  "\<exists>row \<in> set (codes demo_world). cd_code row = demo_code \<and> cd_used_at row = None
     \<and> live_conditions demo_ext demo_world (cd_org_id row) (cd_wallet row) (Some (cd_app_slug row))"
proof -
  have "\<forall>s. x_keccak demo_ext s \<noteq> []" by (simp add: demo_keccak)
  from exchange_answers_only_after_every_check
      [OF demo_exchange _ demo_slugs this demo_codes_ok]
  show ?thesis by (auto simp: ok_no_store_def demo_exchange_fields text_of_def)
qed

subsection \<open>Live revalidation on the concrete deployment\<close>

definition demo_headers :: headers where
  "demo_headers k =
    (if k = ''x-ownex-client-id'' then Some demo_client_id
     else if k = ''x-ownex-client-secret'' then Some demo_secret else None)"

definition demo_verify_query :: verify_query where
  "demo_verify_query = \<lparr>vq_wallet = Some demo_wallet, vq_org = Some ''1'', vq_app = None\<rparr>"

lemma demo_org: "coerced_value demo_ext (Some ''1'') = 1" "coerced_positive demo_ext (Some ''1'')"
proof -
  have "demo_number ''1'' = Some 1" by code_simp
  then show "coerced_value demo_ext (Some ''1'') = 1" "coerced_positive demo_ext (Some ''1'')"
    by (simp_all add: coerced_value_def coerced_positive_def positive_number_def demo_ext_def)
qed

lemma demo_authenticate:
  "authenticate_partner demo_ext demo_headers demo_world = (Inr (AuthCredentials demo_app), demo_world\<lparr>db_calls := 2\<rparr>)"
proof -
  have "read_partner_credentials demo_ext demo_headers
      = Some \<lparr>cred_client_id = demo_client_id, cred_client_secret = demo_secret\<rparr>"
    by (simp add: read_partner_credentials_def parse_basic_credentials_def demo_headers_def demo_trim)
       (simp add: demo_secret_def)
  moreover have "ra_status demo_app = Active" "ra_secret_hash demo_app = Some demo_secret_hash"
    by (simp_all add: to_record_def demo_app_row_def to_status_def)
  ultimately show ?thesis
    by (simp add: authenticate_partner_def try_registry_def try_catch_def seq_def ret_def demo_find
          demo_secret_ok Let_def)
qed

lemma demo_registered:
  "registered_app_refusal demo_ext demo_wallet 1 (Some demo_slug) (demo_world\<lparr>db_calls := 2\<rparr>)
     = (Inr None, demo_world\<lparr>db_calls := 4\<rparr>)"
proof -
  have "find_application_by_slug demo_ext 1 demo_slug (demo_world\<lparr>db_calls := 2\<rparr>)
      = (Inr (Some demo_app), demo_world\<lparr>db_calls := 4\<rparr>)"
    by (simp add: find_application_by_slug_def seq_def select_one_def select_stmt_def
          demo_db_stmt read_callbacks_def ret_def demo_world_def demo_app_row_def demo_callback_urls)
  moreover have "ra_status demo_app = Active"
    by (simp add: to_record_def demo_app_row_def to_status_def)
  ultimately show ?thesis
    by (simp add: registered_app_refusal_def demo_trim try_registry_def try_catch_def seq_def ret_def gets_def)
qed

lemma demo_verify:
  "\<exists>c. roles_verify_get demo_ext demo_headers demo_verify_query demo_world =
     (ok_no_store (verification_json c allow demo_snapshot (AuthCredentials demo_app)), demo_world\<lparr>db_calls := 4\<rparr>)"
proof -
  have "verify_query_ok demo_ext demo_verify_query"
    using demo_hex by (simp add: verify_query_ok_def demo_verify_query_def demo_wallet_def demo_address_hex demo_org)
  moreover have "ra_org demo_app = 1" "ra_slug demo_app = demo_slug"
    by (simp_all add: to_record_def demo_app_row_def)
  ultimately show ?thesis
    by (simp add: roles_verify_get_def handler_def roles_verify_run_def seq_def demo_authenticate verify_scope_def
          demo_verify_query_def text_param_def demo_org demo_registered gets_def demo_live ret_def)
       (rule exI, rule refl)
qed

definition demo_asset :: asset_state where
  "demo_asset =
    \<lparr>at_token_id = 7, at_org_id = 1, at_asset_hash = ''0x07'', at_assigned_to = demo_wallet,
     at_owner = demo_wallet, at_active = True, at_minted_at = 1, at_transfer_count = 0\<rparr>"

lemma demo_portal:
  "portal_assets_get demo_ext demo_headers (Some demo_wallet) (Some ''1'') demo_world =
     (ok_no_store (JObj [(''assets'', JArr [portal_asset_json demo_asset]), (''allowed'', JBool True),
                         (''reason'', JNull)]), demo_world\<lparr>db_calls := 2\<rparr>)"
proof -
  let ?w = "demo_world\<lparr>db_calls := 2\<rparr>"
  have c: "contracts demo_ext ?w = Inr demo_chain" by (simp add: demo_contracts demo_world_def)
  have "read_assets_of_organization demo_ext ?w 1 = Inr [7]"
    by (simp add: read_assets_of_organization_def c del: read_counter_cong) (simp add: demo_chain_def)
  moreover have "read_asset demo_ext ?w 7 = Inr (Some demo_asset)"
    by (simp add: read_asset_def c del: read_counter_cong read_counter_congs)
       (simp add: demo_chain_def demo_asset_def)
  moreover have "ra_org demo_app = 1" "ra_slug demo_app = demo_slug"
    by (simp_all add: to_record_def demo_app_row_def)
  moreover have "is_address demo_wallet" using demo_hex by (simp add: demo_wallet_def demo_address_hex)
  ultimately show ?thesis
    by (simp add: portal_assets_get_def handler_def portal_assets_run_def seq_def demo_authenticate
          text_param_def demo_org gets_def asks_def demo_live ret_def map_filter_def del: read_counter_congs)
       (simp add: demo_asset_def)
qed

subsection \<open>The submission on the concrete deployment\<close>

definition demo_params :: authorize_params where
  "demo_params =
    \<lparr>az_client = Some demo_client_id, az_org = Some ''1'', az_redirect_uri = Some demo_callback,
     az_state = Some ''state-0123456789''\<rparr>"

definition demo_new_code :: string where
  "demo_new_code = generate_authorization_code demo_ext 4"

definition demo_issued_code_row :: code_row where
  "demo_issued_code_row = demo_code_row\<lparr>cd_code := demo_new_code, cd_wallet := to_lower demo_wallet,
     cd_expires_at := 2070000\<rparr>"

lemma demo_params_ok: "authorize_issues demo_ext demo_params = []"
  by (simp add: authorize_issues_def demo_params_def demo_org text_between_def demo_client_id_def
        demo_callback_def)

lemma demo_resolve:
  "approve_request demo_ext demo_params demo_world = (Inr (Inr (demo_app, demo_callback)), demo_world\<lparr>db_calls := 2\<rparr>)"
proof -
  have "current_callback_mode (demo_world\<lparr>db_calls := 2\<rparr>) = Production"
    by (simp add: current_callback_mode_def demo_world_def demo_env_values callback_mode_of_def)
  moreover have "ra_org demo_app = 1" "ra_status demo_app = Active"
    by (simp_all add: to_record_def demo_app_row_def to_status_def)
  ultimately show ?thesis
    by (simp add: approve_request_def resolve_authorization_request_def seq_def ret_def gets_def demo_params_def
          text_param_def demo_org demo_find resolve_application_def demo_check_callback)
qed

lemma demo_new_code_fresh: "demo_new_code \<noteq> demo_code" "demo_new_code \<noteq> []" "32 \<le> length demo_new_code"
proof -
  have len: "length (nib_encode s) = 2 * length s" for s by (induction s) auto
  have "demo_new_code = nib_encode (replicate 32 (digit_char 4))"
    by (simp add: demo_new_code_def generate_authorization_code_def demo_ext_def)
  then have "length demo_new_code = 64" using len[of "replicate 32 (digit_char 4)"] by (simp only: length_replicate)
  then show "demo_new_code \<noteq> demo_code" "demo_new_code \<noteq> []" "32 \<le> length demo_new_code"
    by (auto simp: demo_code_def dest: arg_cong[where f = length])
qed

lemma demo_issue:
  "issue_authorization_code demo_ext demo_client_id demo_slug 1 demo_wallet demo_callback (demo_world\<lparr>db_calls := 2\<rparr>)
     = (Inr (demo_new_code, 2070000),
        demo_world\<lparr>db_calls := 3, codes := [demo_code_row, demo_issued_code_row], draws := 5\<rparr>)"
  using demo_new_code_fresh(1)
  by (simp add: issue_authorization_code_def supabase_insert_def seq_def draw_def gets_def Let_def ret_def
        demo_world_def demo_db_stmt codes_insert_def demo_code_row_def demo_new_code_def[symmetric]
        AUTHORIZATION_CODE_TTL_MS_def demo_issued_code_row_def)

lemma demo_callback_parses: "x_parse_url demo_ext demo_callback \<noteq> None"
proof -
  have "demo_url demo_callback \<noteq> None" by code_simp
  then show ?thesis by (simp add: demo_ext_def)
qed

lemma demo_approve:
  "\<exists>u. x_parse_url demo_ext demo_callback = Some u \<and> approve_post demo_ext (Some demo_params) demo_world =
    (Inr \<lparr>status = 303, no_store = False, resp_body = RedirectBody
       \<lparr>cr_target = u\<lparr>u_search := [], u_hash := []\<rparr>,
        cr_params = [(''code'', demo_new_code), (''state'', ''state-0123456789'')]\<rparr>\<rparr>,
     demo_world\<lparr>db_calls := 3, codes := [demo_code_row, demo_issued_code_row], draws := 5\<rparr>)"
proof -
  obtain u where u: "x_parse_url demo_ext demo_callback = Some u" using demo_callback_parses by blast
  have ses: "session_wallet demo_world = Some demo_wallet"
    by (simp add: session_wallet_def demo_world_def SESSION_TTL_SECONDS_def demo_wallet_def demo_address_def)
  have app: "ra_slug demo_app = demo_slug" by (simp add: to_record_def demo_app_row_def)
  show ?thesis
    using u demo_new_code_fresh(2)
    by (simp add: approve_post_def demo_params_ok seq_def try_registry_def try_catch_def demo_resolve ret_def
          approve_resolved_def gets_def Let_def ses app)
       (simp add: app demo_params_def demo_org text_param_def demo_live demo_issue redirect_to_def seq_def ret_def
          lift_res_def build_callback_redirect_def try_catch_def)
qed

text \<open>Failure of the first three steps of the exchange is uniform: whether the client id is
  unknown, the application revoked, the secret wrong or the redirect URI not registered, the
  answer is the same 401 body, no authorization code is consumed and nothing else is written.\<close>

theorem exchange_refusals_are_uniform:
  assumes "exchange_issues X b = []"
    and "find_application_by_client_id X (text_of (obj_get b ''client_id'')) w = (Inr found, w1)"
    and "case found of None \<Rightarrow> True | Some app \<Rightarrow>
           ra_status app = Revoked
           \<or> \<not> verify_client_secret X (JStr (text_of (obj_get b ''client_secret''))) (ra_secret_hash app)
           \<or> (\<exists>rj. check_callback (x_parse_url X) (Some (subject_of app))
                   (JStr (text_of (obj_get b ''redirect_uri''))) (current_callback_mode w) = CallbackNo rj)"
  shows "\<exists>n. exchange_post X (Some b) w = (error_response INVALID_CLIENT, w\<lparr>db_calls := n\<rparr>)
     \<and> status (error_response INVALID_CLIENT) = 401"
proof -
  from reads_onlyD[OF find_reads_only(1) assms(2)] obtain n where w1: "w1 = w\<lparr>db_calls := n\<rparr>" by blast
  then have mode: "current_callback_mode w1 = current_callback_mode w" by (simp add: current_callback_mode_def)
  have reg: "try_registry (find_application_by_client_id X (text_of (obj_get b ''client_id''))) w = (Inr (Some found), w1)"
    using assms(2) by (simp add: io_iff)
  have "exchange_run X (Some b) w = (Inl INVALID_CLIENT, w1)"
    using assms(3) mode
    by (cases found) (auto simp: exchange_run_def seq_def read_json_def ret_def lift_res_def zod_def assms(1)
        Let_def reg throw_def gets_def)
  then show ?thesis
    by (auto simp: exchange_post_def handler_def w1 error_response_status INVALID_CLIENT_def)
qed

definition demo_wrong_body :: json where
  "demo_wrong_body = JObj [(''client_id'', JStr demo_client_id), (''client_secret'', JStr ''0123456789abcdefgh''),
     (''code'', JStr demo_code), (''redirect_uri'', JStr demo_callback)]"

theorem exchange_refusals_are_uniform_witness:
  "\<exists>n. exchange_post demo_ext (Some demo_exchange_body) (demo_world\<lparr>applications := []\<rparr>)
     = (error_response INVALID_CLIENT, demo_world\<lparr>applications := [], db_calls := n\<rparr>)"
proof -
  have "find_application_by_client_id demo_ext demo_client_id (demo_world\<lparr>applications := []\<rparr>)
      = (Inr None, demo_world\<lparr>applications := [], db_calls := 1\<rparr>)"
    by (simp add: find_application_by_client_id_def demo_trim seq_def select_one_def
          demo_db_stmt ret_def demo_world_def)
  then show ?thesis
    using exchange_refusals_are_uniform[OF demo_exchange_issues, of "demo_world\<lparr>applications := []\<rparr>" None]
    by (auto simp: demo_exchange_fields text_of_def)
qed

text \<open>C6. \<open>POST /api/authorize/approve\<close> adds at most one authorization code, and only after every
  check is repeated: the parameters are well formed, the client id is that of an application of
  that organization that is not revoked, the redirect URI is canonically equal to one of its
  callbacks under the transport rules of the environment, the session has a wallet, and the chain
  admits that wallet to the application. The code is bound to the submitted client id, to the
  registered callback and to the wallet, is unused, and expires after two minutes.\<close>

theorem approve_issues_only_after_every_check:
  assumes "approve_post X form w = (r, w')" and "codes w' \<noteq> codes w"
    and "\<forall>r \<in> set (applications w). ap_slug r \<noteq> []" and "\<forall>s. x_keccak X s \<noteq> []"
  shows "\<exists>p app registered u n v wal.
    form = Some p \<and> authorize_issues X p = []
    \<and> app \<in> set (applications w) \<and> ap_client_id app = Some (trim (text_param (az_client p)))
    \<and> ap_org_id app = coerced_value X (az_org p) \<and> to_status (ap_status app) \<noteq> Revoked
    \<and> registered \<in> set (callback_urls (ap_org_id app) (ap_slug app) (callbacks w))
    \<and> canonicalize_callback (x_parse_url X) (text_param (az_redirect_uri p)) = Some (u, n)
    \<and> canonicalize_callback (x_parse_url X) registered = Some (v, n)
    \<and> check_transport u (current_callback_mode w) = None
    \<and> session_wallet w = Some wal
    \<and> live_conditions X w (ap_org_id app) wal (Some (ap_slug app))
    \<and> codes w' = codes w @
        [\<lparr>cd_code = generate_authorization_code X (draws w), cd_client_id = text_param (az_client p),
          cd_app_slug = ap_slug app, cd_org_id = ap_org_id app, cd_wallet = to_lower wal,
          cd_redirect_uri = registered, cd_expires_at = clock w + 120000, cd_used_at = None\<rparr>]"
  using assms(1)
proof (cases rule: approve_post_cases)
  case (refused n)
  with assms(2) show ?thesis by simp
next
  case (resolved p app registered n)
  let ?w = "w\<lparr>db_calls := n\<rparr>"
  from resolved(3) obtain row u m v where row: "row \<in> set (applications w)"
    "app = to_record X row (callback_urls (ap_org_id row) (ap_slug row) (callbacks w))"
    "ap_client_id row = Some (trim (text_param (az_client p)))" "ap_org_id row = coerced_value X (az_org p)"
    "to_status (ap_status row) \<noteq> Revoked"
    "registered \<in> set (callback_urls (ap_org_id row) (ap_slug row) (callbacks w))"
    "canonicalize_callback (x_parse_url X) (text_param (az_redirect_uri p)) = Some (u, m)"
    "canonicalize_callback (x_parse_url X) registered = Some (v, m)"
    "check_transport u (current_callback_mode w) = None" by (rule approve_request_row)
  have app: "ra_slug app = ap_slug row" by (simp add: row(2) to_record_def)
  from resolved(4) show ?thesis
  proof (cases rule: approve_resolved_cases)
    case (error e)
    with assms(2) show ?thesis by simp
  next
    case (issuing wal d snap r1)
    have "Some (ra_slug app) \<noteq> Some []" using assms(3) row(1) app by simp
    from live_approval[OF issuing(2,3) this] assms(4) row(4) app
    have lc: "live_conditions X w (ap_org_id row) wal (Some (ap_slug row))" by simp
    have ses: "session_wallet w = Some wal" using issuing(1) by simp
    from issuing(4) obtain rows where
      "codes_insert (codes w)
         \<lparr>sg_client_id = text_param (az_client p), sg_app_slug = ra_slug app,
          sg_org_id = coerced_value X (az_org p), sg_wallet = wal, sg_redirect_uri = registered,
          sg_code = generate_authorization_code X (draws w),
          sg_expires_at = clock w + AUTHORIZATION_CODE_TTL_MS\<rparr> = Some rows" "codes w' = rows"
      by (cases rule: issue_cases_world) (use assms(2) in auto)
    then have "codes w' = codes w @
        [\<lparr>cd_code = generate_authorization_code X (draws w), cd_client_id = text_param (az_client p),
          cd_app_slug = ap_slug row, cd_org_id = ap_org_id row, cd_wallet = to_lower wal,
          cd_redirect_uri = registered, cd_expires_at = clock w + 120000, cd_used_at = None\<rparr>]"
      using row(4) by (auto simp: codes_insert_def app AUTHORIZATION_CODE_TTL_MS_def split: if_splits)
    with resolved(1,2) row ses lc show ?thesis by blast
  qed
qed

theorem approve_issues_only_after_every_check_witness:
  "\<exists>wal. session_wallet demo_world = Some wal
     \<and> live_conditions demo_ext demo_world (ap_org_id demo_app_row) wal (Some (ap_slug demo_app_row))"
proof -
  obtain u where run: "approve_post demo_ext (Some demo_params) demo_world =
    (Inr \<lparr>status = 303, no_store = False, resp_body = RedirectBody
       \<lparr>cr_target = u\<lparr>u_search := [], u_hash := []\<rparr>,
        cr_params = [(''code'', demo_new_code), (''state'', ''state-0123456789'')]\<rparr>\<rparr>,
     demo_world\<lparr>db_calls := 3, codes := [demo_code_row, demo_issued_code_row], draws := 5\<rparr>)"
    using demo_approve by blast
  have "\<forall>s. x_keccak demo_ext s \<noteq> []" by (simp add: demo_keccak)
  from approve_issues_only_after_every_check[OF run _ demo_slugs this]
  show ?thesis by (auto simp: demo_world_def)
qed

text \<open>The consent submission is no open redirect: whenever it redirects, the target is a
  callback registered for the application named by the client id, with its own query and fragment
  cleared, the submitted state is echoed, and the only other parameter is an error or the code
  that this very submission stored.\<close>

theorem approve_redirects_only_to_registered_callbacks:
  assumes "approve_post X form w = (Inr resp, w')" and "resp_body resp = RedirectBody cr"
    and "generate_authorization_code X (draws w) \<noteq> []"
  shows "\<exists>p app registered u.
    form = Some p \<and> app \<in> set (applications w)
    \<and> ap_client_id app = Some (trim (text_param (az_client p)))
    \<and> registered \<in> set (callback_urls (ap_org_id app) (ap_slug app) (callbacks w))
    \<and> x_parse_url X registered = Some u
    \<and> cr_target cr = u\<lparr>u_search := [], u_hash := []\<rparr>
    \<and> ((\<exists>e \<in> {''access_denied'', ''temporarily_unavailable''}.
          cr_params cr = [(''error'', e), (''state'', text_param (az_state p))])
       \<or> cr_params cr = [(''code'', generate_authorization_code X (draws w)), (''state'', text_param (az_state p))]
         \<and> (\<exists>row. codes w' = codes w @ [row] \<and> cd_code row = generate_authorization_code X (draws w)))"
  using assms(1)
proof (cases rule: approve_post_cases)
  case (refused n)
  with assms(2) show ?thesis by fastforce
next
  case (resolved p app registered n)
  from resolved(3) obtain row where row: "row \<in> set (applications w)"
    "ap_client_id row = Some (trim (text_param (az_client p)))"
    "registered \<in> set (callback_urls (ap_org_id row) (ap_slug row) (callbacks w))"
    by (rule approve_request_row) blast
  have "\<exists>u. x_parse_url X registered = Some u \<and> cr_target cr = u\<lparr>u_search := [], u_hash := []\<rparr>
    \<and> ((\<exists>e \<in> {''access_denied'', ''temporarily_unavailable''}.
          cr_params cr = [(''error'', e), (''state'', text_param (az_state p))])
       \<or> cr_params cr = [(''code'', generate_authorization_code X (draws w)), (''state'', text_param (az_state p))]
         \<and> (\<exists>row. codes w' = codes w @ [row] \<and> cd_code row = generate_authorization_code X (draws w)))"
    using resolved(4)
  proof (cases rule: approve_resolved_cases)
    case (error e)
    from redirect_to_Inr[OF error(3)] assms(2) error(2) show ?thesis by auto
  next
    case (issuing wal d snap r1)
    from issuing(5) show ?thesis
    proof (elim disjE exE conjE)
      assume "redirect_to X registered (text_param (az_state p)) None (Some ''temporarily_unavailable'') w' = (Inr resp, w')"
      from redirect_to_Inr[OF this] assms(2) show ?thesis by auto
    next
      fix c assume c: "r1 = Inr c"
        and rd: "redirect_to X registered (text_param (az_state p)) (Some (fst c)) None w' = (Inr resp, w')"
      from issuing(4) c have "fst c = generate_authorization_code X (draws w)
          \<and> (\<exists>row. codes w' = codes w @ [row] \<and> cd_code row = generate_authorization_code X (draws w))"
        by (cases rule: issue_cases_world) (auto simp: codes_insert_def split: if_splits)
      with redirect_to_Inr[OF rd] assms(2,3) show ?thesis by auto
    qed
  qed
  with resolved(1) row show ?thesis by blast
qed

theorem approve_redirects_only_to_registered_callbacks_witness:
  "\<exists>resp cr registered u w'. approve_post demo_ext (Some demo_params) demo_world = (Inr resp, w')
     \<and> resp_body resp = RedirectBody cr
     \<and> registered \<in> set (callback_urls 1 demo_slug (callbacks demo_world))
     \<and> x_parse_url demo_ext registered = Some u \<and> cr_target cr = u\<lparr>u_search := [], u_hash := []\<rparr>"
proof -
  obtain resp cr w' where run: "approve_post demo_ext (Some demo_params) demo_world = (Inr resp, w')"
    "resp_body resp = RedirectBody cr"
    using demo_approve by fastforce
  have "generate_authorization_code demo_ext (draws demo_world) \<noteq> []"
    using demo_new_code_fresh(2) by (simp add: demo_new_code_def demo_world_def)
  from approve_redirects_only_to_registered_callbacks[OF run this] run show ?thesis
    by (fastforce simp: demo_world_def demo_app_row_def)
qed

lemma route_reads_only:
  "(\<And>d s. reads_only (h d s)) \<Longrightarrow> (\<And>m. reads_only (k m)) \<Longrightarrow> reads_only (case_evaluated_access h k a)"
  "(\<And>app. reads_only (p app)) \<Longrightarrow> reads_only q \<Longrightarrow> (\<And>st c m. reads_only (s' st c m)) \<Longrightarrow>
   reads_only (case_partner_auth p q s' pa)"
  by (auto split: evaluated_access.splits partner_auth.splits)

text \<open>An \<open>allowed\<close> answer of \<open>roles/verify\<close>: the response that carried it.\<close>

lemma error_body_not_allowed:
  "resp_body (error_response e) = JsonBody j \<Longrightarrow> obj_get j ''allowed'' = None"
  by (cases e) (auto simp: error_response_def json_response_def error_json_def split: option.splits if_splits)

lemma refusal_not_allowed: "obj_get (refusal_json X wal org why detail now) ''allowed'' = Some (JBool False)"
  by (simp add: refusal_json_def)

lemma verification_allowed:
  "obj_get (verification_json c d s a) ''allowed'' = Some (JBool (allowed d))"
  by (simp add: verification_json_def claims_entries_def)

lemma registered_refusal_body:
  assumes "registered_app_refusal X wal org slug w = (Inr (Some resp), w')"
  shows "\<exists>j. resp_body resp = JsonBody j \<and> obj_get j ''allowed'' = Some (JBool False)"
  using assms by (auto simp: registered_app_refusal_def io_iff ok_no_store_def refusal_not_allowed)

lemma registered_refusal_passed:
  assumes "registered_app_refusal X wal org slug w = (Inr None, w')" and "truthy slug"
  shows "\<exists>row \<in> set (applications w). ap_org_id row = org \<and> slug = Some (ap_slug row)
     \<and> to_status (ap_status row) \<noteq> Revoked"
proof -
  from assms obtain rec w1 where "find_application_by_slug X org (the slug) w = (Inr (Some rec), w1)"
    "ra_status rec \<noteq> Revoked" by (auto simp: registered_app_refusal_def io_iff)
  with find_by_slug_Some[OF this(1)] assms(2) show ?thesis
    by (auto simp: to_record_def truthy_iff dest!: filter_singletonD)
qed

lemma registered_refusal_reads_only: "reads_only (registered_app_refusal X wal org slug)"
  unfolding registered_app_refusal_def by (intro query_intro)

lemma roles_verify_allowed:
  assumes "roles_verify_get X hs q w = (resp, w')" and "resp_body resp = JsonBody j"
    and "obj_get j ''allowed'' = Some (JBool True)"
  obtains auth slug w1 w2 d snap where "verify_query_ok X q" "authenticate_partner X hs w = (Inr auth, w1)"
    "verify_scope (coerced_value X (vq_org q)) (vq_app q) auth w1 = (Inr slug, w1)"
    "registered_app_refusal X (text_param (vq_wallet q)) (coerced_value X (vq_org q)) slug w1 = (Inr None, w2)"
    "evaluate_live_access X w2 (coerced_value X (vq_org q)) (text_param (vq_wallet q)) slug = Evaluated d snap"
    "allowed d"
proof -
  have "roles_verify_run X hs q w = (Inr resp, w')"
    using assms(1) error_body_not_allowed[of _ j] assms(2,3)
    by (auto simp: roles_verify_get_def handler_iff)
  then have "\<exists>auth slug w1 w2 d snap. verify_query_ok X q \<and> authenticate_partner X hs w = (Inr auth, w1)
    \<and> verify_scope (coerced_value X (vq_org q)) (vq_app q) auth w1 = (Inr slug, w1)
    \<and> registered_app_refusal X (text_param (vq_wallet q)) (coerced_value X (vq_org q)) slug w1 = (Inr None, w2)
    \<and> evaluate_live_access X w2 (coerced_value X (vq_org q)) (text_param (vq_wallet q)) slug = Evaluated d snap
    \<and> allowed d"
    using assms(2,3) unfolding roles_verify_run_def Let_def
    by (auto simp: io_iff case_route_iff ok_no_store_def verification_allowed
             dest!: registered_refusal_body split: if_splits) blast+
  then show ?thesis using that by blast
qed

text \<open>Who the scope belongs to, in terms of the tables.\<close>

lemma scope_owner:
  assumes "authenticate_partner X hs w = (Inr auth, w1)" and "verify_scope org app auth w1 = (Inr slug, w1)"
  shows "(\<exists>cred row. read_partner_credentials X hs = Some cred \<and> row \<in> set (applications w)
      \<and> ap_client_id row = Some (trim (cred_client_id cred)) \<and> to_status (ap_status row) \<noteq> Revoked
      \<and> verify_client_secret X (JStr (cred_client_secret cred)) (ap_secret_hash row)
      \<and> ap_org_id row = org \<and> slug = Some (ap_slug row))
    \<or> penv w ''NODE_ENV'' \<noteq> Some ''production'' \<and> slug = app"
proof (cases auth)
  case (AuthCredentials caller)
  with assms(1) have "authenticate_partner X hs w = (Inr (AuthCredentials caller), w1)" by simp
  then obtain cred row where "read_partner_credentials X hs = Some cred" "row \<in> set (applications w)"
    "ap_client_id row = Some (trim (cred_client_id cred))" "to_status (ap_status row) \<noteq> Revoked"
    "verify_client_secret X (JStr (cred_client_secret cred)) (ap_secret_hash row)"
    "ra_org caller = ap_org_id row" "ra_slug caller = ap_slug row" by (rule authenticate_partner_row)
  moreover from assms(2) AuthCredentials have "ra_org caller = org \<and> slug = Some (ra_slug caller)"
    by (simp add: verify_scope_iff)
  ultimately show ?thesis by metis
next
  case AuthDevelopmentPublic
  with assms authenticate_partner_public[of X hs w w1] show ?thesis by (auto simp: verify_scope_iff)
next
  case (AuthRefused st c m)
  with assms(2) show ?thesis by (simp add: verify_scope_iff)
qed

text \<open>C7. \<open>GET /api/roles/verify\<close> answers \<open>allowed: true\<close> only when the chain of this moment admits
  the wallet, and only to a caller entitled to ask: in production the request carries client
  credentials that verify against a registered application of that organization that is not
  revoked, and the answer is about that application; a slug that is asked about is registered and
  not revoked. The request writes nothing.\<close>

theorem roles_verify_allows_only_live_access:
  assumes "roles_verify_get X hs q w = (resp, w')" and "resp_body resp = JsonBody j"
    and "obj_get j ''allowed'' = Some (JBool True)"
    and "\<forall>r \<in> set (applications w). ap_slug r \<noteq> []" and "\<forall>s. x_keccak X s \<noteq> []"
  shows "\<exists>slug. live_conditions X w (coerced_value X (vq_org q)) (text_param (vq_wallet q)) slug
    \<and> (case slug of None \<Rightarrow> True | Some s \<Rightarrow>
         \<exists>row \<in> set (applications w). ap_org_id row = coerced_value X (vq_org q) \<and> ap_slug row = s
           \<and> to_status (ap_status row) \<noteq> Revoked)
    \<and> (penv w ''NODE_ENV'' = Some ''production'' \<longrightarrow>
         (\<exists>cred row. read_partner_credentials X hs = Some cred \<and> row \<in> set (applications w)
            \<and> ap_client_id row = Some (trim (cred_client_id cred)) \<and> to_status (ap_status row) \<noteq> Revoked
            \<and> verify_client_secret X (JStr (cred_client_secret cred)) (ap_secret_hash row)
            \<and> ap_org_id row = coerced_value X (vq_org q) \<and> slug = Some (ap_slug row)))
    \<and> (\<exists>n. w' = w\<lparr>db_calls := n\<rparr>)"
proof -
  let ?org = "coerced_value X (vq_org q)" and ?wal = "text_param (vq_wallet q)"
  from assms(1-3) obtain auth slug w1 w2 d snap where
    ok: "verify_query_ok X q" and auth: "authenticate_partner X hs w = (Inr auth, w1)" and
    scope: "verify_scope ?org (vq_app q) auth w1 = (Inr slug, w1)" and
    reg: "registered_app_refusal X ?wal ?org slug w1 = (Inr None, w2)" and
    ev: "evaluate_live_access X w2 ?org ?wal slug = Evaluated d snap" "allowed d"
    by (rule roles_verify_allowed)
  from reads_onlyD[OF authenticate_partner_reads_only auth] obtain n1 where w1: "w1 = w\<lparr>db_calls := n1\<rparr>" by blast
  from reads_onlyD[OF registered_refusal_reads_only reg] w1 obtain n2 where w2: "w2 = w\<lparr>db_calls := n2\<rparr>" by auto
  note owner = scope_owner[OF auth scope]
  have slug: "slug \<noteq> Some []"
    using owner assms(4) ok by (auto simp: verify_query_ok_def split: option.splits)
  from live_approval[OF ev slug] assms(5) w2 have live: "live_conditions X w ?org ?wal slug" by simp
  have row: "case slug of None \<Rightarrow> True | Some s \<Rightarrow> \<exists>row \<in> set (applications w). ap_org_id row = ?org
      \<and> ap_slug row = s \<and> to_status (ap_status row) \<noteq> Revoked"
    using registered_refusal_passed[OF reg] slug w1 by (auto simp: truthy_iff split: option.splits)
  have "reads_only (roles_verify_run X hs q)"
    unfolding roles_verify_run_def Let_def verify_scope_def
    by (intro query_intro registered_refusal_reads_only route_reads_only)
  then have "\<exists>n. w' = w\<lparr>db_calls := n\<rparr>"
    using assms(1) reads_onlyD by (fastforce simp: roles_verify_get_def handler_iff)
  with owner live row show ?thesis by blast
qed

theorem roles_verify_allows_only_live_access_witness:
  "\<exists>slug. live_conditions demo_ext demo_world 1 demo_wallet slug \<and> slug = Some demo_slug"
proof -
  obtain c where run: "roles_verify_get demo_ext demo_headers demo_verify_query demo_world =
     (ok_no_store (verification_json c allow demo_snapshot (AuthCredentials demo_app)), demo_world\<lparr>db_calls := 4\<rparr>)"
    using demo_verify by blast
  have kec: "\<forall>s. x_keccak demo_ext s \<noteq> []" by (simp add: demo_keccak)
  have prod: "penv demo_world ''NODE_ENV'' = Some ''production''"
    by (simp add: demo_world_def demo_env_values)
  from roles_verify_allows_only_live_access[OF run _ _ demo_slugs kec] prod show ?thesis
    by (fastforce simp: ok_no_store_def verification_allowed demo_verify_query_def text_param_def demo_org
          demo_world_def demo_app_row_def)
qed

text \<open>\<open>GET /api/portal/assets\<close> lists nothing to a wallet without live access: when the list is
  not empty, the chain of this moment admits the wallet, the caller is entitled to ask (in
  production: verified credentials of that organization), and every entry is the public view of a
  token of the organization that is assigned to that wallet.\<close>

theorem portal_assets_need_live_access:
  assumes "portal_assets_get X hs wp op w = (resp, w')" and "resp_body resp = JsonBody j"
    and "obj_get j ''assets'' = Some (JArr items)" and "items \<noteq> []"
    and "\<forall>r \<in> set (applications w). ap_slug r \<noteq> []" and "\<forall>s. x_keccak X s \<noteq> []"
  shows "\<exists>slug. live_conditions X w (coerced_value X op) (text_param wp) slug
    \<and> (penv w ''NODE_ENV'' = Some ''production'' \<longrightarrow>
         (\<exists>cred row. read_partner_credentials X hs = Some cred \<and> row \<in> set (applications w)
            \<and> ap_client_id row = Some (trim (cred_client_id cred)) \<and> to_status (ap_status row) \<noteq> Revoked
            \<and> verify_client_secret X (JStr (cred_client_secret cred)) (ap_secret_hash row)
            \<and> ap_org_id row = coerced_value X op \<and> slug = Some (ap_slug row)))
    \<and> (\<forall>item \<in> set items. \<exists>ids token rec. read_assets_of_organization X w (coerced_value X op) = Inr ids
         \<and> token \<in> set ids \<and> read_asset X w token = Inr (Some rec)
         \<and> to_lower (at_assigned_to rec) = to_lower (text_param wp) \<and> item = portal_asset_json rec)"
proof -
  let ?org = "coerced_value X op" and ?wal = "text_param wp"
  have "obj_get j ''assets'' = None" if "resp_body (error_response e) = JsonBody j" for e
    using that by (cases e) (auto simp: error_response_def json_response_def error_json_def
        split: option.splits if_splits)
  then have "portal_assets_run X hs wp op w = (Inr resp, w')"
    using assms(1-3) by (auto simp: portal_assets_get_def handler_iff)
  then obtain auth slug w1 d snap ids records where
    auth: "authenticate_partner X hs w = (Inr auth, w1)" and
    scope: "verify_scope ?org None auth w1 = (Inr slug, w1)" and
    ev: "evaluate_live_access X w1 ?org ?wal slug = Evaluated d snap" "allowed d" and
    ids: "read_assets_of_organization X w1 ?org = Inr ids" and
    recs: "map_res (read_asset X w1) ids = Inr records" and
    items: "items = map portal_asset_json
        (filter (\<lambda>r. to_lower (at_assigned_to r) = to_lower ?wal) (List.map_filter id records))"
    using assms(2-4) unfolding portal_assets_run_def Let_def
    by (auto simp: io_iff case_route_iff ok_no_store_def)
  from reads_onlyD[OF authenticate_partner_reads_only auth] obtain n1 where w1: "w1 = w\<lparr>db_calls := n1\<rparr>" by blast
  note owner = scope_owner[OF auth scope]
  have slug: "slug \<noteq> Some []" using owner assms(5) by auto
  from live_approval[OF ev slug] assms(6) w1 have live: "live_conditions X w ?org ?wal slug" by simp
  have ids': "read_assets_of_organization X w ?org = Inr ids"
    using ids by (simp add: w1 read_assets_of_organization_def)
  have "\<exists>token \<in> set ids. read_asset X w token = Inr (Some rec)" if "Some rec \<in> set records" for rec
    using recs that w1 by (auto simp: res_iff in_set_conv_nth list_all2_conv_all_nth) (metis nth_mem)
  then have "\<forall>item \<in> set items. \<exists>ids token rec. read_assets_of_organization X w ?org = Inr ids
         \<and> token \<in> set ids \<and> read_asset X w token = Inr (Some rec)
         \<and> to_lower (at_assigned_to rec) = to_lower ?wal \<and> item = portal_asset_json rec"
    using ids' by (auto simp: items map_filter_def) blast
  with live owner show ?thesis by blast
qed

theorem portal_assets_need_live_access_witness:
  "\<exists>slug. live_conditions demo_ext demo_world 1 demo_wallet slug"
proof -
  have kec: "\<forall>s. x_keccak demo_ext s \<noteq> []" by (simp add: demo_keccak)
  show ?thesis
    using portal_assets_need_live_access[OF demo_portal _ _ _ demo_slugs kec, of _ "[portal_asset_json demo_asset]"]
    by (auto simp: ok_no_store_def text_param_def demo_org)
qed

text \<open>C8. A sign-in gets its code: when the request resolves, the session has a wallet, the chain
  admits it, no database statement fails and the drawn code is new, the submission stores exactly
  one code and sends the browser to the registered callback with that code and the partner's
  state.\<close>

theorem approve_completes:
  assumes "authorize_issues X p = []"
    and "approve_request X p w = (Inr (Inr (app, registered)), w1)"
    and "session_wallet w = Some wal"
    and "evaluate_live_access X w (coerced_value X (az_org p)) wal (Some (ra_slug app)) = Evaluated d snap"
    and "allowed d"
    and "\<forall>n. db_fault w n = None" and "server_env_of X (penv w) = Inr env"
    and "generate_authorization_code X (draws w) \<notin> cd_code ` set (codes w)"
    and "generate_authorization_code X (draws w) \<noteq> []"
    and "x_parse_url X registered = Some u"
  shows "\<exists>n. approve_post X (Some p) w =
    (Inr \<lparr>status = 303, no_store = False, resp_body = RedirectBody
       \<lparr>cr_target = u\<lparr>u_search := [], u_hash := []\<rparr>,
        cr_params = [(''code'', generate_authorization_code X (draws w)), (''state'', text_param (az_state p))]\<rparr>\<rparr>,
     w\<lparr>db_calls := n, draws := Suc (draws w), codes := codes w @
       [\<lparr>cd_code = generate_authorization_code X (draws w), cd_client_id = text_param (az_client p),
         cd_app_slug = ra_slug app, cd_org_id = coerced_value X (az_org p), cd_wallet = to_lower wal,
         cd_redirect_uri = registered, cd_expires_at = clock w + 120000, cd_used_at = None\<rparr>]\<rparr>)"
proof -
  from reads_onlyD[OF approve_request_reads_only assms(2)] obtain m where w1: "w1 = w\<lparr>db_calls := m\<rparr>" by blast
  let ?org = "coerced_value X (az_org p)" and ?code = "generate_authorization_code X (draws w)"
  let ?row = "\<lparr>cd_code = ?code, cd_client_id = text_param (az_client p), cd_app_slug = ra_slug app,
     cd_org_id = ?org, cd_wallet = to_lower wal, cd_redirect_uri = registered,
     cd_expires_at = clock w + 120000, cd_used_at = None\<rparr>"
  have issue: "issue_authorization_code X (text_param (az_client p)) (ra_slug app) ?org wal registered w1 =
      (Inr (?code, clock w + 120000), w\<lparr>db_calls := Suc m, draws := Suc (draws w), codes := codes w @ [?row]\<rparr>)"
    using assms(6,7,8)
    by (auto simp: issue_authorization_code_def supabase_insert_def seq_def draw_def gets_def Let_def ret_def w1
          db_stmt_def codes_insert_def AUTHORIZATION_CODE_TTL_MS_def)
  have "approve_resolved X p app registered w1 = (Inr \<lparr>status = 303, no_store = False, resp_body = RedirectBody
       \<lparr>cr_target = u\<lparr>u_search := [], u_hash := []\<rparr>,
        cr_params = [(''code'', ?code), (''state'', text_param (az_state p))]\<rparr>\<rparr>,
     w\<lparr>db_calls := Suc m, draws := Suc (draws w), codes := codes w @ [?row]\<rparr>)"
    using assms(3,4,5,9,10) issue
    by (simp add: approve_resolved_def seq_def gets_def Let_def try_catch_def redirect_to_def lift_res_def
          build_callback_redirect_def ret_def w1)
  then have "approve_post X (Some p) w = (Inr \<lparr>status = 303, no_store = False, resp_body = RedirectBody
       \<lparr>cr_target = u\<lparr>u_search := [], u_hash := []\<rparr>,
        cr_params = [(''code'', ?code), (''state'', text_param (az_state p))]\<rparr>\<rparr>,
     w\<lparr>db_calls := Suc m, draws := Suc (draws w), codes := codes w @ [?row]\<rparr>)"
    using assms(1,2) by (simp add: approve_post_def seq_def try_registry_def try_catch_def ret_def)
  then show ?thesis by blast
qed

theorem approve_completes_witness:
  "\<exists>u resp cr w'. x_parse_url demo_ext demo_callback = Some u
     \<and> approve_post demo_ext (Some demo_params) demo_world = (Inr resp, w')
     \<and> resp_body resp = RedirectBody cr
     \<and> cr_params cr = [(''code'', demo_new_code), (''state'', ''state-0123456789'')]"
proof -
  obtain u where u: "x_parse_url demo_ext demo_callback = Some u" using demo_callback_parses by blast
  have ses: "session_wallet demo_world = Some demo_wallet"
    by (simp add: session_wallet_def demo_world_def SESSION_TTL_SECONDS_def demo_wallet_def demo_address_def)
  have env: "server_env_of demo_ext (penv demo_world) = Inr demo_server_env" "\<forall>n. db_fault demo_world n = None"
    by (simp_all add: demo_world_def demo_env_ok)
  have live: "evaluate_live_access demo_ext demo_world (coerced_value demo_ext (az_org demo_params)) demo_wallet
      (Some (ra_slug demo_app)) = Evaluated allow demo_snapshot"
    using demo_live by (simp add: demo_params_def demo_org to_record_def demo_app_row_def)
  have "generate_authorization_code demo_ext (draws demo_world) = demo_new_code" "codes demo_world = [demo_code_row]"
    by (simp_all add: demo_world_def demo_new_code_def)
  with approve_completes[OF demo_params_ok demo_resolve ses live _ env(2,1) _ _ u] demo_new_code_fresh u
  show ?thesis by (fastforce simp: demo_code_row_def demo_params_def text_param_def)
qed

text \<open>The partner's server redeems it: when the exchange names the client, the redirect URI the
  request was made with and its secret, and a fresh code of that client is in the table for the
  registered callback, and the chain still admits the wallet, the answer is 200 with the claims
  read live.\<close>

theorem exchange_completes:
  assumes "exchange_issues X b = []"
    and "find_application_by_client_id X (text_of (obj_get b ''client_id'')) w = (Inr (Some app), w1)"
    and "ra_status app \<noteq> Revoked"
    and "verify_client_secret X (JStr (text_of (obj_get b ''client_secret''))) (ra_secret_hash app)"
    and "check_callback (x_parse_url X) (Some (subject_of app)) (JStr (text_of (obj_get b ''redirect_uri'')))
       (current_callback_mode w) = CallbackOk n registered"
    and "codes_ok (codes w)" and "row \<in> set (codes w)"
    and "cd_code row = text_of (obj_get b ''code'')" and "32 \<le> length (text_of (obj_get b ''code''))"
    and "cd_client_id row = text_of (obj_get b ''client_id'')" and "cd_redirect_uri row = registered"
    and "cd_used_at row = None" and "clock w < cd_expires_at row"
    and "cd_org_id row = ra_org app" and "cd_app_slug row = ra_slug app"
    and "evaluate_live_access X w (cd_org_id row) (cd_wallet row) (Some (cd_app_slug row)) = Evaluated d snap"
    and "allowed d"
    and "\<forall>n. db_fault w n = None" and "server_env_of X (penv w) = Inr env"
  shows "fst (exchange_post X (Some b) w) = ok_no_store (claims_json (build_partner_claims (cd_wallet row)
     (cd_org_id row) (es_role snap) (es_permissions snap) (es_identity_active snap) (x_iso X (clock w))))"
proof -
  from reads_onlyD[OF find_reads_only(1) assms(2)] obtain m where w1: "w1 = w\<lparr>db_calls := m\<rparr>" by blast
  define q where "q = \<lparr>cq_code = text_of (obj_get b ''code''), cq_client_id = text_of (obj_get b ''client_id''),
      cq_redirect_uri = registered, cq_now = clock w\<rparr>"
  have "redeemable_row q row" using assms(8-13) by (simp add: redeemable_row_def q_def)
  then have "filter (redeemable_row q) (codes w) = [row]"
    using filter_code_singleton[OF assms(6,7)] filter_redeemable[OF assms(6), of q] assms(8)
      table_view_Some_iff[OF assms(6), of "cd_code row" "entry_of_row row"] assms(7)
    by (auto simp: redeemable_row_iff)
  then have con: "codes_consume (codes w) q = (Inr (Some (grant_of_row row)),
      update_where (redeemable_row q) (\<lambda>r. r\<lparr>cd_used_at := Some (clock w)\<rparr>) (codes w))"
    by (simp add: codes_consume_def q_def)
  define w2 where "w2 = w\<lparr>db_calls := Suc m,
      codes := update_where (redeemable_row q) (\<lambda>r. r\<lparr>cd_used_at := Some (clock w)\<rparr>) (codes w)\<rparr>"
  have cons: "consume_authorization_code X (text_of (obj_get b ''code'')) (text_of (obj_get b ''client_id''))
      registered w1 = (Inr (Some (grant_of_row row)), w2)"
    using assms(9,18,19) con
    by (simp add: consume_authorization_code_def supabase_consume_def seq_def gets_def ret_def db_stmt_def w1 w2_def
          q_def[symmetric] Let_def)
  have sc: "same_chain w2 w" by (simp add: w2_def same_chain_def)
  have mode: "current_callback_mode w1 = current_callback_mode w" by (simp add: w1 current_callback_mode_def)
  have g: "cg_org_id (grant_of_row row) = cd_org_id row" "cg_wallet (grant_of_row row) = cd_wallet row"
    "cg_app_slug (grant_of_row row) = cd_app_slug row" by (simp_all add: grant_of_row_def)
  show ?thesis
    using assms(3,4,5,14-17) sc
    by (simp add: exchange_post_def handler_def exchange_run_def seq_def read_json_def ret_def lift_res_def zod_def
          assms(1,2) Let_def try_registry_def try_catch_def gets_def mode cons g live_same_chain[OF sc]
          same_chain_def)
qed

theorem exchange_completes_witness:
  "status (fst (exchange_post demo_ext (Some demo_exchange_body) demo_world)) = 200"
proof -
  have mode: "current_callback_mode demo_world = Production"
    by (simp add: current_callback_mode_def demo_world_def demo_env_values callback_mode_of_def)
  have find: "find_application_by_client_id demo_ext (text_of (obj_get demo_exchange_body ''client_id'')) demo_world
      = (Inr (Some demo_app), demo_world\<lparr>db_calls := 2\<rparr>)"
    by (simp add: demo_exchange_fields text_of_def demo_find)
  have app: "ra_status demo_app \<noteq> Revoked" "ra_secret_hash demo_app = Some demo_secret_hash"
    "ra_org demo_app = 1" "ra_slug demo_app = demo_slug"
    by (simp_all add: to_record_def demo_app_row_def to_status_def)
  have w: "codes demo_world = [demo_code_row]" "\<forall>n. db_fault demo_world n = None"
    "server_env_of demo_ext (penv demo_world) = Inr demo_server_env" "clock demo_world = 1950000"
    by (simp_all add: demo_world_def demo_env_ok)
  have row: "cd_code demo_code_row = demo_code" "cd_client_id demo_code_row = demo_client_id"
    "cd_redirect_uri demo_code_row = demo_callback" "cd_used_at demo_code_row = None"
    "cd_expires_at demo_code_row = 2000000" "cd_org_id demo_code_row = 1" "cd_app_slug demo_code_row = demo_slug"
    "cd_wallet demo_code_row = demo_wallet" by (simp_all add: demo_code_row_def)
  have "32 \<le> length demo_code" by (simp add: demo_code_def)
  with exchange_completes[OF demo_exchange_issues find app(1), of demo_callback demo_callback demo_code_row
      allow demo_snapshot demo_server_env]
  show ?thesis
    using demo_codes_ok by (simp add: demo_exchange_fields text_of_def demo_secret_ok app mode demo_check_callback w row
        demo_live ok_no_store_def)
qed

end
