(* ===== verification/SingleUse.thy ===== *)
theory SingleUse
  imports Main
begin

text \<open>
  Single-use tokens. A system spends tokens one at a time; the interface \<open>single_use\<close> promises that
  no step makes a spent token spendable again and that a step spends only a token that was not
  spent. Its client fact is that no history spends a token twice. Authorization codes and sign-in
  nonces are its two interpretations.
\<close>

text \<open>A history of steps, with the tokens it spent in order.\<close>

inductive token_run :: "('s \<Rightarrow> 't option \<Rightarrow> 's \<Rightarrow> bool) \<Rightarrow> 's \<Rightarrow> 't list \<Rightarrow> 's \<Rightarrow> bool" for step where
  run_stop: "token_run step s [] s"
| run_silent: "step s None s1 \<Longrightarrow> token_run step s1 ts s2 \<Longrightarrow> token_run step s ts s2"
| run_spend: "step s (Some t) s1 \<Longrightarrow> token_run step s1 ts s2 \<Longrightarrow> token_run step s (t # ts) s2"

lemma token_run_single: "step s (Some t) s1 \<Longrightarrow> token_run step s [t] s1"
  by (rule run_spend, assumption, rule run_stop)

locale single_use =
  fixes step :: "'s \<Rightarrow> 't option \<Rightarrow> 's \<Rightarrow> bool"
    and spent :: "'t \<Rightarrow> 's \<Rightarrow> bool"
    and ok :: "'s \<Rightarrow> bool"
  assumes ok_step: "step s l s' \<Longrightarrow> ok s \<Longrightarrow> ok s'"
    and spent_step: "step s l s' \<Longrightarrow> ok s \<Longrightarrow> spent t s \<Longrightarrow> spent t s'"
    and spends: "step s (Some t) s' \<Longrightarrow> ok s \<Longrightarrow> \<not> spent t s \<and> spent t s'"
begin

lemma never_spends_spent: "token_run step s ts s' \<Longrightarrow> ok s \<Longrightarrow> spent t s \<Longrightarrow> t \<notin> set ts"
proof (induction rule: token_run.induct)
  case (run_silent s s1 ts s2)
  then show ?case using ok_step spent_step by blast
next
  case (run_spend s t' s1 ts s2)
  then show ?case using ok_step spent_step spends[OF run_spend(1)] by auto
qed simp

lemma spends_once: "token_run step s ts s' \<Longrightarrow> ok s \<Longrightarrow> distinct ts"
proof (induction rule: token_run.induct)
  case (run_silent s s1 ts s2)
  then show ?case using ok_step by blast
next
  case (run_spend s t s1 ts s2)
  then show ?case using ok_step spends[OF run_spend(1)] never_spends_spent[OF run_spend(2)] by auto
qed simp

lemma all_spent: "token_run step s ts s' \<Longrightarrow> ok s \<Longrightarrow> t \<in> set ts \<or> spent t s \<Longrightarrow> spent t s'"
proof (induction rule: token_run.induct)
  case (run_silent s s1 ts s2)
  then show ?case using ok_step spent_step by blast
next
  case (run_spend s t' s1 ts s2)
  then show ?case using ok_step spent_step spends[OF run_spend(1)] by auto
qed simp

end

end
