(* ===== verification/SsoHistory.thy ===== *)
theory SsoHistory
  imports AuthorizeProps SingleUse
begin

text \<open>
  Histories of the single sign-on endpoints. A step is one consent submission, one exchange, or
  anything else that leaves the table of authorization codes alone: the clock advances, the chain
  moves, sessions open and close, other tables change, statements start or stop failing. A history
  records the codes that were exchanged successfully, in order.
\<close>

inductive sso_step :: "ext \<Rightarrow> world \<Rightarrow> string option \<Rightarrow> world \<Rightarrow> bool" for X where
  submitted: "approve_post X form w = (r, w') \<Longrightarrow> sso_step X w None w'"
| redeemed: "exchange_post X (Some b) w = (resp, w') \<Longrightarrow> status resp = 200 \<Longrightarrow>
     sso_step X w (Some (text_of (obj_get b ''code''))) w'"
| refused: "exchange_post X body w = (resp, w') \<Longrightarrow> status resp \<noteq> 200 \<Longrightarrow> sso_step X w None w'"
| elsewhere: "codes w' = codes w \<Longrightarrow> sso_step X w None w'"

inductive_cases redeem_stepE: "sso_step X w (Some c) w'"

subsection \<open>The table of codes only moves forward\<close>

definition code_used :: "string \<Rightarrow> code_row list \<Rightarrow> bool" where
  "code_used c rows \<longleftrightarrow> (\<exists>r \<in> set rows. cd_code r = c \<and> cd_used_at r \<noteq> None)"

definition rows_progress :: "code_row list \<Rightarrow> code_row list \<Rightarrow> bool" where
  "rows_progress rows rows' \<longleftrightarrow>
     (codes_ok rows \<longrightarrow> codes_ok rows')
     \<and> cd_code ` set rows \<subseteq> cd_code ` set rows' \<and> (\<forall>c. code_used c rows \<longrightarrow> code_used c rows')"

lemma rows_progress_refl [simp]: "rows_progress rows rows"
  by (simp add: rows_progress_def)

lemma rows_progress_trans: "rows_progress a b \<Longrightarrow> rows_progress b c \<Longrightarrow> rows_progress a c"
  unfolding rows_progress_def by blast

abbreviation codes_move :: "world \<Rightarrow> world \<Rightarrow> bool" where
  "codes_move w w' \<equiv> rows_progress (codes w) (codes w')"

interpretation codes: world_relation codes_move
  by unfold_locales (auto intro: rows_progress_trans)

lemma codes_move_cases:
  "(\<And>n u. keeps codes_move (f n u)) \<Longrightarrow> (\<And>rj. keeps codes_move (g rj)) \<Longrightarrow>
   keeps codes_move (case_callback_check f g c)"
  "(\<And>d s. keeps codes_move (h d s)) \<Longrightarrow> (\<And>m. keeps codes_move (k m)) \<Longrightarrow>
   keeps codes_move (case_evaluated_access h k a)"
  "keeps codes_move (try_registry (find_application_by_client_id X cid))"
  by (auto split: callback_check.splits evaluated_access.splits intro: codes.keeps_reads query_intro)

lemma used_update_where:
  "code_used c rows \<Longrightarrow> code_used c (update_where p (\<lambda>r. r\<lparr>cd_used_at := Some t\<rparr>) rows)"
proof -
  assume "code_used c rows"
  then obtain r where r: "r \<in> set rows" "cd_code r = c" "cd_used_at r \<noteq> None" by (auto simp: code_used_def)
  let ?r = "if p r then r\<lparr>cd_used_at := Some t\<rparr> else r"
  from r have "?r \<in> set (update_where p (\<lambda>r. r\<lparr>cd_used_at := Some t\<rparr>) rows)" "cd_code ?r = c" "cd_used_at ?r \<noteq> None"
    by (auto simp: update_where_def)
  then show ?thesis unfolding code_used_def by blast
qed

lemma progress_update_where:
  "rows_progress rows (update_where p (\<lambda>r. r\<lparr>cd_used_at := Some t\<rparr>) rows)"
  using update_where_codes[of p "Some t" rows]
  by (auto simp: rows_progress_def codes_ok_def used_update_where simp flip: set_map)

lemma consume_moves: "keeps codes_move (consume_authorization_code X code cid uri)"
proof (rule keepsI)
  fix w r w' assume "consume_authorization_code X code cid uri w = (r, w')"
  then show "codes_move w w'"
    by (cases rule: consume_cases_world) (simp_all add: progress_update_where)
qed

lemma issue_moves: "keeps codes_move (issue_authorization_code X cid slug org wal uri)"
proof (rule keepsI)
  fix w r w' assume "issue_authorization_code X cid slug org wal uri w = (r, w')"
  then show "codes_move w w'"
    by (cases rule: issue_cases_world)
       (auto simp: codes_insert_def rows_progress_def codes_ok_def code_used_def split: if_splits)
qed

lemma exchange_moves: "keeps codes_move (exchange_run X body)"
  unfolding exchange_run_def Let_def by (intro codes.keeps_intro codes_move_cases consume_moves)

lemma approve_moves: "keeps codes_move (approve_post X form)"
proof (rule keepsI)
  fix w r w' assume "approve_post X form w = (r, w')"
  then show "codes_move w w'"
  proof (cases rule: approve_post_cases)
    case (resolved p app registered n)
    from resolved(4) show ?thesis
      by (cases rule: approve_resolved_cases) (auto dest: keepsD[OF issue_moves])
  qed simp
qed

lemma step_progress: "sso_step X w l w' \<Longrightarrow> rows_progress (codes w) (codes w')"
  by (induction rule: sso_step.induct)
     (auto simp: exchange_post_def handler_iff dest: keepsD[OF approve_moves] keepsD[OF exchange_moves])

lemma step_redeems:
  assumes "sso_step X w (Some c) w'" and "codes_ok (codes w)"
  shows "\<not> code_used c (codes w) \<and> code_used c (codes w')"
proof -
  from assms(1) obtain b resp where ex: "exchange_post X (Some b) w = (resp, w')" "status resp = 200"
    and c: "c = text_of (obj_get b ''code'')" by (rule redeem_stepE)
  from ex assms(2) obtain row where row: "row \<in> set (codes w)" "cd_code row = c" "cd_used_at row = None"
    and used: "\<forall>r \<in> set (codes w'). cd_code r = c \<longrightarrow> cd_used_at r = Some (clock w)"
    by (rule exchange_success) (auto simp: c)
  from row assms(2) have "\<not> code_used c (codes w)"
    by (auto simp: code_used_def codes_ok_def distinct_map inj_on_def)
  moreover from step_progress[OF assms(1)] row(1,2) have "c \<in> cd_code ` set (codes w')"
    by (auto simp: rows_progress_def)
  with used have "code_used c (codes w')" by (auto simp: code_used_def)
  ultimately show ?thesis by blast
qed

interpretation exchange: single_use "sso_step X" "\<lambda>c w. code_used c (codes w)" "\<lambda>w. codes_ok (codes w)" for X
proof unfold_locales
  fix w l w' c
  assume step: "sso_step X w l w'" and ok: "codes_ok (codes w)"
  from step_progress[OF step] ok show "codes_ok (codes w')" by (simp add: rows_progress_def)
  from step_progress[OF step] show "code_used c (codes w) \<Longrightarrow> code_used c (codes w')"
    by (simp add: rows_progress_def)
next
  fix w c w'
  assume "sso_step X w (Some c) w'" and "codes_ok (codes w)"
  then show "\<not> code_used c (codes w) \<and> code_used c (codes w')" by (rule step_redeems)
qed

subsection \<open>Properties\<close>

text \<open>C9. Single use across requests: in any history of consent submissions and exchanges,
  interleaved with arbitrary changes of everything but the table of codes, no authorization code
  is exchanged successfully twice.\<close>

theorem no_code_is_exchanged_twice:
  assumes "token_run (sso_step X) w cs w'" and "codes_ok (codes w)"
  shows "distinct cs \<and> (\<forall>c \<in> set cs. code_used c (codes w'))"
  using exchange.spends_once[OF assms] exchange.all_spent[OF assms] by blast

theorem no_code_is_exchanged_twice_witness:
  "\<exists>w'. token_run (sso_step demo_ext) demo_world [demo_code] w' \<and> code_used demo_code (codes w')"
proof -
  have "sso_step demo_ext demo_world (Some (text_of (obj_get demo_exchange_body ''code'')))
      (demo_world\<lparr>db_calls := 3, codes := [demo_code_row\<lparr>cd_used_at := Some 1950000\<rparr>]\<rparr>)"
    by (rule sso_step.redeemed[OF demo_exchange]) (simp add: ok_no_store_def)
  then have "token_run (sso_step demo_ext) demo_world [demo_code]
      (demo_world\<lparr>db_calls := 3, codes := [demo_code_row\<lparr>cd_used_at := Some 1950000\<rparr>]\<rparr>)"
    by (auto simp: demo_exchange_fields text_of_def intro: token_run_single)
  with no_code_is_exchanged_twice[OF this demo_codes_ok] show ?thesis by auto
qed

end
