(* ===== verification/Siwe.thy ===== *)
theory Siwe
  imports Session SingleUse
begin

text \<open>
  \<open>apps/platform/lib/siwe.ts\<close> and the routes \<open>api/auth/nonce\<close>, \<open>api/auth/verify\<close> and
  \<open>api/auth/logout\<close>: the sign-in message, the challenge that is issued and stored, the
  verification that consumes its nonce, and the session it opens. Signature recovery and address
  checksums are functions of the record \<open>ext\<close>.
\<close>

subsection \<open>The message\<close>

definition NONCE_TTL_SECONDS :: int where
  "NONCE_TTL_SECONDS = 5 * 60"

definition STATEMENT :: string where
  "STATEMENT = ''Sign in to OwneX. This request is free and will not create a blockchain transaction.''"

text \<open>\<open>SiweFields\<close>; the chain id of a parsed message may be no integer.\<close>

record 'n siwe_fields =
  sf_domain :: string
  sf_address :: string
  sf_statement :: string
  sf_uri :: string
  sf_chain_id :: 'n
  sf_nonce :: string
  sf_issued_at :: string
  sf_expiration :: string

definition SIGN_IN_SUFFIX :: string where
  "SIGN_IN_SUFFIX = '' wants you to sign in with your Ethereum account:''"

definition siwe_lines :: "int siwe_fields \<Rightarrow> string list" where
  "siwe_lines f =
    [sf_domain f @ SIGN_IN_SUFFIX,
     sf_address f,
     [],
     sf_statement f,
     [],
     ''URI: '' @ sf_uri f,
     ''Version: '' @ ''1'',
     ''Chain ID: '' @ show_int (sf_chain_id f),
     ''Nonce: '' @ sf_nonce f,
     ''Issued At: '' @ sf_issued_at f,
     ''Expiration Time: '' @ sf_expiration f]"

definition build_siwe_message :: "int siwe_fields \<Rightarrow> string" where
  "build_siwe_message f = join_with [newline] (siwe_lines f)"

text \<open>\<open>/^(.+) wants you to sign in with your Ethereum account:$/\<close> on one line\<close>

definition match_domain :: "string \<Rightarrow> string option" where
  "match_domain line =
    (let n = length line - length SIGN_IN_SUFFIX; domain = take n line in
     if length SIGN_IN_SUFFIX < length line \<and> drop n line = SIGN_IN_SUFFIX
        \<and> list_all (\<lambda>c. c \<noteq> CHR 0x0D) domain
     then Some domain else None)"

definition siwe_field :: "string list \<Rightarrow> string \<Rightarrow> string option" where
  "siwe_field lines label =
    map_option (\<lambda>l. trim (drop (length label) l)) (find (starts_with label) lines)"

definition parse_siwe_message :: "ext \<Rightarrow> string \<Rightarrow> int option siwe_fields option" where
  "parse_siwe_message X message =
    (let lines = split_on newline message in
     if length lines < 11 then None
     else (case match_domain (lines ! 0) of
       None \<Rightarrow> None
     | Some domain \<Rightarrow>
       let uri = siwe_field lines ''URI: ''; version = siwe_field lines ''Version: '';
           chain_id = siwe_field lines ''Chain ID: ''; nonce = siwe_field lines ''Nonce: '';
           issued_at = siwe_field lines ''Issued At: '';
           expiration = siwe_field lines ''Expiration Time: '' in
       if \<not> truthy uri \<or> version \<noteq> Some ''1'' \<or> \<not> truthy chain_id \<or> \<not> truthy nonce
          \<or> \<not> truthy issued_at \<or> \<not> truthy expiration
       then None
       else Some \<lparr>sf_domain = domain, sf_address = trim (lines ! 1), sf_statement = lines ! 3,
                  sf_uri = the uri, sf_chain_id = x_number X (the chain_id), sf_nonce = the nonce,
                  sf_issued_at = the issued_at, sf_expiration = the expiration\<rparr>))"

subsection \<open>Issuing a challenge\<close>

record issued_challenge =
  ic_nonce :: string
  ic_message :: string
  ic_expires_at :: string

definition nonces_insert :: "nonce_row \<Rightarrow> nonce_row list \<Rightarrow> nonce_row list option" where
  "nonces_insert row rows = (if n_nonce row \<in> n_nonce ` set rows then None else Some (rows @ [row]))"

definition issue_challenge :: "ext \<Rightarrow> string \<Rightarrow> issued_challenge io" where
  "issue_challenge X wallet_input =
    seq (server_env_io X) (\<lambda>env.
    (case x_get_address X wallet_input of
       None \<Rightarrow> throw (JsError ''invalid address'')
     | Some address \<Rightarrow>
       seq draw (\<lambda>k.
       seq (gets clock) (\<lambda>issued.
       let nonce = x_hex X (x_random X k 16);
           expires = issued + NONCE_TTL_SECONDS * 1000;
           message = build_siwe_message
             \<lparr>sf_domain = APP_DOMAIN env, sf_address = address, sf_statement = STATEMENT,
              sf_uri = APP_ORIGIN env, sf_chain_id = CHAIN_ID env, sf_nonce = nonce,
              sf_issued_at = x_iso X issued, sf_expiration = x_iso X expires\<rparr> in
       seq (db_stmt X (\<lambda>w. case nonces_insert
              \<lparr>n_nonce = nonce, n_wallet = normalize_address address, n_domain = APP_DOMAIN env,
               n_issued_at = issued, n_expires_at = expires, n_used_at = None\<rparr> (nonces w) of
                None \<Rightarrow> (Inl unique_violation, w)
              | Some rows \<Rightarrow> (Inr (), w\<lparr>nonces := rows\<rparr>))) (\<lambda>r.
       case r of
         Inl err \<Rightarrow> throw (JsError (''Could not persist nonce: '' @ db_message err))
       | Inr _ \<Rightarrow> ret \<lparr>ic_nonce = nonce, ic_message = message, ic_expires_at = x_iso X expires\<rparr>)))))"

subsection \<open>Verifying a signed challenge\<close>

text \<open>The claimed address, or the reason of the refusal.\<close>

type_synonym verify_result = "string + string"

text \<open>The field checks, before the database is asked.\<close>

definition check_siwe_fields ::
  "ext \<Rightarrow> server_env \<Rightarrow> int \<Rightarrow> string \<Rightarrow> string + int option siwe_fields \<times> string" where
  "check_siwe_fields X env now message =
    (case parse_siwe_message X message of
       None \<Rightarrow> Inl ''Malformed sign-in message''
     | Some parsed \<Rightarrow>
       if sf_domain parsed \<noteq> APP_DOMAIN env then Inl ''Sign-in message was issued for a different domain''
       else if sf_chain_id parsed \<noteq> Some (CHAIN_ID env)
       then Inl (''Wrong network. Expected chain '' @ show_int (CHAIN_ID env))
       else if (case x_date X (sf_expiration parsed) of None \<Rightarrow> False | Some t \<Rightarrow> t \<le> now)
       then Inl ''Sign-in request expired. Please try again.''
       else (case x_get_address X (sf_address parsed) of
               None \<Rightarrow> Inl ''Invalid address in sign-in message''
             | Some address \<Rightarrow> Inr (parsed, address)))"

definition expected_message ::
  "server_env \<Rightarrow> nonce_row \<Rightarrow> int option siwe_fields \<Rightarrow> string \<Rightarrow> string" where
  "expected_message env row parsed address =
    build_siwe_message
      \<lparr>sf_domain = n_domain row, sf_address = address, sf_statement = STATEMENT,
       sf_uri = APP_ORIGIN env, sf_chain_id = CHAIN_ID env, sf_nonce = sf_nonce parsed,
       sf_issued_at = sf_issued_at parsed, sf_expiration = sf_expiration parsed\<rparr>"

text \<open>The stored challenge against the message: \<open>None\<close> when it passes.\<close>

definition check_nonce_row ::
  "server_env \<Rightarrow> int \<Rightarrow> string \<Rightarrow> int option siwe_fields \<Rightarrow> string \<Rightarrow> nonce_row \<Rightarrow> string option" where
  "check_nonce_row env now message parsed address row =
    (if n_used_at row \<noteq> None then Some ''This sign-in request was already used''
     else if n_expires_at row \<le> now then Some ''Sign-in request expired. Please try again.''
     else if n_wallet row \<noteq> normalize_address address
     then Some ''Sign-in request was issued for a different wallet''
     else if expected_message env row parsed address \<noteq> message
     then Some ''Sign-in message does not match the issued challenge''
     else None)"

text \<open>The conditional update: how many rows it marked, and the table after it.\<close>

definition nonces_consume :: "string \<Rightarrow> int \<Rightarrow> nonce_row list \<Rightarrow> nat \<times> nonce_row list" where
  "nonces_consume nonce now rows =
    (length (filter (\<lambda>r. n_nonce r = nonce \<and> n_used_at r = None) rows),
     update_where (\<lambda>r. n_nonce r = nonce \<and> n_used_at r = None) (\<lambda>r. r\<lparr>n_used_at := Some now\<rparr>) rows)"

definition consume_nonce :: "ext \<Rightarrow> string \<Rightarrow> string \<Rightarrow> verify_result io" where
  "consume_nonce X nonce address =
    seq (gets clock) (\<lambda>now.
    seq (db_stmt X (\<lambda>w. case nonces_consume nonce now (nonces w) of
            (marked, rows) \<Rightarrow> (Inr marked, w\<lparr>nonces := rows\<rparr>))) (\<lambda>r.
    case r of
      Inl _ \<Rightarrow> ret (Inl ''Could not complete sign-in'')
    | Inr marked \<Rightarrow>
        if marked = 0 then ret (Inl ''This sign-in request was already used'')
        else ret (Inr address)))"

definition verify_challenge :: "ext \<Rightarrow> string \<Rightarrow> string \<Rightarrow> verify_result io" where
  "verify_challenge X message signature =
    seq (server_env_io X) (\<lambda>env.
    seq (gets clock) (\<lambda>now.
    case check_siwe_fields X env now message of
      Inl why \<Rightarrow> ret (Inl why)
    | Inr (parsed, address) \<Rightarrow>
      seq (select_one X (\<lambda>w. filter (\<lambda>r. n_nonce r = sf_nonce parsed) (nonces w))) (\<lambda>found.
      case found of
        Inl _ \<Rightarrow> ret (Inl ''Could not validate sign-in request'')
      | Inr None \<Rightarrow> ret (Inl ''Unknown or already-used sign-in request'')
      | Inr (Some row) \<Rightarrow>
        (case check_nonce_row env now message parsed address row of
           Some why \<Rightarrow> ret (Inl why)
         | None \<Rightarrow>
           (case x_verify_message X message signature of
              None \<Rightarrow> ret (Inl ''Signature could not be verified'')
            | Some recovered \<Rightarrow>
              (case x_get_address X recovered of
                 None \<Rightarrow> throw (JsError ''invalid address'')
               | Some signer \<Rightarrow>
                 if signer \<noteq> address then ret (Inl ''Signature does not match the claimed wallet'')
                 else consume_nonce X (sf_nonce parsed) address))))))"

subsection \<open>POST /api/auth/nonce, /verify, /logout\<close>

definition nonce_body_issues :: "ext \<Rightarrow> json \<Rightarrow> issue list" where
  "nonce_body_issues X j =
    (if \<not> is_object j then field_issue X [] False
     else field_issue X ''wallet'' (regex_field is_address (obj_get j ''wallet'')))"

definition nonce_run :: "ext \<Rightarrow> json option \<Rightarrow> response io" where
  "nonce_run X body =
    seq (read_json body) (\<lambda>raw.
    seq (lift_res (zod (nonce_body_issues X raw) raw)) (\<lambda>b.
    seq (issue_challenge X (text_of (obj_get b ''wallet''))) (\<lambda>c.
      ret (ok_no_store (JObj
        [(''nonce'', JStr (ic_nonce c)), (''message'', JStr (ic_message c)),
         (''expiresAt'', JStr (ic_expires_at c)), (''gasRequired'', JBool False)])))))"

definition nonce_post :: "ext \<Rightarrow> json option \<Rightarrow> world \<Rightarrow> response \<times> world" where
  "nonce_post X body = handler (nonce_run X body)"

text \<open>\<open>/^0x[a-fA-F0-9]+$/\<close>\<close>

definition is_hex_text :: "string \<Rightarrow> bool" where
  "is_hex_text s = (starts_with ''0x'' s \<and> drop 2 s \<noteq> [] \<and> list_all is_hex_digit (drop 2 s))"

definition verify_body_issues :: "ext \<Rightarrow> json \<Rightarrow> issue list" where
  "verify_body_issues X j =
    (if \<not> is_object j then field_issue X [] False
     else field_issue X ''message'' (regex_field (\<lambda>s. 50 \<le> length s) (obj_get j ''message''))
      @ field_issue X ''signature'' (regex_field is_hex_text (obj_get j ''signature'')))"

definition membership_entry_json :: "membership_entry \<Rightarrow> json" where
  "membership_entry_json m =
    JObj [(''orgId'', JNum (me_org_id m)), (''role'', JStr (role_text (me_role m))),
          (''active'', JBool (me_active m)), (''isRootAdmin'', JBool (me_is_root_admin m))]"

definition profile_summary_json :: "profile_row option \<Rightarrow> json" where
  "profile_summary_json p =
    (case p of
       None \<Rightarrow> JNull
     | Some r \<Rightarrow> JObj [(''display_name'', JStr (pf_display_name r)), (''job_title'', jnullable (pf_job_title r)),
                       (''department'', jnullable (pf_department r)), (''avatar_url'', jnullable (pf_avatar r))])"

definition identity_summary_json :: "identity_state \<Rightarrow> json" where
  "identity_summary_json i =
    JObj [(''registered'', JBool (is_registered i)), (''active'', JBool (is_active i)),
          (''identityHash'', jnullable (is_identity_hash i))]"

definition next_step :: "identity_state \<Rightarrow> membership_entry list \<Rightarrow> string" where
  "next_step i ms =
    (if \<not> is_registered i then ''onboarding'' else if ms = [] then ''no-organization'' else ''dashboard'')"

definition verify_run :: "ext \<Rightarrow> json option \<Rightarrow> response io" where
  "verify_run X body =
    seq (read_json body) (\<lambda>raw.
    seq (lift_res (zod (verify_body_issues X raw) raw)) (\<lambda>b.
    seq (verify_challenge X (text_of (obj_get b ''message'')) (text_of (obj_get b ''signature''))) (\<lambda>result.
    case result of
      Inl why \<Rightarrow> throw (ApiError 401 why (Some ''SIGNATURE_REJECTED''))
    | Inr wallet \<Rightarrow>
      seq (server_env_io X) (\<lambda>env.
      seq (create_session wallet (CHAIN_ID env)) (\<lambda>_.
      seq (asks (\<lambda>w. read_identity X w wallet)) (\<lambda>identity.
      seq (asks (\<lambda>w. read_memberships X w wallet)) (\<lambda>memberships.
      seq (select_one X (\<lambda>w. filter (\<lambda>r. pf_wallet r = normalize_address wallet) (profiles w))) (\<lambda>profile.
        ret (ok_no_store (JObj
          [(''wallet'', JStr wallet), (''identity'', identity_summary_json identity),
           (''memberships'', JArr (map membership_entry_json memberships)),
           (''profile'', profile_summary_json (case profile of Inl _ \<Rightarrow> None | Inr p \<Rightarrow> p)),
           (''next'', JStr (next_step identity memberships))]))))))))))"

definition verify_post :: "ext \<Rightarrow> json option \<Rightarrow> world \<Rightarrow> response \<times> world" where
  "verify_post X body = handler (verify_run X body)"

definition logout_post :: "world \<Rightarrow> response \<times> world" where
  "logout_post = handler (seq destroy_session (\<lambda>_. ret (ok_no_store (JObj [(''ok'', JBool True)]))))"

subsection \<open>Parsing a built message\<close>

definition SIWE_LABELS :: "string list" where
  "SIWE_LABELS = [''URI: '', ''Version: '', ''Chain ID: '', ''Nonce: '', ''Issued At: '', ''Expiration Time: '']"

text \<open>Fields that survive the line format: no line breaks, no outer white space, and no early line
  that looks like a labelled one.\<close>

definition siwe_wf :: "int siwe_fields \<Rightarrow> bool" where
  "siwe_wf f \<longleftrightarrow>
     list_all (\<lambda>s. newline \<notin> set s)
       [sf_domain f, sf_address f, sf_statement f, sf_uri f, sf_nonce f, sf_issued_at f, sf_expiration f]
     \<and> list_all (\<lambda>s. s \<noteq> [] \<and> trim s = s) [sf_uri f, sf_nonce f, sf_issued_at f, sf_expiration f]
     \<and> trim (sf_address f) = sf_address f \<and> sf_domain f \<noteq> [] \<and> CHR 0x0D \<notin> set (sf_domain f)
     \<and> list_all (\<lambda>l. list_all (\<lambda>label. \<not> starts_with label l) SIWE_LABELS)
         [sf_domain f @ SIGN_IN_SUFFIX, sf_address f, sf_statement f]"

lemma siwe_no_newline:
  assumes "siwe_wf f" and "l \<in> set (siwe_lines f)"
  shows "newline \<notin> set l"
proof -
  have "newline \<notin> set (show_int i)" for i
    using show_int_chars[of newline i] by (auto simp: is_digit_def code_unit_def newline_def)
  moreover have "newline \<notin> set SIGN_IN_SUFFIX" by (simp add: SIGN_IN_SUFFIX_def newline_def)
  ultimately show ?thesis
    using assms by (auto simp: siwe_wf_def siwe_lines_def newline_def)
qed

lemma siwe_split: "siwe_wf f \<Longrightarrow> split_on newline (build_siwe_message f) = siwe_lines f"
  unfolding build_siwe_message_def
  by (rule split_join) (auto simp: siwe_no_newline, simp add: siwe_lines_def)

lemma match_domain_line:
  "sf_domain f \<noteq> [] \<Longrightarrow> CHR 0x0D \<notin> set (sf_domain f) \<Longrightarrow>
   match_domain (sf_domain f @ SIGN_IN_SUFFIX) = Some (sf_domain f)"
  by (auto simp: match_domain_def Let_def list_all_iff)

lemma siwe_field_lines:
  assumes "siwe_wf f"
  shows "siwe_field (siwe_lines f) ''URI: '' = Some (sf_uri f)"
    "siwe_field (siwe_lines f) ''Version: '' = Some ''1''"
    "siwe_field (siwe_lines f) ''Chain ID: '' = Some (show_int (sf_chain_id f))"
    "siwe_field (siwe_lines f) ''Nonce: '' = Some (sf_nonce f)"
    "siwe_field (siwe_lines f) ''Issued At: '' = Some (sf_issued_at f)"
    "siwe_field (siwe_lines f) ''Expiration Time: '' = Some (sf_expiration f)"
proof -
  have "trim ''1'' = ''1''" by code_simp
  moreover have "trim (show_int i) = show_int i" for i
    by (intro trim_no_space) (metis hd_in_set last_in_set show_int_no_space show_int_not_Nil)
  ultimately show "siwe_field (siwe_lines f) ''URI: '' = Some (sf_uri f)"
    "siwe_field (siwe_lines f) ''Version: '' = Some ''1''"
    "siwe_field (siwe_lines f) ''Chain ID: '' = Some (show_int (sf_chain_id f))"
    "siwe_field (siwe_lines f) ''Nonce: '' = Some (sf_nonce f)"
    "siwe_field (siwe_lines f) ''Issued At: '' = Some (sf_issued_at f)"
    "siwe_field (siwe_lines f) ''Expiration Time: '' = Some (sf_expiration f)"
    using assms
    by (simp_all add: siwe_field_def siwe_lines_def siwe_wf_def SIWE_LABELS_def)
       (simp_all add: starts_with_def)
qed

lemma parse_build:
  assumes "siwe_wf f" and "number_reads_decimals X"
  shows "parse_siwe_message X (build_siwe_message f) =
    Some \<lparr>sf_domain = sf_domain f, sf_address = sf_address f, sf_statement = sf_statement f,
          sf_uri = sf_uri f, sf_chain_id = Some (sf_chain_id f), sf_nonce = sf_nonce f,
          sf_issued_at = sf_issued_at f, sf_expiration = sf_expiration f\<rparr>"
proof -
  have "match_domain (siwe_lines f ! 0) = Some (sf_domain f)"
    using assms(1) match_domain_line[of f] by (simp add: siwe_lines_def siwe_wf_def)
  moreover have "siwe_lines f ! 1 = sf_address f" "siwe_lines f ! 3 = sf_statement f" "length (siwe_lines f) = 11"
    by (simp_all add: siwe_lines_def)
  ultimately show ?thesis
    using assms
    by (simp add: parse_siwe_message_def siwe_split siwe_field_lines Let_def)
       (simp add: siwe_wf_def number_reads_decimals_def)
qed

subsection \<open>What an accepted verification went through\<close>

lemma consume_nonce_cases:
  assumes "consume_nonce X nonce address w = (r, w')"
  obtains (failed) why n where "(\<exists>e. r = Inl e) \<or> r = Inr (Inl why)" "w' = w\<lparr>db_calls := n\<rparr>"
    | (consumed) n where "r = Inr (Inr address)" "\<exists>row \<in> set (nonces w). n_nonce row = nonce \<and> n_used_at row = None"
        "w' = w\<lparr>db_calls := n, nonces := update_where (\<lambda>r. n_nonce r = nonce \<and> n_used_at r = None)
           (\<lambda>r. r\<lparr>n_used_at := Some (clock w)\<rparr>) (nonces w)\<rparr>"
proof -
  let ?p = "\<lambda>r. n_nonce r = nonce \<and> n_used_at r = None"
  let ?st = "\<lambda>v. case nonces_consume nonce (clock w) (nonces v) of (marked, rows) \<Rightarrow> (Inr marked, v\<lparr>nonces := rows\<rparr>)"
  obtain s w1 where st: "db_stmt X ?st w = (s, w1)" by (cases "db_stmt X ?st w")
  have run: "consume_nonce X nonce address w =
      (case s of Inl e \<Rightarrow> (Inl e, w1)
       | Inr (Inl _) \<Rightarrow> (Inr (Inl ''Could not complete sign-in''), w1)
       | Inr (Inr m) \<Rightarrow> (if m = 0 then (Inr (Inl ''This sign-in request was already used''), w1)
                         else (Inr (Inr address), w1)))"
    using st unfolding consume_nonce_def
    by (auto simp: seq_def gets_def ret_def split: sum.splits prod.splits)
  from db_stmt_cases[OF st] consider
      (no_env) e where "s = Inl e" "w1 = w"
    | (fault) err where "s = Inr (Inl err)" "w1 = w\<lparr>db_calls := Suc (db_calls w)\<rparr>"
    | (ran) "s = Inr (Inr (length (filter ?p (nonces w))))"
        "w1 = w\<lparr>db_calls := Suc (db_calls w), nonces := update_where ?p (\<lambda>r. r\<lparr>n_used_at := Some (clock w)\<rparr>) (nonces w)\<rparr>"
    by (auto simp: nonces_consume_def split: prod.splits)
  then show ?thesis
  proof cases
    case no_env
    with assms run show ?thesis by (intro failed[of undefined "db_calls w"]) auto
  next
    case fault
    with assms run show ?thesis by (intro failed[of _ "Suc (db_calls w)"]) auto
  next
    case ran
    show ?thesis
    proof (cases "filter ?p (nonces w) = []")
      case True
      with ran have "w1 = w\<lparr>db_calls := Suc (db_calls w)\<rparr>" by (simp add: update_where_none)
      with True ran assms run show ?thesis by (intro failed[of _ "Suc (db_calls w)"]) auto
    next
      case False
      then have "\<exists>row \<in> set (nonces w). ?p row" by (auto simp: filter_empty_conv)
      with False ran assms run show ?thesis by (intro consumed[of "Suc (db_calls w)"]) auto
    qed
  qed
qed

lemma case_check_iff:
  "case_sum f g (check_siwe_fields X env now msg) w = (Inr (Inr a), w') \<longleftrightarrow>
    (\<exists>why. check_siwe_fields X env now msg = Inl why \<and> f why w = (Inr (Inr a), w'))
    \<or> (\<exists>v. check_siwe_fields X env now msg = Inr v \<and> g v w = (Inr (Inr a), w'))"
  by (rule case_io_iff)

lemma verify_accepts:
  assumes "verify_challenge X message signature w = (Inr (Inr a), w')"
  obtains env parsed row m where "server_env_of X (penv w) = Inr env"
    "check_siwe_fields X env (clock w) message = Inr (parsed, a)"
    "filter (\<lambda>r. n_nonce r = sf_nonce parsed) (nonces w) = [row]"
    "check_nonce_row env (clock w) message parsed a row = None"
    "\<exists>recovered. x_verify_message X message signature = Some recovered \<and> x_get_address X recovered = Some a"
    "consume_nonce X (sf_nonce parsed) a (w\<lparr>db_calls := m\<rparr>) = (Inr (Inr a), w')"
proof -
  from assms obtain env parsed address row w1 recovered where
    e: "server_env_of X (penv w) = Inr env"
      "check_siwe_fields X env (clock w) message = Inr (parsed, address)" and
    sel: "select_one X (\<lambda>w. filter (\<lambda>r. n_nonce r = sf_nonce parsed) (nonces w)) w = (Inr (Inr (Some row)), w1)" and
    rest: "check_nonce_row env (clock w) message parsed address row = None"
      "x_verify_message X message signature = Some recovered" "x_get_address X recovered = Some address"
      "consume_nonce X (sf_nonce parsed) address w1 = (Inr (Inr a), w')"
    unfolding verify_challenge_def by (auto simp: io_iff)
  from rest(4) have a: "address = a" by (cases rule: consume_nonce_cases) auto
  from select_one_Inr[OF sel] obtain m where "filter (\<lambda>r. n_nonce r = sf_nonce parsed) (nonces w) = [row]"
    "w1 = w\<lparr>db_calls := m\<rparr>" by (auto simp: maybe_single_Some_iff)
  with e rest a show ?thesis by (intro that[of env parsed row m]) auto
qed

text \<open>On every branch the table of challenges keeps its rows, and a used one stays used.\<close>

definition nonce_used :: "string \<Rightarrow> nonce_row list \<Rightarrow> bool" where
  "nonce_used n rows \<longleftrightarrow> (\<exists>r \<in> set rows. n_nonce r = n \<and> n_used_at r \<noteq> None)"

definition nonces_progress :: "nonce_row list \<Rightarrow> nonce_row list \<Rightarrow> bool" where
  "nonces_progress rows rows' \<longleftrightarrow>
     (distinct (map n_nonce rows) \<longrightarrow> distinct (map n_nonce rows'))
     \<and> (\<forall>n. nonce_used n rows \<longrightarrow> nonce_used n rows')"

lemma nonces_progress_refl [simp]: "nonces_progress rows rows"
  by (simp add: nonces_progress_def)

lemma nonces_progress_trans: "nonces_progress a b \<Longrightarrow> nonces_progress b c \<Longrightarrow> nonces_progress a c"
  unfolding nonces_progress_def by blast

lemma nonces_progress_mark:
  "nonces_progress rows (update_where p (\<lambda>r. r\<lparr>n_used_at := Some t\<rparr>) rows)"
proof -
  have "map n_nonce (update_where p (\<lambda>r. r\<lparr>n_used_at := Some t\<rparr>) rows) = map n_nonce rows"
    by (induction rows) (auto simp: update_where_def)
  moreover have "nonce_used n (update_where p (\<lambda>r. r\<lparr>n_used_at := Some t\<rparr>) rows)" if used: "nonce_used n rows" for n
  proof -
    from used obtain r where "r \<in> set rows" "n_nonce r = n" "n_used_at r \<noteq> None" by (auto simp: nonce_used_def)
    then have "(if p r then r\<lparr>n_used_at := Some t\<rparr> else r) \<in> set (update_where p (\<lambda>r. r\<lparr>n_used_at := Some t\<rparr>) rows)"
      "n_nonce (if p r then r\<lparr>n_used_at := Some t\<rparr> else r) = n"
      "n_used_at (if p r then r\<lparr>n_used_at := Some t\<rparr> else r) \<noteq> None"
      by (auto simp: update_where_def)
    then show ?thesis unfolding nonce_used_def by blast
  qed
  ultimately show ?thesis by (simp add: nonces_progress_def)
qed

abbreviation nonces_move :: "world \<Rightarrow> world \<Rightarrow> bool" where
  "nonces_move w w' \<equiv> nonces_progress (nonces w) (nonces w')"

interpretation nonces: world_relation nonces_move
  by unfold_locales (auto intro: nonces_progress_trans)

lemma nonces_draw: "keeps nonces_move draw"
  by (auto simp: keeps_def draw_def)

lemma issue_challenge_moves: "keeps nonces_move (issue_challenge X wallet)"
  unfolding issue_challenge_def Let_def
  by (intro nonces.keeps_intro nonces_draw nonces.keeps_db_stmt)
     (auto simp: nonces_insert_def nonces_progress_def nonce_used_def split: if_splits option.splits)

lemma consume_nonce_moves: "keeps nonces_move (consume_nonce X nonce address)"
  unfolding consume_nonce_def
  by (intro nonces.keeps_intro nonces.keeps_db_stmt)
     (auto simp: nonces_consume_def nonces_progress_mark)

lemma verify_challenge_moves: "keeps nonces_move (verify_challenge X message signature)"
  unfolding verify_challenge_def by (intro nonces.keeps_intro consume_nonce_moves)

end
