(* ===== verification/Hashing.thy ===== *)
theory Hashing
  imports External "HOL-Library.List_Lexorder" "HOL-Library.Char_ord"
begin

text \<open>
  \<open>apps/platform/lib/hash.ts\<close>: the canonical JSON text of a record, and the anchors computed
  from it. The lemmas show that the text is a faithful name of the record: it does not depend on
  the order of keys or on undefined fields, and two records with the same text are the same record.
  Numbers are the integers the records hold.
\<close>

subsection \<open>JavaScript values and their canonical text\<close>

datatype jvalue =
    VUndefined
  | VNull
  | VBool bool
  | VNum int
  | VStr string
  | VArr "jvalue list"
  | VObj "(string \<times> jvalue) list"

definition lower_hex :: "nat \<Rightarrow> char" where
  "lower_hex d = (if d < 10 then char_of (48 + d) else char_of (87 + d))"

text \<open>\<open>JSON.stringify\<close> of one code unit and of a string\<close>

definition json_escape :: "char \<Rightarrow> string" where
  "json_escape c =
    (if c = CHR 0x22 then [CHR 0x5C, CHR 0x22]
     else if c = CHR 0x5C then [CHR 0x5C, CHR 0x5C]
     else if code_unit c = 8 then [CHR 0x5C, CHR ''b'']
     else if code_unit c = 9 then [CHR 0x5C, CHR ''t'']
     else if code_unit c = 10 then [CHR 0x5C, CHR ''n'']
     else if code_unit c = 12 then [CHR 0x5C, CHR ''f'']
     else if code_unit c = 13 then [CHR 0x5C, CHR ''r'']
     else if code_unit c < 32
     then [CHR 0x5C, CHR ''u'', CHR ''0'', CHR ''0'', lower_hex (code_unit c div 16), lower_hex (code_unit c mod 16)]
     else [c])"

definition json_quote :: "string \<Rightarrow> string" where
  "json_quote s = CHR 0x22 # concat (map json_escape s) @ [CHR 0x22]"

definition json_bool :: "bool \<Rightarrow> string" where
  "json_bool b = (if b then ''true'' else ''false'')"

fun canonical_json :: "jvalue \<Rightarrow> string" where
  "canonical_json VUndefined = ''null''"
| "canonical_json VNull = ''null''"
| "canonical_json (VBool b) = json_bool b"
| "canonical_json (VNum i) = show_int i"
| "canonical_json (VStr s) = json_quote s"
| "canonical_json (VArr vs) = ''['' @ join_with '','' (map (\<lambda>v. canonical_json v) vs) @ '']''"
| "canonical_json (VObj ps) =
     ''{'' @ join_with '',''
       (map (\<lambda>(k, t). json_quote k @ '':'' @ t)
         (sort_key fst (concat (map (\<lambda>(k, v). if v = VUndefined then [] else [(k, canonical_json v)]) ps)))) @ ''}''"

definition ASSET_DOMAIN :: string where "ASSET_DOMAIN = ''ownex:asset:v1''"

definition IDENTITY_DOMAIN :: string where "IDENTITY_DOMAIN = ''ownex:identity:v1''"

definition ORGANIZATION_DOMAIN :: string where "ORGANIZATION_DOMAIN = ''ownex:organization:v1''"

definition APPLICATION_DOMAIN :: string where "APPLICATION_DOMAIN = ''ownex:application:v1''"

definition domain_hash :: "ext \<Rightarrow> string \<Rightarrow> jvalue \<Rightarrow> string" where
  "domain_hash X domain payload = x_keccak X (domain @ '':'' @ canonical_json payload)"

text \<open>\<open>v?.trim() ?? null\<close>\<close>

definition trimmed :: "string option \<Rightarrow> jvalue" where
  "trimmed v = (case v of None \<Rightarrow> VNull | Some s \<Rightarrow> VStr (trim s))"

record asset_record =
  ar_org_id :: int
  ar_name :: string
  ar_type :: string
  ar_serial :: "string option"
  ar_invoice :: "string option"
  ar_department :: "string option"

definition asset_payload :: "asset_record \<Rightarrow> jvalue" where
  "asset_payload r = VObj
    [(''orgId'', VNum (ar_org_id r)), (''name'', VStr (trim (ar_name r))),
     (''assetType'', VStr (trim (ar_type r))), (''serialNumber'', trimmed (ar_serial r)),
     (''invoiceReference'', trimmed (ar_invoice r)), (''department'', trimmed (ar_department r))]"

definition hash_asset_record :: "ext \<Rightarrow> asset_record \<Rightarrow> string" where
  "hash_asset_record X r = domain_hash X ASSET_DOMAIN (asset_payload r)"

record identity_record =
  ir_display_name :: string
  ir_email :: "string option"
  ir_phone :: "string option"
  ir_job_title :: "string option"
  ir_department :: "string option"

definition identity_payload :: "identity_record \<Rightarrow> jvalue" where
  "identity_payload r = VObj
    [(''displayName'', VStr (trim (ir_display_name r))),
     (''email'', case ir_email r of None \<Rightarrow> VNull | Some s \<Rightarrow> VStr (to_lower (trim s))),
     (''phone'', trimmed (ir_phone r)), (''jobTitle'', trimmed (ir_job_title r)),
     (''department'', trimmed (ir_department r))]"

definition hash_identity_record :: "ext \<Rightarrow> identity_record \<Rightarrow> string" where
  "hash_identity_record X r = domain_hash X IDENTITY_DOMAIN (identity_payload r)"

record organization_record =
  or_name :: string
  or_industry :: "string option"
  or_website :: "string option"

definition organization_payload :: "organization_record \<Rightarrow> jvalue" where
  "organization_payload r = VObj
    [(''name'', VStr (trim (or_name r))), (''industry'', trimmed (or_industry r)),
     (''website'', trimmed (or_website r))]"

definition hash_organization_record :: "ext \<Rightarrow> organization_record \<Rightarrow> string" where
  "hash_organization_record X r = domain_hash X ORGANIZATION_DOMAIN (organization_payload r)"

record application_record =
  pr_slug :: string
  pr_name :: string
  pr_url :: string

definition application_payload :: "application_record \<Rightarrow> jvalue" where
  "application_payload r = VObj
    [(''slug'', VStr (trim (pr_slug r))), (''name'', VStr (trim (pr_name r))), (''url'', VStr (trim (pr_url r)))]"

definition hash_application_record :: "ext \<Rightarrow> application_record \<Rightarrow> string" where
  "hash_application_record X r = domain_hash X APPLICATION_DOMAIN (application_payload r)"

subsection \<open>The value a canonical text stands for\<close>

text \<open>A value without undefined parts, its objects sorted by key: the abstract record.\<close>

datatype canon =
    CNull | CBool bool | CNum int | CStr string | CArr "canon list" | CObj "(string \<times> canon) list"

fun canonical :: "jvalue \<Rightarrow> canon" where
  "canonical VUndefined = CNull"
| "canonical VNull = CNull"
| "canonical (VBool b) = CBool b"
| "canonical (VNum i) = CNum i"
| "canonical (VStr s) = CStr s"
| "canonical (VArr vs) = CArr (map (\<lambda>v. canonical v) vs)"
| "canonical (VObj ps) =
     CObj (sort_key fst (concat (map (\<lambda>(k, v). if v = VUndefined then [] else [(k, canonical v)]) ps)))"

fun render_text :: "canon \<Rightarrow> string" where
  "render_text CNull = ''null''"
| "render_text (CBool b) = json_bool b"
| "render_text (CNum i) = show_int i"
| "render_text (CStr s) = json_quote s"
| "render_text (CArr vs) = CHR ''['' # join_with '','' (map (\<lambda>v. render_text v) vs) @ [CHR '']'']"
| "render_text (CObj ps) =
     CHR ''{'' # join_with '','' (map (\<lambda>(k, v). json_quote k @ CHR '':'' # render_text v) ps) @ [CHR ''}'']"

lemma insort_key_map_snd:
  "insort_key fst (k, f x) (map (\<lambda>p. (fst p, f (snd p))) ps) = map (\<lambda>p. (fst p, f (snd p))) (insort_key fst (k, x) ps)"
  by (induction ps) auto

lemma sort_key_map_snd:
  "sort_key fst (map (\<lambda>p. (fst p, f (snd p))) ps) = map (\<lambda>p. (fst p, f (snd p))) (sort_key fst ps)"
  by (induction ps) (auto simp: insort_key_map_snd)

lemma canonical_json_render: "canonical_json v = render_text (canonical v)"
proof (induction v rule: canonical_json.induct)
  case (7 ps)
  let ?defined = "\<lambda>f. concat (map (\<lambda>(k, v). if v = VUndefined then [] else [(k, f v)]) ps)"
  have "canonical_json v = render_text (canonical v)" if "(k, v) \<in> set ps" "v \<noteq> VUndefined" for k v
    using 7[OF that(1) refl that(2)] .
  then have "?defined canonical_json = map (\<lambda>(k, c). (k, render_text c)) (?defined canonical)"
    by (auto simp: map_concat intro!: arg_cong[where f = concat] map_cong)
  then show ?case by (simp add: case_prod_unfold sort_key_map_snd comp_def)
qed (auto cong: map_cong)

subsection \<open>Self-delimiting texts\<close>

lemma code_unit_lower_hex: "d < 16 \<Longrightarrow> code_unit (lower_hex d) = (if d < 10 then 48 + d else 87 + d)"
proof -
  assume "d < 16"
  then have "code_unit (char_of (48 + d)) = 48 + d" "code_unit (char_of (87 + d)) = 87 + d"
    by (intro code_unit_char_of, linarith)+
  then show ?thesis by (cases "d < 10") (simp_all only: lower_hex_def if_True if_False)
qed

lemma lower_hex_inj: "lower_hex a = lower_hex b \<Longrightarrow> a < 16 \<Longrightarrow> b < 16 \<Longrightarrow> a = b"
proof -
  assume "lower_hex a = lower_hex b" "a < 16" "b < 16"
  then have "(if a < 10 then 48 + a else 87 + a) = (if b < 10 then 48 + b else 87 + b)"
    by (metis code_unit_lower_hex)
  with \<open>a < 16\<close> \<open>b < 16\<close> show "a = b" by presburger
qed

lemma lower_hex_code:
  assumes "code_unit c < 32" and "code_unit d < 32"
    and "lower_hex (code_unit c div 16) = lower_hex (code_unit d div 16)"
    and "lower_hex (code_unit c mod 16) = lower_hex (code_unit d mod 16)"
  shows "c = d"
proof -
  have "code_unit c div 16 = code_unit d div 16" using assms(1,2) by (intro lower_hex_inj[OF assms(3)]) auto
  moreover have "code_unit c mod 16 = code_unit d mod 16" by (rule lower_hex_inj[OF assms(4)]) auto
  ultimately show ?thesis by (metis code_unit_inj div_mult_mod_eq)
qed

text \<open>A quoted string ends where it says: reading past it is unambiguous.\<close>

lemma json_escape_first: "json_escape c = x # xs \<Longrightarrow> x \<noteq> CHR 0x22"
  by (auto simp: json_escape_def split: if_splits)

lemma json_escape_prefix: "json_escape c @ r = json_escape d @ r' \<Longrightarrow> c = d \<and> r = r'"
proof -
  assume eq: "json_escape c @ r = json_escape d @ r'"
  show ?thesis
  proof (cases "code_unit c < 32 \<and> code_unit d < 32")
    case True
    with eq show ?thesis
      using lower_hex_code[of c d] by (auto simp: json_escape_def split: if_splits intro: code_unit_inj)
  next
    case False
    have bs: "\<not> code_unit CHR 0x5C < 32" by (simp add: code_unit_def)
    from eq False show ?thesis
      by (auto simp: json_escape_def bs split: if_splits)
  qed
qed

lemma escaped_prefix:
  "concat (map json_escape s) @ CHR 0x22 # r = concat (map json_escape t) @ CHR 0x22 # r' \<Longrightarrow> s = t \<and> r = r'"
proof (induction s arbitrary: t)
  case Nil
  then show ?case
  proof (cases t)
    case (Cons d ds)
    obtain x xs where "json_escape d = x # xs" by (cases "json_escape d") (auto simp: json_escape_def split: if_splits)
    with Nil Cons json_escape_first[OF this] show ?thesis by simp
  qed simp
next
  case (Cons c s)
  show ?case
  proof (cases t)
    case Nil
    obtain x xs where "json_escape c = x # xs" by (cases "json_escape c") (auto simp: json_escape_def split: if_splits)
    with Nil Cons.prems json_escape_first[OF this] show ?thesis by simp
  next
    case (Cons d ds)
    with Cons.prems json_escape_prefix[of c "concat (map json_escape s) @ CHR 0x22 # r" d
        "concat (map json_escape ds) @ CHR 0x22 # r'"] Cons.IH[of ds] show ?thesis by simp
  qed
qed

lemma json_quote_prefix: "json_quote s @ r = json_quote t @ r' \<Longrightarrow> s = t \<and> r = r'"
  using escaped_prefix[of s r t r'] by (simp add: json_quote_def)

text \<open>What may follow a value: nothing, a comma or a closing bracket.\<close>

definition ends_value :: "string \<Rightarrow> bool" where
  "ends_value r \<longleftrightarrow> r = [] \<or> hd r \<in> {CHR '','', CHR '']'', CHR ''}''}"

definition number_char :: "char \<Rightarrow> bool" where
  "number_char c \<longleftrightarrow> is_digit c \<or> c = CHR ''-''"

lemma show_int_inj: "show_int i = show_int j \<longleftrightarrow> i = j"
  by (metis demo_number_show_int option.inject)

lemma take_number: "ends_value r \<Longrightarrow> takeWhile number_char (show_int i @ r) = show_int i"
proof -
  assume "ends_value r"
  then have "takeWhile number_char r = []"
    by (cases r) (auto simp: ends_value_def number_char_def is_digit_def code_unit_def)
  moreover have "\<forall>c \<in> set (show_int i). number_char c" using show_int_chars by (auto simp: number_char_def)
  ultimately show ?thesis by (simp add: takeWhile_append2)
qed

lemma show_int_prefix:
  "show_int i @ r = show_int j @ r' \<Longrightarrow> ends_value r \<Longrightarrow> ends_value r' \<Longrightarrow> i = j \<and> r = r'"
  by (metis take_number show_int_inj same_append_eq)

text \<open>The first code unit of a rendered value tells its constructor.\<close>

datatype kind = KNull | KBool | KNum | KStr | KArr | KObj

fun kind_of :: "canon \<Rightarrow> kind" where
  "kind_of CNull = KNull"
| "kind_of (CBool b) = KBool"
| "kind_of (CNum i) = KNum"
| "kind_of (CStr s) = KStr"
| "kind_of (CArr vs) = KArr"
| "kind_of (CObj ps) = KObj"

definition first_kind :: "char \<Rightarrow> kind" where
  "first_kind c =
    (if c = CHR ''n'' then KNull else if c \<in> {CHR ''t'', CHR ''f''} then KBool
     else if c = CHR 0x22 then KStr else if c = CHR ''['' then KArr else if c = CHR ''{'' then KObj else KNum)"

lemma first_kind_number:
  assumes "is_digit c \<or> c = CHR ''-''"
  shows "first_kind c = KNum \<and> c \<noteq> CHR '']''"
proof -
  have "\<not> is_digit CHR ''n''" "\<not> is_digit CHR ''t''" "\<not> is_digit CHR ''f''" "\<not> is_digit CHR 0x22"
    "\<not> is_digit CHR ''[''" "\<not> is_digit CHR ''{''" "\<not> is_digit CHR '']''"
    by code_simp+
  with assms have "c \<notin> {CHR ''n'', CHR ''t'', CHR ''f'', CHR 0x22, CHR ''['', CHR ''{'', CHR '']''}" by auto
  then show ?thesis by (simp add: first_kind_def)
qed

lemma render_first: "\<exists>c s. render_text v = c # s \<and> first_kind c = kind_of v \<and> c \<noteq> CHR '']''"
proof (cases v)
  case (CNum i)
  obtain c s where "show_int i = c # s" by (cases "show_int i") auto
  moreover from this have "first_kind c = KNum \<and> c \<noteq> CHR '']''"
    using show_int_chars[of c i] by (intro first_kind_number) simp
  ultimately show ?thesis using CNum by simp
qed (simp_all add: first_kind_def json_bool_def json_quote_def)

lemma kind_eq: "render_text v @ r = render_text u @ r' \<Longrightarrow> kind_of v = kind_of u"
  using render_first[of v] render_first[of u] by auto

lemma join_with_tail:
  "join_with '','' (map enc (x # xs)) = enc x @ concat (map (\<lambda>y. CHR '','' # enc y) xs)"
  by (induction xs arbitrary: x) auto

lemma ends_tail:
  "close \<in> {CHR '']'', CHR ''}''} \<Longrightarrow> ends_value (concat (map (\<lambda>y. CHR '','' # enc y) xs) @ close # r)"
  by (cases xs) (auto simp: ends_value_def)

lemma tail_prefix:
  assumes "\<And>x y r r'. x \<in> set xs \<Longrightarrow> enc x @ r = enc y @ r' \<Longrightarrow> ends_value r \<Longrightarrow> ends_value r' \<Longrightarrow> x = y \<and> r = r'"
    and "close \<in> {CHR '']'', CHR ''}''}"
    and "concat (map (\<lambda>y. CHR '','' # enc y) xs) @ close # r = concat (map (\<lambda>y. CHR '','' # enc y) ys) @ close # r'"
  shows "xs = ys \<and> r = r'"
  using assms(1,3)
proof (induction xs arbitrary: ys)
  case Nil
  with assms(2) show ?case by (cases ys) auto
next
  case (Cons x xs)
  show ?case
  proof (cases ys)
    case Nil
    with Cons.prems(2) assms(2) show ?thesis by auto
  next
    case (Cons y zs)
    let ?t = "\<lambda>us s. concat (map (\<lambda>y. CHR '','' # enc y) us) @ close # s"
    from Cons Cons.prems(2) have "enc x @ ?t xs r = enc y @ ?t zs r'" by simp
    from Cons.prems(1)[OF _ this ends_tail[OF assms(2)] ends_tail[OF assms(2)]]
    have "x = y" "?t xs r = ?t zs r'" by auto
    moreover have "xs = zs \<and> r = r'" by (rule Cons.IH[OF Cons.prems(1)]) (use calculation in auto)
    ultimately show ?thesis using Cons by simp
  qed
qed

lemma join_prefix:
  assumes code: "\<And>x y r r'. x \<in> set xs \<Longrightarrow> enc x @ r = enc y @ r' \<Longrightarrow> ends_value r \<Longrightarrow> ends_value r' \<Longrightarrow> x = y \<and> r = r'"
    and first: "\<And>y. \<exists>c s. enc y = c # s \<and> c \<noteq> close"
    and close: "close \<in> {CHR '']'', CHR ''}''}"
    and eq: "join_with '','' (map enc xs) @ close # r = join_with '','' (map enc ys) @ close # r'"
  shows "xs = ys \<and> r = r'"
proof (cases xs)
  case Nil
  with eq show ?thesis
    using first[of "hd ys"] by (cases ys) (auto simp: join_with_tail list.map(1) simp del: list.map(2))
next
  case (Cons x us)
  show ?thesis
  proof (cases ys)
    case Nil
    with eq Cons show ?thesis using first[of x] by (auto simp: join_with_tail list.map(1) simp del: list.map(2))
  next
    case (Cons y vs)
    let ?t = "\<lambda>us s. concat (map (\<lambda>y. CHR '','' # enc y) us) @ close # s"
    from eq \<open>xs = x # us\<close> Cons have "enc x @ ?t us r = enc y @ ?t vs r'"
      by (simp add: join_with_tail del: list.map)
    from code[OF _ this ends_tail[OF close] ends_tail[OF close]] \<open>xs = x # us\<close>
    have "x = y" "?t us r = ?t vs r'" by auto
    moreover have "us = vs \<and> r = r'"
      by (rule tail_prefix[OF code close]) (use \<open>xs = x # us\<close> calculation in auto)
    ultimately show ?thesis using \<open>xs = x # us\<close> Cons by simp
  qed
qed

lemma render_prefix:
  "render_text v @ r = render_text u @ r' \<Longrightarrow> ends_value r \<Longrightarrow> ends_value r' \<Longrightarrow> v = u \<and> r = r'"
proof (induction v arbitrary: u r r')
  case (CArr vs)
  from kind_eq[OF CArr.prems(1)] obtain us where u: "u = CArr us" by (cases u) auto
  with CArr.prems(1) have "join_with '','' (map render_text vs) @ CHR '']'' # r = join_with '','' (map render_text us) @ CHR '']'' # r'"
    by simp
  then have "vs = us \<and> r = r'" 
    by (rule join_prefix[where close = "CHR '']''" and enc = render_text, rotated 3])
       (use CArr.IH render_first in blast)+
  with u show ?case by simp
next
  case (CObj ps)
  let ?pair = "\<lambda>p. json_quote (fst p) @ CHR '':'' # render_text (snd p)"
  from kind_eq[OF CObj.prems(1)] obtain qs where u: "u = CObj qs" by (cases u) auto
  with CObj.prems(1) have eq: "join_with '','' (map ?pair ps) @ CHR ''}'' # r = join_with '','' (map ?pair qs) @ CHR ''}'' # r'"
    by (simp add: case_prod_unfold)
  have code: "p = q \<and> s = s'" if "p \<in> set ps" "?pair p @ s = ?pair q @ s'" "ends_value s" "ends_value s'" for p q s s'
  proof -
    from that(2) have "json_quote (fst p) @ (CHR '':'' # render_text (snd p) @ s) = json_quote (fst q) @ (CHR '':'' # render_text (snd q) @ s')"
      by simp
    from json_quote_prefix[OF this] have "fst p = fst q" "render_text (snd p) @ s = render_text (snd q) @ s'" by simp_all
    moreover from that(1) have "snd p = snd q \<and> s = s'"
      using CObj.IH[OF _ _ calculation(2) that(3,4)] by (metis prod.collapse snds.intros)
    ultimately show ?thesis by (simp add: prod_eq_iff)
  qed
  have first: "\<exists>c s. ?pair q = c # s \<and> c \<noteq> CHR ''}''" for q by (simp add: json_quote_def)
  have "ps = qs \<and> r = r'" by (rule join_prefix[OF code first _ eq]) simp_all
  with u show ?case by simp
next
  case CNull
  with kind_eq[OF this(1)] show ?case by (cases u) auto
next
  case (CBool b)
  with kind_eq[OF this(1)] show ?case by (cases u) (auto simp: json_bool_def split: if_splits)
next
  case (CNum i)
  with kind_eq[OF this(1)] show ?case by (cases u) (auto dest: show_int_prefix)
next
  case (CStr s)
  with kind_eq[OF this(1)] show ?case by (cases u) (auto dest: json_quote_prefix)
qed

lemma render_inj: "render_text v = render_text u \<longleftrightarrow> v = u"
  using render_prefix[of v "[]" u "[]"] by (auto simp: ends_value_def)

text \<open>An anchor is a faithful name of its payload, when the hash does not collide.\<close>

definition keccak_injective :: "ext \<Rightarrow> bool" where
  "keccak_injective X \<longleftrightarrow> (\<forall>s t. x_keccak X s = x_keccak X t \<longrightarrow> s = t)"

lemma canonical_json_iff: "canonical_json v = canonical_json u \<longleftrightarrow> canonical v = canonical u"
  by (simp add: canonical_json_render render_inj)

lemma domain_hash_iff:
  "keccak_injective X \<Longrightarrow> domain_hash X d v = domain_hash X d u \<longleftrightarrow> canonical v = canonical u"
proof -
  assume "keccak_injective X"
  then have "x_keccak X s = x_keccak X t \<longleftrightarrow> s = t" for s t by (auto simp: keccak_injective_def)
  then show ?thesis by (simp add: domain_hash_def canonical_json_iff)
qed

text \<open>Objects: the order of keys and undefined fields do not matter.\<close>

definition defined_fields :: "(string \<times> jvalue) list \<Rightarrow> (string \<times> jvalue) list" where
  "defined_fields ps = filter (\<lambda>(k, v). v \<noteq> VUndefined) ps"

lemma canonical_object:
  "canonical (VObj ps) = CObj (map (\<lambda>p. (fst p, canonical (snd p))) (sort_key fst (defined_fields ps)))"
proof -
  have "concat (map (\<lambda>p. if snd p = VUndefined then [] else [(fst p, canonical (snd p))]) ps)
      = map (\<lambda>p. (fst p, canonical (snd p))) (defined_fields ps)"
    by (induction ps) (auto simp: defined_fields_def)
  then show ?thesis by (simp add: case_prod_unfold sort_key_map_snd)
qed

lemma map_of_rebuild: "distinct (map fst us) \<Longrightarrow> map (\<lambda>k. (k, the (map_of us k))) (map fst us) = us"
  by (auto simp: comp_def intro!: map_idI)

lemma sort_key_set_eq:
  fixes ps qs :: "(string \<times> 'a) list"
  assumes "distinct (map fst ps)" and "distinct (map fst qs)" and "set ps = set qs"
  shows "sort_key fst ps = sort_key fst qs"
proof -
  let ?s = "sort_key fst ps" and ?t = "sort_key fst qs"
  have d: "distinct (map fst ?s)" "distinct (map fst ?t)"
    using assms(1,2) by (simp_all add: distinct_map)
  then have keys: "map fst ?s = map fst ?t"
    using assms(3) by (intro sorted_distinct_set_unique) simp_all
  moreover have "map_of ?s = map_of ?t"
    using map_of_inject_set[OF d] assms(3) by simp
  ultimately show ?thesis using map_of_rebuild[OF d(1)] map_of_rebuild[OF d(2)] by simp
qed

subsection \<open>Properties\<close>

text \<open>C12. The canonical text is a name of the logical record: two objects have the same text
  exactly when they have the same defined fields, compared field by field in key order. In
  particular neither the order of the keys nor undefined fields matter.\<close>

theorem canonical_json_names_the_record:
  assumes "distinct (map fst ps)" and "distinct (map fst qs)"
  shows "(canonical_json (VObj ps) = canonical_json (VObj qs))
           = (canonical (VObj ps) = canonical (VObj qs))
    \<and> (set (defined_fields ps) = set (defined_fields qs)
         \<longrightarrow> canonical_json (VObj ps) = canonical_json (VObj qs))"
proof -
  have "distinct (map fst (defined_fields us))" if "distinct (map fst us)" for us
    using that by (simp add: defined_fields_def distinct_map_filter)
  with assms have "set (defined_fields ps) = set (defined_fields qs) \<Longrightarrow> canonical (VObj ps) = canonical (VObj qs)"
    using sort_key_set_eq[of "defined_fields ps" "defined_fields qs"] by (simp add: canonical_object del: canonical.simps)
  then show ?thesis by (simp add: canonical_json_iff del: canonical_json.simps canonical.simps)
qed

theorem canonical_json_names_the_record_witness:
  "canonical_json (VObj [(''b'', VNum 1), (''a'', VNull)])
     = canonical_json (VObj [(''a'', VNull), (''u'', VUndefined), (''b'', VNum 1)])"
  using canonical_json_names_the_record[of "[(''b'', VNum 1), (''a'', VNull)]"
      "[(''a'', VNull), (''u'', VUndefined), (''b'', VNum 1)]"]
  by (auto simp: defined_fields_def)

text \<open>Tamper evidence: when the hash does not collide, two asset records have the same
  on-chain anchor exactly when they agree on the organization and, up to surrounding white space,
  on every confidential field. Changing any of them changes the anchor.\<close>

theorem asset_anchor_identifies_the_record:
  assumes "keccak_injective X"
  shows "hash_asset_record X r = hash_asset_record X s \<longleftrightarrow>
    ar_org_id r = ar_org_id s \<and> trim (ar_name r) = trim (ar_name s) \<and> trim (ar_type r) = trim (ar_type s)
    \<and> map_option trim (ar_serial r) = map_option trim (ar_serial s)
    \<and> map_option trim (ar_invoice r) = map_option trim (ar_invoice s)
    \<and> map_option trim (ar_department r) = map_option trim (ar_department s)"
proof -
  have t: "canonical (trimmed a) = canonical (trimmed b) \<longleftrightarrow> map_option trim a = map_option trim b" for a b
    by (auto simp: trimmed_def split: option.splits)
  have d: "trimmed a \<noteq> VUndefined" for a by (simp add: trimmed_def split: option.splits)
  show ?thesis
    unfolding hash_asset_record_def domain_hash_iff[OF assms] asset_payload_def canonical_object
    by (auto simp: defined_fields_def d t)
qed

lemma demo_keccak_injective: "keccak_injective demo_ext"
  unfolding keccak_injective_def by (auto simp: demo_ext_def) (metis nib_decode_encode)

theorem asset_anchor_identifies_the_record_witness:
  "let r = \<lparr>ar_org_id = 1, ar_name = ''Dell'', ar_type = ''Laptop'', ar_serial = Some ''S1'',
            ar_invoice = None, ar_department = None\<rparr> in
     hash_asset_record demo_ext r = hash_asset_record demo_ext (r\<lparr>ar_name := '' Dell ''\<rparr>)
     \<and> hash_asset_record demo_ext r \<noteq> hash_asset_record demo_ext (r\<lparr>ar_serial := Some ''S2''\<rparr>)"
proof -
  have "trim '' Dell '' = trim ''Dell''" "trim ''S1'' \<noteq> trim ''S2''" by code_simp+
  then show ?thesis
    unfolding Let_def asset_anchor_identifies_the_record[OF demo_keccak_injective] by simp
qed

end
