(* ===== verification/Privacy.thy ===== *)
theory Privacy
  imports DemoWorld
begin

text \<open>
  \<open>apps/platform/lib/crypto.ts\<close>, the encryption and masking of personal data at rest, and the
  address abbreviation of \<open>lib/address.ts\<close>. AES-256-GCM and base64 are parameters.
\<close>

subsection \<open>Encryption at rest\<close>

definition PII_VERSION :: string where "PII_VERSION = ''v1''"

definition IV_BYTES :: nat where "IV_BYTES = 12"

definition pii_key :: "ext \<Rightarrow> process_env \<Rightarrow> exn + string" where
  "pii_key X env = bind_res (server_env_of X env) (\<lambda>e. Inr (x_hex_decode X (PII_ENCRYPTION_KEY e)))"

definition encrypt_pii :: "ext \<Rightarrow> string option \<Rightarrow> string option io" where
  "encrypt_pii X plaintext =
    (if \<not> truthy plaintext then ret None
     else seq draw (\<lambda>k.
       let iv = x_random X k IV_BYTES in
       seq (asks (\<lambda>w. pii_key X (penv w))) (\<lambda>key.
       case x_gcm_encrypt X key iv (the plaintext) of
         (ciphertext, tag) \<Rightarrow>
           ret (Some (join_with ''.'' [PII_VERSION, x_b64 X iv, x_b64 X tag, x_b64 X ciphertext])))))"

definition decrypt_pii :: "ext \<Rightarrow> process_env \<Rightarrow> string option \<Rightarrow> string option" where
  "decrypt_pii X env payload =
    (if \<not> truthy payload then None
     else let parts = split_on CHR ''.'' (the payload) in
       if length parts \<noteq> 4 \<or> parts ! 0 \<noteq> PII_VERSION then None
       else (case pii_key X env of
               Inl _ \<Rightarrow> None
             | Inr key \<Rightarrow> x_gcm_decrypt X key (x_b64_decode X (parts ! 1)) (x_b64_decode X (parts ! 2))
                            (x_b64_decode X (parts ! 3))))"

subsection \<open>Masking\<close>

definition mask_email :: "string option \<Rightarrow> string option" where
  "mask_email email =
    (if \<not> truthy email then None
     else let parts = split_on CHR ''@'' (the email); local = hd parts in
       if \<not> truthy (if length parts < 2 then None else Some (parts ! 1)) then Some (replicate 3 bullet)
       else Some (take 2 local @ replicate (max 3 (length local - 2)) bullet @ ''@'' @ parts ! 1))"

definition mask_tail :: "nat \<Rightarrow> string option \<Rightarrow> string option" where
  "mask_tail visible v =
    (if \<not> truthy v then None
     else let s = the v in
       if length s \<le> visible then Some (replicate (length s) bullet)
       else Some (replicate (length s - visible) bullet @ slice_last visible s))"

definition sha256 :: "ext \<Rightarrow> string \<Rightarrow> string" where
  "sha256 X input = x_sha256_hex X input"

definition shorten_address :: "nat \<Rightarrow> nat \<Rightarrow> string \<Rightarrow> string" where
  "shorten_address head tail address =
    (if length address \<le> head + tail + 2 then address
     else take head address @ ''...'' @ slice_last tail address)"

subsection \<open>Lemmas\<close>

lemma encrypt_pii_none [simp]: "encrypt_pii X None w = (Inr None, w)"
  by (simp add: encrypt_pii_def ret_def)

lemma encrypt_pii_Inr:
  assumes "encrypt_pii X p w = (Inr c, w')"
  shows "(\<not> truthy p \<and> c = None \<and> w' = w)
    \<or> (\<exists>key ct tag. truthy p \<and> pii_key X (penv w) = Inr key
         \<and> x_gcm_encrypt X key (x_random X (draws w) IV_BYTES) (the p) = (ct, tag)
         \<and> c = Some (join_with ''.'' [PII_VERSION, x_b64 X (x_random X (draws w) IV_BYTES), x_b64 X tag, x_b64 X ct])
         \<and> w' = w\<lparr>draws := Suc (draws w)\<rparr>)"
  using assms by (auto simp: encrypt_pii_def io_iff Let_def split: if_splits prod.splits)

lemma b64_no_dot: "b64_codec X \<Longrightarrow> CHR ''.'' \<notin> set (x_b64 X b)"
proof -
  assume "b64_codec X"
  then have "list_all b64_char (x_b64 X b)" by (simp add: b64_codec_def)
  moreover have "\<not> b64_char CHR ''.''" by code_simp
  ultimately show ?thesis by (metis list.pred_set)
qed

lemma split_envelope:
  assumes "b64_codec X"
  shows "split_on CHR ''.'' (join_with ''.'' [PII_VERSION, x_b64 X a, x_b64 X b, x_b64 X c])
    = [PII_VERSION, x_b64 X a, x_b64 X b, x_b64 X c]"
  using b64_no_dot[OF assms] by (intro split_join) (auto simp: PII_VERSION_def)

text \<open>What is written decrypts to what was given, as long as the key stays.\<close>

lemma decrypt_encrypted:
  assumes "encrypt_pii X p w = (Inr c, w')" and "gcm_inverts X" and "b64_codec X" and "penv v = penv w"
  shows "decrypt_pii X (penv v) c = (if truthy p then p else None)"
proof (cases "truthy p")
  case True
  with encrypt_pii_Inr[OF assms(1)] obtain key ct tag where
    k: "pii_key X (penv w) = Inr key" and
    g: "x_gcm_encrypt X key (x_random X (draws w) IV_BYTES) (the p) = (ct, tag)" and
    c: "c = Some (join_with ''.'' [PII_VERSION, x_b64 X (x_random X (draws w) IV_BYTES), x_b64 X tag, x_b64 X ct])"
    by auto
  have "x_gcm_decrypt X key (x_random X (draws w) IV_BYTES) tag ct = Some (the p)"
  proof -
    from assms(2) have "case x_gcm_encrypt X key (x_random X (draws w) IV_BYTES) (the p) of (ct, tag) \<Rightarrow>
        x_gcm_decrypt X key (x_random X (draws w) IV_BYTES) tag ct = Some (the p)"
      unfolding gcm_inverts_def by (elim allE)
    with g show ?thesis by simp
  qed
  moreover have "x_b64_decode X (x_b64 X b) = b" for b using assms(3) by (simp add: b64_codec_def)
  moreover have "truthy c" by (simp add: c PII_VERSION_def)
  moreover have "split_on CHR ''.'' (the c) = [PII_VERSION, x_b64 X (x_random X (draws w) IV_BYTES), x_b64 X tag, x_b64 X ct]"
    by (simp only: c option.sel split_envelope[OF assms(3)])
  ultimately show ?thesis
    using True by (auto simp: decrypt_pii_def assms(4) k truthy_iff)
next
  case False
  with encrypt_pii_Inr[OF assms(1)] show ?thesis by (auto simp: decrypt_pii_def)
qed

subsection \<open>Properties\<close>

text \<open>Confidential fields round-trip: what \<open>encryptPII\<close> wrote, \<open>decryptPII\<close> reads back under
  the same key, in whatever world it is read; an absent or empty field is stored as null and reads
  back as null.\<close>

theorem pii_round_trip:
  assumes "encrypt_pii X p w = (Inr c, w')"
    and "gcm_inverts X" and "b64_codec X" and "penv v = penv w"
  shows "decrypt_pii X (penv v) c = (if truthy p then p else None) \<and> (c = None \<longleftrightarrow> \<not> truthy p)"
  using decrypt_encrypted[OF assms] encrypt_pii_Inr[OF assms(1)] by auto

theorem pii_round_trip_witness:
  "\<exists>c w'. encrypt_pii demo_ext (Some ''SN-1'') demo_world = (Inr (Some c), w')
     \<and> decrypt_pii demo_ext (penv w') (Some c) = Some ''SN-1''"
proof -
  have env: "penv demo_world = demo_env" by (simp add: demo_world_def)
  have "x_gcm_encrypt demo_ext = (\<lambda>k iv p. (p, iv))" by (simp add: demo_ext_def)
  with env have e: "encrypt_pii demo_ext (Some ''SN-1'') demo_world
      = (Inr (Some (join_with ''.'' [PII_VERSION, x_b64 demo_ext (x_random demo_ext (draws demo_world) IV_BYTES),
           x_b64 demo_ext (x_random demo_ext (draws demo_world) IV_BYTES), x_b64 demo_ext ''SN-1''])),
         demo_world\<lparr>draws := Suc (draws demo_world)\<rparr>)"
    by (simp add: encrypt_pii_def seq_def draw_def asks_def pii_key_def demo_env_ok ret_def Let_def)
  from pii_round_trip[OF this demo_ext_laws(4,3) refl] env this show ?thesis by auto
qed



end
