(* ===== verification/Indexer.thy ===== *)
theory Indexer
  imports Session
begin

text \<open>
  \<open>apps/platform/lib/indexer.ts\<close> and \<open>api/audit/sync\<close>: copying contract events into the audit cache.
  The scan of a contract is the list of block windows it queries. The identifiers the database
  generates for new rows are drawn as \<open>x_uuid\<close>; ties of an \<open>order by\<close> are taken in table order.
\<close>

subsection \<open>The fields of an event\<close>

definition DEFAULT_CHUNK :: int where "DEFAULT_CHUNK = 2000"
definition SEPOLIA_CHUNK :: int where "SEPOLIA_CHUNK = 10"
definition RECORDED_SEPOLIA_START_BLOCK :: int where "RECORDED_SEPOLIA_START_BLOCK = 11585353"
definition SEPOLIA :: int where "SEPOLIA = 11155111"

record event_fields =
  ef_org :: "int option"
  ef_actor :: "string option"
  ef_subject :: "string option"
  ef_token :: "int option"

text \<open>\<open>String(v)\<close> of a decoded argument\<close>

fun arg_text :: "log_arg \<Rightarrow> string" where
  "arg_text (ArgInt i) = show_int i"
| "arg_text (ArgText s) = s"

definition arg_at :: "log_arg list \<Rightarrow> nat \<Rightarrow> log_arg option" where
  "arg_at args n = (if n < length args then Some (args ! n) else None)"

definition arg_str :: "log_arg list \<Rightarrow> nat \<Rightarrow> string option" where
  "arg_str args n = map_option arg_text (arg_at args n)"

definition arg_num :: "ext \<Rightarrow> log_arg list \<Rightarrow> nat \<Rightarrow> int option" where
  "arg_num X args n =
    (case arg_at args n of
       None \<Rightarrow> None
     | Some (ArgInt i) \<Rightarrow> Some i
     | Some (ArgText s) \<Rightarrow> x_number X s)"

definition extract_fields :: "ext \<Rightarrow> string \<Rightarrow> log_arg list \<Rightarrow> event_fields" where
  "extract_fields X event args =
    (let str = arg_str args; num = arg_num X args;
         fields = (\<lambda>org actor subject token.
           \<lparr>ef_org = org, ef_actor = actor, ef_subject = subject, ef_token = token\<rparr>) in
     if event = ''IdentityRegistered'' then fields None (str 2) (str 0) None
     else if event = ''IdentityHashUpdated'' then fields None (str 3) (str 0) None
     else if event = ''IdentityRevoked'' \<or> event = ''IdentityReactivated'' then fields None (str 1) (str 0) None
     else if event = ''OrganizationCreated'' then fields (num 0) (str 1) (str 1) None
     else if event = ''OrganizationStatusChanged'' then fields (num 0) (str 2) None None
     else if event = ''OrgRootAdminTransferred'' then fields (num 0) (str 1) (str 2) None
     else if event = ''OrganizationMetadataUpdated'' then fields (num 0) None None None
     else if event = ''RegistrarUpdated'' then fields None None (str 0) None
     else if event = ''MemberAdded'' then fields (num 0) (str 4) (str 1) None
     else if event = ''MemberRemoved'' then fields (num 0) (str 3) (str 1) None
     else if event = ''RoleAssigned'' then fields (num 0) (str 5) (str 1) None
     else if event = ''RoleExpiryUpdated'' then fields (num 0) (str 4) (str 1) None
     else if event = ''PermissionUpdated'' then fields (num 0) (str 4) None None
     else if event = ''ApplicationRegistered'' then fields (num 0) (str 3) None None
     else if event = ''AppAccessChanged'' then fields (num 0) (str 4) None None
     else if event = ''AssetMinted'' then fields (num 1) (str 5) (str 2) (num 0)
     else if event = ''AssetAssigned'' then fields None (str 3) (str 2) (num 0)
     else if event = ''AssetRevoked'' then fields None (str 3) (str 1) (num 0)
     else if event = ''AssetRestored'' then fields None (str 2) (str 1) (num 0)
     else if event = ''AssetMetadataUpdated'' then fields None (str 4) None (num 0)
     else fields None None None None)"

definition TRACKED :: "string list" where
  "TRACKED =
    [''IdentityRegistered'', ''IdentityHashUpdated'', ''IdentityRevoked'', ''IdentityReactivated'',
     ''RegistrarUpdated'', ''OrganizationCreated'', ''OrganizationMetadataUpdated'',
     ''OrganizationStatusChanged'', ''OrgRootAdminTransferred'', ''MemberAdded'', ''MemberRemoved'',
     ''RoleAssigned'', ''RoleExpiryUpdated'', ''PermissionUpdated'', ''ApplicationRegistered'',
     ''AppAccessChanged'', ''AssetMinted'', ''AssetAssigned'', ''AssetRevoked'', ''AssetRestored'',
     ''AssetMetadataUpdated'']"

text \<open>\<open>isEventLog(log) && TRACKED.has(log.eventName)\<close>\<close>

definition is_tracked :: "event_log \<Rightarrow> bool" where
  "is_tracked l = (case lg_event l of None \<Rightarrow> False | Some e \<Rightarrow> e \<in> set TRACKED)"

text \<open>\<open>out[key] = value\<close>: an existing property keeps its place.\<close>

fun obj_set :: "string \<Rightarrow> json \<Rightarrow> (string \<times> json) list \<Rightarrow> (string \<times> json) list" where
  "obj_set k v [] = [(k, v)]"
| "obj_set k v ((j, u) # ps) = (if j = k then (k, v) # ps else (j, u) # obj_set k v ps)"

definition payload_value :: "ext \<Rightarrow> event_input \<Rightarrow> log_arg option \<Rightarrow> json" where
  "payload_value X input v =
    (case v of
       Some (ArgInt i) \<Rightarrow> JNum i
     | _ \<Rightarrow>
       let t = (case v of None \<Rightarrow> ''undefined'' | Some a \<Rightarrow> arg_text a) in
       if in_type input = ''bytes32'' \<and> text_includes ''role'' (to_lower (in_name input))
       then JStr (role_text (role_name_of X t)) else JStr t)"

fun payload_entries :: "ext \<Rightarrow> event_input list \<Rightarrow> log_arg list \<Rightarrow> nat \<Rightarrow> (string \<times> json) list \<Rightarrow> (string \<times> json) list" where
  "payload_entries X [] args i out = out"
| "payload_entries X (input # inputs) args i out =
     payload_entries X inputs args (Suc i)
       (obj_set (in_name input) (payload_value X input (arg_at args i)) out)"

definition readable_payload :: "ext \<Rightarrow> event_log \<Rightarrow> json" where
  "readable_payload X l = JObj (payload_entries X (lg_inputs l) (lg_args l) 0 [])"

definition audit_row_of :: "ext \<Rightarrow> string \<Rightarrow> event_log \<Rightarrow> audit_row" where
  "audit_row_of X name l =
    (let event = nullish (lg_event l) []; fields = extract_fields X event (lg_args l) in
     \<lparr>au_id = [], au_contract = name, au_event = event, au_org_id = ef_org fields,
      au_actor = map_option to_lower (ef_actor fields), au_subject = map_option to_lower (ef_subject fields),
      au_token_id = ef_token fields, au_tx_hash = lg_tx_hash l, au_block = lg_block l,
      au_log_index = lg_index l, au_payload = readable_payload X l\<rparr>)"

subsection \<open>Where a scan starts, and its windows\<close>

definition chunk_size :: "int \<Rightarrow> int" where
  "chunk_size chain_id = (if chain_id = SEPOLIA then SEPOLIA_CHUNK else DEFAULT_CHUNK)"

definition start_block :: "ext \<Rightarrow> process_env \<Rightarrow> int \<Rightarrow> int" where
  "start_block X env chain_id =
    (case (case env ''INDEXER_START_BLOCK'' of None \<Rightarrow> None | Some s \<Rightarrow> x_number X s) of
       Some configured \<Rightarrow>
         if 0 \<le> configured then configured
         else if chain_id = SEPOLIA then RECORDED_SEPOLIA_START_BLOCK else 0
     | None \<Rightarrow> if chain_id = SEPOLIA then RECORDED_SEPOLIA_START_BLOCK else 0)"

text \<open>\<open>for (start = from; start <= latest; start += chunk)\<close>: the ranges it queries.\<close>

function block_windows :: "int \<Rightarrow> int \<Rightarrow> int \<Rightarrow> (int \<times> int) list" where
  "block_windows chunk latest start =
    (if start \<le> latest \<and> 0 < chunk
     then (start, min (start + chunk - 1) latest) # block_windows chunk latest (start + chunk)
     else [])"
  by pat_completeness auto

termination
  by (relation "measure (\<lambda>(chunk, latest, start). nat (latest + 1 - start))") auto

declare block_windows.simps [simp del]

subsection \<open>The cache\<close>

definition audit_key :: "audit_row \<Rightarrow> string \<times> int" where
  "audit_key r = (au_tx_hash r, au_log_index r)"

text \<open>\<open>upsert(rows, { onConflict: "tx_hash,log_index", ignoreDuplicates: true })\<close>\<close>

fun audit_upsert :: "ext \<Rightarrow> audit_row list \<Rightarrow> world \<Rightarrow> world" where
  "audit_upsert X [] w = w"
| "audit_upsert X (r # rs) w =
     audit_upsert X rs
       (if audit_key r \<in> audit_key ` set (audit_cache w) then w
        else w\<lparr>audit_cache := audit_cache w @ [r\<lparr>au_id := x_uuid X (draws w)\<rparr>], draws := Suc (draws w)\<rparr>)"

definition newest_row :: "string \<Rightarrow> audit_row list \<Rightarrow> audit_row list" where
  "newest_row name rows =
    (let own = filter (\<lambda>r. au_contract r = name) rows in
     take 1 (filter (\<lambda>r. \<forall>s \<in> set own. au_block s \<le> au_block r) own))"

definition detect_chain_reset :: "ext \<Rightarrow> string \<Rightarrow> bool io" where
  "detect_chain_reset X name =
    seq (select_one X (\<lambda>w. newest_row name (audit_cache w))) (\<lambda>newest.
    case newest of
      Inr (Some row) \<Rightarrow>
        if au_tx_hash row = [] then ret False
        else seq (asks (\<lambda>w. bind_res (contracts X w) (\<lambda>c. c_receipt_exists c (au_tx_hash row)))) (\<lambda>known.
             ret (\<not> known))
    | _ \<Rightarrow> ret False)"

definition purge_contract_cache :: "ext \<Rightarrow> string \<Rightarrow> string \<Rightarrow> unit io" where
  "purge_contract_cache X name address =
    seq (db_stmt X (\<lambda>w. (Inr (), w\<lparr>audit_cache := filter (\<lambda>r. au_contract r \<noteq> name) (audit_cache w)\<rparr>))) (\<lambda>_.
    seq (db_stmt X (\<lambda>w. (Inr (), w\<lparr>indexer_state := filter (\<lambda>r. ix_address r \<noteq> address) (indexer_state w)\<rparr>))) (\<lambda>_.
    ret ()))"

text \<open>One window after another; the count of the rows it wrote.\<close>

fun index_windows :: "ext \<Rightarrow> string \<Rightarrow> (int \<times> int) list \<Rightarrow> int \<Rightarrow> int io" where
  "index_windows X name [] n = ret n"
| "index_windows X name ((lo, hi) # ws) n =
     seq (asks (\<lambda>w. bind_res (contracts X w) (\<lambda>c. c_logs c name lo hi))) (\<lambda>logs.
     let rows = map (audit_row_of X name) (filter is_tracked logs) in
     if rows = [] then index_windows X name ws n
     else seq (db_stmt X (\<lambda>w. (Inr (), audit_upsert X rows w))) (\<lambda>r.
       case r of
         Inl err \<Rightarrow> throw (JsError (''Indexing failed for '' @ name @ '': '' @ db_message err))
       | Inr _ \<Rightarrow> index_windows X name ws (n + int (length rows))))"

definition upsert_state :: "indexer_row \<Rightarrow> indexer_row list \<Rightarrow> indexer_row list" where
  "upsert_state r rows =
    (if ix_address r \<in> ix_address ` set rows
     then update_where (\<lambda>s. ix_address s = ix_address r) (\<lambda>_. r) rows else rows @ [r])"

text \<open>Whether the cache of the contract must be dropped, and dropping it.\<close>

definition reset_cache :: "ext \<Rightarrow> int option \<Rightarrow> int \<Rightarrow> string \<Rightarrow> string \<Rightarrow> bool io" where
  "reset_cache X from_block lower_bound name address =
    (if from_block \<noteq> None \<and> the from_block \<le> lower_bound
     then seq (purge_contract_cache X name address) (\<lambda>_. ret True)
     else seq (detect_chain_reset X name) (\<lambda>replaced.
       if replaced then seq (purge_contract_cache X name address) (\<lambda>_. ret True) else ret False))"

text \<open>The first block to scan, and whether the stored height forced a reset.\<close>

definition resume_block :: "ext \<Rightarrow> int option \<Rightarrow> int \<Rightarrow> int \<Rightarrow> string \<Rightarrow> string \<Rightarrow> (int \<times> bool) io" where
  "resume_block X from_block lower_bound latest name address =
    seq (select_one X (\<lambda>w. filter (\<lambda>r. ix_address r = address) (indexer_state w))) (\<lambda>found.
    let stored = (case found of Inr (Some r) \<Rightarrow> Some (ix_last_block r) | _ \<Rightarrow> None);
        wanted = (case from_block of
                    Some b \<Rightarrow> b
                  | None \<Rightarrow> (case stored of Some height \<Rightarrow> height + 1 | None \<Rightarrow> lower_bound));
        from = max wanted lower_bound in
    if from > latest + 1
    then seq (purge_contract_cache X name address) (\<lambda>_. ret (0, True))
    else ret (from, False))"

definition sync_contract :: "ext \<Rightarrow> int option \<Rightarrow> int \<Rightarrow> int \<Rightarrow> int \<Rightarrow> string \<Rightarrow> string \<Rightarrow> (int \<times> int \<times> bool) io" where
  "sync_contract X from_block chain_id lower_bound latest name address =
    seq (reset_cache X from_block lower_bound name address) (\<lambda>reset1.
    seq (resume_block X from_block lower_bound latest name address) (\<lambda>(from, reset2).
    seq (index_windows X name (block_windows (chunk_size chain_id) latest from) 0) (\<lambda>indexed.
    seq (db_stmt X (\<lambda>w. (Inr (), w\<lparr>indexer_state := upsert_state
           \<lparr>ix_address = address, ix_contract = name, ix_chain_id = chain_id, ix_last_block = latest\<rparr>
           (indexer_state w)\<rparr>))) (\<lambda>_.
    ret (from, indexed, reset1 \<or> reset2)))))"

record sync_result =
  sy_chain_id :: int
  sy_from_block :: int
  sy_to_block :: int
  sy_indexed :: int
  sy_per_contract :: "(string \<times> int) list"
  sy_reset :: bool

fun sync_contracts :: "ext \<Rightarrow> int option \<Rightarrow> int \<Rightarrow> int \<Rightarrow> (string \<times> string) list \<Rightarrow> sync_result \<Rightarrow> sync_result io" where
  "sync_contracts X from_block lower_bound latest [] acc = ret acc"
| "sync_contracts X from_block lower_bound latest ((name, address) # cs) acc =
     seq (sync_contract X from_block (sy_chain_id acc) lower_bound latest name address) (\<lambda>(from, indexed, reset).
     sync_contracts X from_block lower_bound latest cs
       (acc\<lparr>sy_from_block := min (sy_from_block acc) from, sy_indexed := sy_indexed acc + indexed,
            sy_per_contract := sy_per_contract acc @ [(name, indexed)], sy_reset := sy_reset acc \<or> reset\<rparr>))"

definition sync_events :: "ext \<Rightarrow> int option \<Rightarrow> sync_result io" where
  "sync_events X from_block =
    seq (server_env_io X) (\<lambda>env.
    seq (gets (\<lambda>w. start_block X (penv w) (CHAIN_ID env))) (\<lambda>lower_bound.
    seq (asks (\<lambda>w. bind_res (contracts X w) c_block_number)) (\<lambda>latest.
    sync_contracts X from_block lower_bound latest
      [(''IdentityRegistry'', IDENTITY_REGISTRY_ADDRESS env), (''OrgAccessManager'', ORG_ACCESS_MANAGER_ADDRESS env),
       (''AssetNFT'', ASSET_NFT_ADDRESS env)]
      \<lparr>sy_chain_id = CHAIN_ID env, sy_from_block = latest, sy_to_block = latest, sy_indexed = 0,
       sy_per_contract = [], sy_reset = False\<rparr>)))"

subsection \<open>POST /api/audit/sync\<close>

definition sync_body_issues :: "ext \<Rightarrow> json \<Rightarrow> issue list" where
  "sync_body_issues X j =
    (if \<not> is_object j then field_issue X [] False
     else field_issue X ''fromBlock'' (case obj_get j ''fromBlock'' of
            None \<Rightarrow> True | Some (JNum i) \<Rightarrow> 0 \<le> i | _ \<Rightarrow> False))"

definition sync_result_json :: "sync_result \<Rightarrow> json" where
  "sync_result_json r = JObj
    [(''chainId'', JNum (sy_chain_id r)), (''fromBlock'', JNum (sy_from_block r)), (''toBlock'', JNum (sy_to_block r)),
     (''indexed'', JNum (sy_indexed r)), (''perContract'', JObj (map (\<lambda>(k, n). (k, JNum n)) (sy_per_contract r))),
     (''resetDetected'', JBool (sy_reset r))]"

definition audit_sync_run :: "ext \<Rightarrow> json option \<Rightarrow> response io" where
  "audit_sync_run X body =
    seq require_caller (\<lambda>_.
    seq (try_catch (read_json body) (\<lambda>_. ret (JObj []))) (\<lambda>raw.
    let given = (if raw = JNull then JObj [] else raw) in
    seq (lift_res (zod (sync_body_issues X given) given)) (\<lambda>b.
    seq (sync_events X (case obj_get b ''fromBlock'' of Some (JNum i) \<Rightarrow> Some i | _ \<Rightarrow> None)) (\<lambda>result.
    ret (ok_no_store (sync_result_json result))))))"

definition audit_sync_post :: "ext \<Rightarrow> json option \<Rightarrow> world \<Rightarrow> response \<times> world" where
  "audit_sync_post X body = handler (audit_sync_run X body)"

subsection \<open>The windows tile the range\<close>

lemma block_windows_tile: "0 < chunk \<Longrightarrow> concat (map (\<lambda>(a, b). [a..b]) (block_windows chunk latest start)) = [start..latest]"
proof (induction chunk latest start rule: block_windows.induct)
  case (1 chunk latest start)
  show ?case
  proof (cases "start \<le> latest")
    case True
    with 1 have "concat (map (\<lambda>(a, b). [a..b]) (block_windows chunk latest (start + chunk))) = [start + chunk..latest]"
      by simp
    moreover have "[start..latest] = [start..min (start + chunk - 1) latest] @ [start + chunk..latest]"
    proof (cases "start + chunk - 1 \<le> latest")
      case True
      with upto_split2[of start "start + chunk - 1" latest] 1(2) show ?thesis by simp
    next
      case False
      then show ?thesis by simp
    qed
    ultimately show ?thesis using True 1(2) by (subst block_windows.simps) simp
  qed (simp add: block_windows.simps)
qed

lemma block_windows_bounds:
  "(a, b) \<in> set (block_windows chunk latest start) \<Longrightarrow> start \<le> a \<and> a \<le> b \<and> b \<le> latest \<and> b - a < chunk"
proof (induction chunk latest start rule: block_windows.induct)
  case (1 chunk latest start)
  then show ?case by (subst (asm) (2) block_windows.simps) (auto split: if_splits)
qed

lemma block_in_window:
  assumes "0 < chunk" and "start \<le> x" and "x \<le> latest"
  shows "\<exists>(a, b) \<in> set (block_windows chunk latest start). a \<le> x \<and> x \<le> b"
proof -
  have "x \<in> set (concat (map (\<lambda>(a, b). [a..b]) (block_windows chunk latest start)))"
    using assms by (simp only: block_windows_tile[OF assms(1)] set_upto atLeastAtMost_iff simp_thms)
  then show ?thesis by auto
qed

lemma chunk_size_pos: "0 < chunk_size c"
  by (simp add: chunk_size_def SEPOLIA_CHUNK_def DEFAULT_CHUNK_def)

subsection \<open>Writing rows\<close>

lemma audit_key_id [simp]: "audit_key (r\<lparr>au_id := i\<rparr>) = audit_key r"
  by (simp add: audit_key_def)

lemma audit_upsert_keys:
  "audit_key ` set (audit_cache (audit_upsert X rs w)) = audit_key ` set (audit_cache w) \<union> audit_key ` set rs"
  by (induction X rs w rule: audit_upsert.induct) auto

lemma audit_upsert_distinct:
  "distinct (map audit_key (audit_cache w)) \<Longrightarrow> distinct (map audit_key (audit_cache (audit_upsert X rs w)))"
  by (induction X rs w rule: audit_upsert.induct) auto

lemma audit_upsert_present:
  "audit_key ` set rs \<subseteq> audit_key ` set (audit_cache w) \<Longrightarrow> audit_upsert X rs w = w"
  by (induction X rs w rule: audit_upsert.induct) auto

lemma audit_upsert_frame:
  "chain_now (audit_upsert X rs w) = chain_now w \<and> penv (audit_upsert X rs w) = penv w
   \<and> indexer_state (audit_upsert X rs w) = indexer_state w"
  by (induction X rs w rule: audit_upsert.induct) auto

text \<open>How a run moves the world: the chain and the environment stay, unique keys stay unique.\<close>

definition cache_moves :: "world \<Rightarrow> world \<Rightarrow> bool" where
  "cache_moves w w' \<longleftrightarrow> chain_now w' = chain_now w \<and> penv w' = penv w
     \<and> (distinct (map audit_key (audit_cache w)) \<longrightarrow> distinct (map audit_key (audit_cache w')))"

interpretation cache: world_relation cache_moves
  by unfold_locales (auto simp: cache_moves_def)

lemma distinct_filter_keys: "distinct (map audit_key rs) \<Longrightarrow> distinct (map audit_key (filter p rs))"
  by (rule distinct_map_filter)

lemma purge_moves: "keeps cache_moves (purge_contract_cache X name address)"
  unfolding purge_contract_cache_def
  by (intro cache.keeps_intro cache.keeps_db_stmt) (auto simp: cache_moves_def distinct_filter_keys)

lemma reset_moves: "keeps cache_moves (reset_cache X from_block lb name address)"
  unfolding reset_cache_def detect_chain_reset_def by (intro cache.keeps_intro purge_moves)

lemma resume_moves: "keeps cache_moves (resume_block X from_block lb latest name address)"
  unfolding resume_block_def Let_def by (intro cache.keeps_intro purge_moves)

lemma windows_moves: "keeps cache_moves (index_windows X name ws n)"
proof (induction X name ws n rule: index_windows.induct)
  case (1 X name n)
  show ?case by (simp add: cache.keeps_pure)
next
  case (2 X name lo hi ws n)
  have up: "keeps cache_moves (db_stmt X (\<lambda>w. (Inr (), audit_upsert X rs w)))" for rs
    by (rule cache.keeps_db_stmt) (auto simp: cache_moves_def audit_upsert_frame audit_upsert_distinct)
  show ?case
    unfolding index_windows.simps Let_def
    by (intro cache.keeps_intro up) (use 2 in \<open>auto simp: Let_def\<close>)
qed

lemma sync_contract_moves: "keeps cache_moves (sync_contract X from_block cid lb latest name address)"
  unfolding sync_contract_def
  by (intro cache.keeps_intro cache.keeps_db_stmt reset_moves resume_moves windows_moves)
     (auto simp: cache_moves_def)

lemma sync_contracts_moves: "keeps cache_moves (sync_contracts X from_block lb latest cs acc)"
  by (induction X from_block lb latest cs acc rule: sync_contracts.induct)
     (auto intro!: cache.keeps_intro sync_contract_moves)

lemma audit_sync_moves: "keeps cache_moves (audit_sync_run X body)"
  unfolding audit_sync_run_def sync_events_def Let_def require_caller_def
  by (intro cache.keeps_intro sync_contracts_moves)

text \<open>A scan that returned wrote a row for every tracked event of every window.\<close>

abbreviation cached_keys :: "world \<Rightarrow> (string \<times> int) set" where
  "cached_keys w \<equiv> audit_key ` set (audit_cache w)"

lemma row_key [simp]: "audit_key (audit_row_of X name l) = (lg_tx_hash l, lg_index l)"
  by (simp add: audit_row_of_def audit_key_def Let_def)

lemma index_windows_complete:
  assumes "index_windows X name ws n w = (Inr m, w')"
  shows "cached_keys w \<subseteq> cached_keys w'
    \<and> (\<forall>(lo, hi) \<in> set ws. \<exists>logs. c_logs (chain_now w) name lo hi = Inr logs
         \<and> (\<forall>l \<in> set logs. is_tracked l \<longrightarrow> (lg_tx_hash l, lg_index l) \<in> cached_keys w'))"
  using assms
proof (induction ws arbitrary: n w)
  case Nil
  then show ?case by (simp add: ret_def)
next
  case (Cons lh ws)
  obtain lo hi where lh: "lh = (lo, hi)" by (cases lh)
  from Cons.prems lh obtain logs where logs: "c_logs (chain_now w) name lo hi = Inr logs"
    and rest: "(let rows = map (audit_row_of X name) (filter is_tracked logs) in
       if rows = [] then index_windows X name ws n
       else seq (db_stmt X (\<lambda>w. (Inr (), audit_upsert X rows w))) (\<lambda>r.
         case r of Inl err \<Rightarrow> throw (JsError (''Indexing failed for '' @ name @ '': '' @ db_message err))
         | Inr _ \<Rightarrow> index_windows X name ws (n + int (length rows)))) w = (Inr m, w')"
    by (auto simp: io_iff res_iff)
  define rows where "rows = map (audit_row_of X name) (filter is_tracked logs)"
  obtain w1 k where step: "index_windows X name ws k w1 = (Inr m, w')" "chain_now w1 = chain_now w"
    "cached_keys w \<subseteq> cached_keys w1" "audit_key ` set rows \<subseteq> cached_keys w1"
  proof (cases "rows = []")
    case True
    with rest have "index_windows X name ws n w = (Inr m, w')" by (simp add: rows_def Let_def)
    then show ?thesis by (rule that) (simp_all add: True)
  next
    case False
    with rest obtain u w1 where st: "db_stmt X (\<lambda>w. (Inr (), audit_upsert X rows w)) w = (Inr (Inr u), w1)"
      and go: "index_windows X name ws (n + int (length rows)) w1 = (Inr m, w')"
      unfolding rows_def[symmetric] Let_def by (auto simp: io_iff)
    from db_stmt_cases[OF st] have "w1 = audit_upsert X rows (w\<lparr>db_calls := Suc (db_calls w)\<rparr>)" by auto
    then show ?thesis
      by (intro that[OF go]) (simp_all add: audit_upsert_frame audit_upsert_keys)
  qed
  from Cons.IH[OF step(1)] have ih: "cached_keys w1 \<subseteq> cached_keys w'"
    and wins: "\<forall>(lo, hi) \<in> set ws. \<exists>logs. c_logs (chain_now w) name lo hi = Inr logs
      \<and> (\<forall>l \<in> set logs. is_tracked l \<longrightarrow> (lg_tx_hash l, lg_index l) \<in> cached_keys w')"
    unfolding step(2) by (rule conjunct1, rule conjunct2)
  have "(lg_tx_hash l, lg_index l) \<in> cached_keys w'" if "l \<in> set logs" "is_tracked l" for l
  proof -
    from that have "audit_row_of X name l \<in> set rows" by (simp add: rows_def)
    then have "audit_key (audit_row_of X name l) \<in> audit_key ` set rows" by (rule imageI)
    with step(4) ih show ?thesis by auto
  qed
  moreover have "cached_keys w \<subseteq> cached_keys w'" using step(3) ih by (rule subset_trans)
  ultimately show ?case using wins unfolding lh by (simp add: logs)
qed

end
