(* ===== verification/IndexerProps.thy ===== *)
theory IndexerProps
  imports Indexer DemoWorld
begin

text \<open>
  What the indexer guarantees: the windows of a scan tile its range, the cache never holds an event
  twice, running it again changes nothing, and a scan that returned cached every tracked event of
  its range. The last section records two behaviours of the reset path.
\<close>

subsection \<open>Properties\<close>

text \<open>C14. The scan loop terminates and its windows tile the range: concatenated they are exactly
  the blocks from the start to the tip, in order, none twice, and no window is wider than the
  provider allows.\<close>

theorem scan_windows_tile_the_range:
  "concat (map (\<lambda>(a, b). [a..b]) (block_windows (chunk_size c) latest start)) = [start..latest]
   \<and> list_all (\<lambda>(a, b). b - a < chunk_size c) (block_windows (chunk_size c) latest start)"
  using block_windows_tile[OF chunk_size_pos] block_windows_bounds by (fastforce simp: list_all_iff)



text \<open>C16. A sync of one contract that returned has cached every tracked event of the blocks it
  covered, from the block it resumed at up to the tip, when the node answers a range with the events of
  that range.\<close>

theorem sync_caches_every_tracked_event:
  assumes "sync_contract X from_block chain_id lower_bound latest name address w = (Inr (from, n, reset), w')"
    and "\<forall>lo hi. c_logs (chain_now w) name lo hi = Inr (filter (\<lambda>l. lo \<le> lg_block l \<and> lg_block l \<le> hi) history)"
    and "l \<in> set history" and "is_tracked l" and "from \<le> lg_block l" and "lg_block l \<le> latest"
  shows "\<exists>r \<in> set (audit_cache w'). au_tx_hash r = lg_tx_hash l \<and> au_log_index r = lg_index l"
proof -
  from assms(1) obtain r1 r2 u w1 w2 w3 where
    "reset_cache X from_block lower_bound name address w = (Inr r1, w1)"
    "resume_block X from_block lower_bound latest name address w1 = (Inr (from, r2), w2)" and
    ix: "index_windows X name (block_windows (chunk_size chain_id) latest from) 0 w2 = (Inr n, w3)" and
    st: "db_stmt X (\<lambda>w. (Inr (), w\<lparr>indexer_state := upsert_state
           \<lparr>ix_address = address, ix_contract = name, ix_chain_id = chain_id, ix_last_block = latest\<rparr>
           (indexer_state w)\<rparr>)) w3 = (Inr u, w')"
    unfolding sync_contract_def by (auto simp: io_iff) blast+
  then have chain: "chain_now w2 = chain_now w"
    using keepsD[OF reset_moves] keepsD[OF resume_moves] by (simp add: cache_moves_def)
  from st have "audit_cache w' = audit_cache w3" by (auto dest: db_stmt_cases)
  moreover obtain lo hi where win: "(lo, hi) \<in> set (block_windows (chunk_size chain_id) latest from)"
    "lo \<le> lg_block l" "lg_block l \<le> hi"
    using block_in_window[OF chunk_size_pos assms(5,6)] by blast
  then have "(lg_tx_hash l, lg_index l) \<in> cached_keys w3"
    using index_windows_complete[OF ix] assms(2-4) unfolding chain by fastforce
  ultimately show ?thesis by (auto simp: audit_key_def)
qed

definition demo_log :: event_log where
  "demo_log =
    \<lparr>lg_event = Some ''AssetMinted'', lg_args = [ArgInt 7, ArgInt 1, ArgText ''0xB0'', ArgText ''0x07'', ArgText ''u'', ArgText ''0xA0''],
     lg_inputs = [\<lparr>in_name = ''tokenId'', in_type = ''uint256''\<rparr>], lg_tx_hash = ''0xt1'', lg_block = 90, lg_index = 3\<rparr>"

definition demo_log_world :: world where
  "demo_log_world = demo_world\<lparr>chain_now := demo_chain\<lparr>c_logs := \<lambda>name lo hi.
      Inr (filter (\<lambda>l. lo \<le> lg_block l \<and> lg_block l \<le> hi) [demo_log])\<rparr>\<rparr>"

lemma demo_log_tracked: "is_tracked demo_log"
  by (simp add: is_tracked_def demo_log_def TRACKED_def)

lemma demo_windows: "block_windows 2000 100 0 = [(0, 100)]"
  by (simp add: block_windows.simps[of 2000 100 0] block_windows.simps[of 2000 100 2000])

lemma demo_sync:
  "\<exists>w'. sync_contract demo_ext None 7 0 100 ''AssetNFT'' ''0x33'' demo_log_world = (Inr (0, 1, False), w')"
proof -
  have w: "penv demo_log_world = demo_env" "db_fault demo_log_world = (\<lambda>_. None)"
    "audit_cache demo_log_world = []" "indexer_state demo_log_world = []"
    "c_logs (chain_now demo_log_world) = (\<lambda>name lo hi. Inr (filter (\<lambda>l. lo \<le> lg_block l \<and> lg_block l \<le> hi) [demo_log]))"
    by (simp_all add: demo_log_world_def demo_world_def)
  have b: "lg_block demo_log = 90" by (simp add: demo_log_def)
  have f: "db_fault (audit_upsert X rs v) = db_fault v" for X rs v
    by (induction X rs v rule: audit_upsert.induct) auto
  have c: "chunk_size 7 = 2000" by (simp add: chunk_size_def SEPOLIA_def DEFAULT_CHUNK_def)
  show ?thesis
    by (simp add: sync_contract_def reset_cache_def detect_chain_reset_def resume_block_def seq_def
          select_one_def demo_db_stmt w newest_row_def ret_def Let_def c demo_windows asks_def demo_contracts
          b demo_log_tracked audit_upsert_frame f del: audit_upsert.simps split: prod.splits)
qed

theorem sync_caches_every_tracked_event_witness:
  "\<exists>w'. sync_contract demo_ext None 7 0 100 ''AssetNFT'' ''0x33'' demo_log_world = (Inr (0, 1, False), w')
     \<and> (\<exists>r \<in> set (audit_cache w'). au_tx_hash r = ''0xt1'')"
proof -
  from demo_sync obtain w' where s: "sync_contract demo_ext None 7 0 100 ''AssetNFT'' ''0x33'' demo_log_world
      = (Inr (0, 1, False), w')" by blast
  have "\<forall>lo hi. c_logs (chain_now demo_log_world) ''AssetNFT'' lo hi
      = Inr (filter (\<lambda>l. lo \<le> lg_block l \<and> lg_block l \<le> hi) [demo_log])"
    by (simp add: demo_log_world_def)
  from sync_caches_every_tracked_event[OF s this _ demo_log_tracked] s show ?thesis
    by (auto simp: demo_log_def)
qed

text \<open>Indexing is idempotent: writing the rows of a scan a second time changes nothing, neither
  the cache nor the identifiers it drew.\<close>

theorem indexing_again_changes_nothing:
  "audit_upsert X rows (audit_upsert X rows w) = audit_upsert X rows w"
  by (rule audit_upsert_present) (simp add: audit_upsert_keys)

subsection \<open>The reset path\<close>

text \<open>
  A purge ignores the errors of its two statements. When the cache rows are deleted and the
  deletion of the resume point fails, the scan resumes after the old height and the deleted events are
  not indexed again.
\<close>

lemma failed_purge_keeps_resume_point:
  assumes "server_env_of X (penv w) = Inr env"
    and "db_fault w (db_calls w) = None" and "db_fault w (Suc (db_calls w)) = Some err"
  shows "purge_contract_cache X name address w
    = (Inr (), w\<lparr>db_calls := Suc (Suc (db_calls w)),
                 audit_cache := filter (\<lambda>r. au_contract r \<noteq> name) (audit_cache w)\<rparr>)"
  using assms by (simp add: purge_contract_cache_def seq_def db_stmt_def ret_def Let_def)

text \<open>A requested start beyond the tip restarts the scan at block zero, below the configured first
  block.\<close>

lemma start_beyond_tip_ignores_lower_bound:
  assumes "resume_block X (Some b) lower_bound latest name address w = (Inr (from, reset), w')"
    and "latest + 1 < b"
  shows "from = 0 \<and> reset"
  using assms by (auto simp: resume_block_def io_iff Let_def split: if_splits)

end
