(* ===== verification/AuditRoutes.thy ===== *)
theory AuditRoutes
  imports Indexer DemoWorld
begin

text \<open>
  \<open>api/audit\<close>: the paged audit history, and the public settings of \<open>lib/env.ts\<close> it links with. The
  public settings are parsed when the module loads, so the handler takes them as an argument.
\<close>

subsection \<open>Public settings\<close>

record public_env =
  PUBLIC_CHAIN_ID :: int
  PUBLIC_CHAIN_NAME :: string
  PUBLIC_RPC_URL :: "string option"
  PUBLIC_EXPLORER_URL :: "string option"
  PUBLIC_IDENTITY_REGISTRY :: string
  PUBLIC_ACCESS_MANAGER :: string
  PUBLIC_ASSET_NFT :: string

text \<open>\<open>v || undefined\<close>\<close>

definition or_undefined :: "string option \<Rightarrow> string option" where
  "or_undefined v = (if truthy v then v else None)"

definition public_env_of :: "ext \<Rightarrow> process_env \<Rightarrow> exn + public_env" where
  "public_env_of X env =
    (let url_ok = (\<lambda>v. case v of None \<Rightarrow> True | Some u \<Rightarrow> x_parse_url X u \<noteq> None);
         chain_id = (case env ''NEXT_PUBLIC_CHAIN_ID'' of None \<Rightarrow> Some 31337 | Some s \<Rightarrow> x_number X s);
         name = nullish (env ''NEXT_PUBLIC_CHAIN_NAME'') ''Hardhat Local'';
         rpc = or_undefined (env ''NEXT_PUBLIC_RPC_URL'');
         explorer = or_undefined (env ''NEXT_PUBLIC_EXPLORER_URL'');
         identity = nullish (env ''NEXT_PUBLIC_IDENTITY_REGISTRY_ADDRESS'') ''0x5FbDB2315678afecb367f032d93F642f64180aa3'';
         access = nullish (env ''NEXT_PUBLIC_ORG_ACCESS_MANAGER_ADDRESS'') ''0xe7f1725E7734CE288F8367e1Bb143E90bb3F0512'';
         asset = nullish (env ''NEXT_PUBLIC_ASSET_NFT_ADDRESS'') ''0x9fE46736679d2D9a65F0992F2272dE9f3c7fa6e0'' in
     bind_res (zod
       (field_issue X ''NEXT_PUBLIC_CHAIN_ID'' (case chain_id of Some i \<Rightarrow> 0 < i | None \<Rightarrow> False)
        @ field_issue X ''NEXT_PUBLIC_CHAIN_NAME'' (1 \<le> length name)
        @ field_issue X ''NEXT_PUBLIC_RPC_URL'' (url_ok rpc)
        @ field_issue X ''NEXT_PUBLIC_EXPLORER_URL'' (url_ok explorer)
        @ field_issue X ''NEXT_PUBLIC_IDENTITY_REGISTRY_ADDRESS'' (is_address identity)
        @ field_issue X ''NEXT_PUBLIC_ORG_ACCESS_MANAGER_ADDRESS'' (is_address access)
        @ field_issue X ''NEXT_PUBLIC_ASSET_NFT_ADDRESS'' (is_address asset)) ()) (\<lambda>_.
       Inr \<lparr>PUBLIC_CHAIN_ID = nullish chain_id 0, PUBLIC_CHAIN_NAME = name, PUBLIC_RPC_URL = rpc,
            PUBLIC_EXPLORER_URL = explorer, PUBLIC_IDENTITY_REGISTRY = identity,
            PUBLIC_ACCESS_MANAGER = access, PUBLIC_ASSET_NFT = asset\<rparr>))"

subsection \<open>The query\<close>

record audit_query =
  aq_org :: "string option"
  aq_event :: "string option"
  aq_wallet :: "string option"
  aq_token :: "string option"
  aq_contract :: "string option"
  aq_limit :: "string option"
  aq_cursor :: "string option"

definition coerced_in :: "ext \<Rightarrow> (int \<Rightarrow> bool) \<Rightarrow> string option \<Rightarrow> bool" where
  "coerced_in X p v =
    (case v of None \<Rightarrow> True | Some s \<Rightarrow> (case x_number X s of Some i \<Rightarrow> p i | None \<Rightarrow> False))"

definition audit_query_ok :: "ext \<Rightarrow> audit_query \<Rightarrow> bool" where
  "audit_query_ok X q =
    (coerced_positive X (aq_org q)
     \<and> (case aq_event q of None \<Rightarrow> True | Some e \<Rightarrow> length e \<le> 60)
     \<and> (case aq_wallet q of None \<Rightarrow> True | Some a \<Rightarrow> is_address a)
     \<and> coerced_in X (\<lambda>i. 0 < i) (aq_token q)
     \<and> (case aq_contract q of None \<Rightarrow> True
          | Some c \<Rightarrow> c \<in> {''IdentityRegistry'', ''OrgAccessManager'', ''AssetNFT''})
     \<and> coerced_in X (\<lambda>i. 1 \<le> i \<and> i \<le> 200) (aq_limit q)
     \<and> coerced_in X (\<lambda>i. 0 \<le> i) (aq_cursor q))"

definition coerced_option :: "ext \<Rightarrow> string option \<Rightarrow> int option" where
  "coerced_option X v = (case v of None \<Rightarrow> None | Some s \<Rightarrow> x_number X s)"

definition page_limit :: "ext \<Rightarrow> audit_query \<Rightarrow> nat" where
  "page_limit X q = nat (nullish (coerced_option X (aq_limit q)) 50)"

definition audit_matches :: "ext \<Rightarrow> audit_query \<Rightarrow> audit_row \<Rightarrow> bool" where
  "audit_matches X q r =
    ((au_org_id r = Some (coerced_value X (aq_org q)) \<or> au_org_id r = None)
     \<and> (truthy (aq_event q) \<longrightarrow> aq_event q = Some (au_event r))
     \<and> (truthy (aq_contract q) \<longrightarrow> aq_contract q = Some (au_contract r))
     \<and> (case coerced_option X (aq_token q) of None \<Rightarrow> True | Some t \<Rightarrow> au_token_id r = Some t)
     \<and> (truthy (aq_wallet q) \<longrightarrow>
          (let lower = to_lower (nullish (aq_wallet q) []) in au_actor r = Some lower \<or> au_subject r = Some lower))
     \<and> (case coerced_option X (aq_cursor q) of None \<Rightarrow> True | Some c \<Rightarrow> au_block r < c))"

text \<open>Newest first: by block, then by position in the block.\<close>

definition newest_first :: "audit_row list \<Rightarrow> audit_row list" where
  "newest_first rows = rev (sort_key au_block (sort_key au_log_index rows))"

text \<open>The statement: one row more than a page tells whether more exist.\<close>

definition audit_rows :: "ext \<Rightarrow> audit_query \<Rightarrow> audit_row list \<Rightarrow> audit_row list" where
  "audit_rows X q rows = take (Suc (page_limit X q)) (newest_first (filter (audit_matches X q) rows))"

text \<open>\<open>explorer.replace(/\/$/, "")\<close>\<close>

definition strip_slash :: "string \<Rightarrow> string" where
  "strip_slash s = (if s \<noteq> [] \<and> last s = CHR ''/'' then butlast s else s)"

definition audit_event_json :: "string option \<Rightarrow> audit_row \<Rightarrow> json" where
  "audit_event_json explorer r = JObj
    [(''id'', JStr (au_id r)), (''contract'', JStr (au_contract r)), (''event'', JStr (au_event r)),
     (''orgId'', jnullable_int (au_org_id r)), (''actor'', jnullable (au_actor r)), (''subject'', jnullable (au_subject r)),
     (''tokenId'', jnullable_int (au_token_id r)), (''txHash'', JStr (au_tx_hash r)), (''blockNumber'', JNum (au_block r)),
     (''payload'', au_payload r),
     (''explorerUrl'', case explorer of None \<Rightarrow> JNull | Some u \<Rightarrow> JStr (strip_slash u @ ''/tx/'' @ au_tx_hash r))]"

record audit_page =
  pg_rows :: "audit_row list"
  pg_has_more :: bool
  pg_next_cursor :: "int option"

definition page_of :: "nat \<Rightarrow> audit_row list \<Rightarrow> audit_page" where
  "page_of limit rows =
    (let has_more = length rows > limit; page = (if has_more then take limit rows else rows) in
     \<lparr>pg_rows = page, pg_has_more = has_more,
      pg_next_cursor = (if has_more then Some (au_block (page ! (length page - 1))) else None)\<rparr>)"

definition audit_page_json :: "int \<Rightarrow> string option \<Rightarrow> audit_page \<Rightarrow> json" where
  "audit_page_json org_id explorer p = JObj
    [(''orgId'', JNum org_id), (''count'', JNum (int (length (pg_rows p)))), (''hasMore'', JBool (pg_has_more p)),
     (''nextCursor'', jnullable_int (pg_next_cursor p)),
     (''events'', JArr (map (audit_event_json explorer) (pg_rows p)))]"

definition audit_run :: "ext \<Rightarrow> public_env \<Rightarrow> audit_query \<Rightarrow> response io" where
  "audit_run X public q =
    (if \<not> audit_query_ok X q
     then throw (bad_request (''orgId is required; limit must be 1'' @ [en_dash] @ ''200''))
     else
       let org_id = coerced_value X (aq_org q) in
       seq (require_permission X org_id VIEW_AUDIT) (\<lambda>_.
       seq (select_stmt X (\<lambda>w. audit_rows X q (audit_cache w))) (\<lambda>r.
       case r of
         Inl err \<Rightarrow> throw (bad_request (''Could not read audit history: '' @ db_message err))
       | Inr rows \<Rightarrow> ret (ok_no_store (audit_page_json org_id (PUBLIC_EXPLORER_URL public)
                        (page_of (page_limit X q) rows))))))"

definition audit_get :: "ext \<Rightarrow> public_env \<Rightarrow> audit_query \<Rightarrow> world \<Rightarrow> response \<times> world" where
  "audit_get X public q = handler (audit_run X public q)"

subsection \<open>Lemmas\<close>

lemma newest_first_set [simp]: "set (newest_first rows) = set rows"
  by (simp add: newest_first_def)

lemma newest_first_length [simp]: "length (newest_first rows) = length rows"
  by (simp add: newest_first_def)

lemma newest_first_sorted: "sorted_wrt (\<lambda>r s. au_block s \<le> au_block r) (newest_first rows)"
proof -
  have "sorted (map au_block (sort_key au_block (sort_key au_log_index rows)))" by simp
  then show ?thesis by (simp add: newest_first_def sorted_map sorted_wrt_rev)
qed

lemma page_rows: "pg_rows (page_of limit rows) = take limit rows"
  by (auto simp: page_of_def Let_def)

lemma page_has_more: "pg_has_more (page_of limit rows) \<longleftrightarrow> limit < length rows"
  by (simp add: page_of_def Let_def)

lemma audit_run_ok:
  assumes "audit_run X public q w = (Inr resp, w')"
  obtains wal role where "audit_query_ok X q" "session_wallet w = Some wal"
    "read_has_permission X w (coerced_value X (aq_org q)) wal (permission_hash X VIEW_AUDIT) = Inr True"
    "resp = ok_no_store (audit_page_json (coerced_value X (aq_org q)) (PUBLIC_EXPLORER_URL public)
       (page_of (page_limit X q) (audit_rows X q (audit_cache w))))"
  using assms
  by (auto simp: audit_run_def io_iff Let_def dest!: select_stmt_Inr split: if_splits)

subsection \<open>Properties\<close>

text \<open>C17. An audit page is answered only to a signed-in wallet whose role holds VIEW_AUDIT in the
  organization right now, and it is the newest part of the matching history: at most the requested
  number of rows, newest first, all of them matching rows of the cache, none newer left out, and all of
  them when no further page is announced. Reading changes no table.\<close>

theorem audit_page_is_the_newest_matching:
  assumes "audit_run X public q w = (Inr resp, w')"
  shows "\<exists>wal page. session_wallet w = Some wal
    \<and> read_has_permission X w (coerced_value X (aq_org q)) wal (permission_hash X VIEW_AUDIT) = Inr True
    \<and> resp = ok_no_store (audit_page_json (coerced_value X (aq_org q)) (PUBLIC_EXPLORER_URL public) page)
    \<and> length (pg_rows page) \<le> page_limit X q
    \<and> sorted_wrt (\<lambda>r s. au_block s \<le> au_block r) (pg_rows page)
    \<and> set (pg_rows page) \<subseteq> {r \<in> set (audit_cache w). audit_matches X q r}
    \<and> (\<forall>r \<in> set (audit_cache w). audit_matches X q r \<longrightarrow>
         r \<in> set (pg_rows page) \<or> (\<forall>s \<in> set (pg_rows page). au_block r \<le> au_block s))
    \<and> (\<not> pg_has_more page \<longrightarrow> set (pg_rows page) = {r \<in> set (audit_cache w). audit_matches X q r})"
proof -
  let ?all = "newest_first (filter (audit_matches X q) (audit_cache w))"
  let ?k = "page_limit X q"
  let ?page = "page_of ?k (audit_rows X q (audit_cache w))"
  from assms obtain wal where wal: "session_wallet w = Some wal"
    "read_has_permission X w (coerced_value X (aq_org q)) wal (permission_hash X VIEW_AUDIT) = Inr True"
    "resp = ok_no_store (audit_page_json (coerced_value X (aq_org q)) (PUBLIC_EXPLORER_URL public) ?page)"
    by (rule audit_run_ok)
  have rows: "pg_rows ?page = take ?k ?all" by (simp add: page_rows audit_rows_def min_def)
  have more: "pg_has_more ?page \<longleftrightarrow> ?k < length ?all" by (auto simp: page_has_more audit_rows_def)
  have split: "sorted_wrt (\<lambda>r s. au_block s \<le> au_block r) (take ?k ?all @ drop ?k ?all)"
    using newest_first_sorted by (simp only: append_take_drop_id)
  have "r \<in> set (take ?k ?all) \<or> (\<forall>s \<in> set (take ?k ?all). au_block r \<le> au_block s)"
    if "r \<in> set (audit_cache w)" "audit_matches X q r" for r
  proof -
    from that have "r \<in> set ?all" by simp
    moreover have "set ?all = set (take ?k ?all) \<union> set (drop ?k ?all)" by (metis append_take_drop_id set_append)
    ultimately have "r \<in> set (take ?k ?all) \<or> r \<in> set (drop ?k ?all)" by blast
    with split show ?thesis unfolding sorted_wrt_append by blast
  qed
  moreover have "set (take ?k ?all) \<subseteq> set ?all" by (rule set_take_subset)
  moreover have "set ?all = {r \<in> set (audit_cache w). audit_matches X q r}" by simp
  moreover have "\<not> pg_has_more ?page \<Longrightarrow> take ?k ?all = ?all" using more by simp
  ultimately show ?thesis
    using wal split unfolding sorted_wrt_append rows
    by (intro exI[of _ wal] exI[of _ ?page]) (auto simp: rows)
qed

definition demo_audit_row :: "string \<Rightarrow> int \<Rightarrow> int \<Rightarrow> audit_row" where
  "demo_audit_row i block index =
    \<lparr>au_id = i, au_contract = ''AssetNFT'', au_event = ''AssetMinted'', au_org_id = Some 1, au_actor = None,
     au_subject = None, au_token_id = Some 7, au_tx_hash = ''0xt'' @ i, au_block = block, au_log_index = index,
     au_payload = JObj []\<rparr>"

definition demo_audit_query :: audit_query where
  "demo_audit_query =
    \<lparr>aq_org = Some ''1'', aq_event = None, aq_wallet = None, aq_token = None, aq_contract = None,
     aq_limit = Some ''1'', aq_cursor = None\<rparr>"

lemma demo_audit_numbers:
  "coerced_value demo_ext (Some ''1'') = 1" "coerced_positive demo_ext (Some ''1'')"
  "coerced_option demo_ext (Some ''1'') = Some 1" "coerced_option demo_ext (Some ''9'') = Some 9"
  "coerced_in demo_ext p (Some ''1'') = p 1" "coerced_option demo_ext None = None"
  by (simp_all add: coerced_value_def coerced_positive_def coerced_option_def coerced_in_def positive_number_def
        demo_ext_def demo_number_def is_digit_def code_unit_def)

definition demo_audit_world :: world where
  "demo_audit_world = demo_world\<lparr>
     cookie := \<lparr>sd_wallet = Some demo_admin, sd_chain_id = Some 7, sd_issued_at = Some 1900\<rparr>,
     audit_cache := [demo_audit_row ''a'' 9 0, demo_audit_row ''b'' 9 1]\<rparr>"

lemma demo_audit_rows:
  "newest_first [demo_audit_row ''a'' 9 0, demo_audit_row ''b'' 9 1] = [demo_audit_row ''b'' 9 1, demo_audit_row ''a'' 9 0]"
  by (simp add: newest_first_def demo_audit_row_def)

lemma demo_audit_matches: "audit_matches demo_ext demo_audit_query (demo_audit_row i b n)"
  by (simp add: audit_matches_def demo_audit_query_def demo_audit_row_def demo_audit_numbers)

lemma demo_page_limit: "page_limit demo_ext demo_audit_query = 1"
  by (simp add: page_limit_def demo_audit_query_def demo_audit_numbers)

lemma demo_audit_session:
  "session_wallet demo_audit_world = Some demo_admin" "penv demo_audit_world = demo_env"
  "db_fault demo_audit_world = (\<lambda>_. None)" "chain_now demo_audit_world = demo_chain"
  "audit_cache demo_audit_world = [demo_audit_row ''a'' 9 0, demo_audit_row ''b'' 9 1]"
  by (simp_all add: demo_audit_world_def demo_world_def session_wallet_def SESSION_TTL_SECONDS_def
        demo_admin_def demo_address_def)

lemma demo_admin_permitted:
  assumes "session_wallet w = Some demo_admin" and "penv w = demo_env" and "chain_now w = demo_chain"
  shows "require_permission demo_ext 1 p w = (Inr (demo_admin, ADMIN), w)"
  using assms
  by (simp add: require_permission_iff read_identity_def read_has_permission_def read_effective_role_def demo_contracts)
     (simp add: demo_chain_def demo_roles demo_wallet_def demo_admin_def)

theorem audit_page_is_the_newest_matching_witness:
  "\<exists>resp w' page. audit_run demo_ext \<lparr>PUBLIC_CHAIN_ID = 7, PUBLIC_CHAIN_NAME = ''demo'', PUBLIC_RPC_URL = None,
       PUBLIC_EXPLORER_URL = None, PUBLIC_IDENTITY_REGISTRY = [], PUBLIC_ACCESS_MANAGER = [], PUBLIC_ASSET_NFT = []\<rparr>
       demo_audit_query demo_audit_world = (Inr resp, w')
     \<and> resp = ok_no_store (audit_page_json 1 None page) \<and> length (pg_rows page) \<le> 1"
proof -
  let ?pe = "\<lparr>PUBLIC_CHAIN_ID = 7, PUBLIC_CHAIN_NAME = ''demo'', PUBLIC_RPC_URL = None,
       PUBLIC_EXPLORER_URL = None, PUBLIC_IDENTITY_REGISTRY = [], PUBLIC_ACCESS_MANAGER = [], PUBLIC_ASSET_NFT = []\<rparr>"
  have q: "audit_query_ok demo_ext demo_audit_query" "aq_org demo_audit_query = Some ''1''"
    by (simp_all add: audit_query_ok_def demo_audit_query_def demo_audit_numbers) (simp add: coerced_in_def)
  have "\<exists>resp w'. audit_run demo_ext ?pe demo_audit_query demo_audit_world = (Inr resp, w')"
    by (simp add: audit_run_def q demo_audit_numbers seq_def Let_def select_stmt_def demo_db_stmt
          demo_admin_permitted[OF demo_audit_session(1,2,4)] demo_audit_session ret_def)
  then obtain resp w' where "audit_run demo_ext ?pe demo_audit_query demo_audit_world = (Inr resp, w')" by blast
  from audit_page_is_the_newest_matching[OF this] this show ?thesis
    by (auto simp: q demo_audit_numbers demo_page_limit)
qed

text \<open>The next page is asked for by block number alone. With two events in block 9 and one row per
  page, the first page holds the second event and announces more; the page after the cursor it gives
  is empty, so the other event is on no page.\<close>

lemma paging_skips_events_of_a_block:
  "let rows = [demo_audit_row ''a'' 9 0, demo_audit_row ''b'' 9 1];
       first = page_of 1 (audit_rows demo_ext demo_audit_query rows);
       second = page_of 1 (audit_rows demo_ext (demo_audit_query\<lparr>aq_cursor := Some ''9''\<rparr>) rows) in
     pg_rows first = [demo_audit_row ''b'' 9 1] \<and> pg_has_more first \<and> pg_next_cursor first = Some 9
     \<and> pg_rows second = [] \<and> \<not> pg_has_more second"
proof -
  have later: "\<not> audit_matches demo_ext (demo_audit_query\<lparr>aq_cursor := Some ''9''\<rparr>) (demo_audit_row i 9 n)" for i n
    by (simp add: audit_matches_def demo_audit_row_def demo_audit_query_def demo_audit_numbers)
  show ?thesis
    by (simp add: Let_def audit_rows_def demo_audit_rows demo_audit_matches demo_page_limit later page_of_def)
       (simp add: demo_audit_row_def newest_first_def)
qed

end
