(* ===== verification/AssetRules.thy ===== *)
theory AssetRules
  imports ChainReads
begin

text \<open>
  The rules on assets that need no database: who may hold a token id (\<open>lib/asset-binding.ts\<close>), and
  which uploads are images (\<open>lib/asset-image.ts\<close>). A file is a list of bytes.
\<close>

subsection \<open>Claims on a token id\<close>

record existing_claim =
  ec_hash :: string
  ec_contract :: "string option"

datatype claim_verdict = OtherDeployment | Conflict | Release

definition same_hex :: "string \<Rightarrow> string \<Rightarrow> bool" where
  "same_hex a b = (to_lower a = to_lower b)"

definition classify_claim :: "existing_claim \<Rightarrow> string \<Rightarrow> string \<Rightarrow> claim_verdict" where
  "classify_claim claim chain_hash deployment =
    (if truthy (ec_contract claim) \<and> \<not> same_hex (nullish (ec_contract claim) []) deployment then OtherDeployment
     else if same_hex (ec_hash claim) chain_hash then Conflict else Release)"

lemma classify_claim_iff:
  "classify_claim c h d = OtherDeployment \<longleftrightarrow> truthy (ec_contract c) \<and> \<not> same_hex (nullish (ec_contract c) []) d"
  "classify_claim c h d = Conflict \<longleftrightarrow>
     (truthy (ec_contract c) \<longrightarrow> same_hex (nullish (ec_contract c) []) d) \<and> same_hex (ec_hash c) h"
  "classify_claim c h d = Release \<longleftrightarrow>
     (truthy (ec_contract c) \<longrightarrow> same_hex (nullish (ec_contract c) []) d) \<and> \<not> same_hex (ec_hash c) h"
  by (auto simp: classify_claim_def)

subsection \<open>Images\<close>

definition ASSET_IMAGE_MAX_BYTES :: nat where
  "ASSET_IMAGE_MAX_BYTES = 5 * 1024 * 1024"

definition asset_image_types :: "(string \<times> string) list" where
  "asset_image_types = [(''image/png'', ''png''), (''image/jpeg'', ''jpg''), (''image/webp'', ''webp'')]"

definition is_asset_image_type :: "string \<Rightarrow> bool" where
  "is_asset_image_type v = (v \<in> set (map fst asset_image_types))"

definition bytes_at :: "nat \<Rightarrow> nat list \<Rightarrow> string \<Rightarrow> bool" where
  "bytes_at n expected bytes = (map code_unit (take (length expected) (drop n bytes)) = expected)"

definition has_asset_image_signature :: "string \<Rightarrow> string \<Rightarrow> bool" where
  "has_asset_image_signature type bytes =
    (if type = ''image/png'' then 8 \<le> length bytes \<and> bytes_at 0 [137, 80, 78, 71, 13, 10, 26, 10] bytes
     else if type = ''image/jpeg'' then 3 \<le> length bytes \<and> bytes_at 0 [255, 216, 255] bytes
     else 12 \<le> length bytes \<and> take 4 bytes = ''RIFF'' \<and> take 4 (drop 8 bytes) = ''WEBP'')"

text \<open>No file is two of the accepted kinds: the declared type is the only one its bytes allow.\<close>

lemma image_signature_unique:
  assumes "is_asset_image_type s" and "is_asset_image_type t"
    and "has_asset_image_signature s bytes" and "has_asset_image_signature t bytes"
  shows "s = t"
proof -
  have first: "3 \<le> length bytes \<Longrightarrow> bytes = bytes ! 0 # bytes ! 1 # bytes ! 2 # drop 3 bytes"
    by (cases bytes; cases "tl bytes"; cases "tl (tl bytes)") auto
  from assms have len: "3 \<le> length bytes"
    by (auto simp: has_asset_image_signature_def is_asset_image_type_def asset_image_types_def split: if_splits)
  have tag: "code_unit (bytes ! 0) = (if u = ''image/png'' then 137 else if u = ''image/jpeg'' then 255 else 82)"
    if "is_asset_image_type u" "has_asset_image_signature u bytes" for u
    using that first[OF len]
    by (cases bytes)
       (auto simp: has_asset_image_signature_def is_asset_image_type_def asset_image_types_def bytes_at_def
          code_unit_def split: if_splits)
  from tag[OF assms(1,3)] tag[OF assms(2,4)] assms(1,2) show ?thesis
    by (auto simp: is_asset_image_type_def asset_image_types_def split: if_splits)
qed

end
