(* ===== verification/AssetRoutes.thy ===== *)
theory AssetRoutes
  imports AssetRules Session Hashing Privacy
begin

text \<open>
  The asset endpoints: listing and drafting (\<open>api/assets\<close>), binding a draft to a minted token
  (\<open>api/assets/[assetId]/confirm\<close>), the public token metadata (\<open>api/metadata/[ref]\<close>) and the image
  upload (\<open>api/assets/image\<close>). A statement that names a column of migration 0002 fails with the
  unknown-column error on a database without it. The identifier of a new row is drawn as \<open>x_uuid\<close>.
\<close>

subsection \<open>Statements on the asset table\<close>

text \<open>A statement that uses the deployment columns\<close>

definition scoped_stmt :: "(world \<Rightarrow> (db_error + 'a) \<times> world) \<Rightarrow> world \<Rightarrow> (db_error + 'a) \<times> world" where
  "scoped_stmt st w = (if scoped_columns w then st w else (Inl unknown_column, w))"

definition query_stmt :: "(world \<Rightarrow> 'a) \<Rightarrow> world \<Rightarrow> (db_error + 'a) \<times> world" where
  "query_stmt f w = (Inr (f w), w)"

text \<open>Without the columns a row carries no stamp.\<close>

definition unstamped :: "asset_row \<Rightarrow> asset_row" where
  "unstamped r = r\<lparr>as_chain_id := None, as_contract := None\<rparr>"

text \<open>The unique index: per deployment with migration 0002, on the token id alone before it.\<close>

definition token_key :: "bool \<Rightarrow> asset_row \<Rightarrow> (string \<times> int) option" where
  "token_key scoped r =
    (case as_token_id r of
       None \<Rightarrow> None
     | Some t \<Rightarrow> Some (if scoped then nullish (as_contract r) ''unstamped'' else [], t))"

definition tokens_unique :: "bool \<Rightarrow> asset_row list \<Rightarrow> bool" where
  "tokens_unique scoped rows \<longleftrightarrow> distinct (List.map_filter (token_key scoped) rows)"

subsection \<open>GET /api/assets\<close>

definition read_org_rows :: "ext \<Rightarrow> int \<Rightarrow> asset_row list io" where
  "read_org_rows X org_id =
    seq (asks (asset_deployment_of X)) (\<lambda>deployment.
    seq (db_stmt X (scoped_stmt (query_stmt (\<lambda>w. filter (\<lambda>r. as_org_id r = org_id) (assets w))))) (\<lambda>scoped.
    case scoped of
      Inr rows \<Rightarrow> ret (filter (\<lambda>r. \<not> truthy (as_contract r)
                              \<or> to_lower (nullish (as_contract r) []) = dep_contract deployment) rows)
    | Inl err \<Rightarrow>
        if \<not> is_unknown_column err then throw (ApiError 500 ''Could not load assets'' None)
        else seq (db_stmt X (query_stmt (\<lambda>w. filter (\<lambda>r. as_org_id r = org_id) (assets w)))) (\<lambda>legacy.
          case legacy of
            Inl _ \<Rightarrow> throw (ApiError 500 ''Could not load assets'' None)
          | Inr rows \<Rightarrow> ret (map unstamped rows))))"

text \<open>The row shown for a token: a stamped one beats an unstamped one, else the first.\<close>

fun by_token :: "asset_row list \<Rightarrow> (int \<Rightarrow> asset_row option) \<Rightarrow> int \<Rightarrow> asset_row option" where
  "by_token [] held = held"
| "by_token (row # rows) held =
     (case as_token_id row of
        None \<Rightarrow> by_token rows held
      | Some t \<Rightarrow>
          by_token rows
            (if (case held t of None \<Rightarrow> True | Some h \<Rightarrow> \<not> truthy (as_contract h) \<and> truthy (as_contract row))
             then held(t \<mapsto> row) else held))"

definition record_intact :: "asset_row option \<Rightarrow> asset_state \<Rightarrow> bool option" where
  "record_intact row chain = map_option (\<lambda>r. same_hex (as_hash r) (at_asset_hash chain)) row"

definition shown_serial :: "ext \<Rightarrow> process_env \<Rightarrow> bool \<Rightarrow> asset_row option \<Rightarrow> string option" where
  "shown_serial X env can_see row =
    (let serial = (case row of
           None \<Rightarrow> None
         | Some r \<Rightarrow> if truthy (as_serial r) then decrypt_pii X env (as_serial r) else None) in
     if can_see then serial else mask_tail 4 serial)"

definition listed_asset_json :: "ext \<Rightarrow> process_env \<Rightarrow> bool \<Rightarrow> asset_row option \<Rightarrow> asset_state \<Rightarrow> json" where
  "listed_asset_json X env can_see row chain = JObj
    [(''tokenId'', JNum (at_token_id chain)), (''orgId'', JNum (at_org_id chain)), (''owner'', JStr (at_owner chain)),
     (''assignedTo'', JStr (at_assigned_to chain)), (''active'', JBool (at_active chain)),
     (''mintedAt'', JNum (at_minted_at chain)), (''transferCount'', JNum (at_transfer_count chain)),
     (''assetHash'', JStr (at_asset_hash chain)),
     (''name'', JStr (case row of None \<Rightarrow> ''Asset #'' @ show_int (at_token_id chain) | Some r \<Rightarrow> as_name r)),
     (''description'', jnullable (Option.bind row as_description)),
     (''assetType'', JStr (case row of None \<Rightarrow> ''Unknown'' | Some r \<Rightarrow> as_type r)),
     (''department'', jnullable (Option.bind row as_department)),
     (''imageUrl'', jnullable (Option.bind row as_image_url)),
     (''metadataUri'', jnullable (map_option as_metadata_uri row)),
     (''serialNumber'', jnullable (shown_serial X env can_see row)),
     (''recordIntact'', jnullable_bool (record_intact row chain)),
     (''hasOffChainRecord'', JBool (row \<noteq> None))]"

definition pending_json :: "ext \<Rightarrow> asset_row \<Rightarrow> json" where
  "pending_json X r = JObj
    [(''id'', JStr (as_id r)), (''name'', JStr (as_name r)), (''assetType'', JStr (as_type r)),
     (''assetHash'', JStr (as_hash r)), (''metadataUri'', JStr (as_metadata_uri r)),
     (''createdAt'', JStr (x_iso X (as_created_at r)))]"

definition can_see_serials :: "role_name \<Rightarrow> bool" where
  "can_see_serials role = (role = ADMIN \<or> role = MANAGER)"

definition assets_list_run :: "ext \<Rightarrow> string option \<Rightarrow> response io" where
  "assets_list_run X org_param =
    (let org_id = coerced_value X org_param in
     seq (guard_io (coerced_positive X org_param) (bad_request ''orgId is required'')) (\<lambda>_.
     seq (require_member X org_id) (\<lambda>(caller, role).
     seq (asks (\<lambda>w. read_assets_of_organization X w org_id)) (\<lambda>token_ids.
     seq (read_org_rows X org_id) (\<lambda>rows.
     seq (asks (\<lambda>w. map_res (read_asset X w) token_ids)) (\<lambda>chain_assets.
     seq (gets penv) (\<lambda>env.
     let held = by_token rows (\<lambda>_. None);
         listed = map (\<lambda>chain. listed_asset_json X env (can_see_serials role) (held (at_token_id chain)) chain)
                      (List.map_filter id chain_assets);
         pending = map (pending_json X) (filter (\<lambda>r. as_token_id r = None) rows) in
     ret (ok_no_store (JObj [(''orgId'', JNum org_id), (''count'', JNum (int (length listed))),
                             (''assets'', JArr listed), (''pending'', JArr pending)])))))))))"

definition assets_list_get :: "ext \<Rightarrow> string option \<Rightarrow> world \<Rightarrow> response \<times> world" where
  "assets_list_get X org_param = handler (assets_list_run X org_param)"

subsection \<open>POST /api/assets\<close>

definition ASSET_TYPES :: "string list" where
  "ASSET_TYPES = [''Laptop'', ''Certificate'', ''Software License'', ''Equipment'', ''Vehicle'', ''Document'', ''Other'']"

definition draft_issues :: "ext \<Rightarrow> json \<Rightarrow> issue list" where
  "draft_issues X j =
    (if \<not> is_object j then field_issue X [] False
     else field_issue X ''orgId'' (positive_field (obj_get j ''orgId''))
      @ field_issue X ''name'' (text_field 2 120 (obj_get j ''name''))
      @ field_issue X ''assetType'' (regex_field (\<lambda>s. s \<in> set ASSET_TYPES) (obj_get j ''assetType''))
      @ field_issue X ''description'' (optional_field (text_field 0 1000) (obj_get j ''description''))
      @ field_issue X ''department'' (optional_field (text_field 0 80) (obj_get j ''department''))
      @ field_issue X ''imageUrl'' (optional_field (regex_field (\<lambda>s. x_parse_url X s \<noteq> None)) (obj_get j ''imageUrl''))
      @ field_issue X ''serialNumber'' (optional_field (text_field 0 120) (obj_get j ''serialNumber''))
      @ field_issue X ''invoiceReference'' (optional_field (text_field 0 120) (obj_get j ''invoiceReference'')))"

definition draft_record :: "json \<Rightarrow> asset_record" where
  "draft_record b =
    \<lparr>ar_org_id = int_of_field (obj_get b ''orgId''), ar_name = text_of (obj_get b ''name''),
     ar_type = text_of (obj_get b ''assetType''), ar_serial = optional_text (obj_get b ''serialNumber''),
     ar_invoice = optional_text (obj_get b ''invoiceReference''),
     ar_department = optional_text (obj_get b ''department'')\<rparr>"

text \<open>\<open>insert(...).select("id").single()\<close>: the row and its new identifier\<close>

definition insert_asset :: "ext \<Rightarrow> asset_row \<Rightarrow> world \<Rightarrow> (db_error + string) \<times> world" where
  "insert_asset X row w =
    (let i = x_uuid X (draws w) in
     (Inr i, w\<lparr>assets := assets w @ [row\<lparr>as_id := i, as_created_at := clock w\<rparr>], draws := Suc (draws w)\<rparr>))"

definition draft_row :: "ext \<Rightarrow> json \<Rightarrow> string option \<Rightarrow> string option \<Rightarrow> string \<Rightarrow> asset_row" where
  "draft_row X b serial invoice creator =
    \<lparr>as_id = [], as_token_id = None, as_chain_id = None, as_contract = None,
     as_org_id = int_of_field (obj_get b ''orgId''), as_name = text_of (obj_get b ''name''),
     as_description = optional_text (obj_get b ''description''), as_type = text_of (obj_get b ''assetType''),
     as_department = optional_text (obj_get b ''department''), as_image_url = optional_text (obj_get b ''imageUrl''),
     as_serial = serial, as_invoice = invoice, as_hash = hash_asset_record X (draft_record b),
     as_metadata_uri = ''pending'', as_mint_tx = None, as_created_by = normalize_address creator, as_created_at = 0\<rparr>"

text \<open>The stamped insert, and the one without the deployment columns when the database lacks them\<close>

definition insert_draft :: "ext \<Rightarrow> asset_deployment \<Rightarrow> asset_row \<Rightarrow> (db_error + string) io" where
  "insert_draft X deployment record =
    seq (db_stmt X (scoped_stmt (insert_asset X
           (record\<lparr>as_chain_id := Some (dep_chain_id deployment), as_contract := Some (dep_contract deployment)\<rparr>)))) (\<lambda>first.
    case first of
      Inl err \<Rightarrow> if is_unknown_column err then db_stmt X (insert_asset X record) else ret (Inl err)
    | Inr i \<Rightarrow> ret (Inr i))"

definition metadata_uri_of :: "server_env \<Rightarrow> string \<Rightarrow> string" where
  "metadata_uri_of env created = APP_ORIGIN env @ ''/api/metadata/'' @ created"

definition draft_json :: "int \<Rightarrow> string \<Rightarrow> string \<Rightarrow> string \<Rightarrow> json" where
  "draft_json org_id asset_hash metadata_uri created = JObj
    [(''assetId'', JStr created), (''assetHash'', JStr asset_hash), (''metadataUri'', JStr metadata_uri),
     (''mintArgs'', JObj [(''orgId'', JNum org_id), (''assetHash'', JStr asset_hash), (''metadataURI'', JStr metadata_uri)]),
     (''note'', JStr ''Call AssetNFT.mintAsset(orgId, assignedTo, assetHash, metadataURI) from the wallet, then POST /api/assets/<assetId>/confirm'')]"

definition assets_create_run :: "ext \<Rightarrow> json option \<Rightarrow> response io" where
  "assets_create_run X body =
    seq (read_json body) (\<lambda>raw.
    seq (lift_res (zod (draft_issues X raw) raw)) (\<lambda>b.
    let org_id = int_of_field (obj_get b ''orgId''); asset_hash = hash_asset_record X (draft_record b) in
    seq (require_permission X org_id MINT_ASSETS) (\<lambda>(caller, role).
    seq (asks (asset_deployment_of X)) (\<lambda>deployment.
    seq (encrypt_pii X (optional_text (obj_get b ''serialNumber''))) (\<lambda>serial.
    seq (encrypt_pii X (optional_text (obj_get b ''invoiceReference''))) (\<lambda>invoice.
    let record = draft_row X b serial invoice caller in
    seq (insert_draft X deployment record) (\<lambda>inserted.
    case inserted of
      Inl err \<Rightarrow> throw (ApiError 500 (''Could not create asset draft: '' @ db_message err) None)
    | Inr created \<Rightarrow>
      seq (server_env_io X) (\<lambda>env.
      let metadata_uri = metadata_uri_of env created in
      seq (db_stmt X (\<lambda>w. (Inr (), w\<lparr>assets := update_where (\<lambda>r. as_id r = created)
             (\<lambda>r. r\<lparr>as_metadata_uri := metadata_uri\<rparr>) (assets w)\<rparr>))) (\<lambda>_.
      ret (ok_no_store (draft_json org_id asset_hash metadata_uri created)))))))))))"

definition assets_create_post :: "ext \<Rightarrow> json option \<Rightarrow> world \<Rightarrow> response \<times> world" where
  "assets_create_post X body = handler (assets_create_run X body)"

subsection \<open>POST /api/assets/[assetId]/confirm\<close>

definition confirm_issues :: "ext \<Rightarrow> json \<Rightarrow> issue list" where
  "confirm_issues X j =
    (if \<not> is_object j then field_issue X [] False
     else field_issue X ''tokenId'' (positive_field (obj_get j ''tokenId''))
      @ field_issue X ''txHash'' (regex_field is_tx_hash (obj_get j ''txHash'')))"

definition claim_failure :: "int \<Rightarrow> exn" where
  "claim_failure token = ApiError 500 (''Could not check what already claims token #'' @ show_int token) None"

definition claims_on :: "int \<Rightarrow> string \<Rightarrow> world \<Rightarrow> asset_row list" where
  "claims_on token keep w = filter (\<lambda>r. as_token_id r = Some token \<and> as_id r \<noteq> keep) (assets w)"

definition read_claims :: "ext \<Rightarrow> int \<Rightarrow> string \<Rightarrow> asset_row list io" where
  "read_claims X token keep =
    seq (db_stmt X (scoped_stmt (query_stmt (claims_on token keep)))) (\<lambda>scoped.
    case scoped of
      Inr rows \<Rightarrow> ret rows
    | Inl err \<Rightarrow>
        if \<not> is_unknown_column err then throw (claim_failure token)
        else seq (db_stmt X (query_stmt (claims_on token keep))) (\<lambda>legacy.
          case legacy of Inl _ \<Rightarrow> throw (claim_failure token) | Inr rows \<Rightarrow> ret (map unstamped rows)))"

definition claim_of :: "asset_row \<Rightarrow> existing_claim" where
  "claim_of r = \<lparr>ec_hash = as_hash r, ec_contract = as_contract r\<rparr>"

definition release_row :: "string \<Rightarrow> int \<Rightarrow> asset_row list \<Rightarrow> asset_row list" where
  "release_row i token rows =
    update_where (\<lambda>r. as_id r = i \<and> as_token_id r = Some token)
      (\<lambda>r. r\<lparr>as_token_id := None, as_mint_tx := None\<rparr>) rows"

fun release_claims :: "ext \<Rightarrow> int \<Rightarrow> string \<Rightarrow> string \<Rightarrow> asset_row list \<Rightarrow> unit io" where
  "release_claims X token chain_hash contract [] = ret ()"
| "release_claims X token chain_hash contract (c # cs) =
    (case classify_claim (claim_of c) chain_hash contract of
       OtherDeployment \<Rightarrow> release_claims X token chain_hash contract cs
     | Conflict \<Rightarrow> throw (conflict
         (''Token #'' @ show_int token @ '' is already bound to another record ('' @ [CHR 0x22] @ as_name c
          @ [CHR 0x22] @ '') with the same anchor. Nothing was changed. Delete or rebind that record if this draft should own the token.''))
     | Release \<Rightarrow>
         seq (db_stmt X (\<lambda>w. (Inr (), w\<lparr>assets := release_row (as_id c) token (assets w)\<rparr>))) (\<lambda>r.
         case r of
           Inl _ \<Rightarrow> throw (ApiError 500 (''Could not release a stale claim on token #'' @ show_int token) None)
         | Inr _ \<Rightarrow> release_claims X token chain_hash contract cs))"

definition release_contradicted_claims :: "ext \<Rightarrow> int \<Rightarrow> string \<Rightarrow> string \<Rightarrow> string \<Rightarrow> unit io" where
  "release_contradicted_claims X token chain_hash keep contract =
    seq (read_claims X token keep) (release_claims X token chain_hash contract)"

text \<open>The conditional update and the unique index: the identifiers of the rows it changed.\<close>

definition bind_rows :: "string \<Rightarrow> (asset_row \<Rightarrow> asset_row) \<Rightarrow> world \<Rightarrow> (db_error + string list) \<times> world" where
  "bind_rows i stamp w =
    (let p = (\<lambda>r. as_id r = i \<and> as_token_id r = None); rows = update_where p stamp (assets w) in
     if filter p (assets w) \<noteq> [] \<and> \<not> tokens_unique (scoped_columns w) rows then (Inl unique_violation, w)
     else (Inr (map as_id (filter p (assets w))), w\<lparr>assets := rows\<rparr>))"

definition bind_token :: "ext \<Rightarrow> string \<Rightarrow> int \<Rightarrow> string \<Rightarrow> asset_deployment \<Rightarrow> unit io" where
  "bind_token X i token tx deployment =
    (let binding = (\<lambda>r. r\<lparr>as_token_id := Some token, as_mint_tx := Some tx\<rparr>);
         stamped = (\<lambda>r. (binding r)\<lparr>as_chain_id := Some (dep_chain_id deployment), as_contract := Some (dep_contract deployment)\<rparr>) in
     seq (db_stmt X (scoped_stmt (bind_rows i stamped))) (\<lambda>first.
     seq (case first of
            Inl err \<Rightarrow> if is_unknown_column err then db_stmt X (bind_rows i binding) else ret (Inl err)
          | Inr ids \<Rightarrow> ret (Inr ids)) (\<lambda>result.
     case result of
       Inl err \<Rightarrow>
         if is_unique_violation err
         then throw (conflict (''Token #'' @ show_int token
                @ '' is already recorded against another asset, so this record was left unbound. Run '' @ [CHR 0x22] @ ''npm run repair:assets'' @ [CHR 0x22] @ '' to reconcile the store with ''
                @ dep_contract deployment @ ''.''))
         else throw (ApiError 500 (''Could not bind token #'' @ show_int token) None)
     | Inr ids \<Rightarrow>
         if ids = []
         then throw (conflict (''Token #'' @ show_int token
                @ '' was not bound: this record stopped being a draft while the mint was confirming.''))
         else ret ())))"

definition confirm_run :: "ext \<Rightarrow> string \<Rightarrow> json option \<Rightarrow> response io" where
  "confirm_run X asset_id body =
    seq (read_json body) (\<lambda>raw.
    seq (lift_res (zod (confirm_issues X raw) raw)) (\<lambda>b.
    let token = int_of_field (obj_get b ''tokenId''); tx = text_of (obj_get b ''txHash'') in
    seq (asks (asset_deployment_of X)) (\<lambda>deployment.
    seq (select_one X (\<lambda>w. filter (\<lambda>r. as_id r = asset_id) (assets w))) (\<lambda>found.
    case found of
      Inl _ \<Rightarrow> throw (ApiError 500 ''Could not load asset draft'' None)
    | Inr None \<Rightarrow> throw (not_found ''Asset draft not found'')
    | Inr (Some draft) \<Rightarrow>
      seq (case as_token_id draft of
             Some t \<Rightarrow> throw (bad_request (''This asset is already bound to token #'' @ show_int t))
           | None \<Rightarrow> ret ()) (\<lambda>_.
      seq (require_permission X (as_org_id draft) MINT_ASSETS) (\<lambda>_.
      seq (asks (\<lambda>w. read_asset X w token)) (\<lambda>seen.
      case seen of
        None \<Rightarrow> throw (bad_request (''Token #'' @ show_int token @ '' does not exist on-chain yet''))
      | Some chain \<Rightarrow>
        seq (guard_io (at_org_id chain = as_org_id draft) (bad_request ''That token belongs to a different organization'')) (\<lambda>_.
        seq (guard_io (same_hex (at_asset_hash chain) (as_hash draft))
               (bad_request (''On-chain asset hash does not match this draft '' @ [em_dash] @ '' refusing to bind''))) (\<lambda>_.
        seq (release_contradicted_claims X token (at_asset_hash chain) asset_id (dep_contract deployment)) (\<lambda>_.
        seq (bind_token X asset_id token tx deployment) (\<lambda>_.
        ret (ok_no_store (JObj
          [(''assetId'', JStr asset_id), (''tokenId'', JNum token), (''txHash'', JStr tx), (''owner'', JStr (at_owner chain)),
           (''assignedTo'', JStr (at_assigned_to chain)), (''assetHash'', JStr (at_asset_hash chain)),
           (''verified'', JBool True)])))))))))))))"

definition confirm_post :: "ext \<Rightarrow> string \<Rightarrow> json option \<Rightarrow> world \<Rightarrow> response \<times> world" where
  "confirm_post X asset_id body = handler (confirm_run X asset_id body)"

subsection \<open>GET /api/metadata/[ref]\<close>

text \<open>\<open>/^[0-9a-f]{8}-[0-9a-f]{4}-[0-9a-f]{4}-[0-9a-f]{4}-[0-9a-f]{12}$/i\<close>\<close>

definition is_uuid :: "string \<Rightarrow> bool" where
  "is_uuid s = (map length (split_on CHR ''-'' s) = [8, 4, 4, 4, 12]
                \<and> list_all (list_all is_hex_digit) (split_on CHR ''-'' s))"

definition token_rows :: "int \<Rightarrow> string \<Rightarrow> asset_row list \<Rightarrow> asset_row list" where
  "token_rows token contract rows =
    (let mine = filter (\<lambda>r. as_token_id r = Some token \<and> (as_contract r = None \<or> as_contract r = Some contract)) rows in
     take 1 (filter (\<lambda>r. as_contract r \<noteq> None) mine @ filter (\<lambda>r. as_contract r = None) mine))"

definition read_row_by_token :: "ext \<Rightarrow> int \<Rightarrow> asset_row option io" where
  "read_row_by_token X token =
    seq (asks (asset_deployment_of X)) (\<lambda>deployment.
    seq (db_stmt X (scoped_stmt (query_stmt (\<lambda>w. token_rows token (dep_contract deployment) (assets w))))) (\<lambda>scoped.
    case scoped of
      Inr rows \<Rightarrow> ret (case rows of [] \<Rightarrow> None | r # _ \<Rightarrow> Some r)
    | Inl err \<Rightarrow>
        if \<not> is_unknown_column err then ret None
        else seq (db_stmt X (query_stmt (\<lambda>w. take 1 (filter (\<lambda>r. as_token_id r = Some token) (assets w))))) (\<lambda>legacy.
          ret (case legacy of Inr (r # _) \<Rightarrow> Some r | _ \<Rightarrow> None))))"

definition trait :: "string \<Rightarrow> json \<Rightarrow> json" where
  "trait t v = JObj [(''trait_type'', JStr t), (''value'', v)]"

definition metadata_json :: "asset_row \<Rightarrow> asset_state option \<Rightarrow> string option \<Rightarrow> json" where
  "metadata_json row chain org_name = JObj
    [(''name'', JStr (as_name row)),
     (''description'', JStr (nullish (as_description row)
        (as_type row @ '' issued by '' @ nullish org_name ''an organization'' @ '' on OwneX.''))),
     (''image'', jnullable (as_image_url row)),
     (''external_url'', case as_token_id row of None \<Rightarrow> JNull | Some t \<Rightarrow> JStr (''/asset/'' @ show_int t)),
     (''attributes'', JArr
        ([trait ''Asset Type'' (JStr (as_type row))]
         @ (if truthy (as_department row) then [trait ''Department'' (JStr (nullish (as_department row) []))] else [])
         @ (if truthy org_name then [trait ''Organization'' (JStr (nullish org_name []))] else [])
         @ (case chain of None \<Rightarrow> []
            | Some c \<Rightarrow> [trait ''Status'' (JStr (if at_active c then ''Active'' else ''Revoked'')),
                         trait ''Transfers'' (JNum (at_transfer_count c))]))),
     (''asset_hash'', JStr (as_hash row)),
     (''ownex'', JObj
        [(''tokenId'', jnullable_int (as_token_id row)), (''orgId'', JNum (as_org_id row)),
         (''holder'', jnullable (map_option at_owner chain)), (''active'', jnullable_bool (map_option at_active chain)),
         (''schema'', JStr ''ownex/asset-metadata/1'')])]"

definition metadata_row :: "ext \<Rightarrow> string \<Rightarrow> asset_row option io" where
  "metadata_row X ref =
    (if is_uuid ref
     then seq (select_one X (\<lambda>w. filter (\<lambda>r. as_id r = ref) (assets w))) (\<lambda>found.
            ret (case found of Inr (Some r) \<Rightarrow> Some r | _ \<Rightarrow> None))
     else seq (guard_io (positive_number X ref) (bad_request ''Reference must be a token id or a draft id'')) (\<lambda>_.
            read_row_by_token X (nullish (x_number X ref) 0)))"

definition metadata_run :: "ext \<Rightarrow> string \<Rightarrow> response io" where
  "metadata_run X ref =
    seq (metadata_row X ref) (\<lambda>row.
    case row of
      None \<Rightarrow> throw (not_found ''No metadata for that asset'')
    | Some r \<Rightarrow>
      seq (gets (\<lambda>w. case as_token_id r of
             None \<Rightarrow> None
           | Some t \<Rightarrow> (case read_asset X w t of Inr a \<Rightarrow> a | Inl _ \<Rightarrow> None))) (\<lambda>chain.
      seq (select_one X (\<lambda>w. map og_name (filter (\<lambda>o'. og_org_id o' = as_org_id r) (organizations w)))) (\<lambda>org.
      ret (json_response 200 (metadata_json r chain (case org of Inr n \<Rightarrow> n | Inl _ \<Rightarrow> None))))))"

definition metadata_get :: "ext \<Rightarrow> string \<Rightarrow> world \<Rightarrow> response \<times> world" where
  "metadata_get X ref = handler (metadata_run X ref)"

subsection \<open>POST /api/assets/image\<close>

record image_file =
  fi_type :: string
  fi_bytes :: string

record image_form =
  fo_org :: "string option"
  fo_image :: "image_file option"

definition upload_object :: "stored_object \<Rightarrow> world \<Rightarrow> (db_error + unit) \<times> world" where
  "upload_object ob w =
    (if ob_path ob \<in> ob_path ` set (objects w)
     then (Inl \<lparr>db_code = Some ''Duplicate'', db_message = ''The resource already exists''\<rparr>, w)
     else (Inr (), w\<lparr>objects := objects w @ [ob]\<rparr>))"

definition image_run :: "ext \<Rightarrow> (string \<Rightarrow> string) \<Rightarrow> image_form option \<Rightarrow> response io" where
  "image_run X public_url form =
    (case form of
       None \<Rightarrow> throw (bad_request ''Image upload must use multipart form data'')
     | Some f \<Rightarrow>
       seq (lift_res (zod (field_issue X ''orgId'' (coerced_positive X (fo_org f))) (coerced_value X (fo_org f)))) (\<lambda>org_id.
       seq (require_permission X org_id MINT_ASSETS) (\<lambda>_.
       case fo_image f of
         None \<Rightarrow> throw (bad_request ''Choose an image file to upload'')
       | Some file \<Rightarrow>
         seq (guard_io (is_asset_image_type (fi_type file)) (bad_request ''Only PNG, JPEG, and WebP images are allowed'')) (\<lambda>_.
         seq (guard_io (length (fi_bytes file) \<noteq> 0) (bad_request ''The image file is empty'')) (\<lambda>_.
         seq (guard_io (length (fi_bytes file) \<le> ASSET_IMAGE_MAX_BYTES) (bad_request ''Image files must be 5 MB or smaller'')) (\<lambda>_.
         seq (guard_io (has_asset_image_signature (fi_type file) (fi_bytes file))
                (bad_request ''The file contents do not match the declared image type'')) (\<lambda>_.
         seq draw (\<lambda>k.
         let path = show_int org_id @ ''/'' @ x_uuid X k @ ''.'' @ nullish (map_of asset_image_types (fi_type file)) [] in
         seq (db_stmt X (upload_object \<lparr>ob_path = path, ob_type = fi_type file, ob_bytes = fi_bytes file\<rparr>)) (\<lambda>r.
         case r of
           Inl err \<Rightarrow>
             if text_includes ''bucket not found'' (to_lower (db_message err))
             then throw (ApiError 500 ''Asset image storage is not configured; create the asset-images bucket first'' None)
             else throw (ApiError 500 ''Could not upload the image'' None)
         | Inr _ \<Rightarrow>
             ret (ok_no_store (JObj [(''url'', JStr (public_url path)), (''path'', JStr path),
               (''contentType'', JStr (fi_type file)), (''size'', JNum (int (length (fi_bytes file))))])))))))))))"

definition image_post :: "ext \<Rightarrow> (string \<Rightarrow> string) \<Rightarrow> image_form option \<Rightarrow> world \<Rightarrow> response \<times> world" where
  "image_post X public_url form = handler (image_run X public_url form)"

end
