(* ===== verification/AssetProps.thy ===== *)
theory AssetProps
  imports AssetRoutes
begin

text \<open>
  What the asset endpoints guarantee: a draft is bound only to the token whose on-chain anchor is its
  own, a binding releases exactly the claims the chain contradicts, no two rows of a deployment hold a
  token, the public metadata does not depend on a confidential field, and only a file of a declared
  image type reaches the bucket.
\<close>

subsection \<open>Statements that may fail\<close>

text \<open>A database reports an unknown column only when the column is missing.\<close>

definition honest_columns :: "world \<Rightarrow> bool" where
  "honest_columns w \<longleftrightarrow> (\<forall>k e. db_fault w k = Some e \<longrightarrow> \<not> is_unknown_column e)"

lemma unknown_column_code [simp]: "is_unknown_column unknown_column" "\<not> is_unknown_column unique_violation"
  by (simp_all add: is_unknown_column_def unknown_column_def unique_violation_def)

lemma scoped_query_cases:
  assumes "db_stmt X (scoped_stmt (query_stmt f)) w = (Inr r, w1)" and "honest_columns w"
    and "\<And>n. f (w\<lparr>db_calls := n\<rparr>) = f w"
  shows "\<exists>n. w1 = w\<lparr>db_calls := n\<rparr>"
    and "r = Inr v \<Longrightarrow> v = f w \<and> scoped_columns w"
    and "r = Inl e \<Longrightarrow> is_unknown_column e \<Longrightarrow> \<not> scoped_columns w"
  using db_stmt_cases[OF assms(1)] assms(2,3)
  by (auto simp: scoped_stmt_def query_stmt_def honest_columns_def split: if_splits)

lemma query_cases:
  assumes "db_stmt X (query_stmt f) w = (Inr r, w1)" and "\<And>n. f (w\<lparr>db_calls := n\<rparr>) = f w"
  shows "\<exists>n. w1 = w\<lparr>db_calls := n\<rparr>" and "r = Inr v \<Longrightarrow> v = f w"
  using db_stmt_cases[OF assms(1)] assms(2) by (auto simp: query_stmt_def)

lemma honest_counter [simp]: "honest_columns (w\<lparr>db_calls := n\<rparr>) = honest_columns w"
  by (simp add: honest_columns_def)

text \<open>The rows as the database shows them, with or without the deployment columns.\<close>

definition visible_row :: "bool \<Rightarrow> asset_row \<Rightarrow> asset_row" where
  "visible_row scoped r = (if scoped then r else unstamped r)"

lemma unstamped_simps [simp]:
  "as_id (unstamped r) = as_id r" "as_token_id (unstamped r) = as_token_id r" "as_hash (unstamped r) = as_hash r"
  "as_contract (unstamped r) = None"
  by (simp_all add: unstamped_def)

lemma visible_simps [simp]:
  "as_id (visible_row s r) = as_id r" "as_token_id (visible_row s r) = as_token_id r"
  by (simp_all add: visible_row_def)

lemma read_claims_Inr:
  assumes "read_claims X token keep w = (Inr cs, w1)" and "honest_columns w"
  shows "cs = map (visible_row (scoped_columns w)) (claims_on token keep w) \<and> (\<exists>n. w1 = w\<lparr>db_calls := n\<rparr>)"
proof -
  have f: "claims_on token keep (w\<lparr>db_calls := n\<rparr>) = claims_on token keep w" for n by (simp add: claims_on_def)
  from assms(1) obtain r w2 where st: "db_stmt X (scoped_stmt (query_stmt (claims_on token keep))) w = (Inr r, w2)"
    unfolding read_claims_def by (auto simp: io_iff)
  from scoped_query_cases(1)[OF st assms(2) f] obtain n where w2: "w2 = w\<lparr>db_calls := n\<rparr>" by blast
  show ?thesis
  proof (cases r)
    case (Inr rows)
    with assms(1) st have "cs = rows" "w1 = w2" by (auto simp: read_claims_def seq_def ret_def)
    with scoped_query_cases(2)[OF st assms(2) f Inr] w2 show ?thesis
      by (auto simp: visible_row_def map_idI)
  next
    case (Inl e)
    with assms(1) st obtain rows where u: "is_unknown_column e" and
      leg: "db_stmt X (query_stmt (claims_on token keep)) w2 = (Inr (Inr rows), w1)" and cs: "cs = map unstamped rows"
      by (auto simp: read_claims_def io_iff)
    have g: "claims_on token keep (w2\<lparr>db_calls := n\<rparr>) = claims_on token keep w2" for n by (simp add: claims_on_def)
    from query_cases[OF leg g] have "rows = claims_on token keep w2" "\<exists>n. w1 = w2\<lparr>db_calls := n\<rparr>" by auto
    with scoped_query_cases(3)[OF st assms(2) f Inl u] cs w2 show ?thesis
      by (auto simp: visible_row_def[abs_def] claims_on_def)
  qed
qed

subsection \<open>Releasing contradicted claims\<close>

definition released :: "asset_row \<Rightarrow> asset_row" where
  "released r = r\<lparr>as_token_id := None, as_mint_tx := None\<rparr>"

lemma released_simps [simp]: "as_id (released r) = as_id r" "as_token_id (released r) = None"
  by (simp_all add: released_def)

definition release_all :: "int \<Rightarrow> (string \<Rightarrow> bool) \<Rightarrow> asset_row list \<Rightarrow> asset_row list" where
  "release_all token stale rows =
    map (\<lambda>r. if as_token_id r = Some token \<and> stale (as_id r) then released r else r) rows"

lemma release_row_all: "release_row i token rows = release_all token (\<lambda>j. j = i) rows"
  by (auto simp: release_row_def release_all_def update_where_def released_def)

lemma release_all_compose:
  "release_all token p (release_all token q rows) = release_all token (\<lambda>i. q i \<or> p i) rows"
  by (auto simp: release_all_def)

lemma release_claims_Inr:
  assumes "release_claims X token h contract cs w = (Inr u, w1)"
  shows "(\<forall>c \<in> set cs. classify_claim (claim_of c) h contract \<noteq> Conflict)
    \<and> (\<exists>n. w1 = w\<lparr>db_calls := n, assets := release_all token
          (\<lambda>i. \<exists>c \<in> set cs. as_id c = i \<and> classify_claim (claim_of c) h contract = Release) (assets w)\<rparr>)"
  using assms
proof (induction cs arbitrary: w)
  case Nil
  then show ?case by (auto simp: ret_def release_all_def intro!: exI[of _ "db_calls w"])
next
  case (Cons c cs)
  show ?case
  proof (cases "classify_claim (claim_of c) h contract")
    case OtherDeployment
    with Cons.prems Cons.IH[of w] show ?thesis by simp
  next
    case Conflict
    with Cons.prems show ?thesis by (simp add: throw_def)
  next
    case Release
    with Cons.prems obtain v w2 where
      st: "db_stmt X (\<lambda>w. (Inr (), w\<lparr>assets := release_row (as_id c) token (assets w)\<rparr>)) w = (Inr (Inr v), w2)"
      and rest: "release_claims X token h contract cs w2 = (Inr u, w1)"
      by (auto simp: io_iff)
    from db_stmt_cases[OF st] have w2: "w2 = w\<lparr>db_calls := Suc (db_calls w), assets := release_row (as_id c) token (assets w)\<rparr>"
      by auto
    have "(\<lambda>i. i = as_id c \<or> (\<exists>c\<in>set cs. as_id c = i \<and> classify_claim (claim_of c) h contract = Release))
      = (\<lambda>i. \<exists>c\<in>set (c # cs). as_id c = i \<and> classify_claim (claim_of c) h contract = Release)"
      using Release by auto
    with Cons.IH[OF rest] Release show ?thesis
      by (auto simp: w2 release_row_all release_all_compose)
  qed
qed

subsection \<open>Binding\<close>

definition binding_of :: "bool \<Rightarrow> int \<Rightarrow> string \<Rightarrow> asset_deployment \<Rightarrow> asset_row \<Rightarrow> asset_row" where
  "binding_of scoped token tx d r =
    (if scoped then r\<lparr>as_token_id := Some token, as_mint_tx := Some tx, as_chain_id := Some (dep_chain_id d),
                      as_contract := Some (dep_contract d)\<rparr>
     else r\<lparr>as_token_id := Some token, as_mint_tx := Some tx\<rparr>)"

lemma binding_simps [simp]:
  "as_id (binding_of s t x d r) = as_id r" "as_token_id (binding_of s t x d r) = Some t"
  "as_hash (binding_of s t x d r) = as_hash r" "as_org_id (binding_of s t x d r) = as_org_id r"
  by (simp_all add: binding_of_def)

definition bind_all :: "string \<Rightarrow> (asset_row \<Rightarrow> asset_row) \<Rightarrow> asset_row list \<Rightarrow> asset_row list" where
  "bind_all i stamp rows = map (\<lambda>r. if as_id r = i \<and> as_token_id r = None then stamp r else r) rows"

lemma bind_rows_Inr:
  assumes "bind_rows i stamp v = (Inr ids, v')" and "ids \<noteq> []"
  shows "v' = v\<lparr>assets := bind_all i stamp (assets v)\<rparr> \<and> tokens_unique (scoped_columns v) (assets v')
    \<and> (\<exists>r \<in> set (assets v). as_id r = i \<and> as_token_id r = None)"
  using assms
  by (auto simp: bind_rows_def Let_def bind_all_def update_where_def filter_empty_conv split: if_splits)

lemma bind_token_Inr:
  assumes "bind_token X i token tx d w = (Inr u, w1)" and "honest_columns w"
  shows "\<exists>n. w1 = w\<lparr>db_calls := n, assets := bind_all i (binding_of (scoped_columns w) token tx d) (assets w)\<rparr>"
    and "tokens_unique (scoped_columns w) (assets w1)"
    and "\<exists>r \<in> set (assets w). as_id r = i \<and> as_token_id r = None"
proof -
  let ?binding = "\<lambda>r. r\<lparr>as_token_id := Some token, as_mint_tx := Some tx\<rparr>"
  let ?stamped = "\<lambda>r. (?binding r)\<lparr>as_chain_id := Some (dep_chain_id d), as_contract := Some (dep_contract d)\<rparr>"
  let ?first = "scoped_stmt (bind_rows i ?stamped)" and ?second = "bind_rows i ?binding"
  have stamps: "?stamped = binding_of True token tx d" "?binding = binding_of False token tx d"
    by (auto simp: binding_of_def)
  from assms(1) obtain r w2 ids where st: "db_stmt X ?first w = (Inr r, w2)" and ids: "ids \<noteq> []"
    and rest: "r = Inr ids \<and> w1 = w2 \<or> (\<exists>e. r = Inl e \<and> is_unknown_column e \<and> db_stmt X ?second w2 = (Inr (Inr ids), w1))"
    unfolding bind_token_def Let_def by (auto simp: io_iff)
  have "\<exists>v st. bind_rows i (binding_of (scoped_columns w) token tx d) v = (Inr ids, w1) \<and> (\<exists>n. v = w\<lparr>db_calls := n\<rparr>)"
  proof (cases r)
    case (Inr ids')
    with rest have "r = Inr ids" "w1 = w2" by auto
    with db_stmt_cases[OF st] have "scoped_columns w" "bind_rows i ?stamped (w\<lparr>db_calls := Suc (db_calls w)\<rparr>) = (Inr ids, w1)"
      by (auto simp: scoped_stmt_def split: if_splits)
    then show ?thesis unfolding stamps by auto
  next
    case (Inl e)
    with rest have e: "is_unknown_column e" "db_stmt X ?second w2 = (Inr (Inr ids), w1)" by auto
    from db_stmt_cases[OF st] Inl e(1) assms(2) have "\<not> scoped_columns w" "w2 = w\<lparr>db_calls := Suc (db_calls w)\<rparr>"
      by (auto simp: scoped_stmt_def honest_columns_def bind_rows_def Let_def split: if_splits)
    moreover from db_stmt_cases[OF e(2)] have "bind_rows i ?binding (w2\<lparr>db_calls := Suc (db_calls w2)\<rparr>) = (Inr ids, w1)"
      by auto
    ultimately show ?thesis unfolding stamps by auto
  qed
  then obtain n where "bind_rows i (binding_of (scoped_columns w) token tx d) (w\<lparr>db_calls := n\<rparr>) = (Inr ids, w1)" by auto
  from bind_rows_Inr[OF this ids]
  show "\<exists>n. w1 = w\<lparr>db_calls := n, assets := bind_all i (binding_of (scoped_columns w) token tx d) (assets w)\<rparr>"
    and "tokens_unique (scoped_columns w) (assets w1)"
    and "\<exists>r \<in> set (assets w). as_id r = i \<and> as_token_id r = None"
    by auto
qed

subsection \<open>Confirming\<close>

text \<open>The rows of other drafts that a confirmation releases: they claim the token, they are not another
  deployment's, and their anchor is not what the token holds.\<close>

definition stale_claim :: "bool \<Rightarrow> int \<Rightarrow> string \<Rightarrow> string \<Rightarrow> string \<Rightarrow> asset_row \<Rightarrow> bool" where
  "stale_claim scoped token h contract keep r \<longleftrightarrow>
     as_token_id r = Some token \<and> as_id r \<noteq> keep
     \<and> classify_claim (claim_of (visible_row scoped r)) h contract = Release"

definition confirmed_row ::
  "bool \<Rightarrow> int \<Rightarrow> string \<Rightarrow> string \<Rightarrow> asset_deployment \<Rightarrow> string \<Rightarrow> asset_row \<Rightarrow> asset_row" where
  "confirmed_row scoped token tx h d i r =
    (if as_id r = i then binding_of scoped token tx d r
     else if stale_claim scoped token h (dep_contract d) i r then released r else r)"

lemma release_claims_on:
  assumes "distinct (map as_id (assets w))"
  shows "release_all token (\<lambda>j. \<exists>c \<in> set (map (visible_row s) (claims_on token i w)). as_id c = j
            \<and> classify_claim (claim_of c) h contract = Release) (assets w)
    = map (\<lambda>r. if stale_claim s token h contract i r then released r else r) (assets w)"
  unfolding release_all_def
proof (rule map_cong[OF refl])
  fix r assume r: "r \<in> set (assets w)"
  have same: "c = r" if "c \<in> set (assets w)" "as_id c = as_id r" for c
    using assms r that by (auto simp: distinct_map inj_on_def)
  show "(if as_token_id r = Some token \<and> (\<exists>c\<in>set (map (visible_row s) (claims_on token i w)). as_id c = as_id r
        \<and> classify_claim (claim_of c) h contract = Release) then released r else r)
    = (if stale_claim s token h contract i r then released r else r)"
    using r by (auto simp: stale_claim_def claims_on_def dest: same)
qed

lemma confirm_run_Inr:
  assumes "confirm_run X i body w = (Inr resp, w')" and "honest_columns w" and "distinct (map as_id (assets w))"
  obtains b draft chain d wal n where
    "body = Some b" "confirm_issues X b = []" "asset_deployment_of X w = Inr d"
    "draft \<in> set (assets w)" "as_id draft = i" "as_token_id draft = None"
    "session_wallet w = Some wal" "read_has_permission X w (as_org_id draft) wal (permission_hash X MINT_ASSETS) = Inr True"
    "read_asset X w (int_of_field (obj_get b ''tokenId'')) = Inr (Some chain)"
    "at_org_id chain = as_org_id draft" "same_hex (at_asset_hash chain) (as_hash draft)"
    "\<forall>r \<in> set (assets w). as_token_id r = Some (int_of_field (obj_get b ''tokenId'')) \<and> as_id r \<noteq> i \<longrightarrow>
       classify_claim (claim_of (visible_row (scoped_columns w) r)) (at_asset_hash chain) (dep_contract d) \<noteq> Conflict"
    "w' = w\<lparr>db_calls := n, assets := map (confirmed_row (scoped_columns w) (int_of_field (obj_get b ''tokenId''))
        (text_of (obj_get b ''txHash'')) (at_asset_hash chain) d i) (assets w)\<rparr>"
    "tokens_unique (scoped_columns w) (assets w')"
proof -
  from assms(1) obtain b d draft w1 wal role i0 chain w2 u v w3 where
    b: "body = Some b" "confirm_issues X b = []" "asset_deployment_of X w = Inr d" and
    sel: "select_one X (\<lambda>w. filter (\<lambda>r. as_id r = i) (assets w)) w = (Inr (Inr (Some draft)), w1)" and
    open': "as_token_id draft = None" and
    perm: "session_wallet w1 = Some wal"
      "read_has_permission X w1 (as_org_id draft) wal (permission_hash X MINT_ASSETS) = Inr True" and
    seen: "read_asset X w1 (int_of_field (obj_get b ''tokenId'')) = Inr (Some chain)"
      "at_org_id chain = as_org_id draft" "same_hex (at_asset_hash chain) (as_hash draft)" and
    rel: "release_contradicted_claims X (int_of_field (obj_get b ''tokenId'')) (at_asset_hash chain) i (dep_contract d) w1 = (Inr u, w2)" and
    bind: "bind_token X i (int_of_field (obj_get b ''tokenId'')) (text_of (obj_get b ''txHash'')) d w2 = (Inr v, w')"
    unfolding confirm_run_def Let_def
    by (auto simp: io_iff res_iff split: option.splits)
  from select_one_Inr[OF sel] obtain m where m: "filter (\<lambda>r. as_id r = i) (assets w) = [draft]" "w1 = w\<lparr>db_calls := m\<rparr>"
    by (auto simp: maybe_single_Some_iff)
  let ?t = "int_of_field (obj_get b ''tokenId'')" and ?h = "at_asset_hash chain" and ?s = "scoped_columns w"
  from rel obtain cs wr where cl: "read_claims X ?t i w1 = (Inr cs, wr)" and
    rl: "release_claims X ?t ?h (dep_contract d) cs wr = (Inr u, w2)"
    unfolding release_contradicted_claims_def by (auto simp: io_iff)
  from read_claims_Inr[OF cl] m(2) assms(2) obtain k where cs: "cs = map (visible_row ?s) (claims_on ?t i w)"
    and wr: "wr = w\<lparr>db_calls := k\<rparr>" by (auto simp: claims_on_def)
  from release_claims_Inr[OF rl] obtain n where
    noconf: "\<forall>c \<in> set cs. classify_claim (claim_of c) ?h (dep_contract d) \<noteq> Conflict" and
    w2: "w2 = w\<lparr>db_calls := n, assets := map (\<lambda>r. if stale_claim ?s ?t ?h (dep_contract d) i r then released r else r) (assets w)\<rparr>"
    unfolding cs wr using release_claims_on[OF assms(3)] by auto
  have hw2: "honest_columns w2" "scoped_columns w2 = ?s"
    using assms(2) by (simp_all add: w2 honest_columns_def)
  from bind_token_Inr(1)[OF bind hw2(1)] obtain n' where
    w': "w' = w2\<lparr>db_calls := n', assets := bind_all i (binding_of ?s ?t (text_of (obj_get b ''txHash'')) d) (assets w2)\<rparr>"
    unfolding hw2(2) by blast
  from bind_token_Inr(2)[OF bind hw2(1)] have uni: "tokens_unique ?s (assets w')" unfolding hw2(2) .
  have "r = draft" if "r \<in> set (assets w)" "as_id r = i" for r
  proof -
    from that have "r \<in> set (filter (\<lambda>r. as_id r = i) (assets w))" by simp
    with m(1) show ?thesis by simp
  qed
  with open' have "as_token_id r = None" if "r \<in> set (assets w)" "as_id r = i" for r using that by blast
  then have "assets w' = map (confirmed_row ?s ?t (text_of (obj_get b ''txHash'')) ?h d i) (assets w)"
    by (auto simp: w' w2 bind_all_def confirmed_row_def stale_claim_def)
  with w' w2 have final: "w' = w\<lparr>db_calls := n', assets := map (confirmed_row ?s ?t (text_of (obj_get b ''txHash'')) ?h d i) (assets w)\<rparr>"
    by simp
  show ?thesis
    using filter_singletonD[OF m(1)] noconf perm seen(1)
    by (intro that[OF b _ _ open' _ _ _ seen(2,3) _ final uni])
       (auto simp: m(2) cs claims_on_def read_has_permission_def read_asset_def)
qed

end
