(* ===== verification/AssetGuarantees.thy ===== *)
theory AssetGuarantees
  imports AssetProps AuditRoutes
begin

text \<open>The properties of the asset endpoints, with their witnesses on the demonstration world.\<close>

subsection \<open>Confirmation\<close>

text \<open>C18. A confirmation binds a draft only to its own token: when it returns, the caller's role held
  MINT_ASSETS in the draft's organization, the draft was unbound, the token exists on-chain in that
  organization and its on-chain anchor is the anchor stored with the draft, and no other visible row
  claims the token with that anchor.\<close>

theorem confirm_binds_only_the_anchored_token:
  assumes "confirm_run X i body w = (Inr resp, w')" and "honest_columns w" and "distinct (map as_id (assets w))"
  shows "\<exists>b draft chain d wal. body = Some b \<and> asset_deployment_of X w = Inr d
    \<and> draft \<in> set (assets w) \<and> as_id draft = i \<and> as_token_id draft = None
    \<and> session_wallet w = Some wal
    \<and> read_has_permission X w (as_org_id draft) wal (permission_hash X MINT_ASSETS) = Inr True
    \<and> read_asset X w (int_of_field (obj_get b ''tokenId'')) = Inr (Some chain)
    \<and> at_org_id chain = as_org_id draft \<and> same_hex (at_asset_hash chain) (as_hash draft)
    \<and> (\<forall>r \<in> set (assets w). as_token_id r = Some (int_of_field (obj_get b ''tokenId'')) \<and> as_id r \<noteq> i \<longrightarrow>
         classify_claim (claim_of (visible_row (scoped_columns w) r)) (at_asset_hash chain) (dep_contract d) \<noteq> Conflict)"
  using confirm_run_Inr[OF assms] by metis

text \<open>C19. What a confirmation writes: the draft is bound to the token and stamped with the deployment;
  a row of this deployment (or an unstamped one) that claimed the token against the chain goes back to a
  draft; every other row, in particular every row of another deployment, is as it was. Afterwards no two
  rows of a deployment hold one token.\<close>

theorem confirm_changes_only_contradicted_claims:
  assumes "confirm_run X i body w = (Inr resp, w')" and "honest_columns w" and "distinct (map as_id (assets w))"
  shows "\<exists>b chain d n. body = Some b \<and> asset_deployment_of X w = Inr d
    \<and> read_asset X w (int_of_field (obj_get b ''tokenId'')) = Inr (Some chain)
    \<and> w' = w\<lparr>db_calls := n, assets := map (confirmed_row (scoped_columns w) (int_of_field (obj_get b ''tokenId''))
         (text_of (obj_get b ''txHash'')) (at_asset_hash chain) d i) (assets w)\<rparr>
    \<and> tokens_unique (scoped_columns w) (assets w')
    \<and> (\<forall>r \<in> set (assets w). scoped_columns w \<and> as_id r \<noteq> i \<and> truthy (as_contract r)
         \<and> \<not> same_hex (nullish (as_contract r) []) (dep_contract d) \<longrightarrow> r \<in> set (assets w'))"
proof -
  from assms obtain b draft chain d wal n where
    "body = Some b" "asset_deployment_of X w = Inr d"
    "read_asset X w (int_of_field (obj_get b ''tokenId'')) = Inr (Some chain)" and
    w': "w' = w\<lparr>db_calls := n, assets := map (confirmed_row (scoped_columns w) (int_of_field (obj_get b ''tokenId''))
        (text_of (obj_get b ''txHash'')) (at_asset_hash chain) d i) (assets w)\<rparr>" and
    "tokens_unique (scoped_columns w) (assets w')"
    by (rule confirm_run_Inr)
  moreover have "confirmed_row (scoped_columns w) t x h d i r = r"
    if "scoped_columns w" "as_id r \<noteq> i" "truthy (as_contract r)" "\<not> same_hex (nullish (as_contract r) []) (dep_contract d)" for t x h r
    using that by (simp add: confirmed_row_def stale_claim_def visible_row_def claim_of_def classify_claim_iff)
  then have "\<forall>r \<in> set (assets w). scoped_columns w \<and> as_id r \<noteq> i \<and> truthy (as_contract r)
         \<and> \<not> same_hex (nullish (as_contract r) []) (dep_contract d) \<longrightarrow> r \<in> set (assets w')"
    unfolding w' by (auto simp: image_iff) metis
  ultimately show ?thesis by (intro exI[of _ b] exI[of _ chain] exI[of _ d] exI[of _ n]) simp
qed

definition demo_draft :: asset_row where
  "demo_draft =
    \<lparr>as_id = ''d1'', as_token_id = None, as_chain_id = None, as_contract = None, as_org_id = 1, as_name = ''Dell'',
     as_description = None, as_type = ''Laptop'', as_department = None, as_image_url = None, as_serial = None,
     as_invoice = None, as_hash = ''0x07'', as_metadata_uri = ''pending'', as_mint_tx = None,
     as_created_by = demo_admin, as_created_at = 0\<rparr>"

definition demo_confirm_world :: world where
  "demo_confirm_world = demo_audit_world\<lparr>assets := [demo_draft]\<rparr>"

definition demo_tx :: string where
  "demo_tx = ''0x'' @ demo_text 64 (CHR ''a'')"

definition demo_confirm_body :: json where
  "demo_confirm_body = JObj [(''tokenId'', JNum 7), (''txHash'', JStr demo_tx)]"

lemma demo_confirm_state:
  "session_wallet demo_confirm_world = Some demo_admin" "penv demo_confirm_world = demo_env"
  "db_fault demo_confirm_world = (\<lambda>_. None)" "chain_now demo_confirm_world = demo_chain"
  "assets demo_confirm_world = [demo_draft]" "scoped_columns demo_confirm_world" "db_calls demo_confirm_world = 0"
  by (simp_all add: demo_confirm_world_def demo_audit_world_def demo_world_def session_wallet_def SESSION_TTL_SECONDS_def
        demo_admin_def demo_address_def)

lemma demo_confirm_hyps: "honest_columns demo_confirm_world" "distinct (map as_id (assets demo_confirm_world))"
  by (simp_all add: honest_columns_def demo_confirm_state)

lemma demo_read_asset:
  "penv w = demo_env \<Longrightarrow> chain_now w = demo_chain \<Longrightarrow> read_asset demo_ext w 7 = Inr (Some
     \<lparr>at_token_id = 7, at_org_id = 1, at_asset_hash = ''0x07'', at_assigned_to = demo_wallet, at_owner = demo_wallet,
      at_active = True, at_minted_at = 1, at_transfer_count = 0\<rparr>)"
  by (simp add: read_asset_def demo_contracts) (simp add: demo_chain_def)

lemma demo_confirmed: "\<exists>resp w'. confirm_run demo_ext ''d1'' (Some demo_confirm_body) demo_confirm_world = (Inr resp, w')"
proof -
  let ?w = "demo_confirm_world\<lparr>db_calls := Suc 0\<rparr>"
  have fields: "obj_get demo_confirm_body ''tokenId'' = Some (JNum 7)" "obj_get demo_confirm_body ''txHash'' = Some (JStr demo_tx)"
    "is_object demo_confirm_body"
    by (simp_all add: demo_confirm_body_def is_object_def)
  have tx: "is_tx_hash demo_tx"
    using demo_hex by (simp add: demo_tx_def is_hex_string_def starts_with_def)
  have zod: "confirm_issues demo_ext demo_confirm_body = []"
    by (simp add: confirm_issues_def fields positive_field_def regex_field_def tx)
  have perm: "require_permission demo_ext 1 MINT_ASSETS ?w = (Inr (demo_admin, ADMIN), ?w)"
    by (rule demo_admin_permitted) (simp_all add: demo_confirm_state)
  have draft: "as_id demo_draft = ''d1''" "as_org_id demo_draft = 1" "as_token_id demo_draft = None" "as_hash demo_draft = ''0x07''"
    by (simp_all add: demo_draft_def)
  have dep: "asset_deployment_of demo_ext w = Inr \<lparr>dep_chain_id = 7, dep_contract = to_lower (demo_address CHR ''3'')\<rparr>"
    if "penv w = demo_env" for w
    using that by (simp add: asset_deployment_of_def demo_env_ok) (simp add: demo_server_env_def)
  show ?thesis
    by (simp add: confirm_run_def Let_def seq_def read_json_def ret_def lift_res_def zod_def zod fields int_of_field_def
          text_of_def asks_def dep demo_confirm_state select_one_def demo_db_stmt draft perm demo_read_asset guard_io_def
          same_hex_def release_contradicted_claims_def read_claims_def scoped_stmt_def query_stmt_def claims_on_def
          bind_token_def bind_rows_def tokens_unique_def update_where_def token_key_def List.map_filter_def)
qed

theorem confirm_binds_only_the_anchored_token_witness:
  "\<exists>draft \<in> set (assets demo_confirm_world). as_id draft = ''d1'' \<and> as_token_id draft = None"
proof -
  from demo_confirmed obtain resp w' where "confirm_run demo_ext ''d1'' (Some demo_confirm_body) demo_confirm_world = (Inr resp, w')"
    by blast
  from confirm_binds_only_the_anchored_token[OF this demo_confirm_hyps] show ?thesis by blast
qed

theorem confirm_changes_only_contradicted_claims_witness:
  "\<exists>resp w'. confirm_run demo_ext ''d1'' (Some demo_confirm_body) demo_confirm_world = (Inr resp, w')
     \<and> map as_token_id (assets w') = [Some 7]"
proof -
  from demo_confirmed obtain resp w' where run: "confirm_run demo_ext ''d1'' (Some demo_confirm_body) demo_confirm_world = (Inr resp, w')"
    by blast
  have "confirmed_row s t x h d ''d1'' demo_draft = binding_of s t x d demo_draft" for s t x h d
    by (simp add: confirmed_row_def demo_draft_def)
  moreover from confirm_changes_only_contradicted_claims[OF run demo_confirm_hyps] obtain b s t x h d n where
    "Some demo_confirm_body = Some b" "t = int_of_field (obj_get b ''tokenId'')"
    "w' = demo_confirm_world\<lparr>db_calls := n, assets := map (confirmed_row s t x h d ''d1'') (assets demo_confirm_world)\<rparr>"
    by blast
  ultimately have "map as_token_id (assets w') = [Some 7]"
    by (auto simp: demo_confirm_state demo_confirm_body_def int_of_field_def)
  with run show ?thesis by (intro exI conjI)
qed

subsection \<open>Drafts\<close>

lemma draws_encrypt: "encrypt_pii X p w = (Inr c, w1) \<Longrightarrow> \<exists>n. w1 = w\<lparr>draws := n\<rparr>"
  by (auto dest!: encrypt_pii_Inr intro: exI[of _ "draws w"])

lemma insert_draft_Inr:
  assumes "insert_draft X d record w = (Inr (Inr created), w1)"
  shows "\<exists>r n m. r \<in> {record, record\<lparr>as_chain_id := Some (dep_chain_id d), as_contract := Some (dep_contract d)\<rparr>}
     \<and> (\<exists>k. created = x_uuid X k)
     \<and> w1 = w\<lparr>db_calls := n, assets := assets w @ [r\<lparr>as_id := created, as_created_at := clock w\<rparr>], draws := m\<rparr>"
proof -
  from assms obtain f w2 where
    st: "db_stmt X (scoped_stmt (insert_asset X (record\<lparr>as_chain_id := Some (dep_chain_id d), as_contract := Some (dep_contract d)\<rparr>))) w
         = (Inr f, w2)"
    and rest: "f = Inr created \<and> w1 = w2 \<or> (\<exists>e. f = Inl e \<and> db_stmt X (insert_asset X record) w2 = (Inr (Inr created), w1))"
    by (auto simp: insert_draft_def io_iff)
  show ?thesis
  proof (cases f)
    case (Inr i)
    with rest db_stmt_cases[OF st] show ?thesis
      by (auto simp: scoped_stmt_def insert_asset_def Let_def split: if_splits)
  next
    case (Inl e)
    with rest have st2: "db_stmt X (insert_asset X record) w2 = (Inr (Inr created), w1)" by auto
    from db_stmt_cases[OF st] Inl have "\<exists>n. w2 = w\<lparr>db_calls := n\<rparr>"
      by (auto simp: scoped_stmt_def insert_asset_def Let_def split: if_splits)
    with db_stmt_cases[OF st2] have "created = x_uuid X (draws w)"
      "\<exists>n. w1 = w\<lparr>db_calls := n, assets := assets w @ [record\<lparr>as_id := created, as_created_at := clock w\<rparr>],
        draws := Suc (draws w)\<rparr>"
      by (auto simp: insert_asset_def Let_def)
    then show ?thesis by blast
  qed
qed

text \<open>Drafting an asset: when it returns, the caller's role held MINT_ASSETS in the organization, and
  exactly one row was added. Its anchor is the hash of the confidential record, it is bound to no token,
  the confidential fields are stored only as ciphertexts that decrypt to what was sent, and the answer
  hands that same anchor to the mint call.\<close>

theorem draft_anchors_its_record:
  assumes "assets_create_run X body w = (Inr resp, w')" and "gcm_inverts X" and "b64_codec X"
    and "\<forall>k. x_uuid X k \<notin> as_id ` set (assets w)"
  shows "\<exists>b wal row j mint. body = Some b \<and> draft_issues X b = [] \<and> session_wallet w = Some wal
    \<and> read_has_permission X w (int_of_field (obj_get b ''orgId'')) wal (permission_hash X MINT_ASSETS) = Inr True
    \<and> assets w' = assets w @ [row] \<and> as_token_id row = None \<and> as_mint_tx row = None
    \<and> as_org_id row = int_of_field (obj_get b ''orgId'') \<and> as_hash row = hash_asset_record X (draft_record b)
    \<and> decrypt_pii X (penv w) (as_serial row)
        = (if truthy (ar_serial (draft_record b)) then ar_serial (draft_record b) else None)
    \<and> decrypt_pii X (penv w) (as_invoice row)
        = (if truthy (ar_invoice (draft_record b)) then ar_invoice (draft_record b) else None)
    \<and> resp_body resp = JsonBody j \<and> obj_get j ''mintArgs'' = Some mint
    \<and> obj_get mint ''assetHash'' = Some (JStr (as_hash row)) \<and> obj_get j ''assetId'' = Some (JStr (as_id row))"
proof -
  from assms(1) obtain b wal role d serial w1 invoice w2 created w3 env u where
    b: "body = Some b" "draft_issues X b = []" and
    perm: "session_wallet w = Some wal"
      "read_has_permission X w (int_of_field (obj_get b ''orgId'')) wal (permission_hash X MINT_ASSETS) = Inr True" and
    e1: "encrypt_pii X (optional_text (obj_get b ''serialNumber'')) w = (Inr serial, w1)" and
    e2: "encrypt_pii X (optional_text (obj_get b ''invoiceReference'')) w1 = (Inr invoice, w2)" and
    ins: "insert_draft X d (draft_row X b serial invoice wal) w2 = (Inr (Inr created), w3)" and
    upd: "db_stmt X (\<lambda>w. (Inr (), w\<lparr>assets := update_where (\<lambda>r. as_id r = created)
             (\<lambda>r. r\<lparr>as_metadata_uri := metadata_uri_of env created\<rparr>) (assets w)\<rparr>)) w3 = (Inr u, w')" and
    resp: "resp = ok_no_store (draft_json (int_of_field (obj_get b ''orgId'')) (hash_asset_record X (draft_record b))
       (metadata_uri_of env created) created)"
    unfolding assets_create_run_def Let_def by (auto simp: io_iff res_iff)
  have key: "decrypt_pii X (penv w) serial = (if truthy (ar_serial (draft_record b)) then ar_serial (draft_record b) else None)"
    "decrypt_pii X (penv w) invoice = (if truthy (ar_invoice (draft_record b)) then ar_invoice (draft_record b) else None)"
    using decrypt_encrypted[OF e1 assms(2,3), of w] decrypt_encrypted[OF e2 assms(2,3), of w] draws_encrypt[OF e1]
    by (auto simp: draft_record_def)
  from draws_encrypt[OF e1] draws_encrypt[OF e2] obtain m where w2: "w2 = w\<lparr>draws := m\<rparr>" by auto
  from insert_draft_Inr[OF ins] obtain r n m' k where
    r: "r \<in> {draft_row X b serial invoice wal, (draft_row X b serial invoice wal)
        \<lparr>as_chain_id := Some (dep_chain_id d), as_contract := Some (dep_contract d)\<rparr>}" and k: "created = x_uuid X k" and
    w3: "w3 = w2\<lparr>db_calls := n, assets := assets w2 @ [r\<lparr>as_id := created, as_created_at := clock w2\<rparr>], draws := m'\<rparr>" by blast
  let ?row = "r\<lparr>as_id := created, as_created_at := clock w, as_metadata_uri := metadata_uri_of env created\<rparr>"
  have fresh: "as_id s \<noteq> created" if "s \<in> set (assets w)" for s using assms(4) that k by (metis imageI)
  from db_stmt_cases[OF upd] consider "\<exists>n. w' = w3\<lparr>db_calls := n\<rparr>"
    | "\<exists>n. w' = w3\<lparr>db_calls := n, assets := assets w @ [?row]\<rparr>"
    using fresh by (auto simp: w3 w2 update_where_def map_idI)
  then obtain row where row: "assets w' = assets w @ [row]" "row = r\<lparr>as_id := created, as_created_at := clock w\<rparr> \<or> row = ?row"
    by cases (auto simp: w3 w2)
  have "as_token_id row = None" "as_mint_tx row = None" "as_org_id row = int_of_field (obj_get b ''orgId'')"
    "as_hash row = hash_asset_record X (draft_record b)" "as_serial row = serial" "as_invoice row = invoice" "as_id row = created"
    using row(2) r by (auto simp: draft_row_def)
  moreover obtain j mint where "resp_body resp = JsonBody j" "obj_get j ''mintArgs'' = Some mint"
    "obj_get mint ''assetHash'' = Some (JStr (hash_asset_record X (draft_record b)))" "obj_get j ''assetId'' = Some (JStr created)"
    unfolding resp by (simp add: ok_no_store_def draft_json_def)
  ultimately show ?thesis
    using b perm row(1) key
    by (intro exI[of _ b] exI[of _ wal] exI[of _ row] exI[of _ j] exI[of _ mint]) simp
qed

definition demo_draft_body :: json where
  "demo_draft_body = JObj [(''orgId'', JNum 1), (''name'', JStr ''Dell''), (''assetType'', JStr ''Laptop''),
     (''serialNumber'', JStr ''SN-1'')]"

lemma demo_drafted: "\<exists>resp w'. assets_create_run demo_ext (Some demo_draft_body) demo_confirm_world = (Inr resp, w')"
proof -
  have fields: "obj_get demo_draft_body ''orgId'' = Some (JNum 1)" "obj_get demo_draft_body ''name'' = Some (JStr ''Dell'')"
    "obj_get demo_draft_body ''assetType'' = Some (JStr ''Laptop'')" "obj_get demo_draft_body ''serialNumber'' = Some (JStr ''SN-1'')"
    "obj_get demo_draft_body ''description'' = None" "obj_get demo_draft_body ''department'' = None"
    "obj_get demo_draft_body ''imageUrl'' = None" "obj_get demo_draft_body ''invoiceReference'' = None" "is_object demo_draft_body"
    by (simp_all add: demo_draft_body_def is_object_def)
  have zod: "draft_issues demo_ext demo_draft_body = []"
    by (simp add: draft_issues_def fields positive_field_def text_field_def regex_field_def optional_field_def ASSET_TYPES_def)
  have perm: "require_permission demo_ext 1 MINT_ASSETS demo_confirm_world = (Inr (demo_admin, ADMIN), demo_confirm_world)"
    by (rule demo_admin_permitted) (simp_all add: demo_confirm_state)
  have gcm: "x_gcm_encrypt demo_ext = (\<lambda>k iv p. (p, iv))" by (simp add: demo_ext_def)
  show ?thesis
    by (simp add: assets_create_run_def Let_def seq_def read_json_def ret_def lift_res_def zod_def zod fields int_of_field_def
          asks_def demo_confirm_state perm optional_text_def encrypt_pii_def draw_def pii_key_def demo_env_ok gcm
          asset_deployment_of_def insert_draft_def demo_db_stmt scoped_stmt_def insert_asset_def server_env_io_def
          del: join_with.simps)
qed

theorem draft_anchors_its_record_witness:
  "\<exists>resp w' row. assets_create_run demo_ext (Some demo_draft_body) demo_confirm_world = (Inr resp, w')
     \<and> assets w' = [demo_draft, row] \<and> decrypt_pii demo_ext demo_env (as_serial row) = Some ''SN-1''"
proof -
  from demo_drafted obtain resp w' where run: "assets_create_run demo_ext (Some demo_draft_body) demo_confirm_world = (Inr resp, w')"
    by blast
  have "\<not> is_digit CHR ''d''" by code_simp
  then have "show_nat k \<noteq> ''d1''" for k using show_nat_digits[of k] by (metis list.set_intros(1))
  then have "\<forall>k. x_uuid demo_ext k \<notin> as_id ` set (assets demo_confirm_world)"
    by (simp add: demo_confirm_state demo_draft_def demo_ext_def)
  from draft_anchors_its_record[OF run demo_ext_laws(4,3) this] obtain b row where
    "Some demo_draft_body = Some b" "assets w' = assets demo_confirm_world @ [row]"
    "decrypt_pii demo_ext (penv demo_confirm_world) (as_serial row) =
       (if truthy (ar_serial (draft_record b)) then ar_serial (draft_record b) else None)" by blast
  moreover from this(1) have "ar_serial (draft_record b) = Some ''SN-1''"
    by (auto simp: draft_record_def demo_draft_body_def optional_text_def)
  ultimately show ?thesis using run by (auto simp: demo_confirm_state)
qed

subsection \<open>Listing\<close>

lemma by_token_from: "by_token rows held t = Some r \<Longrightarrow> held t = Some r \<or> r \<in> set rows \<and> as_token_id r = Some t"
  by (induction rows held rule: by_token.induct) (auto split: option.splits if_splits)

text \<open>The asset list is answered only to a member of the organization with an active identity. Each
  item is a token the chain reports, with the owner, holder and anchor the chain reports; it is marked
  intact exactly when the stored anchor is the chain's; and a caller who is neither administrator nor
  manager sees a serial number only masked.\<close>

theorem asset_list_shows_the_chain:
  assumes "assets_list_run X org w = (Inr resp, w')"
  shows "\<exists>wal role j items. session_wallet w = Some wal
    \<and> read_effective_role X w (coerced_value X org) wal = Inr role \<and> role \<noteq> NONE
    \<and> resp_body resp = JsonBody j \<and> obj_get j ''assets'' = Some (JArr items)
    \<and> (\<forall>item \<in> set items. \<exists>chain row serial. read_asset X w (at_token_id chain) = Inr (Some chain)
         \<and> obj_get item ''tokenId'' = Some (JNum (at_token_id chain)) \<and> obj_get item ''owner'' = Some (JStr (at_owner chain))
         \<and> obj_get item ''assetHash'' = Some (JStr (at_asset_hash chain))
         \<and> obj_get item ''recordIntact'' = Some (jnullable_bool (record_intact row chain))
         \<and> (\<forall>r. row = Some r \<longrightarrow> as_token_id r = Some (at_token_id chain))
         \<and> obj_get item ''serialNumber'' = Some (jnullable (if can_see_serials role then serial else mask_tail 4 serial)))"
proof -
  from assms obtain wal role ids rows chains w1 env where
    mem: "session_wallet w = Some wal" "read_effective_role X w (coerced_value X org) wal = Inr role" "role \<noteq> NONE" and
    rows: "read_org_rows X (coerced_value X org) w = (Inr rows, w1)" and
    chains: "map_res (read_asset X w1) ids = Inr chains" and
    resp: "resp = ok_no_store (JObj [(''orgId'', JNum (coerced_value X org)),
      (''count'', JNum (int (length (map (\<lambda>chain. listed_asset_json X env (can_see_serials role)
            (by_token rows (\<lambda>_. None) (at_token_id chain)) chain) (List.map_filter id chains))))),
      (''assets'', JArr (map (\<lambda>chain. listed_asset_json X env (can_see_serials role)
            (by_token rows (\<lambda>_. None) (at_token_id chain)) chain) (List.map_filter id chains))),
      (''pending'', JArr (map (pending_json X) (filter (\<lambda>r. as_token_id r = None) rows)))])"
    unfolding assets_list_run_def Let_def by (auto simp: io_iff)
  have "reads_only (read_org_rows X (coerced_value X org))"
    unfolding read_org_rows_def
    by (intro query_intro, unfold reads_only_def scoped_stmt_def query_stmt_def)
       (use db_stmt_cases same_counter in \<open>fastforce split: if_splits\<close>)+
  from reads_onlyD[OF this rows] obtain n where "w1 = w\<lparr>db_calls := n\<rparr>" by blast
  then have same: "read_asset X w1 = read_asset X w" by (simp add: fun_eq_iff read_asset_def)
  have seen: "read_asset X w (at_token_id c) = Inr (Some c)" if "c \<in> set (List.map_filter id chains)" for c
  proof -
    from that have "Some c \<in> set chains" by (auto simp: List.map_filter_def split: if_splits)
    with chains obtain t where t: "read_asset X w t = Inr (Some c)"
      by (auto simp: map_res_Inr_iff same in_set_conv_nth list_all2_conv_all_nth)
    then have "at_token_id c = t" by (auto simp: read_asset_def res_iff split: if_splits)
    with t show ?thesis by simp
  qed
  let ?item = "\<lambda>chain. listed_asset_json X env (can_see_serials role) (by_token rows (\<lambda>_. None) (at_token_id chain)) chain"
  have item: "\<exists>row serial. obj_get (?item c) ''tokenId'' = Some (JNum (at_token_id c))
      \<and> obj_get (?item c) ''owner'' = Some (JStr (at_owner c)) \<and> obj_get (?item c) ''assetHash'' = Some (JStr (at_asset_hash c))
      \<and> obj_get (?item c) ''recordIntact'' = Some (jnullable_bool (record_intact row c))
      \<and> (\<forall>r. row = Some r \<longrightarrow> as_token_id r = Some (at_token_id c))
      \<and> obj_get (?item c) ''serialNumber'' = Some (jnullable (if can_see_serials role then serial else mask_tail 4 serial))" for c
    by (intro exI[of _ "by_token rows (\<lambda>_. None) (at_token_id c)"]
          exI[of _ "case by_token rows (\<lambda>_. None) (at_token_id c) of None \<Rightarrow> None
             | Some r \<Rightarrow> if truthy (as_serial r) then decrypt_pii X env (as_serial r) else None"])
       (auto simp: listed_asset_json_def shown_serial_def Let_def dest: by_token_from)
  let ?listed = "List.map_filter id chains"
  have all: "\<forall>item \<in> set (map ?item ?listed). \<exists>chain row serial. read_asset X w (at_token_id chain) = Inr (Some chain)
         \<and> obj_get item ''tokenId'' = Some (JNum (at_token_id chain)) \<and> obj_get item ''owner'' = Some (JStr (at_owner chain))
         \<and> obj_get item ''assetHash'' = Some (JStr (at_asset_hash chain))
         \<and> obj_get item ''recordIntact'' = Some (jnullable_bool (record_intact row chain))
         \<and> (\<forall>r. row = Some r \<longrightarrow> as_token_id r = Some (at_token_id chain))
         \<and> obj_get item ''serialNumber'' = Some (jnullable (if can_see_serials role then serial else mask_tail 4 serial))"
  proof
    fix it assume "it \<in> set (map ?item ?listed)"
    then obtain c where c: "c \<in> set ?listed" "it = ?item c" by auto
    from seen[OF c(1)] item[of c] show "\<exists>chain row serial. read_asset X w (at_token_id chain) = Inr (Some chain)
         \<and> obj_get it ''tokenId'' = Some (JNum (at_token_id chain)) \<and> obj_get it ''owner'' = Some (JStr (at_owner chain))
         \<and> obj_get it ''assetHash'' = Some (JStr (at_asset_hash chain))
         \<and> obj_get it ''recordIntact'' = Some (jnullable_bool (record_intact row chain))
         \<and> (\<forall>r. row = Some r \<longrightarrow> as_token_id r = Some (at_token_id chain))
         \<and> obj_get it ''serialNumber'' = Some (jnullable (if can_see_serials role then serial else mask_tail 4 serial))"
      unfolding c(2) by blast
  qed
  from resp obtain j where j: "resp_body resp = JsonBody j" "obj_get j ''assets'' = Some (JArr (map ?item ?listed))"
    by (simp add: ok_no_store_def)
  show ?thesis
    by (rule exI[of _ wal], rule exI[of _ role], rule exI[of _ j], rule exI[of _ "map ?item ?listed"])
       (use mem j all in blast)
qed

lemma demo_listed: "\<exists>resp w'. assets_list_run demo_ext (Some ''1'') demo_confirm_world = (Inr resp, w')"
proof -
  have mem: "require_member demo_ext 1 demo_confirm_world = (Inr (demo_admin, ADMIN), demo_confirm_world)"
    by (simp add: require_member_iff read_identity_def read_effective_role_def demo_contracts demo_confirm_state)
       (simp add: demo_chain_def demo_roles demo_wallet_def demo_admin_def)
  have ids: "read_assets_of_organization demo_ext demo_confirm_world 1 = Inr [7]"
    by (simp add: read_assets_of_organization_def demo_contracts demo_confirm_state) (simp add: demo_chain_def)
  have draft: "as_org_id demo_draft = 1" by (simp add: demo_draft_def)
  show ?thesis
    by (simp add: assets_list_run_def Let_def seq_def guard_io_def demo_audit_numbers ret_def mem asks_def ids read_org_rows_def
          asset_deployment_of_def demo_env_ok demo_confirm_state demo_db_stmt scoped_stmt_def query_stmt_def draft
          demo_read_asset gets_def)
qed

theorem asset_list_shows_the_chain_witness:
  "\<exists>resp w' j. assets_list_run demo_ext (Some ''1'') demo_confirm_world = (Inr resp, w') \<and> resp_body resp = JsonBody j
     \<and> (\<exists>items. obj_get j ''assets'' = Some (JArr items))"
proof -
  from demo_listed obtain resp w' where run: "assets_list_run demo_ext (Some ''1'') demo_confirm_world = (Inr resp, w')" by blast
  from asset_list_shows_the_chain[OF run] run show ?thesis by blast
qed

subsection \<open>Image upload\<close>

lemma upload_object_cases:
  assumes "db_stmt X (upload_object ob) w = (s, w2)"
  shows "(\<exists>n. w2 = w\<lparr>db_calls := n\<rparr>)
    \<or> ob_path ob \<notin> ob_path ` set (objects w) \<and> (\<exists>n. w2 = w\<lparr>db_calls := n, objects := objects w @ [ob]\<rparr>)"
  using db_stmt_cases[OF assms] same_counter[of w]
  by (auto simp: upload_object_def split: if_splits)

text \<open>An upload reaches the public bucket only from a caller whose role holds MINT_ASSETS in the named
  organization, only as a non-empty file of at most five megabytes whose bytes carry the signature of its
  declared type, and only under a fresh name in the organization's folder. On every other outcome the
  bucket is as it was, and no outcome touches a table.\<close>

theorem upload_stores_only_verified_images:
  assumes "image_run X url form w = (r, w')"
  shows "\<exists>n m. w' = w\<lparr>db_calls := n, draws := m, objects := objects w'\<rparr>
    \<and> (objects w' = objects w
       \<or> (\<exists>f up wal ext. form = Some f \<and> fo_image f = Some up \<and> session_wallet w = Some wal
            \<and> read_has_permission X w (coerced_value X (fo_org f)) wal (permission_hash X MINT_ASSETS) = Inr True
            \<and> is_asset_image_type (fi_type up) \<and> has_asset_image_signature (fi_type up) (fi_bytes up)
            \<and> 0 < length (fi_bytes up) \<and> length (fi_bytes up) \<le> ASSET_IMAGE_MAX_BYTES
            \<and> (\<forall>ob \<in> set (objects w). ob_path ob \<noteq> show_int (coerced_value X (fo_org f)) @ ''/'' @ x_uuid X (draws w) @ ''.'' @ ext)
            \<and> objects w' = objects w @ [\<lparr>ob_path = show_int (coerced_value X (fo_org f)) @ ''/'' @ x_uuid X (draws w) @ ''.'' @ ext,
                 ob_type = fi_type up, ob_bytes = fi_bytes up\<rparr>]))"
proof (cases "\<exists>f up wal role w1. form = Some f \<and> fo_image f = Some up \<and> coerced_positive X (fo_org f)
    \<and> require_permission X (coerced_value X (fo_org f)) MINT_ASSETS w = (Inr (wal, role), w1)
    \<and> is_asset_image_type (fi_type up) \<and> length (fi_bytes up) \<noteq> 0 \<and> length (fi_bytes up) \<le> ASSET_IMAGE_MAX_BYTES
    \<and> has_asset_image_signature (fi_type up) (fi_bytes up)")
  case False
  have "w' = w"
  proof (cases form)
    case None
    with assms show ?thesis by (simp add: image_run_def throw_def)
  next
    case (Some f)
    obtain p w1 where p: "require_permission X (coerced_value X (fo_org f)) MINT_ASSETS w = (p, w1)"
      by (cases "require_permission X (coerced_value X (fo_org f)) MINT_ASSETS w")
    from require_permission_state[OF p] have "w1 = w" .
    with assms False Some p show ?thesis
      by (auto simp: image_run_def seq_def lift_res_def zod_def guard_io_def ret_def throw_def
            split: if_splits sum.splits option.splits)
  qed
  then show ?thesis by (intro exI[of _ "db_calls w"] exI[of _ "draws w"]) simp
next
  case True
  then obtain f up wal role w1 where f: "form = Some f" "fo_image f = Some up" "coerced_positive X (fo_org f)" and
    p: "require_permission X (coerced_value X (fo_org f)) MINT_ASSETS w = (Inr (wal, role), w1)" and
    ok: "is_asset_image_type (fi_type up)" "length (fi_bytes up) \<noteq> 0" "length (fi_bytes up) \<le> ASSET_IMAGE_MAX_BYTES"
      "has_asset_image_signature (fi_type up) (fi_bytes up)" by blast
  from p have perm: "w1 = w" "session_wallet w = Some wal"
    "read_has_permission X w (coerced_value X (fo_org f)) wal (permission_hash X MINT_ASSETS) = Inr True"
    by (simp_all add: require_permission_iff)
  let ?ext = "nullish (map_of asset_image_types (fi_type up)) []"
  let ?path = "show_int (coerced_value X (fo_org f)) @ ''/'' @ x_uuid X (draws w) @ ''.'' @ ?ext"
  let ?ob = "\<lparr>ob_path = ?path, ob_type = fi_type up, ob_bytes = fi_bytes up\<rparr>"
  obtain s w2 where st: "db_stmt X (upload_object ?ob) (w\<lparr>draws := Suc (draws w)\<rparr>) = (s, w2)"
    by (cases "db_stmt X (upload_object ?ob) (w\<lparr>draws := Suc (draws w)\<rparr>)")
  from assms f p perm(1) ok st have w': "w' = w2"
    by (auto simp: image_run_def seq_def lift_res_def zod_def guard_io_def ret_def throw_def draw_def Let_def
          split: sum.splits if_splits)
  from upload_object_cases[OF st] consider "\<exists>n. w2 = w\<lparr>draws := Suc (draws w), db_calls := n\<rparr>"
    | "ob_path ?ob \<notin> ob_path ` set (objects w)"
      "\<exists>n. w2 = w\<lparr>draws := Suc (draws w), db_calls := n, objects := objects w @ [?ob]\<rparr>"
    by auto
  then show ?thesis
  proof cases
    case 1
    then obtain n where "w2 = w\<lparr>draws := Suc (draws w), db_calls := n\<rparr>" by blast
    then show ?thesis unfolding w' by (intro exI[of _ n] exI[of _ "Suc (draws w)"]) simp
  next
    case 2
    then obtain n where w2: "w2 = w\<lparr>draws := Suc (draws w), db_calls := n, objects := objects w @ [?ob]\<rparr>" by blast
    have "\<forall>ob \<in> set (objects w). ob_path ob \<noteq> ?path"
      using 2(1) by (metis imageI stored_object.select_convs(1))
    then show ?thesis
      using f perm ok unfolding w' w2
      by (intro exI[of _ n] exI[of _ "Suc (draws w)"] conjI disjI2 exI[of _ f] exI[of _ up] exI[of _ wal] exI[of _ ?ext]) simp_all
  qed
qed

definition demo_form :: image_form where
  "demo_form = \<lparr>fo_org = Some ''1'', fo_image = Some \<lparr>fi_type = ''image/jpeg'', fi_bytes = [CHR 0xFF, CHR 0xD8, CHR 0xFF]\<rparr>\<rparr>"

theorem upload_stores_only_verified_images_witness:
  "\<exists>r w' ob. image_run demo_ext id (Some demo_form) demo_confirm_world = (r, w') \<and> objects w' = [ob]
     \<and> has_asset_image_signature (ob_type ob) (ob_bytes ob)"
proof -
  have perm: "require_permission demo_ext 1 MINT_ASSETS demo_confirm_world = (Inr (demo_admin, ADMIN), demo_confirm_world)"
    by (rule demo_admin_permitted) (simp_all add: demo_confirm_state)
  have jpeg: "is_asset_image_type ''image/jpeg''" "has_asset_image_signature ''image/jpeg'' [CHR 0xFF, CHR 0xD8, CHR 0xFF]"
    by (simp_all add: is_asset_image_type_def asset_image_types_def has_asset_image_signature_def bytes_at_def code_unit_def)
  have none: "objects demo_confirm_world = []"
    by (simp add: demo_confirm_world_def demo_audit_world_def demo_world_def)
  have "\<exists>r w'. image_run demo_ext id (Some demo_form) demo_confirm_world = (r, w') \<and> objects w' \<noteq> []"
    by (simp add: image_run_def demo_form_def demo_audit_numbers lift_res_def zod_def seq_def perm guard_io_def jpeg ret_def
          ASSET_IMAGE_MAX_BYTES_def draw_def Let_def demo_db_stmt demo_confirm_state upload_object_def none split: sum.splits)
  then obtain r w' where run: "image_run demo_ext id (Some demo_form) demo_confirm_world = (r, w')" and "objects w' \<noteq> []" by blast
  with upload_stores_only_verified_images[OF run] none show ?thesis by (metis (no_types, lifting) append_Nil stored_object.select_convs)
qed

end
