(* ===== verification/AssetPrivacy.thy ===== *)
theory AssetPrivacy
  imports AssetGuarantees
begin

text \<open>
  The public metadata does not depend on a confidential column. Two computations correspond when the
  second, run in the world with other confidential values, does what the first does, up to those
  values; the rules compose along \<open>seq\<close>.
\<close>

subsection \<open>Worlds that differ in confidential columns\<close>

record confidential =
  cf_serial :: "asset_row \<Rightarrow> string option"
  cf_invoice :: "asset_row \<Rightarrow> string option"
  cf_mint_tx :: "asset_row \<Rightarrow> string option"
  cf_created_by :: "asset_row \<Rightarrow> string"
  cf_metadata_uri :: "asset_row \<Rightarrow> string"
  cf_created_at :: "asset_row \<Rightarrow> int"

definition conceal :: "confidential \<Rightarrow> asset_row \<Rightarrow> asset_row" where
  "conceal c r = r\<lparr>as_serial := cf_serial c r, as_invoice := cf_invoice c r, as_mint_tx := cf_mint_tx c r,
     as_created_by := cf_created_by c r, as_metadata_uri := cf_metadata_uri c r, as_created_at := cf_created_at c r\<rparr>"

definition hide :: "confidential \<Rightarrow> world \<Rightarrow> world" where
  "hide c w = w\<lparr>assets := map (conceal c) (assets w)\<rparr>"

lemma conceal_simps [simp]:
  "as_id (conceal c r) = as_id r" "as_token_id (conceal c r) = as_token_id r" "as_contract (conceal c r) = as_contract r"
  "as_org_id (conceal c r) = as_org_id r"
  by (simp_all add: conceal_def)

lemma hide_simps [simp]:
  "clock (hide c w) = clock w" "penv (hide c w) = penv w" "chain_now (hide c w) = chain_now w"
  "organizations (hide c w) = organizations w" "scoped_columns (hide c w) = scoped_columns w"
  "db_fault (hide c w) = db_fault w" "db_calls (hide c w) = db_calls w"
  "assets (hide c w) = map (conceal c) (assets w)"
  "hide c w\<lparr>db_calls := n\<rparr> = hide c (w\<lparr>db_calls := n\<rparr>)"
  by (simp_all add: hide_def)

definition corresponds :: "confidential \<Rightarrow> ('a \<Rightarrow> 'b) \<Rightarrow> 'a io \<Rightarrow> 'b io \<Rightarrow> bool" where
  "corresponds c g m m' \<longleftrightarrow> (\<forall>w. m' (hide c w) = (case m w of (r, w') \<Rightarrow> (map_sum id g r, hide c w')))"

named_theorems corr_intro \<open>corresponding computations\<close>

lemma corresponds_ret [corr_intro]: "y = g x \<Longrightarrow> corresponds c g (ret x) (ret y)"
  by (simp add: corresponds_def ret_def)

lemma corresponds_pure [corr_intro]:
  "corresponds c g (throw e) (throw e)" "corresponds c id (guard_io b e) (guard_io b e)"
  by (simp_all add: corresponds_def throw_def guard_io_def ret_def)

lemma corresponds_gets: "(\<And>w. f (hide c w) = f w) \<Longrightarrow> corresponds c id (gets f) (gets f)"
  by (simp add: corresponds_def gets_def)

lemma corresponds_asks: "(\<And>w. f (hide c w) = f w) \<Longrightarrow> corresponds c id (asks f) (asks f)"
  by (auto simp: corresponds_def asks_def map_sum.id)

lemma corresponds_seq:
  assumes "corresponds c g m m'" and "\<And>x. corresponds c h (f x) (f' (g x))"
  shows "corresponds c h (seq m f) (seq m' f')"
  using assms unfolding corresponds_def seq_def by (auto split: prod.splits sum.splits)

lemma corresponds_db:
  assumes "\<And>w. st' (hide c w) = (case st w of (r, w') \<Rightarrow> (map_sum id g r, hide c w'))"
  shows "corresponds c (map_sum id g) (db_stmt X st) (db_stmt X st')"
  unfolding corresponds_def db_stmt_def
  by (auto simp: Let_def assms split: sum.splits option.splits prod.splits)

lemma corresponds_query:
  assumes "\<And>w. f' (hide c w) = g (f w)"
  shows "corresponds c (map_sum id g) (db_stmt X (query_stmt f)) (db_stmt X (query_stmt f'))"
    "corresponds c (map_sum id g) (db_stmt X (scoped_stmt (query_stmt f))) (db_stmt X (scoped_stmt (query_stmt f')))"
  by (rule corresponds_db; simp add: query_stmt_def scoped_stmt_def assms)+

lemma maybe_single_map: "maybe_single (map g rs) = map_sum id (map_option g) (maybe_single rs)"
  by (cases rs rule: maybe_single.cases) auto

lemma corresponds_select:
  assumes "\<And>w. f' (hide c w) = map g (f w)"
  shows "corresponds c (map_sum id (map_option g)) (select_one X f) (select_one X f')"
  unfolding select_one_def by (rule corresponds_db) (simp add: assms maybe_single_map)

lemma reads_hidden [simp]:
  "asset_deployment_of X (hide c w) = asset_deployment_of X w" "read_asset X (hide c w) = read_asset X w"
  by (simp_all add: fun_eq_iff asset_deployment_of_def read_asset_def contracts_def)

lemma filter_conceal: "(\<And>r. p (conceal c r) = p r) \<Longrightarrow> filter p (map (conceal c) rows) = map (conceal c) (filter p rows)"
  by (simp add: filter_map comp_def)

lemma token_rows_conceal: "token_rows t k (map (conceal c) rows) = map (conceal c) (token_rows t k rows)"
  by (simp add: token_rows_def Let_def filter_conceal take_map flip: map_append)

lemma row_by_token_corresponds:
  "corresponds c (map_option (conceal c)) (read_row_by_token X t) (read_row_by_token X t)"
proof -
  have legacy: "corresponds c (map_option (conceal c))
      (seq (db_stmt X (query_stmt (\<lambda>w. take 1 (filter (\<lambda>r. as_token_id r = Some t) (assets w)))))
        (\<lambda>legacy. ret (case legacy of Inr (r # _) \<Rightarrow> Some r | _ \<Rightarrow> None)))
      (seq (db_stmt X (query_stmt (\<lambda>w. take 1 (filter (\<lambda>r. as_token_id r = Some t) (assets w)))))
        (\<lambda>legacy. ret (case legacy of Inr (r # _) \<Rightarrow> Some r | _ \<Rightarrow> None)))"
    by (rule corresponds_seq[OF corresponds_query(1)[where g = "map (conceal c)"]])
       (auto simp: filter_conceal take_map intro!: corresponds_ret split: sum.splits list.splits)
  show ?thesis
    unfolding read_row_by_token_def
    by (rule corresponds_seq[OF corresponds_asks], simp,
        rule corresponds_seq[OF corresponds_query(2)[where g = "map (conceal c)"]])
       (auto simp: token_rows_conceal legacy[unfolded One_nat_def] intro!: corresponds_ret split: sum.splits list.splits)
qed

lemma metadata_row_corresponds:
  "corresponds c (map_option (conceal c)) (metadata_row X ref) (metadata_row X ref)"
proof (cases "is_uuid ref")
  case True
  show ?thesis
    unfolding metadata_row_def if_P[OF True]
    by (rule corresponds_seq[OF corresponds_select[where g = "conceal c"]])
       (auto simp: filter_conceal intro!: corresponds_ret split: sum.splits option.splits)
next
  case False
  show ?thesis
    unfolding metadata_row_def if_not_P[OF False]
    by (rule corresponds_seq[OF corresponds_pure(2)]) (simp add: row_by_token_corresponds)
qed

lemma metadata_json_conceal: "metadata_json (conceal c r) chain org = metadata_json r chain org"
  by (simp add: metadata_json_def conceal_def)

subsection \<open>Property\<close>

text \<open>C20. The public token metadata reveals nothing confidential: two worlds that differ only in the
  encrypted serial number and invoice, the mint transaction, the creator, the metadata address and
  the creation time of asset rows give the same answer to every metadata request.\<close>

theorem metadata_ignores_confidential_columns:
  "fst (metadata_get X ref (hide c w)) = fst (metadata_get X ref w)"
proof -
  have "corresponds c id (metadata_run X ref) (metadata_run X ref)"
    unfolding metadata_run_def
  proof (rule corresponds_seq[OF metadata_row_corresponds])
    fix row :: "asset_row option"
    show "corresponds c id
       (case row of None \<Rightarrow> throw (not_found ''No metadata for that asset'')
        | Some r \<Rightarrow> seq (gets (\<lambda>w. case as_token_id r of None \<Rightarrow> None
             | Some t \<Rightarrow> (case read_asset X w t of Inr a \<Rightarrow> a | Inl _ \<Rightarrow> None))) (\<lambda>chain.
            seq (select_one X (\<lambda>w. map og_name (filter (\<lambda>o'. og_org_id o' = as_org_id r) (organizations w)))) (\<lambda>org.
            ret (json_response 200 (metadata_json r chain (case org of Inr n \<Rightarrow> n | Inl _ \<Rightarrow> None))))))
       (case map_option (conceal c) row of None \<Rightarrow> throw (not_found ''No metadata for that asset'')
        | Some r \<Rightarrow> seq (gets (\<lambda>w. case as_token_id r of None \<Rightarrow> None
             | Some t \<Rightarrow> (case read_asset X w t of Inr a \<Rightarrow> a | Inl _ \<Rightarrow> None))) (\<lambda>chain.
            seq (select_one X (\<lambda>w. map og_name (filter (\<lambda>o'. og_org_id o' = as_org_id r) (organizations w)))) (\<lambda>org.
            ret (json_response 200 (metadata_json r chain (case org of Inr n \<Rightarrow> n | Inl _ \<Rightarrow> None))))))"
    proof (cases row)
      case (Some r)
      show ?thesis
        unfolding Some option.map option.case conceal_simps metadata_json_conceal
        by (rule corresponds_seq, rule corresponds_gets, simp cong: option.case_cong,
            rule corresponds_seq[OF corresponds_select[where g = id]], simp, rule corresponds_ret)
           (auto simp: option.map_id0 sum.map_id0 split: sum.splits)
    qed (simp add: corresponds_pure)
  qed
  then show ?thesis
    by (simp add: metadata_get_def handler_def corresponds_def sum.map_id0 split: prod.splits sum.splits)
qed

end
