(* ===== verification/Integration.thy ===== *)
theory Integration
  imports Applications
begin

text \<open>
  \<open>apps/platform/lib/integration.ts\<close>: the URLs and the names of the environment variables a partner
  needs, and the pipeline that shows how far an integration is wired. \<open>new URL\<close> and \<open>toString\<close> are
  parameters of the model; a URL that is built here is its base and the parameters set on it.
\<close>

subsection \<open>Endpoints\<close>

definition INTEGRATION_ENV_VARS :: "(string \<times> string) list" where
  "INTEGRATION_ENV_VARS =
    [(''origin'', ''OWNEX_ORIGIN''), (''clientId'', ''OWNEX_CLIENT_ID''),
     (''clientSecret'', ''OWNEX_CLIENT_SECRET''), (''orgId'', ''OWNEX_ORG_ID''),
     (''redirectUri'', ''OWNEX_REDIRECT_URI'')]"

record integration_endpoints =
  ie_authorize_url :: string
  ie_exchange_url :: string
  ie_verify_url :: string
  ie_env_vars :: "(string \<times> string) list"

definition resolve_url :: "ext \<Rightarrow> string \<Rightarrow> string \<Rightarrow> exn + url" where
  "resolve_url X path base =
    (case x_resolve_url X path base of None \<Rightarrow> Inl (JsError ''Invalid URL'') | Some u \<Rightarrow> Inr u)"

definition authorize_link_params :: "string \<Rightarrow> int \<Rightarrow> string \<Rightarrow> string \<Rightarrow> (string \<times> string) list" where
  "authorize_link_params client_id org_id redirect_uri state =
    [(''client_id'', client_id), (''org_id'', show_int org_id), (''redirect_uri'', redirect_uri), (''state'', state)]"

definition integration_endpoints ::
  "ext \<Rightarrow> string \<Rightarrow> string option \<Rightarrow> int \<Rightarrow> string \<Rightarrow> string option \<Rightarrow> exn + integration_endpoints" where
  "integration_endpoints X origin_text client_id org_id slug redirect_uri =
    (let origin = strip_trailing_slashes origin_text in
     bind_res (resolve_url X ''/authorize'' (origin @ ''/'')) (\<lambda>authorize.
     bind_res (resolve_url X ''/api/roles/verify'' (origin @ ''/'')) (\<lambda>verify.
     Inr \<lparr>ie_authorize_url = x_url_text X authorize
            (authorize_link_params (nullish client_id ''<OWNEX_CLIENT_ID>'') org_id
               (nullish redirect_uri ''<OWNEX_REDIRECT_URI>'') ''<random-per-request-state>''),
          ie_exchange_url = origin @ ''/api/authorize/exchange'',
          ie_verify_url = x_url_text X verify
            [(''wallet'', ''<wallet>''), (''orgId'', show_int org_id), (''app'', slug)],
          ie_env_vars = INTEGRATION_ENV_VARS\<rparr>)))"

definition endpoints_json :: "integration_endpoints \<Rightarrow> json" where
  "endpoints_json e = JObj
    [(''authorizeUrl'', JStr (ie_authorize_url e)), (''exchangeUrl'', JStr (ie_exchange_url e)),
     (''verifyUrl'', JStr (ie_verify_url e)),
     (''envVars'', JObj (map (\<lambda>(k, v). (k, JStr v)) (ie_env_vars e)))]"

subsection \<open>Status pipeline\<close>

datatype integration_stage = StageDraft | StageRegistered | StageCallback | StageSecret | StageActive

fun stage_key :: "integration_stage \<Rightarrow> string" where
  "stage_key StageDraft = ''draft''"
| "stage_key StageRegistered = ''registered''"
| "stage_key StageCallback = ''callback''"
| "stage_key StageSecret = ''secret''"
| "stage_key StageActive = ''active''"

fun INTEGRATION_STAGE_LABEL :: "integration_stage \<Rightarrow> string" where
  "INTEGRATION_STAGE_LABEL StageDraft = ''Draft''"
| "INTEGRATION_STAGE_LABEL StageRegistered = ''Registered on-chain''"
| "INTEGRATION_STAGE_LABEL StageCallback = ''Callback configured''"
| "INTEGRATION_STAGE_LABEL StageSecret = ''Secret generated''"
| "INTEGRATION_STAGE_LABEL StageActive = ''Active''"

record integration_step =
  sp_key :: integration_stage
  sp_label :: string
  sp_done :: bool
  sp_todo :: string

record integration_input =
  in_registered :: bool
  in_callback_count :: nat
  in_has_secret :: bool
  in_roles_allowed :: nat
  in_status :: string

definition integration_steps :: "integration_input \<Rightarrow> integration_step list" where
  "integration_steps input =
    (let revoked = (in_status input = ''revoked'');
         registered = (in_registered input \<and> \<not> revoked);
         has_callback = (registered \<and> 0 < in_callback_count input);
         secret = (has_callback \<and> in_has_secret input);
         active = (secret \<and> 0 < in_roles_allowed input \<and> \<not> revoked) in
     [\<lparr>sp_key = StageDraft, sp_label = INTEGRATION_STAGE_LABEL StageDraft, sp_done = True, sp_todo = []\<rparr>,
      \<lparr>sp_key = StageRegistered, sp_label = INTEGRATION_STAGE_LABEL StageRegistered, sp_done = registered,
       sp_todo = ''An admin must sign registerApplication(orgId, appId, metadataHash).''\<rparr>,
      \<lparr>sp_key = StageCallback, sp_label = INTEGRATION_STAGE_LABEL StageCallback, sp_done = has_callback,
       sp_todo = ''Add at least one exact callback URL.''\<rparr>,
      \<lparr>sp_key = StageSecret, sp_label = INTEGRATION_STAGE_LABEL StageSecret, sp_done = secret,
       sp_todo = ''Generate a client secret and store it in the partner's backend.''\<rparr>,
      \<lparr>sp_key = StageActive, sp_label = INTEGRATION_STAGE_LABEL StageActive, sp_done = active,
       sp_todo = (if revoked then ''This integration is revoked. Restore it to allow sign-in again.''
                  else ''Grant at least one role access on-chain with setAppAccess.'')\<rparr>])"

text \<open>The loop of \<open>integrationStage\<close>: stop at the first step that is not done.\<close>

fun furthest_stage :: "integration_stage \<Rightarrow> integration_step list \<Rightarrow> integration_stage" where
  "furthest_stage stage [] = stage"
| "furthest_stage stage (step # steps) =
     (if sp_done step then furthest_stage (sp_key step) steps else stage)"

definition integration_stage :: "integration_input \<Rightarrow> integration_stage" where
  "integration_stage input = furthest_stage StageDraft (integration_steps input)"

definition step_json :: "integration_step \<Rightarrow> json" where
  "step_json s = JObj [(''key'', JStr (stage_key (sp_key s))), (''label'', JStr (sp_label s)),
                       (''done'', JBool (sp_done s)), (''todo'', JStr (sp_todo s))]"

text \<open>The input that \<open>GET /api/applications\<close> computes for a record and the chain's answers.\<close>

definition stage_input :: "registered_application \<Rightarrow> bool \<Rightarrow> (role_name \<times> bool) list \<Rightarrow> integration_input" where
  "stage_input app registered access =
    \<lparr>in_registered = registered, in_callback_count = length (ra_callbacks app),
     in_has_secret = (ra_secret_hash app \<noteq> None),
     in_roles_allowed = length (filter (\<lambda>role. map_of access role = Some True) ASSIGNABLE_ROLES),
     in_status = status_text (ra_status app)\<rparr>"

subsection \<open>Lemmas\<close>

lemma integration_stage_cases:
  "integration_stage i =
    (if \<not> in_registered i \<or> in_status i = ''revoked'' then StageDraft
     else if in_callback_count i = 0 then StageRegistered
     else if \<not> in_has_secret i then StageCallback
     else if in_roles_allowed i = 0 then StageSecret else StageActive)"
  by (auto simp: integration_stage_def integration_steps_def Let_def)

lemma filter_any_pos: "0 < length (filter p xs) \<longleftrightarrow> (\<exists>x \<in> set xs. p x)"
  by (auto simp: length_greater_0_conv filter_empty_conv)

text \<open>A callback the list of an application contains, and that may be registered, is accepted.\<close>

lemma registered_callback_accepted:
  assumes "trim u \<in> set (cs_callbacks a)" and "cs_status a \<noteq> Some ''revoked''"
    and "validate_registrable_callback parse (JStr u) mode = Inr n"
  shows "\<exists>e. check_callback parse (Some a) (JStr u) mode = CallbackOk n e"
proof -
  from validate_registrable_InrD[OF assms(3)] obtain v where
    v: "trim u \<noteq> []" "length u \<le> MAX_CALLBACK_LENGTH" "canonicalize_callback parse u = Some (v, n)"
       "check_transport v mode = None" by auto
  let ?es = "filter (\<lambda>value. trim value \<noteq> []) (cs_callbacks a)"
  have mem: "trim u \<in> set ?es" using assms(1) v(1) by simp
  with find_registered_None[of parse n ?es "trim u" v] v(3) obtain e where "find_registered parse n ?es = Some e"
    by (cases "find_registered parse n ?es") (auto simp: canonicalize_trim)
  moreover from mem have "?es \<noteq> []" by (cases ?es) auto
  ultimately show ?thesis using v assms(2) by (auto simp: check_callback_def Let_def)
qed

end
