(* ===== verification/AppRoutes.thy ===== *)
theory AppRoutes
  imports Integration AuthorizeRoutes Hashing
begin

text \<open>
  The management of applications: listing and registering (\<open>api/applications\<close>), changing and
  revoking (\<open>api/applications/[slug]\<close>), rotating the client secret
  (\<open>api/applications/[slug]/secret\<close>). The upsert keys on (org_id, app_slug), and a client id is
  unique over the table.
\<close>

subsection \<open>Statements on the application table\<close>

definition app_key :: "int \<Rightarrow> string \<Rightarrow> app_row \<Rightarrow> bool" where
  "app_key org_id slug r = (ap_org_id r = org_id \<and> ap_slug r = slug)"

text \<open>Primary key (org_id, app_slug), and the unique index on client_id\<close>

definition applications_ok :: "app_row list \<Rightarrow> bool" where
  "applications_ok rows \<longleftrightarrow> distinct (map (\<lambda>r. (ap_org_id r, ap_slug r)) rows)
     \<and> distinct (List.map_filter ap_client_id rows)"

text \<open>A statement that leaves the table with a duplicate fails and changes nothing.\<close>

definition write_applications ::
  "(world \<Rightarrow> app_row list) \<Rightarrow> world \<Rightarrow> (db_error + unit) \<times> world" where
  "write_applications f w =
    (if distinct (List.map_filter ap_client_id (f w)) then (Inr (), w\<lparr>applications := f w\<rparr>)
     else (Inl unique_violation, w))"

definition new_app_row :: "int \<Rightarrow> string \<Rightarrow> int \<Rightarrow> app_row" where
  "new_app_row org_id slug now =
    \<lparr>ap_org_id = org_id, ap_slug = slug, ap_app_id = None, ap_name = None, ap_url = None,
     ap_description = None, ap_logo_url = None, ap_client_id = None, ap_secret_hash = None,
     ap_secret_updated_at = None, ap_allowed_roles = Some [], ap_status = ''draft'',
     ap_created_at = now, ap_updated_at = now\<rparr>"

text \<open>\<open>upsert(fields, { onConflict: "org_id,app_slug" })\<close>; the trigger stamps an updated row.\<close>

definition upsert_rows ::
  "int \<Rightarrow> string \<Rightarrow> int \<Rightarrow> (app_row \<Rightarrow> app_row) \<Rightarrow> app_row list \<Rightarrow> app_row list" where
  "upsert_rows org_id slug now cols rows =
    (if filter (app_key org_id slug) rows = [] then rows @ [cols (new_app_row org_id slug now)]
     else update_where (app_key org_id slug) (\<lambda>r. (cols r)\<lparr>ap_updated_at := now\<rparr>) rows)"

definition update_rows ::
  "int \<Rightarrow> string \<Rightarrow> int \<Rightarrow> (app_row \<Rightarrow> app_row) \<Rightarrow> app_row list \<Rightarrow> app_row list" where
  "update_rows org_id slug now cols rows =
    update_where (app_key org_id slug) (\<lambda>r. (cols r)\<lparr>ap_updated_at := now\<rparr>) rows"

subsection \<open>GET /api/applications\<close>

definition registry_unavailable :: exn where
  "registry_unavailable = ApiError 503 ''The application registry is unavailable'' (Some ''REGISTRY_UNAVAILABLE'')"

definition access_json :: "(role_name \<times> bool) list \<Rightarrow> json" where
  "access_json access = JObj (map (\<lambda>(role, b). (role_text role, JBool b)) access)"

definition role_list_json :: "role_name list \<Rightarrow> json" where
  "role_list_json roles = JArr (map (\<lambda>r. JStr (role_text r)) roles)"

definition app_id_matches_slug :: "registered_application \<Rightarrow> bool" where
  "app_id_matches_slug app = (to_lower (nullish (ra_stored_app_id app) []) = to_lower (ra_app_id app))"

definition roles_pending :: "registered_application \<Rightarrow> (role_name \<times> bool) list \<Rightarrow> role_name list" where
  "roles_pending app access = filter (\<lambda>role. map_of access role \<noteq> Some True) (ra_allowed_roles app)"

text \<open>The half of an entry every member sees, and the half only an admin does.\<close>

definition public_app_entries ::
  "registered_application \<Rightarrow> role_name \<Rightarrow> bool \<Rightarrow> (role_name \<times> bool) list \<Rightarrow> (string \<times> json) list" where
  "public_app_entries app role registered access =
    [(''slug'', JStr (ra_slug app)), (''appId'', JStr (ra_app_id app)), (''name'', JStr (ra_name app)),
     (''url'', JStr (ra_url app)), (''description'', jnullable (ra_description app)),
     (''logoUrl'', jnullable (ra_logo_url app)), (''status'', JStr (status_text (ra_status app))),
     (''registered'', JBool registered), (''appIdMatchesSlug'', JBool (app_id_matches_slug app)),
     (''access'', access_json access), (''callerHasAccess'', JBool (nullish (map_of access role) False)),
     (''intendedRoles'', role_list_json (ra_allowed_roles app)),
     (''rolesPendingOnChain'', role_list_json (roles_pending app access)),
     (''stage'', JStr (stage_key (integration_stage (stage_input app registered access)))),
     (''steps'', JArr (map step_json (integration_steps (stage_input app registered access))))]"

definition managed_app_entries ::
  "ext \<Rightarrow> bool \<Rightarrow> registered_application \<Rightarrow> integration_endpoints option \<Rightarrow> (string \<times> json) list" where
  "managed_app_entries X can_manage app endpoints =
    [(''clientId'', if can_manage then jnullable (ra_client_id app) else JNull),
     (''callbackUrls'', if can_manage then JArr (map JStr (ra_callbacks app)) else JNull),
     (''hasClientSecret'', if can_manage then JBool (ra_secret_hash app \<noteq> None) else JNull),
     (''clientSecretUpdatedAt'',
        if can_manage then jnullable (map_option (x_iso X) (ra_secret_updated_at app)) else JNull),
     (''endpoints'', case endpoints of None \<Rightarrow> JNull | Some e \<Rightarrow> endpoints_json e)]"

definition first_callback :: "registered_application \<Rightarrow> string option" where
  "first_callback app = (case ra_callbacks app of [] \<Rightarrow> None | u # _ \<Rightarrow> Some u)"

text \<open>One entry: two chain reads, then the stage; any of them may reject.\<close>

definition listed_application ::
  "ext \<Rightarrow> world \<Rightarrow> string \<Rightarrow> int \<Rightarrow> role_name \<Rightarrow> registered_application \<Rightarrow> exn + json" where
  "listed_application X w origin org_id role app =
    bind_res (contracts X w) (\<lambda>c.
    bind_res (c_app_registered c org_id (ra_app_id app)) (\<lambda>registered.
    bind_res (read_role_access X w org_id (ra_app_id app)) (\<lambda>access.
    bind_res (if role = ADMIN
              then bind_res (integration_endpoints X origin (ra_client_id app) org_id (ra_slug app) (first_callback app))
                     (\<lambda>e. Inr (Some e))
              else Inr None) (\<lambda>endpoints.
      Inr (JObj (public_app_entries app role registered access
                 @ managed_app_entries X (role = ADMIN) app endpoints))))))"

text \<open>The entries of the records, all read from the chain, or 503.\<close>

definition answer_listed :: "ext \<Rightarrow> int \<Rightarrow> role_name \<Rightarrow> registered_application list \<Rightarrow> response io" where
  "answer_listed X org_id role records =
    seq (server_env_io X) (\<lambda>env.
    seq (asks (contracts X)) (\<lambda>_.
    seq (gets (\<lambda>w. map_res (listed_application X w (APP_ORIGIN env) org_id role) records)) (\<lambda>listed.
    case listed of
      Inl _ \<Rightarrow> throw (ApiError 503 ''Could not read application access from the chain'' (Some ''CHAIN_UNAVAILABLE''))
    | Inr apps \<Rightarrow>
        ret (ok_no_store (JObj [(''orgId'', JNum org_id), (''count'', JNum (int (length apps))),
                                (''callerRole'', JStr (role_text role)), (''canManage'', JBool (role = ADMIN)),
                                (''applications'', JArr apps)])))))"

definition applications_list_run :: "ext \<Rightarrow> string option \<Rightarrow> response io" where
  "applications_list_run X org_param =
    (let org_id = coerced_value X org_param in
     seq (guard_io (coerced_positive X org_param) (bad_request ''orgId is required and must be a positive integer'')) (\<lambda>_.
     seq (require_member X org_id) (\<lambda>(caller, role).
     seq (try_registry (list_applications_for_org X org_id)) (\<lambda>found.
     case found of
       None \<Rightarrow> throw registry_unavailable
     | Some records \<Rightarrow> answer_listed X org_id role records))))"

definition applications_list_get :: "ext \<Rightarrow> string option \<Rightarrow> world \<Rightarrow> response \<times> world" where
  "applications_list_get X org_param = handler (applications_list_run X org_param)"

subsection \<open>POST /api/applications\<close>

text \<open>An array field: its size, then each element; the path of an element ends in its index.\<close>

definition array_issues ::
  "ext \<Rightarrow> string \<Rightarrow> nat \<Rightarrow> nat \<Rightarrow> (json option \<Rightarrow> bool) \<Rightarrow> json option \<Rightarrow> issue list" where
  "array_issues X path lo hi p v =
    (case v of
       Some (JArr xs) \<Rightarrow>
         field_issue X path (lo \<le> length xs \<and> length xs \<le> hi)
         @ concat (map (\<lambda>(i, x). field_issue X (path @ ''.'' @ show_nat i) (p (Some x))) (enumerate 0 xs))
     | _ \<Rightarrow> field_issue X path False)"

definition texts_of :: "json option \<Rightarrow> string list" where
  "texts_of v = (case v of Some (JArr xs) \<Rightarrow> map (\<lambda>x. text_of (Some x)) xs | _ \<Rightarrow> [])"

definition slug_field :: "json option \<Rightarrow> bool" where
  "slug_field v = regex_field (\<lambda>s. 3 \<le> length s \<and> length s \<le> 40 \<and> is_slug_text s) v"

definition url_field :: "ext \<Rightarrow> json option \<Rightarrow> bool" where
  "url_field X v = regex_field (\<lambda>s. x_parse_url X s \<noteq> None \<and> length s \<le> 2048) v"

definition role_field :: "json option \<Rightarrow> bool" where
  "role_field v = regex_field (\<lambda>s. s \<in> set (map role_text ASSIGNABLE_ROLES)) v"

definition registration_issues :: "ext \<Rightarrow> json \<Rightarrow> issue list" where
  "registration_issues X j =
    (if \<not> is_object j then field_issue X [] False
     else field_issue X ''orgId'' (positive_field (obj_get j ''orgId''))
      @ field_issue X ''slug'' (slug_field (obj_get j ''slug''))
      @ field_issue X ''name'' (text_field 2 80 (obj_get j ''name''))
      @ field_issue X ''url'' (url_field X (obj_get j ''url''))
      @ field_issue X ''description'' (optional_field (text_field 0 500) (obj_get j ''description''))
      @ field_issue X ''logoUrl'' (optional_field (url_field X) (obj_get j ''logoUrl''))
      @ array_issues X ''callbackUrls'' 1 10 (text_field 8 2048) (obj_get j ''callbackUrls'')
      @ array_issues X ''allowedRoles'' 1 4 role_field (obj_get j ''allowedRoles''))"

definition callback_problems :: "ext \<Rightarrow> string list \<Rightarrow> unit io" where
  "callback_problems X urls =
    seq (gets current_callback_mode) (\<lambda>mode.
    let problems = validate_callback_list (x_parse_url X) urls mode in
    guard_io (problems = [])
      (ApiError 400 (''Callback URL rejected '' @ [em_dash] @ '' '' @ join_with '' | '' problems) (Some ''CALLBACK_INVALID'')))"

text \<open>\<open>findApplicationBySlug\<close>, a registry failure turned into 503\<close>

definition existing_application :: "ext \<Rightarrow> int \<Rightarrow> string \<Rightarrow> registered_application option io" where
  "existing_application X org_id slug =
    seq (try_registry (find_application_by_slug X org_id slug)) (\<lambda>r.
      case r of None \<Rightarrow> throw registry_unavailable | Some found \<Rightarrow> ret found)"

text \<open>\<open>existing?.clientId ?? generateClientId()\<close>\<close>

definition client_id_io :: "ext \<Rightarrow> string option \<Rightarrow> string io" where
  "client_id_io X held =
    (case held of Some i \<Rightarrow> ret i | None \<Rightarrow> seq draw (\<lambda>k. ret (generate_client_id X k)))"

text \<open>A fresh secret and its digest\<close>

definition fresh_secret :: "ext \<Rightarrow> (string \<times> string) io" where
  "fresh_secret X =
    seq draw (\<lambda>k.
    let secret = generate_client_secret X k in
    seq draw (\<lambda>salt.
    seq (lift_res (hash_client_secret X salt secret)) (\<lambda>h. ret (secret, h))))"

definition save_callbacks :: "ext \<Rightarrow> int \<Rightarrow> string \<Rightarrow> string list \<Rightarrow> unit io" where
  "save_callbacks X org_id slug urls =
    try_catch (replace_callbacks X org_id slug urls)
      (\<lambda>cause. throw (ApiError 500 (nullish (exn_message cause) ''Could not save callback URLs'')
                       (Some ''CALLBACK_SAVE_FAILED'')))"

definition registered_row ::
  "ext \<Rightarrow> json \<Rightarrow> string \<Rightarrow> (string \<times> string) option \<Rightarrow> bool \<Rightarrow> int \<Rightarrow> app_row \<Rightarrow> app_row" where
  "registered_row X b client_id secret revoked now r =
    (let r1 = r\<lparr>ap_app_id := Some (app_id_from_slug X (text_of (obj_get b ''slug''))),
              ap_name := Some (text_of (obj_get b ''name'')), ap_url := Some (text_of (obj_get b ''url'')),
              ap_description := optional_text (obj_get b ''description''),
              ap_logo_url := optional_text (obj_get b ''logoUrl''),
              ap_client_id := Some client_id,
              ap_allowed_roles := Some (texts_of (obj_get b ''allowedRoles'')),
              ap_status := (if revoked then ''revoked'' else ''active'')\<rparr> in
     case secret of
       None \<Rightarrow> r1
     | Some (_, h) \<Rightarrow> r1\<lparr>ap_secret_hash := Some h, ap_secret_updated_at := Some now\<rparr>)"

definition application_record_of :: "json \<Rightarrow> application_record" where
  "application_record_of b =
    \<lparr>pr_slug = text_of (obj_get b ''slug''), pr_name = text_of (obj_get b ''name''),
     pr_url = text_of (obj_get b ''url'')\<rparr>"

definition is_revoked :: "registered_application option \<Rightarrow> bool" where
  "is_revoked existing = (case existing of None \<Rightarrow> False | Some a \<Rightarrow> ra_status a = Revoked)"

definition secret_of :: "registered_application option \<Rightarrow> string option" where
  "secret_of existing = Option.bind existing ra_secret_hash"

definition db_done :: "string \<Rightarrow> db_error + unit \<Rightarrow> unit io" where
  "db_done what r = (case r of Inl err \<Rightarrow> throw (ApiError 500 (what @ '': '' @ db_message err) None) | Inr _ \<Rightarrow> ret ())"

definition registration_json ::
  "ext \<Rightarrow> json \<Rightarrow> string \<Rightarrow> string option \<Rightarrow> integration_endpoints \<Rightarrow> json" where
  "registration_json X b client_id secret endpoints =
    (let slug = text_of (obj_get b ''slug''); org_id = int_of_field (obj_get b ''orgId'');
         app_id = app_id_from_slug X slug; metadata_hash = hash_application_record X (application_record_of b) in
     JObj [(''slug'', JStr slug), (''appId'', JStr app_id), (''metadataHash'', JStr metadata_hash),
           (''registerArgs'', JObj [(''orgId'', JNum org_id), (''appId'', JStr app_id), (''metadataHash'', JStr metadata_hash)]),
           (''clientId'', JStr client_id), (''clientSecret'', jnullable secret),
           (''callbackUrls'', JArr (map JStr (texts_of (obj_get b ''callbackUrls'')))),
           (''allowedRoles'', JArr (map JStr (texts_of (obj_get b ''allowedRoles'')))),
           (''accessArgs'', JArr (map (\<lambda>role. JObj [(''orgId'', JNum org_id), (''appId'', JStr app_id), (''role'', JStr role)])
                                    (texts_of (obj_get b ''allowedRoles'')))),
           (''endpoints'', endpoints_json endpoints)])"

definition applications_create_run :: "ext \<Rightarrow> json option \<Rightarrow> response io" where
  "applications_create_run X body =
    seq (read_json body) (\<lambda>raw.
    seq (lift_res (zod (registration_issues X raw) raw)) (\<lambda>b.
    let org_id = int_of_field (obj_get b ''orgId''); slug = text_of (obj_get b ''slug'');
        urls = texts_of (obj_get b ''callbackUrls'') in
    seq (require_permission X org_id MANAGE_APPS) (\<lambda>_.
    seq (callback_problems X urls) (\<lambda>_.
    seq (existing_application X org_id slug) (\<lambda>existing.
    seq (client_id_io X (Option.bind existing ra_client_id)) (\<lambda>client_id.
    seq (if truthy (secret_of existing) then ret None
         else seq (fresh_secret X) (\<lambda>s. ret (Some s))) (\<lambda>secret.
    seq (gets clock) (\<lambda>now.
    seq (db_stmt X (write_applications (\<lambda>w.
           upsert_rows org_id slug now (registered_row X b client_id secret (is_revoked existing) now)
             (applications w)))) (\<lambda>saved.
    seq (db_done ''Could not save the application'' saved) (\<lambda>_.
    seq (save_callbacks X org_id slug urls) (\<lambda>_.
    seq (server_env_io X) (\<lambda>env.
    seq (lift_res (integration_endpoints X (APP_ORIGIN env) (Some client_id) org_id slug
                     (case urls of [] \<Rightarrow> None | u # _ \<Rightarrow> Some u))) (\<lambda>endpoints.
      ret (ok_no_store (registration_json X b client_id (map_option fst secret) endpoints)))))))))))))))"

definition applications_create_post :: "ext \<Rightarrow> json option \<Rightarrow> world \<Rightarrow> response \<times> world" where
  "applications_create_post X body = handler (applications_create_run X body)"

subsection \<open>PATCH /api/applications/[slug]\<close>

text \<open>A nullable optional field of the patch\<close>

definition nullable_field :: "(json option \<Rightarrow> bool) \<Rightarrow> json option \<Rightarrow> bool" where
  "nullable_field p v = (v = None \<or> v = Some JNull \<or> p v)"

definition PATCHABLE :: "string list" where
  "PATCHABLE = [''name'', ''url'', ''description'', ''logoUrl'', ''callbackUrls'', ''allowedRoles'', ''status'']"

definition is_number :: "json option \<Rightarrow> bool" where
  "is_number v = (case v of Some (JNum _) \<Rightarrow> True | Some (JReal _) \<Rightarrow> True | _ \<Rightarrow> False)"

text \<open>The refinement runs when every field had its type, and asks for one field to change.\<close>

definition patch_issues :: "ext \<Rightarrow> json \<Rightarrow> issue list" where
  "patch_issues X j =
    (if \<not> is_object j then field_issue X [] False
     else field_issue X ''orgId'' (positive_field (obj_get j ''orgId''))
      @ field_issue X ''name'' (optional_field (text_field 2 80) (obj_get j ''name''))
      @ field_issue X ''url'' (optional_field (url_field X) (obj_get j ''url''))
      @ field_issue X ''description'' (nullable_field (text_field 0 500) (obj_get j ''description''))
      @ field_issue X ''logoUrl'' (nullable_field (url_field X) (obj_get j ''logoUrl''))
      @ (if obj_get j ''callbackUrls'' = None then []
         else array_issues X ''callbackUrls'' 1 10 (text_field 8 2048) (obj_get j ''callbackUrls''))
      @ (if obj_get j ''allowedRoles'' = None then []
         else array_issues X ''allowedRoles'' 1 4 role_field (obj_get j ''allowedRoles''))
      @ field_issue X ''status'' (optional_field (regex_field (\<lambda>s. s \<in> {''active'', ''revoked''})) (obj_get j ''status''))
      @ (if list_ex (\<lambda>k. obj_get j k \<noteq> None) PATCHABLE \<or> \<not> is_number (obj_get j ''orgId'') then []
         else [\<lparr>issue_path = [], issue_message = ''Nothing to change''\<rparr>]))"

definition patch_columns :: "json \<Rightarrow> app_row \<Rightarrow> app_row" where
  "patch_columns b r =
    (let r1 = (if obj_get b ''name'' = None then r else r\<lparr>ap_name := optional_text (obj_get b ''name'')\<rparr>);
         r2 = (if obj_get b ''url'' = None then r1 else r1\<lparr>ap_url := optional_text (obj_get b ''url'')\<rparr>);
         r3 = (if obj_get b ''description'' = None then r2 else r2\<lparr>ap_description := optional_text (obj_get b ''description'')\<rparr>);
         r4 = (if obj_get b ''logoUrl'' = None then r3 else r3\<lparr>ap_logo_url := optional_text (obj_get b ''logoUrl'')\<rparr>);
         r5 = (if obj_get b ''allowedRoles'' = None then r4 else r4\<lparr>ap_allowed_roles := Some (texts_of (obj_get b ''allowedRoles''))\<rparr>) in
     if obj_get b ''status'' = None then r5 else r5\<lparr>ap_status := text_of (obj_get b ''status'')\<rparr>)"

definition patches_columns :: "json \<Rightarrow> bool" where
  "patches_columns b = list_ex (\<lambda>k. obj_get b k \<noteq> None) (removeAll ''callbackUrls'' PATCHABLE)"

definition slug_param :: "ext \<Rightarrow> string \<Rightarrow> string io" where
  "slug_param X slug = lift_res (zod (field_issue X ''slug'' (slug_field (Some (JStr slug)))) slug)"

definition require_existing :: "ext \<Rightarrow> int \<Rightarrow> string \<Rightarrow> registered_application io" where
  "require_existing X org_id slug =
    seq (existing_application X org_id slug) (\<lambda>existing.
      case existing of
        None \<Rightarrow> throw (not_found ''No such application in this organization'')
      | Some a \<Rightarrow> ret a)"

definition patch_json :: "json \<Rightarrow> int \<Rightarrow> string \<Rightarrow> registered_application \<Rightarrow> json" where
  "patch_json b org_id slug shown = JObj
    ([(''slug'', JStr slug), (''orgId'', JNum org_id), (''status'', JStr (status_text (ra_status shown))),
      (''callbackUrls'', JArr (map JStr (ra_callbacks shown))), (''allowedRoles'', role_list_json (ra_allowed_roles shown))]
     @ (if obj_get b ''status'' = Some (JStr ''revoked'')
        then [(''note'', JStr ''Sign-in through this integration is refused from now on. Audit history is untouched.'')]
        else []))"

definition applications_patch_run :: "ext \<Rightarrow> string \<Rightarrow> json option \<Rightarrow> response io" where
  "applications_patch_run X slug_text body =
    seq (slug_param X slug_text) (\<lambda>slug.
    seq (read_json body) (\<lambda>raw.
    seq (lift_res (zod (patch_issues X raw) raw)) (\<lambda>b.
    let org_id = int_of_field (obj_get b ''orgId''); urls = texts_of (obj_get b ''callbackUrls'');
        has_urls = (obj_get b ''callbackUrls'' \<noteq> None) in
    seq (require_permission X org_id MANAGE_APPS) (\<lambda>_.
    seq (require_existing X org_id slug) (\<lambda>existing.
    seq (if has_urls then callback_problems X urls else ret ()) (\<lambda>_.
    seq (if patches_columns b
         then seq (db_stmt X (write_applications (\<lambda>w.
                update_rows org_id slug (clock w) (patch_columns b) (applications w)))) (db_done ''Could not update the application'')
         else ret ()) (\<lambda>_.
    seq (if has_urls then save_callbacks X org_id slug urls else ret ()) (\<lambda>_.
    seq (find_application_by_slug X org_id slug) (\<lambda>updated.
      ret (ok_no_store (patch_json b org_id slug (nullish updated existing))))))))))))"

definition applications_patch :: "ext \<Rightarrow> string \<Rightarrow> json option \<Rightarrow> world \<Rightarrow> response \<times> world" where
  "applications_patch X slug body = handler (applications_patch_run X slug body)"

subsection \<open>POST /api/applications/[slug]/secret\<close>

definition rotate_issues :: "ext \<Rightarrow> json \<Rightarrow> issue list" where
  "rotate_issues X j =
    (if \<not> is_object j then field_issue X [] False
     else field_issue X ''orgId'' (positive_field (obj_get j ''orgId''))
      @ field_issue X ''confirm'' (obj_get j ''confirm'' = Some (JBool True)))"

definition rotated_row :: "string \<Rightarrow> string \<Rightarrow> int \<Rightarrow> app_row \<Rightarrow> app_row" where
  "rotated_row client_id h now r =
    r\<lparr>ap_client_id := Some client_id, ap_secret_hash := Some h, ap_secret_updated_at := Some now\<rparr>"

definition rotation_json :: "ext \<Rightarrow> string \<Rightarrow> int \<Rightarrow> string \<Rightarrow> string \<Rightarrow> int \<Rightarrow> integration_endpoints \<Rightarrow> json" where
  "rotation_json X slug org_id client_id secret now endpoints = JObj
    [(''slug'', JStr slug), (''orgId'', JNum org_id), (''clientId'', JStr client_id), (''clientSecret'', JStr secret),
     (''rotatedAt'', JStr (x_iso X now)), (''endpoints'', endpoints_json endpoints),
     (''warning'', JStr ''Store this value in the partner application's server environment now. The previous secret has already stopped working, and this one cannot be shown again.'')]"

definition secret_rotate_run :: "ext \<Rightarrow> string \<Rightarrow> json option \<Rightarrow> response io" where
  "secret_rotate_run X slug_text body =
    seq (slug_param X slug_text) (\<lambda>slug.
    seq (read_json body) (\<lambda>raw.
    seq (lift_res (zod (rotate_issues X raw) raw)) (\<lambda>b.
    let org_id = int_of_field (obj_get b ''orgId'') in
    seq (require_permission X org_id MANAGE_APPS) (\<lambda>_.
    seq (require_existing X org_id slug) (\<lambda>existing.
    seq (client_id_io X (ra_client_id existing)) (\<lambda>client_id.
    seq (fresh_secret X) (\<lambda>(secret, h).
    seq (db_stmt X (write_applications (\<lambda>w.
           update_rows org_id slug (clock w) (rotated_row client_id h (clock w)) (applications w)))) (\<lambda>saved.
    seq (db_done ''Could not rotate the secret'' saved) (\<lambda>_.
    seq (gets clock) (\<lambda>now.
    seq (server_env_io X) (\<lambda>env.
    seq (lift_res (integration_endpoints X (APP_ORIGIN env) (Some client_id) org_id slug (first_callback existing))) (\<lambda>endpoints.
      ret (ok_no_store (rotation_json X slug org_id client_id secret now endpoints))))))))))))))"

definition secret_rotate_post :: "ext \<Rightarrow> string \<Rightarrow> json option \<Rightarrow> world \<Rightarrow> response \<times> world" where
  "secret_rotate_post X slug body = handler (secret_rotate_run X slug body)"

end
