(* ===== verification/AppProps.thy ===== *)
theory AppProps
  imports AppRoutes
begin

text \<open>
  Facts about the application management routes: what each statement leaves in the tables, what a
  successful run of each route did, and that a callback set once saved is the set the
  authorization endpoint reads.
\<close>

subsection \<open>Statements\<close>

lemma write_applications_run:
  assumes "db_stmt X (write_applications f) w = (Inr (Inr ()), w')"
    and "\<And>n. f (w\<lparr>db_calls := n\<rparr>) = f w"
  shows "distinct (List.map_filter ap_client_id (f w)) \<and> (\<exists>n. w' = w\<lparr>applications := f w, db_calls := n\<rparr>)"
proof -
  from db_stmt_cases[OF assms(1)] assms(2) have
    "distinct (List.map_filter ap_client_id (f w))" "w' = w\<lparr>db_calls := Suc (db_calls w), applications := f w\<rparr>"
    by (auto simp: write_applications_def split: if_splits)
  then show ?thesis by (auto intro!: exI[of _ "Suc (db_calls w)"])
qed

lemma delete_callbacks_run:
  assumes "db_stmt X (\<lambda>w. (Inr (), w\<lparr>callbacks := f (callbacks w)\<rparr>)) w = (Inr (Inr ()), w')"
  shows "\<exists>n. w' = w\<lparr>callbacks := f (callbacks w), db_calls := n\<rparr>"
  using db_stmt_cases[OF assms] by (auto intro!: exI[of _ "Suc (db_calls w)"])

definition own_callbacks :: "int \<Rightarrow> string \<Rightarrow> string list \<Rightarrow> callback_row list \<Rightarrow> callback_row list" where
  "own_callbacks org_id slug urls rows =
    filter (\<lambda>r. \<not> (cb_org_id r = org_id \<and> cb_slug r = slug)) rows
    @ map (\<lambda>u. \<lparr>cb_org_id = org_id, cb_slug = slug, cb_url = u\<rparr>) (unique_callbacks urls)"

lemma save_callbacks_run:
  assumes "save_callbacks X org slug urls w = (Inr u, w')"
  shows "\<exists>n. w' = w\<lparr>callbacks := own_callbacks org slug urls (callbacks w), db_calls := n\<rparr>"
proof -
  from assms have "replace_callbacks X org slug urls w = (Inr u, w')"
    by (auto simp: save_callbacks_def try_catch_iff throw_def)
  then obtain r w1 where
    d: "db_stmt X (\<lambda>w. (Inr (), w\<lparr>callbacks := filter (\<lambda>r. \<not> (cb_org_id r = org \<and> cb_slug r = slug)) (callbacks w)\<rparr>)) w
        = (Inr (Inr r), w1)" and
    rest: "(if unique_callbacks urls = [] then ret ()
        else seq (db_stmt X (\<lambda>w. (Inr (), w\<lparr>callbacks := callbacks w
               @ map (\<lambda>u. \<lparr>cb_org_id = org, cb_slug = slug, cb_url = u\<rparr>) (unique_callbacks urls)\<rparr>))) (\<lambda>r2.
          case r2 of
            Inl err \<Rightarrow> throw (registry_error ''Could not save callback URLs'' err)
          | Inr _ \<Rightarrow> ret ())) w1 = (Inr u, w')"
    unfolding replace_callbacks_def by (auto simp: io_iff simp del: if_split)
  from delete_callbacks_run[of X "filter (\<lambda>r. \<not> (cb_org_id r = org \<and> cb_slug r = slug))" w w1] d
  obtain n where w1: "w1 = w\<lparr>callbacks := filter (\<lambda>r. \<not> (cb_org_id r = org \<and> cb_slug r = slug)) (callbacks w), db_calls := n\<rparr>"
    by auto
  show ?thesis
  proof (cases "unique_callbacks urls = []")
    case True
    with rest w1 show ?thesis by (auto simp: own_callbacks_def io_iff)
  next
    case False
    with rest have "db_stmt X (\<lambda>w. (Inr (), w\<lparr>callbacks := (\<lambda>cs. cs
               @ map (\<lambda>u. \<lparr>cb_org_id = org, cb_slug = slug, cb_url = u\<rparr>) (unique_callbacks urls)) (callbacks w)\<rparr>)) w1
             = (Inr (Inr ()), w')" by (auto simp: io_iff)
    from delete_callbacks_run[OF this] w1 show ?thesis by (auto simp: own_callbacks_def)
  qed
qed

lemma own_callback_urls: "callback_urls org slug (own_callbacks org slug urls rows) = sort (unique_callbacks urls)"
  by (simp add: callback_urls_def own_callbacks_def comp_def conj_commute filter_empty_conv)

lemma other_callback_urls:
  "(org', slug') \<noteq> (org, slug) \<Longrightarrow>
   callback_urls org' slug' (own_callbacks org slug urls rows) = callback_urls org' slug' rows"
  unfolding callback_urls_def own_callbacks_def
  by (auto simp: filter_filter intro!: arg_cong[of _ _ "\<lambda>z. sort (map cb_url z)"] filter_cong)

lemma client_id_io_run:
  "client_id_io X held w = (Inr cid, w') \<Longrightarrow>
   (\<exists>n. w' = w\<lparr>draws := n\<rparr>) \<and> (case held of Some i \<Rightarrow> cid = i | None \<Rightarrow> cid = generate_client_id X (draws w))"
  by (cases held) (auto simp: client_id_io_def io_iff intro: exI[of _ "draws w"])

lemma fresh_secret_run:
  assumes "fresh_secret X w = (Inr (s, h), w')"
  shows "s = generate_client_secret X (draws w) \<and> hash_client_secret X (Suc (draws w)) s = Inr h
    \<and> (\<exists>n. w' = w\<lparr>draws := n\<rparr>)"
  using assms by (auto simp: fresh_secret_def io_iff lift_res_def Let_def)

lemma existing_application_run:
  assumes "existing_application X org slug w = (Inr found, w')"
  shows "(\<exists>n. w' = w\<lparr>db_calls := n\<rparr>)
    \<and> (case found of
         None \<Rightarrow> filter (app_key org slug) (applications w) = []
       | Some a \<Rightarrow> \<exists>row. filter (app_key org slug) (applications w) = [row]
                 \<and> a = to_record X row (callback_urls org slug (callbacks w)))"
proof -
  have key: "app_key org slug = (\<lambda>r. ap_org_id r = org \<and> ap_slug r = slug)" by (simp add: fun_eq_iff app_key_def)
  from assms have f: "find_application_by_slug X org slug w = (Inr found, w')"
    by (auto simp: existing_application_def io_iff)
  from reads_onlyD[OF find_reads_only(2) f] have n: "\<exists>n. w' = w\<lparr>db_calls := n\<rparr>" .
  show ?thesis
  proof (cases found)
    case None
    with f obtain w1 where
      "select_one X (\<lambda>w. filter (\<lambda>r. ap_org_id r = org \<and> ap_slug r = slug) (applications w)) w = (Inr (Inr None), w1)"
      unfolding find_application_by_slug_def by (auto simp: io_iff)
    from select_one_Inr[OF this] None n show ?thesis by (auto simp: maybe_single_None_iff key)
  next
    case (Some a)
    from find_by_slug_Some[OF f[unfolded Some]] Some n show ?thesis by (auto simp: key)
  qed
qed

lemma callback_problems_run [io_iff]:
  "callback_problems X urls w = (Inr u, w') \<longleftrightarrow>
     w' = w \<and> validate_callback_list (x_parse_url X) urls (current_callback_mode w) = []"
  by (auto simp: callback_problems_def io_iff Let_def)

lemma db_done_iff [io_iff]: "db_done what r w = (Inr u, w') \<longleftrightarrow> (\<exists>v. r = Inr v) \<and> w' = w"
  by (cases r) (auto simp: db_done_def ret_def throw_def)

lemma slug_param_iff [io_iff]:
  "slug_param X s w = (Inr t, w') \<longleftrightarrow> slug_field (Some (JStr s)) \<and> t = s \<and> w' = w"
  by (auto simp: slug_param_def lift_res_def res_iff)

subsection \<open>What a successful run did\<close>

definition held_row :: "int \<Rightarrow> string \<Rightarrow> world \<Rightarrow> app_row option" where
  "held_row org_id slug w = (case filter (app_key org_id slug) (applications w) of [row] \<Rightarrow> Some row | _ \<Rightarrow> None)"

text \<open>A fresh secret as drawn: its text and its digest.\<close>

definition drawn_secret :: "ext \<Rightarrow> string \<Rightarrow> string \<Rightarrow> bool" where
  "drawn_secret X s h \<longleftrightarrow> (\<exists>k. s = generate_client_secret X k \<and> hash_client_secret X (Suc k) s = Inr h)"

lemma secret_if_missing_run:
  assumes "(if b then ret None else seq (fresh_secret X) (\<lambda>s. ret (Some s))) w = (Inr secret, w')"
  shows "(\<exists>n. w' = w\<lparr>draws := n\<rparr>)
    \<and> (if b then secret = None else \<exists>s h. secret = Some (s, h) \<and> drawn_secret X s h)"
proof (cases b)
  case True
  then show ?thesis using assms by (auto simp: ret_def intro!: exI[of _ "draws w"])
next
  case False
  with assms obtain s h where f: "fresh_secret X w = (Inr (s, h), w')" and "secret = Some (s, h)"
    by (auto simp: io_iff)
  with fresh_secret_run[OF f] False show ?thesis by (auto simp: drawn_secret_def)
qed

lemma create_run:
  assumes "applications_create_run X (Some b) w = (Inr resp, w')"
  obtains existing cid secret endpoints rows n m where
    "validate_callback_list (x_parse_url X) (texts_of (obj_get b ''callbackUrls'')) (current_callback_mode w) = []"
    "case existing of
         None \<Rightarrow> filter (app_key (int_of_field (obj_get b ''orgId'')) (text_of (obj_get b ''slug''))) (applications w) = []
       | Some a \<Rightarrow> \<exists>row cbs. filter (app_key (int_of_field (obj_get b ''orgId'')) (text_of (obj_get b ''slug''))) (applications w) = [row]
                 \<and> a = to_record X row cbs"
    "\<forall>i. Option.bind existing ra_client_id = Some i \<longrightarrow> cid = i"
    "if truthy (secret_of existing) then secret = None else \<exists>s h. secret = Some (s, h) \<and> drawn_secret X s h"
    "rows = upsert_rows (int_of_field (obj_get b ''orgId'')) (text_of (obj_get b ''slug'')) (clock w)
              (registered_row X b cid secret (is_revoked existing) (clock w)) (applications w)"
    "distinct (List.map_filter ap_client_id rows)"
    "w' = w\<lparr>applications := rows,
            callbacks := own_callbacks (int_of_field (obj_get b ''orgId'')) (text_of (obj_get b ''slug''))
                           (texts_of (obj_get b ''callbackUrls'')) (callbacks w), db_calls := n, draws := m\<rparr>"
    "resp = ok_no_store (registration_json X b cid (map_option fst secret) endpoints)"
proof -
  from assms obtain caller role existing cid secret w1 w2 w3 w4 endpoints where
    cb: "validate_callback_list (x_parse_url X) (texts_of (obj_get b ''callbackUrls'')) (current_callback_mode w) = []" and
    ex: "existing_application X (int_of_field (obj_get b ''orgId'')) (text_of (obj_get b ''slug'')) w = (Inr existing, w1)" and
    ci: "client_id_io X (Option.bind existing ra_client_id) w1 = (Inr cid, w2)" and
    se: "(if truthy (secret_of existing) then ret None else seq (fresh_secret X) (\<lambda>s. ret (Some s))) w2 = (Inr secret, w3)" and
    up: "db_stmt X (write_applications (\<lambda>v. upsert_rows (int_of_field (obj_get b ''orgId'')) (text_of (obj_get b ''slug''))
            (clock w3) (registered_row X b cid secret (is_revoked existing) (clock w3)) (applications v))) w3 = (Inr (Inr ()), w4)" and
    sv: "save_callbacks X (int_of_field (obj_get b ''orgId'')) (text_of (obj_get b ''slug''))
            (texts_of (obj_get b ''callbackUrls'')) w4 = (Inr (), w')" and
    resp: "resp = ok_no_store (registration_json X b cid (map_option fst secret) endpoints)"
    unfolding applications_create_run_def
    by (auto simp: io_iff Let_def lift_res_def res_iff simp del: if_split)
  from existing_application_run[OF ex] obtain n1 where w1: "w1 = w\<lparr>db_calls := n1\<rparr>" and
    found: "case existing of
         None \<Rightarrow> filter (app_key (int_of_field (obj_get b ''orgId'')) (text_of (obj_get b ''slug''))) (applications w) = []
       | Some a \<Rightarrow> \<exists>row cbs. filter (app_key (int_of_field (obj_get b ''orgId'')) (text_of (obj_get b ''slug''))) (applications w) = [row]
                 \<and> a = to_record X row cbs"
    by (auto split: option.splits)
  from client_id_io_run[OF ci] obtain n2 where w2: "w2 = w1\<lparr>draws := n2\<rparr>" and
    cid: "\<forall>i. Option.bind existing ra_client_id = Some i \<longrightarrow> cid = i" by (auto split: option.splits)
  from secret_if_missing_run[OF se] obtain n3 where w3: "w3 = w2\<lparr>draws := n3\<rparr>" and
    sec: "if truthy (secret_of existing) then secret = None else \<exists>s h. secret = Some (s, h) \<and> drawn_secret X s h"
    by blast
  define rows where "rows = upsert_rows (int_of_field (obj_get b ''orgId'')) (text_of (obj_get b ''slug'')) (clock w)
              (registered_row X b cid secret (is_revoked existing) (clock w)) (applications w)"
  have rows3: "rows = upsert_rows (int_of_field (obj_get b ''orgId'')) (text_of (obj_get b ''slug'')) (clock w3)
              (registered_row X b cid secret (is_revoked existing) (clock w3)) (applications w3)"
    by (simp add: rows_def w1 w2 w3)
  from write_applications_run[OF up] obtain n4 where d: "distinct (List.map_filter ap_client_id rows)" and
    w4: "w4 = w3\<lparr>applications := rows, db_calls := n4\<rparr>"
    unfolding rows3 by auto
  from save_callbacks_run[OF sv] obtain n5 where
    w5: "w' = w4\<lparr>callbacks := own_callbacks (int_of_field (obj_get b ''orgId'')) (text_of (obj_get b ''slug''))
                           (texts_of (obj_get b ''callbackUrls'')) (callbacks w4), db_calls := n5\<rparr>" by blast
  have "w' = w\<lparr>applications := rows,
            callbacks := own_callbacks (int_of_field (obj_get b ''orgId'')) (text_of (obj_get b ''slug''))
                           (texts_of (obj_get b ''callbackUrls'')) (callbacks w), db_calls := n5, draws := n3\<rparr>"
    by (simp add: w5 w4 w3 w2 w1)
  from that[OF cb found cid sec rows_def d this resp] show thesis .
qed

lemma patch_run:
  assumes "applications_patch_run X slug (Some b) w = (Inr resp, w')"
  obtains row n where
    "filter (app_key (int_of_field (obj_get b ''orgId'')) slug) (applications w) = [row]"
    "obj_get b ''callbackUrls'' \<noteq> None \<Longrightarrow>
       validate_callback_list (x_parse_url X) (texts_of (obj_get b ''callbackUrls'')) (current_callback_mode w) = []"
    "w' = w\<lparr>applications := (if patches_columns b
                then update_rows (int_of_field (obj_get b ''orgId'')) slug (clock w) (patch_columns b) (applications w)
                else applications w),
            callbacks := (if obj_get b ''callbackUrls'' \<noteq> None
                then own_callbacks (int_of_field (obj_get b ''orgId'')) slug (texts_of (obj_get b ''callbackUrls'')) (callbacks w)
                else callbacks w), db_calls := n\<rparr>"
proof -
  from assms obtain existing w1 w2 w3 updated where
    ex: "existing_application X (int_of_field (obj_get b ''orgId'')) slug w = (Inr (Some existing), w1)" and
    cb: "(if obj_get b ''callbackUrls'' \<noteq> None then callback_problems X (texts_of (obj_get b ''callbackUrls'')) else ret ()) w1 = (Inr (), w1)" and
    up: "(if patches_columns b
         then seq (db_stmt X (write_applications (\<lambda>v.
                update_rows (int_of_field (obj_get b ''orgId'')) slug (clock v) (patch_columns b) (applications v))))
                (db_done ''Could not update the application'')
         else ret ()) w1 = (Inr (), w2)" and
    sv: "(if obj_get b ''callbackUrls'' \<noteq> None then save_callbacks X (int_of_field (obj_get b ''orgId'')) slug (texts_of (obj_get b ''callbackUrls'')) else ret ()) w2
            = (Inr (), w3)" and
    fin: "find_application_by_slug X (int_of_field (obj_get b ''orgId'')) slug w3 = (Inr updated, w')"
    unfolding applications_patch_run_def require_existing_def
    by (auto simp: io_iff Let_def lift_res_def res_iff simp del: if_split)
  from existing_application_run[OF ex] obtain n1 row where w1: "w1 = w\<lparr>db_calls := n1\<rparr>" and
    row: "filter (app_key (int_of_field (obj_get b ''orgId'')) slug) (applications w) = [row]" by auto
  have ok: "obj_get b ''callbackUrls'' \<noteq> None \<Longrightarrow>
       validate_callback_list (x_parse_url X) (texts_of (obj_get b ''callbackUrls'')) (current_callback_mode w) = []"
    using cb by (auto simp: io_iff w1 current_callback_mode_def)
  define rows where "rows = (if patches_columns b
                then update_rows (int_of_field (obj_get b ''orgId'')) slug (clock w) (patch_columns b) (applications w)
                else applications w)"
  from up obtain n2 where w2: "w2 = w\<lparr>applications := rows, db_calls := n2\<rparr>"
    by (cases "patches_columns b") (auto simp: io_iff rows_def w1 dest!: write_applications_run)
  define cbs where "cbs = (if obj_get b ''callbackUrls'' \<noteq> None
                then own_callbacks (int_of_field (obj_get b ''orgId'')) slug (texts_of (obj_get b ''callbackUrls'')) (callbacks w)
                else callbacks w)"
  from sv obtain n3 where w3: "w3 = w\<lparr>applications := rows, callbacks := cbs, db_calls := n3\<rparr>"
    by (cases "obj_get b ''callbackUrls'' = None") (auto simp: io_iff cbs_def w2 dest!: save_callbacks_run)
  from reads_onlyD[OF find_reads_only(2) fin] obtain n4 where
    "w' = w\<lparr>applications := rows, callbacks := cbs, db_calls := n4\<rparr>" by (auto simp: w3)
  from that[OF row ok this[unfolded rows_def cbs_def]] show thesis .
qed

lemma rotate_run:
  assumes "secret_rotate_run X slug (Some b) w = (Inr resp, w')"
  obtains row cid s h endpoints n m where
    "filter (app_key (int_of_field (obj_get b ''orgId'')) slug) (applications w) = [row]"
    "\<forall>i. ap_client_id row = Some i \<longrightarrow> cid = i" "drawn_secret X s h"
    "w' = w\<lparr>applications := update_rows (int_of_field (obj_get b ''orgId'')) slug (clock w) (rotated_row cid h (clock w)) (applications w),
            db_calls := n, draws := m\<rparr>"
    "resp = ok_no_store (rotation_json X slug (int_of_field (obj_get b ''orgId'')) cid s (clock w) endpoints)"
proof -
  from assms obtain existing cid s h w1 w2 w3 endpoints where
    ex: "existing_application X (int_of_field (obj_get b ''orgId'')) slug w = (Inr (Some existing), w1)" and
    ci: "client_id_io X (ra_client_id existing) w1 = (Inr cid, w2)" and
    fs: "fresh_secret X w2 = (Inr (s, h), w3)" and
    up: "db_stmt X (write_applications (\<lambda>v.
           update_rows (int_of_field (obj_get b ''orgId'')) slug (clock v) (rotated_row cid h (clock v)) (applications v))) w3
            = (Inr (Inr ()), w')" and
    resp: "resp = ok_no_store (rotation_json X slug (int_of_field (obj_get b ''orgId'')) cid s (clock w') endpoints)"
    unfolding secret_rotate_run_def require_existing_def
    by (auto simp: io_iff Let_def lift_res_def res_iff simp del: if_split)
  from existing_application_run[OF ex] obtain n1 row where w1: "w1 = w\<lparr>db_calls := n1\<rparr>" and
    row: "filter (app_key (int_of_field (obj_get b ''orgId'')) slug) (applications w) = [row]"
    "existing = to_record X row (callback_urls (int_of_field (obj_get b ''orgId'')) slug (callbacks w))" by auto
  from client_id_io_run[OF ci] row(2) obtain n2 where w2: "w2 = w1\<lparr>draws := n2\<rparr>" and
    cid: "\<forall>i. ap_client_id row = Some i \<longrightarrow> cid = i" by (auto simp: to_record_def split: option.splits)
  from fresh_secret_run[OF fs] obtain n3 where w3: "w3 = w2\<lparr>draws := n3\<rparr>" and "drawn_secret X s h"
    by (auto simp: drawn_secret_def)
  moreover from write_applications_run[OF up] obtain n4 where
    "w' = w3\<lparr>applications := update_rows (int_of_field (obj_get b ''orgId'')) slug (clock w3) (rotated_row cid h (clock w3)) (applications w3),
            db_calls := n4\<rparr>" by auto
  then have
    w': "w' = w\<lparr>applications := update_rows (int_of_field (obj_get b ''orgId'')) slug (clock w) (rotated_row cid h (clock w)) (applications w),
            db_calls := n4, draws := n3\<rparr>" by (simp add: w1 w2 w3)
  moreover have "clock w' = clock w" by (simp add: w')
  ultimately show thesis using that[OF row(1) cid] resp by metis
qed

definition credential_laws :: "ext \<Rightarrow> bool" where
  "credential_laws X \<longleftrightarrow> number_reads_decimals X \<and> b64url_codec X \<and> scrypt_returns X SCRYPT_COST \<and> random_lengths X"

text \<open>The JSON field of a response\<close>

definition answered :: "response \<Rightarrow> string \<Rightarrow> json option" where
  "answered resp k = (case resp_body resp of JsonBody j \<Rightarrow> obj_get j k | _ \<Rightarrow> None)"

lemma answered_ok [simp]: "answered (ok_no_store j) k = obj_get j k"
  by (simp add: answered_def ok_no_store_def)

end
