(* ===== verification/AppDemo.thy ===== *)
theory AppDemo
  imports AppProps AuditRoutes AuthorizeProps
begin

text \<open>
  The management routes on the concrete deployment: an administrator registers the application
  again, rotates its secret and revokes it, and a member lists it.
\<close>

definition demo_registration :: json where
  "demo_registration = JObj
    [(''orgId'', JNum 1), (''slug'', JStr demo_slug), (''name'', JStr ''Portal''), (''url'', JStr ''https://portal.example''),
     (''callbackUrls'', JArr [JStr demo_callback]), (''allowedRoles'', JArr [JStr ''USER''])]"

lemma demo_parser: "x_parse_url demo_ext = demo_url"
  by (simp add: demo_ext_def)

lemma demo_existing:
  assumes "penv w = demo_env" "db_fault w = (\<lambda>_. None)" "applications w = [demo_app_row]"
    "callbacks w = [\<lparr>cb_org_id = 1, cb_slug = demo_slug, cb_url = demo_callback\<rparr>]"
  shows "find_application_by_slug demo_ext 1 demo_slug w = (Inr (Some demo_app), w\<lparr>db_calls := Suc (Suc (db_calls w))\<rparr>)"
  using assms
  by (simp add: find_application_by_slug_def seq_def select_one_def select_stmt_def demo_db_stmt read_callbacks_def
        ret_def demo_app_row_def demo_callback_urls)

lemma demo_endpoints: "\<exists>e. integration_endpoints demo_ext ''https://ownex.example'' cid org slug uri = Inr e"
proof -
  have "strip_trailing_slashes ''https://ownex.example'' = ''https://ownex.example''" by code_simp
  moreover have "demo_url ''https://ownex.example/'' \<noteq> None" by code_simp
  ultimately show ?thesis by (auto simp: integration_endpoints_def resolve_url_def demo_ext_def)
qed

lemma demo_valid_callback: "validate_callback_list demo_url [demo_callback] Production = []"
proof -
  have "trim demo_callback \<noteq> []" "trim demo_callback = demo_callback" by code_simp+
  moreover have "length demo_callback \<le> MAX_CALLBACK_LENGTH"
    by (simp add: demo_callback_def MAX_CALLBACK_LENGTH_def)
  moreover have "(case demo_url demo_callback of Some raw \<Rightarrow> u_protocol raw = ''https:'' \<and> u_search raw = [] \<and> u_hash raw = []
      \<and> check_transport raw Production = None | None \<Rightarrow> False)" by code_simp
  moreover from demo_canonical obtain u where "canonicalize_callback demo_url demo_callback = Some (u, demo_callback)" by blast
  ultimately show ?thesis by (auto simp: validate_registrable_callback_def Let_def split: option.splits)
qed

lemma demo_registration_fields:
  "obj_get demo_registration ''orgId'' = Some (JNum 1)" "obj_get demo_registration ''slug'' = Some (JStr demo_slug)"
  "obj_get demo_registration ''name'' = Some (JStr ''Portal'')" "obj_get demo_registration ''url'' = Some (JStr ''https://portal.example'')"
  "obj_get demo_registration ''description'' = None" "obj_get demo_registration ''logoUrl'' = None"
  "obj_get demo_registration ''callbackUrls'' = Some (JArr [JStr demo_callback])"
  "obj_get demo_registration ''allowedRoles'' = Some (JArr [JStr ''USER''])" "is_object demo_registration"
  by (simp_all add: demo_registration_def is_object_def)

lemma demo_registration_issues: "registration_issues demo_ext demo_registration = []"
proof -
  have "is_slug_text demo_slug" "length demo_slug = 6" "8 \<le> length demo_callback" by code_simp+
  moreover have "length demo_callback \<le> 2048" by (simp add: demo_callback_def)
  moreover have "demo_url ''https://portal.example'' \<noteq> None" by code_simp
  ultimately show ?thesis
    by (simp add: registration_issues_def demo_registration_fields positive_field_def slug_field_def regex_field_def
        text_field_def url_field_def optional_field_def array_issues_def enumerate_eq_zip role_field_def ASSIGNABLE_ROLES_def)
       (simp add: demo_ext_def)
qed

lemma demo_admin_world:
  "session_wallet demo_audit_world = Some demo_admin" "penv demo_audit_world = demo_env"
  "db_fault demo_audit_world = (\<lambda>_. None)" "chain_now demo_audit_world = demo_chain"
  "applications demo_audit_world = [demo_app_row]" "db_calls demo_audit_world = 0" "draws demo_audit_world = 4"
  "callbacks demo_audit_world = [\<lparr>cb_org_id = 1, cb_slug = demo_slug, cb_url = demo_callback\<rparr>]"
  by (simp_all add: demo_audit_session) (simp_all add: demo_audit_world_def demo_world_def)

lemma demo_registered_app: "ra_client_id demo_app = Some demo_client_id" "ra_secret_hash demo_app = Some demo_secret_hash"
    "ra_status demo_app = Active" "ra_callbacks demo_app = [demo_callback]"
  by (simp_all add: to_record_def demo_app_row_def to_status_def)

lemma demo_credential_laws: "credential_laws demo_ext"
  by (simp add: credential_laws_def demo_ext_laws)

lemma demo_create: "\<exists>resp w'. applications_create_run demo_ext (Some demo_registration) demo_audit_world = (Inr resp, w')"
proof -
  have perm: "require_permission demo_ext 1 MANAGE_APPS demo_audit_world = (Inr (demo_admin, ADMIN), demo_audit_world)"
    by (rule demo_admin_permitted) (simp_all add: demo_admin_world)
  have cb: "callback_problems demo_ext [demo_callback] demo_audit_world = (Inr (), demo_audit_world)"
    using demo_valid_callback demo_parser
    by (simp add: callback_problems_run current_callback_mode_def demo_admin_world demo_env_values callback_mode_of_def)
  have ex: "existing_application demo_ext 1 demo_slug demo_audit_world
      = (Inr (Some demo_app), demo_audit_world\<lparr>db_calls := 2\<rparr>)"
    by (simp add: existing_application_def seq_def try_registry_def try_catch_def demo_existing demo_admin_world ret_def numeral_2_eq_2)
  have hash: "truthy (secret_of (Some demo_app))"
    using verify_client_secretD[OF demo_secret_ok] by (simp add: secret_of_def demo_registered_app truthy_iff)
  have up: "upsert_rows 1 demo_slug t f [demo_app_row] = [(f demo_app_row)\<lparr>ap_updated_at := t\<rparr>]" for t f
    by (simp add: upsert_rows_def app_key_def update_where_def demo_app_row_def)
  have cbs: "unique_callbacks [demo_callback] = [demo_callback]"
  proof -
    have "trim demo_callback = demo_callback" "demo_callback \<noteq> []" by code_simp+
    then show ?thesis by (simp add: unique_callbacks_def)
  qed
  obtain e where e: "integration_endpoints demo_ext ''https://ownex.example'' (Some demo_client_id) 1 demo_slug (Some demo_callback) = Inr e"
    using demo_endpoints by blast
  show ?thesis
    by (simp add: applications_create_run_def Let_def seq_def read_json_def ret_def lift_res_def zod_def demo_registration_issues
        demo_registration_fields int_of_field_def text_of_def texts_of_def perm cb ex demo_registered_app client_id_io_def hash gets_def
        demo_db_stmt demo_admin_world write_applications_def up registered_row_def List.map_filter_def db_done_def
        save_callbacks_def try_catch_def replace_callbacks_def cbs server_env_io_def demo_env_ok demo_server_env_def e)
qed


definition demo_rotation :: json where
  "demo_rotation = JObj [(''orgId'', JNum 1), (''confirm'', JBool True)]"

lemma demo_slug_ok: "slug_param demo_ext demo_slug w = (Inr demo_slug, w)"
proof -
  have "is_slug_text demo_slug" "length demo_slug = 6" by code_simp+
  then show ?thesis by (simp add: slug_param_iff slug_field_def regex_field_def)
qed

lemma demo_required:
  "require_existing demo_ext 1 demo_slug demo_audit_world = (Inr demo_app, demo_audit_world\<lparr>db_calls := 2\<rparr>)"
  by (simp add: require_existing_def existing_application_def seq_def try_registry_def try_catch_def demo_existing
        demo_admin_world ret_def numeral_2_eq_2)

lemma demo_manage: "require_permission demo_ext 1 MANAGE_APPS demo_audit_world = (Inr (demo_admin, ADMIN), demo_audit_world)"
  by (rule demo_admin_permitted) (simp_all add: demo_admin_world)

lemma demo_update: "update_rows 1 demo_slug t f [demo_app_row] = [(f demo_app_row)\<lparr>ap_updated_at := t\<rparr>]"
  by (simp add: update_rows_def app_key_def update_where_def demo_app_row_def)

lemma demo_rotated: "\<exists>resp w'. secret_rotate_run demo_ext demo_slug (Some demo_rotation) demo_audit_world = (Inr resp, w')"
proof -
  have fields: "obj_get demo_rotation ''orgId'' = Some (JNum 1)" "rotate_issues demo_ext demo_rotation = []"
    by (simp_all add: demo_rotation_def rotate_issues_def positive_field_def is_object_def)
  have "length (nib_encode s) = 2 * length s" for s by (induction s) auto
  then have "16 \<le> length (generate_client_secret demo_ext 4)"
    by (simp add: generate_client_secret_def demo_ext_def)
  with hash_client_secret_total[of demo_ext _ 5] obtain h where h: "hash_client_secret demo_ext 5 (generate_client_secret demo_ext 4) = Inr h"
    by (auto simp: demo_ext_laws)
  have fresh: "fresh_secret demo_ext (demo_audit_world\<lparr>db_calls := 2\<rparr>)
      = (Inr (generate_client_secret demo_ext 4, h), demo_audit_world\<lparr>db_calls := 2, draws := 6\<rparr>)"
    using h by (simp add: fresh_secret_def seq_def draw_def demo_admin_world Let_def lift_res_def ret_def)
  obtain e where e: "integration_endpoints demo_ext ''https://ownex.example'' (Some demo_client_id) 1 demo_slug (Some demo_callback) = Inr e"
    using demo_endpoints by blast
  show ?thesis
    by (simp add: secret_rotate_run_def Let_def seq_def demo_slug_ok read_json_def ret_def lift_res_def zod_def fields int_of_field_def
        demo_manage demo_required demo_registered_app client_id_io_def fresh demo_db_stmt demo_admin_world write_applications_def demo_update
        rotated_row_def List.map_filter_def db_done_def gets_def server_env_io_def demo_env_ok demo_server_env_def first_callback_def e)
qed

definition demo_revocation :: json where
  "demo_revocation = JObj [(''orgId'', JNum 1), (''status'', JStr ''revoked'')]"

lemma demo_revoked: "\<exists>resp w'. applications_patch_run demo_ext demo_slug (Some demo_revocation) demo_audit_world = (Inr resp, w')"
proof -
  have fields: "obj_get demo_revocation ''orgId'' = Some (JNum 1)" "obj_get demo_revocation ''callbackUrls'' = None"
    "patch_issues demo_ext demo_revocation = []" "patches_columns demo_revocation"
    by (simp_all add: demo_revocation_def patch_issues_def positive_field_def is_object_def optional_field_def nullable_field_def
          regex_field_def PATCHABLE_def patches_columns_def)
  define rows where "rows = [(patch_columns demo_revocation demo_app_row)\<lparr>ap_updated_at := clock demo_audit_world\<rparr>]"
  have rows: "update_rows 1 demo_slug (clock demo_audit_world) (patch_columns demo_revocation) [demo_app_row] = rows"
    by (simp only: rows_def demo_update)
  have ids: "List.map_filter ap_client_id rows = [demo_client_id]"
    by (simp add: rows_def List.map_filter_def patch_columns_def demo_revocation_def demo_app_row_def)
  have found: "\<exists>a w1. find_application_by_slug demo_ext 1 demo_slug (demo_audit_world\<lparr>db_calls := 3, applications := rows\<rparr>) = (Inr (Some a), w1)"
    by (simp add: find_application_by_slug_def seq_def select_one_def select_stmt_def demo_db_stmt read_callbacks_def ret_def
          demo_admin_world rows_def patch_columns_def demo_revocation_def demo_app_row_def)
  then obtain a w1 where a: "find_application_by_slug demo_ext 1 demo_slug (demo_audit_world\<lparr>db_calls := 3, applications := rows\<rparr>) = (Inr (Some a), w1)"
    by blast
  have three: "Suc 2 = 3" by simp
  show ?thesis
    by (simp add: applications_patch_run_def Let_def seq_def demo_slug_ok read_json_def ret_def lift_res_def zod_def fields int_of_field_def
        demo_manage demo_required demo_db_stmt demo_admin_world write_applications_def rows ids db_done_def three a)
qed

lemma demo_role_access:
  assumes "penv w = demo_env" "chain_now w = demo_chain"
  shows "read_role_access demo_ext w 1 i = Inr [(ADMIN, False), (MANAGER, False), (AUDITOR, False), (USER, True)]"
proof -
  have "role_hash demo_ext USER = ROLE_USER demo_ext"
    "role_hash demo_ext ADMIN \<noteq> ROLE_USER demo_ext" "role_hash demo_ext MANAGER \<noteq> ROLE_USER demo_ext"
    "role_hash demo_ext AUDITOR \<noteq> ROLE_USER demo_ext"
    by (simp_all add: ROLE_NAMES_def ROLE_ADMIN_def ROLE_MANAGER_def ROLE_AUDITOR_def ROLE_USER_def demo_keccak_inj)
  then show ?thesis
    by (simp add: read_role_access_def ASSIGNABLE_ROLES_def demo_contracts assms) (simp add: demo_chain_def)
qed

lemma demo_listed_apps: "\<exists>resp w'. applications_list_run demo_ext (Some ''1'') demo_world = (Inr resp, w')"
proof -
  have s: "session_wallet demo_world = Some demo_wallet" "penv demo_world = demo_env" "db_fault demo_world = (\<lambda>_. None)"
    "chain_now demo_world = demo_chain" "applications demo_world = [demo_app_row]" "db_calls demo_world = 0"
    "callbacks demo_world = [\<lparr>cb_org_id = 1, cb_slug = demo_slug, cb_url = demo_callback\<rparr>]"
    by (simp_all add: demo_world_def session_wallet_def SESSION_TTL_SECONDS_def demo_wallet_def demo_address_def)
  have member: "require_member demo_ext 1 demo_world = (Inr (demo_wallet, USER), demo_world)"
    by (simp add: require_member_iff s read_identity_def read_effective_role_def demo_contracts) (simp add: demo_chain_def demo_roles)
  define records where "records = [to_record demo_ext demo_app_row [demo_callback]]"
  have list: "list_applications_for_org demo_ext 1 demo_world = (Inr records, demo_world\<lparr>db_calls := 2\<rparr>)"
    by (simp add: list_applications_for_org_def read_callbacks_for_org_def seq_def select_stmt_def demo_db_stmt s ret_def records_def
          demo_app_row_def)
  define w1 where "w1 = demo_world\<lparr>db_calls := 2\<rparr>"
  have w1: "penv w1 = demo_env" "chain_now w1 = demo_chain" by (simp_all add: w1_def s)
  have "\<exists>entry. listed_application demo_ext w1 ''https://ownex.example'' 1 USER (to_record demo_ext demo_app_row [demo_callback]) = Inr entry"
    by (simp add: listed_application_def demo_contracts w1 demo_role_access) (simp add: demo_chain_def)
  then obtain entry where e: "map_res (listed_application demo_ext w1 ''https://ownex.example'' 1 USER) records = Inr [entry]"
    by (auto simp: records_def)
  have "\<exists>resp. answer_listed demo_ext 1 USER records w1 = (Inr resp, w1)"
    using e by (simp add: answer_listed_def seq_def server_env_io_def w1 demo_env_ok asks_def demo_contracts gets_def ret_def
          demo_server_env_def)
  then obtain resp where "answer_listed demo_ext 1 USER records w1 = (Inr resp, w1)" by blast
  then show ?thesis
    by (simp add: applications_list_run_def demo_org Let_def seq_def guard_io_def member try_registry_def try_catch_def list ret_def
          w1_def[symmetric])
qed

end
