(* ===== verification/AppGuarantees.thy ===== *)
theory AppGuarantees
  imports AppDemo
begin

text \<open>
  What managing an application guarantees: registration keeps issued credentials and a revocation,
  the secret a response shows is the one the back channel accepts, the callbacks saved are the ones
  the authorization endpoint accepts, a revocation stops the exchange, and the list shows the
  chain's access and no configuration to a plain member.
\<close>

subsection \<open>Keyed updates\<close>

definition keeps_key :: "(app_row \<Rightarrow> app_row) \<Rightarrow> bool" where
  "keeps_key f \<longleftrightarrow> (\<forall>r. ap_org_id (f r) = ap_org_id r \<and> ap_slug (f r) = ap_slug r)"

lemma update_rows_keyed:
  assumes "keeps_key f" and "filter (app_key org slug) rows = [row]"
  shows "filter (app_key org slug) (update_rows org slug now f rows) = [(f row)\<lparr>ap_updated_at := now\<rparr>]"
    and "filter (\<lambda>r. \<not> app_key org slug r) (update_rows org slug now f rows) = filter (\<lambda>r. \<not> app_key org slug r) rows"
proof -
  have "app_key org slug ((f r)\<lparr>ap_updated_at := now\<rparr>) = app_key org slug r" for r
    using assms(1) by (simp add: keeps_key_def app_key_def)
  from update_where_keyed[of "app_key org slug" "\<lambda>r. (f r)\<lparr>ap_updated_at := now\<rparr>" rows, OF this] assms(2)
  show "filter (app_key org slug) (update_rows org slug now f rows) = [(f row)\<lparr>ap_updated_at := now\<rparr>]"
    and "filter (\<lambda>r. \<not> app_key org slug r) (update_rows org slug now f rows) = filter (\<lambda>r. \<not> app_key org slug r) rows"
    by (simp_all add: update_rows_def)
qed

lemma upsert_rows_keyed:
  assumes "keeps_key f" and "length (filter (app_key org slug) rows) \<le> 1"
  shows "\<exists>row t. filter (app_key org slug) (upsert_rows org slug now f rows) = [(f row)\<lparr>ap_updated_at := t\<rparr>]
      \<and> (filter (app_key org slug) rows = [row]
         \<or> filter (app_key org slug) rows = [] \<and> row = new_app_row org slug now)"
    and "filter (\<lambda>r. \<not> app_key org slug r) (upsert_rows org slug now f rows) = filter (\<lambda>r. \<not> app_key org slug r) rows"
proof -
  have new: "app_key org slug (f (new_app_row org slug now))"
    using assms(1) by (simp add: keeps_key_def app_key_def new_app_row_def)
  consider "filter (app_key org slug) rows = []" | row where "filter (app_key org slug) rows = [row]"
    using assms(2) by (cases "filter (app_key org slug) rows") auto
  then have "(\<exists>row t. filter (app_key org slug) (upsert_rows org slug now f rows) = [(f row)\<lparr>ap_updated_at := t\<rparr>]
      \<and> (filter (app_key org slug) rows = [row]
         \<or> filter (app_key org slug) rows = [] \<and> row = new_app_row org slug now))
    \<and> filter (\<lambda>r. \<not> app_key org slug r) (upsert_rows org slug now f rows) = filter (\<lambda>r. \<not> app_key org slug r) rows"
  proof cases
    case 1
    then show ?thesis
      by (auto simp: upsert_rows_def new intro!: exI[of _ "new_app_row org slug now"]
            exI[of _ "ap_updated_at (f (new_app_row org slug now))"])
  next
    case (2 row)
    then show ?thesis using update_rows_keyed[OF assms(1) 2, of now]
      by (auto simp: upsert_rows_def update_rows_def)
  qed
  then show "\<exists>row t. filter (app_key org slug) (upsert_rows org slug now f rows) = [(f row)\<lparr>ap_updated_at := t\<rparr>]
      \<and> (filter (app_key org slug) rows = [row]
         \<or> filter (app_key org slug) rows = [] \<and> row = new_app_row org slug now)"
    and "filter (\<lambda>r. \<not> app_key org slug r) (upsert_rows org slug now f rows) = filter (\<lambda>r. \<not> app_key org slug r) rows"
    by blast+
qed

lemma keeps_key_intro [simp]:
  "keeps_key (registered_row X b cid secret rv now)" "keeps_key (patch_columns b)" "keeps_key (rotated_row cid h now)"
  by (auto simp: keeps_key_def registered_row_def patch_columns_def rotated_row_def Let_def split: option.splits prod.splits)

subsection \<open>Registration\<close>

lemma registered_row_fields:
  "ap_client_id (registered_row X b cid secret rv now r) = Some cid"
  "ap_status (registered_row X b cid secret rv now r) = (if rv then ''revoked'' else ''active'')"
  "ap_secret_hash (registered_row X b cid secret rv now r) = (case secret of None \<Rightarrow> ap_secret_hash r | Some (s, h) \<Rightarrow> Some h)"
  by (auto simp: registered_row_def Let_def split: option.splits prod.splits)

lemma registration_json_fields:
  "obj_get (registration_json X b cid secret e) ''clientSecret'' = Some (jnullable secret)"
  "obj_get (registration_json X b cid secret e) ''clientId'' = Some (JStr cid)"
  by (simp_all add: registration_json_def Let_def)

text \<open>The one row of a registered application, before and after.\<close>

lemma create_row:
  assumes "applications_create_run X (Some b) w = (Inr resp, w')"
  defines "p \<equiv> app_key (int_of_field (obj_get b ''orgId'')) (text_of (obj_get b ''slug''))"
  obtains cid secret rv r0 row endpoints t where
    "filter p (applications w') = [row]" "row = (registered_row X b cid secret rv (clock w) r0)\<lparr>ap_updated_at := t\<rparr>"
    "filter p (applications w) = [r0] \<and> rv = (ap_status r0 = ''revoked'')
       \<and> (\<forall>i. ap_client_id r0 = Some i \<longrightarrow> cid = i)
       \<and> (if truthy (ap_secret_hash r0) then secret = None else \<exists>s h. secret = Some (s, h) \<and> drawn_secret X s h)
     \<or> filter p (applications w) = [] \<and> \<not> rv \<and> ap_secret_hash r0 = None
       \<and> (\<exists>s h. secret = Some (s, h) \<and> drawn_secret X s h)"
    "filter (\<lambda>r. \<not> p r) (applications w') = filter (\<lambda>r. \<not> p r) (applications w)"
    "resp = ok_no_store (registration_json X b cid (map_option fst secret) endpoints)"
    "callbacks w' = own_callbacks (int_of_field (obj_get b ''orgId'')) (text_of (obj_get b ''slug''))
       (texts_of (obj_get b ''callbackUrls'')) (callbacks w)"
    "validate_callback_list (x_parse_url X) (texts_of (obj_get b ''callbackUrls'')) (current_callback_mode w) = []"
proof -
  from create_run[OF assms(1)] obtain existing cid secret endpoints rows n m where
    cb: "validate_callback_list (x_parse_url X) (texts_of (obj_get b ''callbackUrls'')) (current_callback_mode w) = []" and
    ex: "case existing of
         None \<Rightarrow> filter p (applications w) = []
       | Some a \<Rightarrow> \<exists>row cbs. filter p (applications w) = [row] \<and> a = to_record X row cbs" and
    cid: "\<forall>i. Option.bind existing ra_client_id = Some i \<longrightarrow> cid = i" and
    sec: "if truthy (secret_of existing) then secret = None else \<exists>s h. secret = Some (s, h) \<and> drawn_secret X s h" and
    rows: "rows = upsert_rows (int_of_field (obj_get b ''orgId'')) (text_of (obj_get b ''slug'')) (clock w)
              (registered_row X b cid secret (is_revoked existing) (clock w)) (applications w)" and
    w': "w' = w\<lparr>applications := rows,
            callbacks := own_callbacks (int_of_field (obj_get b ''orgId'')) (text_of (obj_get b ''slug''))
                           (texts_of (obj_get b ''callbackUrls'')) (callbacks w), db_calls := n, draws := m\<rparr>" and
    resp: "resp = ok_no_store (registration_json X b cid (map_option fst secret) endpoints)"
    unfolding p_def .
  have "length (filter p (applications w)) \<le> 1" using ex by (auto split: option.splits)
  from upsert_rows_keyed[OF keeps_key_intro(1) this[unfolded p_def], of "clock w" X b cid secret "is_revoked existing" "clock w"]
  obtain r0 t where
    row: "filter p (applications w') = [(registered_row X b cid secret (is_revoked existing) (clock w) r0)\<lparr>ap_updated_at := t\<rparr>]" and
    r0: "filter p (applications w) = [r0]
       \<or> filter p (applications w) = []
         \<and> r0 = new_app_row (int_of_field (obj_get b ''orgId'')) (text_of (obj_get b ''slug'')) (clock w)" and
    rest: "filter (\<lambda>r. \<not> p r) (applications w') = filter (\<lambda>r. \<not> p r) (applications w)"
    unfolding p_def w' rows by auto
  have "filter p (applications w) = [r0] \<and> is_revoked existing = (ap_status r0 = ''revoked'')
       \<and> (\<forall>i. ap_client_id r0 = Some i \<longrightarrow> cid = i)
       \<and> (if truthy (ap_secret_hash r0) then secret = None else \<exists>s h. secret = Some (s, h) \<and> drawn_secret X s h)
     \<or> filter p (applications w) = [] \<and> \<not> is_revoked existing \<and> ap_secret_hash r0 = None
       \<and> (\<exists>s h. secret = Some (s, h) \<and> drawn_secret X s h)"
    using ex cid sec r0
    by (auto simp: is_revoked_def secret_of_def to_record_def new_app_row_def to_status_def
          split: option.splits if_splits)
  from that[OF row refl this rest resp _ cb] show thesis by (simp add: w')
qed

lemma drawn_secret_verifies:
  assumes "drawn_secret X s h" and "credential_laws X"
  shows "\<exists>salt. \<forall>t. verify_client_secret X (JStr t) (Some h) \<longleftrightarrow>
     t \<noteq> [] \<and> x_scrypt X t salt SCRYPT_KEYLEN SCRYPT_COST = x_scrypt X s salt SCRYPT_KEYLEN SCRYPT_COST"
    and "s \<noteq> []"
proof -
  from assms(1) obtain k where k: "s = generate_client_secret X k" "hash_client_secret X (Suc k) s = Inr h"
    by (auto simp: drawn_secret_def)
  then show "s \<noteq> []" by (simp add: generate_client_secret_def CLIENT_SECRET_PREFIX_def)
  from assms(2) verify_stored_digest[OF k(2)]
  show "\<exists>salt. \<forall>t. verify_client_secret X (JStr t) (Some h) \<longleftrightarrow>
     t \<noteq> [] \<and> x_scrypt X t salt SCRYPT_KEYLEN SCRYPT_COST = x_scrypt X s salt SCRYPT_KEYLEN SCRYPT_COST"
    unfolding credential_laws_def by blast
qed

text \<open>C21. \<open>POST /api/applications\<close> leaves exactly one row for the application and every other row
  as it was. Registering again never un-revokes it, never changes its client id, and never rotates a
  secret it has: that hash stays and the response shows no secret. When it had none, the response
  shows a secret, and the stored digest accepts it.\<close>

theorem registration_keeps_credentials_and_issues_once:
  assumes "applications_create_run X (Some b) w = (Inr resp, w')" and "credential_laws X"
  shows "let p = app_key (int_of_field (obj_get b ''orgId'')) (text_of (obj_get b ''slug'')) in
    filter (\<lambda>r. \<not> p r) (applications w') = filter (\<lambda>r. \<not> p r) (applications w)
    \<and> (\<exists>row'. filter p (applications w') = [row']
      \<and> (\<forall>row. filter p (applications w) = [row] \<longrightarrow>
           (ap_status row = ''revoked'' \<longrightarrow> ap_status row' = ''revoked'')
         \<and> (ap_client_id row \<noteq> None \<longrightarrow> ap_client_id row' = ap_client_id row)
         \<and> (truthy (ap_secret_hash row) \<longrightarrow> ap_secret_hash row' = ap_secret_hash row
                                          \<and> answered resp ''clientSecret'' = Some JNull))
      \<and> ((\<forall>row. filter p (applications w) = [row] \<longrightarrow> \<not> truthy (ap_secret_hash row)) \<longrightarrow>
           (\<exists>s. answered resp ''clientSecret'' = Some (JStr s) \<and> verify_client_secret X (JStr s) (ap_secret_hash row'))))"
proof -
  let ?p = "app_key (int_of_field (obj_get b ''orgId'')) (text_of (obj_get b ''slug''))"
  from create_row[OF assms(1)] obtain cid secret rv r0 row e t where
    row: "filter ?p (applications w') = [row]" "row = (registered_row X b cid secret rv (clock w) r0)\<lparr>ap_updated_at := t\<rparr>" and
    was: "filter ?p (applications w) = [r0] \<and> rv = (ap_status r0 = ''revoked'')
       \<and> (\<forall>i. ap_client_id r0 = Some i \<longrightarrow> cid = i)
       \<and> (if truthy (ap_secret_hash r0) then secret = None else \<exists>s h. secret = Some (s, h) \<and> drawn_secret X s h)
     \<or> filter ?p (applications w) = [] \<and> \<not> rv \<and> ap_secret_hash r0 = None
       \<and> (\<exists>s h. secret = Some (s, h) \<and> drawn_secret X s h)" and
    rest: "filter (\<lambda>r. \<not> ?p r) (applications w') = filter (\<lambda>r. \<not> ?p r) (applications w)" and
    resp: "resp = ok_no_store (registration_json X b cid (map_option fst secret) e)" .
  have keep: "(ap_status r = ''revoked'' \<longrightarrow> ap_status row = ''revoked'')
         \<and> (ap_client_id r \<noteq> None \<longrightarrow> ap_client_id row = ap_client_id r)
         \<and> (truthy (ap_secret_hash r) \<longrightarrow> ap_secret_hash row = ap_secret_hash r
                                          \<and> answered resp ''clientSecret'' = Some JNull)"
    if "filter ?p (applications w) = [r]" for r
    using was that by (auto simp: row(2) registered_row_fields resp registration_json_fields)
  have shown: "\<exists>s. answered resp ''clientSecret'' = Some (JStr s) \<and> verify_client_secret X (JStr s) (ap_secret_hash row)"
    if "\<forall>r. filter ?p (applications w) = [r] \<longrightarrow> \<not> truthy (ap_secret_hash r)"
  proof -
    from was that obtain s h where "secret = Some (s, h)" "drawn_secret X s h" by auto
    with drawn_secret_verifies[OF this(2) assms(2)] show ?thesis
      by (auto simp: row(2) registered_row_fields resp registration_json_fields)
  qed
  show ?thesis unfolding Let_def using rest row(1) keep shown by blast
qed

theorem registration_keeps_credentials_and_issues_once_witness:
  "\<exists>resp w' row'. applications_create_run demo_ext (Some demo_registration) demo_audit_world = (Inr resp, w')
     \<and> filter (app_key 1 demo_slug) (applications w') = [row'] \<and> ap_secret_hash row' = Some demo_secret_hash
     \<and> answered resp ''clientSecret'' = Some JNull"
proof -
  from demo_create obtain resp w' where run: "applications_create_run demo_ext (Some demo_registration) demo_audit_world = (Inr resp, w')"
    by blast
  have "truthy (Some demo_secret_hash)"
    using verify_client_secretD[OF demo_secret_ok] by (simp add: truthy_iff)
  moreover have "filter (app_key 1 demo_slug) (applications demo_audit_world) = [demo_app_row]"
    by (simp add: demo_admin_world app_key_def demo_app_row_def)
  ultimately show ?thesis
    using registration_keeps_credentials_and_issues_once[OF run demo_credential_laws] run
    by (auto simp: Let_def demo_registration_fields int_of_field_def text_of_def demo_app_row_def)
qed

subsection \<open>Rotation\<close>

text \<open>Rotating the client secret stores the digest of the secret the response shows, and keeps
  the client id: that secret verifies, and any other text verifies only if scrypt maps both to the
  same bytes under the stored salt, so the previous secret has stopped working. No other row changes.\<close>

theorem rotated_secret_replaces_the_old:
  assumes "secret_rotate_run X slug (Some b) w = (Inr resp, w')" and "credential_laws X"
  shows "let p = app_key (int_of_field (obj_get b ''orgId'')) slug in
    filter (\<lambda>r. \<not> p r) (applications w') = filter (\<lambda>r. \<not> p r) (applications w)
    \<and> (\<exists>row row' s salt. filter p (applications w) = [row] \<and> filter p (applications w') = [row']
      \<and> (ap_client_id row \<noteq> None \<longrightarrow> ap_client_id row' = ap_client_id row) \<and> ap_status row' = ap_status row
      \<and> answered resp ''clientSecret'' = Some (JStr s) \<and> verify_client_secret X (JStr s) (ap_secret_hash row')
      \<and> (\<forall>t. verify_client_secret X (JStr t) (ap_secret_hash row') \<longrightarrow>
             x_scrypt X t salt SCRYPT_KEYLEN SCRYPT_COST = x_scrypt X s salt SCRYPT_KEYLEN SCRYPT_COST))"
proof -
  from rotate_run[OF assms(1)] obtain row cid s h e n m where
    row: "filter (app_key (int_of_field (obj_get b ''orgId'')) slug) (applications w) = [row]" and
    cid: "\<forall>i. ap_client_id row = Some i \<longrightarrow> cid = i" and sec: "drawn_secret X s h" and
    run: "w' = w\<lparr>applications := update_rows (int_of_field (obj_get b ''orgId'')) slug (clock w) (rotated_row cid h (clock w)) (applications w),
            db_calls := n, draws := m\<rparr>" and
    resp: "resp = ok_no_store (rotation_json X slug (int_of_field (obj_get b ''orgId'')) cid s (clock w) e)" .
  from run have w': "applications w' = update_rows (int_of_field (obj_get b ''orgId'')) slug (clock w) (rotated_row cid h (clock w)) (applications w)"
    by simp
  from drawn_secret_verifies[OF sec assms(2)] obtain salt where
    salt: "\<forall>t. verify_client_secret X (JStr t) (Some h) \<longleftrightarrow>
     t \<noteq> [] \<and> x_scrypt X t salt SCRYPT_KEYLEN SCRYPT_COST = x_scrypt X s salt SCRYPT_KEYLEN SCRYPT_COST" "s \<noteq> []" by blast
  note up = update_rows_keyed[OF keeps_key_intro(3) row, of "clock w" cid h "clock w"]
  define row' where "row' = (rotated_row cid h (clock w) row)\<lparr>ap_updated_at := clock w\<rparr>"
  have hash: "ap_secret_hash row' = Some h" and ids: "ap_client_id row \<noteq> None \<longrightarrow> ap_client_id row' = ap_client_id row"
    "ap_status row' = ap_status row"
    using cid by (auto simp: row'_def rotated_row_def)
  have "answered resp ''clientSecret'' = Some (JStr s)" by (simp add: resp rotation_json_def)
  moreover have "verify_client_secret X (JStr s) (ap_secret_hash row')" using salt by (simp add: hash)
  moreover have "\<forall>t. verify_client_secret X (JStr t) (ap_secret_hash row') \<longrightarrow>
      x_scrypt X t salt SCRYPT_KEYLEN SCRYPT_COST = x_scrypt X s salt SCRYPT_KEYLEN SCRYPT_COST"
    using salt(1) by (simp add: hash)
  ultimately show ?thesis unfolding Let_def w' using ids row up[folded row'_def] by blast
qed

theorem rotated_secret_replaces_the_old_witness:
  "\<exists>resp w' row' s. secret_rotate_run demo_ext demo_slug (Some demo_rotation) demo_audit_world = (Inr resp, w')
     \<and> filter (app_key 1 demo_slug) (applications w') = [row'] \<and> ap_client_id row' = Some demo_client_id
     \<and> verify_client_secret demo_ext (JStr s) (ap_secret_hash row')"
proof -
  from demo_rotated obtain resp w' where run: "secret_rotate_run demo_ext demo_slug (Some demo_rotation) demo_audit_world = (Inr resp, w')"
    by blast
  moreover have "filter (app_key 1 demo_slug) (applications demo_audit_world) = [demo_app_row]"
    by (simp add: demo_admin_world app_key_def demo_app_row_def)
  moreover have "int_of_field (obj_get demo_rotation ''orgId'') = 1" by (simp add: demo_rotation_def int_of_field_def)
  ultimately show ?thesis
    using rotated_secret_replaces_the_old[OF run demo_credential_laws]
    by (auto simp: Let_def demo_app_row_def)
qed

subsection \<open>Callbacks\<close>

text \<open>A successful registration saves the callbacks it lists, trimmed and without duplicates, and
  nothing else, as the callbacks of this application; those of other applications stay. Every
  listed callback is then one the authorization endpoint accepts for it, unless it is revoked.\<close>

theorem registered_callbacks_are_accepted:
  assumes "applications_create_run X (Some b) w = (Inr resp, w')"
    and "filter (app_key (int_of_field (obj_get b ''orgId'')) (text_of (obj_get b ''slug''))) (applications w') = [row]"
    and "ap_status row \<noteq> ''revoked''" and "u \<in> set (texts_of (obj_get b ''callbackUrls''))"
  defines "org \<equiv> int_of_field (obj_get b ''orgId'')" and "slug \<equiv> text_of (obj_get b ''slug'')"
  shows "set (callback_urls org slug (callbacks w')) = trim ` set (texts_of (obj_get b ''callbackUrls''))
    \<and> (\<forall>org' slug'. (org', slug') \<noteq> (org, slug) \<longrightarrow>
         callback_urls org' slug' (callbacks w') = callback_urls org' slug' (callbacks w))
    \<and> (\<exists>n e. check_callback (x_parse_url X) (Some (subject_of (to_record X row (callback_urls org slug (callbacks w')))))
                (JStr u) (current_callback_mode w) = CallbackOk n e)"
proof -
  let ?urls = "texts_of (obj_get b ''callbackUrls'')"
  from create_row[OF assms(1)] have
    cbs: "callbacks w' = own_callbacks org slug ?urls (callbacks w)" and
    valid: "validate_callback_list (x_parse_url X) ?urls (current_callback_mode w) = []"
    unfolding org_def slug_def by metis+
  have trimmed: "trim v \<noteq> []" if "v \<in> set ?urls" for v
    using valid that by (auto simp: validate_callback_list_Nil_iff dest!: bspec validate_registrable_InrD)
  then have urls: "set (callback_urls org slug (callbacks w')) = trim ` set ?urls"
    unfolding cbs own_callback_urls by (auto simp: set_unique_callbacks)
  from valid assms(4) obtain n where
    n: "validate_registrable_callback (x_parse_url X) (JStr u) (current_callback_mode w) = Inr n"
    by (auto simp: validate_callback_list_Nil_iff)
  have "trim u \<in> set (cs_callbacks (subject_of (to_record X row (callback_urls org slug (callbacks w')))))"
    using urls assms(4) by (simp add: subject_of_def to_record_def)
  moreover have "cs_status (subject_of (to_record X row (callback_urls org slug (callbacks w')))) \<noteq> Some ''revoked''"
    using assms(3) by (simp add: subject_of_def to_record_def to_status_def)
  ultimately have "\<exists>e. check_callback (x_parse_url X) (Some (subject_of (to_record X row (callback_urls org slug (callbacks w')))))
                (JStr u) (current_callback_mode w) = CallbackOk n e"
    by (rule registered_callback_accepted[OF _ _ n])
  with urls other_callback_urls show ?thesis unfolding cbs by blast
qed

theorem registered_callbacks_are_accepted_witness:
  "\<exists>resp w'. applications_create_run demo_ext (Some demo_registration) demo_audit_world = (Inr resp, w')
     \<and> set (callback_urls 1 demo_slug (callbacks w')) = trim ` {demo_callback}"
proof -
  from demo_create obtain resp w' where run: "applications_create_run demo_ext (Some demo_registration) demo_audit_world = (Inr resp, w')"
    by blast
  let ?p = "app_key (int_of_field (obj_get demo_registration ''orgId'')) (text_of (obj_get demo_registration ''slug''))"
  have p: "filter ?p (applications demo_audit_world) = [demo_app_row]"
    by (simp add: demo_admin_world app_key_def demo_app_row_def demo_registration_fields int_of_field_def text_of_def)
  have "\<exists>row. filter ?p (applications w') = [row] \<and> ap_status row \<noteq> ''revoked''"
    by (rule create_row[OF run]) (use p in \<open>auto simp: registered_row_fields demo_app_row_def\<close>)
  then obtain row where "filter ?p (applications w') = [row]" "ap_status row \<noteq> ''revoked''" by blast
  moreover have "demo_callback \<in> set (texts_of (obj_get demo_registration ''callbackUrls''))"
    by (simp add: demo_registration_fields texts_of_def text_of_def)
  ultimately show ?thesis using registered_callbacks_are_accepted[OF run] run
    by (fastforce simp: demo_registration_fields int_of_field_def text_of_def texts_of_def)
qed

subsection \<open>Revocation\<close>

lemma found_by_unique_row:
  assumes "find_application_by_client_id X c v = (Inr (Some app), v1)"
    and "row \<in> set (applications v)" and "ap_client_id row = Some (trim c)"
  shows "ra_status app = to_status (ap_status row)"
proof -
  from find_by_client_id_Some[OF assms(1)] obtain ar cbs where
    ar: "filter (\<lambda>r. ap_client_id r = Some (trim c)) (applications v) = [ar]" "app = to_record X ar cbs" by blast
  from assms(2,3) have "row \<in> set (filter (\<lambda>r. ap_client_id r = Some (trim c)) (applications v))" by simp
  with ar show ?thesis by (simp add: to_record_def)
qed

text \<open>C22. Revoking works at once: after a PATCH that sets the status to revoked, and as long as the
  registry stays as it left it, the back channel answers no exchange of that client with 200, and a
  consent submitted for it redirects nowhere and issues no code.\<close>

theorem revoked_application_is_refused:
  assumes "applications_patch_run X slug (Some b) w = (Inr resp, w')"
    and "obj_get b ''status'' = Some (JStr ''revoked'')"
    and "filter (app_key (int_of_field (obj_get b ''orgId'')) slug) (applications w) = [row]"
    and "ap_client_id row = Some cid" and "applications v = applications w'"
    and "trim (text_of (obj_get e ''client_id'')) = cid" and "trim (text_param (az_client p)) = cid"
  shows "status (fst (exchange_post X (Some e) v)) \<noteq> 200
    \<and> (\<forall>answer v'. approve_post X (Some p) v = (Inr answer, v') \<longrightarrow>
         status answer \<in> {400, 503} \<and> codes v' = codes v)"
proof -
  from patch_run[OF assms(1)] obtain n where
    "w' = w\<lparr>applications := (if patches_columns b
                then update_rows (int_of_field (obj_get b ''orgId'')) slug (clock w) (patch_columns b) (applications w)
                else applications w),
            callbacks := (if obj_get b ''callbackUrls'' \<noteq> None
                then own_callbacks (int_of_field (obj_get b ''orgId'')) slug (texts_of (obj_get b ''callbackUrls'')) (callbacks w)
                else callbacks w), db_calls := n\<rparr>" by metis
  moreover have "patches_columns b" using assms(2) by (simp add: patches_columns_def PATCHABLE_def)
  ultimately have apps: "applications v = update_rows (int_of_field (obj_get b ''orgId'')) slug (clock w) (patch_columns b) (applications w)"
    by (simp add: assms(5))
  define row' where "row' = (patch_columns b row)\<lparr>ap_updated_at := clock w\<rparr>"
  have "row' \<in> set (filter (app_key (int_of_field (obj_get b ''orgId'')) slug) (applications v))"
    unfolding apps using update_rows_keyed(1)[OF keeps_key_intro(2) assms(3), of "clock w" b] by (simp add: row'_def)
  then have mem: "row' \<in> set (applications v)" by simp
  have rv: "to_status (ap_status row') = Revoked" and id: "ap_client_id row' = Some cid"
    using assms(2,4) by (simp_all add: row'_def patch_columns_def Let_def text_of_def to_status_def)
  have "exchange_run X (Some e) v \<noteq> (Inr r, v')" for r v'
  proof
    assume "exchange_run X (Some e) v = (Inr r, v')"
    then obtain app w1 where "find_application_by_client_id X (text_of (obj_get e ''client_id'')) v = (Inr (Some app), w1)"
      "ra_status app \<noteq> Revoked" by (rule exchange_run_ok) simp
    with found_by_unique_row[OF this(1) mem] rv id assms(6) show False by simp
  qed
  then have "status (fst (exchange_post X (Some e) v)) \<noteq> 200"
    using handler_success[OF exchange_run_loud, of X "Some e" v] unfolding exchange_post_def
    by (cases "handler (exchange_run X (Some e)) v") fastforce
  moreover have "status answer \<in> {400, 503} \<and> codes v' = codes v" if "approve_post X (Some p) v = (Inr answer, v')" for answer v'
    using that
  proof (cases rule: approve_post_cases)
    case (refused n)
    then show ?thesis by auto
  next
    case (resolved p' app registered n)
    from resolve_request_Inr[OF resolved(3)[unfolded approve_request_def]] resolved(1) obtain w1 where
      f: "find_application_by_client_id X (text_param (az_client p)) v = (Inr (Some app), w1)" and
      "resolve_application X (Some app) (coerced_value X (az_org p)) (JStr (text_param (az_redirect_uri p)))
         (current_callback_mode v) False = Inr (app, registered)" by auto
    from resolve_application_InrD(3)[OF this(2)] found_by_unique_row[OF f mem] rv id assms(7) show ?thesis by simp
  qed
  ultimately show ?thesis by blast
qed

theorem revoked_application_is_refused_witness:
  "\<exists>resp w'. applications_patch_run demo_ext demo_slug (Some demo_revocation) demo_audit_world = (Inr resp, w')
     \<and> status (fst (exchange_post demo_ext (Some demo_exchange_body) w')) \<noteq> 200"
proof -
  from demo_revoked obtain resp w' where run: "applications_patch_run demo_ext demo_slug (Some demo_revocation) demo_audit_world = (Inr resp, w')"
    by blast
  have "filter (app_key (int_of_field (obj_get demo_revocation ''orgId'')) demo_slug) (applications demo_audit_world) = [demo_app_row]"
    by (simp add: demo_admin_world app_key_def demo_app_row_def demo_revocation_def int_of_field_def)
  moreover have "obj_get demo_revocation ''status'' = Some (JStr ''revoked'')" by (simp add: demo_revocation_def)
  moreover have "ap_client_id demo_app_row = Some demo_client_id" by (simp add: demo_app_row_def)
  moreover have "trim (text_of (obj_get demo_exchange_body ''client_id'')) = demo_client_id"
    by (simp add: demo_exchange_fields text_of_def demo_trim)
  moreover have "trim (text_param (az_client demo_params)) = demo_client_id"
    by (simp add: demo_params_def text_param_def demo_trim)
  ultimately show ?thesis using revoked_application_is_refused[OF run] run by blast
qed

subsection \<open>The list\<close>

lemma map_insort_key: "map f (insort_key f x xs) = insort (f x) (map f xs)"
  by (induction xs) auto

lemma map_sort_key: "map f (sort_key f xs) = sort (map f xs)"
  by (induction xs) (simp_all add: map_insort_key)

lemma list_applications_Inr:
  assumes "list_applications_for_org X org w = (Inr records, w')"
  shows "records = map (\<lambda>row. to_record X row (callback_urls org (ap_slug row) (callbacks w)))
                     (sort_key ap_created_at (filter (\<lambda>r. ap_org_id r = org) (applications w)))"
proof -
  let ?q = "\<lambda>w. sort_key cb_url (filter (\<lambda>r. cb_org_id r = org) (callbacks w))"
  from assms obtain rows w1 cbs where
    rows: "select_stmt X (\<lambda>w. sort_key ap_created_at (filter (\<lambda>r. ap_org_id r = org) (applications w))) w = (Inr (Inr rows), w1)" and
    cbs: "select_stmt X ?q w1 = (Inr (Inr cbs), w')" and
    rec: "records = map (\<lambda>row. to_record X row (map cb_url (filter (\<lambda>r. cb_slug r = ap_slug row) cbs))) rows"
    unfolding list_applications_for_org_def read_callbacks_for_org_def by (auto simp: io_iff)
  from select_stmt_Inr[OF rows] obtain n where
    r: "rows = sort_key ap_created_at (filter (\<lambda>r. ap_org_id r = org) (applications w))" "w1 = w\<lparr>db_calls := n\<rparr>" by auto
  from select_stmt_Inr[OF cbs] have "cbs = ?q w" by (simp add: r(2))
  then have "map cb_url (filter (\<lambda>r. cb_slug r = slug) cbs) = callback_urls org slug (callbacks w)" for slug
    by (simp add: filter_sort map_sort_key callback_urls_def)
  with rec r(1) show ?thesis by simp
qed

definition CONFIGURATION_KEYS :: "string list" where
  "CONFIGURATION_KEYS = [''clientId'', ''callbackUrls'', ''hasClientSecret'', ''clientSecretUpdatedAt'', ''endpoints'']"

lemma listed_application_Inr:
  assumes "listed_application X w origin org role app = Inr entry"
  obtains c registered access where
    "contracts X w = Inr c" "c_app_registered c org (ra_app_id app) = Inr registered"
    "read_role_access X w org (ra_app_id app) = Inr access"
    "obj_get entry ''slug'' = Some (JStr (ra_slug app))" "obj_get entry ''access'' = Some (access_json access)"
    "obj_get entry ''registered'' = Some (JBool registered)"
    "obj_get entry ''stage'' = Some (JStr (stage_key (integration_stage (stage_input app registered access))))"
    "role \<noteq> ADMIN \<Longrightarrow> \<forall>k \<in> set CONFIGURATION_KEYS. obj_get entry k = Some JNull"
proof -
  from assms obtain c registered access endpoints where
    "contracts X w = Inr c" "c_app_registered c org (ra_app_id app) = Inr registered"
    "read_role_access X w org (ra_app_id app) = Inr access" "role \<noteq> ADMIN \<longrightarrow> endpoints = None"
    "entry = JObj (public_app_entries app role registered access @ managed_app_entries X (role = ADMIN) app endpoints)"
    unfolding listed_application_def by (auto simp: res_iff split: if_splits)
  then show thesis
    by (intro that) (simp_all add: public_app_entries_def managed_app_entries_def CONFIGURATION_KEYS_def)
qed

lemma stage_active_iff:
  "stage_key (integration_stage (stage_input app registered access)) = ''active'' \<longleftrightarrow>
     registered \<and> ra_status app \<noteq> Revoked \<and> ra_callbacks app \<noteq> [] \<and> ra_secret_hash app \<noteq> None
     \<and> (\<exists>role \<in> set ASSIGNABLE_ROLES. map_of access role = Some True)"
  by (auto simp: integration_stage_cases stage_input_def filter_empty_conv)

lemma applications_list_ok:
  assumes "applications_list_run X org_param w = (Inr resp, w')"
  shows "\<exists>caller role records origin_text entries. session_wallet w = Some caller
    \<and> read_effective_role X w (coerced_value X org_param) caller = Inr role \<and> role \<noteq> NONE
    \<and> list_applications_for_org X (coerced_value X org_param) w = (Inr records, w')
    \<and> map_res (listed_application X w' origin_text (coerced_value X org_param) role) records = Inr entries
    \<and> answered resp ''applications'' = Some (JArr entries)"
proof -
  from assms obtain caller role records w1 where
    c: "session_wallet w = Some caller" "read_effective_role X w (coerced_value X org_param) caller = Inr role" "role \<noteq> NONE" and
    f: "list_applications_for_org X (coerced_value X org_param) w = (Inr records, w1)" and
    r: "answer_listed X (coerced_value X org_param) role records w1 = (Inr resp, w')"
    by (auto simp: applications_list_run_def io_iff Let_def)
  from r have "w' = w1 \<and> (\<exists>origin_text entries.
      map_res (listed_application X w1 origin_text (coerced_value X org_param) role) records = Inr entries
      \<and> answered resp ''applications'' = Some (JArr entries))"
    by (auto simp: answer_listed_def io_iff)
  with c f show ?thesis by blast
qed

text \<open>The application list is answered to members only, one entry per application of the
  organization in order of creation. The access shown is what the chain says now, and the stage is
  active exactly when the application is registered on-chain, not revoked, has a callback and a
  secret, and some role may reach it. A member who is no admin sees no configuration value.\<close>

theorem application_list_shows_the_chain:
  assumes "applications_list_run X org_param w = (Inr resp, w')"
  defines "org \<equiv> coerced_value X org_param"
  shows "\<exists>caller role entries. session_wallet w = Some caller \<and> read_effective_role X w org caller = Inr role \<and> role \<noteq> NONE
    \<and> answered resp ''applications'' = Some (JArr entries)
    \<and> list_all2 (\<lambda>row entry. \<exists>c registered access.
          contracts X w = Inr c \<and> c_app_registered c org (app_id_from_slug X (ap_slug row)) = Inr registered
        \<and> read_role_access X w org (app_id_from_slug X (ap_slug row)) = Inr access
        \<and> obj_get entry ''slug'' = Some (JStr (ap_slug row)) \<and> obj_get entry ''access'' = Some (access_json access)
        \<and> (obj_get entry ''stage'' = Some (JStr ''active'') \<longleftrightarrow>
             registered \<and> ap_status row \<noteq> ''revoked'' \<and> callback_urls org (ap_slug row) (callbacks w) \<noteq> []
             \<and> ap_secret_hash row \<noteq> None \<and> (\<exists>r \<in> set ASSIGNABLE_ROLES. map_of access r = Some True))
        \<and> (role \<noteq> ADMIN \<longrightarrow> (\<forall>k \<in> set CONFIGURATION_KEYS. obj_get entry k = Some JNull)))
      (sort_key ap_created_at (filter (\<lambda>r. ap_org_id r = org) (applications w))) entries"
proof -
  from applications_list_ok[OF assms(1)] obtain caller role records w1 origin_text entries where
    caller: "session_wallet w = Some caller" "read_effective_role X w org caller = Inr role" "role \<noteq> NONE" and
    rec: "list_applications_for_org X org w = (Inr records, w1)" and
    ent: "map_res (listed_application X w1 origin_text org role) records = Inr entries" and
    resp: "answered resp ''applications'' = Some (JArr entries)"
    unfolding org_def by blast
  from reads_onlyD[OF find_reads_only(3) rec] obtain n where "w1 = w\<lparr>db_calls := n\<rparr>" by blast
  then have sc: "same_chain w1 w" by simp
  have reads: "contracts X w1 = contracts X w" "read_role_access X w1 = read_role_access X w"
    by (simp_all add: fun_eq_iff read_role_access_def same_chain_reads[OF sc])
  have entry: "\<exists>c registered access.
          contracts X w = Inr c \<and> c_app_registered c org (app_id_from_slug X (ap_slug row)) = Inr registered
        \<and> read_role_access X w org (app_id_from_slug X (ap_slug row)) = Inr access
        \<and> obj_get entry ''slug'' = Some (JStr (ap_slug row)) \<and> obj_get entry ''access'' = Some (access_json access)
        \<and> (obj_get entry ''stage'' = Some (JStr ''active'') \<longleftrightarrow>
             registered \<and> ap_status row \<noteq> ''revoked'' \<and> callback_urls org (ap_slug row) (callbacks w) \<noteq> []
             \<and> ap_secret_hash row \<noteq> None \<and> (\<exists>r \<in> set ASSIGNABLE_ROLES. map_of access r = Some True))
        \<and> (role \<noteq> ADMIN \<longrightarrow> (\<forall>k \<in> set CONFIGURATION_KEYS. obj_get entry k = Some JNull))"
    if "listed_application X w1 origin_text org role (to_record X row (callback_urls org (ap_slug row) (callbacks w))) = Inr entry"
    for row entry
  proof -
    have fields: "ra_app_id (to_record X row cbs) = app_id_from_slug X (ap_slug row)" "ra_slug (to_record X row cbs) = ap_slug row"
      "ra_callbacks (to_record X row cbs) = cbs" "ra_secret_hash (to_record X row cbs) = ap_secret_hash row"
      "ra_status (to_record X row cbs) = Revoked \<longleftrightarrow> ap_status row = ''revoked''" for cbs
      by (simp_all add: to_record_def to_status_def)
    show ?thesis
      by (rule listed_application_Inr[OF that]) (simp add: fields stage_active_iff reads)
  qed
  from ent have "list_all2 (\<lambda>app entry. listed_application X w1 origin_text org role app = Inr entry) records entries"
    by (simp add: map_res_Inr_iff)
  then show ?thesis using caller resp entry
    unfolding list_applications_Inr[OF rec] list_all2_map1
    by (intro exI conjI) (assumption | erule list_all2_mono)+
qed

theorem application_list_shows_the_chain_witness:
  "\<exists>resp w'. applications_list_run demo_ext (Some ''1'') demo_world = (Inr resp, w')
     \<and> (\<exists>entry. answered resp ''applications'' = Some (JArr [entry])
          \<and> obj_get entry ''slug'' = Some (JStr demo_slug))"
proof -
  from demo_listed_apps obtain resp w' where run: "applications_list_run demo_ext (Some ''1'') demo_world = (Inr resp, w')" by blast
  have "sort_key ap_created_at (filter (\<lambda>r. ap_org_id r = 1) (applications demo_world)) = [demo_app_row]"
    by (simp add: demo_world_def demo_app_row_def)
  moreover have "ap_slug demo_app_row = demo_slug" by (simp add: demo_app_row_def)
  ultimately show ?thesis using application_list_shows_the_chain[OF run] run
    by (fastforce simp: demo_org list_all2_Cons1)
qed

end
