(* ===== verification/Portal.thy ===== *)
theory Portal
  imports Integration AuthorizeRoutes
begin

text \<open>
  The partner application \<open>apps/employee-portal\<close>: its configuration, its own session, the start and
  the end of a sign-in, live revalidation and the pages that depend on it. The platform on the
  other side of \<open>fetch\<close> is a parameter: a function from the request and the state \<open>'s\<close> of the remote
  side to what came back, which may be nothing. A field of a reply that has another JSON type than
  the code declares for it counts as missing.
\<close>

subsection \<open>Configuration (lib/config.ts)\<close>

record ownex_config =
  oc_origin :: string
  oc_client_id :: string
  oc_client_secret :: string
  oc_org_id :: int
  oc_redirect_uri :: string
  oc_app_slug :: string

text \<open>\<open>a ?? b\<close> on two variables\<close>

fun either_set :: "string option \<Rightarrow> string option \<Rightarrow> string option" where
  "either_set (Some v) _ = Some v"
| "either_set None w = w"

definition get_platform_origin :: "process_env \<Rightarrow> string" where
  "get_platform_origin env =
    (let configured = either_set (env ''OWNEX_ORIGIN'') (env ''PLATFORM_ORIGIN'') in
     if truthy configured then strip_trailing_slashes (nullish configured [])
     else if is_production (env ''NODE_ENV'') then ''https://ownex-platform.vercel.app''
     else ''http://localhost:3000'')"

definition get_redirect_uri :: "process_env \<Rightarrow> string" where
  "get_redirect_uri env =
    (let configured = either_set (env ''OWNEX_REDIRECT_URI'') (env ''PORTAL_CALLBACK_URL'') in
     if truthy configured then trim (nullish configured [])
     else if is_production (env ''NODE_ENV'') then ''https://ownex-employee-portal.vercel.app/callback''
     else ''http://localhost:3001/callback'')"

text \<open>\<open>Number.parseInt(raw, 10)\<close>: leading space, a sign, then the longest run of digits\<close>

definition digits_prefix :: "string \<Rightarrow> int option" where
  "digits_prefix s =
    (let ds = takeWhile is_digit s in
     if ds = [] then None else Some (foldl (\<lambda>acc c. acc * 10 + (int (code_unit c) - 48)) 0 ds))"

definition parse_int :: "string \<Rightarrow> int option" where
  "parse_int raw =
    (case trim_start raw of
       [] \<Rightarrow> None
     | c # cs \<Rightarrow> if c = CHR ''-'' then map_option uminus (digits_prefix cs)
                 else if c = CHR ''+'' then digits_prefix cs else digits_prefix (c # cs))"

definition get_org_id :: "process_env \<Rightarrow> exn + int" where
  "get_org_id env =
    (case parse_int (nullish (either_set (env ''OWNEX_ORG_ID'') (env ''PORTAL_ORG_ID'')) ''1'') of
       Some i \<Rightarrow> if i \<le> 0 then Inl (ConfigFailure ''OWNEX_ORG_ID must be a positive integer'') else Inr i
     | None \<Rightarrow> Inl (ConfigFailure ''OWNEX_ORG_ID must be a positive integer''))"

definition get_app_slug :: "process_env \<Rightarrow> string" where
  "get_app_slug env = nullish (env ''OWNEX_APP_SLUG'') ''employee-portal''"

definition ownex_config :: "process_env \<Rightarrow> exn + ownex_config" where
  "ownex_config env =
    (let client_id = map_option trim (env ''OWNEX_CLIENT_ID'');
         client_secret = map_option trim (env ''OWNEX_CLIENT_SECRET'') in
     if \<not> truthy client_id
     then Inl (ConfigFailure ''OWNEX_CLIENT_ID is not set. Register this application on the owneX Applications screen and copy its client id.'')
     else if \<not> truthy client_secret
     then Inl (ConfigFailure ''OWNEX_CLIENT_SECRET is not set. It is shown once when the application is registered, and can be reissued with 'Rotate secret'.'')
     else bind_res (get_org_id env) (\<lambda>org.
       Inr \<lparr>oc_origin = get_platform_origin env, oc_client_id = nullish client_id [],
            oc_client_secret = nullish client_secret [], oc_org_id = org,
            oc_redirect_uri = get_redirect_uri env, oc_app_slug = get_app_slug env\<rparr>))"

subsection \<open>The portal's session (lib/session.ts)\<close>

record portal_session =
  ps_wallet :: "string option"
  ps_org_id :: "int option"
  ps_verified_at :: "string option"
  ps_state :: "string option"
  ps_state_expires :: "int option"

record portal =
  pt_env :: process_env
  pt_clock :: int
  pt_session :: portal_session
    \<comment> \<open>the unsealed cookie of the browser that calls\<close>
  pt_draws :: nat

text \<open>\<open>session()\<close>: it throws when the portal has no cookie password.\<close>

definition portal_session :: "portal \<Rightarrow> exn + portal_session" where
  "portal_session p =
    (if length (nullish (pt_env p ''PORTAL_SESSION_PASSWORD'') []) < 32
     then Inl (JsError (''PORTAL_SESSION_PASSWORD must be set to at least 32 high-entropy characters. Generate one with: node -e ''
        @ [CHR 0x22] @ ''console.log(require('crypto').randomBytes(32).toString('base64url'))'' @ [CHR 0x22]))
     else Inr (pt_session p))"

definition portal_session_wallet :: "portal \<Rightarrow> string option" where
  "portal_session_wallet p = (case portal_session p of Inl _ \<Rightarrow> None | Inr s \<Rightarrow> ps_wallet s)"

subsection \<open>The remote side\<close>

datatype fetched = Unreachable | Answered int "json option"
  \<comment> \<open>status, and the body when it is JSON\<close>

record remote_request =
  rr_path :: string
  rr_params :: "(string \<times> string) list"
  rr_headers :: headers
  rr_body :: "json option"

type_synonym 's remote = "remote_request \<Rightarrow> 's \<Rightarrow> fetched \<times> 's"

definition fetch_ok :: "int \<Rightarrow> bool" where
  "fetch_ok st = (200 \<le> st \<and> st < 300)"

definition auth_only :: "string \<Rightarrow> headers" where
  "auth_only header k = (if k = ''authorization'' then Some header else None)"

subsection \<open>GET /api/login\<close>

definition STATE_TTL :: int where
  "STATE_TTL = 5 * 60000"

definition portal_login :: "ext \<Rightarrow> portal \<Rightarrow> (exn + response) \<times> portal" where
  "portal_login X p =
    (case ownex_config (pt_env p) of
       Inl (ConfigFailure msg) \<Rightarrow>
         (Inr (json_response 500 (JObj [(''error'', JStr ''This portal is not configured for Sign in with owneX''),
                                        (''detail'', JStr msg)])), p)
     | Inl e \<Rightarrow> (Inl e, p)
     | Inr config \<Rightarrow>
       let state = x_b64url X (x_random X (pt_draws p) 32); p1 = p\<lparr>pt_draws := Suc (pt_draws p)\<rparr> in
       (case portal_session p1 of
          Inl e \<Rightarrow> (Inl e, p1)
        | Inr _ \<Rightarrow>
          let p2 = p1\<lparr>pt_session := \<lparr>ps_wallet = None, ps_org_id = None, ps_verified_at = None,
                                     ps_state = Some state, ps_state_expires = Some (pt_clock p + STATE_TTL)\<rparr>\<rparr> in
          (case resolve_url X ''/authorize'' (oc_origin config @ ''/'') of
             Inl e \<Rightarrow> (Inl e, p2)
           | Inr target \<Rightarrow>
               (Inr \<lparr>status = 307, no_store = False, resp_body = RedirectBody
                  \<lparr>cr_target = target,
                   cr_params = authorize_link_params (oc_client_id config) (oc_org_id config) (oc_redirect_uri config) state\<rparr>\<rparr>,
                p2))))"

subsection \<open>GET /api/callback\<close>

record callback_query =
  cq_state :: "string option"
  cq_code :: "string option"
  cq_error :: "string option"

definition redirect_path :: "string \<Rightarrow> response" where
  "redirect_path path = \<lparr>status = 307, no_store = False, resp_body = PathRedirect path\<rparr>"

definition deny_redirect :: "string \<Rightarrow> response" where
  "deny_redirect why = redirect_path (''/denied?reason='' @ encode_uri_component why)"

text \<open>Constant-time comparison of equally long buffers is equality of the texts.\<close>

definition states_match :: "string \<Rightarrow> string \<Rightarrow> bool" where
  "states_match received expected = (length received = length expected \<and> received = expected)"

definition state_accepted :: "portal \<Rightarrow> string option \<Rightarrow> bool" where
  "state_accepted p received =
    (let expected = ps_state (pt_session p); expires = nullish (ps_state_expires (pt_session p)) 0 in
     truthy received \<and> truthy expected \<and> expires \<noteq> 0 \<and> \<not> expires < pt_clock p
     \<and> states_match (nullish received []) (nullish expected []))"

definition exchange_request :: "ownex_config \<Rightarrow> string \<Rightarrow> remote_request" where
  "exchange_request config code =
    \<lparr>rr_path = ''/api/authorize/exchange'', rr_params = [], rr_headers = (\<lambda>_. None),
     rr_body = Some (JObj [(''client_id'', JStr (oc_client_id config)), (''client_secret'', JStr (oc_client_secret config)),
                           (''code'', JStr code), (''redirect_uri'', JStr (oc_redirect_uri config))])\<rparr>"

text \<open>The reason shown when the exchange was refused: the code of the reply, else its status.\<close>

definition exchange_refusal :: "int \<Rightarrow> json option \<Rightarrow> string" where
  "exchange_refusal st body =
    (case optional_text (Option.bind body (\<lambda>j. obj_get j ''code'')) of
       Some c \<Rightarrow> if c \<noteq> [] then c else ''EXCHANGE_'' @ show_int st
     | None \<Rightarrow> ''EXCHANGE_'' @ show_int st)"

text \<open>What the portal makes of the claims: the wallet to adopt, or the reason to deny.\<close>

definition read_claims_reply :: "ownex_config \<Rightarrow> json \<Rightarrow> string + string" where
  "read_claims_reply config claims =
    (case obj_get claims ''wallet'' of
       Some (JStr wallet) \<Rightarrow>
         if \<not> is_address wallet then Inl ''AUTHORIZATION_FAILED''
         else if obj_get claims ''identityActive'' = Some (JBool False) then Inl ''IDENTITY_REVOKED''
         else if obj_get claims ''orgId'' \<noteq> None \<and> obj_get claims ''orgId'' \<noteq> Some (JNum (oc_org_id config))
         then Inl ''ORG_MISMATCH''
         else Inr (to_lower wallet)
     | _ \<Rightarrow> Inl ''AUTHORIZATION_FAILED'')"

definition adopt_claims :: "ext \<Rightarrow> ownex_config \<Rightarrow> json \<Rightarrow> portal \<Rightarrow> response \<times> portal" where
  "adopt_claims X config claims p =
    (case read_claims_reply config claims of
       Inl why \<Rightarrow> (deny_redirect why, p)
     | Inr wallet \<Rightarrow>
         (redirect_path ''/dashboard'',
          p\<lparr>pt_session := (pt_session p)\<lparr>ps_wallet := Some wallet, ps_org_id := Some (oc_org_id config),
              ps_verified_at := Some (nullish (optional_text (obj_get claims ''verifiedAt'')) (x_iso X (pt_clock p)))\<rparr>\<rparr>))"

definition portal_exchange :: "ext \<Rightarrow> 's remote \<Rightarrow> ownex_config \<Rightarrow> string \<Rightarrow> portal \<Rightarrow> 's \<Rightarrow> (exn + response) \<times> portal \<times> 's" where
  "portal_exchange X remote config code p s =
    (case remote (exchange_request config code) s of
       (Unreachable, s1) \<Rightarrow> (Inr (deny_redirect ''VERIFICATION_UNAVAILABLE''), p, s1)
     | (Answered st body, s1) \<Rightarrow>
       if \<not> fetch_ok st then (Inr (deny_redirect (exchange_refusal st body)), p, s1)
       else (case body of
         None \<Rightarrow> (Inl (JsError ''Unexpected end of JSON input''), p, s1)
       | Some JNull \<Rightarrow> (Inl (JsError ''Cannot read properties of null''), p, s1)
       | Some claims \<Rightarrow> (case adopt_claims X config claims p of (r, p1) \<Rightarrow> (Inr r, p1, s1))))"

definition portal_callback :: "ext \<Rightarrow> 's remote \<Rightarrow> callback_query \<Rightarrow> portal \<Rightarrow> 's \<Rightarrow> (exn + response) \<times> portal \<times> 's" where
  "portal_callback X remote q p s =
    (case portal_session p of
       Inl e \<Rightarrow> (Inl e, p, s)
     | Inr session \<Rightarrow>
       let p1 = p\<lparr>pt_session := session\<lparr>ps_state := None, ps_state_expires := None\<rparr>\<rparr> in
       if \<not> state_accepted p (cq_state q) then (Inr (deny_redirect ''INVALID_STATE''), p1, s)
       else if truthy (cq_error q) then (Inr (deny_redirect (to_upper (nullish (cq_error q) []))), p1, s)
       else if \<not> truthy (cq_code q) then (Inr (deny_redirect ''INVALID_CODE''), p1, s)
       else (case ownex_config (pt_env p1) of
         Inl (ConfigFailure _) \<Rightarrow> (Inr (deny_redirect ''PORTAL_NOT_CONFIGURED''), p1, s)
       | Inl e \<Rightarrow> (Inl e, p1, s)
       | Inr config \<Rightarrow> portal_exchange X remote config (nullish (cq_code q) []) p1 s))"

text \<open>The page at the registered callback URL forwards three parameters and drops the rest.\<close>

definition callback_page :: "(string \<times> string) list \<Rightarrow> callback_query" where
  "callback_page params =
    (let forwarded = (\<lambda>k. case map_of params k of Some v \<Rightarrow> if v \<noteq> [] then Some v else None | None \<Rightarrow> None) in
     \<lparr>cq_state = forwarded ''state'', cq_code = forwarded ''code'', cq_error = forwarded ''error''\<rparr>)"

subsection \<open>Live revalidation (lib/ownex.ts)\<close>

record access_result =
  vr_allowed :: bool
  vr_reason :: "string option"
  vr_role :: string
  vr_permissions :: json
  vr_identity_active :: bool
  vr_membership :: json
  vr_verified_at :: "string option"

definition DENIED :: "string \<Rightarrow> access_result" where
  "DENIED why =
    \<lparr>vr_allowed = False, vr_reason = Some why, vr_role = ''NONE'', vr_permissions = JObj [],
     vr_identity_active = False, vr_membership = JNull, vr_verified_at = None\<rparr>"

definition verify_request :: "ext \<Rightarrow> ownex_config \<Rightarrow> string \<Rightarrow> remote_request" where
  "verify_request X config wallet =
    \<lparr>rr_path = ''/api/roles/verify'',
     rr_params = [(''wallet'', wallet), (''orgId'', show_int (oc_org_id config)), (''app'', oc_app_slug config)],
     rr_headers = auth_only (client_auth_header X (oc_client_id config) (oc_client_secret config)),
     rr_body = None\<rparr>"

definition verify_reply :: "json \<Rightarrow> access_result" where
  "verify_reply body =
    (if obj_get body ''allowed'' \<noteq> Some (JBool True)
     then DENIED (nullish (optional_text (obj_get body ''reason'')) ''ACCESS_DENIED'')
     else \<lparr>vr_allowed = True, vr_reason = None,
           vr_role = (case obj_get body ''role'' of Some (JStr r) \<Rightarrow> r | _ \<Rightarrow> ''NONE''),
           vr_permissions = (case obj_get body ''permissions'' of Some (JObj ps) \<Rightarrow> JObj ps | _ \<Rightarrow> JObj []),
           vr_identity_active = (obj_get body ''identityActive'' = Some (JBool True)),
           vr_membership = (case obj_get body ''membership'' of Some (JObj ps) \<Rightarrow> JObj ps | _ \<Rightarrow> JNull),
           vr_verified_at = optional_text (obj_get body ''verifiedAt'')\<rparr>)"

definition verify_access :: "ext \<Rightarrow> 's remote \<Rightarrow> process_env \<Rightarrow> string \<Rightarrow> 's \<Rightarrow> (exn + access_result) \<times> 's" where
  "verify_access X remote env wallet s =
    (case ownex_config env of
       Inl (ConfigFailure _) \<Rightarrow> (Inr (DENIED ''PORTAL_NOT_CONFIGURED''), s)
     | Inl e \<Rightarrow> (Inl e, s)
     | Inr config \<Rightarrow>
       (case resolve_url X ''/api/roles/verify'' (oc_origin config @ ''/'') of
          Inl e \<Rightarrow> (Inl e, s)
        | Inr _ \<Rightarrow>
          (case remote (verify_request X config wallet) s of
             (Unreachable, s1) \<Rightarrow> (Inr (DENIED ''VERIFICATION_UNAVAILABLE''), s1)
           | (Answered st body, s1) \<Rightarrow>
             if \<not> fetch_ok st
             then (Inr (DENIED (if st = 503 then ''VERIFICATION_UNAVAILABLE'' else ''HTTP_'' @ show_int st)), s1)
             else (case body of
               None \<Rightarrow> (Inr (DENIED ''VERIFICATION_UNAVAILABLE''), s1)
             | Some JNull \<Rightarrow> (Inl (JsError ''Cannot read properties of null''), s1)
             | Some j \<Rightarrow> (Inr (verify_reply j), s1)))))"

subsection \<open>The protected pages\<close>

datatype portal_page =
    GoTo string   \<comment> \<open>\<open>redirect(path)\<close>\<close>
  | DashboardPage string "int option" access_result   \<comment> \<open>wallet, organization, the live check\<close>
  | AssetsPage "json list"

definition protected :: "ext \<Rightarrow> 's remote \<Rightarrow> portal \<Rightarrow> 's \<Rightarrow> (exn + string + string \<times> access_result) \<times> 's" where
  "protected X remote p s =
    (case portal_session p of
       Inl e \<Rightarrow> (Inl e, s)
     | Inr session \<Rightarrow>
       if \<not> truthy (ps_wallet session) then (Inr (Inl ''/''), s)
       else (case verify_access X remote (pt_env p) (nullish (ps_wallet session) []) s of
         (Inl e, s1) \<Rightarrow> (Inl e, s1)
       | (Inr v, s1) \<Rightarrow>
         if \<not> vr_allowed v
         then (Inr (Inl (''/denied?reason='' @ encode_uri_component (nullish (vr_reason v) ''ACCESS_DENIED''))), s1)
         else (Inr (Inr (nullish (ps_wallet session) [], v)), s1)))"

definition dashboard_page :: "ext \<Rightarrow> 's remote \<Rightarrow> portal \<Rightarrow> 's \<Rightarrow> (exn + portal_page) \<times> 's" where
  "dashboard_page X remote p s =
    (case protected X remote p s of
       (Inl e, s1) \<Rightarrow> (Inl e, s1)
     | (Inr (Inl path), s1) \<Rightarrow> (Inr (GoTo path), s1)
     | (Inr (Inr (wallet, v)), s1) \<Rightarrow> (Inr (DashboardPage wallet (ps_org_id (pt_session p)) v), s1))"

definition assets_request :: "ext \<Rightarrow> ownex_config \<Rightarrow> string \<Rightarrow> remote_request" where
  "assets_request X config wallet =
    \<lparr>rr_path = ''/api/portal/assets'', rr_params = [(''wallet'', wallet), (''orgId'', show_int (oc_org_id config))],
     rr_headers = auth_only (client_auth_header X (oc_client_id config) (oc_client_secret config)), rr_body = None\<rparr>"

text \<open>Anything that fails while fetching leaves the vault empty.\<close>

definition fetch_assets :: "ext \<Rightarrow> 's remote \<Rightarrow> process_env \<Rightarrow> string \<Rightarrow> 's \<Rightarrow> json list \<times> 's" where
  "fetch_assets X remote env wallet s =
    (case ownex_config env of
       Inl _ \<Rightarrow> ([], s)
     | Inr config \<Rightarrow>
       (case resolve_url X ''/api/portal/assets'' (oc_origin config @ ''/'') of
          Inl _ \<Rightarrow> ([], s)
        | Inr _ \<Rightarrow>
          (case remote (assets_request X config wallet) s of
             (Answered st (Some j), s1) \<Rightarrow>
               (if fetch_ok st then (case obj_get j ''assets'' of Some (JArr xs) \<Rightarrow> xs | _ \<Rightarrow> []) else [], s1)
           | (_, s1) \<Rightarrow> ([], s1))))"

definition assets_page :: "ext \<Rightarrow> 's remote \<Rightarrow> portal \<Rightarrow> 's \<Rightarrow> (exn + portal_page) \<times> 's" where
  "assets_page X remote p s =
    (case protected X remote p s of
       (Inl e, s1) \<Rightarrow> (Inl e, s1)
     | (Inr (Inl path), s1) \<Rightarrow> (Inr (GoTo path), s1)
     | (Inr (Inr (wallet, v)), s1) \<Rightarrow>
         (case fetch_assets X remote (pt_env p) wallet s1 of (xs, s2) \<Rightarrow> (Inr (AssetsPage xs), s2)))"

subsection \<open>The denial page\<close>

definition DENIED_MESSAGES :: "(string \<times> string) list" where
  "DENIED_MESSAGES =
    [(''ORGANIZATION_NOT_FOUND'', ''That organization could not be found on-chain.''),
     (''ORGANIZATION_SUSPENDED'', ''This organization is currently suspended.''),
     (''IDENTITY_NOT_REGISTERED'', ''This wallet has no registered owneX identity.''),
     (''IDENTITY_REVOKED'', ''This identity has been revoked. Ask an administrator to reactivate it.''),
     (''NOT_A_MEMBER'', ''You are not a member of this organization.''),
     (''ROLE_EXPIRED'', ''Your role has expired. Ask an administrator to renew it.''),
     (''APP_ACCESS_NOT_GRANTED'', ''Your role is valid, but this application has not been enabled for it on-chain.''),
     (''APPLICATION_NOT_REGISTERED'', ''This portal is not registered on-chain for that organization yet.''),
     (''APPLICATION_REVOKED'', ''An administrator has revoked this integration.''),
     (''ACCESS_DENIED'', ''The authorization request was declined.''),
     (''INVALID_STATE'', ''The sign-in could not be matched to a request this portal made. Start again from the home page.''),
     (''INVALID_CODE'', ''owneX did not return an authorization code.''),
     (''CODE_REJECTED'', ''The authorization code had expired or had already been used. Codes are valid for two minutes and once only.''),
     (''INVALID_CLIENT'', ''This portal's owneX credentials were rejected.''),
     (''ORG_MISMATCH'', ''owneX returned an organization this portal is not configured for.''),
     (''TEMPORARILY_UNAVAILABLE'', ''owneX could not complete the check. Please try again shortly.''),
     (''CHAIN_UNAVAILABLE'', ''owneX could not read the blockchain, so your access could not be confirmed. Access is denied until it can.''),
     (''VERIFICATION_UNAVAILABLE'', ''owneX could not be reached to confirm your access, so this portal denied it.''),
     (''PORTAL_NOT_CONFIGURED'', ''This portal is missing its owneX client credentials. An administrator needs to set OWNEX_CLIENT_ID and OWNEX_CLIENT_SECRET.''),
     (''AUTHORIZATION_FAILED'', ''The authorization response was not valid.'')]"

definition denied_page :: "string option \<Rightarrow> string \<times> string" where
  "denied_page why =
    (let code = nullish why ''UNKNOWN'' in
     (nullish (map_of DENIED_MESSAGES code) ''The authorization request was not completed.'', code))"

subsection \<open>The platform as the remote side\<close>

definition answer_of :: "response \<Rightarrow> fetched" where
  "answer_of r = Answered (status r) (case resp_body r of JsonBody j \<Rightarrow> Some j | _ \<Rightarrow> None)"

definition platform :: "ext \<Rightarrow> world remote" where
  "platform X rq w =
    (if rr_path rq = ''/api/authorize/exchange''
     then (case exchange_post X (rr_body rq) w of (r, w') \<Rightarrow> (answer_of r, w'))
     else if rr_path rq = ''/api/roles/verify''
     then (case roles_verify_get X (rr_headers rq)
                  \<lparr>vq_wallet = map_of (rr_params rq) ''wallet'', vq_org = map_of (rr_params rq) ''orgId'',
                   vq_app = map_of (rr_params rq) ''app''\<rparr> w of (r, w') \<Rightarrow> (answer_of r, w'))
     else if rr_path rq = ''/api/portal/assets''
     then (case portal_assets_get X (rr_headers rq) (map_of (rr_params rq) ''wallet'') (map_of (rr_params rq) ''orgId'') w of
             (r, w') \<Rightarrow> (answer_of r, w'))
     else (Unreachable, w))"

end
