(* ===== verification/PortalProps.thy ===== *)
theory PortalProps
  imports Portal AuthorizeProps
begin

text \<open>
  What the partner application guarantees, alone and together with the platform at the other end:
  its sign-in adopts only a wallet the platform just verified, each adoption uses up one start of a
  sign-in, its pages open only with live access, and its credentials reach the platform intact.
\<close>

subsection \<open>Configuration\<close>

lemma ownex_config_Inr:
  assumes "ownex_config env = Inr config"
  shows "oc_client_id config \<noteq> []" "oc_client_secret config \<noteq> []" "0 < oc_org_id config"
    "trim (oc_client_id config) = oc_client_id config"
  using assms
  by (auto simp: ownex_config_def Let_def res_iff truthy_iff get_org_id_def split: if_splits option.splits)

lemma ownex_config_Inl: "ownex_config env = Inl e \<Longrightarrow> \<exists>m. e = ConfigFailure m"
  by (auto simp: ownex_config_def Let_def bind_res_Inl_iff get_org_id_def split: if_splits option.splits)

subsection \<open>What a callback did\<close>

definition signed_in :: "exn + response \<Rightarrow> bool" where
  "signed_in r \<longleftrightarrow> r = Inr (redirect_path ''/dashboard'')"

lemma deny_not_dashboard [simp]: "deny_redirect why \<noteq> redirect_path ''/dashboard''"
  by (simp add: deny_redirect_def redirect_path_def)

lemma portal_exchange_cases:
  assumes "portal_exchange X remote config code p s = (r, p', s')"
  shows "\<not> signed_in r \<and> p' = p
    \<or> (\<exists>st claims wallet at. remote (exchange_request config code) s = (Answered st (Some claims), s') \<and> fetch_ok st
         \<and> read_claims_reply config claims = Inr wallet \<and> signed_in r
         \<and> p' = p\<lparr>pt_session := (pt_session p)\<lparr>ps_wallet := Some wallet, ps_org_id := Some (oc_org_id config),
                                                ps_verified_at := Some at\<rparr>\<rparr>)"
proof -
  obtain f s1 where f: "remote (exchange_request config code) s = (f, s1)" by (cases "remote (exchange_request config code) s")
  show ?thesis
  proof (cases "\<exists>st claims wallet. f = Answered st (Some claims) \<and> fetch_ok st \<and> read_claims_reply config claims = Inr wallet")
    case True
    then obtain st claims wallet where c: "f = Answered st (Some claims)" "fetch_ok st" "read_claims_reply config claims = Inr wallet"
      by blast
    then have "claims \<noteq> JNull" by (auto simp: read_claims_reply_def)
    with assms f c show ?thesis
      by (cases claims) (auto simp: portal_exchange_def adopt_claims_def signed_in_def)
  next
    case False
    have "\<not> signed_in r \<and> p' = p"
    proof (cases f)
      case Unreachable
      with assms f show ?thesis by (auto simp: portal_exchange_def signed_in_def)
    next
      case (Answered st body)
      with assms f False show ?thesis
        by (cases body) (auto simp: portal_exchange_def signed_in_def adopt_claims_def split: if_splits json.splits sum.splits)
    qed
    then show ?thesis by blast
  qed
qed

text \<open>Either the session is left as it was or only loses its pending state, or a wallet was adopted.\<close>

lemma portal_callback_cases:
  assumes "portal_callback X remote q p s = (r, p', s')"
  obtains (broken) e where "portal_session p = Inl e" "r = Inl e" "p' = p" "s' = s"
    | (denied) "\<not> signed_in r"
        "p' = p\<lparr>pt_session := (pt_session p)\<lparr>ps_state := None, ps_state_expires := None\<rparr>\<rparr>"
    | (adopted) config code st claims wallet at where "signed_in r" "state_accepted p (cq_state q)" "cq_code q = Some code"
        "ownex_config (pt_env p) = Inr config"
        "remote (exchange_request config code) s = (Answered st (Some claims), s')" "fetch_ok st"
        "read_claims_reply config claims = Inr wallet"
        "p' = p\<lparr>pt_session := (pt_session p)\<lparr>ps_state := None, ps_state_expires := None, ps_wallet := Some wallet,
                              ps_org_id := Some (oc_org_id config), ps_verified_at := Some at\<rparr>\<rparr>"
proof (cases "portal_session p")
  case (Inl e)
  with assms have "r = Inl e" "p' = p" "s' = s" by (auto simp: portal_callback_def)
  with Inl broken show ?thesis by blast
next
  case (Inr session)
  then have session: "session = pt_session p" by (auto simp: portal_session_def split: if_splits)
  let ?p1 = "p\<lparr>pt_session := (pt_session p)\<lparr>ps_state := None, ps_state_expires := None\<rparr>\<rparr>"
  show ?thesis
  proof (cases "state_accepted p (cq_state q) \<and> \<not> truthy (cq_error q) \<and> truthy (cq_code q)
      \<and> (\<exists>config. ownex_config (pt_env p) = Inr config)")
    case False
    have "\<not> signed_in r \<and> p' = ?p1"
      using assms False Inr session ownex_config_Inl[of "pt_env p"]
      by (cases "ownex_config (pt_env p)") (auto simp: portal_callback_def Let_def signed_in_def split: if_splits)
    with denied show ?thesis by blast
  next
    case True
    then obtain config code where c: "ownex_config (pt_env p) = Inr config" "cq_code q = Some code" "state_accepted p (cq_state q)"
      by (auto simp: truthy_iff)
    with assms True Inr session have "portal_exchange X remote config code ?p1 s = (r, p', s')"
      by (simp add: portal_callback_def Let_def)
    from portal_exchange_cases[OF this] show ?thesis
    proof (elim disjE)
      assume "\<not> signed_in r \<and> p' = ?p1"
      with denied show ?thesis by blast
    next
      assume "\<exists>st claims wallet at. remote (exchange_request config code) s = (Answered st (Some claims), s') \<and> fetch_ok st
         \<and> read_claims_reply config claims = Inr wallet \<and> signed_in r
         \<and> p' = ?p1\<lparr>pt_session := (pt_session ?p1)\<lparr>ps_wallet := Some wallet, ps_org_id := Some (oc_org_id config),
                                                ps_verified_at := Some at\<rparr>\<rparr>"
      then show ?thesis using adopted c by fastforce
    qed
  qed
qed

subsection \<open>The platform's answers\<close>

lemma exchange_answer:
  assumes "exchange_post X body w = (resp, w')" and "status resp < 300"
  shows "status resp = 200"
proof -
  have "exchange_run X body w = (Inr resp, w')"
    using assms handler_success[OF exchange_run_loud] unfolding exchange_post_def by fastforce
  then show ?thesis by (rule exchange_run_ok) (simp add: ok_no_store_def)
qed

lemma claims_reply_wallet:
  "read_claims_reply config (claims_json c) = Inr wallet \<Longrightarrow>
     wallet = to_lower (pc_wallet c) \<and> pc_org_id c = oc_org_id config \<and> pc_identity_active c"
  by (auto simp: read_claims_reply_def claims_json_def claims_entries_def split: if_splits)

subsection \<open>A browser of the concrete deployment\<close>

definition demo_portal_env :: process_env where
  "demo_portal_env k =
    (if k = ''OWNEX_CLIENT_ID'' then Some demo_client_id
     else if k = ''OWNEX_CLIENT_SECRET'' then Some demo_secret
     else if k = ''OWNEX_ORG_ID'' then Some ''1''
     else if k = ''OWNEX_REDIRECT_URI'' then Some demo_callback
     else if k = ''OWNEX_ORIGIN'' then Some ''https://ownex.example''
     else if k = ''OWNEX_APP_SLUG'' then Some demo_slug
     else if k = ''PORTAL_SESSION_PASSWORD'' then Some (demo_text 32 CHR ''s'')
     else None)"

definition demo_config :: ownex_config where
  "demo_config = \<lparr>oc_origin = ''https://ownex.example'', oc_client_id = demo_client_id, oc_client_secret = demo_secret,
     oc_org_id = 1, oc_redirect_uri = demo_callback, oc_app_slug = demo_slug\<rparr>"

definition demo_browser :: portal where
  "demo_browser = \<lparr>pt_env = demo_portal_env, pt_clock = 1950000,
     pt_session = \<lparr>ps_wallet = None, ps_org_id = None, ps_verified_at = None,
                   ps_state = Some ''state-0123456789'', ps_state_expires = Some 2100000\<rparr>, pt_draws = 0\<rparr>"

definition demo_return :: callback_query where
  "demo_return = \<lparr>cq_state = Some ''state-0123456789'', cq_code = Some demo_code, cq_error = None\<rparr>"

lemma demo_config_ok: "ownex_config demo_portal_env = Inr demo_config"
proof -
  have "trim demo_secret = demo_secret" "demo_secret \<noteq> []" "trim demo_callback = demo_callback" "demo_callback \<noteq> []"
    "strip_trailing_slashes ''https://ownex.example'' = ''https://ownex.example''" "parse_int ''1'' = Some 1" by code_simp+
  then show ?thesis
    by (simp add: ownex_config_def Let_def demo_portal_env_def demo_trim get_org_id_def get_platform_origin_def get_redirect_uri_def
        get_app_slug_def demo_config_def)
qed

lemma demo_session_ok: "pt_env p = demo_portal_env \<Longrightarrow> portal_session p = Inr (pt_session p)"
  by (simp add: portal_session_def demo_portal_env_def)

lemma demo_portal_wallet: "is_address demo_wallet" "to_lower demo_wallet = demo_wallet" "demo_wallet \<noteq> []"
proof -
  show "is_address demo_wallet" using demo_hex by (simp add: demo_wallet_def demo_address_hex)
  have "lower_char CHR ''0'' = CHR ''0''" "lower_char CHR ''x'' = CHR ''x''" "lower_char CHR ''b'' = CHR ''b''" by code_simp+
  then show "to_lower demo_wallet = demo_wallet" by (simp add: to_lower_def demo_wallet_def demo_address_def)
  show "demo_wallet \<noteq> []" by (simp add: demo_wallet_def demo_address_def)
qed

lemma demo_sign_in: "\<exists>p' w'. portal_callback demo_ext (platform demo_ext) demo_return demo_browser demo_world
    = (Inr (redirect_path ''/dashboard''), p', w')"
proof -
  have st: "state_accepted demo_browser (cq_state demo_return)"
    by (simp add: state_accepted_def demo_browser_def demo_return_def states_match_def)
  have code: "truthy (cq_code demo_return)" "cq_error demo_return = None" "nullish (cq_code demo_return) [] = demo_code"
    by (simp_all add: demo_return_def demo_code_def demo_text_def)
  have env: "pt_env demo_browser = demo_portal_env" by (simp add: demo_browser_def)
  have "JObj [(''client_id'', JStr demo_client_id), (''client_secret'', JStr demo_secret), (''code'', JStr demo_code),
      (''redirect_uri'', JStr demo_callback)] = demo_exchange_body" by (simp add: demo_exchange_body_def)
  then have remote: "platform demo_ext (exchange_request demo_config demo_code) demo_world =
      (Answered 200 (Some (claims_json (build_partner_claims demo_wallet 1 ''USER'' (Some demo_permissions) True (show_int 1950000)))),
       demo_world\<lparr>db_calls := 3, codes := [demo_code_row\<lparr>cd_used_at := Some 1950000\<rparr>]\<rparr>)"
    by (simp add: platform_def exchange_request_def demo_config_def demo_exchange answer_of_def ok_no_store_def)
  have claims: "read_claims_reply demo_config (claims_json (build_partner_claims demo_wallet 1 r ps True t)) = Inr demo_wallet" for r ps t
    by (simp add: read_claims_reply_def claims_json_def claims_entries_def build_partner_claims_def demo_portal_wallet demo_config_def)
  have "claims_json c \<noteq> JNull" for c by (simp add: claims_json_def)
  with remote claims show ?thesis
    by (simp add: portal_callback_def demo_session_ok[OF env] st code env Let_def demo_config_ok portal_exchange_def fetch_ok_def
        adopt_claims_def claims_json_def)
qed

text \<open>C23. End to end, the portal adopts only a wallet that owneX verified at that moment. When the
  callback signs somebody in, the browser brought back the unexpired state that this session was
  holding, and at the platform an unused code issued to this portal's client for a wallet of its
  organization was redeemed while the chain admitted that very wallet to the application. The
  session then holds that wallet and no pending state.\<close>

theorem portal_signs_in_only_verified_wallets:
  assumes "portal_callback X (platform X) q p w = (r, p', w')" and "signed_in r"
    and "\<forall>r \<in> set (applications w). ap_slug r \<noteq> []" and "\<forall>s. x_keccak X s \<noteq> []" and "codes_ok (codes w)"
  shows "\<exists>config app row. ownex_config (pt_env p) = Inr config
    \<and> cq_state q = ps_state (pt_session p) \<and> pt_clock p \<le> nullish (ps_state_expires (pt_session p)) 0
    \<and> app \<in> set (applications w) \<and> ap_client_id app = Some (oc_client_id config) \<and> ap_org_id app = oc_org_id config
    \<and> row \<in> set (codes w) \<and> cd_client_id row = oc_client_id config \<and> cq_code q = Some (cd_code row)
    \<and> cd_used_at row = None \<and> clock w < cd_expires_at row
    \<and> live_conditions X w (oc_org_id config) (cd_wallet row) (Some (ap_slug app))
    \<and> ps_wallet (pt_session p') = Some (to_lower (cd_wallet row)) \<and> ps_org_id (pt_session p') = Some (oc_org_id config)
    \<and> ps_state (pt_session p') = None"
  using assms(1)
proof (cases rule: portal_callback_cases)
  case (broken e)
  then show ?thesis using assms(2) by (simp add: signed_in_def)
next
  case denied
  then show ?thesis using assms(2) by simp
next
  case (adopted config code st claims wallet at)
  let ?body = "JObj [(''client_id'', JStr (oc_client_id config)), (''client_secret'', JStr (oc_client_secret config)),
                           (''code'', JStr code), (''redirect_uri'', JStr (oc_redirect_uri config))]"
  from adopted(5) obtain resp where
    ex: "exchange_post X (Some ?body) w = (resp, w')" and ans: "answer_of resp = Answered st (Some claims)"
    by (auto simp: platform_def exchange_request_def split: prod.splits)
  have "status resp = 200"
    using exchange_answer[OF ex] ans adopted(6) by (simp add: answer_of_def fetch_ok_def)
  from ex this assms(5) obtain b app cbs registered n row d snap where
    b: "Some ?body = Some b" and app: "app \<in> set (applications w)"
      "ap_client_id app = Some (trim (text_of (obj_get b ''client_id'')))" and
    row: "row \<in> set (codes w)" "cd_code row = text_of (obj_get b ''code'')"
    "cd_client_id row = text_of (obj_get b ''client_id'')" "cd_used_at row = None" "clock w < cd_expires_at row"
    "cd_org_id row = ap_org_id app" "cd_app_slug row = ap_slug app" and
    ev: "evaluate_live_access X w (cd_org_id row) (cd_wallet row) (Some (cd_app_slug row)) = Evaluated d snap" "allowed d" and
    body: "resp_body resp = JsonBody (claims_json (build_partner_claims (cd_wallet row) (cd_org_id row)
       (es_role snap) (es_permissions snap) (es_identity_active snap) (x_iso X (clock w))))"
    by (rule exchange_success) blast
  have claims: "claims = claims_json (build_partner_claims (cd_wallet row) (cd_org_id row)
       (es_role snap) (es_permissions snap) (es_identity_active snap) (x_iso X (clock w)))"
    using ans body by (simp add: answer_of_def)
  from claims_reply_wallet[OF adopted(7)[unfolded claims]] have
    wallet: "wallet = to_lower (cd_wallet row)" "cd_org_id row = oc_org_id config"
    by (simp_all add: build_partner_claims_def)
  have "Some (cd_app_slug row) \<noteq> Some []" using assms(3) app(1) row(7) by simp
  from live_approval[OF ev this] assms(4) have
    "live_conditions X w (cd_org_id row) (cd_wallet row) (Some (cd_app_slug row))" by blast
  moreover have "cq_state q = ps_state (pt_session p)" "pt_clock p \<le> nullish (ps_state_expires (pt_session p)) 0"
    using adopted(2) by (auto simp: state_accepted_def Let_def states_match_def truthy_iff)
  moreover from b have "text_of (obj_get b ''client_id'') = oc_client_id config" "text_of (obj_get b ''code'') = code"
    by (auto simp: text_of_def)
  ultimately show ?thesis
    using app row wallet adopted(3,4,8) ownex_config_Inr(4)[OF adopted(4)]
    by (intro exI[of _ config] exI[of _ app] exI[of _ row]) (simp add: text_of_def)
qed

theorem portal_signs_in_only_verified_wallets_witness:
  "\<exists>p' w'. portal_callback demo_ext (platform demo_ext) demo_return demo_browser demo_world
      = (Inr (redirect_path ''/dashboard''), p', w') \<and> ps_wallet (pt_session p') = Some demo_wallet
      \<and> live_conditions demo_ext demo_world 1 demo_wallet (Some demo_slug)"
proof -
  from demo_sign_in obtain p' w' where run: "portal_callback demo_ext (platform demo_ext) demo_return demo_browser demo_world
    = (Inr (redirect_path ''/dashboard''), p', w')" by blast
  have kec: "\<forall>s. x_keccak demo_ext s \<noteq> []" by (simp add: demo_keccak)
  have env: "pt_env demo_browser = demo_portal_env" by (simp add: demo_browser_def)
  from portal_signs_in_only_verified_wallets[OF run _ demo_slugs kec demo_codes_ok] run show ?thesis
    by (auto simp: signed_in_def env demo_config_ok demo_portal_wallet demo_config_def demo_world_def demo_app_row_def demo_code_row_def)
qed


subsection \<open>One sign-in for each start\<close>

datatype portal_event = Login | Return callback_query | Wait int

text \<open>A history of one browser against the portal: what it adopted, and how often it started.\<close>

inductive portal_history :: "ext \<Rightarrow> 's remote \<Rightarrow> portal \<times> 's \<Rightarrow> nat \<Rightarrow> nat \<Rightarrow> portal \<times> 's \<Rightarrow> bool" for X remote where
  history_start: "portal_history X remote ps 0 0 ps"
| history_login: "portal_history X remote ps logins sign_ins (p, s) \<Longrightarrow> portal_login X p = (r, p') \<Longrightarrow>
     portal_history X remote ps (Suc logins) sign_ins (p', s)"
| history_return: "portal_history X remote ps logins sign_ins (p, s) \<Longrightarrow> portal_callback X remote q p s = (r, p', s') \<Longrightarrow>
     portal_history X remote ps logins (if signed_in r then Suc sign_ins else sign_ins) (p', s')"
| history_elsewhere: "portal_history X remote ps logins sign_ins (p, s) \<Longrightarrow> pt_session p' = pt_session p \<Longrightarrow>
     portal_history X remote ps logins sign_ins (p', s')"

lemma login_state: "portal_login X p = (r, p') \<Longrightarrow> pt_session p' = pt_session p \<or> ps_state (pt_session p') \<noteq> None"
  by (auto simp: portal_login_def Let_def split: sum.splits exn.splits)

lemma callback_uses_state:
  assumes "portal_callback X remote q p s = (r, p', s')"
  shows "(signed_in r \<longrightarrow> ps_state (pt_session p) \<noteq> None \<and> ps_state (pt_session p') = None)
    \<and> (ps_state (pt_session p) = None \<longrightarrow> ps_state (pt_session p') = None)"
  using assms
  by (cases rule: portal_callback_cases) (auto simp: signed_in_def state_accepted_def Let_def truthy_iff)

definition pending :: "portal \<Rightarrow> nat" where
  "pending p = (if ps_state (pt_session p) = None then 0 else 1)"

lemma history_counts:
  "portal_history X remote ps logins sign_ins ps' \<Longrightarrow> ps_state (pt_session (fst ps)) = None \<Longrightarrow>
   sign_ins + pending (fst ps') \<le> logins"
proof (induction rule: portal_history.induct)
  case (history_start ps)
  then show ?case by (simp add: pending_def)
next
  case (history_login ps logins sign_ins p s r p')
  then show ?case by (auto simp: pending_def split: if_splits)
next
  case (history_return ps logins sign_ins p s q r p' s')
  with callback_uses_state[OF history_return(2)] show ?case by (auto simp: pending_def split: if_splits)
next
  case (history_elsewhere ps logins sign_ins p s p' s')
  then show ?case by (simp add: pending_def)
qed

text \<open>C24. From a browser with no pending sign-in, whatever it sends, however time and configuration
  change, and whatever the other side answers, the portal never signs in more often than sign-ins
  were started. The first callback uses the state up, whatever it presents: a second one, with the
  same parameters or others, signs nobody in.\<close>

theorem every_sign_in_needs_its_own_start:
  assumes "portal_history X remote (p, s) logins sign_ins (p1, s1)" and "ps_state (pt_session p) = None"
    and "portal_callback X remote q p1 s1 = (r, p2, s2)" and "portal_session p1 = Inr (pt_session p1)"
    and "portal_callback X remote' q' p2 s3 = (r', p3, s4)"
  shows "sign_ins \<le> logins \<and> \<not> signed_in r' \<and> s4 = s3"
proof -
  from history_counts[OF assms(1)] assms(2) have "sign_ins \<le> logins" by simp
  moreover from assms(3) assms(4) have "ps_state (pt_session p2) = None"
    by (cases rule: portal_callback_cases) auto
  then have "\<not> state_accepted p2 (cq_state q')" by (simp add: state_accepted_def Let_def)
  with assms(5) have "\<not> signed_in r' \<and> s4 = s3"
    by (auto simp: portal_callback_def Let_def signed_in_def split: sum.splits)
  ultimately show ?thesis by blast
qed

theorem every_sign_in_needs_its_own_start_witness:
  "\<exists>p1 p2 r w2. portal_history demo_ext (platform demo_ext)
       (demo_browser\<lparr>pt_session := (pt_session demo_browser)\<lparr>ps_state := None\<rparr>\<rparr>, demo_world) 1 0 (p1, demo_world)
     \<and> portal_callback demo_ext (platform demo_ext) demo_return p1 demo_world = (r, p2, w2)
     \<and> \<not> signed_in (fst (portal_callback demo_ext (platform demo_ext) demo_return p2 w2))"
proof -
  let ?p = "demo_browser\<lparr>pt_session := (pt_session demo_browser)\<lparr>ps_state := None\<rparr>\<rparr>"
  obtain r0 p1 where login: "portal_login demo_ext ?p = (r0, p1)" by (cases "portal_login demo_ext ?p")
  have env: "pt_env p1 = demo_portal_env"
    using login by (auto simp: portal_login_def Let_def demo_browser_def split: sum.splits exn.splits)
  have hist: "portal_history demo_ext (platform demo_ext) (?p, demo_world) 1 0 (p1, demo_world)"
    using portal_history.history_login[OF portal_history.history_start login] by simp
  obtain r p2 w2 where one: "portal_callback demo_ext (platform demo_ext) demo_return p1 demo_world = (r, p2, w2)"
    by (cases "portal_callback demo_ext (platform demo_ext) demo_return p1 demo_world") auto
  obtain r' p3 w3 where two: "portal_callback demo_ext (platform demo_ext) demo_return p2 w2 = (r', p3, w3)"
    by (cases "portal_callback demo_ext (platform demo_ext) demo_return p2 w2") auto
  from every_sign_in_needs_its_own_start[OF hist _ one demo_session_ok[OF env] two] have "\<not> signed_in r'" by simp
  with hist one two show ?thesis by force
qed


subsection \<open>Live access\<close>

lemma portal_header_read:
  assumes "b64_codec X" and "client_id \<noteq> []" and "CHR '':'' \<notin> set client_id" and "client_secret \<noteq> []"
  shows "read_partner_credentials X (auth_only (client_auth_header X client_id client_secret))
    = Some \<lparr>cred_client_id = client_id, cred_client_secret = client_secret\<rparr>"
proof -
  let ?plain = "client_id @ CHR '':'' # client_secret" and ?tok = "x_b64 X (client_id @ CHR '':'' # client_secret)"
  have dec: "x_b64_decode X ?tok = ?plain" using assms(1) by (simp add: b64_codec_def)
  have ne: "?tok \<noteq> []" using assms(1,2) unfolding b64_codec_def by blast
  have chars: "\<forall>c \<in> set ?tok. basic_token_char c" "\<forall>c \<in> set ?tok. \<not> is_space c"
    using b64_token[OF assms(1)] b64_not_space[OF assms(1)] by blast+
  have idx: "index_of CHR '':'' ?plain = Some (length client_id)"
    using index_of_append_notin[OF assms(3), of client_secret] by simp
  show ?thesis
    using assms(2,4) trim_basic_header[OF ne chars(2)] match_basic_header[OF ne chars] idx
    by (simp add: read_partner_credentials_def parse_basic_credentials_def auth_only_def client_auth_header_def dec Let_def)
qed

text \<open>The portal's Basic header reaches the platform intact: what \<open>clientAuthHeader\<close> writes for a
  configuration is what the platform reads off the request, for every client id without a colon and
  every secret, whatever characters it holds.\<close>

theorem portal_credentials_reach_the_platform:
  assumes "ownex_config env = Inr config" and "b64_codec X" and "CHR '':'' \<notin> set (oc_client_id config)"
  shows "read_partner_credentials X (rr_headers (verify_request X config wallet))
    = Some \<lparr>cred_client_id = oc_client_id config, cred_client_secret = oc_client_secret config\<rparr>"
  using portal_header_read[OF assms(2) ownex_config_Inr(1)[OF assms(1)] assms(3) ownex_config_Inr(2)[OF assms(1)]]
  by (simp add: verify_request_def)

theorem portal_credentials_reach_the_platform_witness:
  "read_partner_credentials demo_ext (rr_headers (verify_request demo_ext demo_config demo_wallet))
     = Some \<lparr>cred_client_id = demo_client_id, cred_client_secret = demo_secret\<rparr>"
proof -
  have "CHR '':'' \<notin> set (oc_client_id demo_config)" by (simp add: demo_config_def demo_client_id_def)
  from portal_credentials_reach_the_platform[OF demo_config_ok demo_ext_laws(3) this] show ?thesis
    by (simp add: demo_config_def)
qed


lemma verify_access_allowed:
  assumes "verify_access X remote env wallet s = (Inr v, s')" and "vr_allowed v"
  obtains config st j where "ownex_config env = Inr config" "remote (verify_request X config wallet) s = (Answered st (Some j), s')"
    "fetch_ok st" "obj_get j ''allowed'' = Some (JBool True)" "v = verify_reply j"
proof -
  obtain config where c: "ownex_config env = Inr config"
    using assms by (cases "ownex_config env") (auto simp: verify_access_def DENIED_def split: exn.splits)
  obtain u where u: "resolve_url X ''/api/roles/verify'' (oc_origin config @ ''/'') = Inr u"
    using assms c by (cases "resolve_url X ''/api/roles/verify'' (oc_origin config @ ''/'')") (auto simp: verify_access_def)
  obtain f s1 where f: "remote (verify_request X config wallet) s = (f, s1)" by (cases "remote (verify_request X config wallet) s")
  have run: "(case f of Unreachable \<Rightarrow> (Inr (DENIED ''VERIFICATION_UNAVAILABLE''), s1)
           | Answered st body \<Rightarrow>
             if \<not> fetch_ok st
             then (Inr (DENIED (if st = 503 then ''VERIFICATION_UNAVAILABLE'' else ''HTTP_'' @ show_int st)), s1)
             else (case body of
               None \<Rightarrow> (Inr (DENIED ''VERIFICATION_UNAVAILABLE''), s1)
             | Some JNull \<Rightarrow> (Inl (JsError ''Cannot read properties of null''), s1)
             | Some j \<Rightarrow> (Inr (verify_reply j), s1))) = (Inr v, s')"
    using assms(1) by (simp add: verify_access_def c u f split: fetched.splits)
  have denied: "v \<noteq> DENIED m" for m using assms(2) by (auto simp: DENIED_def)
  obtain st j where "f = Answered st (Some j)" "fetch_ok st" "v = verify_reply j" "s' = s1"
    using run denied by (auto split: fetched.splits if_splits option.splits json.splits)
  moreover from this assms(2) have "obj_get j ''allowed'' = Some (JBool True)"
    by (auto simp: verify_reply_def DENIED_def split: if_splits)
  ultimately show thesis using that[OF c] f by blast
qed

lemma protected_Inr:
  assumes "protected X remote p s = (Inr (Inr (wallet, v)), s')"
  shows "portal_session p = Inr (pt_session p) \<and> ps_wallet (pt_session p) = Some wallet \<and> wallet \<noteq> []
    \<and> verify_access X remote (pt_env p) wallet s = (Inr v, s') \<and> vr_allowed v"
  using assms
  by (auto simp: protected_def truthy_iff portal_session_def split: sum.splits if_splits prod.splits)

definition demo_signed_in :: portal where
  "demo_signed_in = \<lparr>pt_env = demo_portal_env, pt_clock = 1950000,
     pt_session = \<lparr>ps_wallet = Some demo_wallet, ps_org_id = Some 1, ps_verified_at = None,
                   ps_state = None, ps_state_expires = None\<rparr>, pt_draws = 0\<rparr>"

lemma demo_opened: "\<exists>v w'. protected demo_ext (platform demo_ext) demo_signed_in demo_world = (Inr (Inr (demo_wallet, v)), w')"
proof -
  let ?hs = "rr_headers (verify_request demo_ext demo_config demo_wallet)"
  let ?q = "\<lparr>vq_wallet = Some demo_wallet, vq_org = Some ''1'', vq_app = Some demo_slug\<rparr>"
  have "CHR '':'' \<notin> set demo_client_id" "demo_client_id \<noteq> []" "demo_secret \<noteq> []" by (simp_all add: demo_client_id_def demo_secret_def)
  from portal_header_read[OF demo_ext_laws(3) this(2,1,3)] have
    cred: "read_partner_credentials demo_ext ?hs = Some \<lparr>cred_client_id = demo_client_id, cred_client_secret = demo_secret\<rparr>"
    by (simp add: verify_request_def demo_config_def)
  have app: "ra_status demo_app = Active" "ra_secret_hash demo_app = Some demo_secret_hash" "ra_org demo_app = 1" "ra_slug demo_app = demo_slug"
    by (simp_all add: to_record_def demo_app_row_def to_status_def)
  with cred have auth: "authenticate_partner demo_ext ?hs demo_world = (Inr (AuthCredentials demo_app), demo_world\<lparr>db_calls := 2\<rparr>)"
    by (simp add: authenticate_partner_def try_registry_def try_catch_def seq_def ret_def demo_find demo_secret_ok Let_def)
  have "is_slug_text demo_slug" "length demo_slug = 6" by code_simp+
  then have "verify_query_ok demo_ext ?q" by (simp add: verify_query_ok_def demo_portal_wallet demo_org)
  then have "\<exists>c. roles_verify_get demo_ext ?hs ?q demo_world =
     (ok_no_store (verification_json c allow demo_snapshot (AuthCredentials demo_app)), demo_world\<lparr>db_calls := 4\<rparr>)"
    by (simp add: roles_verify_get_def handler_def roles_verify_run_def seq_def auth verify_scope_def app text_param_def demo_org
          demo_registered gets_def demo_live ret_def Let_def) (rule exI, rule refl)
  then obtain c where c: "roles_verify_get demo_ext ?hs ?q demo_world =
     (ok_no_store (verification_json c allow demo_snapshot (AuthCredentials demo_app)), demo_world\<lparr>db_calls := 4\<rparr>)" by blast
  have "show_int 1 = ''1''" by code_simp
  with c have remote: "platform demo_ext (verify_request demo_ext demo_config demo_wallet) demo_world =
      (Answered 200 (Some (verification_json c allow demo_snapshot (AuthCredentials demo_app))), demo_world\<lparr>db_calls := 4\<rparr>)"
    by (simp add: platform_def verify_request_def demo_config_def answer_of_def ok_no_store_def)
  have "demo_url ''https://ownex.example/'' \<noteq> None" by code_simp
  then obtain u where u: "resolve_url demo_ext ''/api/roles/verify'' (oc_origin demo_config @ ''/'') = Inr u"
    by (auto simp: resolve_url_def demo_ext_def demo_config_def)
  have "verification_json c allow demo_snapshot (AuthCredentials demo_app) \<noteq> JNull" by (simp add: verification_json_def)
  with remote u have va: "verify_access demo_ext (platform demo_ext) demo_portal_env demo_wallet demo_world
      = (Inr (verify_reply (verification_json c allow demo_snapshot (AuthCredentials demo_app))), demo_world\<lparr>db_calls := 4\<rparr>)"
    by (simp add: verify_access_def demo_config_ok fetch_ok_def verification_json_def)
  have "vr_allowed (verify_reply (verification_json c allow demo_snapshot (AuthCredentials demo_app)))"
    by (simp add: verify_reply_def verification_allowed)
  with va show ?thesis
    by (simp add: protected_def demo_session_ok demo_signed_in_def demo_portal_wallet truthy_iff)
qed

text \<open>C25. The portal fails closed. A protected page opens only for the wallet of its session, and only
  when owneX answered \<open>allowed: true\<close> to this very request: then the chain of this moment admits that
  wallet to the portal's own application in its organization, which is registered and not revoked.
  Unreachable, refused, unparseable or unconfigured never opens a page.\<close>

theorem portal_pages_need_live_access:
  assumes "protected X (platform X) p w = (Inr (Inr (wallet, v)), w')"
    and "\<forall>r \<in> set (applications w). ap_slug r \<noteq> []" and "\<forall>s. x_keccak X s \<noteq> []" and "number_reads_decimals X"
  shows "\<exists>config row. ownex_config (pt_env p) = Inr config \<and> ps_wallet (pt_session p) = Some wallet
    \<and> live_conditions X w (oc_org_id config) wallet (Some (oc_app_slug config))
    \<and> row \<in> set (applications w) \<and> ap_org_id row = oc_org_id config \<and> ap_slug row = oc_app_slug config
    \<and> to_status (ap_status row) \<noteq> Revoked"
proof -
  from protected_Inr[OF assms(1)] have wal: "ps_wallet (pt_session p) = Some wallet" and
    va: "verify_access X (platform X) (pt_env p) wallet w = (Inr v, w')" "vr_allowed v" by auto
  from va obtain config st j where c: "ownex_config (pt_env p) = Inr config" and
    rem: "platform X (verify_request X config wallet) w = (Answered st (Some j), w')" and
    j: "obj_get j ''allowed'' = Some (JBool True)" by (rule verify_access_allowed)
  let ?q = "\<lparr>vq_wallet = Some wallet, vq_org = Some (show_int (oc_org_id config)), vq_app = Some (oc_app_slug config)\<rparr>"
  from rem obtain resp where
    run: "roles_verify_get X (rr_headers (verify_request X config wallet)) ?q w = (resp, w')" and
    ans: "answer_of resp = Answered st (Some j)"
    by (auto simp: platform_def verify_request_def split: prod.splits)
  from ans have body: "resp_body resp = JsonBody j" by (auto simp: answer_of_def split: body.splits)
  have org: "coerced_value X (Some (show_int (oc_org_id config))) = oc_org_id config"
    using assms(4) by (simp add: coerced_value_def number_reads_decimals_def)
  from run body j obtain auth slug w1 w2 d snap where
    ok: "verify_query_ok X ?q" and
    auth: "authenticate_partner X (rr_headers (verify_request X config wallet)) w = (Inr auth, w1)" and
    scope: "verify_scope (coerced_value X (vq_org ?q)) (vq_app ?q) auth w1 = (Inr slug, w1)" and
    reg: "registered_app_refusal X (text_param (vq_wallet ?q)) (coerced_value X (vq_org ?q)) slug w1 = (Inr None, w2)" and
    ev: "evaluate_live_access X w2 (coerced_value X (vq_org ?q)) (text_param (vq_wallet ?q)) slug = Evaluated d snap"
      "allowed d" by (rule roles_verify_allowed)
  have slug: "slug = Some (oc_app_slug config)"
    using scope by (auto simp: verify_scope_iff split: partner_auth.splits)
  have ne: "oc_app_slug config \<noteq> []" using ok by (auto simp: verify_query_ok_def)
  from reads_onlyD[OF authenticate_partner_reads_only auth] obtain n1 where w1: "w1 = w\<lparr>db_calls := n1\<rparr>" by blast
  from reads_onlyD[OF registered_refusal_reads_only reg] w1 obtain n2 where w2: "w2 = w\<lparr>db_calls := n2\<rparr>" by auto
  from slug ne have "slug \<noteq> Some []" by simp
  from live_approval[OF ev this] assms(3) have
    "live_conditions X w2 (coerced_value X (vq_org ?q)) (text_param (vq_wallet ?q)) slug" by blast
  then have "live_conditions X w (oc_org_id config) wallet (Some (oc_app_slug config))"
    by (simp add: w2 org slug text_param_def)
  moreover from registered_refusal_passed[OF reg] slug ne have
    "\<exists>row \<in> set (applications w). ap_org_id row = oc_org_id config \<and> ap_slug row = oc_app_slug config
       \<and> to_status (ap_status row) \<noteq> Revoked"
    by (auto simp: w1 org)
  ultimately show ?thesis using c wal by blast
qed

theorem portal_pages_need_live_access_witness:
  "\<exists>v w'. protected demo_ext (platform demo_ext) demo_signed_in demo_world = (Inr (Inr (demo_wallet, v)), w')
     \<and> live_conditions demo_ext demo_world 1 demo_wallet (Some demo_slug)"
proof -
  from demo_opened obtain v w' where run: "protected demo_ext (platform demo_ext) demo_signed_in demo_world
     = (Inr (Inr (demo_wallet, v)), w')" by blast
  have kec: "\<forall>s. x_keccak demo_ext s \<noteq> []" by (simp add: demo_keccak)
  have env: "pt_env demo_signed_in = demo_portal_env" by (simp add: demo_signed_in_def)
  from portal_pages_need_live_access[OF run demo_slugs kec demo_ext_laws(1)] run show ?thesis
    by (auto simp: env demo_config_ok demo_config_def)
qed


end
