(* ===== verification/OrgRoutes.thy ===== *)
theory OrgRoutes
  imports Session Hashing Privacy
begin

text \<open>
  The routes about organisations and people: preparing and confirming an organisation
  (\<open>api/organizations\<close>, \<open>api/organizations/confirm\<close>), the caller's profile (\<open>api/profile\<close>), the
  signed-in identity (\<open>api/identity/me\<close>), the roster (\<open>api/members\<close>), the permission matrix
  (\<open>api/roles/matrix\<close>) and the health check (\<open>api/health\<close>).
\<close>

subsection \<open>POST /api/organizations\<close>

definition organization_issues :: "ext \<Rightarrow> json \<Rightarrow> issue list" where
  "organization_issues X j =
     field_issue X ''name'' (text_field 2 120 (obj_get j ''name''))
     @ field_issue X ''industry'' (optional_field (text_field 0 80) (obj_get j ''industry''))
     @ field_issue X ''website'' (optional_field (regex_field (\<lambda>s. x_parse_url X s \<noteq> None)) (obj_get j ''website''))
     @ field_issue X ''description'' (optional_field (text_field 0 500) (obj_get j ''description''))"

definition prepare_issues :: "ext \<Rightarrow> json \<Rightarrow> issue list" where
  "prepare_issues X j = (if \<not> is_object j then field_issue X [] False else organization_issues X j)"

definition organization_record_of :: "json \<Rightarrow> organization_record" where
  "organization_record_of b =
    \<lparr>or_name = text_of (obj_get b ''name''), or_industry = optional_text (obj_get b ''industry''),
     or_website = optional_text (obj_get b ''website'')\<rparr>"

definition prepared_json :: "string \<Rightarrow> string \<Rightarrow> json" where
  "prepared_json metadata_hash caller = JObj
    [(''metadataHash'', JStr metadata_hash), (''createArgs'', JObj [(''metadataHash'', JStr metadata_hash)]),
     (''rootAdmin'', JStr caller),
     (''note'', JStr ''Call IdentityRegistry.createOrganization(metadataHash) from the wallet, then POST /api/organizations/confirm with the orgId from the OrganizationCreated event.'')]"

definition organization_prepare_run :: "ext \<Rightarrow> json option \<Rightarrow> response io" where
  "organization_prepare_run X body =
    seq (require_active_identity X) (\<lambda>caller.
    seq (read_json body) (\<lambda>raw.
    seq (lift_res (zod (prepare_issues X raw) raw)) (\<lambda>b.
    ret (ok_no_store (prepared_json (hash_organization_record X (organization_record_of b)) caller)))))"

definition organization_prepare_post :: "ext \<Rightarrow> json option \<Rightarrow> world \<Rightarrow> response \<times> world" where
  "organization_prepare_post X body = handler (organization_prepare_run X body)"

subsection \<open>POST /api/organizations/confirm\<close>

definition org_confirm_issues :: "ext \<Rightarrow> json \<Rightarrow> issue list" where
  "org_confirm_issues X j =
    (if \<not> is_object j then field_issue X [] False
     else field_issue X ''orgId'' (positive_field (obj_get j ''orgId''))
      @ field_issue X ''txHash'' (regex_field (is_hex_string 64) (obj_get j ''txHash''))
      @ organization_issues X j)"

definition new_org_row :: "int \<Rightarrow> org_row" where
  "new_org_row org_id =
    \<lparr>og_org_id = org_id, og_name = [], og_industry = None, og_website = None, og_description = None,
     og_metadata_hash = None\<rparr>"

definition organization_columns :: "json \<Rightarrow> string \<Rightarrow> org_row \<Rightarrow> org_row" where
  "organization_columns b metadata_hash r =
    r\<lparr>og_name := text_of (obj_get b ''name''), og_industry := optional_text (obj_get b ''industry''),
      og_website := optional_text (obj_get b ''website''),
      og_description := optional_text (obj_get b ''description''), og_metadata_hash := Some metadata_hash\<rparr>"

definition save_organization ::
  "ext \<Rightarrow> int \<Rightarrow> (org_row \<Rightarrow> org_row) \<Rightarrow> (db_error + unit) io" where
  "save_organization X org_id columns =
    db_stmt X (\<lambda>w. (Inr (), w\<lparr>organizations :=
      upsert_where (\<lambda>r. og_org_id r = org_id) (new_org_row org_id) columns (organizations w)\<rparr>))"

definition confirmed_json :: "json \<Rightarrow> int \<Rightarrow> organization_state \<Rightarrow> string \<Rightarrow> json" where
  "confirmed_json b org_id organization metadata_hash = JObj
    [(''orgId'', JNum org_id), (''name'', JStr (text_of (obj_get b ''name''))),
     (''rootAdmin'', JStr (os_root_admin organization)), (''metadataHash'', JStr metadata_hash),
     (''txHash'', JStr (text_of (obj_get b ''txHash''))), (''verified'', JBool True)]"

definition organization_confirm_run :: "ext \<Rightarrow> json option \<Rightarrow> response io" where
  "organization_confirm_run X body =
    seq (require_active_identity X) (\<lambda>caller.
    seq (read_json body) (\<lambda>raw.
    seq (lift_res (zod (org_confirm_issues X raw) raw)) (\<lambda>b.
    let org_id = int_of_field (obj_get b ''orgId'') in
    seq (asks (\<lambda>w. read_organization X w org_id)) (\<lambda>found.
    case found of
      None \<Rightarrow> throw (bad_request (''Organisation #'' @ show_int org_id @ '' does not exist on-chain''))
    | Some organization \<Rightarrow>
      seq (guard_io (to_lower (os_root_admin organization) = to_lower caller)
             (forbidden ''You are not the root admin of that organisation'')) (\<lambda>_.
      let metadata_hash = hash_organization_record X (organization_record_of b) in
      seq (guard_io (to_lower (os_metadata_hash organization) = to_lower metadata_hash)
             (bad_request (''The record does not re-hash to the anchor written on-chain '' @ [em_dash] @ '' refusing to bind''))) (\<lambda>_.
      seq (save_organization X org_id (organization_columns b metadata_hash)) (\<lambda>saved.
      case saved of
        Inl err \<Rightarrow> throw (ApiError 500 (''Could not save the organisation: '' @ db_message err) None)
      | Inr _ \<Rightarrow> ret (ok_no_store (confirmed_json b org_id organization metadata_hash)))))))))"

definition organization_confirm_post :: "ext \<Rightarrow> json option \<Rightarrow> world \<Rightarrow> response \<times> world" where
  "organization_confirm_post X body = handler (organization_confirm_run X body)"

subsection \<open>GET and PUT /api/profile\<close>

text \<open>The row of a wallet; a failing query leaves \<open>data\<close> null and is not reported.\<close>

definition own_profile :: "ext \<Rightarrow> string \<Rightarrow> profile_row option io" where
  "own_profile X wallet =
    seq (select_one X (\<lambda>w. filter (\<lambda>r. pf_wallet r = normalize_address wallet) (profiles w))) (\<lambda>found.
    ret (case found of Inl _ \<Rightarrow> None | Inr row \<Rightarrow> row))"

definition profile_json :: "ext \<Rightarrow> process_env \<Rightarrow> profile_row \<Rightarrow> json" where
  "profile_json X env r = JObj
    [(''displayName'', JStr (pf_display_name r)), (''jobTitle'', jnullable (pf_job_title r)),
     (''department'', jnullable (pf_department r)), (''email'', jnullable (decrypt_pii X env (pf_email r))),
     (''phone'', jnullable (decrypt_pii X env (pf_phone r))), (''avatarUrl'', jnullable (pf_avatar r)),
     (''identityHash'', jnullable (pf_identity_hash r)), (''createdAt'', JStr (x_iso X (pf_created_at r)))]"

definition profile_get_run :: "ext \<Rightarrow> response io" where
  "profile_get_run X =
    seq require_caller (\<lambda>wallet.
    seq (own_profile X wallet) (\<lambda>row.
    seq (gets penv) (\<lambda>env.
    ret (ok_no_store (JObj [(''wallet'', JStr wallet),
                            (''profile'', case row of None \<Rightarrow> JNull | Some r \<Rightarrow> profile_json X env r)])))))"

definition profile_get :: "ext \<Rightarrow> world \<Rightarrow> response \<times> world" where
  "profile_get X = handler (profile_get_run X)"

definition profile_issues :: "ext \<Rightarrow> json \<Rightarrow> issue list" where
  "profile_issues X j =
    (if \<not> is_object j then field_issue X [] False
     else field_issue X ''displayName'' (text_field 2 80 (obj_get j ''displayName''))
      @ field_issue X ''jobTitle'' (optional_field (text_field 0 80) (obj_get j ''jobTitle''))
      @ field_issue X ''department'' (optional_field (text_field 0 80) (obj_get j ''department''))
      @ field_issue X ''email'' (optional_field (regex_field (x_zod_email X)) (obj_get j ''email''))
      @ field_issue X ''phone'' (optional_field (text_field 0 30) (obj_get j ''phone''))
      @ field_issue X ''avatarUrl'' (optional_field (regex_field (\<lambda>s. x_parse_url X s \<noteq> None)) (obj_get j ''avatarUrl'')))"

definition identity_record_of :: "json \<Rightarrow> identity_record" where
  "identity_record_of b =
    \<lparr>ir_display_name = text_of (obj_get b ''displayName''), ir_email = optional_text (obj_get b ''email''),
     ir_phone = optional_text (obj_get b ''phone''), ir_job_title = optional_text (obj_get b ''jobTitle''),
     ir_department = optional_text (obj_get b ''department'')\<rparr>"

definition new_profile_row :: "string \<Rightarrow> int \<Rightarrow> profile_row" where
  "new_profile_row wallet now =
    \<lparr>pf_wallet = wallet, pf_display_name = [], pf_job_title = None, pf_department = None,
     pf_email = None, pf_phone = None, pf_avatar = None, pf_identity_hash = None, pf_created_at = now\<rparr>"

definition profile_columns ::
  "json \<Rightarrow> string option \<Rightarrow> string option \<Rightarrow> string \<Rightarrow> profile_row \<Rightarrow> profile_row" where
  "profile_columns b email phone identity_hash r =
    r\<lparr>pf_display_name := text_of (obj_get b ''displayName''), pf_job_title := optional_text (obj_get b ''jobTitle''),
      pf_department := optional_text (obj_get b ''department''), pf_email := email, pf_phone := phone,
      pf_avatar := optional_text (obj_get b ''avatarUrl''), pf_identity_hash := Some identity_hash\<rparr>"

definition save_profile :: "ext \<Rightarrow> string \<Rightarrow> (profile_row \<Rightarrow> profile_row) \<Rightarrow> (db_error + unit) io" where
  "save_profile X wallet columns =
    db_stmt X (\<lambda>w. (Inr (), w\<lparr>profiles :=
      upsert_where (\<lambda>r. pf_wallet r = wallet) (new_profile_row wallet (clock w)) columns (profiles w)\<rparr>))"

text \<open>What the client still has to sign: nothing, an update of the anchor, or a registration.\<close>

definition is_anchored :: "identity_state \<Rightarrow> string \<Rightarrow> bool" where
  "is_anchored identity identity_hash =
    (map_option to_lower (is_identity_hash identity) = Some (to_lower identity_hash))"

definition anchor_step :: "identity_state \<Rightarrow> string \<Rightarrow> json" where
  "anchor_step identity identity_hash =
    (if is_anchored identity identity_hash then JNull
     else JObj [(''call'', JStr (if is_registered identity then ''updateIdentityHash'' else ''registerIdentity'')),
                (''args'', JArr [JStr identity_hash])])"

definition saved_profile_json :: "string \<Rightarrow> string \<Rightarrow> identity_state \<Rightarrow> json" where
  "saved_profile_json wallet identity_hash identity = JObj
    [(''wallet'', JStr wallet), (''identityHash'', JStr identity_hash),
     (''anchored'', JBool (is_anchored identity identity_hash)), (''nextStep'', anchor_step identity identity_hash),
     (''note'', JStr (if is_anchored identity identity_hash then ''Profile saved and matches the on-chain anchor.''
                      else ''Profile saved. Sign the returned call to anchor it on-chain.''))]"

definition profile_put_run :: "ext \<Rightarrow> json option \<Rightarrow> response io" where
  "profile_put_run X body =
    seq require_caller (\<lambda>wallet.
    seq (read_json body) (\<lambda>raw.
    seq (lift_res (zod (profile_issues X raw) raw)) (\<lambda>b.
    let identity_hash = hash_identity_record X (identity_record_of b) in
    seq (server_env_io X) (\<lambda>_.
    seq (encrypt_pii X (optional_text (obj_get b ''email''))) (\<lambda>email.
    seq (encrypt_pii X (optional_text (obj_get b ''phone''))) (\<lambda>phone.
    seq (save_profile X (normalize_address wallet) (profile_columns b email phone identity_hash)) (\<lambda>saved.
    case saved of
      Inl err \<Rightarrow> throw (ApiError 500 (''Could not save profile: '' @ db_message err) None)
    | Inr _ \<Rightarrow>
      seq (asks (\<lambda>w. read_identity X w wallet)) (\<lambda>identity.
      ret (ok_no_store (saved_profile_json wallet identity_hash identity))))))))))"

definition profile_put :: "ext \<Rightarrow> json option \<Rightarrow> world \<Rightarrow> response \<times> world" where
  "profile_put X body = handler (profile_put_run X body)"

subsection \<open>GET /api/identity/me\<close>

definition permissions_json :: "(permission_key \<times> bool) list \<Rightarrow> json" where
  "permissions_json ps = JObj (map (\<lambda>(k, b). (permission_text k, JBool b)) ps)"

definition membership_json :: "membership_entry \<Rightarrow> json" where
  "membership_json m = JObj
    [(''orgId'', JNum (me_org_id m)), (''role'', JStr (role_text (me_role m))),
     (''active'', JBool (me_active m)), (''isRootAdmin'', JBool (me_is_root_admin m))]"

text \<open>\<open>readAssetsOfHolder(wallet).catch(() => [])\<close>\<close>

definition held_assets :: "ext \<Rightarrow> world \<Rightarrow> string \<Rightarrow> int list" where
  "held_assets X w wallet = (case read_assets_of_holder X w wallet of Inl _ \<Rightarrow> [] | Inr ids \<Rightarrow> ids)"

text \<open>The organisation the answer is about: the query's, else the first membership. A query that
  reads as no integer is NaN, which is nobody's organisation and prints as null; so is a fraction here.\<close>

datatype active_org = NoOrg | NotANumber | Org int

definition active_org_of :: "ext \<Rightarrow> string option \<Rightarrow> membership_entry list \<Rightarrow> active_org" where
  "active_org_of X param memberships =
    (if truthy param then (case x_number X (the param) of None \<Rightarrow> NotANumber | Some i \<Rightarrow> Org i)
     else (case memberships of [] \<Rightarrow> NoOrg | m # _ \<Rightarrow> Org (me_org_id m)))"

definition permissions_in ::
  "ext \<Rightarrow> world \<Rightarrow> string \<Rightarrow> membership_entry list \<Rightarrow> active_org \<Rightarrow> exn + (permission_key \<times> bool) list option" where
  "permissions_in X w wallet memberships active =
    (case active of
       Org i \<Rightarrow> if list_ex (\<lambda>m. me_org_id m = i) memberships
                then bind_res (read_permissions_for X w i wallet) (\<lambda>ps. Inr (Some ps)) else Inr None
     | _ \<Rightarrow> Inr None)"

definition profile_intact :: "identity_state \<Rightarrow> profile_row option \<Rightarrow> bool option" where
  "profile_intact identity profile =
    (let anchored = is_identity_hash identity; stored = Option.bind profile pf_identity_hash in
     if truthy anchored \<and> truthy stored then Some (to_lower (the anchored) = to_lower (the stored)) else None)"

definition identity_json :: "string \<Rightarrow> identity_state \<Rightarrow> profile_row option \<Rightarrow> json" where
  "identity_json wallet identity profile = JObj
    [(''registered'', JBool (is_registered identity)), (''active'', JBool (is_active identity)),
     (''identityHash'', jnullable (is_identity_hash identity)),
     (''registeredAt'', jnullable_int (is_registered_at identity)), (''did'', JStr (''did:ownex:'' @ wallet)),
     (''recordIntact'', jnullable_bool (profile_intact identity profile))]"

definition own_email :: "ext \<Rightarrow> process_env \<Rightarrow> profile_row option \<Rightarrow> string option" where
  "own_email X env profile =
    (case profile of
       None \<Rightarrow> None
     | Some r \<Rightarrow> if truthy (pf_email r) then decrypt_pii X env (pf_email r) else None)"

definition own_profile_json :: "ext \<Rightarrow> process_env \<Rightarrow> profile_row option \<Rightarrow> json" where
  "own_profile_json X env profile =
    (case profile of
       None \<Rightarrow> JNull
     | Some r \<Rightarrow> JObj
        [(''displayName'', JStr (pf_display_name r)), (''jobTitle'', jnullable (pf_job_title r)),
         (''department'', jnullable (pf_department r)), (''avatarUrl'', jnullable (pf_avatar r)),
         (''email'', jnullable (own_email X env profile)),
         (''emailMasked'', jnullable (mask_email (own_email X env profile)))])"

definition me_json ::
  "ext \<Rightarrow> process_env \<Rightarrow> string \<Rightarrow> identity_state \<Rightarrow> profile_row option \<Rightarrow> active_org \<Rightarrow> membership_entry list
   \<Rightarrow> (permission_key \<times> bool) list option \<Rightarrow> int list \<Rightarrow> json" where
  "me_json X env wallet identity profile active memberships permissions held = JObj
    [(''wallet'', JStr wallet), (''identity'', identity_json wallet identity profile),
     (''profile'', own_profile_json X env profile),
     (''activeOrgId'', case active of Org i \<Rightarrow> JNum i | _ \<Rightarrow> JNull),
     (''memberships'', JArr (map membership_json memberships)),
     (''permissions'', case permissions of None \<Rightarrow> JNull | Some ps \<Rightarrow> permissions_json ps),
     (''assets'', JArr (map JNum held))]"

definition identity_me_run :: "ext \<Rightarrow> string option \<Rightarrow> response io" where
  "identity_me_run X org_param =
    seq require_caller (\<lambda>wallet.
    seq (asks (\<lambda>w. read_identity X w wallet)) (\<lambda>identity.
    seq (asks (\<lambda>w. read_memberships X w wallet)) (\<lambda>memberships.
    seq (gets (\<lambda>w. held_assets X w wallet)) (\<lambda>held.
    let active = active_org_of X org_param memberships in
    seq (asks (\<lambda>w. permissions_in X w wallet memberships active)) (\<lambda>permissions.
    seq (own_profile X wallet) (\<lambda>profile.
    seq (gets penv) (\<lambda>env.
    ret (ok_no_store (me_json X env wallet identity profile active memberships permissions held)))))))))"

definition identity_me_get :: "ext \<Rightarrow> string option \<Rightarrow> world \<Rightarrow> response \<times> world" where
  "identity_me_get X org_param = handler (identity_me_run X org_param)"

subsection \<open>GET /api/members\<close>

text \<open>\<open>new Map\<close> over the rows: the last row of a wallet stays.\<close>

definition by_wallet :: "profile_row list \<Rightarrow> string \<Rightarrow> profile_row option" where
  "by_wallet rows = map_of (rev (map (\<lambda>r. (to_lower (pf_wallet r), r)) rows))"

definition can_see_profiles :: "role_name \<Rightarrow> bool" where
  "can_see_profiles role = (role = ADMIN \<or> role = MANAGER)"

definition member_profile_json :: "bool \<Rightarrow> profile_row option \<Rightarrow> json" where
  "member_profile_json can_see profile =
    (case profile of
       Some r \<Rightarrow> if can_see
         then JObj [(''displayName'', JStr (pf_display_name r)), (''jobTitle'', jnullable (pf_job_title r)),
                    (''department'', jnullable (pf_department r))]
         else JNull
     | None \<Rightarrow> JNull)"

definition member_json ::
  "bool \<Rightarrow> org_member_state \<Rightarrow> identity_state \<Rightarrow> int list \<Rightarrow> profile_row option \<Rightarrow> json" where
  "member_json can_see member identity held profile = JObj
    [(''wallet'', JStr (om_wallet member)), (''role'', JStr (role_text (om_role member))),
     (''storedRole'', JStr (role_text (om_stored_role member))), (''joinedAt'', jnullable_int (om_joined_at member)),
     (''expiresAt'', jnullable_int (om_expires_at member)), (''expired'', JBool (om_expired member)),
     (''isRootAdmin'', JBool (om_is_root_admin member)),
     (''identity'', JObj [(''registered'', JBool (is_registered identity)), (''active'', JBool (is_active identity))]),
     (''profile'', member_profile_json can_see profile), (''assetCount'', JNum (int (length held)))]"

definition enriched_member ::
  "ext \<Rightarrow> world \<Rightarrow> bool \<Rightarrow> (string \<Rightarrow> profile_row option) \<Rightarrow> org_member_state \<Rightarrow> exn + json" where
  "enriched_member X w can_see profile_of member =
    bind_res (read_identity X w (om_wallet member)) (\<lambda>identity.
      Inr (member_json can_see member identity (held_assets X w (om_wallet member))
             (profile_of (to_lower (om_wallet member)))))"

definition organisation_json :: "organization_state option \<Rightarrow> org_row option \<Rightarrow> json" where
  "organisation_json organization row =
    (case organization of
       None \<Rightarrow> JNull
     | Some o' \<Rightarrow> JObj [(''name'', jnullable (map_option og_name row)), (''rootAdmin'', JStr (os_root_admin o')),
                        (''active'', JBool (os_active o'))])"

definition members_run :: "ext \<Rightarrow> string option \<Rightarrow> response io" where
  "members_run X org_param =
    (let org_id = coerced_value X org_param in
     seq (guard_io (coerced_positive X org_param) (bad_request ''orgId is required and must be a positive integer'')) (\<lambda>_.
     seq (require_member X org_id) (\<lambda>(caller, role).
     seq (asks (\<lambda>w. read_org_members X w org_id)) (\<lambda>members.
     seq (asks (\<lambda>w. read_organization X w org_id)) (\<lambda>organization.
     seq (select_stmt X (\<lambda>w. filter (\<lambda>r. pf_wallet r \<in> set (map (\<lambda>m. to_lower (om_wallet m)) members)) (profiles w))) (\<lambda>found.
     seq (select_one X (\<lambda>w. filter (\<lambda>r. og_org_id r = org_id) (organizations w))) (\<lambda>org_found.
     let rows = (case found of Inl _ \<Rightarrow> [] | Inr rs \<Rightarrow> rs);
         org_row = (case org_found of Inl _ \<Rightarrow> None | Inr r \<Rightarrow> r) in
     seq (asks (\<lambda>w. map_res (enriched_member X w (can_see_profiles role) (by_wallet rows)) members)) (\<lambda>enriched.
     ret (ok_no_store (JObj
       [(''orgId'', JNum org_id), (''organisation'', organisation_json organization org_row),
        (''count'', JNum (int (length enriched))), (''canSeeProfiles'', JBool (can_see_profiles role)),
        (''members'', JArr enriched)]))))))))))"

definition members_get :: "ext \<Rightarrow> string option \<Rightarrow> world \<Rightarrow> response \<times> world" where
  "members_get X org_param = handler (members_run X org_param)"

subsection \<open>GET /api/roles/matrix\<close>

definition cell_json :: "matrix_cell \<Rightarrow> json" where
  "cell_json c = JObj
    [(''role'', JStr (role_text (mc_role c))), (''permission'', JStr (permission_text (mc_permission c))),
     (''default'', JBool (mc_default c)), (''override'', JStr (override_text (mc_override c))),
     (''effective'', JBool (mc_effective c))]"

definition matrix_run :: "ext \<Rightarrow> string option \<Rightarrow> response io" where
  "matrix_run X org_param =
    (let org_id = coerced_value X org_param in
     seq (guard_io (coerced_positive X org_param) (bad_request ''orgId is required and must be a positive integer'')) (\<lambda>_.
     seq (require_member X org_id) (\<lambda>(caller, role).
     seq (asks (\<lambda>w. read_permission_matrix X w org_id)) (\<lambda>cells.
     seq (asks (\<lambda>w. read_organization X w org_id)) (\<lambda>organization.
     ret (ok_no_store (JObj
       [(''orgId'', JNum org_id),
        (''organisationActive'', JBool (case organization of None \<Rightarrow> False | Some o' \<Rightarrow> os_active o')),
        (''roles'', JArr (map (\<lambda>r. JStr (role_text r)) [ADMIN, MANAGER, AUDITOR, USER])),
        (''permissions'', JArr (map (\<lambda>p. JObj [(''key'', JStr (permission_text (pe_key p))), (''label'', JStr (pe_label p))])
                                  (PERMISSION_LIST X))),
        (''cells'', JArr (map cell_json cells)), (''canEdit'', JBool (role = ADMIN))])))))))"

definition matrix_get :: "ext \<Rightarrow> string option \<Rightarrow> world \<Rightarrow> response \<times> world" where
  "matrix_get X org_param = handler (matrix_run X org_param)"

subsection \<open>GET /api/health\<close>

definition REQUIRED_ENV :: "string list" where
  "REQUIRED_ENV =
    [''SUPABASE_URL'', ''SUPABASE_SERVICE_ROLE_KEY'', ''RPC_URL'', ''CHAIN_ID'', ''IDENTITY_REGISTRY_ADDRESS'',
     ''ORG_ACCESS_MANAGER_ADDRESS'', ''ASSET_NFT_ADDRESS'', ''SESSION_PASSWORD'', ''PII_ENCRYPTION_KEY'',
     ''APP_DOMAIN'', ''APP_ORIGIN'']"

definition missing_env :: "process_env \<Rightarrow> string list" where
  "missing_env env = filter (\<lambda>k. \<not> truthy (env k)) REQUIRED_ENV"

definition unreachable :: "string \<Rightarrow> (string \<times> json) list" where
  "unreachable why = [(''reachable'', JBool False), (''error'', JStr why)]"

definition failure_text :: "exn \<Rightarrow> string" where
  "failure_text e = nullish (exn_message e) ''unknown''"

text \<open>\<open>rpc url\<close> is what a provider of that URL answers for the block number and the chain id.\<close>

definition chain_check :: "(string \<Rightarrow> exn + int \<times> int) \<Rightarrow> process_env \<Rightarrow> (string \<times> json) list" where
  "chain_check rpc env =
    (if \<not> truthy (env ''RPC_URL'') then unreachable ''RPC_URL not set''
     else (case rpc (the (env ''RPC_URL'')) of
       Inl e \<Rightarrow> unreachable (failure_text e)
     | Inr (block, chain_id) \<Rightarrow>
         [(''reachable'', JBool True), (''blockNumber'', JNum block), (''chainId'', JNum chain_id)]))"

definition contracts_check :: "ext \<Rightarrow> world \<Rightarrow> (string \<times> json) list" where
  "contracts_check X w =
    (if missing_env (penv w) \<noteq> [] then []
     else [(''contracts'',
       case bind_res (contracts X w) c_organization_count of
         Inl e \<Rightarrow> JObj (unreachable (failure_text e))
       | Inr n \<Rightarrow> JObj [(''reachable'', JBool True), (''organizationCount'', JNum n)])])"

definition database_check :: "ext \<Rightarrow> (string \<times> json) list io" where
  "database_check X =
    seq (gets penv) (\<lambda>env.
    if truthy (env ''SUPABASE_URL'') \<and> truthy (env ''SUPABASE_SERVICE_ROLE_KEY'')
    then try_catch
           (seq (select_stmt X organizations) (\<lambda>r.
            ret (case r of Inl err \<Rightarrow> unreachable (db_message err) | Inr _ \<Rightarrow> [(''reachable'', JBool True)])))
           (\<lambda>e. ret (unreachable (failure_text e)))
    else ret (unreachable ''Supabase env not set''))"

definition is_reachable :: "(string \<times> json) list \<Rightarrow> bool" where
  "is_reachable check = (map_of check ''reachable'' = Some (JBool True))"

definition health_get :: "ext \<Rightarrow> (string \<Rightarrow> exn + int \<times> int) \<Rightarrow> response io" where
  "health_get X rpc =
    seq (gets (\<lambda>w. (penv w, contracts_check X w, clock w))) (\<lambda>(env, on_contracts, now).
    seq (database_check X) (\<lambda>database.
    let missing = missing_env env; on_chain = chain_check rpc env;
        healthy = (missing = [] \<and> is_reachable on_chain \<and> is_reachable database) in
    ret \<lparr>status = (if healthy then 200 else 503), no_store = True,
         resp_body = JsonBody (JObj
           ([(''service'', JStr ''ownex-platform''), (''healthy'', JBool healthy), (''checkedAt'', JStr (x_iso X now)),
             (''configured'', JBool (missing = [])), (''missing'', JArr (map JStr missing)),
             (''chain'', JObj on_chain)] @ on_contracts @ [(''database'', JObj database)]))\<rparr>))"

end
