(* ===== verification/OrgProps.thy ===== *)
theory OrgProps
  imports OrgRoutes AuditRoutes
begin

text \<open>
  What the organisation and profile routes guarantee: a record is bound only by the root admin and
  only when it re-hashes to the anchor on the chain, a profile reads back to its owner as it was
  saved, and the roster shows no name to a role that may not see one.
\<close>

subsection \<open>Binding an organisation\<close>

definition stored_record :: "org_row \<Rightarrow> organization_record" where
  "stored_record r = \<lparr>or_name = og_name r, or_industry = og_industry r, or_website = og_website r\<rparr>"

lemma stored_record_columns: "stored_record (organization_columns b h r) = organization_record_of b"
  by (simp add: stored_record_def organization_columns_def organization_record_of_def)

lemma save_organization_Inr:
  assumes "save_organization X org_id columns w = (Inr (Inr u), w')"
  shows "\<exists>n. w' = w\<lparr>db_calls := n, organizations :=
    upsert_where (\<lambda>r. og_org_id r = org_id) (new_org_row org_id) columns (organizations w)\<rparr>"
  using db_stmt_cases[OF assms[unfolded save_organization_def]] by auto

lemma organization_confirm_Inr:
  assumes "organization_confirm_run X body w = (Inr resp, w')"
  shows "\<exists>b caller org n i. body = Some b \<and> session_wallet w = Some caller
    \<and> read_identity X w caller = Inr i \<and> is_active i
    \<and> read_organization X w (int_of_field (obj_get b ''orgId'')) = Inr (Some org)
    \<and> to_lower (os_root_admin org) = to_lower caller
    \<and> to_lower (os_metadata_hash org) = to_lower (hash_organization_record X (organization_record_of b))
    \<and> w' = w\<lparr>db_calls := n, organizations :=
         upsert_where (\<lambda>r. og_org_id r = int_of_field (obj_get b ''orgId''))
           (new_org_row (int_of_field (obj_get b ''orgId'')))
           (organization_columns b (hash_organization_record X (organization_record_of b))) (organizations w)\<rparr>"
  using assms save_organization_Inr
  by (auto simp: organization_confirm_run_def io_iff Let_def res_iff split: option.splits sum.splits)

text \<open>C26. A confirmed organisation record is anchored: when \<open>POST /api/organizations/confirm\<close> answers, the
  caller was signed in with an active identity and is, by the chain, the root admin of that
  organisation; the one row of the organisation then holds a record whose canonical hash is the
  metadata hash on the chain, and its stored anchor is that hash. No other row and nothing else of
  the world changes.\<close>

theorem confirmed_organisation_is_anchored:
  assumes "organization_confirm_run X (Some b) w = (Inr resp, w')"
    and "length (filter (\<lambda>r. og_org_id r = int_of_field (obj_get b ''orgId'')) (organizations w)) \<le> 1"
  shows "let own = (\<lambda>r. og_org_id r = int_of_field (obj_get b ''orgId'')) in
    \<exists>caller org row i n. session_wallet w = Some caller
    \<and> read_identity X w caller = Inr i \<and> is_active i
    \<and> read_organization X w (int_of_field (obj_get b ''orgId'')) = Inr (Some org)
    \<and> to_lower (os_root_admin org) = to_lower caller
    \<and> filter own (organizations w') = [row]
    \<and> to_lower (hash_organization_record X (stored_record row)) = to_lower (os_metadata_hash org)
    \<and> og_metadata_hash row = Some (hash_organization_record X (stored_record row))
    \<and> filter (\<lambda>r. \<not> own r) (organizations w') = filter (\<lambda>r. \<not> own r) (organizations w)
    \<and> w' = w\<lparr>db_calls := n, organizations := organizations w'\<rparr>"
proof -
  let ?id = "int_of_field (obj_get b ''orgId'')"
  let ?own = "\<lambda>r. og_org_id r = ?id"
  let ?h = "hash_organization_record X (organization_record_of b)"
  let ?cols = "organization_columns b ?h"
  from organization_confirm_Inr[OF assms(1)] obtain caller org n i where
    c: "session_wallet w = Some caller" "read_identity X w caller = Inr i" "is_active i"
      "read_organization X w ?id = Inr (Some org)" "to_lower (os_root_admin org) = to_lower caller"
      "to_lower (os_metadata_hash org) = to_lower ?h" and
    w': "w' = w\<lparr>db_calls := n, organizations := upsert_where ?own (new_org_row ?id) ?cols (organizations w)\<rparr>"
    by auto
  have keyed: "?own (?cols r) = ?own r" "?own (new_org_row ?id)" for r
    by (simp_all add: organization_columns_def new_org_row_def)
  from upsert_where_keyed[of ?own ?cols "new_org_row ?id" "organizations w", OF keyed assms(2)]
  obtain r where r: "filter ?own (upsert_where ?own (new_org_row ?id) ?cols (organizations w)) = [?cols r]"
    and rest: "filter (\<lambda>r. \<not> ?own r) (upsert_where ?own (new_org_row ?id) ?cols (organizations w))
             = filter (\<lambda>r. \<not> ?own r) (organizations w)" by blast
  have "og_metadata_hash (?cols r) = Some ?h" by (simp add: organization_columns_def)
  with c r rest show ?thesis
    unfolding Let_def
    by (intro exI[of _ caller] exI[of _ org] exI[of _ "?cols r"] exI[of _ i] exI[of _ n])
       (simp add: w' stored_record_columns)
qed

definition demo_org_body :: json where
  "demo_org_body = JObj
    [(''orgId'', JNum 1), (''txHash'', JStr (''0x'' @ replicate 64 CHR ''a'')), (''name'', JStr ''Acme'')]"

definition demo_org_world :: world where
  "demo_org_world = demo_audit_world\<lparr>chain_now := demo_chain\<lparr>c_organization := (\<lambda>n.
     Inr \<lparr>ro_metadata_hash = hash_organization_record demo_ext (organization_record_of demo_org_body),
          ro_root_admin = (if n = 1 then demo_admin else ZERO_ADDRESS), ro_active = True, ro_created_at = 1\<rparr>)\<rparr>\<rparr>"

lemma demo_org_fields:
  "obj_get demo_org_body ''orgId'' = Some (JNum 1)" "obj_get demo_org_body ''name'' = Some (JStr ''Acme'')"
  "obj_get demo_org_body ''txHash'' = Some (JStr (''0x'' @ replicate 64 CHR ''a''))"
  "obj_get demo_org_body ''industry'' = None" "obj_get demo_org_body ''website'' = None"
  "obj_get demo_org_body ''description'' = None" "is_object demo_org_body"
  by (simp_all add: demo_org_body_def is_object_def)

lemma demo_org_issues: "org_confirm_issues demo_ext demo_org_body = []"
proof -
  have "is_hex_string 64 (''0x'' @ replicate 64 CHR ''a'')"
    by (simp add: is_hex_string_def starts_with_def demo_hex list_all_iff)
  then show ?thesis
    by (simp add: org_confirm_issues_def organization_issues_def demo_org_fields positive_field_def regex_field_def
        text_field_def optional_field_def)
qed

lemma demo_org_confirm: "\<exists>resp w'. organization_confirm_run demo_ext (Some demo_org_body) demo_org_world = (Inr resp, w')"
proof -
  have env: "penv demo_org_world = demo_env" and s: "session_wallet demo_org_world = Some demo_admin"
    and f: "db_fault demo_org_world = (\<lambda>_. None)"
    using demo_audit_session by (simp_all add: demo_org_world_def session_wallet_def cong: if_cong)
  have i: "\<exists>i. read_identity demo_ext demo_org_world demo_admin = Inr i \<and> is_registered i \<and> is_active i"
    using env by (simp add: read_identity_def demo_contracts) (simp add: demo_org_world_def demo_chain_def)
  have caller: "require_active_identity demo_ext demo_org_world = (Inr demo_admin, demo_org_world)"
    using i s by (simp add: require_active_identity_iff)
  have org: "\<exists>org. read_organization demo_ext demo_org_world 1 = Inr (Some org) \<and> os_root_admin org = demo_admin
      \<and> os_metadata_hash org = hash_organization_record demo_ext (organization_record_of demo_org_body)"
  proof -
    have "demo_admin \<noteq> ZERO_ADDRESS" by code_simp
    then show ?thesis using env
      by (simp add: read_organization_def demo_contracts) (simp add: demo_org_world_def)
  qed
  then obtain org where org: "read_organization demo_ext demo_org_world 1 = Inr (Some org)" "os_root_admin org = demo_admin"
    "os_metadata_hash org = hash_organization_record demo_ext (organization_record_of demo_org_body)" by blast
  show ?thesis
    by (simp add: organization_confirm_run_def seq_def read_json_def ret_def lift_res_def zod_def demo_org_issues demo_org_fields
          int_of_field_def asks_def caller org guard_io_def save_organization_def demo_db_stmt env f Let_def)
qed

theorem confirmed_organisation_is_anchored_witness:
  "\<exists>resp w' row. organization_confirm_run demo_ext (Some demo_org_body) demo_org_world = (Inr resp, w')
     \<and> filter (\<lambda>r. og_org_id r = 1) (organizations w') = [row]
     \<and> og_metadata_hash row = Some (hash_organization_record demo_ext (stored_record row))"
proof -
  from demo_org_confirm obtain resp w' where run: "organization_confirm_run demo_ext (Some demo_org_body) demo_org_world = (Inr resp, w')"
    by blast
  have "organizations demo_org_world = []" by (simp add: demo_org_world_def demo_audit_world_def demo_world_def)
  with confirmed_organisation_is_anchored[OF run] run show ?thesis
    by (auto simp: Let_def demo_org_fields int_of_field_def)
qed

subsection \<open>The caller's profile\<close>

lemma encrypt_pii_world:
  assumes "encrypt_pii X p w = (Inr c, w')"
  shows "\<exists>k. w' = w\<lparr>draws := k\<rparr>"
  using encrypt_pii_Inr[OF assms] by (auto intro: exI[of _ "draws w"])

lemma save_profile_Inr:
  assumes "save_profile X wallet columns w = (Inr (Inr u), w')"
  shows "\<exists>n. w' = w\<lparr>db_calls := n, profiles :=
    upsert_where (\<lambda>r. pf_wallet r = wallet) (new_profile_row wallet (clock w)) columns (profiles w)\<rparr>"
  using db_stmt_cases[OF assms[unfolded save_profile_def]] by auto

lemma profile_put_Inr:
  assumes "profile_put_run X (Some b) w = (Inr resp, w')"
  shows "\<exists>wallet email phone w1 w2 n. session_wallet w = Some wallet
    \<and> encrypt_pii X (optional_text (obj_get b ''email'')) w = (Inr email, w1)
    \<and> encrypt_pii X (optional_text (obj_get b ''phone'')) w1 = (Inr phone, w2)
    \<and> w' = w2\<lparr>db_calls := n, profiles :=
         upsert_where (\<lambda>r. pf_wallet r = normalize_address wallet) (new_profile_row (normalize_address wallet) (clock w2))
           (profile_columns b email phone (hash_identity_record X (identity_record_of b))) (profiles w2)\<rparr>"
  using assms save_profile_Inr
  by (auto simp: profile_put_run_def io_iff Let_def res_iff split: option.splits sum.splits)

lemma session_wallet_profiles:
  "session_wallet (w\<lparr>draws := k, db_calls := n, profiles := ps\<rparr>) = session_wallet w"
  by (simp add: session_wallet_def cong: if_cong)

definition shown_profile :: "ext \<Rightarrow> json \<Rightarrow> int \<Rightarrow> json" where
  "shown_profile X b created = JObj
    [(''displayName'', JStr (text_of (obj_get b ''displayName''))),
     (''jobTitle'', jnullable (optional_text (obj_get b ''jobTitle''))),
     (''department'', jnullable (optional_text (obj_get b ''department''))),
     (''email'', jnullable (if truthy (optional_text (obj_get b ''email'')) then optional_text (obj_get b ''email'') else None)),
     (''phone'', jnullable (if truthy (optional_text (obj_get b ''phone'')) then optional_text (obj_get b ''phone'') else None)),
     (''avatarUrl'', jnullable (optional_text (obj_get b ''avatarUrl''))),
     (''identityHash'', JStr (hash_identity_record X (identity_record_of b))),
     (''createdAt'', JStr (x_iso X created))]"

lemma decrypt_pii_env_only:
  assumes "encrypt_pii X p w = (Inr c, w')" and "gcm_inverts X" and "b64_codec X"
  shows "decrypt_pii X (penv w) c = (if truthy p then p else None)"
  using decrypt_encrypted[OF assms refl] .

text \<open>C27. A profile round-trips to its owner: after a successful \<open>PUT /api/profile\<close>, \<open>GET /api/profile\<close> of
  the same session shows every field as it was sent (an empty contact field as null) and the
  identity hash of the record, with email and phone decrypted from what was stored; the rows of all
  other wallets are as before. The GET reports a failing query as no profile, so the query must run.\<close>

theorem profile_reads_back_as_saved:
  assumes "profile_put_run X (Some b) w = (Inr resp, w')"
    and "gcm_inverts X" and "b64_codec X"
    and "length (filter (\<lambda>r. pf_wallet r = normalize_address (the (session_wallet w))) (profiles w)) \<le> 1"
    and "db_fault w' (db_calls w') = None" and "server_env_of X (penv w') = Inr env"
  shows "\<exists>wallet created n. session_wallet w = Some wallet
    \<and> profile_get X w' = (ok_no_store (JObj [(''wallet'', JStr wallet), (''profile'', shown_profile X b created)]), w'\<lparr>db_calls := n\<rparr>)
    \<and> filter (\<lambda>r. pf_wallet r \<noteq> normalize_address wallet) (profiles w')
      = filter (\<lambda>r. pf_wallet r \<noteq> normalize_address wallet) (profiles w)"
proof -
  let ?h = "hash_identity_record X (identity_record_of b)"
  from profile_put_Inr[OF assms(1)] obtain wallet email phone w1 w2 n where
    s: "session_wallet w = Some wallet" and
    e: "encrypt_pii X (optional_text (obj_get b ''email'')) w = (Inr email, w1)" and
    p: "encrypt_pii X (optional_text (obj_get b ''phone'')) w1 = (Inr phone, w2)" and
    w': "w' = w2\<lparr>db_calls := n, profiles :=
         upsert_where (\<lambda>r. pf_wallet r = normalize_address wallet) (new_profile_row (normalize_address wallet) (clock w2))
           (profile_columns b email phone ?h) (profiles w2)\<rparr>" by auto
  let ?a = "normalize_address wallet"
  let ?own = "\<lambda>r. pf_wallet r = ?a"
  let ?fresh = "new_profile_row ?a (clock w2)" and ?cols = "profile_columns b email phone ?h"
  obtain k1 k2 where w1: "w1 = w\<lparr>draws := k1\<rparr>" and w2: "w2 = w\<lparr>draws := k2\<rparr>"
    using encrypt_pii_world[OF e] encrypt_pii_world[OF p] by auto
  have same: "penv w1 = penv w" "profiles w2 = profiles w" "penv w' = penv w" by (simp_all add: w1 w2 w')
  have keyed: "?own (?cols r) = ?own r" "?own ?fresh" for r by (simp_all add: profile_columns_def new_profile_row_def)
  have "length (filter ?own (profiles w2)) \<le> 1" using assms(4) s same by simp
  from upsert_where_keyed[of ?own ?cols ?fresh "profiles w2", OF keyed this] obtain r where
    r: "filter ?own (profiles w') = [?cols r]" and
    rest: "filter (\<lambda>r. \<not> ?own r) (profiles w') = filter (\<lambda>r. \<not> ?own r) (profiles w)"
    by (auto simp: w' same)
  have shown: "profile_json X (penv w') (?cols r) = shown_profile X b (pf_created_at r)"
    using decrypt_pii_env_only[OF e assms(2,3)] decrypt_pii_env_only[OF p assms(2,3)] same
    by (simp add: profile_json_def shown_profile_def profile_columns_def)
  have "session_wallet w' = Some wallet" using s by (simp add: w' w2 session_wallet_profiles)
  then have "profile_get X w' = (ok_no_store (JObj [(''wallet'', JStr wallet), (''profile'', profile_json X (penv w') (?cols r))]),
      w'\<lparr>db_calls := Suc (db_calls w')\<rparr>)"
    using r assms(5,6)
    by (simp add: profile_get_def handler_def profile_get_run_def seq_def require_caller_def asks_def own_profile_def
          select_one_def db_stmt_def ret_def gets_def)
  then show ?thesis using s rest unfolding shown by blast
qed

definition demo_profile_body :: json where
  "demo_profile_body = JObj [(''displayName'', JStr ''Ann''), (''email'', JStr ''ann@acme'')]"

lemma demo_profile_fields:
  "obj_get demo_profile_body ''displayName'' = Some (JStr ''Ann'')" "obj_get demo_profile_body ''email'' = Some (JStr ''ann@acme'')"
  "obj_get demo_profile_body ''jobTitle'' = None" "obj_get demo_profile_body ''department'' = None"
  "obj_get demo_profile_body ''phone'' = None" "obj_get demo_profile_body ''avatarUrl'' = None" "is_object demo_profile_body"
  by (simp_all add: demo_profile_body_def is_object_def)

lemma demo_profile_put:
  "\<exists>resp w'. profile_put_run demo_ext (Some demo_profile_body) demo_world = (Inr resp, w')
     \<and> db_fault w' = (\<lambda>_. None) \<and> penv w' = demo_env"
proof -
  have w: "penv demo_world = demo_env" "db_fault demo_world = (\<lambda>_. None)" "chain_now demo_world = demo_chain"
    by (simp_all add: demo_world_def)
  have "session_wallet demo_world = Some demo_wallet"
    by (simp add: session_wallet_def demo_world_def SESSION_TTL_SECONDS_def demo_wallet_def demo_address_def)
  then have caller: "require_caller demo_world = (Inr demo_wallet, demo_world)" by (simp add: require_caller_iff)
  have issues: "profile_issues demo_ext demo_profile_body = []"
    by (simp add: profile_issues_def demo_profile_fields text_field_def optional_field_def regex_field_def)
       (simp add: demo_ext_def)
  have g: "x_gcm_encrypt demo_ext = (\<lambda>k iv p. (p, iv))" by (simp add: demo_ext_def)
  obtain email w1 where e: "encrypt_pii demo_ext (Some ''ann@acme'') demo_world = (Inr email, w1)"
    by (simp add: g encrypt_pii_def seq_def draw_def asks_def pii_key_def demo_env_ok ret_def Let_def w)
  from encrypt_pii_world[OF e] obtain k where w1: "w1 = demo_world\<lparr>draws := k\<rparr>" by blast
  show ?thesis
    by (simp add: profile_put_run_def seq_def caller read_json_def ret_def lift_res_def zod_def issues demo_profile_fields
          optional_text_def e w1 server_env_io_def demo_env_ok w save_profile_def demo_db_stmt asks_def read_identity_def demo_contracts
          Let_def demo_chain_def)
qed

theorem profile_reads_back_as_saved_witness:
  "\<exists>resp w' created n. profile_put_run demo_ext (Some demo_profile_body) demo_world = (Inr resp, w')
     \<and> profile_get demo_ext w' = (ok_no_store (JObj [(''wallet'', JStr demo_wallet),
         (''profile'', shown_profile demo_ext demo_profile_body created)]), w'\<lparr>db_calls := n\<rparr>)"
proof -
  from demo_profile_put obtain resp w' where
    run: "profile_put_run demo_ext (Some demo_profile_body) demo_world = (Inr resp, w')" and
    w': "db_fault w' = (\<lambda>_. None)" "penv w' = demo_env" by blast
  have s: "session_wallet demo_world = Some demo_wallet"
    by (simp add: session_wallet_def demo_world_def SESSION_TTL_SECONDS_def demo_wallet_def demo_address_def)
  have "profiles demo_world = []" by (simp add: demo_world_def)
  with profile_reads_back_as_saved[OF run demo_ext_laws(4,3) _ _ demo_env_ok[folded w'(2)]] w' s run show ?thesis
    by fastforce
qed

subsection \<open>The roster\<close>

lemma reads_ignore_profiles [simp]:
  "contracts X (w\<lparr>profiles := ps\<rparr>) = contracts X w"
  "read_identity X (w\<lparr>profiles := ps\<rparr>) = read_identity X w"
  "read_effective_role X (w\<lparr>profiles := ps\<rparr>) = read_effective_role X w"
  "read_organization X (w\<lparr>profiles := ps\<rparr>) = read_organization X w"
  "read_membership X (w\<lparr>profiles := ps\<rparr>) = read_membership X w"
  "held_assets X (w\<lparr>profiles := ps\<rparr>) = held_assets X w"
proof -
  show c: "contracts X (w\<lparr>profiles := ps\<rparr>) = contracts X w" by (simp add: contracts_def)
  show "read_identity X (w\<lparr>profiles := ps\<rparr>) = read_identity X w"
    "read_effective_role X (w\<lparr>profiles := ps\<rparr>) = read_effective_role X w"
    "read_organization X (w\<lparr>profiles := ps\<rparr>) = read_organization X w"
    "read_membership X (w\<lparr>profiles := ps\<rparr>) = read_membership X w"
    "held_assets X (w\<lparr>profiles := ps\<rparr>) = held_assets X w"
    by (auto simp: fun_eq_iff c read_identity_def read_effective_role_def read_organization_def read_membership_def
          held_assets_def read_assets_of_holder_def)
qed

lemma read_org_members_profiles [simp]:
  "read_org_members X (w\<lparr>profiles := ps\<rparr>) = read_org_members X w"
  by (simp add: fun_eq_iff read_org_members_def)

lemma session_wallet_other_profiles [simp]: "session_wallet (w\<lparr>profiles := ps\<rparr>) = session_wallet w"
  by (simp add: session_wallet_def cong: if_cong)

text \<open>A query over other profiles runs as the query over these did.\<close>

lemma select_other_profiles:
  assumes "select_stmt X f w = (Inr r, w')"
  shows "\<exists>r'. select_stmt X f (w\<lparr>profiles := ps\<rparr>) = (Inr r', w'\<lparr>profiles := ps\<rparr>)"
  using assms by (auto simp: select_stmt_def db_stmt_def Let_def split: sum.splits option.splits)

lemma select_one_other_profiles:
  assumes "select_one X f w = (Inr r, w')" and "\<And>v. f (v\<lparr>profiles := ps\<rparr>) = f v"
  shows "select_one X f (w\<lparr>profiles := ps\<rparr>) = (Inr r, w'\<lparr>profiles := ps\<rparr>)"
proof -
  have swap: "w\<lparr>profiles := ps, db_calls := k\<rparr> = w\<lparr>db_calls := k, profiles := ps\<rparr>" for k by simp
  have "f (w\<lparr>profiles := ps, db_calls := k\<rparr>) = f (w\<lparr>db_calls := k\<rparr>)" for k
    unfolding swap by (rule assms(2))
  with assms(1) show ?thesis
    by (auto simp: select_one_def db_stmt_def Let_def split: sum.splits option.splits)
qed

lemma hidden_member:
  "enriched_member X w False profile_of = enriched_member X w False profile_of'"
  by (auto simp: fun_eq_iff enriched_member_def member_json_def member_profile_json_def split: option.splits)

lemma enriched_other_profiles: "enriched_member X (w\<lparr>profiles := ps\<rparr>) c p = enriched_member X w c p"
  by (simp add: fun_eq_iff enriched_member_def)

lemma members_run_steps:
  "members_run X q w = (Inr resp, w') \<longleftrightarrow> coerced_positive X q \<and>
    (\<exists>caller role members org found w1 org_found rows. let id = coerced_value X q in
       require_member X id w = (Inr (caller, role), w) \<and> read_org_members X w id = Inr members
     \<and> read_organization X w id = Inr org
     \<and> select_stmt X (\<lambda>w. filter (\<lambda>r. pf_wallet r \<in> set (map (\<lambda>m. to_lower (om_wallet m)) members)) (profiles w)) w
         = (Inr found, w1)
     \<and> select_one X (\<lambda>w. filter (\<lambda>r. og_org_id r = id) (organizations w)) w1 = (Inr org_found, w')
     \<and> map_res (enriched_member X w' (can_see_profiles role) (by_wallet (case found of Inl _ \<Rightarrow> [] | Inr rs \<Rightarrow> rs))) members
         = Inr rows
     \<and> resp = ok_no_store (JObj
       [(''orgId'', JNum id), (''organisation'', organisation_json org (case org_found of Inl _ \<Rightarrow> None | Inr r \<Rightarrow> r)),
        (''count'', JNum (int (length rows))), (''canSeeProfiles'', JBool (can_see_profiles role)),
        (''members'', JArr rows)]))"
  by (auto simp: members_run_def io_iff Let_def)

text \<open>The roster keeps names from plain members: for a caller whose live role is neither ADMIN
  nor MANAGER, the answer of \<open>GET /api/members\<close> does not depend on the profiles stored, whatever they
  are: with any other table of profiles the same request gets the same response.\<close>

theorem roster_hides_profiles_from_plain_members:
  assumes "members_run X q w = (Inr resp, w')" and "session_wallet w = Some caller"
    and "read_effective_role X w (coerced_value X q) caller = Inr role" and "role \<noteq> ADMIN" and "role \<noteq> MANAGER"
  shows "\<exists>w''. members_run X q (w\<lparr>profiles := ps\<rparr>) = (Inr resp, w'')"
proof -
  let ?id = "coerced_value X q"
  from assms(1) obtain c r members org found w1 org_found rows where
    pos: "coerced_positive X q" and
    m: "require_member X ?id w = (Inr (c, r), w)" and
    ms: "read_org_members X w ?id = Inr members" "read_organization X w ?id = Inr org" and
    s1: "select_stmt X (\<lambda>w. filter (\<lambda>r. pf_wallet r \<in> set (map (\<lambda>m. to_lower (om_wallet m)) members)) (profiles w)) w
         = (Inr found, w1)" and
    s2: "select_one X (\<lambda>w. filter (\<lambda>r. og_org_id r = ?id) (organizations w)) w1 = (Inr org_found, w')" and
    rows: "map_res (enriched_member X w' (can_see_profiles r) (by_wallet (case found of Inl _ \<Rightarrow> [] | Inr rs \<Rightarrow> rs))) members
         = Inr rows" and
    resp: "resp = ok_no_store (JObj
       [(''orgId'', JNum ?id), (''organisation'', organisation_json org (case org_found of Inl _ \<Rightarrow> None | Inr r \<Rightarrow> r)),
        (''count'', JNum (int (length rows))), (''canSeeProfiles'', JBool (can_see_profiles r)),
        (''members'', JArr rows)])"
    unfolding members_run_steps Let_def by blast
  have r: "r = role" using m assms(2,3) by (simp add: require_member_iff)
  have hide: "can_see_profiles r = False" using assms(4,5) r by (simp add: can_see_profiles_def)
  have m': "require_member X ?id (w\<lparr>profiles := ps\<rparr>) = (Inr (c, r), w\<lparr>profiles := ps\<rparr>)"
    using m by (simp add: require_member_iff)
  from select_other_profiles[OF s1] obtain found' where
    s1': "select_stmt X (\<lambda>w. filter (\<lambda>r. pf_wallet r \<in> set (map (\<lambda>m. to_lower (om_wallet m)) members)) (profiles w))
           (w\<lparr>profiles := ps\<rparr>) = (Inr found', w1\<lparr>profiles := ps\<rparr>)" by blast
  have s2': "select_one X (\<lambda>w. filter (\<lambda>r. og_org_id r = ?id) (organizations w)) (w1\<lparr>profiles := ps\<rparr>)
      = (Inr org_found, w'\<lparr>profiles := ps\<rparr>)"
    by (rule select_one_other_profiles[OF s2]) simp
  have rows': "map_res (enriched_member X (w'\<lparr>profiles := ps\<rparr>) (can_see_profiles r)
      (by_wallet (case found' of Inl _ \<Rightarrow> [] | Inr rs \<Rightarrow> rs))) members = Inr rows"
    using rows unfolding enriched_other_profiles hide by (subst hidden_member)
  have "members_run X q (w\<lparr>profiles := ps\<rparr>) = (Inr resp, w'\<lparr>profiles := ps\<rparr>)"
    unfolding members_run_steps Let_def using pos m' ms s1' s2' rows' resp
    by (auto intro!: exI)
  then show ?thesis by blast
qed

lemma demo_members: "\<exists>resp w'. members_run demo_ext (Some ''1'') demo_world = (Inr resp, w')"
proof -
  have w: "penv demo_world = demo_env" "db_fault demo_world = (\<lambda>_. None)" "chain_now demo_world = demo_chain"
    "profiles demo_world = []" "organizations demo_world = []" by (simp_all add: demo_world_def)
  have s: "session_wallet demo_world = Some demo_wallet"
    by (simp add: session_wallet_def demo_world_def SESSION_TTL_SECONDS_def demo_wallet_def demo_address_def)
  have n: "x_number demo_ext ''1'' = Some 1" by (simp add: demo_ext_def) code_simp
  have ident: "\<exists>i. read_identity demo_ext demo_world a = Inr i \<and> (a = demo_wallet \<longrightarrow> is_registered i \<and> is_active i)" for a
    using w by (simp add: read_identity_def demo_contracts) (simp add: demo_chain_def)
  have role: "read_effective_role demo_ext demo_world 1 demo_wallet = Inr USER"
    using w by (simp add: read_effective_role_def demo_contracts) (simp add: demo_chain_def demo_roles)
  have member: "require_member demo_ext 1 demo_world = (Inr (demo_wallet, USER), demo_world)"
    using ident[of demo_wallet] s role by (auto simp: require_member_iff)
  have org: "\<exists>org. read_organization demo_ext demo_world 1 = Inr org"
    using w by (simp add: read_organization_def demo_contracts Let_def) (simp add: demo_chain_def)
  then obtain org where org: "read_organization demo_ext demo_world 1 = Inr org" by blast
  have "\<exists>m. read_membership demo_ext demo_world 1 a = Inr m" "\<exists>r. read_effective_role demo_ext demo_world 1 a = Inr r" for a
    using w by (simp_all add: read_membership_def read_effective_role_def demo_contracts Let_def) (simp_all add: demo_chain_def)
  then obtain ms rl where r: "read_membership demo_ext demo_world 1 a = Inr (ms a)"
    "read_effective_role demo_ext demo_world 1 a = Inr (rl a)" for a by metis
  have total: "\<exists>ys. map_res f xs = Inr ys" if "\<And>x. \<exists>y. f x = Inr y" for f :: "'a \<Rightarrow> exn + 'b" and xs
    using that by (induction xs) (auto, metis bind_res.simps(2))
  obtain members where members: "read_org_members demo_ext demo_world 1 = Inr members"
  proof -
    have "c_members (chain_now demo_world) 1 = Inr [demo_wallet]" by (simp add: w demo_chain_def)
    then have "\<exists>ms. read_org_members demo_ext demo_world 1 = Inr ms"
      by (simp add: read_org_members_def demo_contracts w org Let_def) (rule total, simp add: r)
    then show ?thesis using that by blast
  qed
  have known: "\<exists>i. read_identity demo_ext demo_world a = Inr i" for a using ident by blast
  have "\<exists>row. enriched_member demo_ext demo_world c p m = Inr row" for c p m
    using known[of "om_wallet m"] by (elim exE) (simp add: enriched_member_def)
  then have "\<exists>rows. map_res (enriched_member demo_ext demo_world c p) members = Inr rows" for c p by (rule total)
  then obtain rows where rows: "map_res (enriched_member demo_ext demo_world c p) members = Inr (rows c p)" for c p by metis
  have again: "enriched_member demo_ext (demo_world\<lparr>db_calls := k\<rparr>) c p = enriched_member demo_ext demo_world c p" for k c p
    by (simp add: fun_eq_iff enriched_member_def held_assets_def)
  have id: "coerced_positive demo_ext (Some ''1'')" "coerced_value demo_ext (Some ''1'') = 1"
    by (simp_all add: coerced_positive_def coerced_value_def positive_number_def n)
  have s1: "select_stmt demo_ext f demo_world = (Inr (Inr (f (demo_world\<lparr>db_calls := 1\<rparr>))), demo_world\<lparr>db_calls := 1\<rparr>)"
    for f :: "world \<Rightarrow> profile_row list"
    by (simp add: select_stmt_def demo_db_stmt w demo_world_def)
  have s2: "select_one demo_ext (\<lambda>w. filter (\<lambda>r. og_org_id r = 1) (organizations w)) (demo_world\<lparr>db_calls := 1\<rparr>)
      = (Inr (Inr None), demo_world\<lparr>db_calls := 2\<rparr>)"
    by (simp add: select_one_def demo_db_stmt w numeral_2_eq_2)
  show ?thesis unfolding members_run_steps id Let_def
    by (intro exI conjI, rule id(1), rule member, rule members, rule org, rule s1, rule s2, unfold again, rule rows, rule refl)
qed

theorem roster_hides_profiles_from_plain_members_witness:
  "\<exists>resp w' w''. members_run demo_ext (Some ''1'') demo_world = (Inr resp, w')
     \<and> members_run demo_ext (Some ''1'') (demo_world\<lparr>profiles := [new_profile_row demo_wallet 0]\<rparr>) = (Inr resp, w'')"
proof -
  from demo_members obtain resp w' where run: "members_run demo_ext (Some ''1'') demo_world = (Inr resp, w')" by blast
  have "session_wallet demo_world = Some demo_wallet"
    by (simp add: session_wallet_def demo_world_def SESSION_TTL_SECONDS_def demo_wallet_def demo_address_def)
  moreover have "coerced_value demo_ext (Some ''1'') = 1"
    by (simp add: coerced_value_def demo_ext_def) code_simp
  moreover have "read_effective_role demo_ext demo_world 1 demo_wallet = Inr USER"
    by (simp add: read_effective_role_def demo_contracts demo_world_def) (simp add: demo_chain_def demo_roles)
  ultimately show ?thesis
    using roster_hides_profiles_from_plain_members[OF run] run by fastforce
qed

end
