(* ===== verification/ClientApi.thy ===== *)
theory ClientApi
  imports Session
begin

text \<open>
  \<open>apps/platform/lib/api.ts\<close>, the browser's client of the server: one \<open>request\<close> that turns a
  response into a value or an error, and the calls built on it. \<open>fetch\<close> is outside the repository:
  an outcome of it is the argument of \<open>request_outcome\<close>. A value a script throws is a record with
  every field the sources look at; an absent one is \<open>None\<close>.
\<close>

subsection \<open>What is thrown in the browser\<close>

datatype error_code = CodeNumber int | CodeText string

record nested_error =
  ne_message :: "string option"
  ne_code :: "int option"

record revert_info =
  rv_name :: "string option"
  rv_args :: "log_arg list option"

record thrown =
  th_error :: bool
    \<comment> \<open>\<open>instanceof Error\<close>\<close>
  th_status :: "int option"
    \<comment> \<open>the status of an \<open>ApiRequestError\<close>, and of nothing else\<close>
  th_code :: "error_code option"
  th_message :: "string option"
  th_short_message :: "string option"
  th_reason :: "string option"
  th_revert :: "revert_info option"
  th_info :: "nested_error option"
  th_nested :: "nested_error option"

definition plain_error :: "string \<Rightarrow> thrown" where
  "plain_error message =
    \<lparr>th_error = True, th_status = None, th_code = None, th_message = Some message, th_short_message = None,
     th_reason = None, th_revert = None, th_info = None, th_nested = None\<rparr>"

definition api_request_error :: "int \<Rightarrow> string \<Rightarrow> string \<Rightarrow> thrown" where
  "api_request_error st code message =
    (plain_error message)\<lparr>th_status := Some st, th_code := Some (CodeText code)\<rparr>"

subsection \<open>request\<close>

datatype reply_text = EmptyText | JsonReply json | NotJson

datatype fetched_reply = FetchFailed thrown | Replied int reply_text

text \<open>\<open>body.code ?? other\<close> where the sources take the field for a string: a value of another type is
  its own text, which no server route sends, and counts as absent here.\<close>

definition text_in :: "json \<Rightarrow> string \<Rightarrow> string option" where
  "text_in body k = (case obj_get body k of Some (JStr s) \<Rightarrow> Some s | _ \<Rightarrow> None)"

definition or_else :: "'a option \<Rightarrow> 'a option \<Rightarrow> 'a option" where
  "or_else a b = (case a of None \<Rightarrow> b | Some _ \<Rightarrow> a)"

definition request_outcome :: "fetched_reply \<Rightarrow> thrown + json" where
  "request_outcome fetched =
    (case fetched of
       FetchFailed e \<Rightarrow> Inl e
     | Replied _ NotJson \<Rightarrow> Inl (plain_error ''Unexpected token in JSON'')
     | Replied st text \<Rightarrow>
       let payload = (case text of JsonReply j \<Rightarrow> j | _ \<Rightarrow> JNull) in
       if 200 \<le> st \<and> st < 300 then Inr payload
       else Inl (api_request_error st (nullish (text_in payload ''code'') ''REQUEST_FAILED'')
              (nullish (or_else (text_in payload ''error'') (text_in payload ''message''))
                 (''Request failed with '' @ show_int st))))"

datatype call_body = NoBody | JsonBodyOf json | FormBody "(string \<times> string) list"

record api_call =
  ac_method :: string
  ac_path :: string
  ac_body :: call_body

text \<open>The header is left to the browser for a form, which adds the multipart boundary itself.\<close>

definition request_headers :: "api_call \<Rightarrow> (string \<times> string) list" where
  "request_headers call =
    (case ac_body call of JsonBodyOf _ \<Rightarrow> [(''Content-Type'', ''application/json'')] | _ \<Rightarrow> [])"

definition get_call :: "string \<Rightarrow> api_call" where
  "get_call path = \<lparr>ac_method = ''GET'', ac_path = path, ac_body = NoBody\<rparr>"

definition post_call :: "string \<Rightarrow> json \<Rightarrow> api_call" where
  "post_call path body = \<lparr>ac_method = ''POST'', ac_path = path, ac_body = JsonBodyOf body\<rparr>"

subsection \<open>The calls\<close>

definition request_challenge :: "string \<Rightarrow> api_call" where
  "request_challenge wallet = post_call ''/api/auth/nonce'' (JObj [(''wallet'', JStr wallet)])"

definition verify_signature :: "string \<Rightarrow> string \<Rightarrow> api_call" where
  "verify_signature message signature =
    post_call ''/api/auth/verify'' (JObj [(''message'', JStr message), (''signature'', JStr signature)])"

definition sign_out_call :: api_call where
  "sign_out_call = \<lparr>ac_method = ''POST'', ac_path = ''/api/auth/logout'', ac_body = NoBody\<rparr>"

definition get_me_call :: "int option \<Rightarrow> api_call" where
  "get_me_call org_id =
    get_call (''/api/identity/me'' @ (case org_id of None \<Rightarrow> [] | Some i \<Rightarrow> ''?orgId='' @ show_int i))"

text \<open>A 401 is the ordinary signed-out state and returns null.\<close>

definition get_me_outcome :: "fetched_reply \<Rightarrow> thrown + json option" where
  "get_me_outcome fetched =
    (case request_outcome fetched of
       Inr me \<Rightarrow> Inr (Some me)
     | Inl e \<Rightarrow> if th_status e = Some 401 then Inr None else Inl e)"

definition list_assets_call :: "int \<Rightarrow> api_call" where
  "list_assets_call org_id = get_call (''/api/assets?orgId='' @ show_int org_id)"

definition get_asset_metadata_call :: "int \<Rightarrow> api_call" where
  "get_asset_metadata_call token_id = get_call (''/api/metadata/'' @ show_int token_id)"

definition upload_asset_image_call :: "int \<Rightarrow> string \<Rightarrow> api_call" where
  "upload_asset_image_call org_id picture =
    \<lparr>ac_method = ''POST'', ac_path = ''/api/assets/image'',
     ac_body = FormBody [(''orgId'', show_int org_id), (''image'', picture)]\<rparr>"

definition create_asset_draft_call :: "json \<Rightarrow> api_call" where
  "create_asset_draft_call input = post_call ''/api/assets'' input"

definition confirm_asset_call :: "string \<Rightarrow> json \<Rightarrow> api_call" where
  "confirm_asset_call asset_id body = post_call (''/api/assets/'' @ asset_id @ ''/confirm'') body"

record audit_params =
  aps_org_id :: int
  aps_event :: "string option"
  aps_wallet :: "string option"
  aps_token_id :: "int option"
  aps_contract :: "string option"
  aps_limit :: "int option"
  aps_cursor :: "int option"

definition text_entry :: "string \<Rightarrow> string option \<Rightarrow> (string \<times> string) list" where
  "text_entry k v = (if truthy v then [(k, the v)] else [])"

definition number_entry :: "string \<Rightarrow> int option \<Rightarrow> (string \<times> string) list" where
  "number_entry k v = (case v of None \<Rightarrow> [] | Some i \<Rightarrow> [(k, show_int i)])"

definition audit_entries :: "audit_params \<Rightarrow> (string \<times> string) list" where
  "audit_entries q =
    [(''orgId'', show_int (aps_org_id q))] @ text_entry ''event'' (aps_event q) @ text_entry ''wallet'' (aps_wallet q)
    @ number_entry ''tokenId'' (aps_token_id q) @ text_entry ''contract'' (aps_contract q)
    @ number_entry ''limit'' (aps_limit q) @ number_entry ''cursor'' (aps_cursor q)"

text \<open>\<open>search\<close> is \<open>URLSearchParams.toString\<close>.\<close>

definition get_audit_call :: "((string \<times> string) list \<Rightarrow> string) \<Rightarrow> audit_params \<Rightarrow> api_call" where
  "get_audit_call search q = get_call (''/api/audit?'' @ search (audit_entries q))"

definition sync_audit_call :: api_call where
  "sync_audit_call = post_call ''/api/audit/sync'' (JObj [])"

definition list_members_call :: "int \<Rightarrow> api_call" where
  "list_members_call org_id = get_call (''/api/members?orgId='' @ show_int org_id)"

definition get_permission_matrix_call :: "int \<Rightarrow> api_call" where
  "get_permission_matrix_call org_id = get_call (''/api/roles/matrix?orgId='' @ show_int org_id)"

definition list_applications_call :: "int \<Rightarrow> api_call" where
  "list_applications_call org_id = get_call (''/api/applications?orgId='' @ show_int org_id)"

definition register_application_call :: "json \<Rightarrow> api_call" where
  "register_application_call input = post_call ''/api/applications'' input"

definition update_application_call :: "string \<Rightarrow> json \<Rightarrow> api_call" where
  "update_application_call slug patch =
    \<lparr>ac_method = ''PATCH'', ac_path = ''/api/applications/'' @ encode_uri_component slug, ac_body = JsonBodyOf patch\<rparr>"

definition rotate_client_secret_call :: "string \<Rightarrow> int \<Rightarrow> api_call" where
  "rotate_client_secret_call slug org_id =
    post_call (''/api/applications/'' @ encode_uri_component slug @ ''/secret'')
      (JObj [(''orgId'', JNum org_id), (''confirm'', JBool True)])"

definition save_profile_call :: "json \<Rightarrow> api_call" where
  "save_profile_call input = \<lparr>ac_method = ''PUT'', ac_path = ''/api/profile'', ac_body = JsonBodyOf input\<rparr>"

definition prepare_organisation_call :: "json \<Rightarrow> api_call" where
  "prepare_organisation_call input = post_call ''/api/organizations'' input"

definition confirm_organisation_call :: "json \<Rightarrow> api_call" where
  "confirm_organisation_call body = post_call ''/api/organizations/confirm'' body"

definition get_health_call :: api_call where
  "get_health_call = get_call ''/api/health''"

subsection \<open>The server's answers, as the client reads them\<close>

text \<open>What a response of the server is on the wire, for the routes that answer JSON.\<close>

definition wire :: "response \<Rightarrow> fetched_reply" where
  "wire r = Replied (status r) (case resp_body r of JsonBody j \<Rightarrow> JsonReply j | _ \<Rightarrow> NotJson)"

lemma request_outcome_ok: "request_outcome (wire (ok_no_store j)) = Inr j"
  by (simp add: request_outcome_def wire_def ok_no_store_def)

lemma request_outcome_api_error:
  assumes "st < 200 \<or> 300 \<le> st"
  shows "request_outcome (wire (error_response (ApiError st msg code)))
    = Inl (api_request_error st (nullish code ''REQUEST_FAILED'') msg)"
  using assms
  by (auto simp: request_outcome_def wire_def error_response_def json_response_def error_json_def text_in_def or_else_def
      split: option.splits)

end
