(* ===== verification/ClientTypes.thy ===== *)
theory ClientTypes
  imports ClientApi
begin

text \<open>
  The answer types that \<open>lib/api.ts\<close> declares for the calls it makes, as data: an interface is the
  list of its fields with their types, and a JSON value conforms to a type when TypeScript's
  structural reading of it does (a field more is allowed, an optional field may be missing). The
  compiler never checks these declarations against the server: \<open>request<T>\<close> casts what it parsed.
\<close>

subsection \<open>Types of JSON values\<close>

datatype js_type =
    TString
  | TNumber
  | TBoolean
  | TUnknown
  | TLiteral "string list"
  | TOrNull js_type
  | TOneOf js_type js_type
  | TArray js_type
  | TDict js_type
  | TObject "(string \<times> bool \<times> js_type) list"

fun conforms :: "js_type \<Rightarrow> json \<Rightarrow> bool" where
  "conforms TString v = (case v of JStr _ \<Rightarrow> True | _ \<Rightarrow> False)"
| "conforms TNumber v = (case v of JNum _ \<Rightarrow> True | JReal _ \<Rightarrow> True | _ \<Rightarrow> False)"
| "conforms TBoolean v = (case v of JBool _ \<Rightarrow> True | _ \<Rightarrow> False)"
| "conforms TUnknown v = True"
| "conforms (TLiteral ls) v = (case v of JStr s \<Rightarrow> s \<in> set ls | _ \<Rightarrow> False)"
| "conforms (TOrNull t) v = (v = JNull \<or> conforms t v)"
| "conforms (TOneOf s t) v = (conforms s v \<or> conforms t v)"
| "conforms (TArray t) v = (case v of JArr vs \<Rightarrow> list_all (conforms t) vs | _ \<Rightarrow> False)"
| "conforms (TDict t) v = (case v of JObj ps \<Rightarrow> list_all (\<lambda>p. conforms t (snd p)) ps | _ \<Rightarrow> False)"
| "conforms (TObject fs) v =
     (case v of
        JObj ps \<Rightarrow> (\<forall>f \<in> set fs. case map_of ps (fst f) of None \<Rightarrow> fst (snd f) | Some u \<Rightarrow> conforms (snd (snd f)) u)
      | _ \<Rightarrow> False)"

text \<open>A field that is always there, and one declared with a question mark.\<close>

definition field_of :: "string \<Rightarrow> js_type \<Rightarrow> string \<times> bool \<times> js_type" where
  "field_of k t = (k, False, t)"

definition optional_of :: "string \<Rightarrow> js_type \<Rightarrow> string \<times> bool \<times> js_type" where
  "optional_of k t = (k, True, t)"

subsection \<open>Auth and identity\<close>

definition Challenge :: "js_type" where
  "Challenge = TObject
    [field_of ''nonce'' TString, field_of ''message'' TString, field_of ''expiresAt'' TString,
     field_of ''gasRequired'' TBoolean]"

definition Membership :: "js_type" where
  "Membership = TObject
    [field_of ''orgId'' TNumber, field_of ''role'' TString, field_of ''expiresAt'' (TOrNull TNumber)]"

text \<open>The two answers that list memberships, over the type of one membership.\<close>

definition verify_result_with :: "js_type \<Rightarrow> js_type" where
  "verify_result_with membership = TObject
    [field_of ''wallet'' TString,
     field_of ''identity'' (TObject [field_of ''registered'' TBoolean, field_of ''active'' TBoolean,
                                  field_of ''identityHash'' (TOrNull TString)]),
     field_of ''memberships'' (TArray membership),
     field_of ''profile'' (TOrNull (TObject [optional_of ''display_name'' (TOrNull TString)])),
     field_of ''next'' (TLiteral [''onboarding'', ''no-organization'', ''dashboard''])]"

definition VerifyResult :: "js_type" where
  "VerifyResult = verify_result_with Membership"

definition me_identity :: js_type where
  "me_identity = TObject
    [field_of ''registered'' TBoolean, field_of ''active'' TBoolean, field_of ''identityHash'' (TOrNull TString),
     field_of ''registeredAt'' (TOrNull TNumber), field_of ''did'' TString, field_of ''recordIntact'' (TOrNull TBoolean)]"

definition me_profile :: js_type where
  "me_profile = TObject
    [field_of ''displayName'' (TOrNull TString), field_of ''jobTitle'' (TOrNull TString),
     field_of ''department'' (TOrNull TString), field_of ''avatarUrl'' (TOrNull TString),
     field_of ''email'' (TOrNull TString), field_of ''emailMasked'' (TOrNull TString)]"

definition me_with :: "js_type \<Rightarrow> js_type" where
  "me_with membership = TObject
    [field_of ''wallet'' TString, field_of ''identity'' me_identity, field_of ''profile'' (TOrNull me_profile),
     field_of ''activeOrgId'' (TOrNull TNumber), field_of ''memberships'' (TArray membership),
     field_of ''permissions'' (TOrNull (TDict TBoolean)), field_of ''assets'' (TArray TNumber)]"

definition Me :: "js_type" where
  "Me = me_with Membership"

subsection \<open>Assets\<close>

definition AssetSummary :: "js_type" where
  "AssetSummary = TObject
    [field_of ''tokenId'' TNumber, field_of ''orgId'' TNumber, field_of ''owner'' TString,
     field_of ''assignedTo'' TString, field_of ''active'' TBoolean, field_of ''mintedAt'' TNumber,
     field_of ''transferCount'' TNumber, field_of ''assetHash'' TString, field_of ''name'' TString,
     field_of ''description'' (TOrNull TString), field_of ''assetType'' TString,
     field_of ''department'' (TOrNull TString), field_of ''imageUrl'' (TOrNull TString),
     field_of ''metadataUri'' (TOrNull TString), field_of ''serialNumber'' (TOrNull TString),
     field_of ''recordIntact'' (TOrNull TBoolean), field_of ''hasOffChainRecord'' TBoolean]"

definition AssetDraft :: "js_type" where
  "AssetDraft = TObject
    [field_of ''id'' TString, field_of ''name'' TString, field_of ''assetType'' TString,
     field_of ''assetHash'' TString, field_of ''metadataUri'' (TOrNull TString),
     field_of ''createdAt'' TString]"

definition AssetList :: "js_type" where
  "AssetList = TObject
    [field_of ''orgId'' TNumber, field_of ''count'' TNumber, field_of ''assets'' (TArray AssetSummary),
     field_of ''pending'' (TArray AssetDraft)]"

text \<open>An attribute's value is a string or a number; a union of two is the one that fits.\<close>

definition AssetMetadata :: js_type where
  "AssetMetadata = TObject
    [field_of ''name'' TString, field_of ''description'' TString, field_of ''image'' (TOrNull TString),
     field_of ''external_url'' (TOrNull TString),
     field_of ''attributes'' (TArray (TObject [field_of ''trait_type'' TString, field_of ''value'' (TOneOf TString TNumber)])),
     field_of ''asset_hash'' TString,
     field_of ''ownex'' (TObject
       [field_of ''tokenId'' (TOrNull TNumber), field_of ''orgId'' TNumber, field_of ''holder'' (TOrNull TString),
        field_of ''active'' (TOrNull TBoolean), field_of ''schema'' TString])]"

definition AssetImageUploadResult :: "js_type" where
  "AssetImageUploadResult = TObject
    [field_of ''url'' TString, field_of ''path'' TString, field_of ''contentType'' (TLiteral [''image/png'', ''image/jpeg'', ''image/webp'']),
     field_of ''size'' TNumber]"

definition AssetDraftResult :: "js_type" where
  "AssetDraftResult = TObject
    [field_of ''assetId'' TString, field_of ''assetHash'' TString, field_of ''metadataUri'' TString,
     field_of ''mintArgs'' (TObject [field_of ''orgId'' TNumber, field_of ''assetHash'' TString, field_of ''metadataURI'' TString]), field_of ''note'' TString]"

definition AssetConfirmResult :: "js_type" where
  "AssetConfirmResult = TObject
    [field_of ''assetId'' TString, field_of ''tokenId'' TNumber, field_of ''txHash'' TString,
     field_of ''owner'' TString, field_of ''assignedTo'' TString, field_of ''assetHash'' TString,
     field_of ''verified'' TBoolean]"

subsection \<open>Audit\<close>

definition AuditContract :: "js_type" where
  "AuditContract = TLiteral [''IdentityRegistry'', ''OrgAccessManager'', ''AssetNFT'']"

definition AuditEvent :: "js_type" where
  "AuditEvent = TObject
    [field_of ''id'' TString, field_of ''contract'' AuditContract, field_of ''event'' TString,
     field_of ''orgId'' (TOrNull TNumber), field_of ''actor'' (TOrNull TString),
     field_of ''subject'' (TOrNull TString), field_of ''tokenId'' (TOrNull TNumber),
     field_of ''txHash'' TString, field_of ''blockNumber'' TNumber, field_of ''payload'' (TOrNull (TDict TUnknown)),
     field_of ''explorerUrl'' (TOrNull TString)]"

definition AuditPage :: "js_type" where
  "AuditPage = TObject
    [field_of ''orgId'' TNumber, field_of ''count'' TNumber, field_of ''hasMore'' TBoolean,
     field_of ''nextCursor'' (TOrNull TNumber), field_of ''events'' (TArray AuditEvent)]"

definition SyncResult :: "js_type" where
  "SyncResult = TObject
    [field_of ''chainId'' TNumber, field_of ''fromBlock'' TNumber, field_of ''toBlock'' TNumber,
     field_of ''indexed'' TNumber, field_of ''perContract'' (TDict TNumber), field_of ''resetDetected'' TBoolean]"

subsection \<open>Members, roles and permissions\<close>

definition OrgMember :: "js_type" where
  "OrgMember = TObject
    [field_of ''wallet'' TString, field_of ''role'' TString, field_of ''storedRole'' TString,
     field_of ''joinedAt'' (TOrNull TNumber), field_of ''expiresAt'' (TOrNull TNumber),
     field_of ''expired'' TBoolean, field_of ''isRootAdmin'' TBoolean, field_of ''identity'' (TObject [field_of ''registered'' TBoolean, field_of ''active'' TBoolean]),
     field_of ''profile'' (TOrNull (TObject [field_of ''displayName'' (TOrNull TString), field_of ''jobTitle'' (TOrNull TString),
     field_of ''department'' (TOrNull TString)])), field_of ''assetCount'' TNumber]"

definition MemberList :: "js_type" where
  "MemberList = TObject
    [field_of ''orgId'' TNumber, field_of ''organisation'' (TOrNull (TObject [field_of ''name'' (TOrNull TString), field_of ''rootAdmin'' TString, field_of ''active'' TBoolean])), field_of ''count'' TNumber,
     field_of ''canSeeProfiles'' TBoolean, field_of ''members'' (TArray OrgMember)]"

definition OverrideState :: "js_type" where
  "OverrideState = TLiteral [''Unset'', ''Allowed'', ''Denied'']"

definition MatrixCell :: "js_type" where
  "MatrixCell = TObject
    [field_of ''role'' TString, field_of ''permission'' TString, field_of ''default'' TBoolean,
     field_of ''override'' OverrideState, field_of ''effective'' TBoolean]"

definition PermissionMatrix :: "js_type" where
  "PermissionMatrix = TObject
    [field_of ''orgId'' TNumber, field_of ''organisationActive'' TBoolean,
     field_of ''roles'' (TArray TString), field_of ''permissions'' (TArray (TObject [field_of ''key'' TString, field_of ''label'' TString])),
     field_of ''cells'' (TArray MatrixCell), field_of ''canEdit'' TBoolean]"

subsection \<open>Applications\<close>

definition IntegrationStage :: "js_type" where
  "IntegrationStage = TLiteral [''draft'', ''registered'', ''callback'', ''secret'', ''active'']"

definition IntegrationStep :: "js_type" where
  "IntegrationStep = TObject
    [field_of ''key'' IntegrationStage, field_of ''label'' TString, field_of ''done'' TBoolean,
     field_of ''todo'' TString]"

definition IntegrationEndpoints :: "js_type" where
  "IntegrationEndpoints = TObject
    [field_of ''authorizeUrl'' TString, field_of ''exchangeUrl'' TString, field_of ''verifyUrl'' TString,
     field_of ''envVars'' (TDict TString)]"

definition ConnectedApp :: "js_type" where
  "ConnectedApp = TObject
    [field_of ''slug'' TString, field_of ''appId'' TString, field_of ''name'' TString,
     field_of ''url'' TString, field_of ''description'' (TOrNull TString),
     field_of ''logoUrl'' (TOrNull TString), field_of ''status'' TString,
     field_of ''registered'' TBoolean, field_of ''appIdMatchesSlug'' TBoolean, field_of ''access'' (TDict TBoolean),
     field_of ''callerHasAccess'' TBoolean, field_of ''intendedRoles'' (TArray TString),
     field_of ''rolesPendingOnChain'' (TArray TString), field_of ''stage'' IntegrationStage,
     field_of ''steps'' (TArray IntegrationStep), field_of ''clientId'' (TOrNull TString),
     field_of ''callbackUrls'' (TOrNull (TArray TString)),
     field_of ''hasClientSecret'' (TOrNull TBoolean),
     field_of ''clientSecretUpdatedAt'' (TOrNull TString),
     field_of ''endpoints'' (TOrNull IntegrationEndpoints)]"

definition AppList :: "js_type" where
  "AppList = TObject
    [field_of ''orgId'' TNumber, field_of ''count'' TNumber, field_of ''callerRole'' TString,
     field_of ''canManage'' TBoolean, field_of ''applications'' (TArray ConnectedApp)]"

definition AppRegistrationResult :: "js_type" where
  "AppRegistrationResult = TObject
    [field_of ''slug'' TString, field_of ''appId'' TString, field_of ''metadataHash'' TString,
     field_of ''registerArgs'' (TObject [field_of ''orgId'' TNumber, field_of ''appId'' TString, field_of ''metadataHash'' TString]), field_of ''clientId'' TString,
     field_of ''clientSecret'' (TOrNull TString), field_of ''callbackUrls'' (TArray TString),
     field_of ''allowedRoles'' (TArray TString), field_of ''accessArgs'' (TArray (TObject [field_of ''orgId'' TNumber, field_of ''appId'' TString, field_of ''role'' TString])),
     field_of ''endpoints'' IntegrationEndpoints]"

definition AppConfigResult :: "js_type" where
  "AppConfigResult = TObject
    [field_of ''slug'' TString, field_of ''orgId'' TNumber, field_of ''status'' TString,
     field_of ''callbackUrls'' (TArray TString), field_of ''allowedRoles'' (TArray TString),
     optional_of ''note'' TString]"

definition SecretRotationResult :: "js_type" where
  "SecretRotationResult = TObject
    [field_of ''slug'' TString, field_of ''orgId'' TNumber, field_of ''clientId'' TString,
     field_of ''clientSecret'' TString, field_of ''rotatedAt'' TString,
     field_of ''endpoints'' IntegrationEndpoints, field_of ''warning'' TString]"

subsection \<open>Onboarding and health\<close>

definition ProfileSaveResult :: "js_type" where
  "ProfileSaveResult = TObject
    [field_of ''wallet'' TString, field_of ''identityHash'' TString, field_of ''anchored'' TBoolean,
     field_of ''nextStep'' (TOrNull (TObject [field_of ''call'' (TLiteral [''registerIdentity'', ''updateIdentityHash'']), field_of ''args'' (TArray TString)])), field_of ''note'' TString]"

definition OrgPrepareResult :: "js_type" where
  "OrgPrepareResult = TObject
    [field_of ''metadataHash'' TString, field_of ''createArgs'' (TObject [field_of ''metadataHash'' TString]), field_of ''rootAdmin'' TString,
     field_of ''note'' TString]"

definition OrgConfirmResult :: "js_type" where
  "OrgConfirmResult = TObject
    [field_of ''orgId'' TNumber, field_of ''name'' TString, field_of ''rootAdmin'' TString,
     field_of ''metadataHash'' TString, field_of ''txHash'' TString, field_of ''verified'' TBoolean]"

definition Health :: "js_type" where
  "Health = TObject [field_of ''ok'' TBoolean, optional_of ''chainId'' TNumber]"

lemmas field_types = field_of_def optional_of_def

lemmas answer_types = Challenge_def Membership_def verify_result_with_def VerifyResult_def me_identity_def me_profile_def
  me_with_def Me_def AssetSummary_def AssetDraft_def AssetList_def AssetMetadata_def AssetImageUploadResult_def
  AssetDraftResult_def AssetConfirmResult_def AuditContract_def AuditEvent_def AuditPage_def SyncResult_def
  OrgMember_def MemberList_def OverrideState_def MatrixCell_def PermissionMatrix_def IntegrationStage_def
  IntegrationStep_def IntegrationEndpoints_def ConnectedApp_def AppList_def AppRegistrationResult_def
  AppConfigResult_def SecretRotationResult_def ProfileSaveResult_def OrgPrepareResult_def OrgConfirmResult_def
  Health_def

end
