(* ===== verification/AnswerTypes.thy ===== *)
theory AnswerTypes
  imports ClientTypes OrgRoutes AuditRoutes Indexer AssetRoutes AppRoutes Siwe
begin

text \<open>
  The platform's answers against the types the browser client declares for them. A route answers a
  type when every run of it that returns is read by the client's request helper as a value of that
  type; the rules follow a route's body statement by statement. Two declarations are not what the
  server sends: a membership's \<open>expiresAt\<close> and the health check's \<open>ok\<close>.
\<close>

subsection \<open>Routes that answer a type\<close>

definition answers :: "js_type \<Rightarrow> response io \<Rightarrow> bool" where
  "answers T m \<longleftrightarrow> (\<forall>w r. fst (m w) = Inr r \<longrightarrow> (\<exists>j. request_outcome (wire r) = Inr j \<and> conforms T j))"

named_theorems answers_intro \<open>which computations answer a type\<close>

lemma answers_ok [answers_intro]: "conforms T j \<Longrightarrow> answers T (ret (ok_no_store j))"
  by (simp add: answers_def ret_def request_outcome_ok)

lemma answers_json [answers_intro]: "conforms T j \<Longrightarrow> answers T (ret (json_response 200 j))"
  by (simp add: answers_def ret_def json_response_def request_outcome_def wire_def)

lemma answers_throw [answers_intro]: "answers T (throw e)"
  by (simp add: answers_def throw_def)

lemma answers_seq_from: "(\<And>a w w'. m w = (Inr a, w') \<Longrightarrow> answers T (k a)) \<Longrightarrow> answers T (seq m k)"
  by (auto simp: answers_def seq_def split: prod.splits sum.splits)

lemma answers_seq [answers_intro]: "(\<And>a. answers T (k a)) \<Longrightarrow> answers T (seq m k)"
  by (rule answers_seq_from)

lemma answers_split [answers_intro]:
  "answers T p \<Longrightarrow> answers T q \<Longrightarrow> answers T (if b then p else q)"
  "answers T p \<Longrightarrow> (\<And>x. answers T (f x)) \<Longrightarrow> answers T (case_option p f v)"
  "(\<And>x. answers T (g x)) \<Longrightarrow> (\<And>x. answers T (f x)) \<Longrightarrow> answers T (case_sum g f s)"
  "(\<And>x y. answers T (h x y)) \<Longrightarrow> answers T (case_prod h z)"
  by (auto split: option.splits sum.splits prod.splits)

subsection \<open>Values of the declared types\<close>

lemma conforms_values [simp]:
  "conforms TString (JStr s)" "conforms TNumber (JNum i)" "conforms TBoolean (JBool b)" "conforms TUnknown v"
  "conforms (TLiteral ls) (JStr s) \<longleftrightarrow> s \<in> set ls" "conforms (TOneOf TString TNumber) (JStr s)"
  "conforms (TOneOf TString TNumber) (JNum i)" "conforms (TOrNull t) JNull"
  "conforms (TOrNull t) (JObj ps) \<longleftrightarrow> conforms t (JObj ps)" "conforms (TOrNull t) (JArr vs) \<longleftrightarrow> conforms t (JArr vs)"
  "conforms (TOrNull t) (JStr s) \<longleftrightarrow> conforms t (JStr s)" "conforms (TOrNull t) (JBool b) \<longleftrightarrow> conforms t (JBool b)"
  "conforms (TOrNull t) (JNum i) \<longleftrightarrow> conforms t (JNum i)"
  by simp_all

declare conforms.simps(1-3,5-9) [simp del]

lemma conforms_nullable [simp]: "conforms (TOrNull TString) (jnullable v)"
  by (cases v) (simp_all add: conforms.simps)

lemma conforms_nullable_int [simp]: "conforms (TOrNull TNumber) (jnullable_int v)"
  by (cases v) (simp_all add: conforms.simps)

lemma conforms_nullable_bool [simp]: "conforms (TOrNull TBoolean) (jnullable_bool v)"
  by (cases v) (simp_all add: conforms.simps)

lemma conforms_not_null [simp]: "conforms t v \<Longrightarrow> conforms (TOrNull t) v"
  by (simp add: conforms.simps)

lemma conforms_list [simp]: "conforms (TArray t) (JArr vs) \<longleftrightarrow> (\<forall>v \<in> set vs. conforms t v)"
  by (simp add: list_all_iff conforms.simps)

lemma conforms_dict [simp]: "conforms (TDict t) (JObj ps) \<longleftrightarrow> (\<forall>p \<in> set ps. conforms t (snd p))"
  by (simp add: list_all_iff conforms.simps)

lemma answers_guard: "(b \<Longrightarrow> answers T (k ())) \<Longrightarrow> answers T (seq (guard_io b e) k)"
  by (rule answers_seq_from) (auto simp: io_iff)

lemma answers_asks: "(\<And>a w. f w = Inr a \<Longrightarrow> answers T (k a)) \<Longrightarrow> answers T (seq (asks f) k)"
  by (rule answers_seq_from) (auto simp: io_iff)

subsection \<open>What the routes put into an answer\<close>

text \<open>A membership as the two routes that list memberships send it.\<close>

definition served_membership :: js_type where
  "served_membership = TObject
    [field_of ''orgId'' TNumber, field_of ''role'' TString, field_of ''active'' TBoolean, field_of ''isRootAdmin'' TBoolean]"

lemma membership_types:
  "conforms served_membership (membership_json m)" "conforms served_membership (membership_entry_json m)"
  by (simp_all add: served_membership_def field_types membership_json_def membership_entry_json_def)

lemma asset_types:
  "conforms AssetSummary (listed_asset_json X env can_see row chain)" "conforms AssetDraft (pending_json X r)"
  "conforms AssetDraftResult (draft_json i h u c)" "conforms AssetMetadata (metadata_json r found org_name)"
     apply (simp add: AssetSummary_def field_types listed_asset_json_def)
    apply (simp add: AssetDraft_def field_types pending_json_def)
   apply (simp add: AssetDraftResult_def field_types draft_json_def)
  apply (auto simp: AssetMetadata_def field_types metadata_json_def trait_def split: option.splits)[1]
  done

lemma organisation_types:
  "conforms OrgPrepareResult (prepared_json h caller)" "conforms OrgConfirmResult (confirmed_json b i s h)"
  "conforms ProfileSaveResult (saved_profile_json wallet h identity)"
    apply (simp add: OrgPrepareResult_def field_types prepared_json_def)
   apply (simp add: OrgConfirmResult_def field_types confirmed_json_def)
  apply (simp add: ProfileSaveResult_def field_types saved_profile_json_def anchor_step_def)
  done

lemma member_types:
  "conforms OrgMember (member_json can_see member identity held profile)" "conforms MatrixCell (cell_json c)"
   apply (simp add: OrgMember_def field_types member_json_def member_profile_json_def split: option.splits)
  apply (cases "mc_override c"; simp add: MatrixCell_def OverrideState_def field_types cell_json_def)
  done

lemma application_types:
  "conforms IntegrationEndpoints (endpoints_json e)" "conforms IntegrationStep (step_json s)"
  "conforms (TArray TString) (role_list_json roles)" "conforms (TDict TBoolean) (access_json access)"
     apply (auto simp: IntegrationEndpoints_def field_types endpoints_json_def)[1]
    apply (cases "sp_key s"; simp add: IntegrationStep_def IntegrationStage_def field_types step_json_def)
   apply (simp add: role_list_json_def)
  apply (auto simp: access_json_def)
  done

lemma listed_application_types:
  "conforms ConnectedApp (JObj (public_app_entries app role registered access
     @ managed_app_entries X can_manage app endpoints))"
proof -
  have "stage_key (integration_stage i) \<in> {''draft'', ''registered'', ''callback'', ''secret'', ''active''}" for i
    by (cases "integration_stage i") simp_all
  then show ?thesis
    by (simp add: ConnectedApp_def IntegrationStage_def field_types public_app_entries_def managed_app_entries_def
      application_types split: option.splits)
qed

lemma managing_types:
  "conforms AppRegistrationResult (registration_json X b client_id secret endpoints)"
  "conforms AppConfigResult (patch_json b org_id slug shown)"
  "conforms SecretRotationResult (rotation_json X slug org_id client_id s now endpoints)"
    apply (simp add: AppRegistrationResult_def field_types registration_json_def application_types Let_def)
   apply (simp add: AppConfigResult_def field_types patch_json_def application_types)
  apply (simp add: SecretRotationResult_def field_types rotation_json_def application_types)
  done

lemma sync_types: "conforms SyncResult (sync_result_json r)"
  by (auto simp: SyncResult_def field_types sync_result_json_def)

lemma identity_types:
  "conforms (me_with served_membership) (me_json X env wallet identity profile active memberships permissions held)"
  by (auto simp: me_with_def me_identity_def me_profile_def field_types me_json_def identity_json_def own_profile_json_def
    permissions_json_def membership_types split: option.splits active_org.splits)

subsection \<open>The routes\<close>

lemma sign_in_answers:
  "answers Challenge (nonce_run X body)" "answers (verify_result_with served_membership) (verify_run X body)"
  "answers (me_with served_membership) (identity_me_run X p)"
    apply (unfold nonce_run_def, intro answers_intro, simp add: Challenge_def field_types)
   apply (unfold verify_run_def, intro answers_intro)
   apply (auto simp: verify_result_with_def field_types identity_summary_json_def membership_types
     profile_summary_json_def next_step_def split: option.splits sum.splits)[1]
  apply (unfold identity_me_run_def Let_def, intro answers_intro, simp add: identity_types)
  done

lemma asset_answers:
  "answers AssetList (assets_list_run X p)" "answers AssetDraftResult (assets_create_run X body)"
  "answers AssetConfirmResult (confirm_run X asset_id body)" "answers AssetMetadata (metadata_run X ref)"
  "answers AssetImageUploadResult (image_run X public_url form)"
      apply (unfold assets_list_run_def Let_def, intro answers_intro)
      apply (auto simp: AssetList_def field_types asset_types)[1]
     apply (unfold assets_create_run_def Let_def, intro answers_intro, simp add: asset_types)
    apply (unfold confirm_run_def Let_def, intro answers_intro, simp add: AssetConfirmResult_def field_types)
   apply (unfold metadata_run_def, intro answers_intro, simp add: asset_types)
  apply (unfold image_run_def Let_def, intro answers_guard answers_intro)
  apply (auto simp: AssetImageUploadResult_def field_types is_asset_image_type_def asset_image_types_def)
  done

lemma organisation_answers:
  "answers ProfileSaveResult (profile_put_run X body)" "answers OrgPrepareResult (organization_prepare_run X body)"
  "answers OrgConfirmResult (organization_confirm_run X body)" "answers PermissionMatrix (matrix_run X p)"
  "answers SyncResult (audit_sync_run X body)"
      apply (unfold profile_put_run_def Let_def, intro answers_intro, simp add: organisation_types)
     apply (unfold organization_prepare_run_def, intro answers_intro, simp add: organisation_types)
    apply (unfold organization_confirm_run_def Let_def, intro answers_intro, simp add: organisation_types)
   apply (unfold matrix_run_def Let_def, intro answers_intro)
   apply (simp add: PermissionMatrix_def field_types member_types)
  apply (unfold audit_sync_run_def Let_def, intro answers_intro, simp add: sync_types)
  done

lemma members_answer: "answers MemberList (members_run X p)"
proof -
  have "conforms OrgMember j"
    if "map_res (enriched_member X w can_see profile_of) ms = Inr js" "j \<in> set js" for w can_see profile_of ms js j
    using that by (induction ms arbitrary: js) (auto simp: enriched_member_def res_iff member_types)
  then show ?thesis
    unfolding members_run_def Let_def
    apply (intro answers_asks answers_intro)
    apply (auto simp: MemberList_def field_types organisation_json_def split: option.splits)
    done
qed

lemma application_answers:
  "answers AppList (applications_list_run X p)" "answers AppRegistrationResult (applications_create_run X body)"
  "answers AppConfigResult (applications_patch_run X slug body)"
  "answers SecretRotationResult (secret_rotate_run X slug body)"
proof -
  have "conforms ConnectedApp j"
    if "map_res (listed_application X w origin org_id role) rs = Inr js" "j \<in> set js" for w origin org_id role rs js j
    using that
    by (induction rs arbitrary: js) (auto simp: listed_application_def res_iff listed_application_types)
  then have "answers AppList (answer_listed X org_id role records)" for org_id role records
    unfolding answer_listed_def
    apply (intro answers_seq_from)
    apply (auto simp: io_iff AppList_def field_types intro!: answers_intro split: sum.splits)
    done
  then show "answers AppList (applications_list_run X p)"
    unfolding applications_list_run_def Let_def registry_unavailable_def by (intro answers_intro)
qed (unfold applications_create_run_def applications_patch_run_def secret_rotate_run_def Let_def,
     (intro answers_intro, simp add: managing_types)+)


subsection \<open>Two declarations the server does not meet\<close>

text \<open>\<open>Membership.expiresAt\<close> is declared as a number or null; no route sends it.\<close>

lemma memberships_come_without_expiry:
  "\<not> conforms Membership (membership_json m)" "\<not> conforms Membership (membership_entry_json m)"
  by (simp_all add: Membership_def field_types membership_json_def membership_entry_json_def)

lemma me_with_a_membership_is_not_declared:
  "memberships \<noteq> [] \<Longrightarrow>
   \<not> conforms Me (me_json X env wallet identity profile active memberships permissions held)"
  by (cases memberships) (simp_all add: Me_def me_with_def field_types me_json_def memberships_come_without_expiry)

text \<open>\<open>Health.ok\<close> is declared as a boolean; the route calls it \<open>healthy\<close>.\<close>

lemma health_answers_without_ok:
  assumes "health_get X rpc w = (Inr r, w')"
  shows "\<exists>j. resp_body r = JsonBody j \<and> \<not> conforms Health j"
proof -
  have "([k \<mapsto> d] ++ map_of (contracts_check X v)) ''ok'' = None" if "k = ''database''" for k d v
    using that by (simp add: contracts_check_def map_add_def)
  from this[OF refl] have none: "([''database'' \<mapsto> d] ++ map_of (contracts_check X w)) ''ok'' = None" for d .
  from assms show ?thesis
    by (auto simp: health_get_def io_iff Let_def Health_def field_types none)
qed

subsection \<open>The audit page\<close>

text \<open>
  An audit event shows what the cache stores, so its type is an invariant of the cache: the indexer
  writes rows of the three contracts it knows, with an object as the payload.
\<close>

definition typed_row :: "audit_row \<Rightarrow> bool" where
  "typed_row r \<longleftrightarrow>
    conforms AuditContract (JStr (au_contract r)) \<and> conforms (TOrNull (TDict TUnknown)) (au_payload r)"

definition typed_cache :: "world \<Rightarrow> bool" where
  "typed_cache w \<longleftrightarrow> (\<forall>r \<in> set (audit_cache w). typed_row r)"

definition typed_moves :: "world \<Rightarrow> world \<Rightarrow> bool" where
  "typed_moves w w' \<longleftrightarrow> (typed_cache w \<longrightarrow> typed_cache w')"

lemma typed_cache_counter [simp]: "typed_cache (w\<lparr>db_calls := n\<rparr>) = typed_cache w"
  by (simp add: typed_cache_def)

interpretation typed: world_relation typed_moves
  by unfold_locales (simp_all add: typed_moves_def)

lemma typed_row_id [simp]: "typed_row (r\<lparr>au_id := i\<rparr>) = typed_row r"
  by (simp add: typed_row_def)

lemma typed_cache_append [simp]:
  "typed_cache (w\<lparr>audit_cache := audit_cache w @ [r], draws := d\<rparr>) \<longleftrightarrow> typed_cache w \<and> typed_row r"
  by (simp add: typed_cache_def conj_commute)

lemma audit_upsert_typed: "typed_cache w \<Longrightarrow> \<forall>r \<in> set rs. typed_row r \<Longrightarrow> typed_cache (audit_upsert X rs w)"
proof (induction rs arbitrary: w)
  case (Cons r rs)
  have "typed_cache (if audit_key r \<in> audit_key ` set (audit_cache w) then w
        else w\<lparr>audit_cache := audit_cache w @ [r\<lparr>au_id := x_uuid X (draws w)\<rparr>], draws := Suc (draws w)\<rparr>)"
    using Cons.prems by simp
  with Cons show ?case by simp
qed simp

lemma indexed_row_typed: "conforms AuditContract (JStr name) \<Longrightarrow> typed_row (audit_row_of X name l)"
  by (simp add: typed_row_def audit_row_of_def Let_def readable_payload_def)

lemma purge_typed: "keeps typed_moves (purge_contract_cache X name address)"
  unfolding purge_contract_cache_def
  by (intro typed.keeps_intro typed.keeps_db_stmt) (auto simp: typed_moves_def typed_cache_def)

lemma windows_typed:
  assumes name: "conforms AuditContract (JStr name)"
  shows "keeps typed_moves (index_windows X name ws n)"
  using name
proof (induction X name ws n rule: index_windows.induct)
  case (1 X name n)
  show ?case by (simp add: typed.keeps_pure)
next
  case (2 X name lo hi ws n)
  have "keeps typed_moves (db_stmt X (\<lambda>w. (Inr (), audit_upsert X (map (audit_row_of X name) ls) w)))" for ls
    using 2(3)
    by (intro typed.keeps_db_stmt)
       (auto simp: typed_moves_def indexed_row_typed intro!: audit_upsert_typed)
  then show ?case
    unfolding index_windows.simps Let_def
    by (intro typed.keeps_intro) (use 2 in \<open>auto simp: Let_def\<close>)
qed

lemma sync_contract_typed:
  "conforms AuditContract (JStr name) \<Longrightarrow>
   keeps typed_moves (sync_contract X from_block cid lb latest name address)"
  unfolding sync_contract_def reset_cache_def detect_chain_reset_def resume_block_def Let_def
  by (intro typed.keeps_intro typed.keeps_db_stmt purge_typed windows_typed)
     (auto simp: typed_moves_def typed_cache_def)

lemma sync_contracts_typed:
  "\<forall>c \<in> set cs. conforms AuditContract (JStr (fst c)) \<Longrightarrow>
   keeps typed_moves (sync_contracts X from_block lb latest cs acc)"
  by (induction X from_block lb latest cs acc rule: sync_contracts.induct)
     (auto intro!: typed.keeps_intro sync_contract_typed)

lemma audit_sync_keeps_types: "keeps typed_moves (audit_sync_run X body)"
  unfolding audit_sync_run_def sync_events_def Let_def require_caller_def
  by (intro typed.keeps_intro sync_contracts_typed) (simp add: AuditContract_def)

lemma audit_page_typed:
  assumes "typed_cache w" and "audit_run X public q w = (Inr r, w')"
  shows "\<exists>j. request_outcome (wire r) = Inr j \<and> conforms AuditPage j"
proof -
  let ?rows = "audit_rows X q (audit_cache w)"
  have "set (pg_rows (page_of n ?rows)) \<subseteq> set (audit_cache w)" for n
    by (auto simp: page_rows audit_rows_def dest: in_set_takeD)
  with assms(1) have "conforms AuditEvent (audit_event_json e row)" if "row \<in> set (pg_rows (page_of n ?rows))" for e n row
    using that by (auto simp: typed_cache_def typed_row_def AuditEvent_def field_types audit_event_json_def split: option.splits)
  moreover obtain org explorer n where "r = ok_no_store (audit_page_json org explorer (page_of n ?rows))"
    using audit_run_ok[OF assms(2)] by metis
  ultimately show ?thesis
    by (simp add: request_outcome_ok AuditPage_def field_types audit_page_json_def)
qed

end
