(* ===== verification/TxErrors.thy ===== *)
theory TxErrors
  imports ClientApi Privacy
begin

text \<open>
  \<open>apps/platform/lib/tx-errors.ts\<close>: a failed transaction as a sentence, and the error fragments of
  \<open>lib/contracts.ts\<close> it explains.
\<close>

subsection \<open>Explanations\<close>

text \<open>\<open>String(value ?? "")\<close> of a decoded argument: an address is text, a number an integer.\<close>

definition value_text :: "log_arg option \<Rightarrow> string" where
  "value_text v = (case v of None \<Rightarrow> [] | Some (ArgText s) \<Rightarrow> s | Some (ArgInt i) \<Rightarrow> show_int i)"

definition short_address :: "string \<Rightarrow> string" where
  "short_address address = shorten_address 6 4 address"

definition arg_label :: "log_arg option \<Rightarrow> string" where
  "arg_label v = (if is_address (value_text v) then short_address (value_text v) else value_text v)"

definition nth_arg :: "log_arg list \<Rightarrow> nat \<Rightarrow> log_arg option" where
  "nth_arg args i = (if i < length args then Some (args ! i) else None)"

definition dash :: string where "dash = [CHR '' '', em_dash, CHR '' '']"

definition shared_explanations :: "(string \<times> (log_arg list \<Rightarrow> string)) list" where
  "shared_explanations =
    [(''MissingPermission'', \<lambda>_. ''Your role in this organisation does not carry the permission this needs. The contract checks it at the moment the transaction runs, so a role change made seconds ago counts.''),
     (''ZeroAddress'', \<lambda>_. ''That address is empty. A wallet address is required here.''),
     (''EmptyHash'', \<lambda>_. ''The record hash was empty, so there would be nothing to anchor.''),
     (''EmptyURI'', \<lambda>_. ''The metadata URI was empty. The certificate needs somewhere to point.''),
     (''IdentityNotActive'', \<lambda>args. arg_label (nth_arg args 0) @ '' has no active identity. A wallet must hold a live identity before it can be given a role or an asset'' @ dash @ ''which is what stops a roster filling up with addresses nobody controls.''),
     (''OrganizationSuspended'', \<lambda>_. ''This organisation is suspended, which freezes every permission inside it. Nothing can be changed until it is reinstated.''),
     (''OrganizationNotFound'', \<lambda>_. ''That organisation does not exist on this chain.'')]"

definition access_explanations :: "(string \<times> (log_arg list \<Rightarrow> string)) list" where
  "access_explanations =
    [(''AlreadyMember'', \<lambda>args. arg_label (nth_arg args 1) @ '' is already a member of this organisation. Change their role instead of adding them again.''),
     (''NotMember'', \<lambda>args. arg_label (nth_arg args 1) @ '' is not a member of this organisation, so there is no role to change.''),
     (''CannotTargetSelf'', \<lambda>_. ''You cannot aim this at your own membership. Nobody promotes or removes themselves here, including a full admin'' @ dash @ ''that is what makes a role something granted rather than taken.''),
     (''CannotModifyRootAdmin'', \<lambda>_. ''That wallet is the organisation's root admin, and its seat cannot be altered here. It moves only through transferOrgRootAdmin, which is what stops an organisation being orphaned.''),
     (''CannotDisableAdminGovernance'', \<lambda>_. ''An organisation cannot deny Admin the ability to manage members or assign roles. Allowing it would let one override lock the organisation out of its own governance with no way back.''),
     (''InvalidRole'', \<lambda>_. ''That is not one of the four roles this contract recognises.''),
     (''ExpiryInPast'', \<lambda>_. ''The expiry date has already passed. Access that lapses the moment it is granted is almost certainly not what was meant.''),
     (''ApplicationAlreadyRegistered'', \<lambda>_. ''An application with that slug is already registered for this organisation.''),
     (''ApplicationNotRegistered'', \<lambda>_. ''No application with that slug is registered for this organisation yet.'')]"

definition identity_explanations :: "(string \<times> (log_arg list \<Rightarrow> string)) list" where
  "identity_explanations =
    [(''IdentityAlreadyExists'', \<lambda>_. ''This wallet already has an identity on this chain. Update its record instead of registering again.''),
     (''IdentityNotFound'', \<lambda>_. ''This wallet has no identity registered yet.''),
     (''IdentityAlreadyActive'', \<lambda>_. ''That identity is already active.''),
     (''NotAuthorizedRegistrar'', \<lambda>_. ''Only a registrar may do that. Registering yourself is always allowed; registering somebody else is not.''),
     (''NotOrgRootAdmin'', \<lambda>_. ''Only the organisation's root admin may do that.'')]"

definition asset_explanations :: "(string \<times> (log_arg list \<Rightarrow> string)) list" where
  "asset_explanations =
    [(''TransfersLocked'', \<lambda>_. ''These certificates cannot be transferred wallet-to-wallet. That is deliberate: a company laptop is not a collectible, so only the organisation's permission-gated functions can move one.''),
     (''RecipientNotOrgMember'', \<lambda>args. arg_label (nth_arg args 1) @ '' is not a member of this organisation, so a certificate cannot be assigned to them.''),
     (''UnknownAsset'', \<lambda>_. ''There is no certificate with that token id.''),
     (''AssetInactive'', \<lambda>_. ''That certificate has been revoked, so this cannot be done to it.''),
     (''AssetAlreadyActive'', \<lambda>_. ''That certificate is already active.''),
     (''AlreadyAssignedTo'', \<lambda>args. ''That certificate is already held by '' @ arg_label (nth_arg args 0) @ ''.'')]"

definition EXPLANATIONS :: "(string \<times> (log_arg list \<Rightarrow> string)) list" where
  "EXPLANATIONS = shared_explanations @ access_explanations @ identity_explanations @ asset_explanations"

subsection \<open>decodeFailure\<close>

record decoded_failure =
  df_message :: string
  df_error_name :: "string option"
  df_rejected :: bool

definition USER_REJECTED :: int where "USER_REJECTED = 4001"

definition nested_code :: "thrown \<Rightarrow> int option" where
  "nested_code e = or_else (Option.bind (th_info e) ne_code) (Option.bind (th_nested e) ne_code)"

definition fallback_text :: "thrown \<Rightarrow> string option" where
  "fallback_text e =
    or_else (or_else (Option.bind (th_info e) ne_message) (Option.bind (th_nested e) ne_message))
      (or_else (th_short_message e) (or_else (th_reason e) (th_message e)))"

definition first_line :: "nat \<Rightarrow> string \<Rightarrow> string" where
  "first_line n s = take n (hd (split_on newline s))"

definition explain_revert :: "string \<Rightarrow> log_arg list \<Rightarrow> string" where
  "explain_revert name args =
    (case map_of EXPLANATIONS name of
       Some explain \<Rightarrow> explain args
     | None \<Rightarrow> ''The contract refused this with '' @ name @ ''.'')"

definition revert_name :: "thrown \<Rightarrow> string option" where
  "revert_name e = Option.bind (th_revert e) rv_name"

definition decode_failure :: "thrown \<Rightarrow> decoded_failure" where
  "decode_failure e =
    (if th_code e = Some (CodeText ''ACTION_REJECTED'') \<or> nested_code e = Some USER_REJECTED
     then \<lparr>df_message = ''You dismissed the request in your wallet. Nothing was sent.'', df_error_name = None, df_rejected = True\<rparr>
     else if truthy (revert_name e)
     then \<lparr>df_message = explain_revert (the (revert_name e)) (nullish (Option.bind (th_revert e) rv_args) []),
           df_error_name = revert_name e, df_rejected = False\<rparr>
     else if th_code e = Some (CodeText ''INSUFFICIENT_FUNDS'')
     then \<lparr>df_message = ''This wallet has no funds for gas on this network. On the local chain, import one of the funded Hardhat accounts.'',
           df_error_name = None, df_rejected = False\<rparr>
     else if th_code e = Some (CodeText ''NETWORK_ERROR'') \<or> th_code e = Some (CodeText ''SERVER_ERROR'')
     then \<lparr>df_message = ''The wallet could not reach the network. Check that the chain is running and that the wallet points at it.'',
           df_error_name = None, df_rejected = False\<rparr>
     else \<lparr>df_message = (if truthy (fallback_text e) then first_line 220 (the (fallback_text e))
                         else ''The transaction could not be completed.''),
           df_error_name = None, df_rejected = False\<rparr>)"

subsection \<open>The errors of the contracts (lib/contracts.ts)\<close>

text \<open>The error fragments of the three ABIs, and where the wallet is among their arguments.\<close>

definition identity_registry_errors :: "(string \<times> nat) list" where
  "identity_registry_errors =
    [(''ZeroAddress'', 0), (''EmptyHash'', 0), (''IdentityAlreadyExists'', 1), (''IdentityNotFound'', 1),
     (''IdentityNotActive'', 1), (''IdentityAlreadyActive'', 1), (''NotAuthorizedRegistrar'', 1),
     (''OrganizationNotFound'', 1), (''NotOrgRootAdmin'', 2)]"

definition org_access_manager_errors :: "(string \<times> nat) list" where
  "org_access_manager_errors =
    [(''ZeroAddress'', 0), (''EmptyHash'', 0), (''OrganizationNotFound'', 1), (''OrganizationSuspended'', 1),
     (''IdentityNotActive'', 1), (''InvalidRole'', 1), (''AlreadyMember'', 2), (''NotMember'', 2),
     (''MissingPermission'', 3), (''CannotTargetSelf'', 0), (''CannotModifyRootAdmin'', 1),
     (''CannotDisableAdminGovernance'', 0), (''ExpiryInPast'', 1), (''ApplicationNotRegistered'', 2),
     (''ApplicationAlreadyRegistered'', 2)]"

definition asset_nft_errors :: "(string \<times> nat) list" where
  "asset_nft_errors =
    [(''ZeroAddress'', 0), (''EmptyHash'', 0), (''EmptyURI'', 0), (''UnknownAsset'', 1), (''AssetInactive'', 1),
     (''AssetAlreadyActive'', 1), (''MissingPermission'', 3), (''RecipientNotOrgMember'', 2), (''TransfersLocked'', 1),
     (''AlreadyAssignedTo'', 1)]"

definition contract_errors :: "(string \<times> nat) list" where
  "contract_errors = identity_registry_errors @ org_access_manager_errors @ asset_nft_errors"

text \<open>\<open>expiryToUnix\<close>: the last second of the day, or 0 for a permanent role. \<open>x_date\<close> reads the local time.\<close>

definition expiry_to_unix :: "ext \<Rightarrow> string \<Rightarrow> int" where
  "expiry_to_unix X date =
    (if date = [] then 0
     else (case x_date X (date @ ''T23:59:59'') of None \<Rightarrow> 0 | Some ms \<Rightarrow> ms div 1000))"

subsection \<open>Lemmas\<close>

lemma explained_names:
  "map fst shared_explanations = [''MissingPermission'', ''ZeroAddress'', ''EmptyHash'', ''EmptyURI'', ''IdentityNotActive'',
     ''OrganizationSuspended'', ''OrganizationNotFound'']"
  "map fst access_explanations = [''AlreadyMember'', ''NotMember'', ''CannotTargetSelf'', ''CannotModifyRootAdmin'',
     ''CannotDisableAdminGovernance'', ''InvalidRole'', ''ExpiryInPast'', ''ApplicationAlreadyRegistered'', ''ApplicationNotRegistered'']"
  "map fst identity_explanations = [''IdentityAlreadyExists'', ''IdentityNotFound'', ''IdentityAlreadyActive'',
     ''NotAuthorizedRegistrar'', ''NotOrgRootAdmin'']"
  "map fst asset_explanations = [''TransfersLocked'', ''RecipientNotOrgMember'', ''UnknownAsset'', ''AssetInactive'',
     ''AssetAlreadyActive'', ''AlreadyAssignedTo'']"
  by (simp_all only: shared_explanations_def access_explanations_def identity_explanations_def asset_explanations_def
      list.map fst_conv)

lemma explained_keys:
  "fst ` set EXPLANATIONS = set (map fst shared_explanations @ map fst access_explanations
     @ map fst identity_explanations @ map fst asset_explanations)"
  by (simp add: EXPLANATIONS_def image_Un)

lemma contract_errors_explained:
  assumes "(name, n) \<in> set contract_errors"
  shows "\<exists>explain. map_of EXPLANATIONS name = Some explain"
proof -
  have "fst ` set contract_errors \<subseteq> fst ` set EXPLANATIONS"
    unfolding explained_keys explained_names
    by (simp add: contract_errors_def identity_registry_errors_def org_access_manager_errors_def asset_nft_errors_def)
  with assms have "name \<in> fst ` set EXPLANATIONS" by force
  then show ?thesis by (meson map_of_eq_None_iff not_None_eq)
qed

end
