(* ===== verification/WalletLib.thy ===== *)
theory WalletLib
  imports TxErrors
begin

text \<open>
  \<open>apps/platform/lib/wallet.ts\<close>: the chain the interface is built for, discovery of wallets
  (EIP-6963), the errors of an injected wallet, and switching its network. A provider is a value of
  type \<open>'p\<close>; what it answers to a request is an argument.
\<close>

subsection \<open>Discovery\<close>

record wallet_info =
  wi_uuid :: string
  wi_name :: string
  wi_icon :: string
  wi_rdns :: string

record 'p discovered =
  dw_info :: wallet_info
  dw_provider :: 'p

text \<open>An announcement, either half of which may be missing. The map is keyed by rdns; setting a key
  it has keeps the key's place.\<close>

record 'p announcement =
  an_info :: "wallet_info option"
  an_provider :: "'p option"

fun set_by_rdns :: "'p discovered \<Rightarrow> 'p discovered list \<Rightarrow> 'p discovered list" where
  "set_by_rdns d [] = [d]"
| "set_by_rdns d (e # es) =
     (if wi_rdns (dw_info e) = wi_rdns (dw_info d) then d # es else e # set_by_rdns d es)"

definition on_announce :: "'p announcement \<Rightarrow> 'p discovered list \<Rightarrow> 'p discovered list" where
  "on_announce a found =
    (case (an_info a, an_provider a) of
       (Some info, Some provider) \<Rightarrow>
         if wi_rdns info = [] then found
         else set_by_rdns \<lparr>dw_info = info, dw_provider = provider\<rparr> found
     | _ \<Rightarrow> found)"

definition legacy_wallet :: "'p option \<Rightarrow> 'p discovered option" where
  "legacy_wallet injected =
    map_option (\<lambda>provider.
      \<lparr>dw_info = \<lparr>wi_uuid = ''legacy-injected'', wi_name = ''Browser wallet'', wi_icon = [], wi_rdns = ''legacy.injected''\<rparr>,
       dw_provider = provider\<rparr>) injected"

subsection \<open>The chain of the deployment\<close>

definition DEFAULT_RPC_URLS :: "int \<Rightarrow> string option" where
  "DEFAULT_RPC_URLS i =
    (if i = 31337 then Some ''http://127.0.0.1:8545''
     else if i = 11155111 then Some ''https://rpc.sepolia.org'' else None)"

text \<open>\<open>cc_id\<close> is \<open>None\<close> when the variable is no number.\<close>

record chain_config =
  cc_id :: "int option"
  cc_name :: string
  cc_explorer :: "string option"
  cc_rpc_url :: "string option"

definition chain_config_of :: "ext \<Rightarrow> process_env \<Rightarrow> chain_config" where
  "chain_config_of X env =
    (let i = (case env ''NEXT_PUBLIC_CHAIN_ID'' of None \<Rightarrow> Some 31337 | Some s \<Rightarrow> x_number X s) in
     \<lparr>cc_id = i, cc_name = nullish (env ''NEXT_PUBLIC_CHAIN_NAME'') ''Hardhat Local'',
      cc_explorer = env ''NEXT_PUBLIC_EXPLORER_URL'',
      cc_rpc_url = or_else (env ''NEXT_PUBLIC_RPC_URL'') (Option.bind i DEFAULT_RPC_URLS)\<rparr>)"

definition hex_char :: "nat \<Rightarrow> char" where
  "hex_char d = (if d < 10 then char_of (48 + d) else char_of (87 + d))"

fun show_hex :: "nat \<Rightarrow> string" where
  "show_hex n = (if n < 16 then [hex_char n] else show_hex (n div 16) @ [hex_char (n mod 16)])"

declare show_hex.simps [simp del]

definition to_hex_chain_id :: "nat \<Rightarrow> string" where
  "to_hex_chain_id chain_id = ''0x'' @ show_hex chain_id"

text \<open>\<open>Number.parseInt(s, 16)\<close>: blanks, a sign, an optional 0x, then the longest run of digits;
  \<open>None\<close> for NaN.\<close>

definition hex_value :: "char \<Rightarrow> nat" where
  "hex_value c =
    (let u = code_unit c in if is_digit c then u - 48 else if 97 \<le> u then u - 87 else u - 55)"

definition strip_hex_prefix :: "string \<Rightarrow> string" where
  "strip_hex_prefix s = (if starts_with ''0x'' s \<or> starts_with ''0X'' s then drop 2 s else s)"

definition parse_hex_digits :: "string \<Rightarrow> nat option" where
  "parse_hex_digits s =
    (let ds = takeWhile is_hex_digit (strip_hex_prefix s) in
     if ds = [] then None else Some (foldl (\<lambda>a c. 16 * a + hex_value c) 0 ds))"

definition parse_int_16 :: "string \<Rightarrow> int option" where
  "parse_int_16 s =
    (case trim_start s of
       c # cs \<Rightarrow>
         if c = CHR ''-'' then map_option (\<lambda>n. - int n) (parse_hex_digits cs)
         else if c = CHR ''+'' then map_option int (parse_hex_digits cs)
         else map_option int (parse_hex_digits (c # cs))
     | [] \<Rightarrow> None)"

subsection \<open>Errors of an injected wallet\<close>

definition WALLET_USER_REJECTED :: int where "WALLET_USER_REJECTED = 4001"

definition WALLET_UNRECOGNISED_CHAIN :: int where "WALLET_UNRECOGNISED_CHAIN = 4902"

definition wallet_error_code :: "thrown \<Rightarrow> int option" where
  "wallet_error_code e = (case th_code e of Some (CodeNumber n) \<Rightarrow> Some n | _ \<Rightarrow> None)"

definition is_user_rejection :: "thrown \<Rightarrow> bool" where
  "is_user_rejection e = (wallet_error_code e = Some WALLET_USER_REJECTED)"

text \<open>\<open>/a.*b/i\<close> on a line: \<open>a\<close>, and \<open>b\<close> somewhere after it before a line terminator.\<close>

fun matches_in_order :: "string \<Rightarrow> string \<Rightarrow> string \<Rightarrow> bool" where
  "matches_in_order a b [] = False"
| "matches_in_order a b (c # cs) =
     (starts_with a (c # cs) \<and> text_includes b (takeWhile (\<lambda>x. code_unit x \<notin> {10, 13}) (drop (length a) (c # cs)))
      \<or> matches_in_order a b cs)"

definition wallet_error_message :: "thrown \<Rightarrow> string" where
  "wallet_error_message e =
    (if is_user_rejection e then ''Request was rejected in the wallet.''
     else if th_error e \<and> truthy (th_message e)
     then (let msg = first_line 160 (the (th_message e)); low = to_lower msg in
           if matches_in_order ''not support'' ''network'' low \<or> matches_in_order ''unsupported'' ''network'' low
           then ''This wallet does not support this network. If using Backpack, enable 'Developer Mode' under Settings > Preferences, or use MetaMask.''
           else msg)
     else ''The wallet could not complete the request.'')"

subsection \<open>Switching networks\<close>

datatype wallet_request = SwitchChain string | AddChain string string string

text \<open>What was asked of the provider, in order, and how it ended.\<close>

definition switch_chain ::
  "chain_config \<Rightarrow> nat \<Rightarrow> string \<Rightarrow> ('p \<Rightarrow> wallet_request \<Rightarrow> thrown + unit) \<Rightarrow> 'p option \<Rightarrow> 'p option
   \<Rightarrow> wallet_request list \<times> (thrown + unit)" where
  "switch_chain cfg chain_id chain_name ask target injected =
    (case or_else target injected of
       None \<Rightarrow> ([], Inl (plain_error ''No wallet found''))
     | Some provider \<Rightarrow>
       let switch = SwitchChain (to_hex_chain_id chain_id) in
       (case ask provider switch of
          Inr _ \<Rightarrow> ([switch], Inr ())
        | Inl e \<Rightarrow>
          if wallet_error_code e \<noteq> Some WALLET_UNRECOGNISED_CHAIN then ([switch], Inl e)
          else
            let rpc = (if Some (int chain_id) = cc_id cfg then cc_rpc_url cfg else DEFAULT_RPC_URLS (int chain_id)) in
            if \<not> truthy rpc
            then ([switch], Inl (plain_error (''No RPC URL configured for chain '' @ show_nat chain_id @ ''.'')))
            else
              let add = AddChain (to_hex_chain_id chain_id) chain_name (the rpc) in
              ([switch, add], ask provider add)))"

subsection \<open>Lemmas\<close>

lemma set_by_rdns_keys:
  "map (\<lambda>d. wi_rdns (dw_info d)) (set_by_rdns d ds) =
    (if wi_rdns (dw_info d) \<in> set (map (\<lambda>d. wi_rdns (dw_info d)) ds)
     then map (\<lambda>d. wi_rdns (dw_info d)) ds else map (\<lambda>d. wi_rdns (dw_info d)) ds @ [wi_rdns (dw_info d)])"
  by (induction ds) auto

lemma on_announce_distinct:
  assumes "distinct (map (\<lambda>d. wi_rdns (dw_info d)) found)"
  shows "distinct (map (\<lambda>d. wi_rdns (dw_info d)) (on_announce a found))"
  using assms by (auto simp: on_announce_def set_by_rdns_keys split: option.splits)

lemma hex_char_value: "d < 16 \<Longrightarrow> is_hex_digit (hex_char d) \<and> hex_value (hex_char d) = d"
  by (auto simp: hex_char_def hex_value_def is_hex_digit_def is_digit_def Let_def code_unit_char_of)

lemma show_hex_value:
  "list_all is_hex_digit (show_hex n) \<and> show_hex n \<noteq> [] \<and> foldl (\<lambda>a c. 16 * a + hex_value c) 0 (show_hex n) = n"
proof (induction n rule: show_hex.induct)
  case (1 n)
  show ?case
  proof (cases "n < 16")
    case True
    then show ?thesis by (subst (1 2 3) show_hex.simps) (simp add: hex_char_value)
  next
    case False
    with 1 show ?thesis
      by (subst (1 2 3) show_hex.simps) (simp add: hex_char_value)
  qed
qed

text \<open>What the wallet is asked to switch to is the number the interface compares with.\<close>

lemma parse_to_hex_chain_id: "parse_int_16 (to_hex_chain_id n) = Some (int n)"
proof -
  have all: "takeWhile is_hex_digit (show_hex n) = show_hex n"
    using show_hex_value[of n] by (simp add: list_all_iff takeWhile_eq_all_conv)
  have "trim_start (to_hex_chain_id n) = to_hex_chain_id n"
    by (simp add: trim_start_def to_hex_chain_id_def is_space_def code_unit_def)
  moreover have "strip_hex_prefix (to_hex_chain_id n) = show_hex n"
    by (simp add: strip_hex_prefix_def to_hex_chain_id_def starts_with_def)
  ultimately show ?thesis
    using show_hex_value[of n]
    by (simp add: parse_int_16_def parse_hex_digits_def to_hex_chain_id_def all del: takeWhile_eq_all_conv)
qed

end
