(* ===== verification/WalletSession.thy ===== *)
theory WalletSession
  imports WalletLib
begin

text \<open>
  \<open>components/wallet/wallet-provider.tsx\<close>: the wallet and session state of the interface. Each
  operation is a function of the state; the injected wallet and the server are arguments, the server
  one that answers calls and keeps a state of its own. An operation runs with its awaits answered in
  turn; what other events do meanwhile is their own transition.
\<close>

subsection \<open>State\<close>

datatype sign_in_stage = SI_idle | SI_connect | SI_challenge | SI_sign | SI_verify | SI_done | SI_error

datatype chain_ref = NoChain | ChainNaN | OnChain int

record 'p wallet_state =
  wst_address :: "string option"
  wst_chain :: chain_ref
  wst_ready :: bool
  wst_session :: "json option"
  wst_session_error :: "thrown option"
  wst_stage :: sign_in_stage
  wst_error :: "string option"
  wst_wallets :: "'p discovered list"
  wst_active :: "'p discovered option"

definition initial_wallet_state :: "'p wallet_state" where
  "initial_wallet_state =
    \<lparr>wst_address = None, wst_chain = NoChain, wst_ready = False, wst_session = None, wst_session_error = None,
     wst_stage = SI_idle, wst_error = None, wst_wallets = [], wst_active = None\<rparr>"

definition normalise_accounts :: "json \<Rightarrow> string list" where
  "normalise_accounts v =
    (case v of JArr vs \<Rightarrow> List.map_filter (\<lambda>x. case x of JStr s \<Rightarrow> Some s | _ \<Rightarrow> None) vs | _ \<Rightarrow> [])"

definition parse_chain_id :: "json \<Rightarrow> chain_ref" where
  "parse_chain_id v =
    (case v of
       JStr s \<Rightarrow> (case parse_int_16 s of None \<Rightarrow> ChainNaN | Some i \<Rightarrow> OnChain i)
     | _ \<Rightarrow> NoChain)"

text \<open>\<open>wrongChain\<close>: only meaningful once a chain is known.\<close>

definition off_chain :: "chain_config \<Rightarrow> chain_ref \<Rightarrow> bool" where
  "off_chain cfg chain =
    (case chain of NoChain \<Rightarrow> False | ChainNaN \<Rightarrow> True | OnChain i \<Rightarrow> Some i \<noteq> cc_id cfg)"

definition wrong_chain :: "chain_config \<Rightarrow> 'p wallet_state \<Rightarrow> bool" where
  "wrong_chain cfg st = off_chain cfg (wst_chain st)"

definition quote_char :: char where "quote_char = CHR 0x22"

definition describe_sign_in_error :: "chain_config \<Rightarrow> thrown \<Rightarrow> string" where
  "describe_sign_in_error cfg e =
    (case th_status e of
       None \<Rightarrow> wallet_error_message e
     | Some st \<Rightarrow>
       if th_code e = Some (CodeText ''NOT_CONFIGURED'')
       then ''The server is missing configuration. Check apps/platform/.env.local.''
       else if 500 \<le> st
       then ''The server could not reach '' @ cc_name cfg @ '' or the database. If you are running locally, start the chain with ''
            @ [quote_char] @ ''npm run dev:chain'' @ [quote_char] @ ''.''
       else if st = 401 then ''That signature was rejected. Try signing in again.''
       else nullish (th_message e) [])"

subsection \<open>Discovery and the session of a previous visit\<close>

definition some_list :: "'a option \<Rightarrow> 'a list" where
  "some_list v = (case v of None \<Rightarrow> [] | Some x \<Rightarrow> [x])"

definition on_discovered :: "'p option \<Rightarrow> 'p discovered list \<Rightarrow> 'p wallet_state \<Rightarrow> 'p wallet_state" where
  "on_discovered injected found st =
    st\<lparr>wst_wallets := (if found \<noteq> [] then found else some_list (legacy_wallet injected))\<rparr>"

text \<open>After 350 ms without an announcement.\<close>

definition on_settled :: "'p option \<Rightarrow> 'p wallet_state \<Rightarrow> 'p wallet_state" where
  "on_settled injected st =
    st\<lparr>wst_wallets := (if wst_wallets st \<noteq> [] then wst_wallets st else some_list (legacy_wallet injected)),
       wst_ready := True\<rparr>"

definition on_previous_session :: "bool \<Rightarrow> thrown + json option \<Rightarrow> 'p wallet_state \<Rightarrow> 'p wallet_state" where
  "on_previous_session cancelled outcome st =
    (if cancelled then st
     else (case outcome of
             Inr me \<Rightarrow> st\<lparr>wst_session := me, wst_session_error := None\<rparr>
           | Inl e \<Rightarrow> st\<lparr>wst_session_error := Some e\<rparr>))"

subsection \<open>The injected wallet\<close>

text \<open>What a provider answers: \<open>eth_accounts\<close>, \<open>eth_requestAccounts\<close>, \<open>eth_chainId\<close>, and
  \<open>getSigner().signMessage(text)\<close> of ethers on top of it.\<close>

record 'p injected =
  in_accounts :: "'p \<Rightarrow> thrown + json"
  in_request_accounts :: "'p \<Rightarrow> thrown + json"
  in_chain_id :: "'p \<Rightarrow> thrown + json"
  in_sign_message :: "'p \<Rightarrow> string \<Rightarrow> thrown + string"

definition or_null :: "thrown + json \<Rightarrow> json" where
  "or_null r = (case r of Inl _ \<Rightarrow> JNull | Inr v \<Rightarrow> v)"

definition read_chain :: "'p injected \<Rightarrow> 'p \<Rightarrow> 'p wallet_state \<Rightarrow> 'p wallet_state" where
  "read_chain W provider st = st\<lparr>wst_chain := parse_chain_id (or_null (in_chain_id W provider))\<rparr>"

text \<open>Silent reconnection: the first wallet that has already authorised this origin.\<close>

fun first_authorised :: "'p injected \<Rightarrow> 'p discovered list \<Rightarrow> ('p discovered \<times> string) option" where
  "first_authorised W [] = None"
| "first_authorised W (d # ds) =
     (case normalise_accounts (or_null (in_accounts W (dw_provider d))) of
        [] \<Rightarrow> first_authorised W ds
      | a # _ \<Rightarrow> Some (d, a))"

definition reconnect :: "'p injected \<Rightarrow> bool \<Rightarrow> 'p wallet_state \<Rightarrow> 'p wallet_state" where
  "reconnect W cancelled st =
    (if wst_wallets st = [] \<or> wst_active st \<noteq> None then st
     else (case first_authorised W (wst_wallets st) of
             None \<Rightarrow> st
           | Some (d, account) \<Rightarrow>
             if cancelled then st
             else read_chain W (dw_provider d) (st\<lparr>wst_active := Some d, wst_address := Some account\<rparr>)))"

text \<open>Events of the wallet in use. Another account re-reads the session.\<close>

definition on_accounts_changed :: "json \<Rightarrow> thrown + json option \<Rightarrow> 'p wallet_state \<Rightarrow> 'p wallet_state" where
  "on_accounts_changed v me st =
    st\<lparr>wst_address := (case normalise_accounts v of [] \<Rightarrow> None | a # _ \<Rightarrow> Some a),
       wst_session := (case me of Inl _ \<Rightarrow> None | Inr m \<Rightarrow> m)\<rparr>"

definition on_chain_changed :: "json \<Rightarrow> 'p wallet_state \<Rightarrow> 'p wallet_state" where
  "on_chain_changed v st = st\<lparr>wst_chain := parse_chain_id v\<rparr>"

subsection \<open>Signing in\<close>

type_synonym 's server = "api_call \<Rightarrow> 's \<Rightarrow> fetched_reply \<times> 's"

text \<open>\<open>returnTo\<close>: \<open>Some\<close> target to go to, or nothing; \<open>new URL\<close> may throw.\<close>

definition return_target :: "ext \<Rightarrow> string \<Rightarrow> string option \<Rightarrow> thrown + string option" where
  "return_target X origin return_to =
    (if truthy return_to \<and> starts_with ''/'' (the return_to) \<and> \<not> starts_with ''//'' (the return_to)
        \<and> \<not> starts_with [CHR ''/'', CHR 0x5C] (the return_to)
     then (case x_resolve_url X (the return_to) origin of
             None \<Rightarrow> Inl (plain_error ''Invalid URL'')
           | Some u \<Rightarrow> Inr (if u_pathname u = ''/authorize'' then return_to else None))
     else Inr None)"

definition failed_sign_in :: "chain_config \<Rightarrow> thrown \<Rightarrow> 'p wallet_state \<Rightarrow> 'p wallet_state" where
  "failed_sign_in cfg e st =
    st\<lparr>wst_error := Some (describe_sign_in_error cfg e),
       wst_stage := (if is_user_rejection e then SI_idle else SI_error)\<rparr>"

definition finish_sign_in ::
  "ext \<Rightarrow> chain_config \<Rightarrow> string \<Rightarrow> string option \<Rightarrow> json option \<Rightarrow> 'p wallet_state \<Rightarrow> 'p wallet_state \<times> string option" where
  "finish_sign_in X cfg origin return_to me st =
    (let st1 = st\<lparr>wst_session := me, wst_session_error := None, wst_stage := SI_done\<rparr> in
     case return_target X origin return_to of
       Inl e \<Rightarrow> (failed_sign_in cfg e st1, None)
     | Inr target \<Rightarrow> (st1, target))"

text \<open>Steps 2 to 4, for an account: challenge, signature, verification, then the session.\<close>

definition sign_in_account ::
  "ext \<Rightarrow> chain_config \<Rightarrow> 'p injected \<Rightarrow> 's server \<Rightarrow> string \<Rightarrow> string option \<Rightarrow> 'p \<Rightarrow> string
   \<Rightarrow> 'p wallet_state \<Rightarrow> 's \<Rightarrow> ('p wallet_state \<times> string option) \<times> 's" where
  "sign_in_account X cfg W server origin return_to provider account st s =
    (case server (request_challenge account) s of (fetched, s1) \<Rightarrow>
     case request_outcome fetched of
       Inl e \<Rightarrow> ((failed_sign_in cfg e st, None), s1)
     | Inr challenge \<Rightarrow>
       (case text_in challenge ''message'' of
          None \<Rightarrow> ((failed_sign_in cfg (plain_error ''invalid message'') st, None), s1)
        | Some message \<Rightarrow>
       (case in_sign_message W provider message of
          Inl e \<Rightarrow> ((failed_sign_in cfg e st, None), s1)
        | Inr signature \<Rightarrow>
          (case server (verify_signature message signature) s1 of (verified, s2) \<Rightarrow>
           case request_outcome verified of
             Inl e \<Rightarrow> ((failed_sign_in cfg e st, None), s2)
           | Inr _ \<Rightarrow>
             (case server (get_me_call None) s2 of (fetched_me, s3) \<Rightarrow>
              case get_me_outcome fetched_me of
                Inl e \<Rightarrow> ((failed_sign_in cfg e st, None), s3)
              | Inr me \<Rightarrow> (finish_sign_in X cfg origin return_to me st, s3))))))"

definition sign_in ::
  "ext \<Rightarrow> chain_config \<Rightarrow> 'p injected \<Rightarrow> 's server \<Rightarrow> string \<Rightarrow> string option \<Rightarrow> 'p discovered
   \<Rightarrow> 'p wallet_state \<Rightarrow> 's \<Rightarrow> ('p wallet_state \<times> string option) \<times> 's" where
  "sign_in X cfg W server origin return_to wallet st s =
    (let provider = dw_provider wallet; st1 = st\<lparr>wst_error := None, wst_active := Some wallet\<rparr> in
     case in_request_accounts W provider of
       Inl e \<Rightarrow> ((failed_sign_in cfg e st1, None), s)
     | Inr v \<Rightarrow>
       (case normalise_accounts v of
          [] \<Rightarrow> ((failed_sign_in cfg (plain_error ''Wallet returned no accounts'') st1, None), s)
        | account # _ \<Rightarrow>
          if account = [] then ((failed_sign_in cfg (plain_error ''Wallet returned no accounts'') st1, None), s)
          else sign_in_account X cfg W server origin return_to provider account
                 (read_chain W provider (st1\<lparr>wst_address := Some account\<rparr>)) s))"

subsection \<open>The other operations\<close>

definition sign_out :: "'s server \<Rightarrow> 'p wallet_state \<Rightarrow> 's \<Rightarrow> 'p wallet_state \<times> 's" where
  "sign_out server st s =
    (case server sign_out_call s of (_, s1) \<Rightarrow>
      (st\<lparr>wst_session := None, wst_session_error := None, wst_stage := SI_idle, wst_error := None\<rparr>, s1))"

definition fix_chain ::
  "chain_config \<Rightarrow> 'p injected \<Rightarrow> ('p \<Rightarrow> wallet_request \<Rightarrow> thrown + unit) \<Rightarrow> 'p option \<Rightarrow> 'p wallet_state \<Rightarrow> 'p wallet_state" where
  "fix_chain cfg W ask injected st =
    (let chain_id = nat (nullish (cc_id cfg) 0) in
     case snd (switch_chain cfg chain_id (cc_name cfg) ask (map_option dw_provider (wst_active st)) injected) of
       Inl e \<Rightarrow> st\<lparr>wst_error := Some (wallet_error_message e)\<rparr>
     | Inr _ \<Rightarrow> (case wst_active st of None \<Rightarrow> st | Some d \<Rightarrow> read_chain W (dw_provider d) st))"

definition refresh_session :: "'s server \<Rightarrow> int option \<Rightarrow> 'p wallet_state \<Rightarrow> 's \<Rightarrow> 'p wallet_state \<times> 's" where
  "refresh_session server org_id st s =
    (case server (get_me_call org_id) s of (fetched, s1) \<Rightarrow>
      (case get_me_outcome fetched of
         Inr me \<Rightarrow> (st\<lparr>wst_session := me, wst_session_error := None\<rparr>, s1)
       | Inl e \<Rightarrow> (st\<lparr>wst_session_error := Some e, wst_session := None\<rparr>, s1)))"

definition dismiss_error :: "'p wallet_state \<Rightarrow> 'p wallet_state" where
  "dismiss_error st = st\<lparr>wst_error := None, wst_stage := SI_idle\<rparr>"

end
