(* ===== verification/SignInProps.thy ===== *)
theory SignInProps
  imports WalletSession OrgRoutes SiweProps
begin

text \<open>
  The sign-in of the interface against the routes of the server: the wallet provider, the API
  client, the challenge and verification routes, the session and the identity route composed. Also
  what the check of \<open>returnTo\<close> lets through.
\<close>

subsection \<open>The server the interface talks to\<close>

definition call_json :: "api_call \<Rightarrow> json option" where
  "call_json call = (case ac_body call of JsonBodyOf j \<Rightarrow> Some j | _ \<Rightarrow> None)"

text \<open>The routes that signing in uses; any other path is not found.\<close>

definition platform_server :: "ext \<Rightarrow> world server" where
  "platform_server X call w =
    (let (r, w') =
       (if ac_method call = ''POST'' \<and> ac_path call = ''/api/auth/nonce'' then nonce_post X (call_json call) w
        else if ac_method call = ''POST'' \<and> ac_path call = ''/api/auth/verify'' then verify_post X (call_json call) w
        else if ac_method call = ''POST'' \<and> ac_path call = ''/api/auth/logout'' then logout_post w
        else if ac_method call = ''GET'' \<and> ac_path call = ''/api/identity/me'' then identity_me_get X None w
        else (json_response 404 JNull, w))
     in (wire r, w'))"

lemma platform_calls:
  "platform_server X (request_challenge a) w = (case nonce_post X (Some (JObj [(''wallet'', JStr a)])) w of (r, w') \<Rightarrow> (wire r, w'))"
  "platform_server X (verify_signature m sig) w =
    (case verify_post X (Some (JObj [(''message'', JStr m), (''signature'', JStr sig)])) w of (r, w') \<Rightarrow> (wire r, w'))"
  "platform_server X (get_me_call None) w = (case identity_me_get X None w of (r, w') \<Rightarrow> (wire r, w'))"
  by (auto simp: platform_server_def request_challenge_def verify_signature_def get_me_call_def post_call_def get_call_def
      call_json_def split: prod.splits)

lemma request_outcome_Inr:
  assumes "request_outcome (wire r) = Inr j"
  shows "200 \<le> status r \<and> status r < 300"
  using assms by (auto simp: request_outcome_def wire_def Let_def split: body.splits if_splits)

subsection \<open>A verification the client takes for a success\<close>

lemma consume_nonce_loud: "fails_loudly (consume_nonce X nonce address)"
  unfolding consume_nonce_def by (intro loud_intro)

lemma verify_challenge_loud: "fails_loudly (verify_challenge X message signature)"
  unfolding verify_challenge_def by (intro loud_intro consume_nonce_loud) (simp add: error_response_status)

lemma verify_answer_cookie:
  assumes "verify_post X (Some b) w = (resp, w')" and "status resp < 400"
  shows "\<exists>a w1 c. verify_challenge X (text_of (obj_get b ''message'')) (text_of (obj_get b ''signature'')) w = (Inr (Inr a), w1)
    \<and> cookie w' = \<lparr>sd_wallet = Some a, sd_chain_id = c, sd_issued_at = Some (clock w1 div 1000)\<rparr> \<and> clock w' = clock w1"
proof -
  from assms(1) consider (ok) "verify_run X (Some b) w = (Inr resp, w')"
    | (thrown) e where "verify_run X (Some b) w = (Inl e, w')" "resp = error_response e"
    by (auto simp: verify_post_def handler_iff)
  then obtain r where run: "verify_run X (Some b) w = (r, w')" and loud: "\<And>e. r = Inl e \<Longrightarrow> status (error_response e) < 400"
    using assms(2) by cases auto
  let ?v = "verify_challenge X (text_of (obj_get b ''message'')) (text_of (obj_get b ''signature''))"
  let ?after = "\<lambda>wallet. seq (asks (\<lambda>w. read_identity X w wallet)) (\<lambda>identity.
      seq (asks (\<lambda>w. read_memberships X w wallet)) (\<lambda>memberships.
      seq (select_one X (\<lambda>w. filter (\<lambda>r. pf_wallet r = normalize_address wallet) (profiles w))) (\<lambda>profile.
        ret (ok_no_store (JObj
          [(''wallet'', JStr wallet), (''identity'', identity_summary_json identity),
           (''memberships'', JArr (map membership_entry_json memberships)),
           (''profile'', profile_summary_json (case profile of Inl _ \<Rightarrow> None | Inr p \<Rightarrow> p)),
           (''next'', JStr (Siwe.next_step identity memberships))])))))"
  have reads: "reads_only (?after a)" for a by (intro query_intro)
  have issues: "verify_body_issues X b = []"
    using run loud by (auto simp: verify_run_def seq_def read_json_def ret_def lift_res_def zod_def error_response_status
        error_response_def json_response_def split: if_splits)
  have run': "seq ?v (\<lambda>result. case result of
      Inl why \<Rightarrow> throw (ApiError 401 why (Some ''SIGNATURE_REJECTED''))
    | Inr wallet \<Rightarrow> seq (server_env_io X) (\<lambda>env. seq (create_session wallet (CHAIN_ID env)) (\<lambda>_. ?after wallet))) w = (r, w')"
    using run issues by (simp add: verify_run_def seq_def read_json_def ret_def lift_res_def zod_def)
  from run' obtain v w1 where v: "?v w = (v, w1)" by (cases "?v w")
  show ?thesis
  proof (cases v)
    case (Inl e)
    with v run' have "r = Inl e" by (simp add: seq_def)
    with loud fails_loudlyD[OF verify_challenge_loud v[unfolded Inl]] show ?thesis by fastforce
  next
    case (Inr result)
    show ?thesis
    proof (cases result)
      case (Inl why)
      with Inr v run' have "r = Inl (ApiError 401 why (Some ''SIGNATURE_REJECTED''))" by (simp add: seq_def throw_def)
      with loud show ?thesis by (fastforce simp: error_response_def json_response_def)
    next
      case (Inr a)
      with \<open>v = Inr result\<close> v run' have rest: "seq (server_env_io X) (\<lambda>env. seq (create_session a (CHAIN_ID env)) (\<lambda>_. ?after a)) w1 = (r, w')"
        by (simp add: seq_def)
      obtain env where env: "server_env_of X (penv w1) = Inr env"
      proof (cases "server_env_of X (penv w1)")
        case (Inl e)
        with rest have "r = Inl e" by (simp add: seq_def server_env_io_def)
        with loud server_env_of_error[OF Inl] show ?thesis by (fastforce simp: error_response_status)
      qed (use that in blast)
      let ?w2 = "w1\<lparr>cookie := \<lparr>sd_wallet = Some a, sd_chain_id = Some (CHAIN_ID env), sd_issued_at = Some (clock w1 div 1000)\<rparr>\<rparr>"
      from rest env have "?after a ?w2 = (r, w')"
        by (simp add: seq_def server_env_io_def create_session_def update_world_def)
      from reads_onlyD[OF reads this] obtain n where "w' = ?w2\<lparr>db_calls := n\<rparr>" by blast
      with v Inr \<open>v = Inr result\<close> show ?thesis by auto
    qed
  qed
qed

lemma error_has_no_wallet: "obj_get (case resp_body (error_response e) of JsonBody j \<Rightarrow> j | _ \<Rightarrow> JNull) ''wallet'' = None"
  by (cases e) (auto simp: error_response_def json_response_def error_json_def split: option.splits)

lemma identity_me_shows_session:
  assumes "identity_me_get X q w = (r, w')" and "request_outcome (wire r) = Inr me"
    and "obj_get me ''wallet'' = Some (JStr a)"
  shows "session_wallet w = Some a \<and> (\<exists>n. w' = w\<lparr>db_calls := n\<rparr>)"
proof -
  have reads: "reads_only (identity_me_run X q)"
    unfolding identity_me_run_def require_caller_def own_profile_def Let_def by (intro query_intro)
  from assms(1) consider (ok) "identity_me_run X q w = (Inr r, w')"
    | (thrown) e where "identity_me_run X q w = (Inl e, w')" "r = error_response e"
    by (auto simp: identity_me_get_def handler_iff)
  then show ?thesis
  proof cases
    case ok
    then obtain wallet rest where s: "session_wallet w = Some wallet" and r: "r = ok_no_store (JObj ((''wallet'', JStr wallet) # rest))"
      by (auto simp: identity_me_run_def io_iff Let_def me_json_def)
    with assms(2,3) have "wallet = a" by (auto simp: request_outcome_ok)
    with s reads_onlyD[OF reads ok] show ?thesis by simp
  next
    case thrown
    have "me = (case resp_body r of JsonBody j \<Rightarrow> j | _ \<Rightarrow> JNull)"
      using assms(2) by (auto simp: request_outcome_def wire_def Let_def split: body.splits if_splits)
    with error_has_no_wallet[of e] thrown assms(3) show ?thesis by simp
  qed
qed

subsection \<open>A completed sign-in\<close>

lemma failed_sign_in_not_done: "wst_stage (failed_sign_in cfg e st) \<noteq> SI_done"
  by (simp add: failed_sign_in_def)

lemma finish_sign_in_done:
  assumes "finish_sign_in X cfg origin rt me st = (st', go)" and "wst_stage st' = SI_done"
  shows "wst_session st' = me" and "wst_address st' = wst_address st" and "return_target X origin rt = Inr go"
  using assms failed_sign_in_not_done
  by (auto simp: finish_sign_in_def Let_def split: sum.splits)

lemma sign_in_account_done:
  assumes "sign_in_account X cfg W server origin rt provider account st s = ((st', go), s')" and "wst_stage st' = SI_done"
  shows "\<exists>fetched s1 challenge message signature verified s2 v fetched_me me.
    server (request_challenge account) s = (fetched, s1) \<and> request_outcome fetched = Inr challenge
    \<and> text_in challenge ''message'' = Some message \<and> in_sign_message W provider message = Inr signature
    \<and> server (verify_signature message signature) s1 = (verified, s2) \<and> request_outcome verified = Inr v
    \<and> server (get_me_call None) s2 = (fetched_me, s') \<and> get_me_outcome fetched_me = Inr me
    \<and> finish_sign_in X cfg origin rt me st = (st', go)"
  using assms failed_sign_in_not_done unfolding sign_in_account_def
  by (auto split: prod.splits sum.splits option.splits)

lemma get_me_outcome_Some:
  assumes "get_me_outcome fetched = Inr (Some me)"
  shows "request_outcome fetched = Inr me"
  using assms by (auto simp: get_me_outcome_def split: sum.splits if_splits)

text \<open>C28. A completed sign-in shows the wallet that signed: when the interface ends in its \<open>done\<close> stage
  with a session for wallet \<open>a\<close>, run against the server's own routes, then the message the wallet was
  asked to sign is the one the server had just issued for the account the wallet named, the signature
  over that message recovers to \<open>a\<close>, and the cookie the server keeps is for \<open>a\<close>.\<close>

theorem completed_sign_in_shows_the_signer:
  assumes "sign_in X cfg W (platform_server X) origin rt d st w = ((st', go), w')"
    and "wst_stage st' = SI_done" and "wst_session st' = Some me" and "obj_get me ''wallet'' = Some (JStr a)"
  shows "\<exists>account challenge w1 j message signature recovered.
    wst_address st' = Some account
    \<and> nonce_post X (Some (JObj [(''wallet'', JStr account)])) w = (challenge, w1)
    \<and> resp_body challenge = JsonBody j \<and> obj_get j ''message'' = Some (JStr message)
    \<and> in_sign_message W (dw_provider d) message = Inr signature
    \<and> x_verify_message X message signature = Some recovered \<and> x_get_address X recovered = Some a
    \<and> session_wallet w' = Some a"
proof -
  from assms(1,2) obtain v account rest where acc: "in_request_accounts W (dw_provider d) = Inr v"
    "normalise_accounts v = account # rest" "account \<noteq> []"
    by (auto simp: sign_in_def Let_def failed_sign_in_not_done split: sum.splits list.splits if_splits)
  let ?st = "read_chain W (dw_provider d) (st\<lparr>wst_error := None, wst_active := Some d, wst_address := Some account\<rparr>)"
  have run: "sign_in_account X cfg W (platform_server X) origin rt (dw_provider d) account ?st w = ((st', go), w')"
    using assms(1) acc by (simp add: sign_in_def Let_def)
  from sign_in_account_done[OF run assms(2)] obtain fetched w1 challenge message signature verified w2 u fetched_me shown where
    c: "platform_server X (request_challenge account) w = (fetched, w1)" "request_outcome fetched = Inr challenge"
      "text_in challenge ''message'' = Some message" "in_sign_message W (dw_provider d) message = Inr signature" and
    vf: "platform_server X (verify_signature message signature) w1 = (verified, w2)" "request_outcome verified = Inr u" and
    g: "platform_server X (get_me_call None) w2 = (fetched_me, w')" "get_me_outcome fetched_me = Inr shown" and
    fin: "finish_sign_in X cfg origin rt shown ?st = (st', go)" by blast
  from finish_sign_in_done[OF fin assms(2)] assms(3) have shown: "shown = Some me" and addr: "wst_address st' = Some account"
    by (simp_all add: read_chain_def)
  from c(1) obtain r1 where r1: "nonce_post X (Some (JObj [(''wallet'', JStr account)])) w = (r1, w1)" "fetched = wire r1"
    by (auto simp: platform_calls split: prod.splits)
  with c(2,3) obtain j where j: "resp_body r1 = JsonBody j" "obj_get j ''message'' = Some (JStr message)"
    by (auto simp: request_outcome_def wire_def Let_def text_in_def split: body.splits if_splits option.splits json.splits)
  from vf(1) obtain r2 where r2: "verify_post X (Some (JObj [(''message'', JStr message), (''signature'', JStr signature)])) w1 = (r2, w2)"
    "verified = wire r2" by (auto simp: platform_calls split: prod.splits)
  from request_outcome_Inr[of r2] vf(2) r2(2) have "status r2 < 400" by auto
  from verify_answer_cookie[OF r2(1) this] obtain b wv cid where
    b: "verify_challenge X message signature w1 = (Inr (Inr b), wv)" and
    ck: "cookie w2 = \<lparr>sd_wallet = Some b, sd_chain_id = cid, sd_issued_at = Some (clock wv div 1000)\<rparr>"
    by (auto simp: text_of_def)
  from g(1) obtain r3 where r3: "identity_me_get X None w2 = (r3, w')" "fetched_me = wire r3"
    by (auto simp: platform_calls split: prod.splits)
  from identity_me_shows_session[OF r3(1) _ assms(4)] get_me_outcome_Some[of fetched_me me] g(2) shown r3(2)
  obtain n where s: "session_wallet w2 = Some a" "w' = w2\<lparr>db_calls := n\<rparr>" by auto
  then have "b = a" using ck by (auto simp: session_wallet_def Let_def split: if_splits)
  with b obtain recovered where "x_verify_message X message signature = Some recovered" "x_get_address X recovered = Some a"
    by (blast elim: verify_accepts)
  with addr r1(1) j c(4) s show ?thesis by auto
qed

subsection \<open>A sign-in on the concrete deployment\<close>

definition demo_nonce :: string where "demo_nonce = x_hex demo_ext (x_random demo_ext 4 16)"

definition demo_issued :: "int siwe_fields" where
  "demo_issued = demo_challenge\<lparr>sf_nonce := demo_nonce, sf_issued_at := show_int 1950000, sf_expiration := show_int 2250000\<rparr>"

definition demo_issued_row :: nonce_row where
  "demo_issued_row =
    \<lparr>n_nonce = demo_nonce, n_wallet = demo_wallet, n_domain = ''ownex.example'',
     n_issued_at = 1950000, n_expires_at = 2250000, n_used_at = None\<rparr>"

definition demo_browser_chain :: chain_config where
  "demo_browser_chain = \<lparr>cc_id = Some 7, cc_name = ''Test'', cc_explorer = None, cc_rpc_url = None\<rparr>"

definition demo_injected :: "nat injected" where
  "demo_injected =
    \<lparr>in_accounts = (\<lambda>_. Inr (JArr [])), in_request_accounts = (\<lambda>_. Inr (JArr [JStr demo_wallet])),
     in_chain_id = (\<lambda>_. Inr (JStr ''0x7'')), in_sign_message = (\<lambda>_ m. Inr demo_wallet)\<rparr>"

lemma demo_nonce_text: "demo_nonce \<noteq> []" "newline \<notin> set demo_nonce" "trim demo_nonce = demo_nonce"
proof -
  have l: "list_all is_lower demo_nonce"
    by (simp add: demo_nonce_def demo_ext_def nib_encode_lower)
  show ne: "demo_nonce \<noteq> []" by (simp add: demo_nonce_def demo_ext_def nib_encode_Nil_iff)
  show "newline \<notin> set demo_nonce"
    using l by (auto simp: list_all_iff is_lower_def newline_def code_unit_def)
  have no: "\<not> is_space c" if "c \<in> set demo_nonce" for c
    using that l by (auto simp: list_all_iff is_lower_def is_space_def)
  show "trim demo_nonce = demo_nonce" using no ne by (intro trim_no_space) auto
qed

lemma show_int_text: "newline \<notin> set (show_int i)" "trim (show_int i) = show_int i"
proof -
  show "newline \<notin> set (show_int i)"
    using show_int_chars[of newline i] by (auto simp: is_digit_def code_unit_def newline_def)
  show "trim (show_int i) = show_int i"
    by (intro trim_no_space) (metis hd_in_set last_in_set show_int_no_space show_int_not_Nil)
qed

lemma demo_issued_wf: "siwe_wf demo_issued"
  using demo_challenge_wf demo_nonce_text show_int_text
  by (simp add: demo_issued_def siwe_wf_def)

lemma demo_signing_parts:
  "penv demo_world = demo_env" "db_fault demo_world = (\<lambda>_. None)" "clock demo_world = 1950000" "draws demo_world = 4"
  "nonces demo_world = []" "db_calls demo_world = 0" "chain_now demo_world = demo_chain" "profiles demo_world = []"
  by (simp_all add: demo_world_def)

lemma demo_primitives: "x_get_address demo_ext = (\<lambda>a. if is_address a then Some a else None)"
  "x_verify_message demo_ext = (\<lambda>m sig. Some sig)" "x_iso demo_ext = show_int" "x_date demo_ext = demo_number"
  by (simp_all add: demo_ext_def)

lemma demo_nonce_issued:
  "nonce_post demo_ext (Some (JObj [(''wallet'', JStr demo_wallet)])) demo_world =
    (ok_no_store (JObj [(''nonce'', JStr demo_nonce), (''message'', JStr (build_siwe_message demo_issued)),
        (''expiresAt'', JStr (show_int 2250000)), (''gasRequired'', JBool False)]),
     demo_world\<lparr>draws := 5, db_calls := 1, nonces := [demo_issued_row]\<rparr>)"
proof -
  have issues: "nonce_body_issues demo_ext (JObj [(''wallet'', JStr demo_wallet)]) = []"
    by (simp add: nonce_body_issues_def is_object_def regex_field_def demo_wallet_address)
  have msg: "build_siwe_message
      \<lparr>sf_domain = ''ownex.example'', sf_address = demo_wallet, sf_statement = STATEMENT, sf_uri = ''https://ownex.example'',
       sf_chain_id = 7, sf_nonce = demo_nonce, sf_issued_at = show_int 1950000, sf_expiration = show_int 2250000\<rparr>
      = build_siwe_message demo_issued"
    by (simp add: demo_issued_def demo_challenge_def demo_siwe_def)
  show ?thesis
    by (simp add: nonce_post_def handler_def nonce_run_def seq_def read_json_def ret_def lift_res_def zod_def issues
          issue_challenge_def server_env_io_def demo_signing_parts demo_env_ok demo_primitives demo_wallet_address text_of_def
          draw_def gets_def Let_def NONCE_TTL_SECONDS_def demo_db_stmt nonces_insert_def demo_server_env_def msg
          demo_nonce_def[symmetric] normalize_address_def)
       (simp add: demo_issued_row_def msg)
qed

definition demo_w1 :: world where
  "demo_w1 = demo_world\<lparr>draws := 5, db_calls := 1, nonces := [demo_issued_row]\<rparr>"

lemma demo_w1_parts:
  "penv demo_w1 = demo_env" "db_fault demo_w1 = (\<lambda>_. None)" "clock demo_w1 = 1950000" "nonces demo_w1 = [demo_issued_row]"
  "db_calls demo_w1 = 1" "chain_now demo_w1 = demo_chain" "profiles demo_w1 = []"
  by (simp_all add: demo_w1_def demo_signing_parts)

lemma demo_issued_verified:
  "verify_challenge demo_ext (build_siwe_message demo_issued) demo_wallet demo_w1 =
     (Inr (Inr demo_wallet), demo_w1\<lparr>db_calls := 3, nonces := [demo_issued_row\<lparr>n_used_at := Some 1950000\<rparr>]\<rparr>)"
proof -
  let ?p = "\<lparr>sf_domain = ''ownex.example'', sf_address = demo_wallet, sf_statement = STATEMENT,
     sf_uri = ''https://ownex.example'', sf_chain_id = Some 7, sf_nonce = demo_nonce,
     sf_issued_at = show_int 1950000, sf_expiration = show_int 2250000\<rparr>"
  have parse: "parse_siwe_message demo_ext (build_siwe_message demo_issued) = Some ?p"
    using parse_build[OF demo_issued_wf demo_ext_laws(1)] by (simp add: demo_issued_def demo_challenge_def demo_siwe_def)
  have fields: "check_siwe_fields demo_ext demo_server_env 1950000 (build_siwe_message demo_issued) = Inr (?p, demo_wallet)"
    by (simp add: check_siwe_fields_def parse demo_primitives demo_number_show_int demo_wallet_address demo_server_env_def)
  have row: "check_nonce_row demo_server_env 1950000 (build_siwe_message demo_issued) ?p demo_wallet demo_issued_row = None"
    by (simp add: check_nonce_row_def demo_issued_row_def normalize_address_def demo_wallet_address expected_message_def
          demo_server_env_def demo_issued_def demo_challenge_def demo_siwe_def)
  show ?thesis
    by (simp add: verify_challenge_def seq_def server_env_io_def gets_def demo_w1_parts demo_env_ok fields select_one_def
          demo_db_stmt row demo_primitives demo_wallet_address consume_nonce_def nonces_consume_def ret_def update_where_def)
       (simp add: demo_issued_row_def row[unfolded demo_issued_row_def] demo_wallet_address)
qed

definition demo_w2 :: world where
  "demo_w2 = demo_w1\<lparr>nonces := [demo_issued_row\<lparr>n_used_at := Some 1950000\<rparr>], db_calls := 4,
     cookie := \<lparr>sd_wallet = Some demo_wallet, sd_chain_id = Some 7, sd_issued_at = Some 1950\<rparr>\<rparr>"

lemma demo_reads:
  assumes "penv w = demo_env" and "chain_now w = demo_chain"
  shows "\<exists>i. read_identity demo_ext w demo_wallet = Inr i" "\<exists>ms. read_memberships demo_ext w demo_wallet = Inr ms"
    "\<exists>ps. read_permissions_for demo_ext w 1 demo_wallet = Inr ps"
proof -
  show "\<exists>i. read_identity demo_ext w demo_wallet = Inr i"
    using assms by (simp add: read_identity_def demo_contracts) (simp add: demo_chain_def)
  have role: "read_effective_role demo_ext w 1 demo_wallet = Inr USER"
    using assms by (simp add: read_effective_role_def demo_contracts) (simp add: demo_chain_def demo_roles)
  have "\<exists>o'. read_organization demo_ext w 1 = Inr o'"
    using assms by (simp add: read_organization_def demo_contracts) (simp add: demo_chain_def)
  then have "\<exists>m. read_membership_entry demo_ext w demo_wallet 1 = Inr m"
    by (elim exE) (simp add: read_membership_entry_def role)
  then show "\<exists>ms. read_memberships demo_ext w demo_wallet = Inr ms"
    using assms by (elim exE) (simp add: read_memberships_def demo_contracts, simp add: demo_chain_def)
  show "\<exists>ps. read_permissions_for demo_ext w 1 demo_wallet = Inr ps"
    using assms
    by (simp add: read_permissions_for_def read_has_permission_def demo_contracts PERMISSION_LIST_def) (simp add: demo_chain_def)
qed

lemma demo_verified_answer:
  "\<exists>j. verify_post demo_ext (Some (JObj [(''message'', JStr (build_siwe_message demo_issued)), (''signature'', JStr demo_wallet)])) demo_w1
     = (ok_no_store j, demo_w2)"
proof -
  have len: "50 \<le> length (build_siwe_message demo_issued)"
  proof -
    have "50 \<le> length (sf_domain demo_issued @ SIGN_IN_SUFFIX)"
      by (simp add: demo_issued_def demo_challenge_def demo_siwe_def SIGN_IN_SUFFIX_def)
    then show ?thesis by (simp add: build_siwe_message_def siwe_lines_def)
  qed
  have sig: "is_hex_text demo_wallet"
    using demo_wallet_address(1) by (auto simp: is_hex_text_def is_hex_string_def)
  have issues: "verify_body_issues demo_ext (JObj [(''message'', JStr (build_siwe_message demo_issued)), (''signature'', JStr demo_wallet)]) = []"
    by (simp add: verify_body_issues_def is_object_def regex_field_def len sig)
  let ?w = "demo_w1\<lparr>db_calls := 3, nonces := [demo_issued_row\<lparr>n_used_at := Some 1950000\<rparr>],
     cookie := \<lparr>sd_wallet = Some demo_wallet, sd_chain_id = Some 7, sd_issued_at = Some 1950\<rparr>\<rparr>"
  obtain i where i: "read_identity demo_ext ?w demo_wallet = Inr i"
    using demo_reads(1)[of ?w] by (auto simp: demo_w1_parts)
  obtain ms where ms: "read_memberships demo_ext ?w demo_wallet = Inr ms"
    using demo_reads(2)[of ?w] by (auto simp: demo_w1_parts)
  show ?thesis
    by (simp add: verify_post_def handler_def verify_run_def seq_def read_json_def ret_def lift_res_def zod_def issues text_of_def
          demo_issued_verified server_env_io_def demo_w1_parts demo_env_ok create_session_def update_world_def asks_def
          demo_server_env_def i ms select_one_def demo_db_stmt)
       (auto simp: demo_w2_def)
qed

lemma demo_me_answer:
  "\<exists>me w3. identity_me_get demo_ext None demo_w2 = (ok_no_store me, w3) \<and> obj_get me ''wallet'' = Some (JStr demo_wallet)"
proof -
  have parts: "penv demo_w2 = demo_env" "chain_now demo_w2 = demo_chain" "db_fault demo_w2 = (\<lambda>_. None)" "profiles demo_w2 = []"
    by (simp_all add: demo_w2_def demo_w1_parts)
  have s: "session_wallet demo_w2 = Some demo_wallet"
    by (simp add: session_wallet_def demo_w2_def demo_w1_parts SESSION_TTL_SECONDS_def demo_wallet_def demo_address_def)
  then have caller: "require_caller demo_w2 = (Inr demo_wallet, demo_w2)" by (simp add: require_caller_iff)
  obtain i where i: "read_identity demo_ext demo_w2 demo_wallet = Inr i" using demo_reads(1) parts by blast
  obtain ms where ms: "read_memberships demo_ext demo_w2 demo_wallet = Inr ms" using demo_reads(2) parts by blast
  have "\<exists>ps. permissions_in demo_ext demo_w2 demo_wallet ms (active_org_of demo_ext None ms) = Inr ps"
  proof -
    have "me_org_id m = 1" if "m \<in> set ms" for m
      using ms that parts
      by (auto simp: read_memberships_def demo_contracts res_iff demo_chain_def List.map_filter_def read_membership_entry_def
            list_all2_Cons1 split: if_splits option.splits)
    moreover obtain ps where "read_permissions_for demo_ext demo_w2 1 demo_wallet = Inr ps" using demo_reads(3) parts by blast
    ultimately show ?thesis by (cases ms) (auto simp: permissions_in_def active_org_of_def)
  qed
  then obtain ps where ps: "permissions_in demo_ext demo_w2 demo_wallet ms (active_org_of demo_ext None ms) = Inr ps" by blast
  show ?thesis
    by (simp add: identity_me_get_def handler_def identity_me_run_def seq_def caller asks_def i ms gets_def ps own_profile_def
          select_one_def demo_db_stmt parts ret_def Let_def)
       (auto simp: me_json_def)
qed

theorem completed_sign_in_shows_the_signer_witness:
  "\<exists>st' go w'. sign_in demo_ext demo_browser_chain demo_injected (platform_server demo_ext) ''https://ownex.example'' None
        \<lparr>dw_info = \<lparr>wi_uuid = ''u'', wi_name = ''W'', wi_icon = [], wi_rdns = ''w''\<rparr>, dw_provider = 0\<rparr> initial_wallet_state demo_world
      = ((st', go), w')
    \<and> wst_address st' = Some demo_wallet \<and> session_wallet w' = Some demo_wallet"
proof -
  let ?d = "\<lparr>dw_info = \<lparr>wi_uuid = ''u'', wi_name = ''W'', wi_icon = [], wi_rdns = ''w''\<rparr>, dw_provider = 0 :: nat\<rparr>"
  from demo_verified_answer obtain j where v: "verify_post demo_ext (Some (JObj [(''message'', JStr (build_siwe_message demo_issued)),
      (''signature'', JStr demo_wallet)])) demo_w1 = (ok_no_store j, demo_w2)" by blast
  from demo_me_answer obtain me w3 where m: "identity_me_get demo_ext None demo_w2 = (ok_no_store me, w3)"
    "obj_get me ''wallet'' = Some (JStr demo_wallet)" by blast
  have ne: "demo_wallet \<noteq> []" by (simp add: demo_wallet_def demo_address_def)
  have "\<exists>st' go. sign_in demo_ext demo_browser_chain demo_injected (platform_server demo_ext) ''https://ownex.example'' None ?d initial_wallet_state demo_world
      = ((st', go), w3) \<and> wst_stage st' = SI_done \<and> wst_session st' = Some me \<and> wst_address st' = Some demo_wallet"
    using ne
    by (simp add: sign_in_def demo_injected_def normalise_accounts_def List.map_filter_def Let_def sign_in_account_def platform_calls
          demo_nonce_issued[folded demo_w1_def] request_outcome_ok text_in_def v m(1) get_me_outcome_def finish_sign_in_def
          return_target_def read_chain_def)
  then obtain st' go where run: "sign_in demo_ext demo_browser_chain demo_injected (platform_server demo_ext) ''https://ownex.example'' None ?d
      initial_wallet_state demo_world = ((st', go), w3)" and st: "wst_stage st' = SI_done" "wst_session st' = Some me" "wst_address st' = Some demo_wallet"
    by blast
  from completed_sign_in_shows_the_signer[OF run st(1,2) m(2)] run st(3) show ?thesis by blast
qed

subsection \<open>The return target\<close>

text \<open>Browsers drop tabs and line breaks from a URL before they parse it. Then a target with a tab
  between two slashes passes the check and resolves to another host: the check compares only the
  path of the resolved URL, not its origin.\<close>

lemma return_target_accepts_a_foreign_host:
  assumes "\<And>s. x_resolve_url X s origin = x_resolve_url X (filter (\<lambda>c. code_unit c \<notin> {9, 10, 13}) s) origin"
    and "x_resolve_url X ''//evil.example/authorize'' origin = Some u"
    and "u_pathname u = ''/authorize''" and "u_hostname u = ''evil.example''"
  shows "\<exists>rt v. return_target X origin (Some rt) = Inr (Some rt) \<and> x_resolve_url X rt origin = Some v
    \<and> u_hostname v = ''evil.example''"
proof -
  let ?rt = "[CHR ''/'', CHR 0x09] @ ''/evil.example/authorize''"
  have "filter (\<lambda>c. code_unit c \<notin> {9, 10, 13}) ?rt = ''//evil.example/authorize''"
    by (simp add: code_unit_def)
  with assms(1)[of ?rt] assms(2) have "x_resolve_url X ?rt origin = Some u" by simp
  moreover have "starts_with ''/'' ?rt" "\<not> starts_with ''//'' ?rt" "\<not> starts_with [CHR ''/'', CHR 0x5C] ?rt" "?rt \<noteq> []"
    by (simp_all add: starts_with_def)
  ultimately have "return_target X origin (Some ?rt) = Inr (Some ?rt)"
    using assms(3) by (simp add: return_target_def)
  with \<open>x_resolve_url X ?rt origin = Some u\<close> assms(4) show ?thesis by blast
qed

end
