(* ===== verification/Transaction.thy ===== *)
theory Transaction
  imports WalletSession "HOL-Library.Sublist"
begin

text \<open>
  \<open>components/console/tx/use-transaction.ts\<close>: a write as four stages. A run of the hook is a
  sequence of awaits, and every await is a point where something else may happen: another run, or a
  reset. The state the hook shows is shared by all runs. The hook is a step relation over the shared
  state and the runs in flight; the calls a run makes are logged.
\<close>

subsection \<open>State\<close>

datatype tx_stage = TX_idle | TX_prepare | TX_sign | TX_mine | TX_record | TX_done | TX_error

record 'r tx_state =
  txs_stage :: tx_stage
  txs_failure :: "decoded_failure option"
  txs_hash :: "string option"
  txs_result :: "'r option"

definition tx_reset :: "'r tx_state" where
  "tx_reset = \<lparr>txs_stage = TX_idle, txs_failure = None, txs_hash = None, txs_result = None\<rparr>"

definition tx_busy :: "'r tx_state \<Rightarrow> bool" where
  "tx_busy st = (txs_stage st \<in> {TX_prepare, TX_sign, TX_mine, TX_record})"

text \<open>Which of the optional parts a write has.\<close>

record tx_spec =
  sp_prepare :: bool
  sp_record :: bool
  sp_skip_sync :: bool

text \<open>Where a run waits; \<open>'a\<close> is what was prepared, \<open>'c\<close> a receipt.\<close>

datatype ('a, 'c) tx_point =
    AtPrepare
  | AtSigner "'a option"
  | AtSend "'a option"
  | AtWait "'a option" string
  | AtRecord "'a option" string 'c
  | AtSync
  | AtRefresh
  | Finished

datatype ('a, 'c, 'r) tx_answer =
    Rejected thrown
  | Prepared 'a
  | SignerReady
  | Sent string
  | Mined 'c
  | Recorded 'r
  | Settled

datatype ('a, 'c) tx_effect =
    DoPrepare
  | DoSend "'a option"
  | DoWait string
  | DoRecord "'a option" 'c string
  | DoSync
  | DoRefresh

subsection \<open>One run\<close>

definition tx_caught :: "thrown \<Rightarrow> 'r tx_state \<Rightarrow> 'r tx_state" where
  "tx_caught e st =
    (let decoded = decode_failure e in
     st\<lparr>txs_failure := Some decoded, txs_stage := (if df_rejected decoded then TX_idle else TX_error)\<rparr>)"

definition no_wallet_error :: thrown where
  "no_wallet_error =
    (plain_error ''No wallet is connected. Sign in again from the top bar.'')\<lparr>th_code := Some (CodeText ''NO_WALLET'')\<rparr>"

definition chain_text :: "chain_ref \<Rightarrow> string" where
  "chain_text c = (case c of OnChain i \<Rightarrow> show_int i | ChainNaN \<Rightarrow> ''NaN'' | NoChain \<Rightarrow> ''null'')"

definition wrong_chain_error :: "chain_config \<Rightarrow> chain_ref \<Rightarrow> thrown" where
  "wrong_chain_error cfg c =
    (plain_error (''Your wallet is on chain '' @ chain_text c @ '', and this transaction has to go to '' @ cc_name cfg
       @ '' ('' @ (case cc_id cfg of None \<Rightarrow> ''NaN'' | Some i \<Rightarrow> show_int i) @ ''). Switch networks first.''))
      \<lparr>th_code := Some (CodeText ''WRONG_CHAIN'')\<rparr>"

text \<open>\<open>run(spec)\<close> up to its first await: the state it leaves, where it waits, what it called. The hook
  reads whether a wallet is connected (\<open>active\<close>) and the chain it is on.\<close>

definition tx_start ::
  "chain_config \<Rightarrow> bool \<Rightarrow> chain_ref \<Rightarrow> tx_spec \<Rightarrow> 'r tx_state \<Rightarrow> 'r tx_state \<times> ('a, 'c) tx_point \<times> ('a, 'c) tx_effect list" where
  "tx_start cfg connected chain spec st =
    (let st1 = st\<lparr>txs_failure := None, txs_hash := None\<rparr> in
     if \<not> connected then (tx_caught no_wallet_error st1, Finished, [])
     else if off_chain cfg chain then (tx_caught (wrong_chain_error cfg chain) st1, Finished, [])
     else if sp_prepare spec then (st1\<lparr>txs_stage := TX_prepare\<rparr>, AtPrepare, [DoPrepare])
     else (st1\<lparr>txs_stage := TX_sign\<rparr>, AtSigner None, []))"

definition after_record :: "tx_spec \<Rightarrow> 'r option \<Rightarrow> 'r tx_state \<Rightarrow> 'r tx_state \<times> ('a, 'c) tx_point \<times> ('a, 'c) tx_effect list" where
  "after_record spec recorded st =
    (let st1 = st\<lparr>txs_result := recorded\<rparr> in
     if sp_skip_sync spec then (st1, AtRefresh, [DoRefresh]) else (st1, AtSync, [DoSync]))"

text \<open>A run resumed with the answer it waits for; \<open>None\<close> for an answer it does not wait for. The audit
  sync and the refresh swallow their rejections.\<close>

fun tx_resume ::
  "tx_spec \<Rightarrow> ('a, 'c) tx_point \<Rightarrow> ('a, 'c, 'r) tx_answer \<Rightarrow> 'r tx_state
   \<Rightarrow> ('r tx_state \<times> ('a, 'c) tx_point \<times> ('a, 'c) tx_effect list) option" where
  "tx_resume spec AtSync (Rejected e) st = Some (st, AtRefresh, [DoRefresh])"
| "tx_resume spec AtSync Settled st = Some (st, AtRefresh, [DoRefresh])"
| "tx_resume spec AtRefresh (Rejected e) st = Some (st\<lparr>txs_stage := TX_done\<rparr>, Finished, [])"
| "tx_resume spec AtRefresh Settled st = Some (st\<lparr>txs_stage := TX_done\<rparr>, Finished, [])"
| "tx_resume spec Finished a st = None"
| "tx_resume spec p (Rejected e) st = Some (tx_caught e st, Finished, [])"
| "tx_resume spec AtPrepare (Prepared p) st = Some (st\<lparr>txs_stage := TX_sign\<rparr>, AtSigner (Some p), [])"
| "tx_resume spec (AtSigner p) SignerReady st = Some (st, AtSend p, [DoSend p])"
| "tx_resume spec (AtSend p) (Sent h) st = Some (st\<lparr>txs_hash := Some h, txs_stage := TX_mine\<rparr>, AtWait p h, [DoWait h])"
| "tx_resume spec (AtWait p h) (Mined c) st =
     (let st1 = st\<lparr>txs_stage := TX_record\<rparr> in
      Some (if sp_record spec then (st1, AtRecord p h c, [DoRecord p c h]) else after_record spec None st1))"
| "tx_resume spec (AtRecord p h c) (Recorded r) st = Some (after_record spec (Some r) st)"
| "tx_resume spec p a st = None"

subsection \<open>The hook\<close>

record ('a, 'c, 'r) tx_hook =
  hk_state :: "'r tx_state"
  hk_runs :: "(tx_spec \<times> ('a, 'c) tx_point) list"
  hk_log :: "(nat \<times> ('a, 'c) tx_effect) list"

definition initial_hook :: "('a, 'c, 'r) tx_hook" where
  "initial_hook = \<lparr>hk_state = tx_reset, hk_runs = [], hk_log = []\<rparr>"

inductive tx_step :: "chain_config \<Rightarrow> ('a, 'c, 'r) tx_hook \<Rightarrow> ('a, 'c, 'r) tx_hook \<Rightarrow> bool" for cfg where
  begin_run: "tx_start cfg connected chain spec (hk_state h) = (st, p, es) \<Longrightarrow>
    tx_step cfg h \<lparr>hk_state = st, hk_runs = hk_runs h @ [(spec, p)],
                   hk_log = hk_log h @ map (Pair (length (hk_runs h))) es\<rparr>"
| resume_run: "i < length (hk_runs h) \<Longrightarrow> hk_runs h ! i = (spec, p) \<Longrightarrow>
    tx_resume spec p a (hk_state h) = Some (st, p', es) \<Longrightarrow>
    tx_step cfg h \<lparr>hk_state = st, hk_runs = (hk_runs h)[i := (spec, p')],
                   hk_log = hk_log h @ map (Pair i) es\<rparr>"
| reset_hook: "tx_step cfg h (h\<lparr>hk_state := tx_reset\<rparr>)"

inductive_cases tx_step_cases: "tx_step cfg h h'"

inductive tx_reachable :: "chain_config \<Rightarrow> ('a, 'c, 'r) tx_hook \<Rightarrow> bool" for cfg where
  tx_initial: "tx_reachable cfg initial_hook"
| tx_next: "tx_reachable cfg h \<Longrightarrow> tx_step cfg h h' \<Longrightarrow> tx_reachable cfg h'"

subsection \<open>The calls of a run\<close>

definition calls_of :: "nat \<Rightarrow> (nat \<times> ('a, 'c) tx_effect) list \<Rightarrow> ('a, 'c) tx_effect list" where
  "calls_of i log = map snd (filter (\<lambda>e. fst e = i) log)"

text \<open>The calls of a run that gets to its end, and those made when it waits at a point.\<close>

definition start_calls :: "tx_spec \<Rightarrow> ('a, 'c) tx_effect list" where
  "start_calls spec = (if sp_prepare spec then [DoPrepare] else [])"

definition write_calls :: "tx_spec \<Rightarrow> 'a option \<Rightarrow> string \<Rightarrow> 'c \<Rightarrow> ('a, 'c) tx_effect list" where
  "write_calls spec p h c = start_calls spec @ [DoSend p, DoWait h] @ (if sp_record spec then [DoRecord p c h] else [])"

definition all_calls :: "tx_spec \<Rightarrow> 'a option \<Rightarrow> string \<Rightarrow> 'c \<Rightarrow> ('a, 'c) tx_effect list" where
  "all_calls spec p h c = write_calls spec p h c @ (if sp_skip_sync spec then [] else [DoSync]) @ [DoRefresh]"

fun calls_at :: "tx_spec \<Rightarrow> ('a, 'c) tx_point \<Rightarrow> ('a, 'c) tx_effect list \<Rightarrow> bool" where
  "calls_at spec AtPrepare cs = (sp_prepare spec \<and> cs = [DoPrepare])"
| "calls_at spec (AtSigner p) cs = ((p = None \<longleftrightarrow> \<not> sp_prepare spec) \<and> cs = start_calls spec)"
| "calls_at spec (AtSend p) cs = ((p = None \<longleftrightarrow> \<not> sp_prepare spec) \<and> cs = start_calls spec @ [DoSend p])"
| "calls_at spec (AtWait p h) cs = ((p = None \<longleftrightarrow> \<not> sp_prepare spec) \<and> cs = start_calls spec @ [DoSend p, DoWait h])"
| "calls_at spec (AtRecord p h c) cs = ((p = None \<longleftrightarrow> \<not> sp_prepare spec) \<and> sp_record spec \<and> cs = write_calls spec p h c)"
| "calls_at spec AtSync cs = (\<not> sp_skip_sync spec \<and>
     (\<exists>p h c. (p = None \<longleftrightarrow> \<not> sp_prepare spec) \<and> cs = write_calls spec p h c @ [DoSync]))"
| "calls_at spec AtRefresh cs = (\<exists>p h c. (p = None \<longleftrightarrow> \<not> sp_prepare spec) \<and> cs = all_calls spec p h c)"
| "calls_at spec Finished cs =
     (\<exists>p h c. (p = None \<longleftrightarrow> \<not> sp_prepare spec) \<and> prefix cs (all_calls spec p h c))"

lemma calls_of_append: "calls_of i (log @ log') = calls_of i log @ calls_of i log'"
  by (simp add: calls_of_def)

lemma calls_of_own: "calls_of i (map (Pair j) es) = (if i = j then es else [])"
  by (induction es) (auto simp: calls_of_def)

text \<open>Wherever a run stops, what it called begins the full sequence.\<close>

lemma finishedI:
  "(p = None) = (\<not> sp_prepare spec) \<Longrightarrow> prefix cs (all_calls spec p h c) \<Longrightarrow> calls_at spec Finished cs"
  unfolding calls_at.simps by blast

lemma some_prepared: "\<exists>q. (q = None) = (\<not> sp_prepare spec)"
  by (cases "sp_prepare spec") auto

lemma calls_at_prefix:
  assumes "calls_at spec p cs"
  shows "calls_at spec Finished cs"
proof (cases p)
  case AtPrepare
  with assms some_prepared[of spec] show ?thesis
    by (elim exE) (rule finishedI, assumption, simp add: all_calls_def write_calls_def start_calls_def)
next
  case (AtSigner q)
  with assms show ?thesis by (intro finishedI[of q]) (simp_all add: all_calls_def write_calls_def)
next
  case (AtSend q)
  with assms show ?thesis by (intro finishedI[of q]) (simp_all add: all_calls_def write_calls_def)
next
  case (AtWait q h)
  with assms show ?thesis by (intro finishedI[of q _ _ h]) (simp_all add: all_calls_def write_calls_def)
next
  case (AtRecord q h c)
  with assms show ?thesis by (intro finishedI[of q _ _ h c]) (simp_all add: all_calls_def)
next
  case AtSync
  with assms obtain q h c where "(q = None) = (\<not> sp_prepare spec)" "cs = write_calls spec q h c @ [DoSync]"
    "\<not> sp_skip_sync spec" by auto
  then show ?thesis by (intro finishedI[of q _ _ h c]) (simp_all add: all_calls_def)
next
  case AtRefresh
  with assms obtain q h c where "(q = None) = (\<not> sp_prepare spec)" "cs = all_calls spec q h c" by auto
  then show ?thesis by (intro finishedI[of q _ _ h c]) simp_all
next
  case Finished
  with assms show ?thesis by simp
qed

lemma tx_start_calls:
  "tx_start cfg connected chain spec st = (st', p, es) \<Longrightarrow> calls_at spec p es"
proof -
  assume start: "tx_start cfg connected chain spec st = (st', p, es)"
  have "calls_at spec Finished []"
    using some_prepared[of spec] by (elim exE) (rule finishedI, assumption, simp)
  with start show ?thesis
    by (auto simp: tx_start_def Let_def start_calls_def split: if_splits)
qed

lemma tx_resume_calls:
  assumes "tx_resume spec p a st = Some (st', p', es)" and "calls_at spec p cs"
  shows "calls_at spec p' (cs @ es)"
proof (cases "\<exists>e. a = Rejected e \<and> p \<notin> {AtSync, AtRefresh}")
  case True
  then have "p' = Finished \<and> es = []" using assms(1) by (cases p) auto
  with calls_at_prefix[OF assms(2)] show ?thesis by simp
next
  case False
  with assms show ?thesis
    by (cases "(spec, p, a, st)" rule: tx_resume.cases)
       (auto simp: write_calls_def all_calls_def after_record_def Let_def start_calls_def split: if_splits)
qed

end
