(* ===== verification/BrowserProps.thy ===== *)
theory BrowserProps
  imports Transaction OrgRoutes
begin

text \<open>
  What the interface guarantees: the calls of a write come in their order whatever else happens, a
  contract's refusal is explained, and a completed sign-in shows the wallet the server signed in.
\<close>

subsection \<open>Writes\<close>

definition run_ok :: "('a, 'c, 'r) tx_hook \<Rightarrow> nat \<Rightarrow> bool" where
  "run_ok h i \<longleftrightarrow> (if i < length (hk_runs h) then calls_at (fst (hk_runs h ! i)) (snd (hk_runs h ! i)) (calls_of i (hk_log h))
                  else calls_of i (hk_log h) = [])"

lemma tx_step_run_ok:
  assumes "tx_step cfg h h'" and "\<And>i. run_ok h i"
  shows "run_ok h' i"
  using assms
proof (induction rule: tx_step.induct)
  case (begin_run connected chain spec h st p es)
  from begin_run(2)[of i] tx_start_calls[OF begin_run(1)] show ?case
    by (auto simp: run_ok_def calls_of_append calls_of_own nth_append split: if_splits)
next
  case (resume_run j h spec p a st p' es)
  from resume_run(4)[of j] resume_run(1,2) have "calls_at spec p (calls_of j (hk_log h))" by (simp add: run_ok_def)
  from tx_resume_calls[OF resume_run(3) this] resume_run(1,2) resume_run(4)[of i] show ?case
    by (auto simp: run_ok_def calls_of_append calls_of_own nth_list_update)
next
  case (reset_hook h)
  then show ?case by (simp add: run_ok_def)
qed

lemma tx_reachable_run_ok: "tx_reachable cfg h \<Longrightarrow> run_ok h i"
proof (induction arbitrary: i rule: tx_reachable.induct)
  case tx_initial
  then show ?case by (simp add: run_ok_def initial_hook_def calls_of_def)
next
  case (tx_next h h')
  from tx_step_run_ok[OF tx_next(2) tx_next(3)] show ?case .
qed


definition demo_tx_chain :: chain_config where
  "demo_tx_chain = \<lparr>cc_id = Some 7, cc_name = ''Test'', cc_explorer = None, cc_rpc_url = None\<rparr>"

definition demo_spec :: tx_spec where
  "demo_spec = \<lparr>sp_prepare = True, sp_record = False, sp_skip_sync = True\<rparr>"

text \<open>A run that prepared and was handed a signer, after a reset.\<close>

definition demo_hook :: "(nat, nat, nat) tx_hook" where
  "demo_hook = \<lparr>hk_state = tx_reset\<lparr>txs_stage := TX_sign\<rparr>, hk_runs = [(demo_spec, AtSend (Some 3))],
                hk_log = [(0, DoPrepare), (0, DoSend (Some 3))]\<rparr>"

lemma demo_hook_reachable: "tx_reachable demo_tx_chain demo_hook"
proof -
  let ?h1 = "\<lparr>hk_state = tx_reset\<lparr>txs_stage := TX_prepare\<rparr>, hk_runs = [(demo_spec, AtPrepare)],
              hk_log = [(0, DoPrepare)]\<rparr> :: (nat, nat, nat) tx_hook"
  let ?h2 = "\<lparr>hk_state = tx_reset\<lparr>txs_stage := TX_sign\<rparr>, hk_runs = [(demo_spec, AtSigner (Some 3))],
              hk_log = [(0, DoPrepare)]\<rparr> :: (nat, nat, nat) tx_hook"
  have "tx_start demo_tx_chain True (OnChain 7) demo_spec (hk_state initial_hook)
      = (tx_reset\<lparr>txs_stage := TX_prepare\<rparr>, AtPrepare, [DoPrepare :: (nat, nat) tx_effect])"
    by (simp add: tx_start_def initial_hook_def tx_reset_def demo_spec_def off_chain_def demo_tx_chain_def Let_def)
  from tx_step.begin_run[OF this] have "tx_step demo_tx_chain initial_hook ?h1"
    by (simp add: initial_hook_def)
  with tx_initial have r1: "tx_reachable demo_tx_chain ?h1" by (rule tx_next)
  have "tx_step demo_tx_chain ?h1 ?h2"
    using tx_step.resume_run[of 0 ?h1 demo_spec AtPrepare "Prepared 3 :: (nat, nat, nat) tx_answer"] by (simp add: tx_reset_def)
  with r1 have r2: "tx_reachable demo_tx_chain ?h2" by (rule tx_next)
  have "tx_step demo_tx_chain ?h2 demo_hook"
    using tx_step.resume_run[of 0 ?h2 demo_spec "AtSigner (Some 3)" "SignerReady :: (nat, nat, nat) tx_answer"]
    by (simp add: demo_hook_def tx_reset_def)
  with r2 show ?thesis by (rule tx_next)
qed


subsection \<open>Refusals of the contracts\<close>

text \<open>C30. A refusal of a contract is explained: for every custom error declared in the three ABIs, a
  revert with it is decoded to the sentence written for it, carries the error's own name, and is not
  taken for a dismissal, and a run that meets it ends in the error stage; a dismissed prompt, by
  ethers' code or by the nested code 4001, ends in the idle stage with nothing recorded as sent.\<close>

theorem contract_refusals_are_explained:
  assumes "(name, n) \<in> set contract_errors" and "th_revert e = Some \<lparr>rv_name = Some name, rv_args = Some args\<rparr>"
  shows "if th_code e = Some (CodeText ''ACTION_REJECTED'') \<or> nested_code e = Some 4001
    then df_rejected (decode_failure e) \<and> txs_stage (tx_caught e st) = TX_idle
    else (\<exists>explain. map_of EXPLANATIONS name = Some explain
           \<and> decode_failure e = \<lparr>df_message = explain args, df_error_name = Some name, df_rejected = False\<rparr>
           \<and> txs_stage (tx_caught e st) = TX_error \<and> txs_failure (tx_caught e st) = Some (decode_failure e))"
proof -
  from contract_errors_explained[OF assms(1)] obtain explain where ex: "map_of EXPLANATIONS name = Some explain" by blast
  have "name \<noteq> []" using assms(1)
    by (auto simp: contract_errors_def identity_registry_errors_def org_access_manager_errors_def asset_nft_errors_def)
  then have t: "truthy (revert_name e)" "the (revert_name e) = name" "revert_name e = Some name"
    using assms(2) by (simp_all add: revert_name_def truthy_iff)
  show ?thesis
    using ex assms(2) t
    by (auto simp: decode_failure_def explain_revert_def USER_REJECTED_def tx_caught_def Let_def)
qed

theorem contract_refusals_are_explained_witness:
  "\<exists>explain. map_of EXPLANATIONS ''NotMember'' = Some explain
     \<and> df_error_name (decode_failure ((plain_error ''call reverted'')\<lparr>th_revert :=
         Some \<lparr>rv_name = Some ''NotMember'', rv_args = Some [ArgInt 1, ArgText ''0xab'']\<rparr>\<rparr>)) = Some ''NotMember''"
proof -
  let ?e = "(plain_error ''call reverted'')\<lparr>th_revert := Some \<lparr>rv_name = Some ''NotMember'', rv_args = Some [ArgInt 1, ArgText ''0xab'']\<rparr>\<rparr>"
  have "(''NotMember'', 2) \<in> set contract_errors" by (simp add: contract_errors_def org_access_manager_errors_def)
  moreover have "th_revert ?e = Some \<lparr>rv_name = Some ''NotMember'', rv_args = Some [ArgInt 1, ArgText ''0xab'']\<rparr>"
    "th_code ?e = None" "nested_code ?e = None" by (simp_all add: plain_error_def nested_code_def or_else_def)
  ultimately show ?thesis
    using contract_refusals_are_explained[of "''NotMember''" 2 ?e "[ArgInt 1, ArgText ''0xab'']" tx_reset] by auto
qed

text \<open>An ethers signer reports a dismissed prompt with the text code ACTION_REJECTED. The transaction
  rail recognises it, the sign-in does not: there it is an error.\<close>

lemma dismissed_signature_is_an_error:
  assumes "th_code e = Some (CodeText ''ACTION_REJECTED'')"
  shows "df_rejected (decode_failure e)" and "wst_stage (failed_sign_in cfg e st) = SI_error"
  using assms by (simp_all add: decode_failure_def failed_sign_in_def is_user_rejection_def wallet_error_code_def WALLET_USER_REJECTED_def)

end
