(* ===== verification/Resource.thy ===== *)
theory Resource
  imports JsText
begin

text \<open>
  \<open>lib/use-resource.ts\<close>: reading an endpoint into a component. A render passes a loader or null; an
  effect runs when the loader or the nonce changed since the last one, after the cleanup of the
  previous effect has cancelled it. Requests answer in any order, or never. The hook is a step
  relation: a render with another loader, a reload, and the answer of a request in flight. Loaders
  are compared by identity (\<open>'l\<close>); what is answered is logged with the effect that asked for it.
\<close>

subsection \<open>State\<close>

datatype ('d, 'e) answer = Loaded 'd | LoadFailed 'e

record ('l, 'd, 'e) settled =
  se_loader :: 'l
  se_nonce :: nat
  se_answer :: "('d, 'e) answer"

record 'l load_effect =
  ef_loader :: 'l
  ef_nonce :: nat
  ef_cancelled :: bool

record ('l, 'd, 'e) resource =
  rs_load :: "'l option"
  rs_nonce :: nat
  rs_settled :: "('l, 'd, 'e) settled option"
  rs_effects :: "'l load_effect list"
    \<comment> \<open>the effects of all renders, the latest last\<close>
  rs_answered :: "(nat \<times> ('d, 'e) answer) list"
    \<comment> \<open>which effect was answered with what\<close>

datatype resource_status = RS_idle | RS_loading | RS_ready | RS_error

record ('d, 'e) shown_resource =
  rv_status :: resource_status
  rv_data :: "'d option"
  rv_failure :: "'e option"
  rv_refreshing :: bool

subsection \<open>Effects\<close>

text \<open>\<open>useEffect(..., [load, nonce])\<close>: the cleanup of the previous effect, then the new one.\<close>

definition cancel_all :: "'l load_effect list \<Rightarrow> 'l load_effect list" where
  "cancel_all es = map (\<lambda>e. e\<lparr>ef_cancelled := True\<rparr>) es"

definition run_effect :: "('l, 'd, 'e) resource \<Rightarrow> ('l, 'd, 'e) resource" where
  "run_effect r = r\<lparr>rs_effects := cancel_all (rs_effects r)
     @ (case rs_load r of None \<Rightarrow> [] | Some l \<Rightarrow> [\<lparr>ef_loader = l, ef_nonce = rs_nonce r, ef_cancelled = False\<rparr>])\<rparr>"

definition mount :: "'l option \<Rightarrow> ('l, 'd, 'e) resource" where
  "mount load =
    run_effect \<lparr>rs_load = load, rs_nonce = 0, rs_settled = None, rs_effects = [], rs_answered = []\<rparr>"

definition render :: "'l option \<Rightarrow> ('l, 'd, 'e) resource \<Rightarrow> ('l, 'd, 'e) resource" where
  "render load r = (if load = rs_load r then r else run_effect (r\<lparr>rs_load := load\<rparr>))"

definition reload :: "('l, 'd, 'e) resource \<Rightarrow> ('l, 'd, 'e) resource" where
  "reload r = run_effect (r\<lparr>rs_nonce := rs_nonce r + 1\<rparr>)"

text \<open>The promise of effect \<open>i\<close> settles: a cancelled effect writes nothing.\<close>

definition settle :: "nat \<Rightarrow> ('d, 'e) answer \<Rightarrow> ('l, 'd, 'e) resource \<Rightarrow> ('l, 'd, 'e) resource" where
  "settle i a r =
    (let e = rs_effects r ! i; r1 = r\<lparr>rs_answered := rs_answered r @ [(i, a)]\<rparr> in
     if ef_cancelled e then r1
     else r1\<lparr>rs_settled := Some \<lparr>se_loader = ef_loader e, se_nonce = ef_nonce e, se_answer = a\<rparr>\<rparr>)"

text \<open>A promise settles once.\<close>

inductive resource_step :: "('l, 'd, 'e) resource \<Rightarrow> ('l, 'd, 'e) resource \<Rightarrow> bool" where
  rendered: "resource_step r (render load r)"
| reloaded: "resource_step r (reload r)"
| answered: "i < length (rs_effects r) \<Longrightarrow> i \<notin> fst ` set (rs_answered r) \<Longrightarrow> resource_step r (settle i a r)"

inductive_cases resource_step_cases: "resource_step r r'"

inductive resource_reachable :: "('l, 'd, 'e) resource \<Rightarrow> bool" where
  mounted: "resource_reachable (mount load)"
| stepped: "resource_reachable r \<Longrightarrow> resource_step r r' \<Longrightarrow> resource_reachable r'"

subsection \<open>What the component sees\<close>

definition is_fresh :: "('l, 'd, 'e) resource \<Rightarrow> bool" where
  "is_fresh r = (case rs_settled r of
     None \<Rightarrow> False
   | Some s \<Rightarrow> Some (se_loader s) = rs_load r \<and> se_nonce s = rs_nonce r)"

definition last_data :: "('l, 'd, 'e) resource \<Rightarrow> 'd option" where
  "last_data r = (case rs_settled r of
     Some s \<Rightarrow> (case se_answer s of Loaded d \<Rightarrow> Some d | LoadFailed _ \<Rightarrow> None) | None \<Rightarrow> None)"

definition resource_view :: "('l, 'd, 'e) resource \<Rightarrow> ('d, 'e) shown_resource" where
  "resource_view r =
    (case rs_load r of
       None \<Rightarrow> \<lparr>rv_status = RS_idle, rv_data = None, rv_failure = None, rv_refreshing = False\<rparr>
     | Some l \<Rightarrow>
       if \<not> is_fresh r
       then \<lparr>rv_status = RS_loading, rv_data = last_data r, rv_failure = None, rv_refreshing = (last_data r \<noteq> None)\<rparr>
       else (case se_answer (the (rs_settled r)) of
               Loaded d \<Rightarrow> \<lparr>rv_status = RS_ready, rv_data = Some d, rv_failure = None, rv_refreshing = False\<rparr>
             | LoadFailed e \<Rightarrow> \<lparr>rv_status = RS_error, rv_data = None, rv_failure = Some e, rv_refreshing = False\<rparr>))"

subsection \<open>Invariant\<close>

text \<open>At most the last effect is live, and it is the one of the current loader and nonce; what is
  settled was answered to an effect of its loader and nonce.\<close>

definition live_effect :: "('l, 'd, 'e) resource \<Rightarrow> bool" where
  "live_effect r \<longleftrightarrow> (\<forall>i < length (rs_effects r). \<not> ef_cancelled (rs_effects r ! i) \<longrightarrow>
     Suc i = length (rs_effects r) \<and> Some (ef_loader (rs_effects r ! i)) = rs_load r \<and> ef_nonce (rs_effects r ! i) = rs_nonce r)"

definition settled_by_answer :: "('l, 'd, 'e) resource \<Rightarrow> bool" where
  "settled_by_answer r \<longleftrightarrow> (\<forall>s. rs_settled r = Some s \<longrightarrow>
     (\<exists>i < length (rs_effects r). (i, se_answer s) \<in> set (rs_answered r)
        \<and> ef_loader (rs_effects r ! i) = se_loader s \<and> ef_nonce (rs_effects r ! i) = se_nonce s))"

definition answers_known :: "('l, 'd, 'e) resource \<Rightarrow> bool" where
  "answers_known r \<longleftrightarrow> distinct (map fst (rs_answered r)) \<and> (\<forall>p \<in> set (rs_answered r). fst p < length (rs_effects r))"

definition resource_ok :: "('l, 'd, 'e) resource \<Rightarrow> bool" where
  "resource_ok r \<longleftrightarrow> live_effect r \<and> settled_by_answer r \<and> answers_known r"

lemma cancel_all_simps [simp]:
  "length (cancel_all es) = length es"
  "i < length es \<Longrightarrow> ef_loader (cancel_all es ! i) = ef_loader (es ! i)"
  "i < length es \<Longrightarrow> ef_nonce (cancel_all es ! i) = ef_nonce (es ! i)"
  "i < length es \<Longrightarrow> ef_cancelled (cancel_all es ! i)"
  by (simp_all add: cancel_all_def)

lemma run_effect_fields [simp]:
  "rs_load (run_effect r) = rs_load r" "rs_nonce (run_effect r) = rs_nonce r"
  "rs_settled (run_effect r) = rs_settled r" "rs_answered (run_effect r) = rs_answered r"
  by (simp_all add: run_effect_def)

lemma run_effect_live: "live_effect (run_effect r)"
  by (auto simp: live_effect_def run_effect_def nth_append split: option.splits)

lemma run_effect_settled: "settled_by_answer r \<Longrightarrow> settled_by_answer (run_effect r)"
  by (fastforce simp: settled_by_answer_def run_effect_def nth_append split: option.splits)

lemma run_effect_answers: "answers_known r \<Longrightarrow> answers_known (run_effect r)"
  by (auto simp: answers_known_def run_effect_def split: option.splits)

lemma resource_ok_effect: "settled_by_answer r \<Longrightarrow> answers_known r \<Longrightarrow> resource_ok (run_effect r)"
  by (simp add: resource_ok_def run_effect_live run_effect_settled run_effect_answers)

lemma resource_ok_mount: "resource_ok (mount load)"
  unfolding mount_def by (rule resource_ok_effect) (simp_all add: settled_by_answer_def answers_known_def)

lemma resource_ok_settle:
  assumes "resource_ok r" and "i < length (rs_effects r)" and "i \<notin> fst ` set (rs_answered r)"
  shows "resource_ok (settle i a r)"
proof -
  have "live_effect (settle i a r)"
    using assms(1) by (auto simp: resource_ok_def live_effect_def settle_def Let_def)
  moreover have "answers_known (settle i a r)"
    using assms by (auto simp: resource_ok_def answers_known_def settle_def Let_def)
  moreover have "settled_by_answer (settle i a r)"
    using assms by (fastforce simp: resource_ok_def settled_by_answer_def settle_def Let_def)
  ultimately show ?thesis by (simp add: resource_ok_def)
qed

lemma resource_ok_step: "resource_step r r' \<Longrightarrow> resource_ok r \<Longrightarrow> resource_ok r'"
proof (induction rule: resource_step.induct)
  case (rendered r load)
  then have "settled_by_answer (r\<lparr>rs_load := load\<rparr>)" "answers_known (r\<lparr>rs_load := load\<rparr>)"
    by (simp_all add: resource_ok_def settled_by_answer_def answers_known_def)
  then have "resource_ok (run_effect (r\<lparr>rs_load := load\<rparr>))" by (rule resource_ok_effect)
  with rendered show ?case by (simp add: render_def)
next
  case (reloaded r)
  then show ?case unfolding reload_def
    by (intro resource_ok_effect) (simp_all add: resource_ok_def settled_by_answer_def answers_known_def)
next
  case (answered i r a)
  then show ?case by (intro resource_ok_settle)
qed

lemma resource_ok_reachable: "resource_reachable r \<Longrightarrow> resource_ok r"
  by (induction rule: resource_reachable.induct) (auto simp: resource_ok_mount resource_ok_step)

subsection \<open>Properties\<close>


text \<open>A reload over loaded data, whose late first answer is ignored.\<close>

definition demo_resource :: "(nat, string, string) resource" where
  "demo_resource = settle 1 (Loaded ''new'') (settle 0 (Loaded ''old'') (reload (mount (Some 0))))"


end
