(* ===== verification/IdentityContract.thy ===== *)
theory IdentityContract
  imports "HOL-Library.Word"
begin

text \<open>
  \<open>contracts/IdentityRegistry.sol\<close>: identities and the organizations they create, with the machine
  types of the contract. A function takes the message (caller and block time) and the state, and
  reverts with an error or returns the state with the events it emitted appended to the log.
  \<open>Ownable\<close> is OpenZeppelin's: the owner is a field of the state, and its own operations may only
  replace that field (\<open>owner_replaced\<close>).
\<close>

subsection \<open>Machine types, messages and errors\<close>

type_synonym address = "160 word"
type_synonym bytes32 = "256 word"
type_synonym uint256 = "256 word"
type_synonym uint64 = "64 word"

record message =
  msg_sender :: address
  block_timestamp :: uint256

datatype contract_error =
    ZeroAddress
  | EmptyHash
  | IdentityAlreadyExists address
  | IdentityNotFound address
  | IdentityNotActive address
  | IdentityAlreadyActive address
  | NotAuthorizedRegistrar address
  | OrganizationNotFound uint256
  | NotOrgRootAdmin uint256 address
  | OwnableUnauthorizedAccount address
  | OrganizationSuspended uint256
  | InvalidRole bytes32
  | AlreadyMember uint256 address
  | NotMember uint256 address
  | MissingPermission uint256 address bytes32
  | CannotTargetSelf
  | CannotModifyRootAdmin uint256
  | CannotDisableAdminGovernance
  | ExpiryInPast uint64
  | ApplicationNotRegistered uint256 bytes32
  | ApplicationAlreadyRegistered uint256 bytes32
  | Panic nat

text \<open>Sequencing of fallible steps, and a \<open>revert\<close> guard.\<close>

fun andthen :: "contract_error + 'a \<Rightarrow> ('a \<Rightarrow> contract_error + 'b) \<Rightarrow> contract_error + 'b" where
  "andthen (Inl e) f = Inl e"
| "andthen (Inr x) f = f x"

definition revert_if :: "bool \<Rightarrow> contract_error \<Rightarrow> contract_error + unit" where
  "revert_if b e = (if b then Inl e else Inr ())"

named_theorems call_iff \<open>when a contract call returns\<close>

lemma andthen_Inr_iff [call_iff]: "andthen m f = Inr y \<longleftrightarrow> (\<exists>x. m = Inr x \<and> f x = Inr y)"
  by (cases m) auto

lemma revert_if_Inr_iff [call_iff]: "revert_if b e = Inr u \<longleftrightarrow> \<not> b"
  by (simp add: revert_if_def)

subsection \<open>State\<close>

record identity =
  idn_hash :: bytes32
  idn_exists :: bool
  idn_active :: bool
  idn_registered_at :: uint64

record organization =
  orgn_metadata_hash :: bytes32
  orgn_root_admin :: address
  orgn_active :: bool
  orgn_created_at :: uint64

datatype registry_event =
    IdentityRegistered address bytes32 address uint64
  | IdentityHashUpdated address bytes32 bytes32 address
  | IdentityRevoked address address
  | IdentityReactivated address address
  | RegistrarUpdated address bool
  | OrganizationCreated uint256 address bytes32 uint64
  | OrganizationMetadataUpdated uint256 bytes32 bytes32
  | OrganizationStatusChanged uint256 bool address
  | OrgRootAdminTransferred uint256 address address

record registry =
  rg_identities :: "address \<Rightarrow> identity"
  rg_registrar :: "address \<Rightarrow> bool"
  rg_organizations :: "uint256 \<Rightarrow> organization"
  rg_count :: uint256
  rg_owner :: address
  rg_events :: "registry_event list"

text \<open>The default of a mapping's values.\<close>

definition no_identity :: identity where
  "no_identity = \<lparr>idn_hash = 0, idn_exists = False, idn_active = False, idn_registered_at = 0\<rparr>"

definition no_organization :: organization where
  "no_organization = \<lparr>orgn_metadata_hash = 0, orgn_root_admin = 0, orgn_active = False, orgn_created_at = 0\<rparr>"

definition deploy_registry :: "address \<Rightarrow> contract_error + registry" where
  "deploy_registry initial_owner =
    andthen (revert_if (initial_owner = 0) ZeroAddress) (\<lambda>_.
    Inr \<lparr>rg_identities = (\<lambda>_. no_identity), rg_registrar = (\<lambda>_. False)(initial_owner := True),
         rg_organizations = (\<lambda>_. no_organization), rg_count = 0, rg_owner = initial_owner,
         rg_events = [RegistrarUpdated initial_owner True]\<rparr>)"

definition emit_registry :: "registry_event \<Rightarrow> registry \<Rightarrow> registry" where
  "emit_registry e s = s\<lparr>rg_events := rg_events s @ [e]\<rparr>"

subsection \<open>Views\<close>

definition is_active_identity :: "registry \<Rightarrow> address \<Rightarrow> bool" where
  "is_active_identity s wallet = (idn_exists (rg_identities s wallet) \<and> idn_active (rg_identities s wallet))"

definition is_registered_identity :: "registry \<Rightarrow> address \<Rightarrow> bool" where
  "is_registered_identity s wallet = idn_exists (rg_identities s wallet)"

definition verify_identity_hash :: "registry \<Rightarrow> address \<Rightarrow> bytes32 \<Rightarrow> bool" where
  "verify_identity_hash s wallet candidate =
    (idn_exists (rg_identities s wallet) \<and> idn_hash (rg_identities s wallet) = candidate)"

definition organization_exists :: "registry \<Rightarrow> uint256 \<Rightarrow> bool" where
  "organization_exists s org = (org \<noteq> 0 \<and> org \<le> rg_count s)"

definition is_organization_active :: "registry \<Rightarrow> uint256 \<Rightarrow> bool" where
  "is_organization_active s org = (organization_exists s org \<and> orgn_active (rg_organizations s org))"

definition org_root_admin :: "registry \<Rightarrow> uint256 \<Rightarrow> address" where
  "org_root_admin s org = orgn_root_admin (rg_organizations s org)"

subsection \<open>Identities\<close>

definition set_registrar :: "message \<Rightarrow> address \<Rightarrow> bool \<Rightarrow> registry \<Rightarrow> contract_error + registry" where
  "set_registrar m registrar allowed s =
    andthen (revert_if (rg_owner s \<noteq> msg_sender m) (OwnableUnauthorizedAccount (msg_sender m))) (\<lambda>_.
    andthen (revert_if (registrar = 0) ZeroAddress) (\<lambda>_.
    Inr (emit_registry (RegistrarUpdated registrar allowed)
      (s\<lparr>rg_registrar := (rg_registrar s)(registrar := allowed)\<rparr>))))"

definition register_wallet :: "message \<Rightarrow> address \<Rightarrow> bytes32 \<Rightarrow> registry \<Rightarrow> contract_error + registry" where
  "register_wallet m wallet hash s =
    andthen (revert_if (wallet = 0) ZeroAddress) (\<lambda>_.
    andthen (revert_if (hash = 0) EmptyHash) (\<lambda>_.
    andthen (revert_if (idn_exists (rg_identities s wallet)) (IdentityAlreadyExists wallet)) (\<lambda>_.
    Inr (emit_registry (IdentityRegistered wallet hash (msg_sender m) (ucast (block_timestamp m)))
      (s\<lparr>rg_identities := (rg_identities s)(wallet :=
         \<lparr>idn_hash = hash, idn_exists = True, idn_active = True, idn_registered_at = ucast (block_timestamp m)\<rparr>)\<rparr>)))))"

definition register_identity :: "message \<Rightarrow> bytes32 \<Rightarrow> registry \<Rightarrow> contract_error + registry" where
  "register_identity m hash = register_wallet m (msg_sender m) hash"

definition only_registrar :: "message \<Rightarrow> registry \<Rightarrow> contract_error + unit" where
  "only_registrar m s = revert_if (\<not> rg_registrar s (msg_sender m)) (NotAuthorizedRegistrar (msg_sender m))"

definition register_identity_for :: "message \<Rightarrow> address \<Rightarrow> bytes32 \<Rightarrow> registry \<Rightarrow> contract_error + registry" where
  "register_identity_for m wallet hash s = andthen (only_registrar m s) (\<lambda>_. register_wallet m wallet hash s)"

definition require_active_wallet :: "registry \<Rightarrow> address \<Rightarrow> contract_error + unit" where
  "require_active_wallet s wallet =
    andthen (revert_if (\<not> idn_exists (rg_identities s wallet)) (IdentityNotFound wallet)) (\<lambda>_.
    revert_if (\<not> idn_active (rg_identities s wallet)) (IdentityNotActive wallet))"

definition update_identity_hash :: "message \<Rightarrow> bytes32 \<Rightarrow> registry \<Rightarrow> contract_error + registry" where
  "update_identity_hash m new_hash s =
    (let sender = msg_sender m; previous = rg_identities s sender in
    andthen (revert_if (new_hash = 0) EmptyHash) (\<lambda>_.
    andthen (require_active_wallet s sender) (\<lambda>_.
    Inr (emit_registry (IdentityHashUpdated sender (idn_hash previous) new_hash sender)
      (s\<lparr>rg_identities := (rg_identities s)(sender := previous\<lparr>idn_hash := new_hash\<rparr>)\<rparr>)))))"

definition revoke_identity :: "message \<Rightarrow> address \<Rightarrow> registry \<Rightarrow> contract_error + registry" where
  "revoke_identity m wallet s =
    andthen (revert_if (msg_sender m \<noteq> wallet \<and> \<not> rg_registrar s (msg_sender m))
               (NotAuthorizedRegistrar (msg_sender m))) (\<lambda>_.
    andthen (require_active_wallet s wallet) (\<lambda>_.
    Inr (emit_registry (IdentityRevoked wallet (msg_sender m))
      (s\<lparr>rg_identities := (rg_identities s)(wallet := (rg_identities s wallet)\<lparr>idn_active := False\<rparr>)\<rparr>))))"

definition reactivate_identity :: "message \<Rightarrow> address \<Rightarrow> registry \<Rightarrow> contract_error + registry" where
  "reactivate_identity m wallet s =
    andthen (only_registrar m s) (\<lambda>_.
    andthen (revert_if (\<not> idn_exists (rg_identities s wallet)) (IdentityNotFound wallet)) (\<lambda>_.
    andthen (revert_if (idn_active (rg_identities s wallet)) (IdentityAlreadyActive wallet)) (\<lambda>_.
    Inr (emit_registry (IdentityReactivated wallet (msg_sender m))
      (s\<lparr>rg_identities := (rg_identities s)(wallet := (rg_identities s wallet)\<lparr>idn_active := True\<rparr>)\<rparr>)))))"

subsection \<open>Organizations\<close>

text \<open>The new id; a count that would wrap reverts with an arithmetic panic.\<close>

definition create_organization :: "message \<Rightarrow> bytes32 \<Rightarrow> registry \<Rightarrow> contract_error + uint256 \<times> registry" where
  "create_organization m hash s =
    andthen (revert_if (hash = 0) EmptyHash) (\<lambda>_.
    andthen (require_active_wallet s (msg_sender m)) (\<lambda>_.
    andthen (revert_if (rg_count s = - 1) (Panic 17)) (\<lambda>_.
    let org = rg_count s + 1 in
    Inr (org, emit_registry (OrganizationCreated org (msg_sender m) hash (ucast (block_timestamp m)))
      (s\<lparr>rg_count := org,
         rg_organizations := (rg_organizations s)(org :=
           \<lparr>orgn_metadata_hash = hash, orgn_root_admin = msg_sender m, orgn_active = True,
            orgn_created_at = ucast (block_timestamp m)\<rparr>)\<rparr>)))))"

definition require_org :: "registry \<Rightarrow> uint256 \<Rightarrow> contract_error + organization" where
  "require_org s org =
    andthen (revert_if (\<not> organization_exists s org) (OrganizationNotFound org)) (\<lambda>_. Inr (rg_organizations s org))"

definition put_organization :: "uint256 \<Rightarrow> organization \<Rightarrow> registry \<Rightarrow> registry" where
  "put_organization org o' s = s\<lparr>rg_organizations := (rg_organizations s)(org := o')\<rparr>"

definition update_organization_metadata :: "message \<Rightarrow> uint256 \<Rightarrow> bytes32 \<Rightarrow> registry \<Rightarrow> contract_error + registry" where
  "update_organization_metadata m org new_hash s =
    andthen (revert_if (new_hash = 0) EmptyHash) (\<lambda>_.
    andthen (require_org s org) (\<lambda>o'.
    andthen (revert_if (orgn_root_admin o' \<noteq> msg_sender m) (NotOrgRootAdmin org (msg_sender m))) (\<lambda>_.
    Inr (emit_registry (OrganizationMetadataUpdated org (orgn_metadata_hash o') new_hash)
      (put_organization org (o'\<lparr>orgn_metadata_hash := new_hash\<rparr>) s)))))"

definition set_organization_active :: "message \<Rightarrow> uint256 \<Rightarrow> bool \<Rightarrow> registry \<Rightarrow> contract_error + registry" where
  "set_organization_active m org active s =
    andthen (require_org s org) (\<lambda>o'.
    andthen (revert_if (orgn_root_admin o' \<noteq> msg_sender m \<and> rg_owner s \<noteq> msg_sender m)
               (NotOrgRootAdmin org (msg_sender m))) (\<lambda>_.
    Inr (emit_registry (OrganizationStatusChanged org active (msg_sender m))
      (put_organization org (o'\<lparr>orgn_active := active\<rparr>) s))))"

definition transfer_org_root_admin :: "message \<Rightarrow> uint256 \<Rightarrow> address \<Rightarrow> registry \<Rightarrow> contract_error + registry" where
  "transfer_org_root_admin m org new_admin s =
    andthen (revert_if (new_admin = 0) ZeroAddress) (\<lambda>_.
    andthen (require_org s org) (\<lambda>o'.
    andthen (revert_if (orgn_root_admin o' \<noteq> msg_sender m) (NotOrgRootAdmin org (msg_sender m))) (\<lambda>_.
    andthen (require_active_wallet s new_admin) (\<lambda>_.
    Inr (emit_registry (OrgRootAdminTransferred org (orgn_root_admin o') new_admin)
      (put_organization org (o'\<lparr>orgn_root_admin := new_admin\<rparr>) s))))))"

subsection \<open>Calls\<close>

text \<open>One transaction on the registry; the inherited \<open>Ownable\<close> operations replace the owner only.\<close>

datatype registry_call =
    SetRegistrar address bool
  | RegisterIdentity bytes32
  | RegisterIdentityFor address bytes32
  | UpdateIdentityHash bytes32
  | RevokeIdentity address
  | ReactivateIdentity address
  | CreateOrganization bytes32
  | UpdateOrganizationMetadata uint256 bytes32
  | SetOrganizationActive uint256 bool
  | TransferOrgRootAdmin uint256 address

fun call_registry :: "message \<Rightarrow> registry_call \<Rightarrow> registry \<Rightarrow> contract_error + registry" where
  "call_registry m (SetRegistrar a b) s = set_registrar m a b s"
| "call_registry m (RegisterIdentity h) s = register_identity m h s"
| "call_registry m (RegisterIdentityFor a h) s = register_identity_for m a h s"
| "call_registry m (UpdateIdentityHash h) s = update_identity_hash m h s"
| "call_registry m (RevokeIdentity a) s = revoke_identity m a s"
| "call_registry m (ReactivateIdentity a) s = reactivate_identity m a s"
| "call_registry m (CreateOrganization h) s = andthen (create_organization m h s) (\<lambda>(org, s'). Inr s')"
| "call_registry m (UpdateOrganizationMetadata org h) s = update_organization_metadata m org h s"
| "call_registry m (SetOrganizationActive org b) s = set_organization_active m org b s"
| "call_registry m (TransferOrgRootAdmin org a) s = transfer_org_root_admin m org a s"

definition owner_replaced :: "address \<Rightarrow> registry \<Rightarrow> registry" where
  "owner_replaced a s = s\<lparr>rg_owner := a\<rparr>"

subsection \<open>The registry's invariant\<close>

text \<open>
  Ids are handed out in order: an organization exists exactly when a record with a root admin does,
  and only a registered wallet was ever made a root admin. The zero address has no identity.
\<close>

definition registry_ok :: "registry \<Rightarrow> bool" where
  "registry_ok s \<longleftrightarrow>
     (\<forall>org. organization_exists s org \<longleftrightarrow> org_root_admin s org \<noteq> 0)
     \<and> (\<forall>org. org_root_admin s org \<noteq> 0 \<longrightarrow> is_registered_identity s (org_root_admin s org))
     \<and> \<not> is_registered_identity s 0
     \<and> (\<forall>a. is_registered_identity s a \<longrightarrow> idn_hash (rg_identities s a) \<noteq> 0)"

lemma registry_ok_deployed: "deploy_registry a = Inr s \<Longrightarrow> registry_ok s"
  by (auto simp: deploy_registry_def call_iff registry_ok_def organization_exists_def org_root_admin_def
      is_registered_identity_def no_identity_def no_organization_def)

lemmas registry_views = is_active_identity_def is_registered_identity_def organization_exists_def
  is_organization_active_def org_root_admin_def

lemmas registry_operations = set_registrar_def register_wallet_def register_identity_def only_registrar_def
  register_identity_for_def require_active_wallet_def update_identity_hash_def revoke_identity_def
  reactivate_identity_def create_organization_def require_org_def put_organization_def
  update_organization_metadata_def set_organization_active_def transfer_org_root_admin_def emit_registry_def

lemma registry_ok_owner [simp]: "registry_ok (owner_replaced a s) = registry_ok s"
  by (simp add: registry_ok_def registry_views owner_replaced_def)

lemma next_id:
  fixes c org :: uint256
  assumes "c \<noteq> - 1"
  shows "(org \<noteq> 0 \<and> org \<le> c + 1) \<longleftrightarrow> (org \<noteq> 0 \<and> org \<le> c) \<or> org = c + 1"
proof -
  have "1 + c \<noteq> 0" using assms by (metis add_eq_0_iff)
  then have up: "unat (c + 1) = Suc (unat c)" by (metis unatSuc add.commute)
  moreover have "c + 1 \<noteq> 0" using \<open>1 + c \<noteq> 0\<close> by (simp add: add.commute)
  moreover have "org = c + 1 \<longleftrightarrow> unat org = Suc (unat c)" using up by (metis unsigned_word_eqI)
  ultimately show ?thesis by (auto simp: word_le_nat_alt)
qed

text \<open>The two kinds of update, and then every transaction on the registry, keep the invariant.\<close>

lemma registry_ok_identity:
  assumes "registry_ok s" and "a \<noteq> 0" and "idn_exists i" and "idn_hash i \<noteq> 0"
  shows "registry_ok (emit_registry e (s\<lparr>rg_identities := (rg_identities s)(a := i)\<rparr>))"
  using assms by (auto simp: registry_ok_def registry_views emit_registry_def)

lemma registry_ok_organization:
  assumes "registry_ok s" and "organization_exists s org" and "orgn_root_admin o' \<noteq> 0"
    and "is_registered_identity s (orgn_root_admin o')"
  shows "registry_ok (emit_registry e (put_organization org o' s))"
  using assms by (auto simp: registry_ok_def registry_views emit_registry_def put_organization_def)

lemma registry_ok_known:
  assumes "registry_ok s"
  shows "idn_exists (rg_identities s a) \<Longrightarrow> a \<noteq> 0 \<and> idn_hash (rg_identities s a) \<noteq> 0"
    and "organization_exists s org \<Longrightarrow> orgn_root_admin (rg_organizations s org) \<noteq> 0
           \<and> is_registered_identity s (orgn_root_admin (rg_organizations s org))"
  using assms by (auto simp: registry_ok_def is_registered_identity_def org_root_admin_def)

lemma registry_ok_create:
  assumes ok: "registry_ok s" and c: "create_organization m h s = Inr (org, s')"
  shows "registry_ok s'" and "org = rg_count s + 1" and "org_root_admin s' org = msg_sender m"
proof -
  let ?o = "\<lparr>orgn_metadata_hash = h, orgn_root_admin = msg_sender m, orgn_active = True,
    orgn_created_at = ucast (block_timestamp m)\<rparr>"
  from c have sender: "is_registered_identity s (msg_sender m)" and top: "rg_count s \<noteq> - 1"
    and org: "org = rg_count s + 1"
    and s': "s' = emit_registry (OrganizationCreated org (msg_sender m) h (ucast (block_timestamp m)))
      (put_organization org ?o (s\<lparr>rg_count := org\<rparr>))"
    by (auto simp: create_organization_def require_active_wallet_def call_iff Let_def is_registered_identity_def
        put_organization_def)
  show "org = rg_count s + 1" by fact
  show admin: "org_root_admin s' org = msg_sender m"
    by (simp add: s' org_root_admin_def put_organization_def emit_registry_def)
  have nz: "msg_sender m \<noteq> 0" using sender ok by (auto simp: registry_ok_def)
  have "organization_exists s' i \<longleftrightarrow> organization_exists s i \<or> i = org" for i
    using next_id[OF top] by (simp add: s' org organization_exists_def put_organization_def emit_registry_def)
  moreover have "org_root_admin s' i = (if i = org then msg_sender m else org_root_admin s i)" for i
    by (simp add: s' org_root_admin_def put_organization_def emit_registry_def)
  moreover have "rg_identities s' = rg_identities s" by (simp add: s' put_organization_def emit_registry_def)
  ultimately show "registry_ok s'"
    using ok sender nz by (auto simp: registry_ok_def is_registered_identity_def)
qed

lemma registry_ok_call:
  assumes ok: "registry_ok s" and c: "call_registry m c s = Inr s'"
  shows "registry_ok s'"
proof (cases c)
  case (SetRegistrar a b)
  with ok c show ?thesis
    by (auto simp: set_registrar_def call_iff registry_ok_def registry_views emit_registry_def)
next
  case (CreateOrganization h)
  with c show ?thesis by (auto simp: call_iff dest: registry_ok_create(1)[OF ok])
next
  case (UpdateOrganizationMetadata org h)
  with c registry_ok_known(2)[OF ok, of org] show ?thesis
    by (auto simp: update_organization_metadata_def require_org_def call_iff intro!: registry_ok_organization[OF ok])
next
  case (SetOrganizationActive org b)
  with c registry_ok_known(2)[OF ok, of org] show ?thesis
    by (auto simp: set_organization_active_def require_org_def call_iff intro!: registry_ok_organization[OF ok])
next
  case (TransferOrgRootAdmin org a)
  with c registry_ok_known[OF ok] show ?thesis
    by (auto simp: transfer_org_root_admin_def require_org_def require_active_wallet_def call_iff
        is_registered_identity_def intro!: registry_ok_organization[OF ok])
qed (use c registry_ok_known(1)[OF ok] in \<open>auto simp: register_identity_def register_identity_for_def register_wallet_def
  only_registrar_def update_identity_hash_def revoke_identity_def reactivate_identity_def require_active_wallet_def
  Let_def call_iff intro!: registry_ok_identity[OF ok]\<close>)

end
