(* ===== verification/AccessContract.thy ===== *)
theory AccessContract
  imports IdentityContract
begin

text \<open>
  \<open>contracts/OrgAccessManager.sol\<close>: memberships, permissions and application access per organization.
  The identity registry it consults is an argument; \<open>K\<close> is \<open>keccak256\<close> of a text. Indexing a storage
  array out of range and subtracting below zero are the compiler's panics.
\<close>

subsection \<open>Roles, permissions and state\<close>

definition role_none :: bytes32 where "role_none = 0"

definition role_admin :: "(string \<Rightarrow> bytes32) \<Rightarrow> bytes32" where "role_admin K = K ''OWNEX_ROLE_ADMIN''"

definition role_manager :: "(string \<Rightarrow> bytes32) \<Rightarrow> bytes32" where "role_manager K = K ''OWNEX_ROLE_MANAGER''"

definition role_auditor :: "(string \<Rightarrow> bytes32) \<Rightarrow> bytes32" where "role_auditor K = K ''OWNEX_ROLE_AUDITOR''"

definition role_user :: "(string \<Rightarrow> bytes32) \<Rightarrow> bytes32" where "role_user K = K ''OWNEX_ROLE_USER''"

definition perm_manage_members :: "(string \<Rightarrow> bytes32) \<Rightarrow> bytes32" where
  "perm_manage_members K = K ''PERM_MANAGE_MEMBERS''"

definition perm_assign_roles :: "(string \<Rightarrow> bytes32) \<Rightarrow> bytes32" where
  "perm_assign_roles K = K ''PERM_ASSIGN_ROLES''"

definition perm_mint_assets :: "(string \<Rightarrow> bytes32) \<Rightarrow> bytes32" where
  "perm_mint_assets K = K ''PERM_MINT_ASSETS''"

definition perm_transfer_assets :: "(string \<Rightarrow> bytes32) \<Rightarrow> bytes32" where
  "perm_transfer_assets K = K ''PERM_TRANSFER_ASSETS''"

definition perm_view_audit :: "(string \<Rightarrow> bytes32) \<Rightarrow> bytes32" where
  "perm_view_audit K = K ''PERM_VIEW_AUDIT''"

definition perm_manage_apps :: "(string \<Rightarrow> bytes32) \<Rightarrow> bytes32" where
  "perm_manage_apps K = K ''PERM_MANAGE_APPS''"

datatype override = OverrideUnset | OverrideAllowed | OverrideDenied

record membership =
  mb_role :: bytes32
  mb_joined_at :: uint64
  mb_expires_at :: uint64

datatype access_event =
    MemberAdded uint256 address bytes32 uint64 address
  | MemberRemoved uint256 address bytes32 address
  | RoleAssigned uint256 address bytes32 bytes32 uint64 address
  | RoleExpiryUpdated uint256 address uint64 uint64 address
  | PermissionUpdated uint256 bytes32 bytes32 override address
  | ApplicationRegistered uint256 bytes32 bytes32 address
  | AppAccessChanged uint256 bytes32 bytes32 bool address

record access_manager =
  am_memberships :: "uint256 \<Rightarrow> address \<Rightarrow> membership"
  am_list :: "uint256 \<Rightarrow> address list"
  am_index :: "uint256 \<Rightarrow> address \<Rightarrow> nat"
  am_override :: "uint256 \<Rightarrow> bytes32 \<Rightarrow> bytes32 \<Rightarrow> override"
  am_app_metadata :: "uint256 \<Rightarrow> bytes32 \<Rightarrow> bytes32"
  am_app_registered :: "uint256 \<Rightarrow> bytes32 \<Rightarrow> bool"
  am_app_access :: "uint256 \<Rightarrow> bytes32 \<Rightarrow> bytes32 \<Rightarrow> bool"
  am_events :: "access_event list"

definition no_membership :: membership where
  "no_membership = \<lparr>mb_role = role_none, mb_joined_at = 0, mb_expires_at = 0\<rparr>"

text \<open>The constructor, given the registry's address.\<close>

definition deploy_access_manager :: "address \<Rightarrow> contract_error + access_manager" where
  "deploy_access_manager registry_address =
    andthen (revert_if (registry_address = 0) ZeroAddress) (\<lambda>_.
    Inr \<lparr>am_memberships = (\<lambda>_ _. no_membership), am_list = (\<lambda>_. []), am_index = (\<lambda>_ _. 0),
         am_override = (\<lambda>_ _ _. OverrideUnset), am_app_metadata = (\<lambda>_ _. 0), am_app_registered = (\<lambda>_ _. False),
         am_app_access = (\<lambda>_ _ _. False), am_events = []\<rparr>)"

definition emit_access :: "access_event list \<Rightarrow> access_manager \<Rightarrow> access_manager" where
  "emit_access es a = a\<lparr>am_events := am_events a @ es\<rparr>"

text \<open>An update of one entry of a mapping of mappings.\<close>

definition put2 :: "'a \<Rightarrow> 'b \<Rightarrow> 'c \<Rightarrow> ('a \<Rightarrow> 'b \<Rightarrow> 'c) \<Rightarrow> 'a \<Rightarrow> 'b \<Rightarrow> 'c" where
  "put2 x y v f = f(x := (f x)(y := v))"

lemma put2_apply [simp]: "put2 x y v f i j = (if i = x \<and> j = y then v else f i j)"
  by (simp add: put2_def)

subsection \<open>Views\<close>

definition effective_role :: "(string \<Rightarrow> bytes32) \<Rightarrow> registry \<Rightarrow> uint256 \<Rightarrow> access_manager \<Rightarrow> uint256 \<Rightarrow> address \<Rightarrow> bytes32" where
  "effective_role K r now a org wallet =
    (if \<not> is_active_identity r wallet then role_none
     else if org_root_admin r org = wallet then role_admin K
     else let m = am_memberships a org wallet in
       if mb_role m = role_none then role_none
       else if mb_expires_at m \<noteq> 0 \<and> ucast (mb_expires_at m) \<le> now then role_none
       else mb_role m)"

definition default_permission :: "(string \<Rightarrow> bytes32) \<Rightarrow> bytes32 \<Rightarrow> bytes32 \<Rightarrow> bool" where
  "default_permission K role permission =
    (if role = role_admin K then
       permission = perm_manage_members K \<or> permission = perm_assign_roles K
       \<or> permission = perm_mint_assets K \<or> permission = perm_transfer_assets K
       \<or> permission = perm_view_audit K \<or> permission = perm_manage_apps K
     else if role = role_manager K then permission = perm_transfer_assets K \<or> permission = perm_view_audit K
     else if role = role_auditor K then permission = perm_view_audit K
     else False)"

definition has_permission :: "(string \<Rightarrow> bytes32) \<Rightarrow> registry \<Rightarrow> uint256 \<Rightarrow> access_manager \<Rightarrow> uint256 \<Rightarrow> address \<Rightarrow> bytes32 \<Rightarrow> bool" where
  "has_permission K r now a org wallet permission =
    (if \<not> is_organization_active r org then False
     else let role = effective_role K r now a org wallet in
       if role = role_none then False
       else (case am_override a org role permission of
               OverrideAllowed \<Rightarrow> True
             | OverrideDenied \<Rightarrow> False
             | OverrideUnset \<Rightarrow> default_permission K role permission))"

definition can_access_app :: "(string \<Rightarrow> bytes32) \<Rightarrow> registry \<Rightarrow> uint256 \<Rightarrow> access_manager \<Rightarrow> uint256 \<Rightarrow> address \<Rightarrow> bytes32 \<Rightarrow> bool" where
  "can_access_app K r now a org wallet app =
    (if \<not> am_app_registered a org app then False
     else if \<not> is_organization_active r org then False
     else let role = effective_role K r now a org wallet in
       if role = role_none then False else am_app_access a org app role)"

definition is_member :: "(string \<Rightarrow> bytes32) \<Rightarrow> registry \<Rightarrow> uint256 \<Rightarrow> access_manager \<Rightarrow> uint256 \<Rightarrow> address \<Rightarrow> bool" where
  "is_member K r now a org wallet = (effective_role K r now a org wallet \<noteq> role_none)"

definition get_members :: "access_manager \<Rightarrow> uint256 \<Rightarrow> address list" where
  "get_members a org = am_list a org"

text \<open>A page of the list; an end that does not fit 256 bits is an arithmetic panic.\<close>

definition get_members_paged :: "access_manager \<Rightarrow> uint256 \<Rightarrow> nat \<Rightarrow> nat \<Rightarrow> contract_error + address list" where
  "get_members_paged a org offset limit =
    (let members = am_list a org in
     if offset \<ge> length members then Inr []
     else if offset + limit \<ge> 2 ^ 256 then Inl (Panic 17)
     else Inr (map (\<lambda>i. members ! i) [offset..<min (offset + limit) (length members)]))"

subsection \<open>Guards\<close>

definition is_valid_role :: "(string \<Rightarrow> bytes32) \<Rightarrow> bytes32 \<Rightarrow> bool" where
  "is_valid_role K role = (role = role_admin K \<or> role = role_manager K \<or> role = role_auditor K \<or> role = role_user K)"

definition require_active_org :: "registry \<Rightarrow> uint256 \<Rightarrow> contract_error + unit" where
  "require_active_org r org =
    andthen (revert_if (\<not> organization_exists r org) (OrganizationNotFound org)) (\<lambda>_.
    revert_if (\<not> is_organization_active r org) (OrganizationSuspended org))"

definition require_org_permission ::
  "(string \<Rightarrow> bytes32) \<Rightarrow> registry \<Rightarrow> message \<Rightarrow> access_manager \<Rightarrow> uint256 \<Rightarrow> bytes32 \<Rightarrow> contract_error + unit" where
  "require_org_permission K r m a org permission =
    revert_if (\<not> has_permission K r (block_timestamp m) a org (msg_sender m) permission)
      (MissingPermission org (msg_sender m) permission)"

definition require_future_expiry :: "message \<Rightarrow> uint64 \<Rightarrow> contract_error + unit" where
  "require_future_expiry m expires_at =
    revert_if (expires_at \<noteq> 0 \<and> ucast expires_at \<le> block_timestamp m) (ExpiryInPast expires_at)"

subsection \<open>Members\<close>

definition add_member ::
  "(string \<Rightarrow> bytes32) \<Rightarrow> registry \<Rightarrow> message \<Rightarrow> uint256 \<Rightarrow> address \<Rightarrow> bytes32 \<Rightarrow> uint64 \<Rightarrow> access_manager
   \<Rightarrow> contract_error + access_manager" where
  "add_member K r m org wallet role expires_at a =
    andthen (require_active_org r org) (\<lambda>_.
    andthen (require_org_permission K r m a org (perm_manage_members K)) (\<lambda>_.
    andthen (revert_if (wallet = 0) ZeroAddress) (\<lambda>_.
    andthen (revert_if (\<not> is_valid_role K role) (InvalidRole role)) (\<lambda>_.
    andthen (revert_if (\<not> is_active_identity r wallet) (IdentityNotActive wallet)) (\<lambda>_.
    andthen (revert_if (mb_role (am_memberships a org wallet) \<noteq> role_none) (AlreadyMember org wallet)) (\<lambda>_.
    andthen (require_future_expiry m expires_at) (\<lambda>_.
    Inr (emit_access
      [MemberAdded org wallet role expires_at (msg_sender m),
       RoleAssigned org wallet role_none role expires_at (msg_sender m)]
      (a\<lparr>am_memberships := put2 org wallet
           \<lparr>mb_role = role, mb_joined_at = ucast (block_timestamp m), mb_expires_at = expires_at\<rparr> (am_memberships a),
         am_index := put2 org wallet (length (am_list a org)) (am_index a),
         am_list := (am_list a)(org := am_list a org @ [wallet])\<rparr>)))))))))"

definition assign_role ::
  "(string \<Rightarrow> bytes32) \<Rightarrow> registry \<Rightarrow> message \<Rightarrow> uint256 \<Rightarrow> address \<Rightarrow> bytes32 \<Rightarrow> uint64 \<Rightarrow> access_manager
   \<Rightarrow> contract_error + access_manager" where
  "assign_role K r m org wallet role expires_at a =
    (let mb = am_memberships a org wallet in
    andthen (require_active_org r org) (\<lambda>_.
    andthen (require_org_permission K r m a org (perm_assign_roles K)) (\<lambda>_.
    andthen (revert_if (wallet = msg_sender m) CannotTargetSelf) (\<lambda>_.
    andthen (revert_if (wallet = org_root_admin r org) (CannotModifyRootAdmin org)) (\<lambda>_.
    andthen (revert_if (\<not> is_valid_role K role) (InvalidRole role)) (\<lambda>_.
    andthen (revert_if (\<not> is_active_identity r wallet) (IdentityNotActive wallet)) (\<lambda>_.
    andthen (require_future_expiry m expires_at) (\<lambda>_.
    andthen (revert_if (mb_role mb = role_none) (NotMember org wallet)) (\<lambda>_.
    Inr (emit_access [RoleAssigned org wallet (mb_role mb) role expires_at (msg_sender m)]
      (a\<lparr>am_memberships := put2 org wallet (mb\<lparr>mb_role := role, mb_expires_at := expires_at\<rparr>)
           (am_memberships a)\<rparr>)))))))))))"

definition set_role_expiry ::
  "(string \<Rightarrow> bytes32) \<Rightarrow> registry \<Rightarrow> message \<Rightarrow> uint256 \<Rightarrow> address \<Rightarrow> uint64 \<Rightarrow> access_manager
   \<Rightarrow> contract_error + access_manager" where
  "set_role_expiry K r m org wallet expires_at a =
    (let mb = am_memberships a org wallet in
    andthen (require_active_org r org) (\<lambda>_.
    andthen (require_org_permission K r m a org (perm_assign_roles K)) (\<lambda>_.
    andthen (revert_if (wallet = org_root_admin r org) (CannotModifyRootAdmin org)) (\<lambda>_.
    andthen (require_future_expiry m expires_at) (\<lambda>_.
    andthen (revert_if (mb_role mb = role_none) (NotMember org wallet)) (\<lambda>_.
    Inr (emit_access [RoleExpiryUpdated org wallet (mb_expires_at mb) expires_at (msg_sender m)]
      (a\<lparr>am_memberships := put2 org wallet (mb\<lparr>mb_expires_at := expires_at\<rparr>) (am_memberships a)\<rparr>))))))))"

text \<open>\<open>list[idx] = last; _memberIndex[last] = idx; list.pop(); delete _memberIndex[wallet]\<close>\<close>

definition swap_and_pop :: "uint256 \<Rightarrow> address \<Rightarrow> access_manager \<Rightarrow> contract_error + access_manager" where
  "swap_and_pop org wallet a =
    (let idx = am_index a org wallet; members = am_list a org in
     andthen (revert_if (members = []) (Panic 17)) (\<lambda>_.
     andthen (revert_if (idx \<ge> length members) (Panic 50)) (\<lambda>_.
     let moved = members ! (length members - 1) in
     Inr (a\<lparr>am_list := (am_list a)(org := butlast (members[idx := moved])),
            am_index := put2 org wallet 0 (put2 org moved idx (am_index a))\<rparr>))))"

definition remove_member ::
  "(string \<Rightarrow> bytes32) \<Rightarrow> registry \<Rightarrow> message \<Rightarrow> uint256 \<Rightarrow> address \<Rightarrow> access_manager \<Rightarrow> contract_error + access_manager" where
  "remove_member K r m org wallet a =
    (let previous = mb_role (am_memberships a org wallet) in
    andthen (require_active_org r org) (\<lambda>_.
    andthen (require_org_permission K r m a org (perm_manage_members K)) (\<lambda>_.
    andthen (revert_if (wallet = msg_sender m) CannotTargetSelf) (\<lambda>_.
    andthen (revert_if (wallet = org_root_admin r org) (CannotModifyRootAdmin org)) (\<lambda>_.
    andthen (revert_if (previous = role_none) (NotMember org wallet)) (\<lambda>_.
    andthen (swap_and_pop org wallet (a\<lparr>am_memberships := put2 org wallet no_membership (am_memberships a)\<rparr>)) (\<lambda>a'.
    Inr (emit_access [MemberRemoved org wallet previous (msg_sender m)] a'))))))))"

subsection \<open>Permissions and applications\<close>

definition set_permission ::
  "(string \<Rightarrow> bytes32) \<Rightarrow> registry \<Rightarrow> message \<Rightarrow> uint256 \<Rightarrow> bytes32 \<Rightarrow> bytes32 \<Rightarrow> override \<Rightarrow> access_manager
   \<Rightarrow> contract_error + access_manager" where
  "set_permission K r m org role permission state a =
    andthen (require_active_org r org) (\<lambda>_.
    andthen (revert_if (effective_role K r (block_timestamp m) a org (msg_sender m) \<noteq> role_admin K)
               (MissingPermission org (msg_sender m) (perm_assign_roles K))) (\<lambda>_.
    andthen (revert_if (\<not> is_valid_role K role) (InvalidRole role)) (\<lambda>_.
    andthen (revert_if (role = role_admin K
                 \<and> (permission = perm_assign_roles K \<or> permission = perm_manage_members K) \<and> state = OverrideDenied)
               CannotDisableAdminGovernance) (\<lambda>_.
    Inr (emit_access [PermissionUpdated org role permission state (msg_sender m)]
      (a\<lparr>am_override := (am_override a)(org := put2 role permission state (am_override a org))\<rparr>))))))"

definition register_application ::
  "(string \<Rightarrow> bytes32) \<Rightarrow> registry \<Rightarrow> message \<Rightarrow> uint256 \<Rightarrow> bytes32 \<Rightarrow> bytes32 \<Rightarrow> access_manager
   \<Rightarrow> contract_error + access_manager" where
  "register_application K r m org app metadata_hash a =
    andthen (require_active_org r org) (\<lambda>_.
    andthen (require_org_permission K r m a org (perm_manage_apps K)) (\<lambda>_.
    andthen (revert_if (app = 0 \<or> metadata_hash = 0) EmptyHash) (\<lambda>_.
    andthen (revert_if (am_app_registered a org app) (ApplicationAlreadyRegistered org app)) (\<lambda>_.
    Inr (emit_access [ApplicationRegistered org app metadata_hash (msg_sender m)]
      (a\<lparr>am_app_registered := put2 org app True (am_app_registered a),
         am_app_metadata := put2 org app metadata_hash (am_app_metadata a)\<rparr>))))))"

definition set_app_access ::
  "(string \<Rightarrow> bytes32) \<Rightarrow> registry \<Rightarrow> message \<Rightarrow> uint256 \<Rightarrow> bytes32 \<Rightarrow> bytes32 \<Rightarrow> bool \<Rightarrow> access_manager
   \<Rightarrow> contract_error + access_manager" where
  "set_app_access K r m org app role allowed a =
    andthen (require_active_org r org) (\<lambda>_.
    andthen (require_org_permission K r m a org (perm_manage_apps K)) (\<lambda>_.
    andthen (revert_if (\<not> am_app_registered a org app) (ApplicationNotRegistered org app)) (\<lambda>_.
    andthen (revert_if (\<not> is_valid_role K role) (InvalidRole role)) (\<lambda>_.
    Inr (emit_access [AppAccessChanged org app role allowed (msg_sender m)]
      (a\<lparr>am_app_access := (am_app_access a)(org := put2 app role allowed (am_app_access a org))\<rparr>))))))"

subsection \<open>Calls and reachable states\<close>

datatype access_call =
    AddMember uint256 address bytes32 uint64
  | AssignRole uint256 address bytes32 uint64
  | SetRoleExpiry uint256 address uint64
  | RemoveMember uint256 address
  | SetPermission uint256 bytes32 bytes32 override
  | RegisterApplication uint256 bytes32 bytes32
  | SetAppAccess uint256 bytes32 bytes32 bool

fun call_access ::
  "(string \<Rightarrow> bytes32) \<Rightarrow> registry \<Rightarrow> message \<Rightarrow> access_call \<Rightarrow> access_manager \<Rightarrow> contract_error + access_manager" where
  "call_access K r m (AddMember org w role e) a = add_member K r m org w role e a"
| "call_access K r m (AssignRole org w role e) a = assign_role K r m org w role e a"
| "call_access K r m (SetRoleExpiry org w e) a = set_role_expiry K r m org w e a"
| "call_access K r m (RemoveMember org w) a = remove_member K r m org w a"
| "call_access K r m (SetPermission org role p st) a = set_permission K r m org role p st a"
| "call_access K r m (RegisterApplication org app h) a = register_application K r m org app h a"
| "call_access K r m (SetAppAccess org app role b) a = set_app_access K r m org app role b a"

text \<open>The two contracts after any transactions on either, the registry's owner included.\<close>

inductive deployed :: "(string \<Rightarrow> bytes32) \<Rightarrow> registry \<times> access_manager \<Rightarrow> bool" for K where
  fresh: "deploy_registry owner = Inr r \<Longrightarrow> deploy_access_manager at = Inr a \<Longrightarrow> deployed K (r, a)"
| on_registry: "deployed K (r, a) \<Longrightarrow> call_registry m c r = Inr r' \<Longrightarrow> deployed K (r', a)"
| on_owner: "deployed K (r, a) \<Longrightarrow> deployed K (owner_replaced w r, a)"
| on_access: "deployed K (r, a) \<Longrightarrow> call_access K r m d a = Inr a' \<Longrightarrow> deployed K (r, a')"

inductive_cases deployedE: "deployed K (r, a)"

end
