(* ===== verification/ContractProps.thy ===== *)
theory ContractProps
  imports AccessContract
begin

text \<open>
  What the two contracts keep, whatever is called on them: the member list enumerates exactly the
  memberships, roles are known roles, and no organization can lose its administration.
\<close>

subsection \<open>Swap and pop\<close>

definition swap_pop :: "nat \<Rightarrow> 'a list \<Rightarrow> 'a list" where
  "swap_pop i xs = butlast (xs[i := xs ! (length xs - 1)])"

lemma swap_pop_nth: "j < length xs - 1 \<Longrightarrow> swap_pop i xs ! j = (if j = i then xs ! (length xs - 1) else xs ! j)"
  by (auto simp: swap_pop_def nth_butlast nth_list_update)

lemma swap_pop_length [simp]: "length (swap_pop i xs) = length xs - 1"
  by (simp add: swap_pop_def)

lemma swap_pop_distinct:
  assumes "distinct xs" and "i < length xs"
  shows "distinct (swap_pop i xs)"
  using assms by (auto simp: distinct_conv_nth swap_pop_nth)

lemma swap_pop_set:
  assumes "distinct xs" and i: "i < length xs"
  shows "set (swap_pop i xs) = set xs - {xs ! i}"
proof (intro equalityI subsetI)
  fix x assume "x \<in> set (swap_pop i xs)"
  then obtain j where j: "j < length xs - 1" "x = swap_pop i xs ! j" by (auto simp: in_set_conv_nth)
  with assms show "x \<in> set xs - {xs ! i}"
    by (auto simp: swap_pop_nth nth_eq_iff_index_eq split: if_splits)
next
  fix x assume "x \<in> set xs - {xs ! i}"
  then obtain j where j: "j < length xs" "x = xs ! j" "j \<noteq> i" by (auto simp: in_set_conv_nth)
  have "\<exists>k < length xs - 1. swap_pop i xs ! k = x"
  proof (cases "j = length xs - 1")
    case True
    with j i have "i < length xs - 1" by linarith
    with True j show ?thesis by (intro exI[of _ i]) (simp add: swap_pop_nth)
  next
    case False
    with j show ?thesis by (intro exI[of _ j]) (simp add: swap_pop_nth)
  qed
  then show "x \<in> set (swap_pop i xs)" by (auto simp: in_set_conv_nth)
qed

subsection \<open>The invariant\<close>

text \<open>What \<open>keccak256\<close> promises about the role names: no two collide, and none hashes to zero.\<close>

definition roles_distinct :: "(string \<Rightarrow> bytes32) \<Rightarrow> bool" where
  "roles_distinct K \<longleftrightarrow> distinct [role_none, role_admin K, role_manager K, role_auditor K, role_user K]"

definition members_listed :: "access_manager \<Rightarrow> uint256 \<Rightarrow> bool" where
  "members_listed a org \<longleftrightarrow>
     distinct (am_list a org)
     \<and> (\<forall>w. w \<in> set (am_list a org) \<longleftrightarrow> mb_role (am_memberships a org w) \<noteq> role_none)
     \<and> (\<forall>i < length (am_list a org). am_index a org (am_list a org ! i) = i)"

definition governed :: "(string \<Rightarrow> bytes32) \<Rightarrow> access_manager \<Rightarrow> uint256 \<Rightarrow> bool" where
  "governed K a org \<longleftrightarrow>
     am_override a org (role_admin K) (perm_assign_roles K) \<noteq> OverrideDenied
     \<and> am_override a org (role_admin K) (perm_manage_members K) \<noteq> OverrideDenied"

definition roles_known :: "(string \<Rightarrow> bytes32) \<Rightarrow> access_manager \<Rightarrow> uint256 \<Rightarrow> bool" where
  "roles_known K a org \<longleftrightarrow> (\<forall>w. mb_role (am_memberships a org w) \<noteq> role_none
     \<longrightarrow> is_valid_role K (mb_role (am_memberships a org w)))"

definition apps_known :: "(string \<Rightarrow> bytes32) \<Rightarrow> access_manager \<Rightarrow> uint256 \<Rightarrow> bool" where
  "apps_known K a org \<longleftrightarrow>
     (\<forall>app. am_app_registered a org app \<longrightarrow> app \<noteq> 0 \<and> am_app_metadata a org app \<noteq> 0)
     \<and> (\<forall>app role. am_app_access a org app role \<longrightarrow> am_app_registered a org app \<and> is_valid_role K role)"

definition access_ok :: "(string \<Rightarrow> bytes32) \<Rightarrow> access_manager \<Rightarrow> bool" where
  "access_ok K a \<longleftrightarrow> (\<forall>org. members_listed a org \<and> governed K a org \<and> roles_known K a org \<and> apps_known K a org)"

lemmas access_parts = members_listed_def governed_def roles_known_def apps_known_def

lemma valid_role_not_none: "roles_distinct K \<Longrightarrow> is_valid_role K role \<Longrightarrow> role \<noteq> role_none"
  by (auto simp: roles_distinct_def is_valid_role_def)

lemma emit_access_simps [simp]:
  "am_memberships (emit_access es a) = am_memberships a" "am_list (emit_access es a) = am_list a"
  "am_index (emit_access es a) = am_index a" "am_override (emit_access es a) = am_override a"
  "am_app_metadata (emit_access es a) = am_app_metadata a" "am_app_registered (emit_access es a) = am_app_registered a"
  "am_app_access (emit_access es a) = am_app_access a"
  by (simp_all add: emit_access_def)

text \<open>Each part depends on its own mappings.\<close>

lemma parts_emit [simp]:
  "members_listed (emit_access es a) = members_listed a" "governed K (emit_access es a) = governed K a"
  "roles_known K (emit_access es a) = roles_known K a" "apps_known K (emit_access es a) = apps_known K a"
  by (simp_all add: fun_eq_iff access_parts)

lemma access_ok_emit [simp]: "access_ok K (emit_access es a) = access_ok K a"
  by (simp add: access_ok_def)

lemma parts_updates [simp]:
  "members_listed (a\<lparr>am_override := f\<rparr>) = members_listed a"
  "roles_known K (a\<lparr>am_override := f\<rparr>) = roles_known K a"
  "apps_known K (a\<lparr>am_override := f\<rparr>) = apps_known K a"
  "members_listed (a\<lparr>am_app_registered := g, am_app_metadata := h\<rparr>) = members_listed a"
  "governed K (a\<lparr>am_app_registered := g, am_app_metadata := h\<rparr>) = governed K a"
  "roles_known K (a\<lparr>am_app_registered := g, am_app_metadata := h\<rparr>) = roles_known K a"
  "members_listed (a\<lparr>am_app_access := k\<rparr>) = members_listed a"
  "governed K (a\<lparr>am_app_access := k\<rparr>) = governed K a"
  "roles_known K (a\<lparr>am_app_access := k\<rparr>) = roles_known K a"
  "governed K (a\<lparr>am_memberships := ms\<rparr>) = governed K a"
  "apps_known K (a\<lparr>am_memberships := ms\<rparr>) = apps_known K a"
  by (simp_all add: fun_eq_iff access_parts)

lemma access_ok_deployed: "deploy_access_manager at = Inr a \<Longrightarrow> access_ok K a"
  by (auto simp: deploy_access_manager_def call_iff access_ok_def access_parts no_membership_def)

lemma add_member_ok:
  assumes K: "roles_distinct K" and ok: "access_ok K a" and c: "add_member K r m org wallet role e a = Inr a'"
  shows "access_ok K a'"
proof -
  from c have role: "is_valid_role K role" and new: "mb_role (am_memberships a org wallet) = role_none"
    and a': "am_memberships a' = put2 org wallet
        \<lparr>mb_role = role, mb_joined_at = ucast (block_timestamp m), mb_expires_at = e\<rparr> (am_memberships a)"
      "am_index a' = put2 org wallet (length (am_list a org)) (am_index a)"
      "am_list a' = (am_list a)(org := am_list a org @ [wallet])"
      "am_override a' = am_override a" "am_app_registered a' = am_app_registered a"
      "am_app_metadata a' = am_app_metadata a" "am_app_access a' = am_app_access a"
    by (auto simp: add_member_def call_iff)
  from ok have listed: "members_listed a i" for i by (simp add: access_ok_def)
  with new have fresh: "wallet \<notin> set (am_list a org)" by (simp add: members_listed_def)
  have "members_listed a' i" for i
    using listed[of i] fresh new valid_role_not_none[OF K role] unfolding members_listed_def a'
    by (cases "i = org") (auto simp: nth_append)
  with ok role show ?thesis by (auto simp: access_ok_def governed_def roles_known_def apps_known_def a')
qed

lemma remove_member_ok:
  assumes ok: "access_ok K a" and c: "remove_member K r m org wallet a = Inr a'"
  shows "access_ok K a'"
    and "am_memberships a' = put2 org wallet no_membership (am_memberships a)"
    and "am_list a' = (am_list a)(org := swap_pop (am_index a org wallet) (am_list a org))"
proof -
  let ?xs = "am_list a org" and ?i = "am_index a org wallet"
  let ?moved = "?xs ! (length ?xs - 1)"
  from c have role: "mb_role (am_memberships a org wallet) \<noteq> role_none"
    and a': "am_memberships a' = put2 org wallet no_membership (am_memberships a)"
      "am_index a' = put2 org wallet 0 (put2 org ?moved ?i (am_index a))"
      "am_list a' = (am_list a)(org := swap_pop ?i ?xs)"
      "am_override a' = am_override a" "am_app_registered a' = am_app_registered a"
      "am_app_metadata a' = am_app_metadata a" "am_app_access a' = am_app_access a"
    by (auto simp: remove_member_def swap_and_pop_def call_iff Let_def swap_pop_def)
  show "am_memberships a' = put2 org wallet no_membership (am_memberships a)"
    "am_list a' = (am_list a)(org := swap_pop ?i ?xs)" by fact+
  have listed: "members_listed a i" for i using ok by (simp add: access_ok_def)
  from role listed[of org] have "wallet \<in> set ?xs" by (simp add: members_listed_def)
  then obtain k where k: "k < length ?xs" "?xs ! k = wallet" by (auto simp: in_set_conv_nth)
  with listed[of org] have i: "?i < length ?xs" "?xs ! ?i = wallet" by (auto simp: members_listed_def)
  from listed[of org] have dist: "distinct ?xs" and idx: "\<And>j. j < length ?xs \<Longrightarrow> am_index a org (?xs ! j) = j"
    by (simp_all add: members_listed_def)
  have "members_listed a' org"
    unfolding members_listed_def a'
    using listed[of org] swap_pop_distinct[OF dist i(1)] swap_pop_set[OF dist i(1)] i
    by (auto simp: members_listed_def no_membership_def swap_pop_nth idx nth_eq_iff_index_eq[OF dist])
  moreover have "members_listed a' j" if "j \<noteq> org" for j
    using listed[of j] that by (simp add: members_listed_def a')
  ultimately have "members_listed a' j" for j by (cases "j = org") simp_all
  with ok show "access_ok K a'" by (auto simp: access_ok_def governed_def roles_known_def apps_known_def a' no_membership_def)
qed

lemma role_updates_ok:
  assumes "access_ok K a" and "mb_role (am_memberships a org w) \<noteq> role_none" and "roles_distinct K"
    and "is_valid_role K (mb_role mb)"
  shows "access_ok K (a\<lparr>am_memberships := put2 org w mb (am_memberships a)\<rparr>)"
  using assms valid_role_not_none[OF assms(3,4)] by (auto simp: access_ok_def members_listed_def roles_known_def)

lemma app_registered_ok:
  "apps_known K a i \<Longrightarrow> app \<noteq> 0 \<Longrightarrow> h \<noteq> 0 \<Longrightarrow>
   apps_known K (a\<lparr>am_app_registered := put2 org app True (am_app_registered a),
                   am_app_metadata := put2 org app h (am_app_metadata a)\<rparr>) i"
  by (auto simp: apps_known_def)

lemma app_access_ok:
  "apps_known K a i \<Longrightarrow> am_app_registered a org app \<Longrightarrow> is_valid_role K role \<Longrightarrow>
   apps_known K (a\<lparr>am_app_access := (am_app_access a)(org := put2 app role b (am_app_access a org))\<rparr>) i"
  by (auto simp: apps_known_def split: if_splits)

lemma access_ok_call:
  assumes K: "roles_distinct K" and ok: "access_ok K a" and c: "call_access K r m d a = Inr a'"
  shows "access_ok K a'"
proof (cases d)
  case (AddMember org w role e)
  with c show ?thesis by (auto intro: add_member_ok[OF K ok])
next
  case (AssignRole org w role e)
  with c show ?thesis by (auto simp: assign_role_def call_iff Let_def intro!: role_updates_ok[OF ok _ K])
next
  case (SetRoleExpiry org w e)
  with c ok show ?thesis
    by (auto simp: set_role_expiry_def call_iff Let_def intro!: role_updates_ok[OF ok _ K]) (simp add: access_ok_def roles_known_def)
next
  case (RemoveMember org w)
  with c show ?thesis by (auto intro: remove_member_ok(1)[OF ok])
next
  case (SetPermission org role p st)
  with c ok show ?thesis
    by (auto simp: set_permission_def call_iff access_ok_def governed_def split: if_splits)
next
  case (RegisterApplication org app h)
  with c ok show ?thesis
    by (auto simp: register_application_def call_iff access_ok_def intro!: app_registered_ok)
next
  case (SetAppAccess org app role b)
  with c ok show ?thesis
    by (auto simp: set_app_access_def call_iff access_ok_def intro!: app_access_ok)
qed

lemma deployed_ok: "deployed K (r, a) \<Longrightarrow> roles_distinct K \<Longrightarrow> registry_ok r \<and> access_ok K a"
  by (induction "(r, a)" arbitrary: r a rule: deployed.induct)
     (auto intro: registry_ok_deployed access_ok_deployed registry_ok_call access_ok_call)

subsection \<open>A history of transactions\<close>

fun run_calls ::
  "(string \<Rightarrow> bytes32) \<Rightarrow> (message \<times> (registry_call + access_call)) list \<Rightarrow> registry \<times> access_manager
   \<Rightarrow> contract_error + registry \<times> access_manager" where
  "run_calls K [] s = Inr s"
| "run_calls K ((m, Inl c) # cs) (r, a) = andthen (call_registry m c r) (\<lambda>r'. run_calls K cs (r', a))"
| "run_calls K ((m, Inr d) # cs) (r, a) = andthen (call_access K r m d a) (\<lambda>a'. run_calls K cs (r, a'))"

lemma run_calls_deployed: "deployed K s \<Longrightarrow> run_calls K cs s = Inr s' \<Longrightarrow> deployed K s'"
  by (induction K cs s rule: run_calls.induct) (auto simp: call_iff intro: deployed.intros)

lemma listed_index:
  assumes "members_listed a org" and "w \<in> set (am_list a org)"
  shows "am_index a org w < length (am_list a org) \<and> am_list a org ! am_index a org w = w"
proof -
  from assms(2) obtain i where "i < length (am_list a org)" "am_list a org ! i = w" by (auto simp: in_set_conv_nth)
  with assms(1) show ?thesis by (auto simp: members_listed_def)
qed

lemma remove_no_panic:
  assumes "members_listed a org"
  shows "remove_member K r m org who a \<noteq> Inl (Panic n)"
proof (cases "mb_role (am_memberships a org who) = role_none")
  case False
  with assms have "who \<in> set (am_list a org)" by (simp add: members_listed_def)
  with listed_index[OF assms] have "am_list a org \<noteq> []" "am_index a org who < length (am_list a org)" by auto
  then show ?thesis
    by (simp add: remove_member_def swap_and_pop_def revert_if_def require_active_org_def require_org_permission_def Let_def)
qed (simp add: remove_member_def revert_if_def require_active_org_def require_org_permission_def Let_def)

text \<open>Two wallets, one organization, a member whose role may use one application.\<close>

definition demo_hash :: "string \<Rightarrow> bytes32" where
  "demo_hash s =
    (if s = ''OWNEX_ROLE_ADMIN'' then 1 else if s = ''OWNEX_ROLE_MANAGER'' then 2
     else if s = ''OWNEX_ROLE_AUDITOR'' then 3 else if s = ''OWNEX_ROLE_USER'' then 4
     else if s = ''PERM_MANAGE_MEMBERS'' then 5 else if s = ''PERM_ASSIGN_ROLES'' then 6
     else if s = ''PERM_MINT_ASSETS'' then 7 else if s = ''PERM_TRANSFER_ASSETS'' then 8
     else if s = ''PERM_VIEW_AUDIT'' then 9 else if s = ''PERM_MANAGE_APPS'' then 10 else 11)"

definition sent :: "address \<Rightarrow> uint256 \<Rightarrow> message" where
  "sent who now = \<lparr>msg_sender = who, block_timestamp = now\<rparr>"

definition demo_calls :: "(message \<times> (registry_call + access_call)) list" where
  "demo_calls =
    [(sent 21 100, Inl (RegisterIdentity 31)), (sent 22 101, Inl (RegisterIdentity 32)),
     (sent 21 102, Inl (CreateOrganization 33)), (sent 21 103, Inr (AddMember 1 22 4 0)),
     (sent 21 104, Inr (RegisterApplication 1 11 34)), (sent 21 105, Inr (SetAppAccess 1 11 4 True))]"

definition demo_deployment :: "contract_error + registry \<times> access_manager" where
  "demo_deployment =
    andthen (deploy_registry 9) (\<lambda>r. andthen (deploy_access_manager 8) (\<lambda>a. run_calls demo_hash demo_calls (r, a)))"

lemma demo_hash_roles: "roles_distinct demo_hash"
  by code_simp

lemma demo_deployed: "demo_deployment = Inr s \<Longrightarrow> deployed demo_hash s"
  by (cases s) (auto simp: demo_deployment_def call_iff intro: run_calls_deployed deployed.fresh)

lemma demo_state:
  obtains r a where "demo_deployment = Inr (r, a)" "deployed demo_hash (r, a)"
proof -
  have "case demo_deployment of Inr s \<Rightarrow> True | Inl _ \<Rightarrow> False" by code_simp
  then obtain s where "demo_deployment = Inr s" by (auto split: sum.splits)
  with demo_deployed that show ?thesis by (cases s) blast
qed

text \<open>What a state of the demonstration shows, evaluated.\<close>

lemma demo_check:
  assumes "demo_deployment = Inr (r, a)" and "case demo_deployment of Inr (r, a) \<Rightarrow> P r a | Inl _ \<Rightarrow> False"
  shows "P r a"
  using assms(2) unfolding assms(1) by simp

subsection \<open>Properties\<close>

text \<open>C35. The member list is the membership table. Whatever was called on the two contracts, the list of
  an organization has no duplicates and holds exactly the wallets with a stored role; each role is one
  of the four; the stored index of a listed wallet is its position; and removing a member never runs
  into an array panic.\<close>

theorem member_list_is_the_membership_table:
  assumes "deployed K (r, a)" and "roles_distinct K"
  shows "distinct (get_members a org)
    \<and> set (get_members a org) = {w. mb_role (am_memberships a org w) \<noteq> role_none}
    \<and> (\<forall>w \<in> set (get_members a org). is_valid_role K (mb_role (am_memberships a org w))
         \<and> get_members a org ! am_index a org w = w)
    \<and> remove_member K r m org who a \<noteq> Inl (Panic n)"
proof -
  from deployed_ok[OF assms] have "members_listed a org" "roles_known K a org" by (simp_all add: access_ok_def)
  from this have parts: "distinct (get_members a org)"
    "set (get_members a org) = {w. mb_role (am_memberships a org w) \<noteq> role_none}"
    "\<forall>w \<in> set (get_members a org). is_valid_role K (mb_role (am_memberships a org w))"
    by (auto simp: get_members_def members_listed_def roles_known_def)
  have index: "get_members a org ! am_index a org w = w" if "w \<in> set (get_members a org)" for w
    using listed_index[OF \<open>members_listed a org\<close>] that by (simp add: get_members_def)
  note no_panic = remove_no_panic[OF \<open>members_listed a org\<close>]
  from parts index no_panic show ?thesis by blast
qed

theorem member_list_is_the_membership_table_witness:
  "\<exists>r a. demo_deployment = Inr (r, a) \<and> get_members a 1 = [22]
     \<and> set (get_members a 1) = {w. mb_role (am_memberships a 1 w) \<noteq> role_none}"
proof -
  obtain r a where s: "demo_deployment = Inr (r, a)" and dep: "deployed demo_hash (r, a)" by (rule demo_state)
  have "case demo_deployment of Inr (r, a) \<Rightarrow> get_members a 1 = [22] | Inl _ \<Rightarrow> False" by code_simp
  from demo_check[OF s this] member_list_is_the_membership_table[OF dep demo_hash_roles, of 1] s show ?thesis by blast
qed

text \<open>C33. An organization cannot lose its administration. In every deployed state, an active organization
  whose root admin has an active identity has an administrator who may add and remove members and
  assign roles, whatever permissions were overridden.\<close>

theorem administration_cannot_be_lost:
  assumes dep: "deployed K (r, a)" and K: "roles_distinct K"
    and active: "is_organization_active r org" and identity: "is_active_identity r (org_root_admin r org)"
  shows "effective_role K r now a org (org_root_admin r org) = role_admin K
    \<and> has_permission K r now a org (org_root_admin r org) (perm_manage_members K)
    \<and> has_permission K r now a org (org_root_admin r org) (perm_assign_roles K)"
proof -
  from deployed_ok[OF dep K] have "governed K a org" by (simp add: access_ok_def)
  moreover have "role_admin K \<noteq> role_none" using K by (auto simp: roles_distinct_def)
  moreover have "effective_role K r now a org (org_root_admin r org) = role_admin K"
    using identity by (simp add: effective_role_def)
  ultimately show ?thesis
    using active by (auto simp: has_permission_def governed_def default_permission_def Let_def split: override.splits)
qed

theorem administration_cannot_be_lost_witness:
  "\<exists>r a. demo_deployment = Inr (r, a) \<and> org_root_admin r 1 = 21
     \<and> has_permission demo_hash r 500 a 1 21 (perm_assign_roles demo_hash)"
proof -
  obtain r a where s: "demo_deployment = Inr (r, a)" and dep: "deployed demo_hash (r, a)" by (rule demo_state)
  have "case demo_deployment of Inr (r, a) \<Rightarrow> org_root_admin r 1 = 21 \<and> is_organization_active r 1
    \<and> is_active_identity r 21 | Inl _ \<Rightarrow> False" by code_simp
  from demo_check[OF s this] administration_cannot_be_lost[OF dep demo_hash_roles, of 1 500] s show ?thesis by auto
qed

text \<open>C34. A membership changes only by authority. When a call changes the stored membership of a wallet,
  the caller holds the permission to manage members or to assign roles in that active organization at
  that block, the wallet either was no member before or is not the root admin, and a caller who was a
  member keeps the role it had: nobody assigns themselves a role.\<close>

theorem memberships_change_by_authority:
  assumes call: "call_access K r m d a = Inr a'"
    and changed: "am_memberships a' org w \<noteq> am_memberships a org w"
  shows "is_organization_active r org
    \<and> (has_permission K r (block_timestamp m) a org (msg_sender m) (perm_manage_members K)
       \<or> has_permission K r (block_timestamp m) a org (msg_sender m) (perm_assign_roles K))
    \<and> (mb_role (am_memberships a org w) = role_none \<or> w \<noteq> org_root_admin r org)
    \<and> (w = msg_sender m \<and> mb_role (am_memberships a org w) \<noteq> role_none \<longrightarrow>
         mb_role (am_memberships a' org w) = mb_role (am_memberships a org w))"
proof (cases d)
  case (AddMember i v role e)
  with assms show ?thesis
    by (auto simp: add_member_def require_active_org_def require_org_permission_def call_iff split: if_splits)
next
  case (AssignRole i v role e)
  with assms show ?thesis
    by (auto simp: assign_role_def require_active_org_def require_org_permission_def call_iff Let_def split: if_splits)
next
  case (SetRoleExpiry i v e)
  with assms show ?thesis
    by (auto simp: set_role_expiry_def require_active_org_def require_org_permission_def call_iff Let_def split: if_splits)
next
  case (RemoveMember i v)
  with assms show ?thesis
    by (auto simp: remove_member_def swap_and_pop_def require_active_org_def require_org_permission_def call_iff Let_def split: if_splits)
qed (use assms in \<open>auto simp: set_permission_def register_application_def set_app_access_def call_iff\<close>)

theorem memberships_change_by_authority_witness:
  "\<exists>r a a'. demo_deployment = Inr (r, a)
     \<and> call_access demo_hash r (sent 21 300) (AssignRole 1 22 2 900) a = Inr a'
     \<and> mb_role (am_memberships a' 1 22) = 2
     \<and> has_permission demo_hash r 300 a 1 21 (perm_assign_roles demo_hash)"
proof -
  obtain r a where s: "demo_deployment = Inr (r, a)" by (rule demo_state)
  have "case demo_deployment of
      Inr (r, a) \<Rightarrow> (case call_access demo_hash r (sent 21 300) (AssignRole 1 22 2 900) a of
          Inr a' \<Rightarrow> mb_role (am_memberships a' 1 22) = 2 \<and> mb_role (am_memberships a 1 22) = 4
            \<and> has_permission demo_hash r 300 a 1 21 (perm_assign_roles demo_hash)
        | Inl _ \<Rightarrow> False)
    | Inl _ \<Rightarrow> False" by code_simp
  from demo_check[OF s this] obtain a' where
    c: "call_access demo_hash r (sent 21 300) (AssignRole 1 22 2 900) a = Inr a'"
    and m: "mb_role (am_memberships a' 1 22) = 2" "mb_role (am_memberships a 1 22) = 4"
    and p: "has_permission demo_hash r 300 a 1 21 (perm_assign_roles demo_hash)"
    by (auto split: sum.splits)
  from m have "am_memberships a' 1 22 \<noteq> am_memberships a 1 22" by auto
  from memberships_change_by_authority[OF c this] s c m p show ?thesis by blast
qed

text \<open>A member whose access is time-bound and who may assign roles extends their own deadline:
  \<open>setRoleExpiry\<close> has no guard against targeting oneself, where \<open>assignRole\<close> has one.\<close>

lemma time_bound_member_extends_itself:
  "\<exists>r a a'. demo_deployment = Inr (r, a)
     \<and> run_calls demo_hash [(sent 21 300, Inr (AssignRole 1 22 1 900)), (sent 22 400, Inr (SetRoleExpiry 1 22 0))] (r, a)
         = Inr (r, a')
     \<and> effective_role demo_hash r 1000 a' 1 22 = role_admin demo_hash"
proof -
  obtain r a where s: "demo_deployment = Inr (r, a)" by (rule demo_state)
  let ?cs = "[(sent 21 300, Inr (AssignRole 1 22 1 900)), (sent 22 400, Inr (SetRoleExpiry 1 22 0))]"
  have "case demo_deployment of
      Inr (r, a) \<Rightarrow> (case run_calls demo_hash ?cs (r, a) of
          Inr (r', a') \<Rightarrow> effective_role demo_hash r' 1000 a' 1 22 = role_admin demo_hash
        | Inl _ \<Rightarrow> False)
    | Inl _ \<Rightarrow> False" by code_simp
  from demo_check[OF s this] obtain r' a' where
    run: "run_calls demo_hash ?cs (r, a) = Inr (r', a')"
    and role: "effective_role demo_hash r' 1000 a' 1 22 = role_admin demo_hash"
    by (auto split: sum.splits)
  from run have "r' = r" by (auto simp: call_iff)
  with s run role show ?thesis by blast
qed

end
