(* ===== verification/ContractChain.thy ===== *)
theory ContractChain
  imports ContractProps LiveAccess
begin

text \<open>
  The contracts as the platform reads them. \<open>lib/chain/index.ts\<close> calls the view functions through
  ethers, which encodes the arguments and decodes the answers; that codec is a parameter. Filling the
  chain snapshot of a world with the answers of the two contracts connects the TypeScript reads to the
  Solidity state, and the platform's live decision to \<open>canAccessApp\<close>.
\<close>

subsection \<open>The codec and the snapshot\<close>

record abi =
  abi_address :: "string \<Rightarrow> exn + address"
  abi_show_address :: "address \<Rightarrow> string"
  abi_bytes32 :: "string \<Rightarrow> exn + bytes32"
  abi_show_bytes32 :: "bytes32 \<Rightarrow> string"

definition uint256_arg :: "int \<Rightarrow> exn + uint256" where
  "uint256_arg i = (if 0 \<le> i \<and> i < 2 ^ 256 then Inr (word_of_int i) else Inl (JsError ''value out-of-bounds''))"

fun override_number :: "override \<Rightarrow> nat" where
  "override_number OverrideUnset = 0"
| "override_number OverrideAllowed = 1"
| "override_number OverrideDenied = 2"

definition identity_answer :: "abi \<Rightarrow> registry \<Rightarrow> address \<Rightarrow> raw_identity" where
  "identity_answer A r wallet =
    (let i = rg_identities r wallet in
     \<lparr>ri_hash = abi_show_bytes32 A (idn_hash i), ri_exists = idn_exists i, ri_active = idn_active i,
      ri_registered_at = uint (idn_registered_at i)\<rparr>)"

definition organization_answer :: "abi \<Rightarrow> registry \<Rightarrow> uint256 \<Rightarrow> raw_organization" where
  "organization_answer A r org =
    (let o' = rg_organizations r org in
     \<lparr>ro_metadata_hash = abi_show_bytes32 A (orgn_metadata_hash o'), ro_root_admin = abi_show_address A (orgn_root_admin o'),
      ro_active = orgn_active o', ro_created_at = uint (orgn_created_at o')\<rparr>)"

definition membership_answer :: "abi \<Rightarrow> access_manager \<Rightarrow> uint256 \<Rightarrow> address \<Rightarrow> raw_membership" where
  "membership_answer A a org wallet =
    (let mb = am_memberships a org wallet in
     \<lparr>rm_role = abi_show_bytes32 A (mb_role mb), rm_joined_at = uint (mb_joined_at mb),
      rm_expires_at = uint (mb_expires_at mb)\<rparr>)"

text \<open>The snapshot: the asset contract, the blocks and the logs stay those of \<open>base\<close>.\<close>

definition contract_chain ::
  "abi \<Rightarrow> (string \<Rightarrow> bytes32) \<Rightarrow> registry \<Rightarrow> access_manager \<Rightarrow> uint256 \<Rightarrow> chain \<Rightarrow> chain" where
  "contract_chain A K r a now base = base\<lparr>
     c_identity := (\<lambda>w. bind_res (abi_address A w) (\<lambda>wallet. Inr (identity_answer A r wallet))),
     c_organization := (\<lambda>i. bind_res (uint256_arg i) (\<lambda>org. Inr (organization_answer A r org))),
     c_organization_count := Inr (uint (rg_count r)),
     c_effective_role := (\<lambda>i w. bind_res (uint256_arg i) (\<lambda>org. bind_res (abi_address A w) (\<lambda>wallet.
       Inr (abi_show_bytes32 A (effective_role K r now a org wallet))))),
     c_has_permission := (\<lambda>i w p. bind_res (uint256_arg i) (\<lambda>org. bind_res (abi_address A w) (\<lambda>wallet.
       bind_res (abi_bytes32 A p) (\<lambda>permission. Inr (has_permission K r now a org wallet permission))))),
     c_membership := (\<lambda>i w. bind_res (uint256_arg i) (\<lambda>org. bind_res (abi_address A w) (\<lambda>wallet.
       Inr (membership_answer A a org wallet)))),
     c_members := (\<lambda>i. bind_res (uint256_arg i) (\<lambda>org. Inr (map (abi_show_address A) (get_members a org)))),
     c_app_registered := (\<lambda>i h. bind_res (uint256_arg i) (\<lambda>org. bind_res (abi_bytes32 A h) (\<lambda>app.
       Inr (am_app_registered a org app)))),
     c_can_access_app := (\<lambda>i w h. bind_res (uint256_arg i) (\<lambda>org. bind_res (abi_address A w) (\<lambda>wallet.
       bind_res (abi_bytes32 A h) (\<lambda>app. Inr (can_access_app K r now a org wallet app))))),
     c_app_access_for_role := (\<lambda>i h p. bind_res (uint256_arg i) (\<lambda>org. bind_res (abi_bytes32 A h) (\<lambda>app.
       bind_res (abi_bytes32 A p) (\<lambda>role. Inr (am_app_access a org app role))))),
     c_default_permission := (\<lambda>h p. bind_res (abi_bytes32 A h) (\<lambda>role. bind_res (abi_bytes32 A p) (\<lambda>permission.
       Inr (default_permission K role permission)))),
     c_permission_override := (\<lambda>i h p. bind_res (uint256_arg i) (\<lambda>org. bind_res (abi_bytes32 A h) (\<lambda>role.
       bind_res (abi_bytes32 A p) (\<lambda>permission. Inr (override_number (am_override a org role permission))))))\<rparr>"

text \<open>
  What the codec and the hash promise: a 32-byte value survives the way out and back and prints in
  lower case, with zero as the platform's \<open>ROLE_NONE\<close>; only the zero address prints as one; and
  ethers' \<open>id\<close> of a text is the printed digest the contracts compute.
\<close>

definition codec_ok :: "ext \<Rightarrow> abi \<Rightarrow> (string \<Rightarrow> bytes32) \<Rightarrow> bool" where
  "codec_ok X A K \<longleftrightarrow>
     (\<forall>b. abi_bytes32 A (abi_show_bytes32 A b) = Inr b \<and> to_lower (abi_show_bytes32 A b) = abi_show_bytes32 A b
          \<and> abi_show_bytes32 A b \<noteq> [])
     \<and> abi_show_bytes32 A 0 = ROLE_NONE
     \<and> (\<forall>w. abi_show_address A w = ZERO_ADDRESS \<longleftrightarrow> w = 0)
     \<and> (\<forall>s. x_keccak X s = abi_show_bytes32 A (K s))"

subsection \<open>The reads over contract state\<close>

definition role_of :: "(string \<Rightarrow> bytes32) \<Rightarrow> bytes32 \<Rightarrow> role_name" where
  "role_of K h = (if h = role_admin K then ADMIN else if h = role_manager K then MANAGER
     else if h = role_auditor K then AUDITOR else if h = role_user K then USER else NONE)"

lemma show_bytes32_inj: "codec_ok X A K \<Longrightarrow> abi_show_bytes32 A b = abi_show_bytes32 A c \<longleftrightarrow> b = c"
  by (auto simp: codec_ok_def) (metis sum.inject(2))

lemma role_name_of_shown:
  assumes c: "codec_ok X A K" and d: "roles_distinct K"
  shows "role_name_of X (abi_show_bytes32 A h) = role_of K h"
proof -
  have "to_lower (abi_show_bytes32 A h) = abi_show_bytes32 A h" and k: "\<And>s. x_keccak X s = abi_show_bytes32 A (K s)"
    and z: "ROLE_NONE = abi_show_bytes32 A 0"
    using c by (simp_all add: codec_ok_def)
  then show ?thesis
    using d unfolding role_name_of_def ROLE_NAMES_def Let_def role_of_def
    by (simp add: ROLE_ADMIN_def ROLE_MANAGER_def ROLE_AUDITOR_def ROLE_USER_def k z show_bytes32_inj[OF c]
        roles_distinct_def role_none_def role_admin_def role_manager_def role_auditor_def role_user_def)
qed

lemma role_of_NONE: "roles_distinct K \<Longrightarrow> h = role_none \<or> is_valid_role K h \<Longrightarrow> role_of K h = NONE \<longleftrightarrow> h = role_none"
  by (auto simp: role_of_def roles_distinct_def is_valid_role_def)

lemma effective_role_known:
  assumes "access_ok K a"
  shows "effective_role K r now a org w = role_none \<or> is_valid_role K (effective_role K r now a org w)"
  using assms by (auto simp: effective_role_def access_ok_def roles_known_def is_valid_role_def Let_def)

lemma contract_reads:
  assumes env: "server_env_of X (penv w) = Inr env" and chain: "chain_now w = contract_chain A K r a now base"
    and c: "codec_ok X A K" and d: "roles_distinct K"
    and who: "abi_address A wallet = Inr who" and org: "uint256_arg i = Inr org"
  shows "read_identity X w wallet = Inr
      \<lparr>is_wallet = wallet, is_registered = is_registered_identity r who, is_active = is_active_identity r who,
       is_identity_hash = (if is_registered_identity r who then Some (abi_show_bytes32 A (idn_hash (rg_identities r who))) else None),
       is_registered_at = (if is_registered_identity r who then Some (uint (idn_registered_at (rg_identities r who))) else None)\<rparr>"
    and "read_effective_role X w i wallet = Inr (role_of K (effective_role K r now a org who))"
    and "read_organization X w i = Inr (if org_root_admin r org = 0 then None
      else Some \<lparr>os_org_id = i, os_root_admin = abi_show_address A (org_root_admin r org),
        os_metadata_hash = abi_show_bytes32 A (orgn_metadata_hash (rg_organizations r org)),
        os_active = orgn_active (rg_organizations r org), os_created_at = uint (orgn_created_at (rg_organizations r org))\<rparr>)"
    and "bind_res (read_membership X w i wallet) (\<lambda>m. Inr (ms_expired m)) = Inr
      (mb_expires_at (am_memberships a org who) \<noteq> 0 \<and> uint (mb_expires_at (am_memberships a org who)) * 1000 \<le> clock w)"
    and "read_can_access_app X w i wallet (app_id_from_slug X slug) = Inr (can_access_app K r now a org who (K slug))"
    and "contracts X w = Inr (chain_now w)"
    and "c_app_registered (chain_now w) i (app_id_from_slug X slug) = Inr (am_app_registered a org (K slug))"
    and "\<exists>ps. read_permissions_for X w i wallet = Inr ps"
proof -
  have x: "contracts X w = Inr (contract_chain A K r a now base)" using env chain by (simp add: contracts_def)
  have k: "x_keccak X s = abi_show_bytes32 A (K s)" and b: "abi_bytes32 A (abi_show_bytes32 A h) = Inr h"
    and z: "abi_show_address A v = ZERO_ADDRESS \<longleftrightarrow> v = 0" for s h v
    using c by (simp_all add: codec_ok_def)
  note s = x contract_chain_def who org k b app_id_from_slug_def
  show "read_identity X w wallet = Inr
      \<lparr>is_wallet = wallet, is_registered = is_registered_identity r who, is_active = is_active_identity r who,
       is_identity_hash = (if is_registered_identity r who then Some (abi_show_bytes32 A (idn_hash (rg_identities r who))) else None),
       is_registered_at = (if is_registered_identity r who then Some (uint (idn_registered_at (rg_identities r who))) else None)\<rparr>"
    by (simp add: read_identity_def s identity_answer_def Let_def is_registered_identity_def is_active_identity_def)
  show "read_effective_role X w i wallet = Inr (role_of K (effective_role K r now a org who))"
    by (simp add: read_effective_role_def s role_name_of_shown[OF c d])
  show "read_organization X w i = Inr (if org_root_admin r org = 0 then None
      else Some \<lparr>os_org_id = i, os_root_admin = abi_show_address A (org_root_admin r org),
        os_metadata_hash = abi_show_bytes32 A (orgn_metadata_hash (rg_organizations r org)),
        os_active = orgn_active (rg_organizations r org), os_created_at = uint (orgn_created_at (rg_organizations r org))\<rparr>)"
    by (simp add: read_organization_def s organization_answer_def Let_def org_root_admin_def z)
  show "bind_res (read_membership X w i wallet) (\<lambda>m. Inr (ms_expired m)) = Inr
      (mb_expires_at (am_memberships a org who) \<noteq> 0 \<and> uint (mb_expires_at (am_memberships a org who)) * 1000 \<le> clock w)"
    by (simp add: read_membership_def s membership_answer_def Let_def uint_0_iff)
  show "read_can_access_app X w i wallet (app_id_from_slug X slug) = Inr (can_access_app K r now a org who (K slug))"
    by (simp add: read_can_access_app_def s)
  show "contracts X w = Inr (chain_now w)" using env by (simp add: contracts_def)
  show "c_app_registered (chain_now w) i (app_id_from_slug X slug) = Inr (am_app_registered a org (K slug))"
    by (simp add: chain s)
  show "\<exists>ps. read_permissions_for X w i wallet = Inr ps"
    by (simp add: read_permissions_for_def read_has_permission_def s PERMISSION_LIST_def)
qed

end
