(* ===== verification/ContractRefines.thy ===== *)
theory ContractRefines
  imports ContractChain DemoWorld
begin

text \<open>
  The platform's live decision against the contract's own: \<open>evaluateLiveAccess\<close> over the answers of
  deployed contracts decides what \<open>canAccessApp\<close> decides, except that it also refuses a wallet whose
  stored membership has lapsed. For a member the contract refuses it too; the exception is the root
  admin, whose seat the contract never lets lapse.
\<close>

subsection \<open>The refinement\<close>

definition stored_expiry :: "access_manager \<Rightarrow> uint256 \<Rightarrow> address \<Rightarrow> uint64" where
  "stored_expiry a org who = mb_expires_at (am_memberships a org who)"

text \<open>The membership's deadline has passed on a clock that counts milliseconds.\<close>

definition lapsed_at :: "int \<Rightarrow> access_manager \<Rightarrow> uint256 \<Rightarrow> address \<Rightarrow> bool" where
  "lapsed_at ms a org who = (stored_expiry a org who \<noteq> 0 \<and> uint (stored_expiry a org who) * 1000 \<le> ms)"

lemma expiry_seconds: "(ucast e :: uint256) \<le> now \<longleftrightarrow> uint e \<le> uint now" for e :: uint64
proof -
  have "take_bit 256 (uint e) = uint e"
    using unsigned_less[of e, where ?'a = int] by (intro take_bit_int_eq_self) simp_all
  then show ?thesis by (simp add: word_le_def unsigned_ucast_eq)
qed

lemma can_access_member:
  assumes "can_access_app K r now a org who app"
  shows "is_organization_active r org" "is_active_identity r who" "am_app_registered a org app"
    "effective_role K r now a org who \<noteq> role_none"
    "who = org_root_admin r org \<or> \<not> (stored_expiry a org who \<noteq> 0 \<and> uint (stored_expiry a org who) \<le> uint now)"
  using assms by (auto simp: can_access_app_def effective_role_def Let_def stored_expiry_def expiry_seconds split: if_splits)

lemma live_over_contracts:
  assumes env: "server_env_of X (penv w) = Inr env" and chain: "chain_now w = contract_chain A K r a now base"
    and c: "codec_ok X A K" and d: "roles_distinct K" and dep: "deployed K (r, a)"
    and who: "abi_address A wallet = Inr who" and org: "uint256_arg i = Inr org" and slug: "slug \<noteq> []"
  obtains dec snap where "evaluate_live_access X w i wallet (Some slug) = Evaluated dec snap"
    "es_role snap = role_text (role_of K (effective_role K r now a org who))"
    "dec = decide_access
       \<lparr>snap_organization = (if org_root_admin r org = 0 then None else Some (orgn_active (rg_organizations r org))),
        snap_identity = Some \<lparr>id_registered = is_registered_identity r who, id_active = is_active_identity r who\<rparr>,
        snap_membership = Some (lapsed_at (clock w) a org who),
        snap_role = role_text (role_of K (effective_role K r now a org who)),
        snap_app_access = Value (can_access_app K r now a org who (K slug)),
        snap_app_registered = Value (am_app_registered a org (K slug))\<rparr>"
proof -
  note reads = contract_reads[OF env chain c d who org]
  have hash: "app_id_from_slug X slug \<noteq> []" using c by (simp add: codec_ok_def app_id_from_slug_def)
  let ?R = "live_readers X w i wallet (Some slug)"
  obtain m where m: "read_membership X w i wallet = Inr m" and exp: "ms_expired m = lapsed_at (clock w) a org who"
    using reads(4) by (cases "read_membership X w i wallet") (auto simp: lapsed_at_def stored_expiry_def)
  obtain ps where ps: "read_permissions_for X w i wallet = Inr ps" using reads(8) by blast
  have app: "rd_app ?R = Inr (Some \<lparr>av_slug = slug, av_app_id = app_id_from_slug X slug,
      av_registered = am_app_registered a org (K slug), av_allowed = can_access_app K r now a org who (K slug)\<rparr>)"
    using slug hash by (simp add: live_readers_def Let_def truthy_iff reads(5,6,7))
  have "\<exists>dec snap. evaluate_access ?R = Evaluated dec snap"
    by (simp add: evaluate_access_def evaluate_reads_def app live_readers_simps reads(1,2,3) m ps Let_def)
  then obtain dec snap where ev: "evaluate_access ?R = Evaluated dec snap" by blast
  from evaluate_access_EvaluatedD[OF ev] have "es_role snap = role_text (role_of K (effective_role K r now a org who))"
    and "dec = decide_access
       \<lparr>snap_organization = (if org_root_admin r org = 0 then None else Some (orgn_active (rg_organizations r org))),
        snap_identity = Some \<lparr>id_registered = is_registered_identity r who, id_active = is_active_identity r who\<rparr>,
        snap_membership = Some (lapsed_at (clock w) a org who),
        snap_role = role_text (role_of K (effective_role K r now a org who)),
        snap_app_access = Value (can_access_app K r now a org who (K slug)),
        snap_app_registered = Value (am_app_registered a org (K slug))\<rparr>"
    by (auto simp: app live_readers_simps reads(1,2,3) m exp)
  with ev show thesis by (intro that) (simp_all add: evaluate_live_access_def)
qed

text \<open>C4. The live decision refines the contract. Over contracts deployed and driven by any transactions,
  read at block time \<open>now\<close>, the decision always completes; it reports the role the contract computes; and
  it allows exactly when \<open>canAccessApp\<close> returns true and the stored membership has not lapsed on the
  server's clock. When that clock is not ahead of the block, the two differ for the organization's root
  admin only.\<close>

theorem live_decision_refines_the_contract:
  assumes env: "server_env_of X (penv w) = Inr env" and chain: "chain_now w = contract_chain A K r a now base"
    and c: "codec_ok X A K" and d: "roles_distinct K" and dep: "deployed K (r, a)"
    and who: "abi_address A wallet = Inr who" and org: "uint256_arg i = Inr org" and slug: "slug \<noteq> []"
  shows "\<exists>dec snap. evaluate_live_access X w i wallet (Some slug) = Evaluated dec snap
    \<and> es_role snap = role_text (role_of K (effective_role K r now a org who))
    \<and> (allowed dec \<longleftrightarrow> can_access_app K r now a org who (K slug) \<and> \<not> lapsed_at (clock w) a org who)
    \<and> (clock w \<le> uint now * 1000 \<and> who \<noteq> org_root_admin r org \<longrightarrow>
         (allowed dec \<longleftrightarrow> can_access_app K r now a org who (K slug)))"
proof -
  from live_over_contracts[OF assms] obtain dec snap where
    ev: "evaluate_live_access X w i wallet (Some slug) = Evaluated dec snap" and
    role: "es_role snap = role_text (role_of K (effective_role K r now a org who))" and
    dec: "dec = decide_access
       \<lparr>snap_organization = (if org_root_admin r org = 0 then None else Some (orgn_active (rg_organizations r org))),
        snap_identity = Some \<lparr>id_registered = is_registered_identity r who, id_active = is_active_identity r who\<rparr>,
        snap_membership = Some (lapsed_at (clock w) a org who),
        snap_role = role_text (role_of K (effective_role K r now a org who)),
        snap_app_access = Value (can_access_app K r now a org who (K slug)),
        snap_app_registered = Value (am_app_registered a org (K slug))\<rparr>" .
  from deployed_ok[OF dep d] have reg: "registry_ok r" and acc: "access_ok K a" by simp_all
  have exists: "is_organization_active r org \<Longrightarrow> org_root_admin r org \<noteq> 0"
    using reg by (auto simp: registry_ok_def is_organization_active_def)
  have none: "role_of K (effective_role K r now a org who) = NONE \<longleftrightarrow> effective_role K r now a org who = role_none"
    by (rule role_of_NONE[OF d effective_role_known[OF acc]])
  have iff: "allowed dec \<longleftrightarrow> can_access_app K r now a org who (K slug) \<and> \<not> lapsed_at (clock w) a org who"
    using exists can_access_member[of K r now a org who "K slug"]
    by (auto simp: dec decide_access_allowed none is_organization_active_def is_active_identity_def is_registered_identity_def
        split: if_splits)
  have "\<not> lapsed_at (clock w) a org who"
    if "clock w \<le> uint now * 1000" "who \<noteq> org_root_admin r org" "can_access_app K r now a org who (K slug)"
    using that can_access_member(5)[OF that(3)] by (auto simp: lapsed_at_def)
  with ev role iff show ?thesis by blast
qed

subsection \<open>A deployment read by the platform\<close>

text \<open>A codec over decimal digits, enough to tell the values of the demonstration apart.\<close>

definition demo_decode :: "string \<Rightarrow> exn + 'a::len word" where
  "demo_decode s = (case digits_value 0 (drop 2 s) of Some n \<Rightarrow> Inr (word_of_nat n) | None \<Rightarrow> Inl NotAnError)"

definition demo_encode :: "string \<Rightarrow> 'a::len word \<Rightarrow> string" where
  "demo_encode zero w = (if w = 0 then zero else ''0x'' @ show_nat (unat w))"

definition demo_abi :: abi where
  "demo_abi =
    \<lparr>abi_address = demo_decode, abi_show_address = demo_encode ZERO_ADDRESS,
     abi_bytes32 = demo_decode, abi_show_bytes32 = demo_encode ROLE_NONE\<rparr>"

definition demo_hash_ext :: ext where
  "demo_hash_ext = demo_ext\<lparr>x_keccak := (\<lambda>s. abi_show_bytes32 demo_abi (demo_hash s))\<rparr>"

lemma demo_decode_encode:
  assumes "digits_value 0 (drop 2 zero) = Some 0"
  shows "demo_decode (demo_encode zero w) = Inr w"
  using assms by (simp add: demo_decode_def demo_encode_def digits_value_show_nat)

lemma demo_codec: "codec_ok demo_hash_ext demo_abi demo_hash"
proof -
  have zeros: "digits_value 0 (drop 2 ROLE_NONE) = Some 0" "digits_value 0 (drop 2 ZERO_ADDRESS) = Some 0"
    "to_lower ROLE_NONE = ROLE_NONE" "ROLE_NONE \<noteq> []" "to_lower ''0x'' = ''0x''"
    by code_simp+
  have "lower_char c = c" if "is_digit c" for c
    using that by (simp add: lower_char_def is_digit_def is_upper_def)
  then have low: "to_lower (show_nat n) = show_nat n" for n
    using show_nat_digits[of n] by (auto simp: to_lower_def intro: map_idI)
  have "w = 0" if "demo_encode ZERO_ADDRESS w = ZERO_ADDRESS" for w :: address
    using demo_decode_encode[OF zeros(2), of w] zeros(2) by (simp add: that demo_decode_def)
  moreover have "to_lower (demo_encode ROLE_NONE w) = demo_encode ROLE_NONE w" "demo_encode ROLE_NONE w \<noteq> []" for w :: bytes32
    using zeros(3,4,5) low[of "unat w"] by (simp_all add: demo_encode_def to_lower_def)
  moreover have "demo_encode ROLE_NONE (0 :: bytes32) = ROLE_NONE" "demo_encode ZERO_ADDRESS (0 :: address) = ZERO_ADDRESS"
    by (simp_all add: demo_encode_def)
  ultimately show ?thesis
    using demo_decode_encode[OF zeros(1)] by (auto simp: codec_ok_def demo_abi_def demo_hash_ext_def)
qed

definition demo_contract_world :: "registry \<Rightarrow> access_manager \<Rightarrow> uint256 \<Rightarrow> world" where
  "demo_contract_world r a now = demo_world
    \<lparr>chain_now := contract_chain demo_abi demo_hash r a now demo_chain, clock := uint now * 1000\<rparr>"

lemma server_env_of_keccak: "server_env_of (X\<lparr>x_keccak := f\<rparr>) e = server_env_of X e"
  by (simp add: server_env_of_def server_schema_issues_def env_check_def positive_number_def
      cong: option.case_cong if_cong)

lemma demo_hash_env: "server_env_of demo_hash_ext demo_env = Inr demo_server_env"
  by (simp add: demo_hash_ext_def server_env_of_keccak demo_env_ok)

lemma demo_contract_world_simps [simp]:
  "penv (demo_contract_world r a now) = demo_env"
  "chain_now (demo_contract_world r a now) = contract_chain demo_abi demo_hash r a now demo_chain"
  "clock (demo_contract_world r a now) = uint now * 1000"
  by (simp_all add: demo_contract_world_def demo_world_def)

lemma demo_arguments: "abi_address demo_abi ''0x22'' = Inr 22" "abi_address demo_abi ''0x21'' = Inr 21" "uint256_arg 1 = Inr 1" "demo_slug \<noteq> []"
  by (simp_all add: demo_abi_def demo_decode_def uint256_arg_def demo_slug_def is_digit_def code_unit_def)

theorem live_decision_refines_the_contract_witness:
  "\<exists>r a dec snap. demo_deployment = Inr (r, a)
     \<and> evaluate_live_access demo_hash_ext (demo_contract_world r a 200) 1 ''0x22'' (Some demo_slug) = Evaluated dec snap
     \<and> allowed dec"
proof -
  obtain r a where s: "demo_deployment = Inr (r, a)" and dep: "deployed demo_hash (r, a)" by (rule demo_state)
  have "case demo_deployment of Inr (r, a) \<Rightarrow> can_access_app demo_hash r 200 a 1 22 (demo_hash demo_slug)
    \<and> stored_expiry a 1 22 = 0 | Inl _ \<Rightarrow> False" by code_simp
  from demo_check[OF s this] have "can_access_app demo_hash r 200 a 1 22 (demo_hash demo_slug)"
    and "\<not> lapsed_at 200000 a 1 22" by (simp_all add: lapsed_at_def)
  with live_decision_refines_the_contract[of demo_hash_ext "demo_contract_world r a 200" demo_server_env demo_abi demo_hash r a
      200 demo_chain "''0x22''" 22 1 1 demo_slug] s dep demo_hash_roles demo_codec demo_hash_env demo_arguments
  show ?thesis by auto
qed

text \<open>
  The difference is real. The root admin joins the member list with a deadline like anyone else; once it
  has passed, the contract still grants the application and the platform answers \<open>ROLE_EXPIRED\<close>.
\<close>

definition demo_root_calls :: "(message \<times> (registry_call + access_call)) list" where
  "demo_root_calls =
    [(sent 21 110, Inr (AssignRole 1 22 1 0)), (sent 22 111, Inr (AddMember 1 21 4 150)),
     (sent 21 112, Inr (SetAppAccess 1 11 1 True))]"

lemma lapsed_root_admin_is_refused:
  "\<exists>r a dec snap. deployed demo_hash (r, a) \<and> org_root_admin r 1 = 21
     \<and> can_access_app demo_hash r 200 a 1 21 (demo_hash demo_slug)
     \<and> evaluate_live_access demo_hash_ext (demo_contract_world r a 200) 1 ''0x21'' (Some demo_slug) = Evaluated dec snap
     \<and> \<not> allowed dec"
proof -
  obtain r0 a0 where s: "demo_deployment = Inr (r0, a0)" and dep0: "deployed demo_hash (r0, a0)" by (rule demo_state)
  have "case demo_deployment of
      Inr (r, a) \<Rightarrow> (case run_calls demo_hash demo_root_calls (r, a) of
          Inr (r', a') \<Rightarrow> org_root_admin r' 1 = 21 \<and> can_access_app demo_hash r' 200 a' 1 21 (demo_hash demo_slug)
            \<and> stored_expiry a' 1 21 = 150
        | Inl _ \<Rightarrow> False)
    | Inl _ \<Rightarrow> False" by code_simp
  from demo_check[OF s this] obtain r a where run: "run_calls demo_hash demo_root_calls (r0, a0) = Inr (r, a)"
    and root: "org_root_admin r 1 = 21" and granted: "can_access_app demo_hash r 200 a 1 21 (demo_hash demo_slug)"
    and lapsed: "lapsed_at 200000 a 1 21"
    by (auto simp: lapsed_at_def split: sum.splits)
  have dep: "deployed demo_hash (r, a)" by (rule run_calls_deployed[OF dep0 run])
  have now: "clock (demo_contract_world r a 200) = 200000" by simp
  show ?thesis
  proof (rule live_over_contracts[of demo_hash_ext "demo_contract_world r a 200" demo_server_env demo_abi demo_hash r a
        200 demo_chain "''0x21''" 21 1 1 demo_slug])
    fix dec snap
    assume ev: "evaluate_live_access demo_hash_ext (demo_contract_world r a 200) 1 ''0x21'' (Some demo_slug) = Evaluated dec snap"
      and dec: "dec = decide_access
       \<lparr>snap_organization = (if org_root_admin r 1 = 0 then None else Some (orgn_active (rg_organizations r 1))),
        snap_identity = Some \<lparr>id_registered = is_registered_identity r 21, id_active = is_active_identity r 21\<rparr>,
        snap_membership = Some (lapsed_at (clock (demo_contract_world r a 200)) a 1 21),
        snap_role = role_text (role_of demo_hash (effective_role demo_hash r 200 a 1 21)),
        snap_app_access = Value (can_access_app demo_hash r 200 a 1 21 (demo_hash demo_slug)),
        snap_app_registered = Value (am_app_registered a 1 (demo_hash demo_slug))\<rparr>"
    have "\<not> allowed dec" unfolding dec now using lapsed by (simp add: decide_access_allowed)
    with dep root granted ev show ?thesis by blast
  qed (simp_all add: demo_hash_roles demo_codec demo_hash_env demo_arguments dep)
qed

end
