(* ===== verification/RepairBindings.thy ===== *)
theory RepairBindings
  imports AssetProps
begin

text \<open>
  \<open>apps/platform/scripts/repair-asset-bindings.mjs\<close>: the store's token bindings reconciled with what
  AssetNFT holds. The script reads the tokens and the rows once, decides from that snapshot, and writes
  row by row. Its console output is the report it returns.
\<close>

subsection \<open>What the chain holds\<close>

record chain_token =
  ct_id :: int
  ct_org :: int
  ct_hash :: string
  ct_tx :: "string option"

text \<open>The calls of the script on AssetNFT and on the provider: \<open>totalMinted\<close>, \<open>getAsset\<close>, the block
  number, and the \<open>AssetMinted\<close> events of a window as token and transaction.\<close>

record nft_reads =
  nr_total :: "exn + nat"
  nr_asset :: "int \<Rightarrow> exn + raw_asset"
  nr_latest :: "exn + int"
  nr_minted :: "int \<Rightarrow> int \<Rightarrow> exn + (int \<times> string) list"

fun token_range :: "nft_reads \<Rightarrow> nat \<Rightarrow> exn + chain_token list" where
  "token_range N 0 = Inr []"
| "token_range N (Suc n) =
    bind_res (token_range N n) (\<lambda>ts.
    bind_res (nr_asset N (int (Suc n))) (\<lambda>record.
    Inr (if ra_org_id record = 0 then ts
         else ts @ [\<lparr>ct_id = int (Suc n), ct_org = ra_org_id record, ct_hash = ra_asset_hash record, ct_tx = None\<rparr>])))"

definition read_chain_tokens :: "nft_reads \<Rightarrow> exn + chain_token list" where
  "read_chain_tokens N = bind_res (nr_total N) (token_range N)"

definition set_tx :: "int \<Rightarrow> string \<Rightarrow> chain_token list \<Rightarrow> chain_token list" where
  "set_tx i hash tokens = map (\<lambda>t. if ct_id t = i then t\<lparr>ct_tx := Some hash\<rparr> else t) tokens"

text \<open>The hashes named with \<open>--tx\<close>, in the order of the arguments.\<close>

definition named_hashes :: "(int \<times> string) list \<Rightarrow> chain_token list \<Rightarrow> chain_token list" where
  "named_hashes hs tokens = fold (\<lambda>(i, hash). set_tx i hash) hs tokens"

fun take_events :: "(int \<times> string) list \<Rightarrow> int list \<Rightarrow> chain_token list \<Rightarrow> int list \<times> chain_token list" where
  "take_events [] wanted tokens = (wanted, tokens)"
| "take_events ((i, hash) # es) wanted tokens =
    (if i \<notin> set wanted then take_events es wanted tokens
     else take_events es (removeAll i wanted) (set_tx i hash tokens))"

text \<open>The scan runs down from the tip in windows and gives up at the first refused window.\<close>

function scan_down :: "nft_reads \<Rightarrow> nat \<Rightarrow> int \<Rightarrow> int \<Rightarrow> int list \<Rightarrow> chain_token list \<Rightarrow> chain_token list" where
  "scan_down N chunk floor hi wanted tokens =
    (if hi < floor \<or> wanted = [] \<or> chunk = 0 then tokens
     else case nr_minted N (max floor (hi - int chunk + 1)) hi of
       Inl _ \<Rightarrow> tokens
     | Inr es \<Rightarrow> (case take_events es wanted tokens of
         (wanted', tokens') \<Rightarrow> scan_down N chunk floor (hi - int chunk) wanted' tokens'))"
  by pat_completeness auto
termination by (relation "measure (\<lambda>(N, chunk, floor, hi, wanted, tokens). nat (hi - floor + 1))") auto

declare scan_down.simps [simp del]

definition scan_window :: "int \<Rightarrow> nat" where
  "scan_window chain_id = (if chain_id = 11155111 then 10 else 2000)"

definition read_mint_tx_hashes :: "nft_reads \<Rightarrow> int \<Rightarrow> nat \<Rightarrow> chain_token list \<Rightarrow> exn + chain_token list" where
  "read_mint_tx_hashes N chain_id look_back tokens =
    (if tokens = [] \<or> look_back = 0 then Inr tokens
     else bind_res (nr_latest N) (\<lambda>latest.
       Inr (scan_down N (scan_window chain_id) (max 0 (latest - int look_back)) latest (map ct_id tokens) tokens)))"

subsection \<open>What the store holds\<close>

text \<open>A statement of the script's own client; no environment is read between the statements.\<close>

definition script_stmt :: "(world \<Rightarrow> (db_error + 'a) \<times> world) \<Rightarrow> (db_error + 'a) io" where
  "script_stmt stmt w =
    (let k = db_calls w; w1 = w\<lparr>db_calls := Suc k\<rparr> in
     case db_fault w k of
       Some err \<Rightarrow> (Inr (Inl err), w1)
     | None \<Rightarrow> (case stmt w1 of (r, w2) \<Rightarrow> (Inr r, w2)))"

definition rows_by_age :: "world \<Rightarrow> asset_row list" where
  "rows_by_age w = sort_key as_created_at (assets w)"

definition read_rows :: "(asset_row list \<times> bool) io" where
  "read_rows =
    seq (script_stmt (scoped_stmt (query_stmt rows_by_age))) (\<lambda>scoped.
    case scoped of
      Inr rows \<Rightarrow> ret (rows, True)
    | Inl e \<Rightarrow>
        if \<not> is_unknown_column e then throw (JsError (db_message e))
        else seq (script_stmt (query_stmt rows_by_age)) (\<lambda>legacy.
          case legacy of
            Inl e' \<Rightarrow> throw (JsError (db_message e'))
          | Inr rows \<Rightarrow> ret (map unstamped rows, False)))"

text \<open>A patch: the token and its transaction, the deployment stamp, or both.\<close>

record binding_patch =
  bp_binding :: "(int option \<times> string option) option"
  bp_stamp :: "(int \<times> string) option"

definition patch_row :: "binding_patch \<Rightarrow> asset_row \<Rightarrow> asset_row" where
  "patch_row p r =
    (let r1 = (case bp_binding p of None \<Rightarrow> r | Some (t, tx) \<Rightarrow> r\<lparr>as_token_id := t, as_mint_tx := tx\<rparr>) in
     case bp_stamp p of None \<Rightarrow> r1 | Some (c, a) \<Rightarrow> r1\<lparr>as_chain_id := Some c, as_contract := Some a\<rparr>)"

definition patch_stmt :: "string \<Rightarrow> binding_patch \<Rightarrow> world \<Rightarrow> (db_error + unit) \<times> world" where
  "patch_stmt i p w =
    (if bp_stamp p \<noteq> None \<and> \<not> scoped_columns w then (Inl unknown_column, w)
     else let rows = update_where (\<lambda>r. as_id r = i) (patch_row p) (assets w) in
       if rows \<noteq> assets w \<and> \<not> tokens_unique (scoped_columns w) rows then (Inl unique_violation, w)
       else (Inr (), w\<lparr>assets := rows\<rparr>))"

definition repair_update :: "bool \<Rightarrow> string \<Rightarrow> binding_patch \<Rightarrow> bool \<Rightarrow> unit io" where
  "repair_update apply_it i patch scoped =
    (if \<not> apply_it then ret ()
     else seq (script_stmt (patch_stmt i patch)) (\<lambda>attempt.
       case attempt of
         Inr _ \<Rightarrow> ret ()
       | Inl e \<Rightarrow>
           if scoped \<and> is_unknown_column e
           then let rest = patch\<lparr>bp_stamp := None\<rparr> in
             if bp_binding rest = None then ret ()
             else seq (script_stmt (patch_stmt i rest)) (\<lambda>retry.
               case retry of
                 Inl e' \<Rightarrow> throw (JsError (i @ '': '' @ db_message e'))
               | Inr _ \<Rightarrow> ret ())
           else throw (JsError (i @ '': '' @ db_message e))))"

subsection \<open>The repair\<close>

datatype binding_verdict =
    StampedElsewhere
  | NoSuchToken
  | AnchorDiffers
  | OrgDiffers
  | StampMissing
  | Verified

definition belongs_elsewhere :: "bool \<Rightarrow> string \<Rightarrow> asset_row \<Rightarrow> bool" where
  "belongs_elsewhere scoped nft r \<longleftrightarrow>
     scoped \<and> truthy (as_contract r) \<and> \<not> same_hex (nullish (as_contract r) []) nft"

definition token_of :: "chain_token list \<Rightarrow> int \<Rightarrow> chain_token option" where
  "token_of tokens i = find (\<lambda>t. ct_id t = i) tokens"

definition binding_verdict :: "bool \<Rightarrow> string \<Rightarrow> chain_token list \<Rightarrow> int \<Rightarrow> asset_row \<Rightarrow> binding_verdict" where
  "binding_verdict scoped nft tokens i r =
    (if belongs_elsewhere scoped nft r then StampedElsewhere
     else case token_of tokens i of
       None \<Rightarrow> NoSuchToken
     | Some t \<Rightarrow>
         if \<not> same_hex (ct_hash t) (as_hash r) then AnchorDiffers
         else if ct_org t \<noteq> as_org_id r then OrgDiffers
         else if scoped \<and> (\<not> truthy (as_contract r) \<or> nullish (as_chain_id r) 0 = 0) then StampMissing
         else Verified)"

definition row_verdict :: "bool \<Rightarrow> string \<Rightarrow> chain_token list \<Rightarrow> asset_row \<Rightarrow> binding_verdict option" where
  "row_verdict scoped nft tokens r = map_option (\<lambda>i. binding_verdict scoped nft tokens i r) (as_token_id r)"

definition contradicted :: "binding_verdict option \<Rightarrow> bool" where
  "contradicted v \<longleftrightarrow> v \<in> {Some NoSuchToken, Some AnchorDiffers, Some OrgDiffers}"

text \<open>The oldest free draft of the token's organization with its anchor.\<close>

definition draft_matches :: "chain_token \<Rightarrow> asset_row \<Rightarrow> bool" where
  "draft_matches t d \<longleftrightarrow> as_org_id d = ct_org t \<and> same_hex (as_hash d) (ct_hash t)"

fun pair_tokens ::
  "asset_row list \<Rightarrow> string list \<Rightarrow> chain_token list \<Rightarrow> (chain_token \<times> asset_row) list \<times> chain_token list" where
  "pair_tokens drafts taken [] = ([], [])"
| "pair_tokens drafts taken (t # ts) =
    (case find (\<lambda>d. as_id d \<notin> set taken \<and> draft_matches t d) drafts of
       None \<Rightarrow> (case pair_tokens drafts taken ts of (bound, orphans) \<Rightarrow> (bound, t # orphans))
     | Some d \<Rightarrow> (case pair_tokens drafts (as_id d # taken) ts of (bound, orphans) \<Rightarrow> ((t, d) # bound, orphans)))"

record repair_report =
  rr_released :: "asset_row list"
  rr_stamped :: "asset_row list"
  rr_kept :: "asset_row list"
  rr_bound :: "(chain_token \<times> asset_row) list"
  rr_orphans :: "chain_token list"
  rr_unbound :: "asset_row list"

definition still_bound :: "bool \<Rightarrow> string \<Rightarrow> asset_row list \<Rightarrow> asset_row list \<Rightarrow> int list" where
  "still_bound scoped nft rows freed =
    List.map_filter as_token_id
      (filter (\<lambda>r. \<not> belongs_elsewhere scoped nft r)
        (filter (\<lambda>r. as_token_id r \<noteq> None \<and> as_id r \<notin> as_id ` set freed) rows))"

definition repair_plan :: "bool \<Rightarrow> string \<Rightarrow> chain_token list \<Rightarrow> asset_row list \<Rightarrow> repair_report" where
  "repair_plan scoped nft tokens rows =
    (let verdict = row_verdict scoped nft tokens;
         freed = filter (\<lambda>r. contradicted (verdict r)) rows;
         stamped = filter (\<lambda>r. verdict r = Some StampMissing) rows;
         kept = filter (\<lambda>r. verdict r \<in> {Some StampedElsewhere, Some Verified}) rows;
         drafts = filter (\<lambda>r. as_token_id r = None \<or> as_id r \<in> as_id ` set freed) rows;
         claimable = sort_key ct_id (filter (\<lambda>t. ct_id t \<notin> set (still_bound scoped nft rows freed)) tokens)
     in case pair_tokens drafts [] claimable of (bound, orphans) \<Rightarrow>
       \<lparr>rr_released = freed, rr_stamped = stamped, rr_kept = kept, rr_bound = bound, rr_orphans = orphans,
        rr_unbound = filter (\<lambda>d. as_id d \<notin> as_id ` snd ` set bound) drafts\<rparr>)"

definition release_patch :: binding_patch where
  "release_patch = \<lparr>bp_binding = Some (None, None), bp_stamp = None\<rparr>"

definition stamp_patch :: "int \<Rightarrow> string \<Rightarrow> binding_patch" where
  "stamp_patch chain_id nft = \<lparr>bp_binding = None, bp_stamp = Some (chain_id, nft)\<rparr>"

definition bind_patch :: "int \<Rightarrow> string \<Rightarrow> chain_token \<Rightarrow> binding_patch" where
  "bind_patch chain_id nft t = \<lparr>bp_binding = Some (Some (ct_id t), ct_tx t), bp_stamp = Some (chain_id, nft)\<rparr>"

definition repair_writes :: "int \<Rightarrow> string \<Rightarrow> repair_report \<Rightarrow> (string \<times> binding_patch \<times> bool) list" where
  "repair_writes chain_id nft p =
     map (\<lambda>r. (as_id r, release_patch, False)) (rr_released p)
     @ map (\<lambda>r. (as_id r, stamp_patch chain_id nft, True)) (rr_stamped p)
     @ map (\<lambda>(t, d). (as_id d, bind_patch chain_id nft t, True)) (rr_bound p)"

fun update_each :: "bool \<Rightarrow> (string \<times> binding_patch \<times> bool) list \<Rightarrow> unit io" where
  "update_each apply_it [] = ret ()"
| "update_each apply_it ((i, patch, scoped) # ops) =
    seq (repair_update apply_it i patch scoped) (\<lambda>_. update_each apply_it ops)"

record repair_options =
  ro_apply :: bool
  ro_scan :: nat
  ro_hashes :: "(int \<times> string) list"
  ro_chain :: int
  ro_nft :: string

text \<open>The command line and the environment file, before anything is read.\<close>

fun tx_hash_args :: "string list \<Rightarrow> string + (int \<times> string) list" where
  "tx_hash_args [] = Inr []"
| "tx_hash_args (a # rest) =
    (if a \<noteq> ''--tx'' then tx_hash_args rest
     else let arg = (case rest of [] \<Rightarrow> [] | v # _ \<Rightarrow> v); parts = split_on CHR ''='' arg;
              token = (case parts of [] \<Rightarrow> [] | t # _ \<Rightarrow> t); hash = (case parts of _ # h # _ \<Rightarrow> h | _ \<Rightarrow> [])
       in if token = [] \<or> \<not> list_all is_digit token \<or> \<not> (starts_with ''0x'' hash \<and> length hash = 66 \<and> list_all is_hex_digit (drop 2 hash))
          then Inl (''--tx expects <tokenId>=<0x'' @ [ellipsis] @ ''64 hex>, got '' @ [CHR 0x22] @ arg @ [CHR 0x22])
          else (case tx_hash_args rest of
                  Inl e \<Rightarrow> Inl e
                | Inr hs \<Rightarrow> Inr ((int (nullish (digits_value 0 token) 0), hash) # hs)))"

definition scan_blocks :: "ext \<Rightarrow> string list \<Rightarrow> string + nat" where
  "scan_blocks X argv =
    (let n = (case find (\<lambda>a. a = ''--scan'' \<or> starts_with ''--scan='' a) argv of
                None \<Rightarrow> Some 0
              | Some a \<Rightarrow> (case split_on CHR ''='' a of _ # v # _ \<Rightarrow> x_number X v | _ \<Rightarrow> Some 300))
     in case n of
       None \<Rightarrow> Inl ''--scan expects a positive block count''
     | Some k \<Rightarrow> if k < 0 then Inl ''--scan expects a positive block count'' else Inr (nat k))"

definition required_keys :: "string list" where
  "required_keys = [''SUPABASE_URL'', ''SUPABASE_SERVICE_ROLE_KEY'', ''RPC_URL'', ''CHAIN_ID'', ''ASSET_NFT_ADDRESS'']"

definition repair_options_of :: "ext \<Rightarrow> string \<Rightarrow> string list \<Rightarrow> process_env \<Rightarrow> string + repair_options" where
  "repair_options_of X env_file argv env =
    (case tx_hash_args argv of
       Inl e \<Rightarrow> Inl e
     | Inr hs \<Rightarrow>
    (case scan_blocks X argv of
       Inl e \<Rightarrow> Inl e
     | Inr n \<Rightarrow>
    (case find (\<lambda>k. \<not> truthy (env k)) required_keys of
       Some k \<Rightarrow> Inl (k @ '' is missing from '' @ env_file)
     | None \<Rightarrow> Inr
        \<lparr>ro_apply = ''--apply'' \<in> set argv, ro_scan = n, ro_hashes = hs,
         ro_chain = nullish (x_number X (nullish (env ''CHAIN_ID'') [])) 0, ro_nft = nullish (env ''ASSET_NFT_ADDRESS'') []\<rparr>)))"

definition repair_main :: "nft_reads \<Rightarrow> repair_options \<Rightarrow> repair_report io" where
  "repair_main N opt =
    seq (lift_res (read_chain_tokens N)) (\<lambda>held.
    seq (lift_res (read_mint_tx_hashes N (ro_chain opt) (ro_scan opt) (named_hashes (ro_hashes opt) held))) (\<lambda>tokens.
    seq read_rows (\<lambda>(rows, scoped).
    let nft = to_lower (ro_nft opt); plan = repair_plan scoped nft tokens rows in
    seq (update_each (ro_apply opt) (repair_writes (ro_chain opt) nft plan)) (\<lambda>_. ret plan))))"

end
