(* ===== verification/RepairProps.thy ===== *)
theory RepairProps
  imports RepairBindings DemoWorld
begin

text \<open>
  What the repair script does to the store: row by row in one pass, so that afterwards every binding of
  this deployment agrees with the chain, nothing but bindings changed, and a second run finds nothing.
\<close>

lemma visible_row_org [simp]: "as_org_id (visible_row cols r) = as_org_id r" "as_hash (visible_row cols r) = as_hash r"
  by (cases cols; simp add: visible_row_def unstamped_def)+

subsection \<open>The tokens read\<close>

definition token_facts :: "chain_token \<Rightarrow> int \<times> int \<times> string" where
  "token_facts t = (ct_id t, ct_org t, ct_hash t)"

lemma set_tx_facts [simp]: "map token_facts (set_tx i h ts) = map token_facts ts"
  by (simp add: set_tx_def token_facts_def)

lemma take_events_facts: "take_events es wanted ts = (wanted', ts') \<Longrightarrow> map token_facts ts' = map token_facts ts"
  by (induction es wanted ts rule: take_events.induct) (auto split: if_splits)

lemma scan_down_facts: "map token_facts (scan_down N chunk floor hi wanted ts) = map token_facts ts"
  by (induction N chunk floor hi wanted ts rule: scan_down.induct)
     (subst scan_down.simps, auto split: sum.splits prod.splits dest!: take_events_facts)

lemma read_mint_facts: "read_mint_tx_hashes N c n ts = Inr ts' \<Longrightarrow> map token_facts ts' = map token_facts ts"
  by (cases "nr_latest N") (auto simp: read_mint_tx_hashes_def scan_down_facts split: if_splits)

lemma named_hashes_facts: "map token_facts (named_hashes hs ts) = map token_facts ts"
  unfolding named_hashes_def by (induction hs arbitrary: ts) auto

lemma token_range_holds:
  assumes "token_range N n = Inr ts"
  shows "distinct (map ct_id ts)
    \<and> (\<forall>t \<in> set ts. 0 < ct_id t \<and> ct_id t \<le> int n
         \<and> (\<exists>ra. nr_asset N (ct_id t) = Inr ra \<and> ra_org_id ra = ct_org t \<and> ra_asset_hash ra = ct_hash t))"
  using assms
proof (induction n arbitrary: ts)
  case (Suc n)
  then obtain us ra where u: "token_range N n = Inr us" and r: "nr_asset N (int (Suc n)) = Inr ra"
    and ts: "ts = (if ra_org_id ra = 0 then us
      else us @ [\<lparr>ct_id = int (Suc n), ct_org = ra_org_id ra, ct_hash = ra_asset_hash ra, ct_tx = None\<rparr>])"
    by (cases "token_range N n"; cases "nr_asset N (int (Suc n))") auto
  from Suc.IH[OF u] have us: "distinct (map ct_id us)" "\<And>t. t \<in> set us \<Longrightarrow> 0 < ct_id t \<and> ct_id t \<le> int n
      \<and> (\<exists>ra. nr_asset N (ct_id t) = Inr ra \<and> ra_org_id ra = ct_org t \<and> ra_asset_hash ra = ct_hash t)" by blast+
  then have "int (Suc n) \<notin> ct_id ` set us" by force
  with us r show ?case by (simp add: ts) force
qed simp

subsection \<open>Rows, one at a time\<close>

definition patch_in :: "bool \<Rightarrow> binding_patch \<Rightarrow> asset_row \<Rightarrow> asset_row" where
  "patch_in cols p = patch_row (if cols then p else p\<lparr>bp_stamp := None\<rparr>)"

definition row_after :: "bool \<Rightarrow> (string \<times> binding_patch \<times> bool) list \<Rightarrow> asset_row \<Rightarrow> asset_row" where
  "row_after cols ops r = fold (\<lambda>(i, p, s) x. if as_id r = i then patch_in cols p x else x) ops r"

text \<open>What a repair never touches.\<close>

definition unbound_part :: "asset_row \<Rightarrow> asset_row" where
  "unbound_part r = r\<lparr>as_token_id := None, as_mint_tx := None, as_chain_id := None, as_contract := None\<rparr>"

lemma unbound_part_patch [simp]: "unbound_part (patch_in cols p r) = unbound_part r"
  by (simp add: patch_in_def patch_row_def unbound_part_def Let_def split: option.splits prod.splits)

lemma unbound_part_fold: "unbound_part (fold (\<lambda>(i, p, s) x. if j = i then patch_in cols p x else x) ops x) = unbound_part x"
  by (induction ops arbitrary: x) (auto split: prod.splits)

lemma unbound_part_row_after [simp]: "unbound_part (row_after cols ops r) = unbound_part r"
  by (simp add: row_after_def unbound_part_fold)

lemma unbound_partD:
  assumes "unbound_part r = unbound_part s"
  shows "as_id r = as_id s" "as_org_id r = as_org_id s" "as_hash r = as_hash s" "as_created_at r = as_created_at s"
  using arg_cong[OF assms, of as_id] arg_cong[OF assms, of as_org_id] arg_cong[OF assms, of as_hash]
    arg_cong[OF assms, of as_created_at]
  by (simp_all add: unbound_part_def)

lemmas row_after_fields [simp] = unbound_partD[OF unbound_part_row_after]

lemma patch_in_id [simp]: "as_id (patch_in cols p r) = as_id r"
  by (rule unbound_partD) simp

lemma row_after_Cons: "row_after cols ((i, p, s) # ops) r = row_after cols ops (if as_id r = i then patch_in cols p r else r)"
  by (simp add: row_after_def)

subsection \<open>The writes\<close>

definition quiet :: "world \<Rightarrow> bool" where
  "quiet w \<longleftrightarrow> (\<forall>k. db_fault w k = None)"

lemma script_stmt_quiet: "quiet w \<Longrightarrow> script_stmt st w = (case st (w\<lparr>db_calls := Suc (db_calls w)\<rparr>) of (r, w2) \<Rightarrow> (Inr r, w2))"
  by (simp add: script_stmt_def quiet_def Let_def)

lemma patch_stmt_Inr:
  assumes "patch_stmt i p w = (Inr u, w1)"
  shows "w1 = w\<lparr>assets := map (\<lambda>r. if as_id r = i then patch_row p r else r) (assets w)\<rparr>"
    and "scoped_columns w \<or> bp_stamp p = None"
  using assms by (auto simp: patch_stmt_def update_where_def Let_def split: if_splits)

lemma patch_stmt_Inl:
  assumes "patch_stmt i p w = (Inl e, w1)"
  shows "w1 = w" and "is_unknown_column e \<longleftrightarrow> \<not> scoped_columns w \<and> bp_stamp p \<noteq> None"
  using assms
  by (auto simp: patch_stmt_def Let_def is_unknown_column_def unknown_column_def unique_violation_def split: if_splits)

lemma quiet_calls [simp]: "quiet (w\<lparr>db_calls := n\<rparr>) = quiet w" "quiet (w\<lparr>assets := rows\<rparr>) = quiet w"
  by (simp_all add: quiet_def)

lemma repair_update_Inr:
  assumes "repair_update True i p s w = (Inr u, w1)" and "quiet w" and "s \<or> bp_stamp p = None"
  shows "\<exists>n. w1 = w\<lparr>db_calls := n, assets := map (\<lambda>r. if as_id r = i then patch_in (scoped_columns w) p r else r) (assets w)\<rparr>"
proof -
  let ?w = "w\<lparr>db_calls := Suc (db_calls w)\<rparr>"
  obtain a w2 where st: "patch_stmt i p ?w = (a, w2)" by (cases "patch_stmt i p ?w")
  show ?thesis
  proof (cases a)
    case (Inr v)
    have "patch_in (scoped_columns w) p = patch_row p"
      using patch_stmt_Inr(2)[OF st[unfolded Inr]] by (cases p) (auto simp: patch_in_def)
    moreover have "w1 = w2" using assms(1,2) st Inr by (simp add: repair_update_def seq_def script_stmt_quiet ret_def)
    ultimately show ?thesis
      using patch_stmt_Inr(1)[OF st[unfolded Inr]] by (intro exI[of _ "Suc (db_calls w)"]) simp
  next
    case (Inl e)
    from patch_stmt_Inl[OF st[unfolded Inl]] have w2: "w2 = ?w"
      and u: "is_unknown_column e \<longleftrightarrow> \<not> scoped_columns w \<and> bp_stamp p \<noteq> None" by simp_all
    from assms(1,2) st have run: "(if s \<and> is_unknown_column e
           then let rest = p\<lparr>bp_stamp := None\<rparr> in if bp_binding rest = None then ret ()
             else seq (script_stmt (patch_stmt i rest)) (\<lambda>retry. case retry of
                 Inl e' \<Rightarrow> throw (JsError (i @ '': '' @ db_message e')) | Inr _ \<Rightarrow> ret ())
           else throw (JsError (i @ '': '' @ db_message e))) w2 = (Inr u, w1)"
      unfolding repair_update_def seq_def Inl by (simp add: script_stmt_quiet cong: if_cong)
    then have c: "\<not> scoped_columns w" using u by (auto simp: throw_def split: if_splits)
    show ?thesis
    proof (cases "bp_binding p")
      case None
      then have "map (\<lambda>r. if as_id r = i then patch_in False p r else r) (assets w) = assets w"
        by (auto intro!: map_idI simp: patch_in_def patch_row_def Let_def)
      moreover from run None w2 c have "w1 = ?w" by (auto simp: ret_def throw_def split: if_splits)
      ultimately show ?thesis using c by (intro exI[of _ "Suc (db_calls w)"]) (simp cong: if_cong)
    next
      case (Some b)
      let ?v = "?w\<lparr>db_calls := Suc (Suc (db_calls w))\<rparr>"
      obtain a' w3 where st': "patch_stmt i (p\<lparr>bp_stamp := None\<rparr>) ?v = (a', w3)"
        by (cases "patch_stmt i (p\<lparr>bp_stamp := None\<rparr>) ?v")
      with run Some w2 assms(2) have "\<exists>v. a' = Inr v" "w3 = w1"
        by (auto simp: seq_def script_stmt_quiet throw_def ret_def split: if_splits sum.splits)
      with st' obtain v where "patch_stmt i (p\<lparr>bp_stamp := None\<rparr>) ?v = (Inr v, w1)" by auto
      from patch_stmt_Inr(1)[OF this] c show ?thesis
        by (intro exI[of _ "Suc (Suc (db_calls w))"]) (simp add: patch_in_def cong: if_cong)
    qed
  qed
qed

lemma update_each_Inr:
  assumes "update_each True ops w = (Inr u, w1)" and "quiet w" and "\<forall>(i, p, s) \<in> set ops. s \<or> bp_stamp p = None"
  shows "\<exists>n. w1 = w\<lparr>db_calls := n, assets := map (row_after (scoped_columns w) ops) (assets w)\<rparr>"
  using assms
proof (induction ops arbitrary: w)
  case Nil
  moreover have "row_after c [] = (\<lambda>r. r)" for c by (simp add: row_after_def fun_eq_iff)
  ultimately show ?case by (intro exI[of _ "db_calls w"]) (simp add: ret_def)
next
  case (Cons op ops)
  obtain i p s where op: "op = (i, p, s)" by (cases op)
  from Cons.prems(1) obtain v w2 where one: "repair_update True i p s w = (Inr v, w2)" and rest: "update_each True ops w2 = (Inr u, w1)"
    by (auto simp: op io_iff)
  from repair_update_Inr[OF one Cons.prems(2)] Cons.prems(3) obtain n where
    w2: "w2 = w\<lparr>db_calls := n, assets := map (\<lambda>r. if as_id r = i then patch_in (scoped_columns w) p r else r) (assets w)\<rparr>"
    by (auto simp: op)
  have "quiet w2" using Cons.prems(2) by (simp add: w2)
  from Cons.IH[OF rest this] Cons.prems(3) obtain n' where
    "w1 = w2\<lparr>db_calls := n', assets := map (row_after (scoped_columns w2) ops) (assets w2)\<rparr>" by auto
  then have "w1 = w\<lparr>db_calls := n', assets := map (row_after (scoped_columns w) (op # ops)) (assets w)\<rparr>"
    by (simp add: w2 op row_after_Cons)
  then show ?case by blast
qed

lemma update_each_dry: "update_each False ops = ret ()"
  by (induction ops) (auto simp: repair_update_def seq_def ret_def fun_eq_iff)

lemma read_rows_quiet:
  assumes "quiet w"
  shows "\<exists>n. read_rows w = (Inr (map (visible_row (scoped_columns w)) (rows_by_age w), scoped_columns w), w\<lparr>db_calls := n\<rparr>)"
proof -
  have q1: "quiet (w\<lparr>db_calls := Suc (db_calls w)\<rparr>)" using assms by simp
  show ?thesis
  proof (cases "scoped_columns w")
    case True
    then have "map (visible_row (scoped_columns w)) (rows_by_age w) = rows_by_age w" by (simp add: visible_row_def map_idI)
    with True show ?thesis
      by (auto simp: read_rows_def seq_def script_stmt_quiet[OF assms] scoped_stmt_def query_stmt_def ret_def rows_by_age_def)
  next
    case False
    then show ?thesis
      by (auto simp: read_rows_def seq_def script_stmt_quiet[OF assms] script_stmt_quiet[OF q1] scoped_stmt_def query_stmt_def
          ret_def rows_by_age_def visible_row_def[abs_def] is_unknown_column_def unknown_column_def)
  qed
qed

subsection \<open>The plan\<close>

lemma pair_tokens_holds:
  assumes "pair_tokens drafts taken ts = (bound, orphans)"
  shows "distinct (map (\<lambda>(t, d). as_id d) bound)
    \<and> (\<forall>(t, d) \<in> set bound. t \<in> set ts \<and> d \<in> set drafts \<and> as_id d \<notin> set taken \<and> draft_matches t d)
    \<and> (\<forall>t \<in> set orphans. \<forall>d \<in> set drafts. as_id d \<notin> set taken \<and> as_id d \<notin> as_id ` snd ` set bound \<longrightarrow> \<not> draft_matches t d)
    \<and> set ts \<subseteq> fst ` set bound \<union> set orphans"
  using assms
proof (induction drafts taken ts arbitrary: bound orphans rule: pair_tokens.induct)
  case (2 drafts taken t ts)
  show ?case
  proof (cases "find (\<lambda>d. as_id d \<notin> set taken \<and> draft_matches t d) drafts")
    case None
    then have none: "d \<in> set drafts \<Longrightarrow> as_id d \<notin> set taken \<Longrightarrow> \<not> draft_matches t d" for d by (auto simp: find_None_iff)
    obtain b os where p: "pair_tokens drafts taken ts = (b, os)" by (cases "pair_tokens drafts taken ts")
    with 2(3) None have "bound = b" "orphans = t # os" by auto
    with 2(1)[OF None p] none show ?thesis by auto
  next
    case (Some d)
    then have d: "d \<in> set drafts" "as_id d \<notin> set taken" "draft_matches t d" by (auto simp: find_Some_iff)
    obtain b os where p: "pair_tokens drafts (as_id d # taken) ts = (b, os)" by (cases "pair_tokens drafts (as_id d # taken) ts")
    with 2(3) Some have bs: "bound = (t, d) # b" "orphans = os" by auto
    note IH = 2(2)[OF Some p]
    from IH have "as_id d \<notin> set (map (\<lambda>(t, d). as_id d) b)" by auto
    with IH d show ?thesis unfolding bs by auto
  qed
qed auto

lemma pair_tokens_none:
  "\<forall>t \<in> set ts. \<forall>d \<in> set drafts. \<not> draft_matches t d \<Longrightarrow> pair_tokens drafts taken ts = ([], ts)"
proof (induction ts)
  case (Cons t ts)
  then have "find (\<lambda>d. as_id d \<notin> set taken \<and> draft_matches t d) drafts = None" by (auto simp: find_None_iff)
  with Cons show ?case by simp
qed simp

text \<open>The token a draft is bound to.\<close>

definition bound_token :: "(chain_token \<times> asset_row) list \<Rightarrow> string \<Rightarrow> chain_token option" where
  "bound_token bound i = map_option fst (find (\<lambda>(t, d). as_id d = i) bound)"

lemma bound_token_SomeD: "bound_token bound i = Some t \<Longrightarrow> \<exists>d. (t, d) \<in> set bound \<and> as_id d = i"
  by (auto simp: bound_token_def find_Some_iff) (metis nth_mem)

lemma bound_token_None: "bound_token bound i = None \<longleftrightarrow> (\<forall>(t, d) \<in> set bound. as_id d \<noteq> i)"
  by (auto simp: bound_token_def find_None_iff)

lemma bound_token_in:
  "distinct (map (\<lambda>(t, d). as_id d) bound) \<Longrightarrow> (t, d) \<in> set bound \<Longrightarrow> bound_token bound (as_id d) = Some t"
proof (induction bound)
  case (Cons p bound)
  show ?case
  proof (cases "p = (t, d)")
    case False
    with Cons.prems have "(t, d) \<in> set bound" by auto
    moreover from this Cons.prems have "as_id (snd p) \<noteq> as_id d" by (force simp: case_prod_unfold)
    ultimately show ?thesis using Cons by (auto simp: bound_token_def case_prod_unfold)
  qed (simp add: bound_token_def)
qed simp

text \<open>What the writes of a plan do to one row.\<close>

lemma row_after_append: "row_after cols (xs @ ys) r = fold (\<lambda>(i, p, s) x. if as_id r = i then patch_in cols p x else x) ys (row_after cols xs r)"
  by (simp add: row_after_def)

lemma fold_same_patch:
  assumes "\<And>x. patch_in cols p (patch_in cols p x) = patch_in cols p x"
  shows "fold (\<lambda>(i, p, s) x. if j = i then patch_in cols p x else x) (map (\<lambda>r. (as_id r, p, b)) rs) x
    = (if j \<in> as_id ` set rs then patch_in cols p x else x)"
  by (induction rs arbitrary: x) (auto simp: assms)

lemma fold_bindings:
  assumes "distinct (map (\<lambda>(t, d). as_id d) bound)"
  shows "fold (\<lambda>(i, p, s) x. if j = i then patch_in cols p x else x) (map (\<lambda>(t, d). (as_id d, q t, True)) bound) x
    = (case bound_token bound j of None \<Rightarrow> x | Some t \<Rightarrow> patch_in cols (q t) x)"
  using assms
proof (induction bound arbitrary: x)
  case (Cons p bound)
  obtain t d where p: "p = (t, d)" by (cases p)
  show ?case
  proof (cases "as_id d = j")
    case True
    with Cons.prems have "bound_token bound j = None" by (force simp: bound_token_None p)
    with Cons True show ?thesis by (simp add: p bound_token_def)
  next
    case False
    with Cons show ?thesis by (simp add: p bound_token_def)
  qed
qed (simp add: bound_token_def)

lemma row_after_plan:
  assumes "distinct (map (\<lambda>(t, d). as_id d) (rr_bound p))"
  shows "row_after cols (repair_writes chain_id nft p) r =
    (let r1 = (if as_id r \<in> as_id ` set (rr_released p) then patch_in cols release_patch r else r);
         r2 = (if as_id r \<in> as_id ` set (rr_stamped p) then patch_in cols (stamp_patch chain_id nft) r1 else r1)
     in case bound_token (rr_bound p) (as_id r) of None \<Rightarrow> r2 | Some t \<Rightarrow> patch_in cols (bind_patch chain_id nft t) r2)"
proof -
  have rel: "patch_in cols release_patch (patch_in cols release_patch x) = patch_in cols release_patch x" for x
    by (simp add: patch_in_def patch_row_def release_patch_def)
  have stp: "patch_in cols (stamp_patch chain_id nft) (patch_in cols (stamp_patch chain_id nft) x) = patch_in cols (stamp_patch chain_id nft) x" for x
    by (simp add: patch_in_def patch_row_def stamp_patch_def)
  show ?thesis
    by (simp add: repair_writes_def row_after_def fold_same_patch[OF rel] fold_same_patch[OF stp] fold_bindings[OF assms] Let_def)
qed

subsection \<open>Rows after the plan\<close>

lemma id_in_filter:
  "distinct (map as_id rows) \<Longrightarrow> r \<in> set rows \<Longrightarrow> as_id r \<in> as_id ` set (filter P rows) \<longleftrightarrow> P r"
  by (auto simp: distinct_map inj_on_def)

lemma repair_plan_parts:
  assumes "p = repair_plan cols nft tokens rows"
  shows "rr_released p = filter (\<lambda>r. contradicted (row_verdict cols nft tokens r)) rows"
    and "rr_stamped p = filter (\<lambda>r. row_verdict cols nft tokens r = Some StampMissing) rows"
    and "pair_tokens (filter (\<lambda>r. as_token_id r = None \<or> as_id r \<in> as_id ` set (rr_released p)) rows) []
      (sort_key ct_id (filter (\<lambda>t. ct_id t \<notin> set (still_bound cols nft rows (rr_released p))) tokens))
      = (rr_bound p, rr_orphans p)"
  by (auto simp: assms repair_plan_def Let_def split: prod.splits)

lemmas plan_pairs = pair_tokens_holds[OF repair_plan_parts(3)]

lemma same_hex_sym: "same_hex a b = same_hex b a"
  by (auto simp: same_hex_def)

lemma bound_row:
  assumes p: "p = repair_plan cols nft tokens rows" and ids: "distinct (map as_id rows)" and r: "r \<in> set rows"
    and t: "bound_token (rr_bound p) (as_id r) = Some t"
  shows "t \<in> set tokens" and "draft_matches t r"
    and "as_token_id r = None \<or> contradicted (row_verdict cols nft tokens r)"
proof -
  from bound_token_SomeD[OF t] obtain d where d: "(t, d) \<in> set (rr_bound p)" "as_id d = as_id r" by blast
  note all = conjunct1[OF conjunct2[OF plan_pairs[OF p]]]
  from bspec[OF all d(1)] have m: "draft_matches t d" "t \<in> set tokens" "d \<in> set rows"
    "as_token_id d = None \<or> as_id d \<in> as_id ` set (rr_released p)" by auto
  from d(2) m(3) r ids have "d = r" by (auto simp: distinct_map inj_on_def)
  with m id_in_filter[OF ids r] show "t \<in> set tokens" "draft_matches t r"
    "as_token_id r = None \<or> contradicted (row_verdict cols nft tokens r)"
    by (auto simp: repair_plan_parts(1)[OF p])
qed

lemma repaired_row:
  fixes c :: int
  assumes p: "p = repair_plan cols nft tokens rows" and ids: "distinct (map as_id rows)" and r: "r \<in> set rows"
  defines "f \<equiv> row_after cols (repair_writes c nft p)"
  shows "bound_token (rr_bound p) (as_id r) = Some t \<Longrightarrow>
      as_token_id (f r) = Some (ct_id t) \<and> (cols \<longrightarrow> as_contract (f r) = Some nft \<and> as_chain_id (f r) = Some c)"
    and "bound_token (rr_bound p) (as_id r) = None \<Longrightarrow> row_verdict cols nft tokens r = Some StampMissing \<Longrightarrow>
      as_token_id (f r) = as_token_id r \<and> cols \<and> as_contract (f r) = Some nft \<and> as_chain_id (f r) = Some c"
    and "bound_token (rr_bound p) (as_id r) = None \<Longrightarrow> contradicted (row_verdict cols nft tokens r) \<Longrightarrow> as_token_id (f r) = None"
    and "bound_token (rr_bound p) (as_id r) = None \<Longrightarrow> row_verdict cols nft tokens r \<noteq> Some StampMissing \<Longrightarrow>
      \<not> contradicted (row_verdict cols nft tokens r) \<Longrightarrow> f r = r"
proof -
  have d: "distinct (map (\<lambda>(t, d). as_id d) (rr_bound p))" using plan_pairs[OF p] by blast
  note f = row_after_plan[OF d, of cols c nft r] and parts = repair_plan_parts(1,2)[OF p] and mem = id_in_filter[OF ids r]
  have stamp_cols: "row_verdict cols nft tokens r = Some StampMissing \<Longrightarrow> cols"
    by (auto simp: row_verdict_def binding_verdict_def split: option.splits if_splits)
  show "bound_token (rr_bound p) (as_id r) = Some t \<Longrightarrow>
      as_token_id (f r) = Some (ct_id t) \<and> (cols \<longrightarrow> as_contract (f r) = Some nft \<and> as_chain_id (f r) = Some c)"
    unfolding f_def f by (simp add: patch_in_def patch_row_def bind_patch_def Let_def)
  show "bound_token (rr_bound p) (as_id r) = None \<Longrightarrow> row_verdict cols nft tokens r = Some StampMissing \<Longrightarrow>
      as_token_id (f r) = as_token_id r \<and> cols \<and> as_contract (f r) = Some nft \<and> as_chain_id (f r) = Some c"
    using stamp_cols unfolding f_def f parts mem by (simp add: patch_in_def patch_row_def stamp_patch_def contradicted_def)
  show "bound_token (rr_bound p) (as_id r) = None \<Longrightarrow> contradicted (row_verdict cols nft tokens r) \<Longrightarrow> as_token_id (f r) = None"
    unfolding f_def f parts mem by (auto simp: patch_in_def patch_row_def release_patch_def stamp_patch_def contradicted_def)
  show "bound_token (rr_bound p) (as_id r) = None \<Longrightarrow> row_verdict cols nft tokens r \<noteq> Some StampMissing \<Longrightarrow>
      \<not> contradicted (row_verdict cols nft tokens r) \<Longrightarrow> f r = r"
    unfolding f_def f parts mem by simp
qed

text \<open>After the plan no binding of this deployment is contradicted or unstamped.\<close>

lemma token_of_in: "distinct (map ct_id tokens) \<Longrightarrow> t \<in> set tokens \<Longrightarrow> token_of tokens (ct_id t) = Some t"
  by (induction tokens) (auto simp: token_of_def)

lemma repaired_verdict:
  assumes p: "p = repair_plan cols nft tokens rows" and ids: "distinct (map as_id rows)" and r: "r \<in> set rows"
    and toks: "distinct (map ct_id tokens)" and c: "c \<noteq> 0" and nft: "nft \<noteq> []"
  shows "row_verdict cols nft tokens (row_after cols (repair_writes c nft p) r) \<in> {None, Some StampedElsewhere, Some Verified}"
proof (cases "bound_token (rr_bound p) (as_id r)")
  case (Some t)
  note b = bound_row[OF p ids r Some] and a = repaired_row(1)[OF p ids r Some, where c = c]
  from b a token_of_in[OF toks b(1)] c nft show ?thesis
    by (auto simp: row_verdict_def binding_verdict_def belongs_elsewhere_def draft_matches_def truthy_iff same_hex_def)
next
  case None
  show ?thesis
  proof (cases "row_verdict cols nft tokens r = Some StampMissing")
    case True
    then obtain i t where "as_token_id r = Some i" "token_of tokens i = Some t" "same_hex (ct_hash t) (as_hash r)" "ct_org t = as_org_id r"
      by (auto simp: row_verdict_def binding_verdict_def split: option.splits if_splits)
    with repaired_row(2)[OF p ids r None True, where c = c] c nft show ?thesis
      by (auto simp: row_verdict_def binding_verdict_def belongs_elsewhere_def truthy_iff same_hex_def split: option.splits if_splits)
  next
    case False
    show ?thesis
    proof (cases "contradicted (row_verdict cols nft tokens r)")
      case True
      from repaired_row(3)[OF p ids r None True, where c = c] show ?thesis by (simp add: row_verdict_def)
    next
      case nc: False
      from repaired_row(4)[OF p ids r None False nc, where c = c] False nc show ?thesis
        by (cases "row_verdict cols nft tokens r"; cases "the (row_verdict cols nft tokens r)") (auto simp: contradicted_def)
    qed
  qed
qed

lemma still_bound_iff:
  "i \<in> set (still_bound cols nft rows freed) \<longleftrightarrow>
     (\<exists>r \<in> set rows. as_token_id r = Some i \<and> as_id r \<notin> as_id ` set freed \<and> \<not> belongs_elsewhere cols nft r)"
  by (force simp: still_bound_def List.map_filter_def image_iff)

text \<open>A second plan over the repaired rows is empty.\<close>

lemma repaired_plan:
  assumes p: "p = repair_plan cols nft tokens rows" and ids: "distinct (map as_id rows)"
    and toks: "distinct (map ct_id tokens)" and c: "c \<noteq> 0" and nft: "nft \<noteq> []"
    and q: "q = repair_plan cols nft tokens (map (row_after cols (repair_writes c nft p)) rows)"
  shows "rr_released q = [] \<and> rr_stamped q = [] \<and> rr_bound q = []"
proof -
  let ?f = "row_after cols (repair_writes c nft p)"
  have v: "row_verdict cols nft tokens (?f r) \<in> {None, Some StampedElsewhere, Some Verified}" if "r \<in> set rows" for r
    by (rule repaired_verdict[OF p ids that toks c nft])
  then have rel: "rr_released q = []" and stp: "rr_stamped q = []"
    unfolding repair_plan_parts[OF q] by (force simp: filter_empty_conv contradicted_def)+
  have "\<not> draft_matches t d"
    if t: "t \<in> set tokens" "ct_id t \<notin> set (still_bound cols nft (map ?f rows) [])" and d: "d \<in> set (map ?f rows)" "as_token_id d = None"
    for t d
  proof -
    from d(1) obtain r where r: "r \<in> set rows" "d = ?f r" by auto
    from d(2) r have free: "bound_token (rr_bound p) (as_id r) = None"
      using repaired_row(1)[OF p ids r(1), where c = c] by (cases "bound_token (rr_bound p) (as_id r)") auto
    have draft: "as_token_id r = None \<or> as_id r \<in> as_id ` set (rr_released p)"
    proof (rule ccontr)
      assume "\<not> ?thesis"
      then have "as_token_id r \<noteq> None" "\<not> contradicted (row_verdict cols nft tokens r)"
        using id_in_filter[OF ids r(1)] by (auto simp: repair_plan_parts(1)[OF p])
      with repaired_row(2,4)[OF p ids r(1) free, where c = c] r(2) d(2) show False by metis
    qed
    have kept: "ct_id t \<notin> set (still_bound cols nft rows (rr_released p))"
    proof
      assume "ct_id t \<in> set (still_bound cols nft rows (rr_released p))"
      then obtain s where s: "s \<in> set rows" "as_token_id s = Some (ct_id t)" "as_id s \<notin> as_id ` set (rr_released p)"
        "\<not> belongs_elsewhere cols nft s" by (auto simp: still_bound_iff)
      then have ok: "\<not> contradicted (row_verdict cols nft tokens s)"
        using id_in_filter[OF ids s(1)] by (auto simp: repair_plan_parts(1)[OF p])
      have none: "bound_token (rr_bound p) (as_id s) = None"
        using bound_row(3)[OF p ids s(1)] ok s(2) by (cases "bound_token (rr_bound p) (as_id s)") auto
      have "as_token_id (?f s) = Some (ct_id t) \<and> \<not> belongs_elsewhere cols nft (?f s)"
        using repaired_row(2,4)[OF p ids s(1) none, where c = c] ok s(2,4)
        by (cases "row_verdict cols nft tokens s = Some StampMissing") (auto simp: belongs_elsewhere_def same_hex_def)
      with s(1) t(2) show False by (auto simp: still_bound_iff)
    qed
    have "t \<notin> fst ` set (rr_bound p)"
    proof
      assume "t \<in> fst ` set (rr_bound p)"
      then obtain b where b: "(t, b) \<in> set (rr_bound p)" by auto
      note pairs = plan_pairs[OF p]
      from pairs b have bt: "bound_token (rr_bound p) (as_id b) = Some t" by (intro bound_token_in) auto
      from bspec[OF conjunct1[OF conjunct2[OF pairs]] b] have "b \<in> set rows" by auto
      from repaired_row(1)[OF p ids this bt, where c = c] have "as_token_id (?f b) = Some (ct_id t)"
        "\<not> belongs_elsewhere cols nft (?f b)" by (auto simp: belongs_elsewhere_def same_hex_def)
      with \<open>b \<in> set rows\<close> t(2) show False by (auto simp: still_bound_iff)
    qed
    with t(1) kept conjunct2[OF conjunct2[OF conjunct2[OF plan_pairs[OF p]]]] have orphan: "t \<in> set (rr_orphans p)" by auto
    from free have "as_id r \<notin> as_id ` snd ` set (rr_bound p)" by (auto simp: bound_token_None)
    with orphan draft r(1) conjunct1[OF conjunct2[OF conjunct2[OF plan_pairs[OF p]]]] have "\<not> draft_matches t r" by auto
    then show ?thesis by (simp add: r(2) draft_matches_def)
  qed
  then have "pair_tokens (filter (\<lambda>r. as_token_id r = None \<or> as_id r \<in> as_id ` set (rr_released q)) (map ?f rows)) []
      (sort_key ct_id (filter (\<lambda>t. ct_id t \<notin> set (still_bound cols nft (map ?f rows) (rr_released q))) tokens))
      = ([], sort_key ct_id (filter (\<lambda>t. ct_id t \<notin> set (still_bound cols nft (map ?f rows) (rr_released q))) tokens))"
    by (intro pair_tokens_none) (auto simp: rel)
  with repair_plan_parts(3)[OF q] rel stp show ?thesis by simp
qed

subsection \<open>Whole runs\<close>

lemma sort_key_map:
  assumes "\<And>x. k (f x) = k x"
  shows "sort_key k (map f xs) = map f (sort_key k xs)"
proof -
  have "insort_key k (f x) (map f ys) = map f (insort_key k x ys)" for x ys
    by (induction ys) (auto simp: assms)
  then show ?thesis by (induction xs) (auto simp: sort_key_def)
qed

lemma patch_in_seen: "patch_in cols p (visible_row cols r) = visible_row cols (patch_in cols p r)"
  by (cases cols) (auto simp: visible_row_def patch_in_def patch_row_def unstamped_def Let_def split: option.splits)

lemma fold_seen:
  "fold (\<lambda>(i, p, s) x. if j = i then patch_in cols p x else x) ops (visible_row cols r)
    = visible_row cols (fold (\<lambda>(i, p, s) x. if j = i then patch_in cols p x else x) ops r)"
  by (induction ops arbitrary: r) (auto simp: patch_in_seen split: prod.splits)

lemma row_after_seen: "row_after cols ops (visible_row cols r) = visible_row cols (row_after cols ops r)"
  by (simp add: row_after_def fold_seen)

definition repair_tokens :: "nft_reads \<Rightarrow> repair_options \<Rightarrow> exn + chain_token list" where
  "repair_tokens N opt =
    bind_res (read_chain_tokens N) (\<lambda>held. read_mint_tx_hashes N (ro_chain opt) (ro_scan opt) (named_hashes (ro_hashes opt) held))"

lemma repair_tokens_held:
  assumes "repair_tokens N opt = Inr tokens"
  shows "distinct (map ct_id tokens)"
    and "t \<in> set tokens \<Longrightarrow> \<exists>total ra. nr_total N = Inr total \<and> 0 < ct_id t \<and> ct_id t \<le> int total
      \<and> nr_asset N (ct_id t) = Inr ra \<and> ra_org_id ra = ct_org t \<and> ra_asset_hash ra = ct_hash t"
proof -
  from assms obtain total held where t: "nr_total N = Inr total" and h: "token_range N total = Inr held"
    and m: "read_mint_tx_hashes N (ro_chain opt) (ro_scan opt) (named_hashes (ro_hashes opt) held) = Inr tokens"
    by (cases "nr_total N"; cases "token_range N (projr (nr_total N))") (auto simp: repair_tokens_def read_chain_tokens_def)
  have f: "map token_facts tokens = map token_facts held"
    using read_mint_facts[OF m] by (simp add: named_hashes_facts)
  have "map ct_id ts = map fst (map token_facts ts)" for ts by (simp add: token_facts_def)
  then show "distinct (map ct_id tokens)" using token_range_holds[OF h] by (metis f)
  assume "t \<in> set tokens"
  then have "token_facts t \<in> set (map token_facts held)" by (simp flip: f)
  then obtain u where "u \<in> set held" "token_facts u = token_facts t" by auto
  with token_range_holds[OF h] t show "\<exists>total ra. nr_total N = Inr total \<and> 0 < ct_id t \<and> ct_id t \<le> int total
      \<and> nr_asset N (ct_id t) = Inr ra \<and> ra_org_id ra = ct_org t \<and> ra_asset_hash ra = ct_hash t"
    by (fastforce simp: token_facts_def)
qed

lemma repair_main_eq:
  assumes "quiet w"
  obtains n where "repair_main N opt w = (case repair_tokens N opt of
    Inl e \<Rightarrow> (Inl e, w)
  | Inr tokens \<Rightarrow>
      let plan = repair_plan (scoped_columns w) (to_lower (ro_nft opt)) tokens (map (visible_row (scoped_columns w)) (rows_by_age w)) in
      seq (update_each (ro_apply opt) (repair_writes (ro_chain opt) (to_lower (ro_nft opt)) plan)) (\<lambda>_. ret plan) (w\<lparr>db_calls := n\<rparr>))"
proof -
  from read_rows_quiet[OF assms] obtain n where
    r: "read_rows w = (Inr (map (visible_row (scoped_columns w)) (rows_by_age w), scoped_columns w), w\<lparr>db_calls := n\<rparr>)" by blast
  show thesis
    by (rule that[of n])
      (auto simp: repair_main_def repair_tokens_def seq_def lift_res_def r Let_def split: sum.splits)
qed

lemma repair_writes_flags: "\<forall>(i, p, s) \<in> set (repair_writes c nft plan). s \<or> bp_stamp p = None"
  by (auto simp: repair_writes_def release_patch_def)

lemma repair_main_Inr:
  assumes "repair_main N opt w = (Inr plan, w1)" and "quiet w" and "ro_apply opt"
  obtains tokens n where "repair_tokens N opt = Inr tokens"
    "plan = repair_plan (scoped_columns w) (to_lower (ro_nft opt)) tokens (map (visible_row (scoped_columns w)) (rows_by_age w))"
    "w1 = w\<lparr>db_calls := n, assets := map (row_after (scoped_columns w)
       (repair_writes (ro_chain opt) (to_lower (ro_nft opt)) plan)) (assets w)\<rparr>"
proof -
  from repair_main_eq[OF assms(2), of N opt] obtain n where eq: "repair_main N opt w = (case repair_tokens N opt of
    Inl e \<Rightarrow> (Inl e, w)
  | Inr tokens \<Rightarrow>
      let plan = repair_plan (scoped_columns w) (to_lower (ro_nft opt)) tokens (map (visible_row (scoped_columns w)) (rows_by_age w)) in
      seq (update_each (ro_apply opt) (repair_writes (ro_chain opt) (to_lower (ro_nft opt)) plan)) (\<lambda>_. ret plan) (w\<lparr>db_calls := n\<rparr>))" .
  with assms(1) obtain tokens where t: "repair_tokens N opt = Inr tokens" by (cases "repair_tokens N opt") auto
  let ?plan = "repair_plan (scoped_columns w) (to_lower (ro_nft opt)) tokens (map (visible_row (scoped_columns w)) (rows_by_age w))"
  from assms(1,3) eq t have run: "plan = ?plan"
    "update_each True (repair_writes (ro_chain opt) (to_lower (ro_nft opt)) ?plan) (w\<lparr>db_calls := n\<rparr>) = (Inr (), w1)"
    by (auto simp: Let_def seq_def ret_def split: prod.splits sum.splits)
  have "quiet (w\<lparr>db_calls := n\<rparr>)" using assms(2) by simp
  from update_each_Inr[OF run(2) this repair_writes_flags] obtain n' where
    "w1 = w\<lparr>db_calls := n', assets := map (row_after (scoped_columns w)
       (repair_writes (ro_chain opt) (to_lower (ro_nft opt)) ?plan)) (assets w)\<rparr>" by auto
  with t run(1) that show thesis by blast
qed

subsection \<open>Properties\<close>

lemma repaired_rows:
  assumes run: "repair_main N opt w = (Inr plan, w1)" and q: "quiet w" and ap: "ro_apply opt"
    and ids: "distinct (map as_id (assets w))"
  obtains tokens f where "repair_tokens N opt = Inr tokens"
    "plan = repair_plan (scoped_columns w) (to_lower (ro_nft opt)) tokens (map (visible_row (scoped_columns w)) (rows_by_age w))"
    "distinct (map as_id (map (visible_row (scoped_columns w)) (rows_by_age w)))"
    "f = row_after (scoped_columns w) (repair_writes (ro_chain opt) (to_lower (ro_nft opt)) plan)"
    "assets w1 = map f (assets w)" "scoped_columns w1 = scoped_columns w" "quiet w1"
    "set (map (visible_row (scoped_columns w)) (rows_by_age w)) = visible_row (scoped_columns w) ` set (assets w)"
proof -
  have "distinct (map as_id (rows_by_age w))" using ids by (simp add: rows_by_age_def distinct_map)
  then have d: "distinct (map as_id (map (visible_row (scoped_columns w)) (rows_by_age w)))" by (simp add: comp_def)
  from repair_main_Inr[OF run q ap] obtain tokens n where t: "repair_tokens N opt = Inr tokens"
    and p: "plan = repair_plan (scoped_columns w) (to_lower (ro_nft opt)) tokens (map (visible_row (scoped_columns w)) (rows_by_age w))"
    and w1: "w1 = w\<lparr>db_calls := n, assets := map (row_after (scoped_columns w)
       (repair_writes (ro_chain opt) (to_lower (ro_nft opt)) plan)) (assets w)\<rparr>" .
  show thesis
    by (rule that[OF t p d refl]) (use q in \<open>simp_all add: w1 rows_by_age_def\<close>)
qed

text \<open>C36. A repair reconciles the store with the chain. When the script applies its repairs and returns,
  every row bound to a token of this deployment carries the anchor and the organization that AssetNFT
  holds for that token; rows stamped for another deployment keep their binding; and of no row has
  anything but the binding changed.\<close>

theorem repair_reconciles_bindings:
  assumes run: "repair_main N opt w = (Inr plan, w1)" and q: "\<forall>k. db_fault w k = None" and ap: "ro_apply opt"
    and ids: "distinct (map as_id (assets w))" and chain: "ro_chain opt \<noteq> 0" and nft: "ro_nft opt \<noteq> []"
  shows "(\<forall>r \<in> set (assets w1). \<forall>i. as_token_id r = Some i
       \<and> \<not> belongs_elsewhere (scoped_columns w) (to_lower (ro_nft opt)) r \<longrightarrow>
       (\<exists>held. nr_asset N i = Inr held \<and> ra_org_id held = as_org_id r \<and> same_hex (ra_asset_hash held) (as_hash r)))
    \<and> (\<forall>r \<in> set (assets w). as_token_id r \<noteq> None
       \<and> belongs_elsewhere (scoped_columns w) (to_lower (ro_nft opt)) r \<longrightarrow> r \<in> set (assets w1))
    \<and> map unbound_part (assets w1) = map unbound_part (assets w)"
proof -
  let ?cols = "scoped_columns w" and ?nft = "to_lower (ro_nft opt)"
  from q have "quiet w" by (simp add: quiet_def)
  from repaired_rows[OF run this ap ids] obtain tokens f where t: "repair_tokens N opt = Inr tokens"
    and p: "plan = repair_plan ?cols ?nft tokens (map (visible_row ?cols) (rows_by_age w))"
    and d: "distinct (map as_id (map (visible_row ?cols) (rows_by_age w)))"
    and f: "f = row_after ?cols (repair_writes (ro_chain opt) ?nft plan)"
    and w1: "assets w1 = map f (assets w)" and cols1: "scoped_columns w1 = ?cols" and q1: "quiet w1"
    and all: "set (map (visible_row ?cols) (rows_by_age w)) = visible_row ?cols ` set (assets w)" .
  have seen: "visible_row ?cols r \<in> set (map (visible_row ?cols) (rows_by_age w))" if "r \<in> set (assets w)" for r
    unfolding all using that by blast
  have n: "?nft \<noteq> []" using nft by (simp add: to_lower_def)
  have elsewhere: "belongs_elsewhere ?cols ?nft (visible_row ?cols r) = belongs_elsewhere ?cols ?nft r" for r
    by (simp add: belongs_elsewhere_def visible_row_def)
  have "\<exists>held. nr_asset N i = Inr held \<and> ra_org_id held = as_org_id (f r) \<and> same_hex (ra_asset_hash held) (as_hash (f r))"
    if r: "r \<in> set (assets w)" "as_token_id (f r) = Some i" "\<not> belongs_elsewhere ?cols ?nft (f r)" for r i
  proof -
    have v: "f (visible_row ?cols r) = visible_row ?cols (f r)" by (simp add: f row_after_seen)
    from repaired_verdict[OF p d seen[OF r(1)] repair_tokens_held(1)[OF t] chain n, folded f] r(2,3)
    have "row_verdict ?cols ?nft tokens (visible_row ?cols (f r)) = Some Verified"
      by (auto simp: v row_verdict_def binding_verdict_def elsewhere split: option.splits if_splits)
    then obtain u where u: "token_of tokens i = Some u" "same_hex (ct_hash u) (as_hash (f r))" "ct_org u = as_org_id (f r)"
      using r(2) by (auto simp: row_verdict_def binding_verdict_def split: option.splits if_splits)
    then have "u \<in> set tokens" "ct_id u = i" by (auto simp: token_of_def find_Some_iff)
    with repair_tokens_held(2)[OF t, of u] u(2,3) show ?thesis by auto
  qed
  moreover have "r \<in> set (assets w1)"
    if r: "r \<in> set (assets w)" "as_token_id r \<noteq> None" "belongs_elsewhere ?cols ?nft r" for r
  proof -
    from r(3) have cols: ?cols by (simp add: belongs_elsewhere_def)
    then have s: "visible_row ?cols r = r" by (simp add: visible_row_def)
    from r(2,3) have v: "row_verdict ?cols ?nft tokens r = Some StampedElsewhere" by (auto simp: row_verdict_def binding_verdict_def)
    note rr = seen[OF r(1), unfolded s]
    have "bound_token (rr_bound plan) (as_id r) = None"
      using bound_row(3)[OF p d rr] v r(2) by (cases "bound_token (rr_bound plan) (as_id r)") (auto simp: contradicted_def)
    from repaired_row(4)[OF p d rr this, of "ro_chain opt"] v have "f r = r" by (simp add: f contradicted_def)
    with r(1) show ?thesis by (force simp: w1)
  qed
  moreover have "map unbound_part (assets w1) = map unbound_part (assets w)" by (simp add: w1 f)
  ultimately show ?thesis by (auto simp: w1)
qed

text \<open>The repair is idempotent. A second run on the repaired store, with the chain unchanged, returns,
  releases, stamps and binds nothing, and leaves the rows as they are.\<close>

theorem second_repair_finds_nothing:
  assumes run: "repair_main N opt w = (Inr plan, w1)" and q: "\<forall>k. db_fault w k = None" and ap: "ro_apply opt"
    and ids: "distinct (map as_id (assets w))" and chain: "ro_chain opt \<noteq> 0" and nft: "ro_nft opt \<noteq> []"
  shows "\<exists>again w2. repair_main N opt w1 = (Inr again, w2) \<and> rr_released again = [] \<and> rr_stamped again = []
    \<and> rr_bound again = [] \<and> assets w2 = assets w1"
proof -
  let ?cols = "scoped_columns w" and ?nft = "to_lower (ro_nft opt)"
  from q have "quiet w" by (simp add: quiet_def)
  from repaired_rows[OF run this ap ids] obtain tokens f where t: "repair_tokens N opt = Inr tokens"
    and p: "plan = repair_plan ?cols ?nft tokens (map (visible_row ?cols) (rows_by_age w))"
    and d: "distinct (map as_id (map (visible_row ?cols) (rows_by_age w)))"
    and f: "f = row_after ?cols (repair_writes (ro_chain opt) ?nft plan)"
    and w1: "assets w1 = map f (assets w)" "scoped_columns w1 = ?cols" and q1: "quiet w1"
    and seen: "set (map (visible_row ?cols) (rows_by_age w)) = visible_row ?cols ` set (assets w)" .
  have n: "?nft \<noteq> []" using nft by (simp add: to_lower_def)
  have rows: "map (visible_row ?cols) (rows_by_age w1) = map f (map (visible_row ?cols) (rows_by_age w))"
    by (simp add: rows_by_age_def w1 sort_key_map f row_after_seen)
  let ?again = "repair_plan ?cols ?nft tokens (map (visible_row ?cols) (rows_by_age w1))"
  have none: "rr_released ?again = [] \<and> rr_stamped ?again = [] \<and> rr_bound ?again = []"
    by (rule repaired_plan[OF p d repair_tokens_held(1)[OF t] chain n]) (simp add: rows f)
  then have writes: "repair_writes c ?nft ?again = []" for c by (simp add: repair_writes_def)
  from repair_main_eq[OF q1, of N opt] obtain k where "repair_main N opt w1 = (case repair_tokens N opt of
    Inl e \<Rightarrow> (Inl e, w1)
  | Inr tokens \<Rightarrow>
      let plan = repair_plan (scoped_columns w1) ?nft tokens (map (visible_row (scoped_columns w1)) (rows_by_age w1)) in
      seq (update_each (ro_apply opt) (repair_writes (ro_chain opt) ?nft plan)) (\<lambda>_. ret plan) (w1\<lparr>db_calls := k\<rparr>))" .
  then have "repair_main N opt w1 = (Inr ?again, w1\<lparr>db_calls := k\<rparr>)"
    by (simp add: t w1 Let_def writes seq_def ret_def)
  with none show ?thesis by auto
qed

text \<open>Without \<open>--apply\<close> nothing is written.\<close>

lemma dry_run_writes_nothing:
  assumes "quiet w" and "\<not> ro_apply opt"
  shows "assets (snd (repair_main N opt w)) = assets w"
proof -
  from repair_main_eq[OF assms(1), of N opt] obtain k where "repair_main N opt w = (case repair_tokens N opt of
    Inl e \<Rightarrow> (Inl e, w)
  | Inr tokens \<Rightarrow>
      let plan = repair_plan (scoped_columns w) (to_lower (ro_nft opt)) tokens (map (visible_row (scoped_columns w)) (rows_by_age w)) in
      seq (update_each (ro_apply opt) (repair_writes (ro_chain opt) (to_lower (ro_nft opt)) plan)) (\<lambda>_. ret plan) (w\<lparr>db_calls := k\<rparr>))" .
  with assms(2) show ?thesis by (auto simp: update_each_dry seq_def ret_def Let_def split: sum.splits)
qed

subsection \<open>A store to repair\<close>

text \<open>After a redeploy: a row bound to token 1 of the old deployment, the draft of the asset that token 1
  names now, and a row bound to token 2 that the chain confirms but nothing stamps.\<close>

definition demo_bound_row :: "string \<Rightarrow> int option \<Rightarrow> string \<Rightarrow> int \<Rightarrow> asset_row" where
  "demo_bound_row i token hash at =
    \<lparr>as_id = i, as_token_id = token, as_chain_id = None, as_contract = None, as_org_id = 1, as_name = ''Laptop'',
     as_description = None, as_type = ''Laptop'', as_department = None, as_image_url = None, as_serial = None,
     as_invoice = None, as_hash = hash, as_metadata_uri = ''ipfs'', as_mint_tx = None, as_created_by = ''0x1'',
     as_created_at = at\<rparr>"

definition demo_store :: world where
  "demo_store = demo_world\<lparr>assets :=
     [demo_bound_row ''a'' (Some 1) ''0xcc'' 3, demo_bound_row ''b'' None ''0xAA'' 2, demo_bound_row ''c'' (Some 2) ''0xbb'' 1]\<rparr>"

definition demo_nft :: nft_reads where
  "demo_nft =
    \<lparr>nr_total = Inr 2,
     nr_asset = (\<lambda>i. Inr \<lparr>ra_org_id = 1, ra_asset_hash = (if i = 1 then ''0xaa'' else ''0xbb''), ra_assigned_to = ''0x5'',
       ra_active = True, ra_minted_at = 1, ra_transfer_count = 0\<rparr>),
     nr_latest = Inr 9, nr_minted = (\<lambda>_ _. Inr [])\<rparr>"

definition demo_options :: repair_options where
  "demo_options = \<lparr>ro_apply = True, ro_scan = 0, ro_hashes = [(1, ''0xt1'')], ro_chain = 7, ro_nft = ''0xNFT''\<rparr>"

lemma demo_store_simps: "\<forall>k. db_fault demo_store k = None" "ro_apply demo_options" "distinct (map as_id (assets demo_store))"
  "ro_chain demo_options \<noteq> 0" "ro_nft demo_options \<noteq> []" "scoped_columns demo_store"
  by (simp_all add: demo_store_def demo_world_def demo_options_def demo_bound_row_def)

lemma demo_tokens: "repair_tokens demo_nft demo_options = Inr
    [\<lparr>ct_id = 1, ct_org = 1, ct_hash = ''0xaa'', ct_tx = Some ''0xt1''\<rparr>, \<lparr>ct_id = 2, ct_org = 1, ct_hash = ''0xbb'', ct_tx = None\<rparr>]"
  by code_simp

lemma demo_writes:
  "repair_writes 7 ''0xnft'' (repair_plan True ''0xnft'' (projr (repair_tokens demo_nft demo_options))
     [demo_bound_row ''c'' (Some 2) ''0xbb'' 1, demo_bound_row ''b'' None ''0xAA'' 2, demo_bound_row ''a'' (Some 1) ''0xcc'' 3])
   = [(''a'', \<lparr>bp_binding = Some (None, None), bp_stamp = None\<rparr>, False),
      (''c'', \<lparr>bp_binding = None, bp_stamp = Some (7, ''0xnft'')\<rparr>, True),
      (''b'', \<lparr>bp_binding = Some (Some 1, Some ''0xt1''), bp_stamp = Some (7, ''0xnft'')\<rparr>, True)]"
  by code_simp

lemma demo_rows: "map (visible_row True) (rows_by_age demo_store) =
    [demo_bound_row ''c'' (Some 2) ''0xbb'' 1, demo_bound_row ''b'' None ''0xAA'' 2, demo_bound_row ''a'' (Some 1) ''0xcc'' 3]"
  by (simp add: rows_by_age_def demo_store_def visible_row_def[abs_def] demo_bound_row_def)

lemma demo_repaired:
  obtains plan w1 where "repair_main demo_nft demo_options demo_store = (Inr plan, w1)"
    "map (\<lambda>r. (as_id r, as_token_id r)) (assets w1) = [(''a'', None), (''b'', Some 1), (''c'', Some 2)]"
    "\<not> belongs_elsewhere True ''0xnft'' (assets w1 ! 1)"
proof -
  have q: "quiet demo_store" using demo_store_simps(1) by (simp add: quiet_def)
  have o: "to_lower (ro_nft demo_options) = ''0xnft''" "ro_chain demo_options = 7" "ro_apply demo_options"
    by code_simp+
  let ?plan = "repair_plan True ''0xnft'' (projr (repair_tokens demo_nft demo_options))
     [demo_bound_row ''c'' (Some 2) ''0xbb'' 1, demo_bound_row ''b'' None ''0xAA'' 2, demo_bound_row ''a'' (Some 1) ''0xcc'' 3]"
  from repair_main_eq[OF q, of demo_nft demo_options] obtain n where
    "repair_main demo_nft demo_options demo_store = (case repair_tokens demo_nft demo_options of
      Inl e \<Rightarrow> (Inl e, demo_store)
    | Inr tokens \<Rightarrow>
      let plan = repair_plan (scoped_columns demo_store) (to_lower (ro_nft demo_options)) tokens
        (map (visible_row (scoped_columns demo_store)) (rows_by_age demo_store)) in
      seq (update_each (ro_apply demo_options) (repair_writes (ro_chain demo_options) (to_lower (ro_nft demo_options)) plan))
        (\<lambda>_. ret plan) (demo_store\<lparr>db_calls := n\<rparr>))" .
  then have eq: "repair_main demo_nft demo_options demo_store
    = seq (update_each True (repair_writes 7 ''0xnft'' ?plan)) (\<lambda>_. ret ?plan) (demo_store\<lparr>db_calls := n\<rparr>)"
    by (simp only: demo_store_simps(6) o demo_rows Let_def) (simp add: demo_tokens)
  have q': "quiet demo_world" by (simp add: quiet_def demo_world_def)
  have cols: "scoped_columns demo_world" by (simp add: demo_world_def)
  have "case repair_main demo_nft demo_options demo_store of
      (Inr plan, w1) \<Rightarrow> map (\<lambda>r. (as_id r, as_token_id r)) (assets w1) = [(''a'', None), (''b'', Some 1), (''c'', Some 2)]
        \<and> \<not> belongs_elsewhere True ''0xnft'' (assets w1 ! 1)
    | _ \<Rightarrow> False"
    unfolding eq demo_writes
    by (simp add: seq_def repair_update_def script_stmt_quiet q' cols patch_stmt_def update_where_def patch_row_def ret_def Let_def
        demo_store_def demo_bound_row_def tokens_unique_def token_key_def List.map_filter_def belongs_elsewhere_def same_hex_def)
  then show thesis using that by (auto split: prod.splits sum.splits)
qed

theorem repair_reconciles_bindings_witness:
  "\<exists>plan w1 held. repair_main demo_nft demo_options demo_store = (Inr plan, w1)
     \<and> as_token_id (assets w1 ! 1) = Some 1 \<and> nr_asset demo_nft 1 = Inr held
     \<and> same_hex (ra_asset_hash held) (as_hash (assets w1 ! 1))"
proof -
  obtain plan w1 where run: "repair_main demo_nft demo_options demo_store = (Inr plan, w1)"
    and rows: "map (\<lambda>r. (as_id r, as_token_id r)) (assets w1) = [(''a'', None), (''b'', Some 1), (''c'', Some 2)]"
    and here: "\<not> belongs_elsewhere True ''0xnft'' (assets w1 ! 1)" by (rule demo_repaired)
  from rows have r: "as_token_id (assets w1 ! 1) = Some 1" "assets w1 ! 1 \<in> set (assets w1)"
    by (auto simp: map_eq_Cons_conv)
  have "to_lower (ro_nft demo_options) = ''0xnft''" by code_simp
  with repair_reconciles_bindings[OF run demo_store_simps(1-5)] r here demo_store_simps(6) run show ?thesis by metis
qed

theorem second_repair_finds_nothing_witness:
  "\<exists>plan w1 again w2. repair_main demo_nft demo_options demo_store = (Inr plan, w1)
     \<and> as_token_id (assets w1 ! 1) = Some 1
     \<and> repair_main demo_nft demo_options w1 = (Inr again, w2) \<and> rr_bound again = [] \<and> assets w2 = assets w1"
proof -
  obtain plan w1 where run: "repair_main demo_nft demo_options demo_store = (Inr plan, w1)"
    and rows: "map (\<lambda>r. (as_id r, as_token_id r)) (assets w1) = [(''a'', None), (''b'', Some 1), (''c'', Some 2)]"
    by (rule demo_repaired)
  from rows have "as_token_id (assets w1 ! 1) = Some 1" by (auto simp: map_eq_Cons_conv)
  with second_repair_finds_nothing[OF run demo_store_simps(1-5)] run show ?thesis by blast
qed

end
