(* ===== verification/ConsoleForms.thy ===== *)
theory ConsoleForms
  imports Transaction
begin

text \<open>
  The forms of the console that write to the contracts: which button is offered, when it is enabled, and
  the call it sends. \<open>components/console/members/member-actions.tsx\<close>,
  \<open>components/console/roles/override-modal.tsx\<close> and the roster that opens them
  (\<open>members-screen.tsx\<close>), with the hashes and the date of \<open>lib/contracts.ts\<close> and \<open>lib/use-today.ts\<close>.
  A render is a function of the form's state and the transaction's.
\<close>

subsection \<open>What the forms share\<close>

text \<open>\<open>components/ui/button.tsx\<close>: a loading button is disabled.\<close>

record form_button =
  fb_label :: string
  fb_disabled :: bool
  fb_loading :: bool

definition clickable :: "form_button \<Rightarrow> bool" where
  "clickable b \<longleftrightarrow> \<not> (fb_disabled b \<or> fb_loading b)"

definition retry_label :: "'r tx_state \<Rightarrow> string \<Rightarrow> string" where
  "retry_label tx label = (if txs_stage tx = TX_error then ''Try again'' else label)"

definition cancel_button :: "'r tx_state \<Rightarrow> form_button" where
  "cancel_button tx =
    \<lparr>fb_label = (if txs_stage tx = TX_done then ''Close'' else ''Cancel''), fb_disabled = tx_busy tx, fb_loading = False\<rparr>"

text \<open>Closing: refused while busy; otherwise whether the parent reloads, and the transaction reset.\<close>

definition close_form :: "'r tx_state \<Rightarrow> (bool \<times> 'r tx_state) option" where
  "close_form tx = (if tx_busy tx then None else Some (txs_stage tx = TX_done, tx_reset))"

definition shows_guard_note :: "'r tx_state \<Rightarrow> bool" where
  "shows_guard_note tx \<longleftrightarrow> txs_stage tx = TX_idle \<or> txs_stage tx = TX_error"

text \<open>\<open>a > b\<close> of two strings: by code units, a proper prefix first.\<close>

fun text_less :: "string \<Rightarrow> string \<Rightarrow> bool" where
  "text_less s [] = False"
| "text_less [] (c # cs) = True"
| "text_less (b # bs) (c # cs) = (code_unit b < code_unit c \<or> b = c \<and> text_less bs cs)"

definition two_digits :: "nat \<Rightarrow> string" where
  "two_digits n = (let s = show_nat n in replicate (2 - length s) (CHR ''0'') @ s)"

definition today_text :: "nat \<times> nat \<times> nat \<Rightarrow> string" where
  "today_text d = (case d of (year, month0, day) \<Rightarrow>
     show_nat year @ ''-'' @ two_digits (month0 + 1) @ ''-'' @ two_digits day)"

definition expiry_future :: "string \<Rightarrow> string \<Rightarrow> bool" where
  "expiry_future today expiry \<longleftrightarrow> expiry = [] \<or> text_less today expiry"

text \<open>\<open>ROLE_HASH[role]\<close>; for \<open>NONE\<close> it is undefined and the call never leaves the wallet.\<close>

definition write_role_hash :: "ext \<Rightarrow> role_name \<Rightarrow> string option" where
  "write_role_hash X role =
    (case role of
       ADMIN \<Rightarrow> Some (x_keccak X ''OWNEX_ROLE_ADMIN'')
     | MANAGER \<Rightarrow> Some (x_keccak X ''OWNEX_ROLE_MANAGER'')
     | AUDITOR \<Rightarrow> Some (x_keccak X ''OWNEX_ROLE_AUDITOR'')
     | USER \<Rightarrow> Some (x_keccak X ''OWNEX_ROLE_USER'')
     | NONE \<Rightarrow> None)"

definition permission_names :: "(string \<times> string) list" where
  "permission_names =
    [(''MANAGE_MEMBERS'', ''PERM_MANAGE_MEMBERS''), (''ASSIGN_ROLES'', ''PERM_ASSIGN_ROLES''),
     (''MINT_ASSETS'', ''PERM_MINT_ASSETS''), (''TRANSFER_ASSETS'', ''PERM_TRANSFER_ASSETS''),
     (''VIEW_AUDIT'', ''PERM_VIEW_AUDIT''), (''MANAGE_APPS'', ''PERM_MANAGE_APPS'')]"

definition write_permission_hash :: "ext \<Rightarrow> string \<Rightarrow> string option" where
  "write_permission_hash X permission = map_option (x_keccak X) (map_of permission_names permission)"

datatype override_choice = StateUnset | StateAllowed | StateDenied

fun override_value :: "override_choice \<Rightarrow> nat" where
  "override_value StateUnset = 0"
| "override_value StateAllowed = 1"
| "override_value StateDenied = 2"

fun choice_text :: "override_choice \<Rightarrow> string" where
  "choice_text StateUnset = ''Unset''"
| "choice_text StateAllowed = ''Allowed''"
| "choice_text StateDenied = ''Denied''"

text \<open>The calls on the contracts, with the arguments as they are handed to ethers.\<close>

datatype contract_write =
    SendAddMember int string string int
  | SendAssignRole int string string int
  | SendRemoveMember int string
  | SendSetPermission int string string nat
  | SendRegisterApplication int string string
  | SendSetAppAccess int string string bool
  | SendRegisterIdentity string
  | SendUpdateIdentity string
  | SendCreateOrganization string
  | SendMint int string string string

text \<open>What a form says it will send, and under which guards.\<close>

record guard_note =
  gn_call :: string
  gn_permission :: string
  gn_guards :: "string list"

subsection \<open>Adding a member\<close>

record add_member_form =
  af_wallet :: string
  af_role :: role_name
  af_expiry :: string

definition blank_member :: add_member_form where
  "blank_member = \<lparr>af_wallet = [], af_role = USER, af_expiry = []\<rparr>"

definition wallet_valid :: "string \<Rightarrow> bool" where
  "wallet_valid s = is_address (trim s)"

definition add_member_button :: "string \<Rightarrow> 'r tx_state \<Rightarrow> add_member_form \<Rightarrow> form_button" where
  "add_member_button today tx f =
    \<lparr>fb_label = retry_label tx ''Sign and add'',
     fb_disabled = (\<not> wallet_valid (af_wallet f) \<or> \<not> expiry_future today (af_expiry f) \<or> txs_stage tx = TX_done),
     fb_loading = tx_busy tx\<rparr>"

definition add_member_call :: "ext \<Rightarrow> int \<Rightarrow> add_member_form \<Rightarrow> contract_write option" where
  "add_member_call X org f =
    map_option (\<lambda>h. SendAddMember org (trim (af_wallet f)) h (expiry_to_unix X (af_expiry f))) (write_role_hash X (af_role f))"

definition add_member_errors :: "string \<Rightarrow> add_member_form \<Rightarrow> string option \<times> string option \<times> string option" where
  "add_member_errors today f =
    (if af_wallet f \<noteq> [] \<and> \<not> wallet_valid (af_wallet f) then Some ''Needs to be a full 0x address'' else None,
     if wallet_valid (af_wallet f) \<or> af_wallet f = []
     then Some ''The wallet must already hold an active identity; the contract rejects it otherwise.'' else None,
     if expiry_future today (af_expiry f) then None else Some ''That date has already passed'')"

definition add_member_note :: "ext \<Rightarrow> int \<Rightarrow> 'r tx_state \<Rightarrow> add_member_form \<Rightarrow> guard_note option" where
  "add_member_note X org tx f =
    (if \<not> shows_guard_note tx then None
     else Some
      \<lparr>gn_call = ''OrgAccessManager.addMember('' @ show_int org @ '', ''
         @ (if wallet_valid (af_wallet f) then short_address (trim (af_wallet f)) else ''<wallet>'')
         @ '', ROLE_'' @ role_text (af_role f) @ '', '' @ show_int (expiry_to_unix X (af_expiry f)) @ '')'',
       gn_permission = ''MANAGE_MEMBERS'',
       gn_guards = [''Rejects a wallet with no active identity.'', ''Rejects a wallet that is already a member.'',
                    ''Rejects an expiry date in the past.'']\<rparr>)"

subsection \<open>The roster\<close>

record console_member =
  cm_wallet :: string
  cm_role :: role_name
  cm_stored_role :: role_name
  cm_expires_at :: "int option"
  cm_expired :: bool
  cm_is_root :: bool
  cm_assets :: nat

definition is_self :: "string option \<Rightarrow> console_member \<Rightarrow> bool" where
  "is_self wallet m \<longleftrightarrow> (case wallet of None \<Rightarrow> False | Some w \<Rightarrow> to_lower w = to_lower (cm_wallet m))"

text \<open>The two buttons of a row, for a caller whose role is Admin.\<close>

definition member_buttons :: "role_name \<Rightarrow> string option \<Rightarrow> console_member \<Rightarrow> (form_button \<times> form_button) option" where
  "member_buttons role wallet m =
    (if role \<noteq> ADMIN then None
     else Some (\<lparr>fb_label = ''Change role'', fb_disabled = cm_is_root m, fb_loading = False\<rparr>,
                \<lparr>fb_label = ''Remove'', fb_disabled = (cm_is_root m \<or> is_self wallet m), fb_loading = False\<rparr>))"

definition shown_was :: "console_member \<Rightarrow> role_name option" where
  "shown_was m = (if cm_stored_role m \<noteq> NONE \<and> cm_role m \<noteq> cm_stored_role m then Some (cm_stored_role m) else None)"

datatype access_cell = PermanentAccess | LapsedAccess int | AccessUntil int

definition access_of :: "console_member \<Rightarrow> access_cell" where
  "access_of m =
    (case cm_expires_at m of None \<Rightarrow> PermanentAccess
     | Some at \<Rightarrow> if cm_expired m then LapsedAccess (at * 1000) else AccessUntil (at * 1000))"

definition roster_counts :: "console_member list \<Rightarrow> nat \<times> nat \<times> nat" where
  "roster_counts ms =
    (length (filter (\<lambda>m. \<not> cm_expired m \<and> cm_expires_at m \<noteq> None) ms), length (filter cm_expired ms),
     sum_list (map cm_assets ms))"

subsection \<open>Changing a role\<close>

record change_role_form =
  cf_member :: console_member
  cf_role :: role_name
  cf_expiry :: string

definition current_role :: "console_member \<Rightarrow> role_name" where
  "current_role m = (if cm_stored_role m \<noteq> NONE then cm_stored_role m else cm_role m)"

definition open_change_role :: "console_member \<Rightarrow> change_role_form" where
  "open_change_role m = \<lparr>cf_member = m, cf_role = current_role m, cf_expiry = []\<rparr>"

definition change_role_button :: "string \<Rightarrow> 'r tx_state \<Rightarrow> change_role_form \<Rightarrow> form_button" where
  "change_role_button today tx f =
    \<lparr>fb_label = retry_label tx ''Sign and change'',
     fb_disabled = (cm_is_root (cf_member f) \<or> \<not> expiry_future today (cf_expiry f) \<or> txs_stage tx = TX_done
       \<or> cf_role f = current_role (cf_member f) \<and> cf_expiry f = []),
     fb_loading = tx_busy tx\<rparr>"

definition change_role_call :: "ext \<Rightarrow> int \<Rightarrow> change_role_form \<Rightarrow> contract_write option" where
  "change_role_call X org f =
    map_option (\<lambda>h. SendAssignRole org (cm_wallet (cf_member f)) h (expiry_to_unix X (cf_expiry f)))
      (write_role_hash X (cf_role f))"

definition change_role_note :: "ext \<Rightarrow> int \<Rightarrow> 'r tx_state \<Rightarrow> change_role_form \<Rightarrow> guard_note option" where
  "change_role_note X org tx f =
    (if cm_is_root (cf_member f) \<or> \<not> shows_guard_note tx then None
     else Some
      \<lparr>gn_call = ''OrgAccessManager.assignRole('' @ show_int org @ '', '' @ short_address (cm_wallet (cf_member f))
         @ '', ROLE_'' @ role_text (cf_role f) @ '', '' @ show_int (expiry_to_unix X (cf_expiry f)) @ '')'',
       gn_permission = ''ASSIGN_ROLES'',
       gn_guards =
        [''Reverts with CannotTargetSelf if you aim it at your own membership'' @ dash @ ''nobody promotes themselves, including a full admin.'',
         ''Reverts with CannotModifyRootAdmin for the root admin's seat.'',
         ''Reverts if the target wallet's identity is not active.'']\<rparr>)"

subsection \<open>Removing a member\<close>

definition remove_button :: "'r tx_state \<Rightarrow> console_member option \<Rightarrow> form_button" where
  "remove_button tx member =
    \<lparr>fb_label = retry_label tx ''Sign and remove'',
     fb_disabled = (case member of None \<Rightarrow> True | Some m \<Rightarrow> cm_is_root m \<or> txs_stage tx = TX_done),
     fb_loading = tx_busy tx\<rparr>"

definition remove_call :: "int \<Rightarrow> console_member option \<Rightarrow> contract_write option" where
  "remove_call org member = map_option (\<lambda>m. SendRemoveMember org (cm_wallet m)) member"

definition holdings_warning :: "console_member \<Rightarrow> string option" where
  "holdings_warning m =
    (if cm_assets m > 0
     then Some (''They still hold '' @ show_nat (cm_assets m) @ '' ''
       @ (if cm_assets m = 1 then ''certificate'' else ''certificates'')
       @ ''. Removing the membership does not reclaim them, and verifyOwnership will start failing for those tokens because the holder is no longer a member. Revoke or reassign them first if the equipment is coming back.'')
     else None)"

definition remove_note :: "int \<Rightarrow> 'r tx_state \<Rightarrow> console_member option \<Rightarrow> guard_note option" where
  "remove_note org tx member =
    (case member of
       None \<Rightarrow> None
     | Some m \<Rightarrow>
         if cm_is_root m \<or> \<not> shows_guard_note tx then None
         else Some
          \<lparr>gn_call = ''OrgAccessManager.removeMember('' @ show_int org @ '', '' @ short_address (cm_wallet m) @ '')'',
           gn_permission = ''MANAGE_MEMBERS'',
           gn_guards = [''Reverts with CannotTargetSelf for your own membership.'',
                        ''Reverts with CannotModifyRootAdmin for the root admin.'',
                        ''Enumeration stays consistent: the contract swaps and pops.'']\<rparr>)"

subsection \<open>Overriding a permission\<close>

record console_cell =
  cc_role :: role_name
  cc_permission :: string
  cc_default :: bool
  cc_override :: override_choice
  cc_effective :: bool

definition would_be :: "console_cell \<Rightarrow> override_choice \<Rightarrow> bool" where
  "would_be cell target = (case target of StateAllowed \<Rightarrow> True | StateDenied \<Rightarrow> False | StateUnset \<Rightarrow> cc_default cell)"

definition LOCKED :: "(role_name \<times> string) list" where
  "LOCKED = [(ADMIN, ''MANAGE_MEMBERS''), (ADMIN, ''ASSIGN_ROLES'')]"

definition is_locked :: "role_name \<Rightarrow> string \<Rightarrow> bool" where
  "is_locked role permission \<longleftrightarrow> (role, permission) \<in> set LOCKED"

definition override_blocked :: "console_cell \<Rightarrow> override_choice \<Rightarrow> bool" where
  "override_blocked cell target \<longleftrightarrow>
     cc_role cell = ADMIN \<and> (cc_permission cell = ''MANAGE_MEMBERS'' \<or> cc_permission cell = ''ASSIGN_ROLES'') \<and> target = StateDenied"

definition override_button :: "'r tx_state \<Rightarrow> console_cell \<Rightarrow> override_choice \<Rightarrow> form_button" where
  "override_button tx cell target =
    \<lparr>fb_label = retry_label tx ''Sign and apply'',
     fb_disabled = (override_blocked cell target \<or> target = cc_override cell \<or> txs_stage tx = TX_done),
     fb_loading = tx_busy tx\<rparr>"

definition override_call :: "ext \<Rightarrow> int \<Rightarrow> console_cell \<Rightarrow> override_choice \<Rightarrow> contract_write option" where
  "override_call X org cell target =
    (case (write_role_hash X (cc_role cell), write_permission_hash X (cc_permission cell)) of
       (Some r, Some p) \<Rightarrow> Some (SendSetPermission org r p (override_value target))
     | _ \<Rightarrow> None)"

definition override_choice_text :: "console_cell \<Rightarrow> override_choice \<Rightarrow> string" where
  "override_choice_text cell state =
    (case state of
       StateUnset \<Rightarrow> ''Follow the contract default, which is '' @ (if cc_default cell then ''allowed'' else ''denied'') @ '' for this cell.''
     | StateAllowed \<Rightarrow> ''Grant it to this role in this organisation, whatever the default says.''
     | StateDenied \<Rightarrow> ''Withhold it from this role in this organisation, whatever the default says.'')"

definition override_result :: "console_cell \<Rightarrow> override_choice \<Rightarrow> string \<times> string" where
  "override_result cell target =
    (if cc_effective cell then ''Allowed today'' else ''Denied today'', if would_be cell target then ''Allowed'' else ''Denied'')"

definition override_note :: "int \<Rightarrow> 'r tx_state \<Rightarrow> console_cell \<Rightarrow> override_choice \<Rightarrow> string option" where
  "override_note org tx cell target =
    (if \<not> shows_guard_note tx then None
     else Some (''OrgAccessManager.setPermission('' @ show_int org @ '', ROLE_'' @ role_text (cc_role cell) @ '', ''
       @ cc_permission cell @ '', '' @ choice_text target @ '')''))"

end
