(* ===== verification/ConsoleWrites.thy ===== *)
theory ConsoleWrites
  imports ConsoleForms ContractRefines
begin

text \<open>
  The console's writes against the contracts they reach. ethers encodes the arguments; a call that leaves
  an enabled form is refused only for the reasons the form cannot know, and the outcome the permission
  dialog previews is what the contract decides afterwards.
\<close>

subsection \<open>The encoded calls\<close>

definition uint64_arg :: "int \<Rightarrow> exn + uint64" where
  "uint64_arg i = (if 0 \<le> i \<and> i < 2 ^ 64 then Inr (word_of_int i) else Inl (JsError ''value out-of-bounds''))"

definition override_arg :: "nat \<Rightarrow> exn + override" where
  "override_arg n = (if n = 0 then Inr OverrideUnset else if n = 1 then Inr OverrideAllowed
     else if n = 2 then Inr OverrideDenied else Inl (JsError ''value out-of-bounds''))"

fun access_call_of :: "abi \<Rightarrow> contract_write \<Rightarrow> exn + access_call" where
  "access_call_of A (SendAddMember i w h e) =
    bind_res (uint256_arg i) (\<lambda>org. bind_res (abi_address A w) (\<lambda>who. bind_res (abi_bytes32 A h) (\<lambda>role.
    bind_res (uint64_arg e) (\<lambda>at. Inr (AddMember org who role at)))))"
| "access_call_of A (SendAssignRole i w h e) =
    bind_res (uint256_arg i) (\<lambda>org. bind_res (abi_address A w) (\<lambda>who. bind_res (abi_bytes32 A h) (\<lambda>role.
    bind_res (uint64_arg e) (\<lambda>at. Inr (AssignRole org who role at)))))"
| "access_call_of A (SendRemoveMember i w) =
    bind_res (uint256_arg i) (\<lambda>org. bind_res (abi_address A w) (\<lambda>who. Inr (RemoveMember org who)))"
| "access_call_of A (SendSetPermission i h p n) =
    bind_res (uint256_arg i) (\<lambda>org. bind_res (abi_bytes32 A h) (\<lambda>role. bind_res (abi_bytes32 A p) (\<lambda>perm.
    bind_res (override_arg n) (\<lambda>st. Inr (SetPermission org role perm st)))))"
| "access_call_of A (SendRegisterApplication i app h) =
    bind_res (uint256_arg i) (\<lambda>org. bind_res (abi_bytes32 A app) (\<lambda>k. bind_res (abi_bytes32 A h) (\<lambda>m.
    Inr (RegisterApplication org k m))))"
| "access_call_of A (SendSetAppAccess i app h b) =
    bind_res (uint256_arg i) (\<lambda>org. bind_res (abi_bytes32 A app) (\<lambda>k. bind_res (abi_bytes32 A h) (\<lambda>role.
    Inr (SetAppAccess org k role b))))"
| "access_call_of A _ = Inl (JsError ''no matching fragment'')"

fun role_code :: "(string \<Rightarrow> bytes32) \<Rightarrow> role_name \<Rightarrow> bytes32" where
  "role_code K ADMIN = role_admin K"
| "role_code K MANAGER = role_manager K"
| "role_code K AUDITOR = role_auditor K"
| "role_code K USER = role_user K"
| "role_code K NONE = role_none"

definition permission_code :: "(string \<Rightarrow> bytes32) \<Rightarrow> string \<Rightarrow> bytes32" where
  "permission_code K permission = K (nullish (map_of permission_names permission) [])"

definition permissions_distinct :: "(string \<Rightarrow> bytes32) \<Rightarrow> bool" where
  "permissions_distinct K \<longleftrightarrow> distinct [perm_manage_members K, perm_assign_roles K, perm_mint_assets K,
     perm_transfer_assets K, perm_view_audit K, perm_manage_apps K]"

lemma role_hash_decoded:
  assumes "codec_ok X A K" and "write_role_hash X role = Some h"
  shows "abi_bytes32 A h = Inr (role_code K role)" and "is_valid_role K (role_code K role)"
  using assms
  by (auto simp: write_role_hash_def codec_ok_def is_valid_role_def role_admin_def role_manager_def role_auditor_def
      role_user_def split: role_name.splits)

lemma permission_hash_decoded:
  assumes "codec_ok X A K" and "write_permission_hash X p = Some h"
  shows "abi_bytes32 A h = Inr (permission_code K p)"
  using assms by (auto simp: write_permission_hash_def codec_ok_def permission_code_def)

subsection \<open>Dates\<close>

text \<open>A later date ends later, by at least a second, and the block is mined before today ends.\<close>

definition block_today :: "ext \<Rightarrow> string \<Rightarrow> string \<Rightarrow> uint256 \<Rightarrow> bool" where
  "block_today X today expiry now \<longleftrightarrow>
     (\<exists>t e. x_date X (today @ ''T23:59:59'') = Some t \<and> x_date X (expiry @ ''T23:59:59'') = Some e
        \<and> (text_less today expiry \<longrightarrow> t + 1000 \<le> e) \<and> uint now * 1000 \<le> t)"

lemma future_expiry_accepted:
  assumes "expiry_future today expiry" and "expiry \<noteq> [] \<longrightarrow> block_today X today expiry (block_timestamp m)"
    and "uint64_arg (expiry_to_unix X expiry) = Inr at"
  shows "require_future_expiry m at = Inr ()"
proof (cases "expiry = []")
  case True
  with assms(3) show ?thesis
    by (simp add: expiry_to_unix_def uint64_arg_def require_future_expiry_def revert_if_def)
next
  case False
  with assms(1,2) obtain t e where e: "x_date X (expiry @ ''T23:59:59'') = Some e" "t + 1000 \<le> e"
    "uint (block_timestamp m) * 1000 \<le> t" by (auto simp: expiry_future_def block_today_def)
  with False assms(3) have at: "at = word_of_int (e div 1000)" "0 \<le> e div 1000" "e div 1000 < 2 ^ 64"
    by (auto simp: expiry_to_unix_def uint64_arg_def split: if_splits)
  then have "uint at = e div 1000" by (simp add: uint_word_of_int_eq take_bit_int_eq_self)
  moreover have "uint (block_timestamp m) < e div 1000" using e(2,3) by linarith
  ultimately have "\<not> ucast at \<le> block_timestamp m" by (simp add: expiry_seconds)
  then show ?thesis by (simp add: require_future_expiry_def revert_if_def)
qed

subsection \<open>What may still refuse a wr\<close>

definition org_refusal :: "uint256 \<Rightarrow> contract_error \<Rightarrow> bool" where
  "org_refusal org e \<longleftrightarrow> e = OrganizationNotFound org \<or> e = OrganizationSuspended org
     \<or> (\<exists>who p. e = MissingPermission org who p)"

lemma require_active_org_Inl: "require_active_org r org = Inl e \<Longrightarrow> org_refusal org e"
  by (auto simp: require_active_org_def revert_if_def org_refusal_def split: if_splits)

lemma require_org_permission_Inl: "require_org_permission K r m a org p = Inl e \<Longrightarrow> org_refusal org e"
  by (auto simp: require_org_permission_def revert_if_def org_refusal_def split: if_splits)

lemma andthen_Inl_iff: "andthen m f = Inl e \<longleftrightarrow> m = Inl e \<or> (\<exists>x. m = Inr x \<and> f x = Inl e)"
  by (cases m) auto

lemma revert_if_Inl_iff: "revert_if b e = Inl e' \<longleftrightarrow> b \<and> e' = e"
  by (auto simp: revert_if_def)

lemmas refused_iff = andthen_Inl_iff revert_if_Inl_iff

lemma add_member_refusals:
  assumes c: "codec_ok X A K" and on: "clickable (add_member_button today tx f)"
    and call: "add_member_call X i f = Some wr" and enc: "access_call_of A wr = Inr d"
    and day: "af_expiry f \<noteq> [] \<longrightarrow> block_today X today (af_expiry f) (block_timestamp m)"
    and ref: "call_access K r m d a = Inl e"
  shows "\<exists>org who. uint256_arg i = Inr org \<and> abi_address A (trim (af_wallet f)) = Inr who
    \<and> (org_refusal org e \<or> e = ZeroAddress \<and> who = 0 \<or> e = IdentityNotActive who \<or> e = AlreadyMember org who)"
proof -
  from call obtain h where h: "write_role_hash X (af_role f) = Some h"
    and w: "wr = SendAddMember i (trim (af_wallet f)) h (expiry_to_unix X (af_expiry f))"
    by (auto simp: add_member_call_def)
  note role = role_hash_decoded[OF c h]
  from enc w role(1) obtain org who at where d: "uint256_arg i = Inr org" "abi_address A (trim (af_wallet f)) = Inr who"
    "uint64_arg (expiry_to_unix X (af_expiry f)) = Inr at" "d = AddMember org who (role_code K (af_role f)) at"
    by (auto simp: bind_res_Inr_iff)
  from on have "expiry_future today (af_expiry f)" by (simp add: clickable_def add_member_button_def)
  from future_expiry_accepted[OF this day d(3)] ref role(2) d show ?thesis
    by (auto simp: add_member_def refused_iff dest: require_active_org_Inl require_org_permission_Inl)
qed

lemma change_role_refusals:
  assumes c: "codec_ok X A K" and on: "clickable (change_role_button today tx f)"
    and call: "change_role_call X i f = Some wr" and enc: "access_call_of A wr = Inr d"
    and day: "cf_expiry f \<noteq> [] \<longrightarrow> block_today X today (cf_expiry f) (block_timestamp m)"
    and root: "\<forall>org who. uint256_arg i = Inr org \<and> abi_address A (cm_wallet (cf_member f)) = Inr who \<longrightarrow>
      (cm_is_root (cf_member f) \<longleftrightarrow> who = org_root_admin r org)"
    and ref: "call_access K r m d a = Inl e"
  shows "\<exists>org who. uint256_arg i = Inr org \<and> abi_address A (cm_wallet (cf_member f)) = Inr who
    \<and> (org_refusal org e \<or> e = CannotTargetSelf \<and> who = msg_sender m \<or> e = IdentityNotActive who \<or> e = NotMember org who)"
proof -
  from call obtain h where h: "write_role_hash X (cf_role f) = Some h"
    and w: "wr = SendAssignRole i (cm_wallet (cf_member f)) h (expiry_to_unix X (cf_expiry f))"
    by (auto simp: change_role_call_def)
  note role = role_hash_decoded[OF c h]
  from enc w role(1) obtain org who at where d: "uint256_arg i = Inr org" "abi_address A (cm_wallet (cf_member f)) = Inr who"
    "uint64_arg (expiry_to_unix X (cf_expiry f)) = Inr at" "d = AssignRole org who (role_code K (cf_role f)) at"
    by (auto simp: bind_res_Inr_iff)
  from on have on': "expiry_future today (cf_expiry f)" "\<not> cm_is_root (cf_member f)"
    by (auto simp: clickable_def change_role_button_def)
  with root d have "who \<noteq> org_root_admin r org" by blast
  with future_expiry_accepted[OF on'(1) day d(3)] ref role(2) d show ?thesis
    by (auto simp: assign_role_def refused_iff Let_def dest: require_active_org_Inl require_org_permission_Inl)
qed

lemma override_refusals:
  assumes c: "codec_ok X A K" and p: "permissions_distinct K" and K: "roles_distinct K"
    and on: "clickable (override_button tx cell target)"
    and call: "override_call X i cell target = Some wr" and enc: "access_call_of A wr = Inr d"
    and ref: "call_access K r m d a = Inl e"
  shows "\<exists>org. uint256_arg i = Inr org \<and> org_refusal org e"
proof -
  from call obtain h q where h: "write_role_hash X (cc_role cell) = Some h" and q: "write_permission_hash X (cc_permission cell) = Some q"
    and w: "wr = SendSetPermission i h q (override_value target)"
    by (auto simp: override_call_def split: option.splits)
  note role = role_hash_decoded[OF c h] and perm = permission_hash_decoded[OF c q]
  define st where "st = (case target of StateUnset \<Rightarrow> OverrideUnset | StateAllowed \<Rightarrow> OverrideAllowed | StateDenied \<Rightarrow> OverrideDenied)"
  have st: "override_arg (override_value target) = Inr st" by (cases target) (auto simp: override_arg_def st_def)
  from enc w role(1) perm st obtain org where d: "uint256_arg i = Inr org"
    "d = SetPermission org (role_code K (cc_role cell)) (permission_code K (cc_permission cell)) st"
    by (auto simp: bind_res_Inr_iff)
  have admin: "role_code K (cc_role cell) = role_admin K \<Longrightarrow> cc_role cell = ADMIN"
    using K by (cases "cc_role cell") (auto simp: roles_distinct_def)
  have governs: "cc_permission cell = ''MANAGE_MEMBERS'' \<or> cc_permission cell = ''ASSIGN_ROLES''"
    if "permission_code K (cc_permission cell) \<in> {perm_assign_roles K, perm_manage_members K}"
    using that q p
    by (auto simp: permission_code_def write_permission_hash_def permission_names_def permissions_distinct_def
        perm_manage_members_def perm_assign_roles_def perm_mint_assets_def perm_transfer_assets_def perm_view_audit_def
        perm_manage_apps_def split: if_splits)
  have "\<not> (role_code K (cc_role cell) = role_admin K
      \<and> (permission_code K (cc_permission cell) = perm_assign_roles K \<or> permission_code K (cc_permission cell) = perm_manage_members K)
      \<and> st = OverrideDenied)"
    using on admin governs
    by (cases target) (auto simp: clickable_def override_button_def override_blocked_def st_def)
  with ref d role(2) show ?thesis
    by (auto simp: set_permission_def refused_iff org_refusal_def dest: require_active_org_Inl[unfolded org_refusal_def])
qed

lemma remove_refusals:
  assumes on: "clickable (remove_button tx (Some member))" and row: "member_buttons role (Some wallet) member = Some (change, remove_it)"
    and opened: "clickable remove_it" and call: "remove_call i (Some member) = Some wr" and enc: "access_call_of A wr = Inr d"
    and me: "abi_address A wallet = Inr (msg_sender m)"
    and inj: "\<forall>s t v. abi_address A s = Inr v \<and> abi_address A t = Inr v \<longrightarrow> to_lower s = to_lower t"
    and root: "\<forall>org who. uint256_arg i = Inr org \<and> abi_address A (cm_wallet member) = Inr who \<longrightarrow>
      (cm_is_root member \<longleftrightarrow> who = org_root_admin r org)"
    and dep: "deployed K (r, a)" and K: "roles_distinct K" and ref: "call_access K r m d a = Inl e"
  shows "\<exists>org who. uint256_arg i = Inr org \<and> abi_address A (cm_wallet member) = Inr who
    \<and> (org_refusal org e \<or> e = NotMember org who)"
proof -
  from call enc obtain org who where d: "uint256_arg i = Inr org" "abi_address A (cm_wallet member) = Inr who" "d = RemoveMember org who"
    by (auto simp: remove_call_def bind_res_Inr_iff)
  from row opened have not_me: "\<not> is_self (Some wallet) member" by (auto simp: member_buttons_def clickable_def split: if_splits)
  have self: "who \<noteq> msg_sender m"
  proof
    assume "who = msg_sender m"
    with inj me d(2) have "to_lower wallet = to_lower (cm_wallet member)" by blast
    with not_me show False by (simp add: is_self_def)
  qed
  from on have "\<not> cm_is_root member" by (simp add: clickable_def remove_button_def)
  with root d have other: "who \<noteq> org_root_admin r org" by blast
  from ref d self other show ?thesis
  proof (cases "\<exists>n. e = Panic n")
    case True
    then obtain n where "e = Panic n" by blast
    with ref d have "remove_member K r m org who a = Inl (Panic n)" by simp
    moreover from deployed_ok[OF dep K] have "members_listed a org" by (simp add: access_ok_def)
    ultimately show ?thesis using remove_no_panic by blast
  qed (auto simp: remove_member_def swap_and_pop_def refused_iff Let_def dest: require_active_org_Inl require_org_permission_Inl)
qed

subsection \<open>The forms as one\<close>

datatype console_form =
    AddForm add_member_form
  | ChangeForm change_role_form
  | OverrideForm console_cell override_choice

fun button_of :: "string \<Rightarrow> 'r tx_state \<Rightarrow> console_form \<Rightarrow> form_button" where
  "button_of today tx (AddForm f) = add_member_button today tx f"
| "button_of today tx (ChangeForm f) = change_role_button today tx f"
| "button_of today tx (OverrideForm cell target) = override_button tx cell target"

fun call_of :: "ext \<Rightarrow> int \<Rightarrow> console_form \<Rightarrow> contract_write option" where
  "call_of X i (AddForm f) = add_member_call X i f"
| "call_of X i (ChangeForm f) = change_role_call X i f"
| "call_of X i (OverrideForm cell target) = override_call X i cell target"

fun expiry_of :: "console_form \<Rightarrow> string" where
  "expiry_of (AddForm f) = af_expiry f"
| "expiry_of (ChangeForm f) = cf_expiry f"
| "expiry_of (OverrideForm cell target) = []"

text \<open>The roster's mark of the root admin is the contract's.\<close>

fun root_mark_right :: "abi \<Rightarrow> registry \<Rightarrow> int \<Rightarrow> console_form \<Rightarrow> bool" where
  "root_mark_right A r i (ChangeForm f) \<longleftrightarrow>
     (\<forall>org who. uint256_arg i = Inr org \<and> abi_address A (cm_wallet (cf_member f)) = Inr who \<longrightarrow>
        (cm_is_root (cf_member f) \<longleftrightarrow> who = org_root_admin r org))"
| "root_mark_right A r i _ \<longleftrightarrow> True"

text \<open>The refusals that depend on what only the chain knows at that block.\<close>

fun may_refuse :: "address \<Rightarrow> access_call \<Rightarrow> contract_error \<Rightarrow> bool" where
  "may_refuse sender (AddMember org who role at) e \<longleftrightarrow>
     org_refusal org e \<or> e = ZeroAddress \<and> who = 0 \<or> e = IdentityNotActive who \<or> e = AlreadyMember org who"
| "may_refuse sender (AssignRole org who role at) e \<longleftrightarrow>
     org_refusal org e \<or> e = CannotTargetSelf \<and> who = sender \<or> e = IdentityNotActive who \<or> e = NotMember org who"
| "may_refuse sender (SetPermission org role p st) e \<longleftrightarrow> org_refusal org e"
| "may_refuse sender _ e \<longleftrightarrow> False"


text \<open>A cell of the matrix, overridden by a member without and by one with the Admin role.\<close>

definition demo_cell :: console_cell where
  "demo_cell = \<lparr>cc_role = MANAGER, cc_permission = ''MINT_ASSETS'', cc_default = False, cc_override = StateUnset, cc_effective = False\<rparr>"

definition demo_tx :: "unit tx_state" where "demo_tx = tx_reset"

definition demo_override :: access_call where
  "demo_override = SetPermission 1 2 7 OverrideAllowed"

lemma demo_permissions: "permissions_distinct demo_hash"
  by code_simp

lemma demo_override_call:
  obtains wr where "override_call demo_hash_ext 1 demo_cell StateAllowed = Some wr"
    "access_call_of demo_abi wr = Inr demo_override"
proof -
  obtain h q where h: "write_role_hash demo_hash_ext MANAGER = Some h" and q: "write_permission_hash demo_hash_ext ''MINT_ASSETS'' = Some q"
    by (simp add: write_role_hash_def write_permission_hash_def permission_names_def)
  have k: "role_code demo_hash MANAGER = 2" "permission_code demo_hash ''MINT_ASSETS'' = 7" by code_simp+
  show thesis
    by (rule that[of "SendSetPermission 1 h q 1"])
      (use h q role_hash_decoded(1)[OF demo_codec h] permission_hash_decoded[OF demo_codec q] demo_arguments(3) k in
        \<open>simp_all add: override_call_def demo_cell_def demo_override_def override_arg_def\<close>)
qed


text \<open>The dialog's preview is the outcome. Once the override of a cell is mined, every wallet that
  then holds that role in the organization has the permission exactly when the dialog said so, and no
  other cell has changed.\<close>

theorem override_preview_is_the_outcome:
  assumes c: "codec_ok X A K" and K: "roles_distinct K"
    and shown: "cc_default cell = default_permission K (role_code K (cc_role cell)) (permission_code K (cc_permission cell))"
    and call: "override_call X i cell target = Some wr" and enc: "access_call_of A wr = Inr d"
    and mined: "call_access K r m d a = Inr a'"
  shows "\<exists>org. uint256_arg i = Inr org
    \<and> (\<forall>now w. effective_role K r now a' org w = role_code K (cc_role cell) \<longrightarrow>
         has_permission K r now a' org w (permission_code K (cc_permission cell)) = would_be cell target)
    \<and> (\<forall>org' role p. (org', role, p) \<noteq> (org, role_code K (cc_role cell), permission_code K (cc_permission cell)) \<longrightarrow>
         am_override a' org' role p = am_override a org' role p)"
proof -
  from call obtain h q where h: "write_role_hash X (cc_role cell) = Some h" and q: "write_permission_hash X (cc_permission cell) = Some q"
    and w: "wr = SendSetPermission i h q (override_value target)"
    by (auto simp: override_call_def split: option.splits)
  note role = role_hash_decoded[OF c h] and perm = permission_hash_decoded[OF c q]
  define st where "st = (case target of StateUnset \<Rightarrow> OverrideUnset | StateAllowed \<Rightarrow> OverrideAllowed | StateDenied \<Rightarrow> OverrideDenied)"
  have st: "override_arg (override_value target) = Inr st" by (cases target) (auto simp: override_arg_def st_def)
  from enc w role(1) perm st obtain org where d: "uint256_arg i = Inr org"
    "d = SetPermission org (role_code K (cc_role cell)) (permission_code K (cc_permission cell)) st"
    by (auto simp: bind_res_Inr_iff)
  from mined d(2) have active: "is_organization_active r org"
    and a': "am_override a' = (am_override a)(org := put2 (role_code K (cc_role cell)) (permission_code K (cc_permission cell)) st (am_override a org))"
    by (auto simp: set_permission_def require_active_org_def call_iff emit_access_def)
  have "role_code K (cc_role cell) \<noteq> role_none" using role(2) valid_role_not_none[OF K] by blast
  then have "has_permission K r now a' org w (permission_code K (cc_permission cell)) = would_be cell target"
    if "effective_role K r now a' org w = role_code K (cc_role cell)" for now w
    using that active shown
    by (cases target) (auto simp: has_permission_def a' put2_def would_be_def st_def Let_def)
  moreover have "am_override a' org' role p = am_override a org' role p"
    if "(org', role, p) \<noteq> (org, role_code K (cc_role cell), permission_code K (cc_permission cell))" for org' role p
    using that by (auto simp: a' put2_def)
  ultimately show ?thesis using d(1) by blast
qed

theorem override_preview_is_the_outcome_witness:
  "\<exists>r a a'. demo_deployment = Inr (r, a) \<and> call_access demo_hash r (sent 21 300) demo_override a = Inr a'
     \<and> (\<forall>now w. effective_role demo_hash r now a' 1 w = role_manager demo_hash \<longrightarrow>
          has_permission demo_hash r now a' 1 w (perm_mint_assets demo_hash))"
proof -
  obtain r a where s: "demo_deployment = Inr (r, a)" by (rule demo_state)
  have "case demo_deployment of Inr (r, a) \<Rightarrow>
      (case call_access demo_hash r (sent 21 300) demo_override a of Inr a' \<Rightarrow> True | Inl _ \<Rightarrow> False) | Inl _ \<Rightarrow> False" by code_simp
  from demo_check[OF s this] obtain a' where mined: "call_access demo_hash r (sent 21 300) demo_override a = Inr a'"
    by (auto split: sum.splits)
  obtain wr where w: "override_call demo_hash_ext 1 demo_cell StateAllowed = Some wr"
    "access_call_of demo_abi wr = Inr demo_override" by (rule demo_override_call)
  have codes: "role_code demo_hash (cc_role demo_cell) = role_manager demo_hash"
    "permission_code demo_hash (cc_permission demo_cell) = perm_mint_assets demo_hash"
    "cc_default demo_cell = default_permission demo_hash (role_manager demo_hash) (perm_mint_assets demo_hash)"
    "would_be demo_cell StateAllowed" by code_simp+
  from override_preview_is_the_outcome[OF demo_codec demo_hash_roles _ w mined] codes demo_arguments(3) s mined
  show ?thesis by auto
qed

text \<open>The roster offers the role change of one's own membership, which the contract refuses; only the
  removal is withheld.\<close>

lemma roster_offers_own_role_change:
  assumes "\<not> cm_is_root m" and "is_self (Some wallet) m"
  shows "\<exists>change remove_it. member_buttons ADMIN (Some wallet) m = Some (change, remove_it)
    \<and> clickable change \<and> \<not> clickable remove_it"
  using assms by (simp add: member_buttons_def clickable_def)

text \<open>A time-bound member cannot be made permanent in the role it holds: the dialog withholds its button.\<close>

lemma permanent_renewal_is_withheld:
  "\<not> clickable (change_role_button today tx (open_change_role m))"
  by (simp add: clickable_def change_role_button_def open_change_role_def)

end
