(* ===== verification/ConsoleApps.thy ===== *)
theory ConsoleApps
  imports ConsoleForms AppRoutes
begin

text \<open>
  Registering and managing applications in the browser:
  \<open>components/console/applications/register-app-modal.tsx\<close> and the cards of
  \<open>components/console/applications/applications-screen.tsx\<close>. The form, what it checks before asking
  the server, the run of the registration with one grant per role, and the actions of a card.
\<close>

subsection \<open>The registration form\<close>

record register_form =
  rf_name :: string
  rf_slug :: string
  rf_url :: string
  rf_logo :: string
  rf_description :: string
  rf_callbacks :: "string list"
  rf_roles :: "role_name list"

definition blank_registration :: register_form where
  "blank_registration =
    \<lparr>rf_name = [], rf_slug = [], rf_url = [], rf_logo = [], rf_description = [], rf_callbacks = [[]], rf_roles = [USER]\<rparr>"

text \<open>\<open>fillDemo\<close>, with the random number it drew; the logo is kept.\<close>

definition fill_demo :: "nat \<Rightarrow> register_form \<Rightarrow> register_form" where
  "fill_demo n f = f\<lparr>rf_name := ''Demo App'', rf_slug := ''demo-app-'' @ show_nat (1000 + n mod 9000),
     rf_url := ''https://demo.app'', rf_description := ''Demo internal application'',
     rf_callbacks := [''http://localhost:3001/api/auth/callback''], rf_roles := [USER]\<rparr>"

text \<open>\<open>toSlug\<close>: a run of other characters becomes one hyphen, hyphens at the ends go, forty characters stay.\<close>

fun hyphenate :: "bool \<Rightarrow> string \<Rightarrow> string" where
  "hyphenate inside [] = []"
| "hyphenate inside (c # cs) =
    (if slug_char c then c # hyphenate False cs else if inside then hyphenate True cs else CHR ''-'' # hyphenate True cs)"

definition strip_hyphens :: "string \<Rightarrow> string" where
  "strip_hyphens s = rev (dropWhile (\<lambda>c. c = CHR ''-'') (rev (dropWhile (\<lambda>c. c = CHR ''-'') s)))"

definition to_slug :: "string \<Rightarrow> string" where
  "to_slug v = take 40 (strip_hyphens (hyphenate False (to_lower v)))"

definition name_changed :: "string \<Rightarrow> register_form \<Rightarrow> register_form" where
  "name_changed v f =
    (let g = f\<lparr>rf_name := v\<rparr> in
     if rf_slug f = [] \<or> rf_slug f = to_slug (rf_name f) then g\<lparr>rf_slug := to_slug v\<rparr> else g)"

definition slug_changed :: "string \<Rightarrow> register_form \<Rightarrow> register_form" where
  "slug_changed v f = f\<lparr>rf_slug := to_lower v\<rparr>"

definition callback_changed :: "nat \<Rightarrow> string \<Rightarrow> register_form \<Rightarrow> register_form" where
  "callback_changed i v f = f\<lparr>rf_callbacks := (rf_callbacks f)[i := v]\<rparr>"

definition add_callback :: "register_form \<Rightarrow> register_form" where
  "add_callback f = (if length (rf_callbacks f) < 10 then f\<lparr>rf_callbacks := rf_callbacks f @ [[]]\<rparr> else f)"

definition remove_callback :: "nat \<Rightarrow> register_form \<Rightarrow> register_form" where
  "remove_callback i f =
    (if length (rf_callbacks f) > 1
     then f\<lparr>rf_callbacks := map snd (filter (\<lambda>(j, v). j \<noteq> i) (enumerate 0 (rf_callbacks f)))\<rparr> else f)"

definition toggle_role :: "role_name \<Rightarrow> register_form \<Rightarrow> register_form" where
  "toggle_role role f =
    f\<lparr>rf_roles := (if role \<in> set (rf_roles f) then filter (\<lambda>r. r \<noteq> role) (rf_roles f) else rf_roles f @ [role])\<rparr>"

subsection \<open>What the form checks\<close>

definition form_slug_valid :: "string \<Rightarrow> bool" where
  "form_slug_valid s \<longleftrightarrow> 3 \<le> length s \<and> length s \<le> 40 \<and> is_slug_text s"

text \<open>\<open>/^https?:\/\/.+/\<close>: something other than a line break after the scheme.\<close>

definition http_text :: "string \<Rightarrow> bool" where
  "http_text s \<longleftrightarrow>
    (let rest = (if starts_with ''https://'' s then drop 8 s else if starts_with ''http://'' s then drop 7 s else []) in
     rest \<noteq> [] \<and> hd rest \<noteq> newline \<and> hd rest \<noteq> CHR 0x0D)"

definition local_host :: "string \<Rightarrow> bool" where
  "local_host h \<longleftrightarrow> h \<in> {''localhost'', ''127.0.0.1'', ''[::1]''}"

definition describe_callback :: "url_parser \<Rightarrow> string \<Rightarrow> string option" where
  "describe_callback parse v =
    (case parse v of
       None \<Rightarrow> Some ''Needs to be an absolute URL''
     | Some u \<Rightarrow>
         if u_protocol u \<noteq> ''http:'' \<and> u_protocol u \<noteq> ''https:'' then Some ''Must be http or https''
         else if u_search u \<noteq> [] \<or> u_hash u \<noteq> [] then Some ''No query string or fragment''
         else if \<not> local_host (u_hostname u) \<and> u_protocol u \<noteq> ''https:'' then Some ''https is required outside localhost''
         else None)"

definition clean_callbacks :: "register_form \<Rightarrow> string list" where
  "clean_callbacks f = filter (\<lambda>v. v \<noteq> []) (map trim (rf_callbacks f))"

definition form_name_valid :: "register_form \<Rightarrow> bool" where
  "form_name_valid f \<longleftrightarrow> 2 \<le> length (trim (rf_name f))"

definition form_url_valid :: "register_form \<Rightarrow> bool" where
  "form_url_valid f \<longleftrightarrow> http_text (trim (rf_url f))"

definition form_logo_valid :: "register_form \<Rightarrow> bool" where
  "form_logo_valid f \<longleftrightarrow> trim (rf_logo f) = [] \<or> http_text (trim (rf_logo f))"

definition form_callbacks_valid :: "url_parser \<Rightarrow> register_form \<Rightarrow> bool" where
  "form_callbacks_valid parse f \<longleftrightarrow>
     clean_callbacks f \<noteq> [] \<and> list_all (\<lambda>v. describe_callback parse v = None) (clean_callbacks f)"

definition registration_ready :: "url_parser \<Rightarrow> register_form \<Rightarrow> bool" where
  "registration_ready parse f \<longleftrightarrow> form_slug_valid (rf_slug f) \<and> form_name_valid f \<and> form_url_valid f
     \<and> form_logo_valid f \<and> form_callbacks_valid parse f \<and> rf_roles f \<noteq> []"

text \<open>The hint beside the button of a form that is not ready.\<close>

definition missing_text :: "url_parser \<Rightarrow> register_form \<Rightarrow> string" where
  "missing_text parse f =
    (if \<not> form_name_valid f then ''Name required'' else if \<not> form_url_valid f then ''Homepage URL required''
     else if \<not> form_callbacks_valid parse f then ''Callback URL required'' else [])"

text \<open>The errors shown at the fields: name, slug, homepage, logo, and each callback.\<close>

definition field_errors :: "url_parser \<Rightarrow> register_form \<Rightarrow> string option \<times> string option \<times> string option \<times> string option \<times> string option list" where
  "field_errors parse f =
    (if rf_name f \<noteq> [] \<and> \<not> form_name_valid f then Some ''At least two characters'' else None,
     if rf_slug f \<noteq> [] \<and> \<not> form_slug_valid (rf_slug f) then Some ''Lowercase letters, digits and hyphens'' else None,
     if rf_url f \<noteq> [] \<and> \<not> form_url_valid f then Some ''Needs to be an http or https URL'' else None,
     if rf_logo f \<noteq> [] \<and> \<not> form_logo_valid f then Some ''Needs to be an http or https URL'' else None,
     map (\<lambda>v. if trim v \<noteq> [] then describe_callback parse (trim v) else None) (rf_callbacks f))"

subsection \<open>Registering\<close>

definition register_buttons :: "url_parser \<Rightarrow> 'r tx_state \<Rightarrow> bool \<Rightarrow> register_form \<Rightarrow> form_button list" where
  "register_buttons parse tx checking f =
    (let busy = tx_busy tx \<or> checking; finished = (txs_stage tx = TX_done) in
     (if \<not> finished then [\<lparr>fb_label = ''Fill example values'', fb_disabled = busy, fb_loading = False\<rparr>] else [])
     @ [\<lparr>fb_label = (if finished then ''Close'' else ''Cancel''), fb_disabled = busy, fb_loading = False\<rparr>]
     @ (if \<not> finished
        then [\<lparr>fb_label = retry_label tx ''Sign and register'', fb_disabled = (\<not> registration_ready parse f \<or> checking),
               fb_loading = busy\<rparr>]
        else []))"

text \<open>Before the run: is the slug taken on the chain? \<open>None\<close> starts the run.\<close>

definition error_text :: "thrown \<Rightarrow> string" where
  "error_text e = nullish (th_message e) []"

definition preflight :: "bool \<Rightarrow> thrown + bool \<Rightarrow> string option" where
  "preflight connected answer =
    (if \<not> connected then Some ''No wallet is connected. Sign in again from the top bar.''
     else case answer of
       Inr True \<Rightarrow> Some ''This slug is already registered on-chain. Close this dialog and use its application card to manage roles, callbacks, or credentials.''
     | Inr False \<Rightarrow> None
     | Inl e \<Rightarrow> Some (if th_error e then ''Could not check whether this slug is already registered: '' @ error_text e
                     else ''Could not check whether this slug is already registered. Check your wallet connection and try again.''))"

definition optional_json :: "string \<Rightarrow> string \<Rightarrow> (string \<times> json) list" where
  "optional_json key v = (if trim v = [] then [] else [(key, JStr (trim v))])"

definition registration_body :: "int \<Rightarrow> register_form \<Rightarrow> json" where
  "registration_body org f =
    JObj ([(''orgId'', JNum org), (''slug'', JStr (rf_slug f)), (''name'', JStr (trim (rf_name f))), (''url'', JStr (trim (rf_url f)))]
      @ optional_json ''description'' (rf_description f) @ optional_json ''logoUrl'' (rf_logo f)
      @ [(''callbackUrls'', JArr (map JStr (clean_callbacks f))), (''allowedRoles'', JArr (map (JStr \<circ> role_text) (rf_roles f)))])"

record register_args =
  rg_args_org :: int
  rg_args_app :: string
  rg_args_hash :: string

definition registration_call :: "register_args \<Rightarrow> contract_write" where
  "registration_call p = SendRegisterApplication (rg_args_org p) (rg_args_app p) (rg_args_hash p)"

definition grant_calls :: "ext \<Rightarrow> register_args \<Rightarrow> role_name list \<Rightarrow> contract_write list" where
  "grant_calls X p roles =
    map (\<lambda>role. SendSetAppAccess (rg_args_org p) (rg_args_app p) (nullish (write_role_hash X role) []) True) roles"

text \<open>One grant after the other, each mined before the next; the first refusal ends the loop.\<close>

fun run_grants :: "('w \<Rightarrow> contract_write \<Rightarrow> thrown + 'w) \<Rightarrow> contract_write list \<Rightarrow> 'w \<Rightarrow> 'w \<times> thrown option" where
  "run_grants mine [] w = (w, None)"
| "run_grants mine (c # cs) w = (case mine w c of Inl e \<Rightarrow> (w, Some e) | Inr w' \<Rightarrow> run_grants mine cs w')"

definition grant_error :: "thrown option \<Rightarrow> string option" where
  "grant_error e = map_option (\<lambda>e. if th_error e
     then error_text e @ dash @ ''grant the remaining roles from the application card.''
     else ''One of the access grants was not signed. Grant the remaining roles from the application card.'') e"

subsection \<open>A card of the applications screen\<close>

datatype card_busy = CardIdle | CardRotating | CardChangingStatus

record app_card =
  ak_busy :: card_busy
  ak_error :: "string option"
  ak_secret :: "string option"
  ak_details :: bool
  ak_pending :: "role_name option"

definition blank_card :: app_card where
  "blank_card = \<lparr>ak_busy = CardIdle, ak_error = None, ak_secret = None, ak_details = False, ak_pending = None\<rparr>"

record card_app =
  ka_slug :: string
  ka_name :: string
  ka_status :: string
  ka_registered :: bool
  ka_access :: "(role_name \<times> bool) list"
  ka_client_id :: "string option"
  ka_has_secret :: "bool option"
  ka_has_endpoints :: bool
  ka_pending_roles :: "string list"
  ka_steps :: "(string \<times> bool \<times> string option) list"
    \<comment> \<open>label, done, what to do\<close>

definition access_shown :: "card_app \<Rightarrow> role_name \<Rightarrow> bool" where
  "access_shown app role = nullish (map_of (ka_access app) role) False"

definition access_button :: "bool \<Rightarrow> 'r tx_state \<Rightarrow> card_app \<Rightarrow> app_card \<Rightarrow> role_name \<Rightarrow> form_button" where
  "access_button can_manage tx app ck role =
    \<lparr>fb_label = (if ak_pending ck = Some role \<and> tx_busy tx then ''Signing''
       else if access_shown app role then ''Allowed'' else ''No''),
     fb_disabled = (\<not> can_manage \<or> tx_busy tx \<or> \<not> ka_registered app), fb_loading = False\<rparr>"

definition access_title :: "bool \<Rightarrow> card_app \<Rightarrow> role_name \<Rightarrow> string" where
  "access_title can_manage app role =
    (if \<not> ka_registered app then ''Register the application on-chain before granting access''
     else if can_manage
     then (if access_shown app role then ''Withdraw access from '' else ''Grant access to '') @ role_text role
     else ''Needs MANAGE_APPS'')"

definition toggle_call :: "ext \<Rightarrow> int \<Rightarrow> card_app \<Rightarrow> role_name \<Rightarrow> contract_write option" where
  "toggle_call X org app role =
    map_option (\<lambda>h. SendSetAppAccess org (app_id_from_slug X (ka_slug app)) h (\<not> access_shown app role)) (write_role_hash X role)"

definition toggle_started :: "role_name \<Rightarrow> app_card \<Rightarrow> app_card" where
  "toggle_started role ck = ck\<lparr>ak_pending := Some role\<rparr>"

text \<open>Rotating: the confirmation, the call, its outcome. The second result says whether the list reloads.\<close>

definition rotate_started :: "bool \<Rightarrow> app_card \<Rightarrow> app_card option" where
  "rotate_started confirmed ck = (if confirmed then Some (ck\<lparr>ak_busy := CardRotating, ak_error := None\<rparr>) else None)"

definition rotate_settled :: "thrown + string \<Rightarrow> app_card \<Rightarrow> app_card \<times> bool" where
  "rotate_settled r ck =
    (case r of
       Inr secret \<Rightarrow> (ck\<lparr>ak_secret := Some secret, ak_details := True, ak_busy := CardIdle\<rparr>, True)
     | Inl e \<Rightarrow> (ck\<lparr>ak_error := Some (if th_error e then error_text e else ''Could not rotate the secret''), ak_busy := CardIdle\<rparr>, False))"

definition status_started :: "string \<Rightarrow> bool \<Rightarrow> app_card \<Rightarrow> app_card option" where
  "status_started st confirmed ck =
    (if st = ''revoked'' \<and> \<not> confirmed then None else Some (ck\<lparr>ak_busy := CardChangingStatus, ak_error := None\<rparr>))"

definition status_settled :: "thrown + unit \<Rightarrow> app_card \<Rightarrow> app_card \<times> bool" where
  "status_settled r ck =
    (case r of
       Inr _ \<Rightarrow> (ck\<lparr>ak_busy := CardIdle\<rparr>, True)
     | Inl e \<Rightarrow> (ck\<lparr>ak_error := Some (if th_error e then error_text e else ''Could not change the status''), ak_busy := CardIdle\<rparr>, False))"

definition card_buttons :: "bool \<Rightarrow> card_app \<Rightarrow> app_card \<Rightarrow> form_button list" where
  "card_buttons can_manage app ck =
    (if \<not> can_manage then []
     else [\<lparr>fb_label = (if ak_details ck then ''Hide integration details'' else ''Copy integration details''),
            fb_disabled = (\<not> ka_has_endpoints app \<or> \<not> truthy (ka_client_id app)), fb_loading = False\<rparr>,
           \<lparr>fb_label = (if ka_has_secret app = Some True then ''Rotate secret'' else ''Generate secret''),
            fb_disabled = (ak_busy ck \<noteq> CardIdle), fb_loading = (ak_busy ck = CardRotating)\<rparr>,
           \<lparr>fb_label = (if ka_status app = ''revoked'' then ''Restore integration'' else ''Revoke integration''),
            fb_disabled = (ak_busy ck \<noteq> CardIdle), fb_loading = (ak_busy ck = CardChangingStatus)\<rparr>])"

text \<open>A rotated secret is shown once: on its own, or inside the details when they are open.\<close>

definition secret_alone :: "app_card \<Rightarrow> string option" where
  "secret_alone ck = (if truthy (ak_secret ck) \<and> \<not> ak_details ck then ak_secret ck else None)"

definition details_shown :: "card_app \<Rightarrow> app_card \<Rightarrow> (string \<times> string option) option" where
  "details_shown app ck =
    (if ak_details ck \<and> ka_has_endpoints app \<and> truthy (ka_client_id app)
     then Some (the (ka_client_id app), ak_secret ck) else None)"

definition pending_note :: "card_app \<Rightarrow> string option" where
  "pending_note app =
    (let rs = ka_pending_roles app; one = (length rs = 1) in
     if rs = [] then None
     else Some (join_with '', '' rs @ '' '' @ (if one then ''was'' else ''were'') @ '' chosen at registration but ''
       @ (if one then ''has'' else ''have'') @ '' no setAppAccess transaction on-chain, so the contract still refuses ''
       @ (if one then ''it'' else ''them'') @ ''.''))"

text \<open>\<open>StagePipeline\<close>: the first step that is not done.\<close>

definition pipeline_next :: "card_app \<Rightarrow> string option" where
  "pipeline_next app = (case find (\<lambda>(label, complete, todo). \<not> complete) (ka_steps app) of
     None \<Rightarrow> None | Some (label, complete, todo) \<Rightarrow> if truthy todo then todo else None)"

end
