(* ===== verification/ConsoleAppProps.thy ===== *)
theory ConsoleAppProps
  imports ConsoleApps AppProps
begin

text \<open>
  The registration form against the route it calls: what the form accepts the server accepts, up to
  lengths the form does not check; slugs it proposes; the roles it collects; grants stop at the first
  refusal.
\<close>

subsection \<open>Callbacks\<close>

lemma local_is_loopback: "local_host h \<Longrightarrow> is_loopback_host h"
  by (auto simp: local_host_def is_loopback_host_def LOOPBACK_HOSTS_def to_lower_def lower_char_def is_upper_def code_unit_def)

text \<open>A callback the form accepts is one the server registers in development; in production it is
  refused at most for being local.\<close>

lemma described_callback_is_registrable:
  assumes "describe_callback parse v = None" and "trim v = v" and "v \<noteq> []" and "length v \<le> MAX_CALLBACK_LENGTH"
  shows "\<exists>n. validate_registrable_callback parse (JStr v) Development = Inr n"
    and "validate_registrable_callback parse (JStr v) Production = Inl LOCALHOST_NOT_ALLOWED
      \<or> (\<exists>n. validate_registrable_callback parse (JStr v) Production = Inr n)"
proof -
  from assms(1) obtain u where u: "parse v = Some u" "u_protocol u = ''http:'' \<or> u_protocol u = ''https:''"
    "u_search u = []" "u_hash u = []" "local_host (u_hostname u) \<or> u_protocol u = ''https:''"
    by (auto simp: describe_callback_def split: option.splits if_splits)
  have "\<exists>url n. canonicalize_callback parse v = Some (url, n)"
    using u(2) by (auto simp: canonicalize_callback_def assms(2) u(1) Let_def)
  then obtain url n where c: "canonicalize_callback parse v = Some (url, n)" by blast
  show "\<exists>n. validate_registrable_callback parse (JStr v) Development = Inr n"
    using u(2,5) local_is_loopback
    by (auto simp: validate_registrable_callback_def assms(2,3) assms(4)[unfolded not_less[symmetric]] u(1,3,4) c check_transport_def Let_def)
  show "validate_registrable_callback parse (JStr v) Production = Inl LOCALHOST_NOT_ALLOWED
      \<or> (\<exists>n. validate_registrable_callback parse (JStr v) Production = Inr n)"
    using u(2,5) local_is_loopback
    by (auto simp: validate_registrable_callback_def assms(2,3) assms(4)[unfolded not_less[symmetric]] u(1,3,4) c check_transport_def Let_def)
qed

text \<open>The converse fails: the form refuses \<open>http\<close> on the other loopback addresses, which the server
  registers in development.\<close>

definition demo_loopback :: url_parser where
  "demo_loopback s = Some \<lparr>u_protocol = ''http:'', u_username = [], u_password = [], u_hostname = ''127.0.0.2'', u_port = ''3001'',
     u_pathname = ''/cb'', u_search = [], u_hash = []\<rparr>"

lemma form_refuses_a_registrable_callback:
  "describe_callback demo_loopback ''http://127.0.0.2:3001/cb'' \<noteq> None
   \<and> (\<exists>n. validate_registrable_callback demo_loopback (JStr ''http://127.0.0.2:3001/cb'') Development = Inr n)"
proof -
  have "case validate_registrable_callback demo_loopback (JStr ''http://127.0.0.2:3001/cb'') Development of Inr n \<Rightarrow> True | Inl _ \<Rightarrow> False"
    by code_simp
  moreover have "describe_callback demo_loopback ''http://127.0.0.2:3001/cb'' \<noteq> None" by code_simp
  ultimately show ?thesis by (auto split: sum.splits)
qed

subsection \<open>Roles and slugs\<close>

inductive edited :: "register_form \<Rightarrow> bool" where
  blank: "edited blank_registration"
| demo: "edited f \<Longrightarrow> edited (fill_demo n f)"
| name: "edited f \<Longrightarrow> edited (name_changed v f)"
| slug: "edited f \<Longrightarrow> edited (slug_changed v f)"
| url: "edited f \<Longrightarrow> edited (f\<lparr>rf_url := v\<rparr>)"
| logo: "edited f \<Longrightarrow> edited (f\<lparr>rf_logo := v\<rparr>)"
| description: "edited f \<Longrightarrow> edited (f\<lparr>rf_description := v\<rparr>)"
| callback: "edited f \<Longrightarrow> edited (callback_changed i v f)"
| add: "edited f \<Longrightarrow> edited (add_callback f)"
| remove: "edited f \<Longrightarrow> edited (remove_callback i f)"
| role: "edited f \<Longrightarrow> role \<in> set ASSIGNABLE_ROLES \<Longrightarrow> edited (toggle_role role f)"

lemma edited_form:
  "edited f \<Longrightarrow> distinct (rf_roles f) \<and> set (rf_roles f) \<subseteq> set ASSIGNABLE_ROLES
     \<and> rf_callbacks f \<noteq> [] \<and> length (rf_callbacks f) \<le> 10"
proof (induction rule: edited.induct)
  case (remove f i)
  have "length (filter (\<lambda>(j, v). j \<noteq> i) (enumerate 0 (rf_callbacks f))) \<le> length (rf_callbacks f)"
    by (rule order_trans[OF length_filter_le]) simp
  moreover have "filter (\<lambda>(j, v). j \<noteq> i) (enumerate 0 (rf_callbacks f)) \<noteq> []" if "length (rf_callbacks f) > 1"
  proof -
    define j where "j = (if i = 0 then 1 else 0 :: nat)"
    have "(j, rf_callbacks f ! j) \<in> set (enumerate 0 (rf_callbacks f))" "j \<noteq> i"
      using that by (auto simp: in_set_enumerate_eq j_def)
    then have "(j, rf_callbacks f ! j) \<in> set (filter (\<lambda>(j, v). j \<noteq> i) (enumerate 0 (rf_callbacks f)))" by simp
    then show ?thesis by (metis empty_iff empty_set)
  qed
  ultimately show ?case using remove.IH by (auto simp: remove_callback_def)
qed (auto simp: blank_registration_def fill_demo_def name_changed_def slug_changed_def callback_changed_def add_callback_def
       toggle_role_def ASSIGNABLE_ROLES_def Let_def)

lemma edited_roles_few: "edited f \<Longrightarrow> length (rf_roles f) \<le> 4"
proof -
  assume "edited f"
  from edited_form[OF this] have "distinct (rf_roles f)" "set (rf_roles f) \<subseteq> set ASSIGNABLE_ROLES" by auto
  then have "length (rf_roles f) \<le> card (set ASSIGNABLE_ROLES)"
    by (metis List.finite_set card_mono distinct_card)
  also have "\<dots> = 4" by (simp add: ASSIGNABLE_ROLES_def)
  finally show ?thesis .
qed

text \<open>The proposed slug holds slug characters and hyphens, at most forty of them, and starts with no hyphen.\<close>

lemma hyphenate_chars: "list_all (\<lambda>c. slug_char c \<or> c = CHR ''-'') (hyphenate b s)"
  by (induction b s rule: hyphenate.induct) auto

lemma to_slug_text:
  "length (to_slug v) \<le> 40" "list_all (\<lambda>c. slug_char c \<or> c = CHR ''-'') (to_slug v)"
  "to_slug v \<noteq> [] \<Longrightarrow> slug_char (hd (to_slug v))"
proof -
  let ?h = "hyphenate False (to_lower v)"
  show "length (to_slug v) \<le> 40" by (simp add: to_slug_def)
  have sub: "set (strip_hyphens s) \<subseteq> set s" for s
    unfolding strip_hyphens_def set_rev by (metis set_dropWhileD set_rev subsetI)
  have "set (to_slug v) \<subseteq> set ?h" using sub[of ?h] set_take_subset[of 40 "strip_hyphens ?h"] by (auto simp: to_slug_def)
  then show all: "list_all (\<lambda>c. slug_char c \<or> c = CHR ''-'') (to_slug v)"
    using hyphenate_chars[of False "to_lower v"] by (auto simp: list_all_iff)
  have head: "strip_hyphens s \<noteq> [] \<Longrightarrow> hd (strip_hyphens s) \<noteq> CHR ''-''" for s
  proof -
    let ?d = "dropWhile (\<lambda>c. c = CHR ''-'') s"
    assume n: "strip_hyphens s \<noteq> []"
    have "?d \<noteq> []"
    proof
      assume "?d = []"
      with n show False unfolding strip_hyphens_def by (simp only: rev.simps dropWhile.simps)
    qed
    then have d: "hd ?d \<noteq> CHR ''-''" by (rule hd_dropWhile)
    let ?p = "\<lambda>c. c = CHR ''-''"
    have parts: "xs = rev (dropWhile ?p (rev xs)) @ rev (takeWhile ?p (rev xs))" for xs
      using takeWhile_dropWhile_id[of ?p "rev xs"] by (metis rev_append rev_rev_ident)
    have "?d = strip_hyphens s @ rev (takeWhile ?p (rev ?d))"
      using parts[of ?d] by (simp only: strip_hyphens_def)
    then obtain ys where "?d = strip_hyphens s @ ys" ..
    with d n show ?thesis by (metis hd_append2)
  qed
  assume ne: "to_slug v \<noteq> []"
  then have "strip_hyphens ?h \<noteq> []" "hd (to_slug v) = hd (strip_hyphens ?h)" by (auto simp: to_slug_def)
  with head have "hd (to_slug v) \<noteq> CHR ''-''" by auto
  with all ne show "slug_char (hd (to_slug v))" by (cases "to_slug v") auto
qed

text \<open>It may still end in one, when the cut falls on a hyphen; the form then refuses what it proposed.\<close>

lemma proposed_slug_may_be_refused:
  "\<not> form_slug_valid (rf_slug (name_changed ''Acme Time Tracking For The Whole Market Today'' blank_registration))"
  by code_simp

subsection \<open>Grants\<close>

lemma run_grants_prefix:
  "run_grants mine cs w = (w', e) \<Longrightarrow>
     \<exists>n \<le> length cs. (\<exists>ws. length ws = n \<and> (\<forall>i < n. mine ((w # ws) ! i) (cs ! i) = Inr (ws ! i)) \<and> w' = last (w # ws))
       \<and> (e = None \<longleftrightarrow> n = length cs)"
proof (induction mine cs w rule: run_grants.induct)
  case (2 mine c cs w)
  show ?case
  proof (cases "mine w c")
    case (Inl f)
    with 2(2) show ?thesis by (intro exI[of _ 0]) auto
  next
    case (Inr v)
    with 2 obtain n ws where n: "n \<le> length cs" "length ws = n" "\<forall>i < n. mine ((v # ws) ! i) (cs ! i) = Inr (ws ! i)"
      "w' = last (v # ws)" "e = None \<longleftrightarrow> n = length cs" by auto
    have "\<forall>i < Suc n. mine ((w # v # ws) ! i) ((c # cs) ! i) = Inr ((v # ws) ! i)"
      using Inr n(3) by (auto simp: less_Suc_eq_0_disj)
    with n show ?thesis by (intro exI[of _ "Suc n"]) (auto intro!: exI[of _ "v # ws"])
  qed
qed auto

subsection \<open>The form and the route\<close>

definition within_limits :: "url_parser \<Rightarrow> register_form \<Rightarrow> bool" where
  "within_limits parse f \<longleftrightarrow> length (trim (rf_name f)) \<le> 80 \<and> length (trim (rf_description f)) \<le> 500
     \<and> parse (trim (rf_url f)) \<noteq> None \<and> length (trim (rf_url f)) \<le> 2048
     \<and> (trim (rf_logo f) \<noteq> [] \<longrightarrow> parse (trim (rf_logo f)) \<noteq> None \<and> length (trim (rf_logo f)) \<le> 2048)
     \<and> (\<forall>v \<in> set (clean_callbacks f). 8 \<le> length v \<and> length v \<le> 2048)"

lemma registration_body_get:
  "obj_get (registration_body org f) ''orgId'' = Some (JNum org)"
  "obj_get (registration_body org f) ''slug'' = Some (JStr (rf_slug f))"
  "obj_get (registration_body org f) ''name'' = Some (JStr (trim (rf_name f)))"
  "obj_get (registration_body org f) ''url'' = Some (JStr (trim (rf_url f)))"
  "obj_get (registration_body org f) ''description'' = (if trim (rf_description f) = [] then None else Some (JStr (trim (rf_description f))))"
  "obj_get (registration_body org f) ''logoUrl'' = (if trim (rf_logo f) = [] then None else Some (JStr (trim (rf_logo f))))"
  "obj_get (registration_body org f) ''callbackUrls'' = Some (JArr (map JStr (clean_callbacks f)))"
  "obj_get (registration_body org f) ''allowedRoles'' = Some (JArr (map (JStr \<circ> role_text) (rf_roles f)))"
  "is_object (registration_body org f)"
  by (simp_all add: registration_body_def optional_json_def is_object_def)

lemma array_issues_Nil:
  assumes "lo \<le> length xs" "length xs \<le> hi" "\<forall>x \<in> set xs. p (Some x)"
  shows "array_issues X path lo hi p (Some (JArr xs)) = []"
  using assms by (auto simp: array_issues_def field_issue_def in_set_enumerate_eq)

lemma clean_callback:
  "v \<in> set (clean_callbacks f) \<Longrightarrow> trim v = v \<and> v \<noteq> []"
  by (auto simp: clean_callbacks_def)

lemma clean_callbacks_few: "length (clean_callbacks f) \<le> length (rf_callbacks f)"
  unfolding clean_callbacks_def by (rule order_trans[OF length_filter_le]) simp

text \<open>What the form accepts the server accepts. However the form was edited, once it is ready and its
  texts keep the server's length limits, the request passes the route's schema, every callback passes the
  server's own rules in development, and in production a callback is refused only for being local.\<close>

theorem ready_registration_passes_the_server:
  assumes "edited f" and "registration_ready (x_parse_url X) f" and "within_limits (x_parse_url X) f" and "0 < org"
  shows "registration_issues X (registration_body org f) = []
    \<and> validate_callback_list (x_parse_url X) (clean_callbacks f) Development = []
    \<and> (\<forall>v \<in> set (clean_callbacks f). \<forall>e. validate_registrable_callback (x_parse_url X) (JStr v) Production = Inl e \<longrightarrow>
         e = LOCALHOST_NOT_ALLOWED)"
proof -
  from edited_form[OF assms(1)] edited_roles_few[OF assms(1)] have e: "set (rf_roles f) \<subseteq> set ASSIGNABLE_ROLES"
    "length (rf_callbacks f) \<le> 10" "length (rf_roles f) \<le> 4" by auto
  from assms(2) have r: "form_slug_valid (rf_slug f)" "form_name_valid f" "clean_callbacks f \<noteq> []" "rf_roles f \<noteq> []"
    "\<forall>v \<in> set (clean_callbacks f). describe_callback (x_parse_url X) v = None"
    by (auto simp: registration_ready_def form_callbacks_valid_def list_all_iff)
  from assms(3) have l: "\<forall>v \<in> set (clean_callbacks f). 8 \<le> length v \<and> length v \<le> 2048" by (simp add: within_limits_def)
  have callbacks: "array_issues X ''callbackUrls'' 1 10 (text_field 8 2048) (Some (JArr (map JStr (clean_callbacks f)))) = []"
    using r(3) l e(2) clean_callbacks_few[of f] by (intro array_issues_Nil) (auto simp: text_field_def Suc_le_eq)
  have roles: "array_issues X ''allowedRoles'' 1 4 role_field (Some (JArr (map (JStr \<circ> role_text) (rf_roles f)))) = []"
    using r(4) e(1,3) by (intro array_issues_Nil) (auto simp: role_field_def regex_field_def Suc_le_eq)
  have "registration_issues X (registration_body org f) = []"
    using r(1,2) assms(3,4)
    by (simp add: registration_issues_def registration_body_get callbacks[simplified] roles[simplified] field_issue_def positive_field_def slug_field_def
        regex_field_def form_slug_valid_def text_field_def form_name_valid_def url_field_def within_limits_def optional_field_def)
  moreover have each: "\<exists>n. validate_registrable_callback (x_parse_url X) (JStr v) Development = Inr n"
    "validate_registrable_callback (x_parse_url X) (JStr v) Production = Inl e \<Longrightarrow> e = LOCALHOST_NOT_ALLOWED"
    if v: "v \<in> set (clean_callbacks f)" for v e
    using described_callback_is_registrable[of "x_parse_url X" v] clean_callback[OF v] r(5) l v by (auto simp: MAX_CALLBACK_LENGTH_def)
  moreover have "validate_callback_list (x_parse_url X) (clean_callbacks f) Development = []"
    unfolding validate_callback_list_Nil_iff using each(1) by auto
  ultimately show ?thesis by blast
qed

text \<open>The example values.\<close>

theorem ready_registration_passes_the_server_witness:
  "\<exists>f. f = name_changed ''Acme Time'' (blank_registration\<lparr>rf_url := demo_callback, rf_callbacks := [demo_callback]\<rparr>)
     \<and> registration_ready (x_parse_url demo_ext) f \<and> registration_issues demo_ext (registration_body 1 f) = []
     \<and> validate_callback_list (x_parse_url demo_ext) (clean_callbacks f) Development = []"
proof -
  let ?g = "callback_changed 0 demo_callback (blank_registration\<lparr>rf_url := demo_callback\<rparr>)"
  let ?f = "name_changed ''Acme Time'' (blank_registration\<lparr>rf_url := demo_callback, rf_callbacks := [demo_callback]\<rparr>)"
  have "?g = blank_registration\<lparr>rf_url := demo_callback, rf_callbacks := [demo_callback]\<rparr>"
    by (simp add: callback_changed_def blank_registration_def)
  then have e: "edited ?f" using edited.name[OF edited.callback[OF edited.url[OF edited.blank]], of "''Acme Time''" 0 demo_callback] by metis
  have r: "registration_ready (x_parse_url demo_ext) ?f" by code_simp
  have l: "within_limits (x_parse_url demo_ext) ?f" by code_simp
  from ready_registration_passes_the_server[OF e r l, of 1] r show ?thesis by auto
qed

end
