(* ===== verification/ConsoleFlows.thy ===== *)
theory ConsoleFlows
  imports ConsoleApps
begin

text \<open>
  The flows that create records on both sides: onboarding a person
  (\<open>components/onboarding/individual-flow.tsx\<close>), setting up an organization
  (\<open>organisation-flow.tsx\<close>) and minting a certificate (\<open>components/console/assets/mint-wizard.tsx\<close>).
  Each saves a record first, sends a write that anchors its hash, and reads what it created from the
  receipt. With them the choice of the onboarding screen and the gates before a console screen
  (\<open>onboarding.tsx\<close>, \<open>console-shell.tsx\<close>, \<open>use-console-screen.tsx\<close>).
\<close>

subsection \<open>Creating an identity\<close>

record identity_form =
  if_name :: string
  if_job_title :: string
  if_department :: string
  if_email :: string

text \<open>The form opens with what the session's profile holds; the email is always asked for again.\<close>

record known_profile =
  kp_name :: "string option"
  kp_job_title :: "string option"
  kp_department :: "string option"

definition open_identity_form :: "known_profile option \<Rightarrow> identity_form" where
  "open_identity_form profile =
    \<lparr>if_name = nullish (Option.bind profile kp_name) [], if_job_title = nullish (Option.bind profile kp_job_title) [],
     if_department = nullish (Option.bind profile kp_department) [], if_email = []\<rparr>"

definition text_valid :: "string \<Rightarrow> bool" where
  "text_valid s \<longleftrightarrow> 2 \<le> length (trim s)"

text \<open>\<open>/^[^@\s]+@[^@\s]+\.[^@\s]+$/\<close>: one \<open>@\<close>, no white space, a dot inside the part after it.\<close>

definition email_shaped :: "string \<Rightarrow> bool" where
  "email_shaped s \<longleftrightarrow>
    (case split_on (CHR ''@'') s of
       [local, domain] \<Rightarrow> local \<noteq> [] \<and> domain \<noteq> [] \<and> CHR ''.'' \<in> set (butlast (tl domain))
         \<and> list_all (\<lambda>c. \<not> is_space c) local \<and> list_all (\<lambda>c. \<not> is_space c) domain
     | _ \<Rightarrow> False)"

definition email_input_valid :: "string \<Rightarrow> bool" where
  "email_input_valid s \<longleftrightarrow> s = [] \<or> email_shaped (trim s)"

definition identity_ready :: "identity_form \<Rightarrow> bool" where
  "identity_ready f \<longleftrightarrow> text_valid (if_name f) \<and> email_input_valid (if_email f)"

definition identity_errors :: "identity_form \<Rightarrow> string option \<times> string option" where
  "identity_errors f =
    (if if_name f \<noteq> [] \<and> \<not> text_valid (if_name f) then Some ''At least two characters'' else None,
     if email_input_valid (if_email f) then None else Some ''That does not look like an email address'')"

definition identity_body :: "identity_form \<Rightarrow> json" where
  "identity_body f =
    JObj ([(''displayName'', JStr (trim (if_name f)))] @ optional_json ''jobTitle'' (if_job_title f)
      @ optional_json ''department'' (if_department f) @ optional_json ''email'' (if_email f))"

text \<open>\<open>send\<close>: the server names the call. Any other answer, \<open>null\<close> included, registers.\<close>

definition json_text :: "json option \<Rightarrow> string" where
  "json_text v = (case v of Some (JStr s) \<Rightarrow> s | _ \<Rightarrow> [])"

definition identity_write :: "json \<Rightarrow> contract_write" where
  "identity_write prepared =
    (let next = obj_get prepared ''nextStep''; h = json_text (obj_get prepared ''identityHash'') in
     if Option.bind next (\<lambda>n. obj_get n ''call'') = Some (JStr ''updateIdentityHash'') then SendUpdateIdentity h
     else SendRegisterIdentity h)"

definition identity_button :: "'r tx_state \<Rightarrow> identity_form \<Rightarrow> form_button" where
  "identity_button tx f =
    \<lparr>fb_label = retry_label tx ''Save and anchor'', fb_disabled = (\<not> identity_ready f), fb_loading = tx_busy tx\<rparr>"

subsection \<open>Setting up an organization\<close>

record organisation_form =
  of_display_name :: string
  of_name :: string
  of_industry :: string
  of_website :: string

definition open_organisation_form :: "known_profile option \<Rightarrow> organisation_form" where
  "open_organisation_form profile =
    \<lparr>of_display_name = nullish (Option.bind profile kp_name) [], of_name = [], of_industry = [], of_website = []\<rparr>"

definition website_valid :: "string \<Rightarrow> bool" where
  "website_valid s \<longleftrightarrow> s = [] \<or> http_text (trim s)"

definition step_one_complete :: "bool \<Rightarrow> 'r tx_state \<Rightarrow> bool" where
  "step_one_complete identity_registered identity_tx \<longleftrightarrow> identity_registered \<or> txs_stage identity_tx = TX_done"

definition step_one_button :: "'r tx_state \<Rightarrow> organisation_form \<Rightarrow> form_button" where
  "step_one_button tx f =
    \<lparr>fb_label = retry_label tx ''Anchor my identity'', fb_disabled = (\<not> text_valid (of_display_name f)), fb_loading = tx_busy tx\<rparr>"

definition step_one_body :: "organisation_form \<Rightarrow> json" where
  "step_one_body f = JObj [(''displayName'', JStr (trim (of_display_name f)))]"

definition step_two_button :: "bool \<Rightarrow> 'r tx_state \<Rightarrow> organisation_form \<Rightarrow> form_button" where
  "step_two_button step_one tx f =
    \<lparr>fb_label = retry_label tx ''Create the organisation'',
     fb_disabled = (\<not> step_one \<or> \<not> text_valid (of_name f) \<or> \<not> website_valid (of_website f)), fb_loading = tx_busy tx\<rparr>"

definition organisation_fields :: "organisation_form \<Rightarrow> (string \<times> json) list" where
  "organisation_fields f =
    [(''name'', JStr (trim (of_name f)))] @ optional_json ''industry'' (of_industry f) @ optional_json ''website'' (of_website f)"

definition prepare_body :: "organisation_form \<Rightarrow> json" where
  "prepare_body f = JObj (organisation_fields f)"

definition organisation_write :: "json \<Rightarrow> contract_write" where
  "organisation_write prepared =
    SendCreateOrganization (json_text (Option.bind (obj_get prepared ''createArgs'') (\<lambda>a. obj_get a ''metadataHash'')))"

text \<open>A receipt's logs; \<open>parse\<close> is ethers' \<open>parseLog\<close> with the contract's interface, giving the event's
  name and its first argument. \<open>readCreatedOrgId\<close> takes the first log that parses as the event.\<close>

fun created_org_id :: "('l \<Rightarrow> exn + (string \<times> int) option) \<Rightarrow> 'l list \<Rightarrow> int option" where
  "created_org_id parse [] = None"
| "created_org_id parse (l # ls) =
    (case parse l of
       Inr (Some (name, i)) \<Rightarrow> if name = ''OrganizationCreated'' then Some i else created_org_id parse ls
     | _ \<Rightarrow> created_org_id parse ls)"

definition no_org_event :: thrown where
  "no_org_event = plain_error ''The organisation was created but no OrganizationCreated event was found in the receipt, so its record could not be bound.''"

definition confirm_organisation_body :: "int \<Rightarrow> string \<Rightarrow> organisation_form \<Rightarrow> json" where
  "confirm_organisation_body org hash f =
    JObj ([(''orgId'', JNum org), (''txHash'', JStr hash)] @ organisation_fields f)"

definition organisation_recorded ::
  "('l \<Rightarrow> exn + (string \<times> int) option) \<Rightarrow> 'l list option \<Rightarrow> string \<Rightarrow> organisation_form \<Rightarrow> thrown + json" where
  "organisation_recorded parse logs hash f =
    (case Option.bind logs (created_org_id parse) of
       None \<Rightarrow> Inl no_org_event
     | Some i \<Rightarrow> Inr (confirm_organisation_body i hash f))"

subsection \<open>Minting a certificate\<close>

record mint_draft =
  md_name :: string
  md_asset_type :: string
  md_description :: string
  md_department :: string
  md_serial_number :: string
  md_invoice_reference :: string
  md_assigned_to :: string

definition EMPTY_DRAFT :: mint_draft where
  "EMPTY_DRAFT = \<lparr>md_name = [], md_asset_type = ''Laptop'', md_description = [], md_department = [],
     md_serial_number = [], md_invoice_reference = [], md_assigned_to = []\<rparr>"

record picked_file =
  pk_type :: string
  pk_size :: nat

definition image_error :: "picked_file option \<Rightarrow> string option" where
  "image_error file =
    (case file of None \<Rightarrow> None
     | Some f \<Rightarrow>
         if pk_type f \<notin> {''image/png'', ''image/jpeg'', ''image/webp''} then Some ''Choose a PNG, JPEG, or WebP image''
         else if pk_size f > 5 * 1024 * 1024 then Some ''Image files must be 5 MB or smaller'' else None)"

definition mint_ready :: "int option \<Rightarrow> picked_file option \<Rightarrow> mint_draft \<Rightarrow> bool" where
  "mint_ready org file d \<longleftrightarrow> text_valid (md_name d) \<and> wallet_valid (md_assigned_to d) \<and> image_error file = None \<and> org \<noteq> None"

definition mint_missing :: "picked_file option \<Rightarrow> mint_draft \<Rightarrow> string" where
  "mint_missing file d =
    (if \<not> text_valid (md_name d) then ''A name is needed.''
     else if \<not> wallet_valid (md_assigned_to d) then ''Choose who will hold the certificate.''
     else nullish (image_error file) ''Choose a valid photograph.'')"

definition mint_button :: "int option \<Rightarrow> picked_file option \<Rightarrow> 'r tx_state \<Rightarrow> mint_draft \<Rightarrow> form_button option" where
  "mint_button org file tx d =
    (if txs_stage tx = TX_idle \<or> txs_stage tx = TX_error
     then Some \<lparr>fb_label = retry_label tx ''Save record and mint'', fb_disabled = (\<not> mint_ready org file d), fb_loading = tx_busy tx\<rparr>
     else None)"

text \<open>\<open>prepare\<close>, with the URL of the uploaded photograph when there is one.\<close>

definition draft_body :: "int \<Rightarrow> string option \<Rightarrow> mint_draft \<Rightarrow> json" where
  "draft_body org image_url d =
    JObj ([(''orgId'', JNum org), (''name'', JStr (trim (md_name d))), (''assetType'', JStr (md_asset_type d))]
      @ optional_json ''description'' (md_description d) @ optional_json ''department'' (md_department d)
      @ (case image_url of None \<Rightarrow> [] | Some u \<Rightarrow> [(''imageUrl'', JStr u)])
      @ optional_json ''serialNumber'' (md_serial_number d) @ optional_json ''invoiceReference'' (md_invoice_reference d))"

definition mint_write :: "int \<Rightarrow> string \<Rightarrow> string \<Rightarrow> mint_draft \<Rightarrow> contract_write" where
  "mint_write org asset_hash metadata_uri d = SendMint org (trim (md_assigned_to d)) asset_hash metadata_uri"

text \<open>\<open>readMintedTokenId\<close>: logs of other contracts are passed over by their address.\<close>

fun minted_token_id ::
  "string \<Rightarrow> ('l \<Rightarrow> string option) \<Rightarrow> ('l \<Rightarrow> exn + (string \<times> int) option) \<Rightarrow> 'l list \<Rightarrow> int option" where
  "minted_token_id nft addr parse [] = None"
| "minted_token_id nft addr parse (l # ls) =
    (if nft \<noteq> [] \<and> truthy (addr l) \<and> to_lower (nullish (addr l) []) \<noteq> to_lower nft then minted_token_id nft addr parse ls
     else case parse l of
       Inr (Some (name, i)) \<Rightarrow> if name = ''AssetMinted'' then Some i else minted_token_id nft addr parse ls
     | _ \<Rightarrow> minted_token_id nft addr parse ls)"

definition no_mint_event :: thrown where
  "no_mint_event = plain_error ''The mint transaction succeeded but no AssetMinted event was found in the receipt, so the record was left unbound.''"

definition mint_recorded ::
  "string \<Rightarrow> ('l \<Rightarrow> string option) \<Rightarrow> ('l \<Rightarrow> exn + (string \<times> int) option) \<Rightarrow> 'l list option \<Rightarrow> string \<Rightarrow> thrown + json" where
  "mint_recorded nft addr parse logs hash =
    (case Option.bind logs (minted_token_id nft addr parse) of
       None \<Rightarrow> Inl no_mint_event
     | Some i \<Rightarrow> Inr (JObj [(''tokenId'', JNum i), (''txHash'', JStr hash)]))"

text \<open>The wallets offered as holders: members whose role has not lapsed.\<close>

definition holder_options :: "console_member list \<Rightarrow> console_member list" where
  "holder_options ms = filter (\<lambda>m. cm_role m \<noteq> NONE) ms"

subsection \<open>Gates before a screen\<close>

record console_session =
  cs_registered :: bool
  cs_active :: bool
  cs_memberships :: "(int \<times> role_name) list"
  cs_active_org :: "int option"

definition session_role :: "console_session option \<Rightarrow> role_name" where
  "session_role s =
    (case s of None \<Rightarrow> NONE
     | Some c \<Rightarrow> (case find (\<lambda>(i, r). Some i = cs_active_org c) (cs_memberships c) of None \<Rightarrow> NONE | Some (i, r) \<Rightarrow> r))"

datatype gate_panel = WrongNetworkGate | RevokedGate | NoOrganisationGate

definition console_gate :: "bool \<Rightarrow> console_session option \<Rightarrow> gate_panel option" where
  "console_gate wrong s =
    (case s of None \<Rightarrow> None
     | Some c \<Rightarrow>
         if wrong then Some WrongNetworkGate
         else if cs_registered c \<and> \<not> cs_active c then Some RevokedGate
         else if cs_active_org c = None then Some NoOrganisationGate else None)"

datatype shell_view = ShellLoading | ShellFailed | ShellSignedOut | ShellConsole role_name

definition console_shell :: "bool \<Rightarrow> console_session option \<Rightarrow> thrown option \<Rightarrow> shell_view" where
  "console_shell ready session error =
    (if \<not> ready then ShellLoading
     else case session of
       None \<Rightarrow> if error \<noteq> None then ShellFailed else ShellSignedOut
     | Some c \<Rightarrow> ShellConsole (session_role session))"

definition nav_active :: "string \<Rightarrow> string \<Rightarrow> bool" where
  "nav_active pathname href \<longleftrightarrow>
    (if href = ''/dashboard'' then pathname = href else pathname = href \<or> starts_with (href @ ''/'') pathname)"

datatype onboarding_path = PathChoose | PathIndividual | PathOrganisation

datatype onboarding_view =
    CheckingSession
  | SignInFirst
  | WrongNetwork
  | AlreadySetUp nat
  | CreateIdentity
  | SetUpOrganisation
  | ChoosePath bool

definition onboarding_shown :: "bool \<Rightarrow> console_session option \<Rightarrow> bool \<Rightarrow> onboarding_path \<Rightarrow> onboarding_view" where
  "onboarding_shown ready session wrong path =
    (if \<not> ready then CheckingSession
     else case session of
       None \<Rightarrow> SignInFirst
     | Some c \<Rightarrow>
         if wrong then WrongNetwork
         else if cs_registered c \<and> cs_memberships c \<noteq> [] then AlreadySetUp (length (cs_memberships c))
         else (case path of PathIndividual \<Rightarrow> CreateIdentity | PathOrganisation \<Rightarrow> SetUpOrganisation
                 | PathChoose \<Rightarrow> ChoosePath (cs_registered c)))"

end
