(* ===== verification/FlowProps.thy ===== *)
theory FlowProps
  imports ConsoleFlows ConsoleWrites OrgProps
begin

text \<open>
  The flows from the form to the chain and back: the write a form sends after its record was saved, what
  the identity registry does with it, and what the platform reads afterwards.
\<close>

subsection \<open>Writes on the identity registry\<close>

fun registry_call_of :: "abi \<Rightarrow> contract_write \<Rightarrow> exn + registry_call" where
  "registry_call_of A (SendRegisterIdentity h) = bind_res (abi_bytes32 A h) (\<lambda>hash. Inr (RegisterIdentity hash))"
| "registry_call_of A (SendUpdateIdentity h) = bind_res (abi_bytes32 A h) (\<lambda>hash. Inr (UpdateIdentityHash hash))"
| "registry_call_of A (SendCreateOrganization h) = bind_res (abi_bytes32 A h) (\<lambda>hash. Inr (CreateOrganization hash))"
| "registry_call_of A _ = Inl (JsError ''no matching fragment'')"

lemma codec_hash:
  assumes "codec_ok X A K"
  shows "abi_bytes32 A (x_keccak X s) = Inr (K s)" "x_keccak X s = abi_show_bytes32 A (K s)"
  using assms by (simp_all add: codec_ok_def)

lemma profile_put_answer:
  assumes "profile_put_run X (Some b) w = (Inr resp, w')"
  shows "\<exists>wallet identity. session_wallet w = Some wallet \<and> read_identity X w' wallet = Inr identity
    \<and> resp = ok_no_store (saved_profile_json wallet (hash_identity_record X (identity_record_of b)) identity)"
  using assms by (auto simp: profile_put_run_def io_iff Let_def res_iff split: option.splits sum.splits)

lemma saved_profile_write:
  "identity_write (saved_profile_json wallet h identity) =
    (if \<not> is_anchored identity h \<and> is_registered identity then SendUpdateIdentity h else SendRegisterIdentity h)"
  by (simp add: identity_write_def saved_profile_json_def anchor_step_def json_text_def)

lemma ok_no_store_inj: "ok_no_store j = ok_no_store j' \<longleftrightarrow> j = j'"
  by (simp add: ok_no_store_def)

text \<open>The text the identity hash is the digest of.\<close>

definition identity_text :: "json \<Rightarrow> string" where
  "identity_text b = IDENTITY_DOMAIN @ '':'' @ canonical_json (identity_payload (identity_record_of b))"

lemma identity_hash_text: "hash_identity_record X (identity_record_of b) = x_keccak X (identity_text b)"
  by (simp add: hash_identity_record_def domain_hash_def identity_text_def)

text \<open>C38. Saving and anchoring completes. After the profile was saved, the write the form picks from the
  answer anchors the record: the registry accepts it when the wallet has no identity or an active one with
  another hash, and then the identity is active and the platform reads it as anchored. The write is refused
  only when the identity was revoked, or when the record is anchored already.\<close>

theorem saved_identity_is_anchored:
  assumes put: "profile_put_run X (Some b) w = (Inr (ok_no_store j), w')" and session: "session_wallet w = Some wallet"
    and env: "server_env_of X (penv w') = Inr env" and chain: "chain_now w' = contract_chain A K r a now base"
    and c: "codec_ok X A K" and d: "roles_distinct K" and who: "abi_address A wallet = Inr who" and nz: "who \<noteq> 0"
    and K: "K (identity_text b) \<noteq> 0" and m: "msg_sender m = who"
  shows "\<exists>call. registry_call_of A (identity_write j) = Inr call \<and>
    (if verify_identity_hash r who (K (identity_text b)) then call_registry m call r = Inl (IdentityAlreadyExists who)
     else if is_registered_identity r who \<and> \<not> is_active_identity r who then call_registry m call r = Inl (IdentityNotActive who)
     else \<exists>r'. call_registry m call r = Inr r' \<and> is_active_identity r' who \<and> verify_identity_hash r' who (K (identity_text b))
       \<and> (\<forall>w2 base2. penv w2 = penv w' \<and> chain_now w2 = contract_chain A K r' a now base2 \<longrightarrow>
            (\<exists>i. read_identity X w2 wallet = Inr i \<and> is_active i \<and> is_anchored i (hash_identity_record X (identity_record_of b)))))"
proof -
  let ?h = "x_keccak X (identity_text b)" and ?k = "K (identity_text b)"
  have one: "uint256_arg 1 = Inr 1" by (simp add: uint256_arg_def)
  note reads = contract_reads(1)[OF _ _ c d who one]
  from profile_put_answer[OF put] session obtain identity where i: "read_identity X w' wallet = Inr identity"
    and j: "j = saved_profile_json wallet ?h identity"
    by (auto simp: ok_no_store_inj identity_hash_text)
  have low: "to_lower (abi_show_bytes32 A x) = abi_show_bytes32 A x" for x using c by (simp add: codec_ok_def)
  have anchored: "is_anchored i ?h \<longleftrightarrow> verify_identity_hash s who ?k"
    if "read_identity X v wallet = Inr i" "penv v = penv w'" "chain_now v = contract_chain A K s a now base'" for i v s base'
    using reads[of v env s a now base'] that env
    by (auto simp: is_anchored_def verify_identity_hash_def is_registered_identity_def codec_hash(2)[OF c] low show_bytes32_inj[OF c])
  have reg: "is_registered identity = is_registered_identity r who" using reads[OF env chain] i by auto
  have w: "identity_write j = (if \<not> verify_identity_hash r who ?k \<and> is_registered_identity r who then SendUpdateIdentity ?h
      else SendRegisterIdentity ?h)"
    by (simp add: j saved_profile_write anchored[OF i refl chain] reg)
  define call where "call = (if \<not> verify_identity_hash r who ?k \<and> is_registered_identity r who then UpdateIdentityHash ?k
      else RegisterIdentity ?k)"
  have enc: "registry_call_of A (identity_write j) = Inr call"
    by (simp add: w call_def codec_hash(1)[OF c])
  have accepted: "\<exists>r'. call_registry m call r = Inr r' \<and> is_active_identity r' who \<and> verify_identity_hash r' who ?k"
    if "\<not> verify_identity_hash r who ?k" "is_registered_identity r who \<longrightarrow> is_active_identity r who"
    using that K nz m
    by (auto simp: call_def registry_operations registry_views verify_identity_hash_def revert_if_def Let_def)
  have seen: "\<exists>i. read_identity X w2 wallet = Inr i \<and> is_active i \<and> is_anchored i (hash_identity_record X (identity_record_of b))"
    if "is_active_identity r' who" "verify_identity_hash r' who ?k" "penv w2 = penv w'" "chain_now w2 = contract_chain A K r' a now base2"
    for r' w2 base2
    using reads[of w2 env r' a now base2] anchored[of w2 _ r' base2] that env by (auto simp: identity_hash_text)
  show ?thesis
  proof (intro exI[of _ call] conjI enc)
    show "if verify_identity_hash r who ?k then call_registry m call r = Inl (IdentityAlreadyExists who)
      else if is_registered_identity r who \<and> \<not> is_active_identity r who then call_registry m call r = Inl (IdentityNotActive who)
      else \<exists>r'. call_registry m call r = Inr r' \<and> is_active_identity r' who \<and> verify_identity_hash r' who ?k
        \<and> (\<forall>w2 base2. penv w2 = penv w' \<and> chain_now w2 = contract_chain A K r' a now base2 \<longrightarrow>
             (\<exists>i. read_identity X w2 wallet = Inr i \<and> is_active i \<and> is_anchored i (hash_identity_record X (identity_record_of b))))"
    proof (cases "verify_identity_hash r who ?k")
      case True
      then show ?thesis
        using K nz m by (simp add: call_def registry_operations verify_identity_hash_def revert_if_def)
    next
      case False
      then show ?thesis
        using accepted seen K nz m
        by (cases "is_registered_identity r who \<and> \<not> is_active_identity r who")
           (auto simp: call_def update_identity_hash_def require_active_wallet_def registry_views revert_if_def Let_def)
    qed
  qed
qed

text \<open>A registered member edits its profile and anchors the new record.\<close>

definition demo_member_world :: "registry \<Rightarrow> access_manager \<Rightarrow> world" where
  "demo_member_world r a = (demo_contract_world r a 200)
    \<lparr>cookie := \<lparr>sd_wallet = Some ''0x22'', sd_chain_id = Some 7, sd_issued_at = Some 150\<rparr>\<rparr>"

lemma demo_member_world_simps [simp]:
  "penv (demo_member_world r a) = demo_env" "db_fault (demo_member_world r a) = (\<lambda>_. None)"
  "chain_now (demo_member_world r a) = contract_chain demo_abi demo_hash r a 200 demo_chain"
  "session_wallet (demo_member_world r a) = Some ''0x22''"
  by (simp_all add: demo_member_world_def demo_contract_world_def demo_world_def session_wallet_def SESSION_TTL_SECONDS_def)

lemma demo_member_put:
  "\<exists>j w'. profile_put_run demo_hash_ext (Some demo_profile_body) (demo_member_world r a) = (Inr (ok_no_store j), w')
     \<and> penv w' = demo_env \<and> chain_now w' = contract_chain demo_abi demo_hash r a 200 demo_chain"
proof -
  let ?w = "demo_member_world r a"
  have caller: "require_caller ?w = (Inr ''0x22'', ?w)" by (simp add: require_caller_iff)
  have issues: "profile_issues demo_hash_ext demo_profile_body = []"
    by (simp add: profile_issues_def demo_profile_fields text_field_def optional_field_def regex_field_def)
       (simp add: demo_hash_ext_def demo_ext_def)
  have g: "x_gcm_encrypt demo_hash_ext = (\<lambda>k iv p. (p, iv))" by (simp add: demo_hash_ext_def demo_ext_def)
  obtain email w1 where e: "encrypt_pii demo_hash_ext (Some ''ann@acme'') ?w = (Inr email, w1)"
    by (simp add: g encrypt_pii_def seq_def draw_def asks_def pii_key_def demo_hash_env ret_def Let_def)
  from encrypt_pii_world[OF e] obtain k where w1: "w1 = ?w\<lparr>draws := k\<rparr>" by blast
  have c: "contracts demo_hash_ext (?w\<lparr>draws := k\<rparr>) = Inr (contract_chain demo_abi demo_hash r a 200 demo_chain)"
    by (simp add: contracts_def demo_hash_env)
  show ?thesis
    by (simp add: profile_put_run_def seq_def caller read_json_def ret_def lift_res_def zod_def issues demo_profile_fields
          optional_text_def e w1 server_env_io_def demo_hash_env save_profile_def db_stmt_def gets_def asks_def read_identity_def c
          Let_def contract_chain_def demo_arguments ok_no_store_inj)
qed

theorem saved_identity_is_anchored_witness:
  "\<exists>r a j w' call r'. demo_deployment = Inr (r, a)
     \<and> profile_put_run demo_hash_ext (Some demo_profile_body) (demo_member_world r a) = (Inr (ok_no_store j), w')
     \<and> registry_call_of demo_abi (identity_write j) = Inr call \<and> call_registry (sent 22 300) call r = Inr r'
     \<and> verify_identity_hash r' 22 (demo_hash (identity_text demo_profile_body))"
proof -
  obtain r a where s: "demo_deployment = Inr (r, a)" and dep: "deployed demo_hash (r, a)" by (rule demo_state)
  have k: "demo_hash (identity_text demo_profile_body) = 11" by code_simp
  have "case demo_deployment of Inr (r, a) \<Rightarrow> \<not> verify_identity_hash r 22 11 \<and> is_active_identity r 22 | Inl _ \<Rightarrow> False" by code_simp
  from demo_check[OF s this] have st: "\<not> verify_identity_hash r 22 11" "is_active_identity r 22" by simp_all
  obtain j w' where put: "profile_put_run demo_hash_ext (Some demo_profile_body) (demo_member_world r a) = (Inr (ok_no_store j), w')"
    and w': "penv w' = demo_env" "chain_now w' = contract_chain demo_abi demo_hash r a 200 demo_chain"
    using demo_member_put by blast
  have env: "server_env_of demo_hash_ext (penv w') = Inr demo_server_env" by (simp add: w' demo_hash_env)
  have m: "msg_sender (sent 22 300) = 22" by (simp add: sent_def)
  from saved_identity_is_anchored[OF put demo_member_world_simps(4) env w'(2) demo_codec demo_hash_roles demo_arguments(1) _ _ m]
    k st obtain call r' where "registry_call_of demo_abi (identity_write j) = Inr call"
      "call_registry (sent 22 300) call r = Inr r'" "verify_identity_hash r' 22 (demo_hash (identity_text demo_profile_body))"
    by (auto split: if_splits)
  with s put show ?thesis by blast
qed

subsection \<open>Setting up an organization\<close>

lemma created_org_id_first:
  assumes "\<forall>l \<in> set pre. \<forall>i. parse l \<noteq> Inr (Some (''OrganizationCreated'', i))"
    and "parse own = Inr (Some (''OrganizationCreated'', k))"
  shows "created_org_id parse (pre @ own # post) = Some k"
  using assms by (induction pre) (auto split: sum.splits option.splits)

text \<open>The receipt's logs are not filtered by their address: an event of another contract that parses is
  taken for the registry's. The confirmation then names a foreign organization and the server refuses it.\<close>

lemma foreign_event_names_the_organisation:
  assumes "parse foreign = Inr (Some (''OrganizationCreated'', k))"
  shows "created_org_id parse (foreign # own # post) = Some k"
  using assms by simp

lemma minted_token_id_passes_over_others:
  assumes "nft \<noteq> []" and "\<forall>l \<in> set pre. truthy (addr l) \<and> to_lower (nullish (addr l) []) \<noteq> to_lower nft"
  shows "minted_token_id nft addr parse (pre @ ls) = minted_token_id nft addr parse ls"
  using assms by (induction pre) auto

lemma confirm_body_get:
  "obj_get (confirm_organisation_body i h f) ''orgId'' = Some (JNum i)"
  "obj_get (confirm_organisation_body i h f) ''txHash'' = Some (JStr h)"
  "is_object (confirm_organisation_body i h f)" "is_object (prepare_body f)"
  "obj_get (confirm_organisation_body i h f) ''name'' = obj_get (prepare_body f) ''name''"
  "obj_get (confirm_organisation_body i h f) ''industry'' = obj_get (prepare_body f) ''industry''"
  "obj_get (confirm_organisation_body i h f) ''website'' = obj_get (prepare_body f) ''website''"
  "obj_get (confirm_organisation_body i h f) ''description'' = obj_get (prepare_body f) ''description''"
  by (simp_all add: confirm_organisation_body_def prepare_body_def organisation_fields_def optional_json_def is_object_def)

lemma confirm_body_record: "organization_record_of (confirm_organisation_body i h f) = organization_record_of (prepare_body f)"
  by (simp add: organization_record_of_def confirm_body_get)

lemma confirm_body_issues:
  assumes "prepare_issues X (prepare_body f) = []" and "0 < i" and "is_hex_string 64 h"
  shows "org_confirm_issues X (confirm_organisation_body i h f) = []"
  using assms
  by (simp add: org_confirm_issues_def prepare_issues_def organization_issues_def confirm_body_get positive_field_def regex_field_def)

lemma organization_prepare_answer:
  assumes "organization_prepare_run X (Some b) w = (Inr resp, w')"
  shows "prepare_issues X b = [] \<and> (\<exists>caller. resp = ok_no_store (prepared_json (hash_organization_record X (organization_record_of b)) caller))"
  using assms by (auto simp: organization_prepare_run_def io_iff res_iff zod_def split: if_splits)

lemma prepared_organisation_write: "organisation_write (prepared_json h caller) = SendCreateOrganization h"
  by (simp add: organisation_write_def prepared_json_def json_text_def)

text \<open>What the mined creation leaves behind.\<close>

lemma organization_created:
  assumes "create_organization m hash r = Inr (org, r')" and "registry_ok r"
  shows "org \<noteq> 0" and "msg_sender m \<noteq> 0" and "is_active_identity r' (msg_sender m)"
    and "org_root_admin r' org = msg_sender m" and "orgn_metadata_hash (rg_organizations r' org) = hash"
proof -
  have "rg_count r + 1 \<noteq> 0" if "rg_count r \<noteq> - 1" using that by (metis add.right_cancel add.left_inverse)
  then show "org \<noteq> 0" using assms(1) by (auto simp: create_organization_def call_iff Let_def require_active_wallet_def)
  show "msg_sender m \<noteq> 0" "is_active_identity r' (msg_sender m)" "org_root_admin r' org = msg_sender m"
    "orgn_metadata_hash (rg_organizations r' org) = hash"
    using assms by (auto simp: create_organization_def call_iff Let_def require_active_wallet_def emit_registry_def
        registry_ok_def registry_views)
qed


definition demo_org_form :: organisation_form where
  "demo_org_form = (open_organisation_form None)\<lparr>of_name := ''Acme''\<rparr>"

definition demo_tx_hash :: string where
  "demo_tx_hash = ''0x'' @ replicate 64 CHR ''a''"

lemma demo_org_prepare:
  assumes "is_active_identity r 22"
  shows "\<exists>w1. organization_prepare_run demo_hash_ext (Some (prepare_body demo_org_form)) (demo_member_world r a)
    = (Inr (ok_no_store (prepared_json (hash_organization_record demo_hash_ext (organization_record_of (prepare_body demo_org_form))) ''0x22'')), w1)"
proof -
  let ?w = "demo_member_world r a"
  have env: "server_env_of demo_hash_ext (penv ?w) = Inr demo_server_env" by (simp add: demo_hash_env)
  note reads = contract_reads(1)[OF env demo_member_world_simps(3) demo_codec demo_hash_roles demo_arguments(1,3)]
  have "require_active_identity demo_hash_ext ?w = (Inr ''0x22'', ?w)"
    using reads assms by (simp add: require_active_identity_iff) (simp add: is_active_identity_def is_registered_identity_def)
  moreover have "prepare_issues demo_hash_ext (prepare_body demo_org_form) = []"
    by (simp add: prepare_issues_def organization_issues_def prepare_body_def organisation_fields_def optional_json_def demo_org_form_def
        open_organisation_form_def is_object_def text_field_def optional_field_def trim_no_space is_space_def code_unit_def)
  ultimately show ?thesis
    by (simp add: organization_prepare_run_def seq_def read_json_def ret_def lift_res_def zod_def)
qed


end
