(* ===== verification/AuditTrail.thy ===== *)
theory AuditTrail
  imports AuditRoutes ConsoleForms
begin

text \<open>
  \<open>components/console/audit/audit-trail.tsx\<close> over \<open>api/audit\<close>: the filters, the first page, and the older
  pages fetched one after the other and appended. The screen is a state machine whose events are the
  reader's and the server's; an answer is computed from the cache as it is when the answer arrives.
\<close>

subsection \<open>Filters\<close>

definition ALL_FILTER :: string where "ALL_FILTER = ''__all__''"

record trail_filters =
  tf_contract :: string
  tf_event :: string
  tf_wallet :: string
  tf_token :: string

definition cleared_filters :: trail_filters where
  "cleared_filters = \<lparr>tf_contract = ALL_FILTER, tf_event = ALL_FILTER, tf_wallet = [], tf_token = []\<rparr>"

definition wallet_input_valid :: "string \<Rightarrow> bool" where
  "wallet_input_valid s \<longleftrightarrow> s = [] \<or> is_address (trim s)"

definition wallet_filter :: "string \<Rightarrow> string option" where
  "wallet_filter s = (if wallet_input_valid s \<and> s \<noteq> [] then Some (trim s) else None)"

text \<open>\<open>Number(tokenInput)\<close>: \<open>None\<close> for a fraction or no number.\<close>

definition token_input_valid :: "ext \<Rightarrow> string \<Rightarrow> bool" where
  "token_input_valid X s \<longleftrightarrow> s = [] \<or> (case x_number X s of None \<Rightarrow> False | Some i \<Rightarrow> 0 < i)"

definition token_filter :: "ext \<Rightarrow> string \<Rightarrow> int option" where
  "token_filter X s = (if token_input_valid X s \<and> s \<noteq> [] then x_number X s else None)"

text \<open>Choosing a contract forgets the event.\<close>

definition contract_chosen :: "string \<Rightarrow> trail_filters \<Rightarrow> trail_filters" where
  "contract_chosen c f = f\<lparr>tf_contract := c, tf_event := ALL_FILTER\<rparr>"

definition PAGE_SIZE :: nat where "PAGE_SIZE = 25"

definition trail_params :: "ext \<Rightarrow> int \<Rightarrow> trail_filters \<Rightarrow> audit_params" where
  "trail_params X org f =
    \<lparr>aps_org_id = org, aps_event = (if tf_event f = ALL_FILTER then None else Some (tf_event f)),
     aps_wallet = wallet_filter (tf_wallet f), aps_token_id = token_filter X (tf_token f),
     aps_contract = (if tf_contract f = ALL_FILTER then None else Some (tf_contract f)),
     aps_limit = Some (int PAGE_SIZE), aps_cursor = None\<rparr>"

definition filters_applied :: "ext \<Rightarrow> trail_filters \<Rightarrow> bool" where
  "filters_applied X f \<longleftrightarrow> tf_contract f \<noteq> ALL_FILTER \<or> tf_event f \<noteq> ALL_FILTER
     \<or> truthy (wallet_filter (tf_wallet f)) \<or> token_filter X (tf_token f) \<noteq> None"

subsection \<open>What the server answers\<close>

text \<open>\<open>Object.fromEntries(url.searchParams.entries())\<close>, the query string read back.\<close>

definition served_query :: "(string \<times> string) list \<Rightarrow> audit_query" where
  "served_query es =
    \<lparr>aq_org = map_of es ''orgId'', aq_event = map_of es ''event'', aq_wallet = map_of es ''wallet'',
     aq_token = map_of es ''tokenId'', aq_contract = map_of es ''contract'', aq_limit = map_of es ''limit'',
     aq_cursor = map_of es ''cursor''\<rparr>"

definition served_page :: "ext \<Rightarrow> audit_row list \<Rightarrow> audit_params \<Rightarrow> audit_page" where
  "served_page X rows p =
    (let q = served_query (audit_entries p) in page_of (page_limit X q) (audit_rows X q rows))"

text \<open>The whole matching history, newest first.\<close>

definition history :: "ext \<Rightarrow> audit_row list \<Rightarrow> audit_params \<Rightarrow> audit_row list" where
  "history X rows p = newest_first (filter (audit_matches X (served_query (audit_entries p))) rows)"

subsection \<open>The screen\<close>

text \<open>The older pages are kept with the filters that produced them.\<close>

record trail =
  tr_filters :: trail_filters
  tr_first :: "audit_page option"
  tr_older :: "(audit_params \<times> audit_page) option"
  tr_loading :: "(audit_params \<times> int) option"

definition opened_trail :: trail where
  "opened_trail = \<lparr>tr_filters = cleared_filters, tr_first = None, tr_older = None, tr_loading = None\<rparr>"

definition appended :: "audit_params \<Rightarrow> trail \<Rightarrow> audit_page option" where
  "appended key s = (case tr_older s of None \<Rightarrow> None | Some (k, p) \<Rightarrow> if k = key then Some p else None)"

text \<open>The entries on the screen; while the first page loads there are none.\<close>

definition trail_shown :: "audit_params \<Rightarrow> trail \<Rightarrow> audit_row list" where
  "trail_shown key s =
    (case tr_first s of None \<Rightarrow> []
     | Some p \<Rightarrow> pg_rows p @ (case appended key s of None \<Rightarrow> [] | Some a \<Rightarrow> pg_rows a))"

definition trail_page :: "audit_params \<Rightarrow> trail \<Rightarrow> audit_page option" where
  "trail_page key s =
    (case tr_first s of None \<Rightarrow> None | Some p \<Rightarrow> Some (case appended key s of None \<Rightarrow> p | Some a \<Rightarrow> a))"

definition trail_has_more :: "audit_params \<Rightarrow> trail \<Rightarrow> bool" where
  "trail_has_more key s \<longleftrightarrow> (case trail_page key s of None \<Rightarrow> False | Some p \<Rightarrow> pg_has_more p)"

definition trail_cursor :: "audit_params \<Rightarrow> trail \<Rightarrow> int option" where
  "trail_cursor key s = (case trail_page key s of None \<Rightarrow> None | Some p \<Rightarrow> pg_next_cursor p)"

datatype trail_event =
    FiltersChanged trail_filters
  | FirstArrived
  | OlderRequested
  | OlderArrived
  | OlderFailed
  | SyncReturned

text \<open>\<open>setOlder\<close> with the page that arrived: appended to the pages of the same filters.\<close>

definition older_appended :: "audit_params \<Rightarrow> audit_page \<Rightarrow> trail \<Rightarrow> audit_page" where
  "older_appended key p s =
    p\<lparr>pg_rows := (case appended key s of None \<Rightarrow> [] | Some a \<Rightarrow> pg_rows a) @ pg_rows p\<rparr>"

fun trail_step :: "ext \<Rightarrow> int \<Rightarrow> audit_row list \<Rightarrow> trail_event \<Rightarrow> trail \<Rightarrow> trail option" where
  "trail_step X org rows (FiltersChanged f) s =
    Some (s\<lparr>tr_filters := f,
            tr_first := (if trail_params X org f = trail_params X org (tr_filters s) then tr_first s else None)\<rparr>)"
| "trail_step X org rows FirstArrived s =
    Some (s\<lparr>tr_first := Some (served_page X rows (trail_params X org (tr_filters s)))\<rparr>)"
| "trail_step X org rows OlderRequested s =
    (let key = trail_params X org (tr_filters s) in
     if tr_loading s \<noteq> None \<or> trail_shown key s = [] \<or> \<not> trail_has_more key s then None
     else case trail_cursor key s of None \<Rightarrow> None | Some c \<Rightarrow> Some (s\<lparr>tr_loading := Some (key, c)\<rparr>))"
| "trail_step X org rows OlderArrived s =
    (case tr_loading s of None \<Rightarrow> None
     | Some (key, c) \<Rightarrow>
         Some (s\<lparr>tr_older := Some (key, older_appended key (served_page X rows (key\<lparr>aps_cursor := Some c\<rparr>)) s),
                 tr_loading := None\<rparr>))"
| "trail_step X org rows OlderFailed s = (if tr_loading s = None then None else Some (s\<lparr>tr_loading := None\<rparr>))"
| "trail_step X org rows SyncReturned s = Some (s\<lparr>tr_older := None\<rparr>)"

text \<open>The states the screen reaches over one cache, as long as no sync returns while older entries load.\<close>

inductive trail_reach :: "ext \<Rightarrow> int \<Rightarrow> audit_row list \<Rightarrow> trail \<Rightarrow> bool" for X org rows where
  opened: "trail_reach X org rows opened_trail"
| stepped: "trail_reach X org rows s \<Longrightarrow> trail_step X org rows e s = Some s'
    \<Longrightarrow> e = SyncReturned \<longrightarrow> tr_loading s = None \<Longrightarrow> trail_reach X org rows s'"

subsection \<open>Lists read page by page\<close>

text \<open>No page boundary falls between two entries of one block.\<close>

definition pages_whole :: "audit_row list \<Rightarrow> bool" where
  "pages_whole H \<longleftrightarrow>
    (\<forall>m. 0 < m \<and> m * PAGE_SIZE < length H \<longrightarrow> au_block (H ! (m * PAGE_SIZE)) < au_block (H ! (m * PAGE_SIZE - 1)))"

lemma distinct_blocks_pages_whole:
  assumes "distinct (map au_block H)" and "sorted_wrt (\<lambda>r s. au_block s \<le> au_block r) H"
  shows "pages_whole H"
  unfolding pages_whole_def
proof (intro allI impI)
  fix m assume m: "0 < m \<and> m * PAGE_SIZE < length H"
  let ?k = "m * PAGE_SIZE"
  have k: "?k - 1 < ?k" using m by (simp add: PAGE_SIZE_def)
  then have "au_block (H ! ?k) \<le> au_block (H ! (?k - 1))" using assms(2) m by (simp add: sorted_wrt_iff_nth_less)
  moreover have "au_block (H ! ?k) \<noteq> au_block (H ! (?k - 1))"
    using assms(1) m k nth_eq_iff_index_eq[of "map au_block H" ?k "?k - 1"] by auto
  ultimately show "au_block (H ! ?k) < au_block (H ! (?k - 1))" by simp
qed

lemma older_than_entry:
  assumes s: "sorted_wrt (\<lambda>r s. au_block s \<le> au_block r) H" and k: "0 < k" "k < length H"
    and c: "au_block (H ! k) < au_block (H ! (k - 1))"
  shows "filter (\<lambda>r. au_block r < au_block (H ! (k - 1))) H = drop k H"
proof -
  have "\<not> au_block r < au_block (H ! (k - 1))" if r: "r \<in> set (take k H)" for r
  proof -
    from r k obtain i where i: "i < k" "r = H ! i" by (auto simp: in_set_conv_nth)
    show ?thesis
    proof (cases "i = k - 1")
      case False
      then have "i < k - 1" using i by simp
      then have "au_block (H ! (k - 1)) \<le> au_block (H ! i)" using s k by (simp add: sorted_wrt_iff_nth_less)
      then show ?thesis using i by simp
    qed (use i in simp)
  qed
  moreover have "au_block r < au_block (H ! (k - 1))" if r: "r \<in> set (drop k H)" for r
  proof -
    from r obtain i where "i < length (drop k H)" "drop k H ! i = r" by (meson in_set_conv_nth)
    then have i: "k + i < length H" "r = H ! (k + i)" by (auto simp: less_diff_conv add.commute)
    then have "au_block (H ! (k + i)) \<le> au_block (H ! k)"
      using s by (cases "i = 0") (simp_all add: sorted_wrt_iff_nth_less)
    then show ?thesis using c i by simp
  qed
  ultimately have "filter (\<lambda>r. au_block r < au_block (H ! (k - 1))) (take k H) = []"
    "filter (\<lambda>r. au_block r < au_block (H ! (k - 1))) (drop k H) = drop k H"
    by (auto simp: filter_empty_conv intro!: filter_True)
  then show ?thesis by (metis append_Nil append_take_drop_id filter_append)
qed

lemma newest_first_filter: "newest_first (filter P (filter Q rows)) = filter P (newest_first (filter Q rows))"
  by (simp add: newest_first_def filter_sort[symmetric] rev_filter)

subsection \<open>One page of the history\<close>

lemma audit_entries_cursor:
  "aps_cursor p = None \<Longrightarrow> audit_entries (p\<lparr>aps_cursor := Some c\<rparr>) = audit_entries p @ [(''cursor'', show_int c)]"
  by (simp add: audit_entries_def number_entry_def)

lemma no_cursor_entry: "aps_cursor p = None \<Longrightarrow> map_of (audit_entries p) ''cursor'' = None"
  by (auto simp: audit_entries_def text_entry_def number_entry_def map_of_eq_None_iff split: option.splits if_splits)

lemma served_query_cursor:
  assumes "aps_cursor p = None"
  shows "served_query (audit_entries (p\<lparr>aps_cursor := Some c\<rparr>)) = (served_query (audit_entries p))\<lparr>aq_cursor := Some (show_int c)\<rparr>"
    and "aq_cursor (served_query (audit_entries p)) = None"
  by (simp_all add: served_query_def audit_entries_cursor[OF assms] no_cursor_entry[OF assms] map_add_def split: option.split)

lemma served_limit:
  assumes "number_reads_decimals X" and "aps_limit p = Some (int PAGE_SIZE)"
  shows "page_limit X (served_query (audit_entries p)) = PAGE_SIZE"
proof -
  have "map_of (audit_entries p) ''limit'' = Some (show_int (int PAGE_SIZE))"
    by (auto simp: audit_entries_def text_entry_def number_entry_def assms(2) map_add_def split: option.splits)
  then show ?thesis
    using assms(1) by (simp add: page_limit_def served_query_def coerced_option_def number_reads_decimals_def)
qed

lemma matches_cursor:
  assumes "number_reads_decimals X" and "aq_cursor q = None"
  shows "audit_matches X (q\<lparr>aq_cursor := Some (show_int c)\<rparr>) = (\<lambda>r. audit_matches X q r \<and> au_block r < c)"
  using assms by (auto simp: fun_eq_iff audit_matches_def coerced_option_def number_reads_decimals_def)

lemma history_sorted: "sorted_wrt (\<lambda>r s. au_block s \<le> au_block r) (history X rows p)"
  by (simp add: history_def newest_first_sorted)

lemma history_older:
  assumes X: "number_reads_decimals X" and p: "aps_cursor p = None" and w: "pages_whole (history X rows p)"
    and m: "0 < m" "m * PAGE_SIZE < length (history X rows p)"
  shows "history X rows (p\<lparr>aps_cursor := Some (au_block (history X rows p ! (m * PAGE_SIZE - 1)))\<rparr>)
    = drop (m * PAGE_SIZE) (history X rows p)"
proof -
  let ?H = "history X rows p" and ?k = "m * PAGE_SIZE"
  let ?c = "au_block (?H ! (?k - 1))" and ?q = "served_query (audit_entries p)"
  have "history X rows (p\<lparr>aps_cursor := Some ?c\<rparr>) = newest_first (filter (\<lambda>r. au_block r < ?c \<and> audit_matches X ?q r) rows)"
    by (simp add: history_def served_query_cursor(1)[OF p] matches_cursor[OF X served_query_cursor(2)[OF p]] conj_commute)
  also have "\<dots> = filter (\<lambda>r. au_block r < ?c) ?H"
    using newest_first_filter[of "\<lambda>r. au_block r < ?c" "audit_matches X ?q" rows] by (simp add: history_def conj_commute)
  also have "\<dots> = drop ?k ?H"
    using older_than_entry[OF history_sorted, of ?k X rows p] w m by (simp add: pages_whole_def PAGE_SIZE_def)
  finally show ?thesis .
qed

text \<open>A page that ends after the \<open>m\<close>-th \<open>PAGE_SIZE\<close> entries of the history says whether more follow, and from where.\<close>

definition page_at :: "audit_row list \<Rightarrow> nat \<Rightarrow> audit_page \<Rightarrow> bool" where
  "page_at H m p \<longleftrightarrow>
     (pg_has_more p \<longleftrightarrow> m * PAGE_SIZE < length H)
     \<and> pg_next_cursor p = (if m * PAGE_SIZE < length H then Some (au_block (H ! (m * PAGE_SIZE - 1))) else None)"

lemma page_of_taken:
  assumes "PAGE_SIZE = limit"
  shows "pg_rows (page_of limit (take (Suc limit) L)) = take limit L"
    and "pg_has_more (page_of limit (take (Suc limit) L)) \<longleftrightarrow> limit < length L"
    and "pg_next_cursor (page_of limit (take (Suc limit) L)) = (if limit < length L then Some (au_block (L ! (limit - 1))) else None)"
  using assms by (auto simp: page_of_def Let_def min_def PAGE_SIZE_def)

lemma served_first:
  assumes X: "number_reads_decimals X" and p: "aps_limit p = Some (int PAGE_SIZE)"
  shows "pg_rows (served_page X rows p) = take PAGE_SIZE (history X rows p)" and "page_at (history X rows p) 1 (served_page X rows p)"
  by (simp_all add: served_page_def Let_def served_limit[OF X p] audit_rows_def page_of_taken page_at_def
      history_def[symmetric])

lemma served_older:
  assumes X: "number_reads_decimals X" and p: "aps_limit p = Some (int PAGE_SIZE)" "aps_cursor p = None"
    and w: "pages_whole (history X rows p)" and m: "0 < m" "m * PAGE_SIZE < length (history X rows p)"
    and c: "c = au_block (history X rows p ! (m * PAGE_SIZE - 1))"
  shows "pg_rows (served_page X rows (p\<lparr>aps_cursor := Some c\<rparr>)) = take PAGE_SIZE (drop (m * PAGE_SIZE) (history X rows p))"
    and "page_at (history X rows p) (Suc m) (served_page X rows (p\<lparr>aps_cursor := Some c\<rparr>))"
proof -
  let ?H = "history X rows p" and ?p = "p\<lparr>aps_cursor := Some c\<rparr>"
  have l: "aps_limit ?p = Some (int PAGE_SIZE)" using p by simp
  have h: "history X rows ?p = drop (m * PAGE_SIZE) ?H" unfolding c by (rule history_older[OF X p(2) w m])
  have i: "m * PAGE_SIZE + (PAGE_SIZE - Suc 0) = PAGE_SIZE + m * PAGE_SIZE - Suc 0"
    by (simp add: PAGE_SIZE_def)
  show "pg_rows (served_page X rows ?p) = take PAGE_SIZE (drop (m * PAGE_SIZE) ?H)"
    using served_first(1)[OF X l] by (simp add: h)
  show "page_at ?H (Suc m) (served_page X rows ?p)"
    using served_first(2)[OF X l, of rows] m by (auto simp: page_at_def h i split: if_splits)
qed

subsection \<open>The invariant of the screen\<close>

definition older_upto :: "audit_row list \<Rightarrow> nat \<Rightarrow> audit_page \<Rightarrow> bool" where
  "older_upto H m a \<longleftrightarrow> 0 < m \<and> pg_rows a = drop PAGE_SIZE (take (m * PAGE_SIZE) H) \<and> page_at H m a"

definition older_state :: "audit_row list \<Rightarrow> nat \<Rightarrow> audit_page option \<Rightarrow> bool" where
  "older_state H m a \<longleftrightarrow> (case a of None \<Rightarrow> m = 1 | Some a \<Rightarrow> older_upto H m a)"

definition trail_ok :: "ext \<Rightarrow> int \<Rightarrow> audit_row list \<Rightarrow> trail \<Rightarrow> bool" where
  "trail_ok X org rows s \<longleftrightarrow>
     (\<forall>p. tr_first s = Some p \<longrightarrow> p = served_page X rows (trail_params X org (tr_filters s)))
     \<and> (\<forall>k. \<exists>m. older_state (history X rows k) m (appended k s))
     \<and> (\<forall>k c. tr_loading s = Some (k, c) \<longrightarrow> (\<exists>f. k = trail_params X org f)
          \<and> (\<exists>m. older_state (history X rows k) m (appended k s) \<and> m * PAGE_SIZE < length (history X rows k)
                 \<and> c = au_block (history X rows k ! (m * PAGE_SIZE - 1))))"

lemma trail_params_page [simp]:
  "aps_limit (trail_params X org f) = Some (int PAGE_SIZE)" "aps_cursor (trail_params X org f) = None"
  by (simp_all add: trail_params_def)

lemma older_state_pos: "older_state H m a \<Longrightarrow> 0 < m"
  by (auto simp: older_state_def older_upto_def split: option.splits)

lemma appended_iff: "appended k s = Some a \<longleftrightarrow> tr_older s = Some (k, a)"
  by (auto simp: appended_def split: option.splits)

lemma appended_cong [simp]:
  "appended k (s\<lparr>tr_filters := f\<rparr>) = appended k s" "appended k (s\<lparr>tr_first := p\<rparr>) = appended k s"
  "appended k (s\<lparr>tr_loading := l\<rparr>) = appended k s" "appended k (s\<lparr>tr_older := None\<rparr>) = None"
  "appended k (s\<lparr>tr_older := Some (j, a)\<rparr>) = (if j = k then Some a else None)"
  by (simp_all add: appended_def)

lemma no_older [simp]: "older_state H m None \<longleftrightarrow> m = 1"
  by (simp add: older_state_def)

lemma shown_page_at:
  assumes X: "number_reads_decimals X" and ok: "trail_ok X org rows s" and p: "trail_page key s = Some p"
    and key: "key = trail_params X org (tr_filters s)"
  shows "\<exists>m. older_state (history X rows key) m (appended key s) \<and> page_at (history X rows key) m p
    \<and> trail_shown key s = take (m * PAGE_SIZE) (history X rows key)"
proof -
  let ?H = "history X rows key"
  obtain m where m: "older_state ?H m (appended key s)" using ok unfolding trail_ok_def by blast
  obtain f where f1: "tr_first s = Some f" using p by (auto simp: trail_page_def split: option.splits)
  have f: "tr_first s = Some f" "f = served_page X rows key" using f1 ok key unfolding trail_ok_def by blast+
  have first: "pg_rows f = take PAGE_SIZE ?H" "page_at ?H 1 f"
    unfolding f(2) by (rule served_first[OF X]; simp add: key)+
  show ?thesis
  proof (cases "appended key s")
    case None
    with p f first m show ?thesis by (auto simp: trail_page_def trail_shown_def)
  next
    case (Some a)
    with m have a: "older_upto ?H m a" by (simp add: older_state_def)
    then have "0 < m" and rows: "pg_rows a = drop PAGE_SIZE (take (m * PAGE_SIZE) ?H)"
      by (simp_all add: older_upto_def)
    then have t: "take PAGE_SIZE ?H = take PAGE_SIZE (take (m * PAGE_SIZE) ?H)" by (simp add: min_def)
    have "pg_rows f @ pg_rows a = take (m * PAGE_SIZE) ?H"
      unfolding first(1) rows by (subst t) (rule append_take_drop_id)
    with f1 Some have "trail_shown key s = take (m * PAGE_SIZE) ?H" by (simp add: trail_shown_def)
    moreover have "p = a" using p f1 Some by (simp add: trail_page_def)
    ultimately show ?thesis using m a by (auto simp: older_upto_def)
  qed
qed

lemma older_arrived_ok:
  assumes X: "number_reads_decimals X" and p: "aps_limit k = Some (int PAGE_SIZE)" "aps_cursor k = None"
    and w: "pages_whole (history X rows k)" and m: "older_state (history X rows k) m (appended k s)"
    and l: "m * PAGE_SIZE < length (history X rows k)" and c: "c = au_block (history X rows k ! (m * PAGE_SIZE - 1))"
  shows "older_upto (history X rows k) (Suc m) (older_appended k (served_page X rows (k\<lparr>aps_cursor := Some c\<rparr>)) s)"
proof -
  let ?H = "history X rows k"
  have pos: "0 < m" using m by (rule older_state_pos)
  have have_rows: "(case appended k s of None \<Rightarrow> [] | Some a \<Rightarrow> pg_rows a) = drop PAGE_SIZE (take (m * PAGE_SIZE) ?H)"
    using m by (auto simp: older_state_def older_upto_def split: option.splits)
  have long: "PAGE_SIZE \<le> m * PAGE_SIZE" using pos by simp
  have split: "take (Suc m * PAGE_SIZE) ?H = take (m * PAGE_SIZE) ?H @ take PAGE_SIZE (drop (m * PAGE_SIZE) ?H)"
    by (metis take_add mult_Suc add.commute)
  have "drop PAGE_SIZE (take (Suc m * PAGE_SIZE) ?H)
      = drop PAGE_SIZE (take (m * PAGE_SIZE) ?H) @ take PAGE_SIZE (drop (m * PAGE_SIZE) ?H)"
    unfolding split using long l by (simp add: drop_append min_def)
  moreover note served_older[OF X p w pos l c]
  ultimately show ?thesis by (simp add: older_upto_def older_appended_def have_rows page_at_def)
qed

lemma trail_step_ok:
  assumes X: "number_reads_decimals X" and w: "\<forall>f. pages_whole (history X rows (trail_params X org f))"
    and ok: "trail_ok X org rows s" and st: "trail_step X org rows e s = Some s'"
    and calm: "e = SyncReturned \<longrightarrow> tr_loading s = None"
  shows "trail_ok X org rows s'"
proof (cases e)
  case OlderRequested
  let ?key = "trail_params X org (tr_filters s)"
  from st OlderRequested obtain c where more: "trail_has_more ?key s" and c: "trail_cursor ?key s = Some c"
    and s': "s' = s\<lparr>tr_loading := Some (?key, c)\<rparr>"
    by (auto simp: Let_def split: if_splits option.splits)
  from more obtain p where p: "trail_page ?key s = Some p" and hm: "pg_has_more p"
    by (auto simp: trail_has_more_def split: option.splits)
  from shown_page_at[OF X ok p refl] obtain m where m: "older_state (history X rows ?key) m (appended ?key s)"
    and at: "page_at (history X rows ?key) m p" by blast
  have "m * PAGE_SIZE < length (history X rows ?key) \<and> c = au_block (history X rows ?key ! (m * PAGE_SIZE - 1))"
    using at hm c p by (auto simp: page_at_def trail_cursor_def)
  with m ok s' show ?thesis by (auto simp: trail_ok_def)
next
  case OlderArrived
  from st OlderArrived obtain k c where l: "tr_loading s = Some (k, c)"
    and s': "s' = s\<lparr>tr_older := Some (k, older_appended k (served_page X rows (k\<lparr>aps_cursor := Some c\<rparr>)) s), tr_loading := None\<rparr>"
    by (auto split: option.splits)
  from ok l obtain f m where k: "k = trail_params X org f" and m: "older_state (history X rows k) m (appended k s)"
      "m * PAGE_SIZE < length (history X rows k)" "c = au_block (history X rows k ! (m * PAGE_SIZE - 1))"
    by (auto simp: trail_ok_def)
  have "older_upto (history X rows k) (Suc m) (older_appended k (served_page X rows (k\<lparr>aps_cursor := Some c\<rparr>)) s)"
    by (rule older_arrived_ok[OF X _ _ _ m]) (use k w in simp_all)
  then have "older_state (history X rows k) (Suc m) (Some (older_appended k (served_page X rows (k\<lparr>aps_cursor := Some c\<rparr>)) s))"
    by (simp add: older_state_def)
  with ok s' show ?thesis by (auto simp: trail_ok_def)
qed (use ok st calm in \<open>auto simp: trail_ok_def split: if_splits\<close>)

lemma trail_reach_ok:
  assumes "number_reads_decimals X" and "\<forall>f. pages_whole (history X rows (trail_params X org f))"
    and "trail_reach X org rows s"
  shows "trail_ok X org rows s"
  using assms(3)
proof induction
  case opened
  then show ?case by (simp add: trail_ok_def opened_trail_def appended_def)
next
  case stepped
  then show ?case using trail_step_ok[OF assms(1,2)] by blast
qed


subsection \<open>A run on a concrete cache\<close>

lemma history_distinct_blocks: "distinct (map au_block rows) \<Longrightarrow> distinct (map au_block (history X rows p))"
  by (auto simp: history_def newest_first_def distinct_map intro: inj_on_subset)

definition demo_trail_rows :: "audit_row list" where
  "demo_trail_rows = map (\<lambda>n. demo_audit_row [] (int n) 0) [0..<30]"

definition demo_trail :: trail where
  "demo_trail = opened_trail\<lparr>tr_first := Some (served_page demo_ext demo_trail_rows (trail_params demo_ext 1 cleared_filters))\<rparr>"

lemma demo_trail_history: "length (history demo_ext demo_trail_rows (trail_params demo_ext 1 cleared_filters)) = 30"
proof -
  have "audit_matches demo_ext (served_query (audit_entries (trail_params demo_ext 1 cleared_filters))) (demo_audit_row [] b n)" for b n
    using demo_ext_laws
    by (simp add: audit_matches_def served_query_def audit_entries_def trail_params_def cleared_filters_def ALL_FILTER_def
        wallet_filter_def wallet_input_valid_def token_filter_def text_entry_def number_entry_def demo_audit_row_def
        coerced_value_def coerced_option_def number_reads_decimals_def)
  then have "filter (audit_matches demo_ext (served_query (audit_entries (trail_params demo_ext 1 cleared_filters)))) demo_trail_rows
      = demo_trail_rows"
    by (auto simp: demo_trail_rows_def intro!: filter_True)
  then show ?thesis by (simp add: history_def demo_trail_rows_def)
qed

lemma demo_trail_reach: "trail_reach demo_ext 1 demo_trail_rows demo_trail"
  by (rule stepped[OF opened, where e = FirstArrived]) (simp_all add: demo_trail_def opened_trail_def)


subsection \<open>Where the older pages lose their place\<close>

text \<open>
  The refresh button is not disabled while older entries load. When the sync returns during the load of
  the third page, the pages loaded so far are dropped and the third page is appended to the first: the
  second is missing from the screen, and paging goes on behind it.
\<close>

lemma sync_while_loading_leaves_a_gap:
  assumes X: "number_reads_decimals X" and key: "key = trail_params X org (tr_filters s)"
    and w: "pages_whole (history X rows key)" and more: "50 < length (history X rows key)"
    and first: "tr_first s = Some (served_page X rows key)"
    and loading: "tr_loading s = Some (key, au_block (history X rows key ! 49))"
  shows "\<exists>s1 s2. trail_step X org rows SyncReturned s = Some s1 \<and> trail_step X org rows OlderArrived s1 = Some s2
    \<and> trail_shown key s2 = take 25 (history X rows key) @ take 25 (drop 50 (history X rows key))"
proof -
  let ?H = "history X rows key" and ?p = "served_page X rows (key\<lparr>aps_cursor := Some (au_block (history X rows key ! 49))\<rparr>)"
  have p: "aps_limit key = Some (int PAGE_SIZE)" "aps_cursor key = None" by (simp_all add: key)
  have "pg_rows ?p = take 25 (drop 50 ?H)"
    using served_older(1)[OF X p w, of 2 "au_block (?H ! 49)"] more by (simp add: PAGE_SIZE_def)
  moreover have "pg_rows (served_page X rows key) = take 25 ?H"
    using served_first(1)[OF X p(1)] by (simp add: PAGE_SIZE_def)
  ultimately show ?thesis
    by (simp add: first loading trail_shown_def appended_def older_appended_def)
qed

text \<open>
  The older pages are kept with their filters, not with the first page they continue. When the cache has
  grown by one entry and the reader changes the filters and changes them back, the first page is read
  again and the older pages are appended to it as they were: the entry between them is not shown.
\<close>

lemma older_pages_outlive_their_first_page:
  assumes X: "number_reads_decimals X" and key: "key = trail_params X org (tr_filters s)"
    and grown: "history X rows' key = new # history X rows key" and long: "25 \<le> length (history X rows key)"
    and older: "tr_older s = Some (key, a)" and a: "pg_rows a = drop 25 (take 50 (history X rows key))"
  shows "\<exists>s1 s2 s3. trail_step X org rows' (FiltersChanged f) s = Some s1
    \<and> trail_step X org rows' (FiltersChanged (tr_filters s)) s1 = Some s2 \<and> trail_step X org rows' FirstArrived s2 = Some s3
    \<and> trail_shown key s3 = new # take 24 (history X rows key) @ drop 25 (take 50 (history X rows key))"
proof -
  have l: "aps_limit key = Some (int PAGE_SIZE)" by (simp add: key)
  have "pg_rows (served_page X rows' key) = new # take 24 (history X rows key)"
    using served_first(1)[OF X l, of rows'] by (simp add: grown PAGE_SIZE_def)
  then show ?thesis by (simp add: key[symmetric] trail_shown_def appended_def older a)
qed

end
