(* ===== verification/ConsoleViews.thy ===== *)
theory ConsoleViews
  imports ConsoleFlows AuditTrail Portal
begin

text \<open>
  What the console shows of the answers it gets: the panel of a failed request (\<open>states.tsx\<close>), the events
  of the audit trail in words (\<open>audit/audit-events.ts\<close>, \<open>audit-row.tsx\<close>), the asset vault with its filters
  (\<open>assets/asset-vault.tsx\<close>, \<open>asset-detail.tsx\<close>, \<open>certificate-card.tsx\<close>), long values (\<open>copy-field.tsx\<close>),
  the rail of a transaction (\<open>tx/transaction-rail.tsx\<close>) and the settings a partner copies
  (\<open>applications/integration-details.tsx\<close>).
\<close>

subsection \<open>Failed requests\<close>

definition technical_detail :: "thrown \<Rightarrow> string option" where
  "technical_detail e =
    (if th_status e \<noteq> None then None else if th_error e \<and> truthy (th_message e) then th_message e else None)"

datatype error_panel =
    RevokedPanel
  | NoOrganisationPanel
  | DeniedPanel string string
  | SessionEndedPanel
  | ServicePanel "string option"
  | RefusedPanel string

definition api_error_panel :: "string \<Rightarrow> thrown \<Rightarrow> error_panel" where
  "api_error_panel permission e =
    (case th_status e of
       None \<Rightarrow> ServicePanel (technical_detail e)
     | Some st \<Rightarrow>
         let message = nullish (th_message e) [] in
         if st = 403
         then (if text_includes ''revoked'' (to_lower message) then RevokedPanel
               else if text_includes ''not a member'' (to_lower message) then NoOrganisationPanel
               else DeniedPanel permission message)
         else if st = 401 then SessionEndedPanel
         else if st \<ge> 500 then ServicePanel None
         else RefusedPanel message)"

subsection \<open>Events in words\<close>

definition AUDIT_EVENTS :: "(string \<times> string \<times> string) list" where
  "AUDIT_EVENTS =
    [(''IdentityRegistered'', ''IdentityRegistry'', ''A wallet anchored an identity record.''),
     (''IdentityHashUpdated'', ''IdentityRegistry'', ''An identity record changed, and the new anchor was written.''),
     (''IdentityRevoked'', ''IdentityRegistry'', ''An identity was switched off. Every role behind it died with it.''),
     (''IdentityReactivated'', ''IdentityRegistry'', ''A registrar brought a revoked identity back.''),
     (''RegistrarUpdated'', ''IdentityRegistry'', ''The platform owner granted or withdrew registrar rights.''),
     (''OrganizationCreated'', ''IdentityRegistry'', ''An organisation was created, and its creator became root admin.''),
     (''OrganizationMetadataUpdated'', ''IdentityRegistry'', ''The organisation's off-chain record changed, and its anchor with it.''),
     (''OrganizationStatusChanged'', ''IdentityRegistry'', ''An organisation was suspended or reinstated, freezing or thawing every permission inside it.''),
     (''OrgRootAdminTransferred'', ''IdentityRegistry'', ''Root administration of the organisation moved to another wallet.''),
     (''MemberAdded'', ''OrgAccessManager'', ''A wallet was added to the organisation with a role.''),
     (''MemberRemoved'', ''OrgAccessManager'', ''A wallet was removed from the organisation.''),
     (''RoleAssigned'', ''OrgAccessManager'', ''A member's role changed. Nobody can do this to themselves.''),
     (''RoleExpiryUpdated'', ''OrgAccessManager'', ''A time-bound role had its deadline moved.''),
     (''PermissionUpdated'', ''OrgAccessManager'', ''A permission was allowed, denied, or returned to the default for a role.''),
     (''ApplicationRegistered'', ''OrgAccessManager'', ''An application was registered for single sign-on.''),
     (''AppAccessChanged'', ''OrgAccessManager'', ''A role gained or lost access to an application.''),
     (''AssetMinted'', ''AssetNFT'', ''A certificate was minted and assigned to a holder.''),
     (''AssetAssigned'', ''AssetNFT'', ''Custody moved to another holder, under organisation control.''),
     (''AssetRevoked'', ''AssetNFT'', ''A certificate was withdrawn; custody returned to the root admin.''),
     (''AssetRestored'', ''AssetNFT'', ''A revoked certificate was reissued to a holder.''),
     (''AssetMetadataUpdated'', ''AssetNFT'', ''The certificate's record changed, and its anchor was rewritten.'')]"

definition describe_event :: "string \<Rightarrow> string" where
  "describe_event name = (case map_of AUDIT_EVENTS name of None \<Rightarrow> ''An event was recorded on the chain.'' | Some (c, says) \<Rightarrow> says)"

text \<open>The events offered in the filter.\<close>

definition event_options :: "string \<Rightarrow> string list" where
  "event_options contract = map fst (filter (\<lambda>(n, c, s). contract = ALL_FILTER \<or> c = contract) AUDIT_EVENTS)"

text \<open>\<open>replace(/([a-z0-9])([A-Z])/g, "$1 $2")\<close>\<close>

fun spaced :: "string \<Rightarrow> string" where
  "spaced (b # c # cs) = (if (is_lower b \<or> is_digit b) \<and> is_upper c then b # CHR '' '' # spaced (c # cs) else b # spaced (c # cs))"
| "spaced cs = cs"

definition humanise_event :: "string \<Rightarrow> string" where
  "humanise_event name = (case spaced name of [] \<Rightarrow> [] | c # cs \<Rightarrow> upper_char c # to_lower cs)"

definition humanise_key :: "string \<Rightarrow> string" where
  "humanise_key key = (case spaced key of [] \<Rightarrow> [] | c # cs \<Rightarrow> upper_char c # cs)"

datatype severity = NeutralEvent | GrantEvent | WithdrawEvent

definition event_severity :: "string \<Rightarrow> severity" where
  "event_severity name =
    (if text_includes ''Revoked'' name \<or> text_includes ''Removed'' name then WithdrawEvent
     else if list_ex (\<lambda>w. text_includes w name)
       [''Registered'', ''Added'', ''Minted'', ''Created'', ''Restored'', ''Reactivated'', ''Assigned''] then GrantEvent
     else NeutralEvent)"

text \<open>The arguments of an event that are worth a line: not empty, not named elsewhere in the row.\<close>

definition payload_shown :: "string \<times> json \<Rightarrow> bool" where
  "payload_shown entry =
    (case entry of (key, v) \<Rightarrow>
       v \<noteq> JNull \<and> v \<noteq> JStr [] \<and> to_lower key \<notin> {''by'', ''wallet'', ''orgid'', ''tokenid''}
       \<and> (case v of JStr s \<Rightarrow> \<not> is_address s | _ \<Rightarrow> True))"

text \<open>\<open>Number(v)\<close> and \<open>String(v)\<close> of a number, a text or a truth value; \<open>locale\<close> prints a date.\<close>

definition number_of_value :: "ext \<Rightarrow> json \<Rightarrow> int option" where
  "number_of_value X v = (case v of JNum i \<Rightarrow> Some i | JStr s \<Rightarrow> x_number X s | JBool b \<Rightarrow> Some (if b then 1 else 0) | _ \<Rightarrow> None)"

definition text_of_value :: "json \<Rightarrow> string" where
  "text_of_value v =
    (case v of JNum i \<Rightarrow> show_int i | JStr s \<Rightarrow> s | JBool b \<Rightarrow> (if b then ''true'' else ''false'') | _ \<Rightarrow> ''[object Object]'')"

definition shortened :: "nat \<Rightarrow> nat \<Rightarrow> nat \<Rightarrow> string \<Rightarrow> string" where
  "shortened limit head tail s = (if length s > limit then take head s @ [ellipsis] @ drop (length s - tail) s else s)"

definition format_value :: "ext \<Rightarrow> (int \<Rightarrow> string) \<Rightarrow> string \<Rightarrow> json \<Rightarrow> string" where
  "format_value X locale key v =
    (let n = number_of_value X v; k = to_lower key;
         plain = shortened 42 20 12 (text_of_value v) in
     if text_includes ''expir'' k \<and> n \<noteq> None then (if n = Some 0 then ''never'' else locale (the n * 1000))
     else if k \<in> {''at'', ''timestamp'', ''joinedat'', ''createdat'', ''mintedat''} \<and> n \<noteq> None \<and> the n > 0 then locale (the n * 1000)
     else plain)"

subsection \<open>Long values and links\<close>

definition mono_shown :: "nat \<Rightarrow> nat \<Rightarrow> string \<Rightarrow> string" where
  "mono_shown head tail v = shortened (head + tail + 3) head tail v"

definition explorer_tx_url :: "chain_config \<Rightarrow> string \<Rightarrow> string option" where
  "explorer_tx_url cfg hash =
    (if truthy (cc_explorer cfg) then Some (strip_slash (nullish (cc_explorer cfg) []) @ ''/tx/'' @ hash) else None)"

definition explorer_address_url :: "chain_config \<Rightarrow> string \<Rightarrow> string option" where
  "explorer_address_url cfg address =
    (if truthy (cc_explorer cfg) then Some (strip_slash (nullish (cc_explorer cfg) []) @ ''/address/'' @ address) else None)"

subsection \<open>The vault\<close>

record vault_asset =
  va_token :: int
  va_type :: string
  va_department :: "string option"
  va_active :: bool
  va_intact :: "bool option"
  va_assigned_to :: string
  va_owner :: string
  va_has_record :: bool

datatype status_filter = AnyStatus | ActiveOnly | RevokedOnly | TamperedOnly

record vault_filters =
  vf_type :: string
  vf_department :: string
  vf_status :: status_filter

definition cleared_vault :: vault_filters where
  "cleared_vault = \<lparr>vf_type = ALL_FILTER, vf_department = ALL_FILTER, vf_status = AnyStatus\<rparr>"

definition only_tampered :: vault_filters where
  "only_tampered = cleared_vault\<lparr>vf_status := TamperedOnly\<rparr>"

definition vault_keeps :: "vault_filters \<Rightarrow> vault_asset \<Rightarrow> bool" where
  "vault_keeps f a =
    (if vf_type f \<noteq> ALL_FILTER \<and> va_type a \<noteq> vf_type f then False
     else if vf_department f \<noteq> ALL_FILTER \<and> nullish (va_department a) [] \<noteq> vf_department f then False
     else if vf_status f = ActiveOnly \<and> \<not> va_active a then False
     else if vf_status f = RevokedOnly \<and> va_active a then False
     else if vf_status f = TamperedOnly \<and> va_intact a \<noteq> Some False then False
     else True)"

definition vault_shown :: "vault_filters \<Rightarrow> vault_asset list \<Rightarrow> vault_asset list" where
  "vault_shown f as = filter (vault_keeps f) as"

definition tampered_count :: "vault_asset list \<Rightarrow> nat" where
  "tampered_count as = length (filter (\<lambda>a. va_intact a = Some False) as)"

definition vault_filtered :: "vault_filters \<Rightarrow> bool" where
  "vault_filtered f \<longleftrightarrow> vf_type f \<noteq> ALL_FILTER \<or> vf_department f \<noteq> ALL_FILTER \<or> vf_status f \<noteq> AnyStatus"

text \<open>\<open>uniqueValues\<close>: a set's values, sorted by code units.\<close>

fun insert_text :: "string \<Rightarrow> string list \<Rightarrow> string list" where
  "insert_text s [] = [s]"
| "insert_text s (t # ts) = (if s = t then t # ts else if text_less s t then s # t # ts else t # insert_text s ts)"

definition unique_values :: "string option list \<Rightarrow> string list" where
  "unique_values vs = fold insert_text (List.map_filter (\<lambda>v. if truthy v then v else None) vs) []"

definition serial_masked :: "role_name \<Rightarrow> bool" where
  "serial_masked role \<longleftrightarrow> role \<noteq> ADMIN \<and> role \<noteq> MANAGER"

text \<open>A photograph is fetched only from a public bucket: the vault takes any, the detail the one of assets.\<close>

definition text_ends :: "string \<Rightarrow> string \<Rightarrow> bool" where
  "text_ends ending s = starts_with (rev ending) (rev s)"

definition public_object :: "string \<Rightarrow> url_parser \<Rightarrow> string option \<Rightarrow> bool" where
  "public_object folder parse src =
    (if \<not> truthy src then False
     else case parse (nullish src []) of
       None \<Rightarrow> False
     | Some u \<Rightarrow> u_protocol u = ''https:'' \<and> text_ends ''.supabase.co'' (u_hostname u) \<and> starts_with folder (u_pathname u))"

definition displayable_in_vault :: "url_parser \<Rightarrow> string option \<Rightarrow> bool" where
  "displayable_in_vault = public_object ''/storage/v1/object/public/''"

definition displayable_in_detail :: "url_parser \<Rightarrow> string option \<Rightarrow> bool" where
  "displayable_in_detail = public_object ''/storage/v1/object/public/asset-images/''"

definition integrity_badge :: "vault_asset \<Rightarrow> string" where
  "integrity_badge a = (case va_intact a of None \<Rightarrow> ''unknown'' | Some True \<Rightarrow> ''verified'' | Some False \<Rightarrow> ''tampered'')"

definition record_line :: "vault_asset \<Rightarrow> string" where
  "record_line a =
    (if va_has_record a
     then (if va_intact a = Some True then ''Present, and it re-hashes to the anchor'' else ''Present, but it no longer re-hashes to the anchor'')
     else ''None. This token was minted without a record in the store.'')"

definition custody_differs :: "vault_asset \<Rightarrow> bool" where
  "custody_differs a \<longleftrightarrow> to_lower (va_owner a) \<noteq> to_lower (va_assigned_to a)"

definition detail_asset :: "int \<Rightarrow> vault_asset list \<Rightarrow> vault_asset option" where
  "detail_asset token as = find (\<lambda>a. va_token a = token) as"

text \<open>The overview of a plain user lists what the wallet holds; the other roles get the administrative one.\<close>

definition administrative :: "role_name \<Rightarrow> bool" where
  "administrative role \<longleftrightarrow> role = ADMIN \<or> role = MANAGER \<or> role = AUDITOR"

definition assets_of_wallet :: "string \<Rightarrow> vault_asset list \<Rightarrow> vault_asset list" where
  "assets_of_wallet wallet as = filter (\<lambda>a. to_lower (va_assigned_to a) = to_lower wallet) as"

subsection \<open>The rail of a transaction\<close>

definition RAIL_STAGES :: "(tx_stage \<times> string) list" where
  "RAIL_STAGES = [(TX_prepare, ''Preparing the record''), (TX_sign, ''Sign in your wallet''),
     (TX_mine, ''Waiting for the block''), (TX_record, ''Recording the result'')]"

datatype rail_mark = RailPast | RailCurrent | RailAhead

definition rail_mark :: "tx_stage \<Rightarrow> nat \<Rightarrow> rail_mark" where
  "rail_mark st i =
    (let active = map_of (zip (map fst RAIL_STAGES) [0..<length RAIL_STAGES]) st in
     if st = TX_done \<or> (case active of None \<Rightarrow> False | Some k \<Rightarrow> i < k) then RailPast
     else if active = Some i then RailCurrent else RailAhead)"

definition rail_title :: "tx_stage \<Rightarrow> string" where
  "rail_title st = (if st = TX_done then ''Done'' else if st = TX_error then ''Stopped'' else ''In progress'')"

definition transaction_rail :: "tx_stage \<Rightarrow> (string \<times> (string \<times> rail_mark) list) option" where
  "transaction_rail st =
    (if st = TX_idle then None
     else Some (rail_title st, map (\<lambda>(i, s, l). (l, rail_mark st i)) (enumerate 0 RAIL_STAGES)))"

text \<open>A refusal with the contract's name for it; a dismissal is stated quietly instead.\<close>

definition transaction_failure :: "decoded_failure option \<Rightarrow> (string option \<times> string) option" where
  "transaction_failure f =
    (case f of None \<Rightarrow> None | Some d \<Rightarrow> if df_rejected d then None else Some (df_error_name d, df_message d))"

definition transaction_dismissed :: "decoded_failure option \<Rightarrow> string option" where
  "transaction_dismissed f = (case f of None \<Rightarrow> None | Some d \<Rightarrow> if df_rejected d then Some (df_message d) else None)"

subsection \<open>The settings a partner copies\<close>

text \<open>\<open>origin_of\<close> and \<open>org_of\<close> are \<open>new URL(u).origin\<close> and \<open>new URL(u).searchParams.get("orgId")\<close>.\<close>

definition copied_settings ::
  "(string \<Rightarrow> string) \<Rightarrow> (string \<Rightarrow> string option) \<Rightarrow> integration_endpoints \<Rightarrow> string \<Rightarrow> string option \<Rightarrow> string list
   \<Rightarrow> (string \<times> string) list" where
  "copied_settings origin_of org_of e client_id secret urls =
    (let var = (\<lambda>k. nullish (map_of (ie_env_vars e) k) ''undefined'') in
     [(var ''origin'', origin_of (ie_exchange_url e)), (var ''clientId'', client_id),
      (var ''clientSecret'', nullish secret ''<the secret you saved>''),
      (var ''orgId'', nullish (org_of (ie_verify_url e)) []),
      (var ''redirectUri'', case urls of [] \<Rightarrow> ''<your exact callback URL>'' | c # cs \<Rightarrow> c)])"

definition env_block :: "(string \<times> string) list \<Rightarrow> string" where
  "env_block settings = join_with [newline] (map (\<lambda>(k, v). k @ ''='' @ v) settings)"

text \<open>The secret is shown as dots until it is revealed.\<close>

definition secret_shown :: "bool \<Rightarrow> string \<Rightarrow> string" where
  "secret_shown revealed secret = (if revealed then secret else replicate (min (length secret) 44) (CHR 0x95))"

end
