(* ===== verification/ViewProps.thy ===== *)
theory ViewProps
  imports ConsoleViews
begin

text \<open>
  What the views of the console show, against the parts of the platform they follow: the events the indexer
  keeps, the refusals of the guards, the flags of the asset list and the configuration of a partner.
\<close>

subsection \<open>Events\<close>

text \<open>The list of events in words is in step with the indexer's.\<close>

lemma audit_events_are_the_tracked: "map fst AUDIT_EVENTS = TRACKED"
  by (simp add: AUDIT_EVENTS_def TRACKED_def)

lemma tracked_event_is_described:
  assumes "is_tracked l"
  shows "\<exists>n c says. lg_event l = Some n \<and> (n, c, says) \<in> set AUDIT_EVENTS"
proof -
  obtain n where n: "lg_event l = Some n" "n \<in> set (map fst AUDIT_EVENTS)"
    using assms by (auto simp: is_tracked_def audit_events_are_the_tracked split: option.splits)
  then obtain c says where "(n, c, says) \<in> set AUDIT_EVENTS" by (metis imageE list.set_map prod.collapse)
  with n show ?thesis by blast
qed

lemma offered_events_are_tracked: "set (event_options c) \<subseteq> set TRACKED"
  unfolding audit_events_are_the_tracked[symmetric] by (auto simp: event_options_def)

subsection \<open>Refusals\<close>

text \<open>The refusals of the four guards get the panel that explains them.\<close>

lemma guard_refusals_get_their_panel:
  "api_error_panel p (api_request_error 401 c (nullish (exn_message unauthorized) [])) = SessionEndedPanel"
  "api_error_panel p (api_request_error 403 c ''This identity has been revoked'') = RevokedPanel"
  "api_error_panel p (api_request_error 403 c ''You are not a member of this organization'') = NoOrganisationPanel"
  "\<forall>entry \<in> set (PERMISSION_LIST X). api_error_panel p (api_request_error 403 c (''Your role cannot '' @ to_lower (pe_label entry)))
     = DeniedPanel p (''Your role cannot '' @ to_lower (pe_label entry))"
proof -
  show "api_error_panel p (api_request_error 401 c (nullish (exn_message unauthorized) [])) = SessionEndedPanel"
    by (simp add: api_error_panel_def api_request_error_def plain_error_def)
  have a: "text_includes ''revoked'' (to_lower ''This identity has been revoked'')"
    "\<not> text_includes ''revoked'' (to_lower ''You are not a member of this organization'')"
    "text_includes ''not a member'' (to_lower ''You are not a member of this organization'')" by code_simp+
  then show "api_error_panel p (api_request_error 403 c ''This identity has been revoked'') = RevokedPanel"
    "api_error_panel p (api_request_error 403 c ''You are not a member of this organization'') = NoOrganisationPanel"
    by (simp_all add: api_error_panel_def api_request_error_def plain_error_def)
  have b: "list_all (\<lambda>l. \<not> text_includes ''revoked'' (to_lower (''Your role cannot '' @ to_lower l))
      \<and> \<not> text_includes ''not a member'' (to_lower (''Your role cannot '' @ to_lower l)))
    [''Manage members'', ''Assign roles'', ''Mint assets'', ''Transfer assets'', ''View audit'', ''Manage applications'']"
    by code_simp
  have l: "map pe_label (PERMISSION_LIST X)
      = [''Manage members'', ''Assign roles'', ''Mint assets'', ''Transfer assets'', ''View audit'', ''Manage applications'']"
    by (simp add: PERMISSION_LIST_def)
  have "\<forall>entry \<in> set (PERMISSION_LIST X). \<not> text_includes ''revoked'' (to_lower (''Your role cannot '' @ to_lower (pe_label entry)))
      \<and> \<not> text_includes ''not a member'' (to_lower (''Your role cannot '' @ to_lower (pe_label entry)))"
    using b unfolding l[symmetric] by (auto simp: list_all_iff)
  then show "\<forall>entry \<in> set (PERMISSION_LIST X). api_error_panel p (api_request_error 403 c (''Your role cannot '' @ to_lower (pe_label entry)))
     = DeniedPanel p (''Your role cannot '' @ to_lower (pe_label entry))"
    by (simp add: api_error_panel_def api_request_error_def plain_error_def)
qed

subsection \<open>The vault\<close>

lemma only_tampered_shows_the_count: "length (vault_shown only_tampered as) = tampered_count as"
proof -
  have "vault_keeps only_tampered = (\<lambda>a. va_intact a = Some False)"
    by (simp add: vault_keeps_def only_tampered_def cleared_vault_def ALL_FILTER_def fun_eq_iff)
  then show ?thesis by (simp add: vault_shown_def tampered_count_def)
qed

lemma cleared_vault_shows_all: "vault_shown cleared_vault as = as"
  by (auto simp: vault_shown_def vault_keeps_def cleared_vault_def ALL_FILTER_def)

text \<open>The detail shows photographs of the asset bucket only, the vault those of every public bucket.\<close>

lemma starts_with_append: "starts_with (a @ b) s \<Longrightarrow> starts_with a s"
  unfolding starts_with_def by (metis append.assoc prefix_def)

lemma displayed_detail_is_displayed_in_vault: "displayable_in_detail parse src \<Longrightarrow> displayable_in_vault parse src"
  using starts_with_append[of "''/storage/v1/object/public/''" "''asset-images/''"]
  by (auto simp: displayable_in_detail_def displayable_in_vault_def public_object_def split: if_splits option.splits)

lemma vault_trusts_other_buckets:
  "\<exists>parse. displayable_in_vault parse (Some ''u'') \<and> \<not> displayable_in_detail parse (Some ''u'')"
  by (rule exI[of _ "\<lambda>s. Some \<lparr>u_protocol = ''https:'', u_username = [], u_password = [], u_hostname = ''x.supabase.co'', u_port = [],
        u_pathname = ''/storage/v1/object/public/other/a.png'', u_search = [], u_hash = []\<rparr>"])
     code_simp

subsection \<open>Copied settings\<close>

lemma digits_value_foldl:
  "digits_value acc s = Some n \<Longrightarrow> list_all is_digit s \<and> foldl (\<lambda>a c. a * 10 + (int (code_unit c) - 48)) (int acc) s = int n"
proof (induction s arbitrary: acc)
  case (Cons c cs)
  then have d: "is_digit c" and v: "digits_value (acc * 10 + (code_unit c - 48)) cs = Some n" by (auto split: if_splits)
  have e: "int acc * 10 + (int (code_unit c) - 48) = int (acc * 10 + (code_unit c - 48))"
    using d by (simp add: is_digit_def of_nat_diff)
  show ?case using Cons.IH[OF v] d by (simp only: foldl_Cons e list.pred_inject(2) simp_thms)
qed simp

lemma parse_int_show_int:
  assumes "0 < i"
  shows "parse_int (show_int i) = Some i"
proof -
  have s: "show_int i = show_nat (nat i)" using assms by (simp add: show_int_def)
  have d: "list_all is_digit (show_nat (nat i))" "foldl (\<lambda>a c. a * 10 + (int (code_unit c) - 48)) 0 (show_nat (nat i)) = i"
    using digits_value_foldl[OF digits_value_show_nat[of "nat i"]] assms by simp_all
  have t: "takeWhile is_digit (show_nat (nat i)) = show_nat (nat i)" using d(1) by (simp add: takeWhile_eq_all_conv list_all_iff)
  have p: "digits_prefix (show_nat (nat i)) = Some i"
    using d(2) by (simp add: digits_prefix_def t Let_def show_nat_not_Nil)
  obtain c cs where c: "show_nat (nat i) = c # cs" using show_nat_not_Nil[of "nat i"] by (cases "show_nat (nat i)") auto
  have "is_digit c" using d(1) by (simp add: c)
  then have "trim_start (c # cs) = c # cs" "c \<noteq> CHR ''-''" "c \<noteq> CHR ''+''"
    by (auto simp: trim_start_def is_digit_not_space is_digit_def code_unit_def)
  then show ?thesis using p by (simp add: parse_int_def s c)
qed

text \<open>
  The copied block configures the partner application for its organization, with its client and secret. It
  does not name the application: the portal falls back to its own slug, and the platform refuses the live
  verification of any other.
\<close>

lemma copied_settings_configure_the_portal:
  assumes e: "integration_endpoints X origin (Some cid) org slug uri = Inr e"
    and o: "truthy (Some (origin_of (ie_exchange_url e)))" and q: "org_of (ie_verify_url e) = Some (show_int org)" and org: "0 < org"
    and cid: "trim cid \<noteq> []" and secret: "trim secret \<noteq> []" and cb: "cb \<noteq> []"
  shows "ownex_config (map_of (copied_settings origin_of org_of e cid (Some secret) (cb # cbs))) = Inr
    \<lparr>oc_origin = strip_trailing_slashes (origin_of (ie_exchange_url e)), oc_client_id = trim cid, oc_client_secret = trim secret,
     oc_org_id = org, oc_redirect_uri = trim cb, oc_app_slug = ''employee-portal''\<rparr>"
proof -
  have v: "ie_env_vars e = INTEGRATION_ENV_VARS" using e by (auto simp: integration_endpoints_def Let_def res_iff)
  have "map_of (copied_settings origin_of org_of e cid (Some secret) (cb # cbs)) = [''OWNEX_ORIGIN'' \<mapsto> origin_of (ie_exchange_url e),
      ''OWNEX_CLIENT_ID'' \<mapsto> cid, ''OWNEX_CLIENT_SECRET'' \<mapsto> secret, ''OWNEX_ORG_ID'' \<mapsto> show_int org, ''OWNEX_REDIRECT_URI'' \<mapsto> cb]"
    by (auto simp: copied_settings_def v INTEGRATION_ENV_VARS_def q Let_def fun_eq_iff)
  then show ?thesis
    using o cid secret cb org
    by (simp add: ownex_config_def Let_def get_platform_origin_def get_redirect_uri_def get_org_id_def get_app_slug_def
        parse_int_show_int truthy_iff)
qed

end
