(* ===== verification/Spec2Isabelle.thy ===== *)
theory Spec2Isabelle
  imports LiveAccess CodeStore Credentials Applications PartnerAuth AuthorizeRoutes AuthorizeProps
    SingleUse SsoHistory Siwe SiweProps DemoWorld Hashing Privacy Indexer IndexerProps AuditRoutes
    AssetRules AssetRoutes AssetProps AssetGuarantees AssetPrivacy Integration AppRoutes AppProps AppDemo AppGuarantees Portal PortalProps
    OrgRoutes OrgProps ClientApi ClientTypes AnswerTypes TxErrors WalletLib WalletSession SignInProps Transaction BrowserProps Resource
    IdentityContract AccessContract ContractProps ContractChain ContractRefines
    RepairBindings RepairProps ConsoleForms ConsoleWrites ConsoleApps ConsoleAppProps
    ConsoleFlows FlowProps AuditTrail ConsoleViews ViewProps
begin

text \<open>
  A verification library for owneX.

  \<^bold>\<open>The program.\<close> owneX gives a person one wallet-based identity, gives organizations roles and
  permissions on a chain, and lets partner applications sign their users in against them. It has four
  parts. The contracts (\<open>contracts/\<close>) hold identities, organizations, memberships, permissions and
  the access of applications. The platform (\<open>apps/platform\<close>) is a server that keeps records off the
  chain, with their hashes anchored on it, and a console in the browser that writes to the contracts
  through the user's wallet. A partner (\<open>apps/employee-portal\<close>) redirects its users to the platform
  and gets an authorization code, which it exchanges over a back channel, and asks again whether a user
  still has access at every page. The contracts are the authority: the platform decides on what they
  answer at the moment of a request, and refuses when they do not answer.

  \<^bold>\<open>How it is modelled.\<close> TypeScript functions are functions, with \<open>exn + 'a\<close> for what may throw. A
  request handler is an \<open>io\<close> computation over the record \<open>world\<close> (\<open>World\<close>): clock, environment,
  chain snapshot, session cookie, the tables of \<open>supabase/schema.sql\<close>, and two counters, of database
  statements (any of which may fail) and of random draws. One request runs at one instant; histories of
  requests are relations over worlds. Contract calls take the message and the state and revert with an
  error or return the state; their integers are words of their width. What the repository does not
  contain is a parameter: the record \<open>ext\<close> (\<open>External\<close>: \<open>node:crypto\<close>, \<open>ethers\<close>, the URL
  parser), \<open>abi\<close> (\<open>ContractChain\<close>: the encoding of calls), the providers of \<open>WalletSession\<close> and
  the remote side of \<open>Portal\<close>. Properties that need a law of a parameter name it as a hypothesis, and
  their witnesses use \<open>demo_ext\<close>, \<open>demo_abi\<close> and the deployment of \<open>DemoWorld\<close>, where the laws
  are proved.

  \<^bold>\<open>Theories.\<close>
  \<^item> Prelude: \<open>JsText\<close> (JavaScript strings), \<open>Outcome\<close> (JSON, exceptions; rules \<open>res_iff\<close>),
    \<open>External\<close>, \<open>World\<close> (environment, tables, HTTP of \<open>lib/env.ts\<close> and \<open>lib/http.ts\<close>; rules
    \<open>io_iff\<close>, \<open>query_intro\<close>, \<open>loud_intro\<close>; the locale \<open>world_relation\<close>, which lifts what every
    statement keeps to what every handler keeps), \<open>DemoWorld\<close>.
  \<^item> Decisions: \<open>AccessDecision\<close> (\<open>lib/access-decision.ts\<close>), \<open>ChainReads\<close> (\<open>lib/chain\<close>),
    \<open>Session\<close> (\<open>lib/session.ts\<close>, \<open>lib/authz.ts\<close>), \<open>LiveAccess\<close>, \<open>Callback\<close>
    (\<open>lib/callback-allowlist.ts\<close>), \<open>Credentials\<close>, \<open>Applications\<close>, \<open>PartnerAuth\<close>.
  \<^item> Single sign-on: \<open>CodeStore\<close> (\<open>lib/authorize.ts\<close>, \<open>lib/authorize-store.ts\<close>; the locale
    \<open>code_store\<close> is the interface of the sources, with the in-memory and the Postgres store as its
    interpretations), \<open>AuthorizeRoutes\<close> (\<open>app/authorize\<close>, \<open>api/authorize\<close>, \<open>api/roles/verify\<close>,
    \<open>api/portal/assets\<close>), \<open>AuthorizeProps\<close>, \<open>SingleUse\<close> and \<open>SsoHistory\<close> (histories of
    requests), \<open>Portal\<close> and \<open>PortalProps\<close> (\<open>apps/employee-portal\<close>, alone and against the
    platform's own routes).
  \<^item> Sign-in: \<open>Siwe\<close>, \<open>SiweProps\<close> (\<open>lib/siwe.ts\<close>, \<open>api/auth\<close>).
  \<^item> Records: \<open>Hashing\<close> (\<open>lib/hash.ts\<close>), \<open>Privacy\<close> (\<open>lib/crypto.ts\<close>), \<open>AssetRules\<close>,
    \<open>AssetRoutes\<close>, \<open>AssetProps\<close>, \<open>AssetGuarantees\<close>, \<open>AssetPrivacy\<close> (\<open>api/assets\<close>,
    \<open>api/metadata\<close>), \<open>OrgRoutes\<close>, \<open>OrgProps\<close> (\<open>api/organizations\<close>, \<open>api/profile\<close>,
    \<open>api/members\<close>, \<open>api/roles/matrix\<close>), \<open>Integration\<close>, \<open>AppRoutes\<close>, \<open>AppProps\<close>, \<open>AppDemo\<close>,
    \<open>AppGuarantees\<close> (\<open>api/applications\<close>), \<open>RepairBindings\<close>, \<open>RepairProps\<close>
    (\<open>scripts/repair-asset-bindings.mjs\<close>).
  \<^item> Audit: \<open>Indexer\<close>, \<open>IndexerProps\<close> (\<open>lib/indexer.ts\<close>), \<open>AuditRoutes\<close> (\<open>api/audit\<close>),
    \<open>AuditTrail\<close> (the screen that pages through it).
  \<^item> Contracts: \<open>IdentityContract\<close>, \<open>AccessContract\<close>, \<open>ContractProps\<close>, \<open>ContractChain\<close>,
    \<open>ContractRefines\<close> (\<open>IdentityRegistry.sol\<close>, \<open>OrgAccessManager.sol\<close>, and the platform's
    decision over them).
  \<^item> Browser: \<open>ClientApi\<close>, \<open>ClientTypes\<close>, \<open>AnswerTypes\<close> (\<open>lib/api.ts\<close>), \<open>TxErrors\<close>,
    \<open>WalletLib\<close>, \<open>WalletSession\<close>, \<open>SignInProps\<close> (\<open>components/wallet\<close>), \<open>Transaction\<close>,
    \<open>BrowserProps\<close> (\<open>use-transaction.ts\<close>), \<open>Resource\<close> (\<open>use-resource.ts\<close>), \<open>ConsoleForms\<close>,
    \<open>ConsoleWrites\<close> (members and roles), \<open>ConsoleApps\<close>, \<open>ConsoleAppProps\<close> (applications),
    \<open>ConsoleFlows\<close>, \<open>FlowProps\<close> (onboarding, organizations, minting), \<open>ConsoleViews\<close>,
    \<open>ViewProps\<close> (panels, vault, audit rows, copied settings).
\<close>

text \<open>
  \<^bold>\<open>What is shown.\<close>
  \<^item> Access. The decision refuses with the first failing check and never allows on partial reads; over
    deployed contracts it reports the role the contract computes and allows what \<open>canAccessApp\<close>
    allows, except to a member whose stored membership has lapsed. Role verification and the portal's
    pages follow it.
  \<^item> Codes. A code is issued and redeemed only after every check, and no history redeems one twice.
  \<^item> Sign-in. The challenge text parses back to its fields; a session is opened only for a wallet that
    signed a stored, unexpired and unspent challenge, and the browser shows that wallet.
  \<^item> Anchors. The canonical text names the record; a draft is bound only to the token that anchors it, an
    organization only to the record its root admin anchored; the repair script leaves only bindings the
    chain agrees with.
  \<^item> Privacy. The public metadata does not depend on a confidential column; masks show only the tail; a
    profile reads back to its owner.
  \<^item> Applications. Registering again keeps credentials and a revocation; a revoked application gets
    neither a code nor an exchange.
  \<^item> Audit. The scan tiles its range; a sync caches every tracked event once; a page is the newest part
    of the matching history, and the pages of the screen are an initial part of all of it.
  \<^item> Contracts. The member list is the membership table; the root admin never loses the administration;
    a membership changes only by authority.
  \<^item> Console. A write passes its stages in order; a form that offers its button is refused only for what
    the chain alone can decide; a saved profile and a mined organization are anchored and confirmed by
    the step that follows; a component shows only its present answer; every answer has its declared type.

  \<^bold>\<open>Loops and bounds.\<close> No definition runs out of fuel. Loops over lists are structural; the scan of the
  indexer (\<open>block_windows\<close>) and of the repair script (\<open>scan_down\<close>) recurse on block ranges with a
  measure. JavaScript numbers are unbounded integers, which is exact for the identifiers, block numbers
  and times the sources hold below \<open>2 ^ 53\<close>. Contract integers keep their width, and checked
  arithmetic is a branch that reverts. Event loops of the browser (\<open>Transaction\<close>, \<open>Resource\<close>,
  \<open>AuditTrail\<close>) are step relations with their interleavings.

  \<^bold>\<open>What is not modelled.\<close> \<open>contracts/AssetNFT.sol\<close> rests on OpenZeppelin's ERC-721, which is not in
  the repository; the answers of its views are functions of the chain snapshot, and \<open>Ownable\<close> enters
  the other contracts as a stored owner. Markup, styling, animation and toasts of the components carry
  no state. Seeding, deployment, screenshot and smoke-test scripts drive the modelled parts from
  outside, and the tests repeat them. Check constraints and foreign keys of the schema, row-level
  security and the storage service are not modelled; unique keys are, in the statements that rely on
  them. A request is not interleaved with another one inside the handler; the two statements whose
  atomicity matters (redeeming a code, spending a nonce) are single conditional updates in the source.
\<close>

end
